(* ===== verification/Prelude.thy ===== *)
theory Prelude
  imports Main "HOL-Library.Word" "HOL-Library.Monad_Syntax"
begin

text \<open>
  Shared vocabulary of the development: the result type of C code that can run into undefined
  behaviour, C strings (tokenising with \<^verbatim>\<open>strsep\<close>, joining, \<^verbatim>\<open>snprintf\<close> into a bounded buffer,
  \<^verbatim>\<open>atoi\<close> and \<^verbatim>\<open>%d\<close>), and the lemmas about them that the components use.

  A C string is a \<^typ>\<open>string\<close> without the terminating NUL.  A \<^verbatim>\<open>char *\<close> that may be NULL is a
  \<^typ>\<open>string option\<close>.  A computation that the C standard leaves undefined (a write or read outside
  an object, a use of an uninitialised value, a missing argument of \<^verbatim>\<open>printf\<close>) is \<^term>\<open>None\<close> of the
  outer type \<open>'a c\<close>; a computation that is defined is \<^term>\<open>Some\<close> of its result.
\<close>

type_synonym 'a c = "'a option"

named_theorems cstr_simps "facts about splitting and joining separated strings"
named_theorems table_defs "the attribute tables of the rule sets"

section \<open>Separated strings\<close>

text \<open>
  \<open>split_on d s\<close> is the list of tokens that the loop
  \<^verbatim>\<open>while (str) { ptr = strsep(&str, delim); ... }\<close> visits: it is never empty, and empty tokens are
  kept.
\<close>

fun split_on :: "char \<Rightarrow> string \<Rightarrow> string list" where
  "split_on d [] = [[]]"
| "split_on d (c # cs) =
     (if c = d then [] # split_on d cs
      else case split_on d cs of [] \<Rightarrow> [[c]] | t # ts \<Rightarrow> (c # t) # ts)"

fun join_with :: "char \<Rightarrow> string list \<Rightarrow> string" where
  "join_with d [] = []"
| "join_with d [x] = x"
| "join_with d (x # y # ys) = x @ d # join_with d (y # ys)"

lemma split_on_not_Nil [simp]: "split_on d s \<noteq> []"
  by (induction s) (auto split: list.split)

lemma join_with_Cons: "xs \<noteq> [] \<Longrightarrow> join_with d (x # xs) = x @ d # join_with d xs"
  by (cases xs) auto

lemma join_with_Cons_hd: "join_with d ((c # x) # xs) = c # join_with d (x # xs)"
  by (cases xs) auto

lemma join_split [cstr_simps]: "join_with d (split_on d s) = s"
proof (induction s)
  case Nil
  then show ?case by simp
next
  case (Cons c s)
  obtain t ts where ts: "split_on d s = t # ts"
    by (cases "split_on d s") auto
  show ?case
    using Cons by (simp add: ts join_with_Cons join_with_Cons_hd)
qed

lemma split_on_no_sep: "d \<notin> set s \<Longrightarrow> split_on d s = [s]"
  by (induction s) auto

lemma split_on_append: "d \<notin> set x \<Longrightarrow> split_on d (x @ d # s) = x # split_on d s"
  by (induction x) auto

lemma split_join [cstr_simps]:
  assumes "xs \<noteq> []" and "\<forall>x \<in> set xs. d \<notin> set x"
  shows "split_on d (join_with d xs) = xs"
  using assms
proof (induction xs)
  case Nil
  then show ?case by simp
next
  case (Cons x xs)
  then show ?case
    by (cases xs) (auto simp: split_on_no_sep split_on_append)
qed

lemma split_on_tokens: "t \<in> set (split_on d s) \<Longrightarrow> d \<notin> set t"
proof (induction s arbitrary: t)
  case Nil
  then show ?case by simp
next
  case (Cons c s)
  obtain u us where us: "split_on d s = u # us"
    by (cases "split_on d s") auto
  show ?case
    using Cons by (auto simp: us split: if_splits)
qed

lemma split_on_subset: "t \<in> set (split_on d s) \<Longrightarrow> set t \<subseteq> set s"
proof (induction s arbitrary: t)
  case Nil
  then show ?case by simp
next
  case (Cons c s)
  obtain u us where us: "split_on d s = u # us"
    by (cases "split_on d s") auto
  show ?case
    using Cons by (fastforce simp: us split: if_splits)
qed

lemma length_split_on: "length (split_on d s) = Suc (count_list s d)"
  by (induction s) (auto split: list.split)

lemma length_split_on_token: "t \<in> set (split_on d s) \<Longrightarrow> length t \<le> length s"
proof (induction s arbitrary: t)
  case Nil
  then show ?case by simp
next
  case (Cons c s)
  obtain u us where us: "split_on d s = u # us"
    by (cases "split_on d s") auto
  show ?case
    using Cons.IH Cons.prems by (fastforce simp: us le_Suc_eq split: if_splits)
qed

lemma count_list_join:
  assumes "xs \<noteq> []" and "\<forall>x \<in> set xs. d \<notin> set x"
  shows "Suc (count_list (join_with d xs) d) = length xs"
  using assms by (simp flip: length_split_on add: split_join)

lemma join_with_snoc: "xs \<noteq> [] \<Longrightarrow> join_with d (xs @ [y]) = join_with d xs @ d # y"
  by (induction d xs rule: join_with.induct) auto

lemma set_join_with: "set (join_with d xs) \<subseteq> insert d (\<Union> (set ` set xs))"
proof (induction xs)
  case Nil
  then show ?case by simp
next
  case (Cons x xs)
  then show ?case by (cases xs) auto
qed

lemma join_with_eq_Nil: "join_with d xs = [] \<longleftrightarrow> xs = [] \<or> xs = [[]]"
proof (cases xs)
  case (Cons x ys)
  then show ?thesis by (cases ys) auto
qed simp

text \<open>
  Code that writes \<^verbatim>\<open>"%s%s", token, SEP\<close> for every token and then removes the last separator computes
  \<^const>\<open>join_with\<close>.
\<close>

definition emit_all :: "char \<Rightarrow> string list \<Rightarrow> string" where
  "emit_all d xs = concat (map (\<lambda>x. x @ [d]) xs)"

lemma emit_all_simps [simp]:
  "emit_all d [] = []" "emit_all d (x # xs) = x @ d # emit_all d xs"
  by (simp_all add: emit_all_def)

lemma emit_all_append: "emit_all d (xs @ ys) = emit_all d xs @ emit_all d ys"
  by (simp add: emit_all_def)

lemma emit_all_join: "xs \<noteq> [] \<Longrightarrow> emit_all d xs = join_with d xs @ [d]"
proof (induction xs)
  case Nil
  then show ?case by simp
next
  case (Cons x xs)
  then show ?case by (cases xs) auto
qed

lemma emit_all_eq_Nil [simp]: "emit_all d xs = [] \<longleftrightarrow> xs = []"
  by (cases xs) auto

lemma length_emit_all: "xs \<noteq> [] \<Longrightarrow> length (emit_all d xs) = Suc (length (join_with d xs))"
  by (simp add: emit_all_join)

lemma butlast_emit_all: "xs \<noteq> [] \<Longrightarrow> butlast (emit_all d xs) = join_with d xs"
  by (simp add: emit_all_join)

lemma last_emit_all: "xs \<noteq> [] \<Longrightarrow> last (emit_all d xs) = d"
  by (simp add: emit_all_join)

section \<open>Formatted output\<close>

text \<open>
  \<^verbatim>\<open>snprintf(buf, n, "%s", s)\<close> stores at most \<open>n - 1\<close> characters and returns the length of \<open>s\<close>.
\<close>

definition snprintf_store :: "nat \<Rightarrow> string \<Rightarrow> string" where
  "snprintf_store n s = take (n - 1) s"

lemma snprintf_store_fits [simp]: "length s < n \<Longrightarrow> snprintf_store n s = s"
  by (simp add: snprintf_store_def)

text \<open>
  \<^verbatim>\<open>snprintf(buf, n, s)\<close> with a string of data as its format: a \<open>%\<close> that is not written \<open>%%\<close>
  reads an argument that was never passed.
\<close>

fun printf_format :: "string \<Rightarrow> string c" where
  "printf_format [] = Some []"
| "printf_format (c # cs) =
     (if c = CHR ''%'' then
        (case cs of
           [] \<Rightarrow> None
         | e # es \<Rightarrow> if e = CHR ''%'' then map_option ((#) e) (printf_format es) else None)
      else map_option ((#) c) (printf_format cs))"

lemma printf_format_plain [simp]: "CHR ''%'' \<notin> set s \<Longrightarrow> printf_format s = Some s"
  by (induction s) auto

section \<open>Decimal numbers\<close>

definition digit_char :: "nat \<Rightarrow> char" where
  "digit_char n = char_of (48 + n)"

fun nat_to_dec :: "nat \<Rightarrow> string" where
  "nat_to_dec n = (if n < 10 then [digit_char n] else nat_to_dec (n div 10) @ [digit_char (n mod 10)])"

declare nat_to_dec.simps [simp del]

text \<open>The conversion \<^verbatim>\<open>%d\<close>.\<close>

definition int_to_dec :: "int \<Rightarrow> string" where
  "int_to_dec i = (if i < 0 then CHR ''-'' # nat_to_dec (nat (- i)) else nat_to_dec (nat i))"

definition is_digit :: "char \<Rightarrow> bool" where
  "is_digit c = (48 \<le> (of_char c :: nat) \<and> (of_char c :: nat) \<le> 57)"

definition is_space :: "char \<Rightarrow> bool" where
  "is_space c = (let n = (of_char c :: nat) in n = 32 \<or> (9 \<le> n \<and> n \<le> 13))"

fun dec_value :: "nat \<Rightarrow> string \<Rightarrow> nat" where
  "dec_value acc [] = acc"
| "dec_value acc (c # cs) =
     (if is_digit c then dec_value (10 * acc + (of_char c - 48)) cs else acc)"

definition clamp_int :: "int \<Rightarrow> int" where
  "clamp_int i = max (- 2147483648) (min 2147483647 i)"

text \<open>
  \<^verbatim>\<open>atoi\<close>: leading white space, an optional sign, decimal digits.  The C library of the target has a
  32-bit \<^verbatim>\<open>long\<close> and computes \<^verbatim>\<open>atoi\<close> by \<^verbatim>\<open>strtol\<close>, which saturates.
\<close>

definition atoi :: "string \<Rightarrow> int" where
  "atoi s =
     (let t = dropWhile is_space s in
      clamp_int
        (case t of
           [] \<Rightarrow> 0
         | c # cs \<Rightarrow>
             if c = CHR ''-'' then - int (dec_value 0 cs)
             else if c = CHR ''+'' then int (dec_value 0 cs)
             else int (dec_value 0 t)))"

lemma of_char_digit_char: "n < 10 \<Longrightarrow> (of_char (digit_char n) :: nat) = 48 + n"
  by (simp add: digit_char_def)

lemma is_digit_digit_char [simp]: "n < 10 \<Longrightarrow> is_digit (digit_char n)"
  by (simp add: is_digit_def of_char_digit_char)

lemma dec_value_digits:
  assumes "\<forall>c \<in> set s. is_digit c"
  shows "dec_value acc (s @ t) = dec_value (dec_value acc s) t"
  using assms by (induction s arbitrary: acc) auto

lemma nat_to_dec_digits: "\<forall>c \<in> set (nat_to_dec n). is_digit c"
proof (induction n rule: nat_to_dec.induct)
  case (1 n)
  then show ?case by (subst nat_to_dec.simps) auto
qed

lemma nat_to_dec_not_Nil [simp]: "nat_to_dec n \<noteq> []"
  by (subst nat_to_dec.simps) simp

lemma dec_value_nat_to_dec: "dec_value 0 (nat_to_dec n) = n"
proof (induction n rule: nat_to_dec.induct)
  case (1 n)
  show ?case
  proof (cases "n < 10")
    case True
    then show ?thesis by (subst nat_to_dec.simps) (simp add: of_char_digit_char)
  next
    case False
    with 1 have "dec_value 0 (nat_to_dec (n div 10)) = n div 10" by simp
    with False show ?thesis
      by (subst nat_to_dec.simps)
        (simp add: dec_value_digits nat_to_dec_digits of_char_digit_char)
  qed
qed

lemma is_digit_not_space: "is_digit c \<Longrightarrow> \<not> is_space c"
  by (auto simp: is_digit_def is_space_def Let_def)

lemma is_digit_not_sign: "is_digit c \<Longrightarrow> c \<noteq> CHR ''-'' \<and> c \<noteq> CHR ''+''"
  by (auto simp: is_digit_def)

lemma atoi_nat_to_dec: "atoi (nat_to_dec n) = clamp_int (int n)"
proof -
  obtain c cs where n: "nat_to_dec n = c # cs"
    by (cases "nat_to_dec n") auto
  then have "is_digit c"
    using nat_to_dec_digits [of n] by auto
  then show ?thesis
    using dec_value_nat_to_dec [of n]
    by (simp add: atoi_def n is_digit_not_space is_digit_not_sign)
qed

lemma atoi_int_to_dec:
  assumes "- 2147483648 \<le> i" and "i \<le> 2147483647"
  shows "atoi (int_to_dec i) = i"
proof (cases "i < 0")
  case True
  then show ?thesis
    using assms
    by (simp add: int_to_dec_def atoi_def is_space_def clamp_int_def dec_value_nat_to_dec)
next
  case False
  then show ?thesis
    using assms by (simp add: int_to_dec_def atoi_nat_to_dec clamp_int_def)
qed

section \<open>Loops and buffers\<close>

text \<open>A \<^verbatim>\<open>for\<close> loop over the elements of an array whose body may run into undefined behaviour.\<close>

fun fold_c :: "('a \<Rightarrow> 's \<Rightarrow> 's c) \<Rightarrow> 'a list \<Rightarrow> 's \<Rightarrow> 's c" where
  "fold_c f [] s = Some s"
| "fold_c f (x # xs) s = do { s' \<leftarrow> f x s; fold_c f xs s' }"

lemma fold_c_append: "fold_c f (xs @ ys) s = do { s' \<leftarrow> fold_c f xs s; fold_c f ys s' }"
  by (induction xs arbitrary: s) (auto split: bind_splits)

text \<open>An invariant of the body is an invariant of the loop.\<close>

lemma fold_c_invariant:
  assumes "fold_c f xs s = Some s'" and "P s"
    and "\<And>x t t'. x \<in> set xs \<Longrightarrow> P t \<Longrightarrow> f x t = Some t' \<Longrightarrow> P t'"
  shows "P s'"
  using assms
proof (induction xs arbitrary: s)
  case Nil
  then show ?case by simp
next
  case (Cons x xs)
  then obtain t where t: "f x s = Some t" "fold_c f xs t = Some s'"
    by (auto split: bind_splits)
  then have "P t"
    using Cons.prems(2,3) list.set_intros(1) by metis
  with t show ?case
    using Cons.IH Cons.prems(3) list.set_intros(2) by metis
qed

lemma fold_c_defined:
  assumes "P s" and "\<And>x t. x \<in> set xs \<Longrightarrow> P t \<Longrightarrow> \<exists>t'. f x t = Some t' \<and> P t'"
  shows "\<exists>s'. fold_c f xs s = Some s' \<and> P s'"
  using assms
proof (induction xs arbitrary: s)
  case Nil
  then show ?case by simp
next
  case (Cons x xs)
  then obtain t where "f x s = Some t" "P t"
    by (metis list.set_intros(1))
  with Cons show ?case by simp
qed

text \<open>
  \<open>snprintf_at cap buf pos bytes s\<close> is \<^verbatim>\<open>snprintf(a + pos, size, "%s", s)\<close> on an array \<^verbatim>\<open>a\<close> of \<open>cap\<close> bytes
  that holds the string \<open>buf\<close>.  The size is an \<^verbatim>\<open>int\<close> of the code: a negative one becomes a huge
  \<^verbatim>\<open>size_t\<close> and bounds nothing.  A write past the array is undefined.  The result is the string that
  the array holds afterwards.
\<close>

definition snprintf_at :: "nat \<Rightarrow> string \<Rightarrow> nat \<Rightarrow> int \<Rightarrow> string \<Rightarrow> string c" where
  "snprintf_at cap buf pos bytes s =
     (let stored = (if bytes < 0 then s else take (nat bytes - 1) s) in
      if bytes = 0 then Some buf
      else if cap < pos + length stored + 1 then None
      else Some (if pos \<le> length buf then take pos buf @ stored else buf))"

lemma snprintf_at_fits:
  assumes "pos = length buf" and "int pos + int (length s) < int cap"
    and "bytes = int cap - int pos"
  shows "snprintf_at cap buf pos bytes s = Some (buf @ s)"
  using assms by (simp add: snprintf_at_def Let_def)

section \<open>Lines and comparisons\<close>

text \<open>\<^verbatim>\<open>fgets(buf, n, fp)\<close>: a line with its newline, cut off after \<open>n - 1\<close> characters.\<close>

definition fgets_line :: "nat \<Rightarrow> string \<Rightarrow> string" where
  "fgets_line n s =
     take (n - 1)
       (case dropWhile (\<lambda>ch. ch \<noteq> CHR 0x0A) s of
          [] \<Rightarrow> s
        | ch # _ \<Rightarrow> takeWhile (\<lambda>ch. ch \<noteq> CHR 0x0A) s @ [ch])"

text \<open>The part of an array up to its first NUL, as a string.\<close>

definition c_string :: "string \<Rightarrow> string" where
  "c_string s = takeWhile (\<lambda>ch. ch \<noteq> CHR 0x00) s"

lemma c_string_id [simp]: "CHR 0x00 \<notin> set s \<Longrightarrow> c_string s = s"
  by (auto simp: c_string_def)

lemma NUL_notin_c_string [simp]: "CHR 0x00 \<notin> set (c_string s)"
  by (metis c_string_def set_takeWhileD)

text \<open>
  \<^verbatim>\<open>strncmp\<close>: the difference of the first differing characters among the first \<open>n\<close>, where the end of a
  string counts as NUL.
\<close>

fun strncmp :: "string \<Rightarrow> string \<Rightarrow> nat \<Rightarrow> int" where
  "strncmp a b 0 = 0"
| "strncmp [] [] (Suc n) = 0"
| "strncmp (x # xs) [] (Suc n) = int (of_char x)"
| "strncmp [] (y # ys) (Suc n) = - int (of_char y)"
| "strncmp (x # xs) (y # ys) (Suc n) =
     (if x = y then strncmp xs ys n else int (of_char x) - int (of_char y))"

lemma of_char_pos: "CHR 0x00 \<noteq> x \<Longrightarrow> 0 < (of_char x :: nat)"
proof (rule ccontr)
  assume x: "CHR 0x00 \<noteq> x" and "\<not> 0 < (of_char x :: nat)"
  then have "(of_char x :: nat) = of_char (CHR 0x00)" by simp
  then show False
    using x by (simp only: of_char_eq_iff simp_thms)
qed

lemma strncmp_zero:
  assumes "CHR 0x00 \<notin> set a" and "CHR 0x00 \<notin> set b"
  shows "strncmp a b n = 0 \<longleftrightarrow> take n a = take n b"
  using assms by (induction a b n rule: strncmp.induct) (auto simp: of_char_pos)

section \<open>Lists of lists\<close>

lemma in_concat_nth: "x \<in> set (concat xss) \<longleftrightarrow> (\<exists>i < length xss. x \<in> set (xss ! i))"
  by (metis (no_types, opaque_lifting) UN_iff in_set_conv_nth set_concat)

lemma distinct_concat_nth:
  assumes "\<And>i. i < length xss \<Longrightarrow> distinct (xss ! i)"
    and "\<And>i j. i < length xss \<Longrightarrow> j < length xss \<Longrightarrow> i \<noteq> j \<Longrightarrow> set (xss ! i) \<inter> set (xss ! j) = {}"
  shows "distinct (concat xss)"
  using assms
proof (induction xss)
  case Nil
  then show ?case by simp
next
  case (Cons xs xss)
  have "set xs \<inter> set (xss ! j) = {}" if "j < length xss" for j
    using Cons.prems(2) [of 0 "Suc j"] that by simp
  then have "set xs \<inter> set (concat xss) = {}"
    by (fastforce simp: in_set_conv_nth)
  moreover have "distinct (concat xss)"
    using Cons.prems(1) [of "Suc _"] Cons.prems(2) [of "Suc _" "Suc _"] by (intro Cons.IH) fastforce+
  moreover have "distinct xs"
    using Cons.prems(1) [of 0] by simp
  ultimately show ?case by simp
qed

end
