(* ===== verification/Kernel_Hash.thy ===== *)
theory Kernel_Hash
  imports Prelude
begin

text \<open>
  The variable store of the driver \<^verbatim>\<open>nvram_cfg\<close>: \<^verbatim>\<open>nvram.c\<close> (a hash table of 257 chains) and the parts of
  \<^verbatim>\<open>nvram_linux.c\<close> that place the values in the buffer \<^verbatim>\<open>nvram_buf\<close>, which user space maps.  A tuple keeps
  the offset of its value in that buffer; overwritten and removed values stay there as garbage until
  the store is consolidated.
\<close>

unbundle bit_operations_syntax

definition NVRAM_SPACE :: nat where "NVRAM_SPACE = 0x8000"
definition NVRAM_HEADER_SIZE :: nat where "NVRAM_HEADER_SIZE = 20"
definition NVRAM_MAGIC :: "32 word" where "NVRAM_MAGIC = 0x48534C46"
definition NVRAM_VERSION :: "32 word" where "NVRAM_VERSION = 1"
definition NVRAM_HASH_SIZE :: nat where "NVRAM_HASH_SIZE = 257"
definition ENOMEM :: int where "ENOMEM = 12"

lemmas kernel_sizes = NVRAM_SPACE_def NVRAM_HEADER_SIZE_def NVRAM_HASH_SIZE_def

record ktuple =
  t_name :: string
  t_value :: nat

record kstate =
  nvram_hash :: "ktuple list list"
  nvram_dead :: "ktuple list"
  nvram_buf :: string
  nvram_offset :: nat

section \<open>Strings in the buffer\<close>

definition cstr_at :: "string \<Rightarrow> nat \<Rightarrow> string" where
  "cstr_at buf off = c_string (drop off buf)"

text \<open>\<^verbatim>\<open>strcpy(&nvram_buf[off], s)\<close>\<close>

definition strcpy_at :: "string \<Rightarrow> nat \<Rightarrow> string \<Rightarrow> string" where
  "strcpy_at buf off s = take off buf @ s @ [CHR 0x00] @ drop (off + length s + 1) buf"

section \<open>Operations\<close>

text \<open>The characters are signed on the target.\<close>

definition signed_char :: "char \<Rightarrow> 32 word" where
  "signed_char ch = (let n = of_char ch :: nat in if n < 128 then of_nat n else of_nat n - 256)"

definition hash :: "string \<Rightarrow> 32 word" where
  "hash s = foldl (\<lambda>h ch. 31 * h + signed_char ch) 0 s"

definition hash_index :: "string \<Rightarrow> nat" where
  "hash_index name = unat (hash name) mod NVRAM_HASH_SIZE"

definition find_tuple :: "string \<Rightarrow> ktuple list \<Rightarrow> ktuple option" where
  "find_tuple name chain = List.find (\<lambda>t. t_name t = name) chain"

text \<open>\<^verbatim>\<open>_nvram_get\<close> gives the offset of the value.\<close>

definition k_nvram_get :: "string \<Rightarrow> kstate \<Rightarrow> nat option" where
  "k_nvram_get name st = map_option t_value (find_tuple name (nvram_hash st ! hash_index name))"

text \<open>
  \<^verbatim>\<open>_nvram_realloc\<close>: the tuple with its new value, or \<^term>\<open>None\<close> when the buffer is full.  The space is
  tested before it is known whether the value changes.
\<close>

definition k_nvram_realloc :: "ktuple option \<Rightarrow> string \<Rightarrow> string \<Rightarrow> kstate \<Rightarrow> (ktuple \<times> kstate) option" where
  "k_nvram_realloc t name value st =
     (let fresh = (\<lparr>t_name = name, t_value = nvram_offset st\<rparr>,
                   st\<lparr>nvram_buf := strcpy_at (nvram_buf st) (nvram_offset st) value,
                      nvram_offset := nvram_offset st + length value + 1\<rparr>)
      in if NVRAM_SPACE < nvram_offset st + length value + 1 then None
         else case t of
                None \<Rightarrow> Some fresh
              | Some u \<Rightarrow>
                  if cstr_at (nvram_buf st) (t_value u) \<noteq> value
                  then Some (u\<lparr>t_value := nvram_offset st\<rparr>, snd fresh)
                  else Some (u, st))"

fun update_tuple :: "ktuple \<Rightarrow> ktuple list \<Rightarrow> ktuple list" where
  "update_tuple u [] = []"
| "update_tuple u (t # ts) = (if t_name t = t_name u then u # ts else t # update_tuple u ts)"

text \<open>
  \<^verbatim>\<open>_nvram_set\<close>.  \<^verbatim>\<open>_nvram_realloc\<close> returns the tuple it was given when there is one, so an existing tuple
  is always updated in its place.
\<close>

definition k_nvram_set :: "string \<Rightarrow> string \<Rightarrow> kstate \<Rightarrow> int \<times> kstate" where
  "k_nvram_set name value st =
     (let i = hash_index name; chain = nvram_hash st ! i; t = find_tuple name chain in
      case k_nvram_realloc t name value st of
        None \<Rightarrow> (- ENOMEM, st)
      | Some (u, st') \<Rightarrow>
          (0, st'\<lparr>nvram_hash := (nvram_hash st)
                    [i := (if t \<noteq> None then update_tuple u chain else u # chain)]\<rparr>))"

fun remove_tuple :: "string \<Rightarrow> ktuple list \<Rightarrow> ktuple list" where
  "remove_tuple name [] = []"
| "remove_tuple name (t # ts) = (if t_name t = name then ts else t # remove_tuple name ts)"

definition k_nvram_unset :: "string \<Rightarrow> kstate \<Rightarrow> int \<times> kstate" where
  "k_nvram_unset name st =
     (let i = hash_index name; chain = nvram_hash st ! i in
      case find_tuple name chain of
        None \<Rightarrow> (0, st)
      | Some t \<Rightarrow>
          (0, st\<lparr>nvram_hash := (nvram_hash st)[i := remove_tuple name chain],
                nvram_dead := t # nvram_dead st\<rparr>))"

definition k_nvram_free :: "kstate \<Rightarrow> kstate" where
  "k_nvram_free st = st\<lparr>nvram_hash := replicate NVRAM_HASH_SIZE [], nvram_dead := [], nvram_offset := 0\<rparr>"

text \<open>\<^verbatim>\<open>sprintf(ptr, "%s=%s", t->name, t->value) + 1\<close>\<close>

definition entry :: "string \<Rightarrow> string \<Rightarrow> string" where
  "entry n v = n @ ''='' @ v @ [CHR 0x00]"

text \<open>
  The inner loop over a chain that writes the tuples; it stops at the first tuple that does not fit,
  and the outer loop goes on with the next chain.  \<open>fits\<close> is the test of the caller on the length
  written so far and the length of the entry.
\<close>

fun write_chain :: "(nat \<Rightarrow> nat \<Rightarrow> bool) \<Rightarrow> string \<Rightarrow> ktuple list \<Rightarrow> string \<Rightarrow> string" where
  "write_chain fits buf [] acc = acc"
| "write_chain fits buf (t # ts) acc =
     (let e = entry (t_name t) (cstr_at buf (t_value t)) in
      if fits (length acc) (length e) then write_chain fits buf ts (acc @ e) else acc)"

definition write_tuples :: "(nat \<Rightarrow> nat \<Rightarrow> bool) \<Rightarrow> kstate \<Rightarrow> string" where
  "write_tuples fits st = foldl (\<lambda>acc chain. write_chain fits (nvram_buf st) chain acc) [] (nvram_hash st)"

definition zero_fill :: "nat \<Rightarrow> string \<Rightarrow> string" where
  "zero_fill n s = s @ replicate (n - length s) (CHR 0x00)"

definition k_nvram_getall :: "nat \<Rightarrow> kstate \<Rightarrow> string" where
  "k_nvram_getall count st = zero_fill count (write_tuples (\<lambda>len e. e < count - len) st)"

text \<open>
  \<^verbatim>\<open>nvram_rehash\<close> on the bytes behind the header.  The last two bytes are made NUL, so every name and
  value ends inside the buffer.
\<close>

function rehash_loop :: "string \<Rightarrow> kstate \<Rightarrow> kstate" where
  "rehash_loop bytes st =
     (let str = c_string bytes; name = takeWhile (\<lambda>ch. ch \<noteq> CHR ''='') str in
      if str = [] then st
      else if CHR ''='' \<notin> set str then st
      else rehash_loop (drop (length str + 1) bytes)
             (snd (k_nvram_set name (drop (length name + 1) str) st)))"
  by pat_completeness auto

termination
  by (relation "measure (\<lambda>(bytes, st). length bytes)")
    (auto simp: c_string_def takeWhile_eq_Nil_iff intro: diff_less)

declare rehash_loop.simps [simp del]

definition terminate_area :: "string \<Rightarrow> string" where
  "terminate_area bytes = take (length bytes - 2) bytes @ [CHR 0x00, CHR 0x00]"

definition k_nvram_rehash :: "string \<Rightarrow> kstate \<Rightarrow> kstate" where
  "k_nvram_rehash bytes st = rehash_loop (terminate_area bytes) (k_nvram_free st)"

section \<open>The variables that a state holds\<close>

definition tuple_pair :: "string \<Rightarrow> ktuple \<Rightarrow> string \<times> string" where
  "tuple_pair buf t = (t_name t, cstr_at buf (t_value t))"

definition kabs :: "kstate \<Rightarrow> string \<Rightarrow> string option" where
  "kabs st name = map_option (cstr_at (nvram_buf st)) (k_nvram_get name st)"

text \<open>
  The invariant: every tuple is in the chain of its hash, no chain has a name twice, and every value
  with its NUL lies in the part of the buffer below \<^verbatim>\<open>nvram_offset\<close>.
\<close>

definition ktuple_ok :: "string \<Rightarrow> nat \<Rightarrow> ktuple \<Rightarrow> bool" where
  "ktuple_ok buf off t \<longleftrightarrow>
     CHR ''='' \<notin> set (t_name t) \<and> CHR 0x00 \<notin> set (t_name t) \<and>
     t_value t + length (cstr_at buf (t_value t)) < off"

definition kchain_ok :: "string \<Rightarrow> nat \<Rightarrow> nat \<Rightarrow> ktuple list \<Rightarrow> bool" where
  "kchain_ok buf off i chain \<longleftrightarrow>
     distinct (map t_name chain) \<and> (\<forall>t \<in> set chain. hash_index (t_name t) = i \<and> ktuple_ok buf off t)"

definition kinv :: "kstate \<Rightarrow> bool" where
  "kinv st \<longleftrightarrow>
     length (nvram_hash st) = NVRAM_HASH_SIZE \<and> length (nvram_buf st) = NVRAM_SPACE \<and>
     nvram_offset st \<le> NVRAM_SPACE \<and>
     (\<forall>i < NVRAM_HASH_SIZE. kchain_ok (nvram_buf st) (nvram_offset st) i (nvram_hash st ! i))"

lemma hash_index_less [simp]: "hash_index n < NVRAM_HASH_SIZE"
  by (simp add: hash_index_def NVRAM_HASH_SIZE_def)

lemma kinv_chain: "kinv st \<Longrightarrow> kchain_ok (nvram_buf st) (nvram_offset st) (hash_index n) (nvram_hash st ! hash_index n)"
  by (simp add: kinv_def)

subsection \<open>Strings that keep their place\<close>

lemma c_string_split:
  "length (c_string xs) < length xs \<Longrightarrow>
   xs = c_string xs @ CHR 0x00 # drop (Suc (length (c_string xs))) xs"
  by (induction xs) (auto simp: c_string_def)

lemma c_string_append_nul [simp]: "CHR 0x00 \<notin> set s \<Longrightarrow> c_string (s @ CHR 0x00 # r) = s"
  by (induction s) (auto simp: c_string_def)

lemma c_string_prefix:
  assumes "length (c_string xs) < k" and "k \<le> length xs" and "take k ys = take k xs"
  shows "c_string ys = c_string xs"
proof -
  let ?s = "c_string xs"
  have "xs = ?s @ CHR 0x00 # drop (Suc (length ?s)) xs"
    using assms by (intro c_string_split) simp
  then have "take k xs = ?s @ CHR 0x00 # take (k - Suc (length ?s)) (drop (Suc (length ?s)) xs)"
    using assms(1) by (metis Suc_diff_Suc take_Suc_Cons take_all_iff take_append less_or_eq_imp_le)
  then have "ys = ?s @ CHR 0x00 # (take (k - Suc (length ?s)) (drop (Suc (length ?s)) xs) @ drop k ys)"
    using assms(3) by (metis append_Cons append_assoc append_take_drop_id)
  then show ?thesis
    by (metis c_string_append_nul NUL_notin_c_string)
qed

lemma cstr_at_below:
  assumes "off + length (cstr_at buf off) < k" and "k \<le> length buf" and "take k buf' = take k buf"
  shows "cstr_at buf' off = cstr_at buf off"
  unfolding cstr_at_def
proof (rule c_string_prefix)
  show "length (c_string (drop off buf)) < k - off"
    using assms(1) by (simp add: cstr_at_def)
  show "k - off \<le> length (drop off buf)"
    using assms(2) by simp
  have "k - off + off = k"
    using assms(1) by simp
  then show "take (k - off) (drop off buf') = take (k - off) (drop off buf)"
    using assms(3) by (simp add: take_drop)
qed

lemma length_strcpy_at: "off + length s < length buf \<Longrightarrow> length (strcpy_at buf off s) = length buf"
  by (simp add: strcpy_at_def)

lemma take_strcpy_at: "off \<le> length buf \<Longrightarrow> take off (strcpy_at buf off s) = take off buf"
  by (simp add: strcpy_at_def)

lemma cstr_at_strcpy_at [simp]:
  "off \<le> length buf \<Longrightarrow> CHR 0x00 \<notin> set s \<Longrightarrow> cstr_at (strcpy_at buf off s) off = s"
  by (simp add: cstr_at_def strcpy_at_def)

lemma cstr_at_strcpy_at_below:
  "a + length (cstr_at buf a) < off \<Longrightarrow> off \<le> length buf \<Longrightarrow> cstr_at (strcpy_at buf off s) a = cstr_at buf a"
  by (rule cstr_at_below [of _ _ off]) (simp_all add: take_strcpy_at)

lemma ktuple_ok_mono:
  assumes "ktuple_ok buf off t" and "off \<le> length buf" and "take off buf' = take off buf" and "off \<le> off'"
  shows "ktuple_ok buf' off' t" and "cstr_at buf' (t_value t) = cstr_at buf (t_value t)"
proof -
  show eq: "cstr_at buf' (t_value t) = cstr_at buf (t_value t)"
    using assms by (intro cstr_at_below [of _ _ off]) (auto simp: ktuple_ok_def)
  show "ktuple_ok buf' off' t"
    using assms(1,4) eq by (simp add: ktuple_ok_def)
qed

lemma kchain_ok_mono:
  assumes "kchain_ok buf off i chain" and "off \<le> length buf" and "take off buf' = take off buf" and "off \<le> off'"
  shows "kchain_ok buf' off' i chain" and "map (tuple_pair buf') chain = map (tuple_pair buf) chain"
  using assms ktuple_ok_mono [of buf off _ buf' off']
  by (auto simp: kchain_ok_def tuple_pair_def)

subsection \<open>Chains\<close>

lemma find_tuple_map_of:
  "map_option (\<lambda>t. cstr_at buf (t_value t)) (find_tuple n chain) = map_of (map (tuple_pair buf) chain) n"
  by (induction chain) (auto simp: find_tuple_def tuple_pair_def)

lemma kabs_map_of: "kabs st n = map_of (map (tuple_pair (nvram_buf st)) (nvram_hash st ! hash_index n)) n"
  by (simp add: kabs_def k_nvram_get_def option.map_comp comp_def flip: find_tuple_map_of)

lemma find_tuple_None: "find_tuple n chain = None \<longleftrightarrow> n \<notin> t_name ` set chain"
  by (auto simp: find_tuple_def find_None_iff)

lemma find_tuple_Some: "find_tuple n chain = Some t \<Longrightarrow> t \<in> set chain \<and> t_name t = n"
  by (auto simp: find_tuple_def find_Some_iff)

lemma update_tuple_names [simp]: "map t_name (update_tuple u chain) = map t_name chain"
  by (induction chain) auto

lemma update_tuple_id: "distinct (map t_name chain) \<Longrightarrow> t \<in> set chain \<Longrightarrow> update_tuple t chain = chain"
  by (induction chain) (auto simp: image_iff)

lemma set_update_tuple: "set (update_tuple u chain) \<subseteq> insert u (set chain)"
  by (induction chain) auto

lemma map_of_update_tuple:
  "t_name u \<in> t_name ` set chain \<Longrightarrow>
   map_of (map (tuple_pair buf) (update_tuple u chain)) =
     (map_of (map (tuple_pair buf) chain))(t_name u \<mapsto> cstr_at buf (t_value u))"
  by (induction chain) (auto simp: tuple_pair_def fun_eq_iff)

lemma set_remove_tuple: "set (remove_tuple n chain) \<subseteq> set chain"
  by (induction chain) auto

lemma distinct_remove_tuple: "distinct (map t_name chain) \<Longrightarrow> distinct (map t_name (remove_tuple n chain))"
  using set_remove_tuple by (induction chain) fastforce+

lemma map_of_remove_tuple:
  "distinct (map t_name chain) \<Longrightarrow>
   map_of (map (tuple_pair buf) (remove_tuple n chain)) = (map_of (map (tuple_pair buf) chain))(n := None)"
proof (induction chain)
  case Nil
  then show ?case by simp
next
  case (Cons t chain)
  have "map_of (map (\<lambda>a. (t_name a, cstr_at buf (t_value a))) chain) (t_name t) = None"
    using Cons.prems by (auto simp: map_of_eq_None_iff)
  then show ?case
    using Cons by (auto simp: tuple_pair_def fun_eq_iff)
qed

subsection \<open>Updating one chain\<close>

lemma kinv_update:
  assumes "kinv st"
    and st': "nvram_hash st' = (nvram_hash st)[i := chain']" "length (nvram_buf st') = NVRAM_SPACE"
      "take (nvram_offset st) (nvram_buf st') = take (nvram_offset st) (nvram_buf st)"
      "nvram_offset st \<le> nvram_offset st'" "nvram_offset st' \<le> NVRAM_SPACE"
    and i: "i < NVRAM_HASH_SIZE" "kchain_ok (nvram_buf st') (nvram_offset st') i chain'"
  shows "kinv st'"
    and "kabs st' n = (if hash_index n = i then map_of (map (tuple_pair (nvram_buf st')) chain') n else kabs st n)"
proof -
  have len: "length (nvram_hash st) = NVRAM_HASH_SIZE" "nvram_offset st \<le> length (nvram_buf st)"
    using assms(1) by (simp_all add: kinv_def)
  have chain: "kchain_ok (nvram_buf st') (nvram_offset st') j (nvram_hash st ! j) \<and>
      map (tuple_pair (nvram_buf st')) (nvram_hash st ! j) = map (tuple_pair (nvram_buf st)) (nvram_hash st ! j)"
    if "j < NVRAM_HASH_SIZE" for j
  proof -
    have "kchain_ok (nvram_buf st) (nvram_offset st) j (nvram_hash st ! j)"
      using assms(1) that by (simp add: kinv_def)
    from kchain_ok_mono [OF this len(2) st'(3,4)] show ?thesis ..
  qed
  show "kinv st'"
    using chain i st' len by (auto simp: kinv_def nth_list_update)
  show "kabs st' n = (if hash_index n = i then map_of (map (tuple_pair (nvram_buf st')) chain') n else kabs st n)"
    using chain [of "hash_index n"] i st' len
    by (auto simp: kabs_map_of nth_list_update simp del: map_eq_conv)
qed

section \<open>What the operations do to the variables\<close>

lemma k_nvram_set_full:
  assumes "NVRAM_SPACE < nvram_offset st + length v + 1"
  shows "k_nvram_set n v st = (- ENOMEM, st)"
  using assms by (simp add: k_nvram_set_def k_nvram_realloc_def Let_def)

lemma k_nvram_set_new:
  assumes inv: "kinv st" and n: "CHR ''='' \<notin> set n" "CHR 0x00 \<notin> set n" "CHR 0x00 \<notin> set v"
    and room: "nvram_offset st + length v + 1 \<le> NVRAM_SPACE"
    and chain: "chain = nvram_hash st ! hash_index n"
    and chain': "distinct (map t_name chain')"
      "set chain' \<subseteq> insert u (set chain)" "u = \<lparr>t_name = n, t_value = nvram_offset st\<rparr>"
      "map_of (map (tuple_pair (strcpy_at (nvram_buf st) (nvram_offset st) v)) chain') =
       (map_of (map (tuple_pair (strcpy_at (nvram_buf st) (nvram_offset st) v)) chain))(n \<mapsto> v)"
    and st': "nvram_hash st' = (nvram_hash st)[hash_index n := chain']"
      "nvram_buf st' = strcpy_at (nvram_buf st) (nvram_offset st) v"
      "nvram_offset st' = nvram_offset st + length v + 1"
  shows "kinv st'" and "kabs st' = (kabs st)(n \<mapsto> v)"
proof -
  let ?b = "strcpy_at (nvram_buf st) (nvram_offset st) v"
  have b: "length ?b = NVRAM_SPACE" "take (nvram_offset st) ?b = take (nvram_offset st) (nvram_buf st)"
    and off: "nvram_offset st \<le> length (nvram_buf st)"
    using inv room by (simp_all add: kinv_def length_strcpy_at take_strcpy_at)
  have old: "kchain_ok ?b (nvram_offset st') (hash_index n) chain"
      "map (tuple_pair ?b) chain = map (tuple_pair (nvram_buf st)) chain"
    using kchain_ok_mono [OF kinv_chain [OF inv, of n] off b(2), of "nvram_offset st'"] st'(3) chain
    by simp_all
  have "ktuple_ok ?b (nvram_offset st') u"
    using n chain'(3) st'(3) off by (simp add: ktuple_ok_def)
  then have new: "kchain_ok ?b (nvram_offset st') (hash_index n) chain'"
    using old(1) chain' by (auto simp: kchain_ok_def)
  show "kinv st'"
    using kinv_update(1) [OF inv st'(1)] b new room st' by simp
  show "kabs st' = (kabs st)(n \<mapsto> v)"
  proof
    fix m
    have "kabs st' m = (if hash_index m = hash_index n
        then map_of (map (tuple_pair (nvram_buf st')) chain') m else kabs st m)"
      using b new room st' by (intro kinv_update(2) [OF inv st'(1)]) simp_all
    then show "kabs st' m = ((kabs st)(n \<mapsto> v)) m"
      using chain chain'(4) old(2) st'(2) by (simp add: kabs_map_of [of st] del: map_eq_conv)
  qed
qed

text \<open>Setting a variable when the buffer has room for its value.\<close>

lemma k_nvram_set_ok:
  assumes inv: "kinv st" and n: "CHR ''='' \<notin> set n" "CHR 0x00 \<notin> set n" "CHR 0x00 \<notin> set v"
    and room: "nvram_offset st + length v + 1 \<le> NVRAM_SPACE"
  shows "\<exists>st'. k_nvram_set n v st = (0, st') \<and> kinv st' \<and> kabs st' = (kabs st)(n \<mapsto> v) \<and>
               nvram_offset st' \<le> nvram_offset st + length v + 1"
proof -
  let ?chain = "nvram_hash st ! hash_index n"
  let ?b = "strcpy_at (nvram_buf st) (nvram_offset st) v"
  have off: "nvram_offset st \<le> length (nvram_buf st)"
    using inv by (simp add: kinv_def)
  have d: "distinct (map t_name ?chain)"
    using kinv_chain [OF inv, of n] by (simp add: kchain_ok_def)
  show ?thesis
  proof (cases "find_tuple n ?chain")
    case None
    let ?u = "\<lparr>t_name = n, t_value = nvram_offset st\<rparr>"
    let ?st = "st\<lparr>nvram_hash := (nvram_hash st)[hash_index n := ?u # ?chain], nvram_buf := ?b,
                  nvram_offset := nvram_offset st + length v + 1\<rparr>"
    have "kinv ?st" "kabs ?st = (kabs st)(n \<mapsto> v)"
      using d None n off
      by (intro k_nvram_set_new [OF inv n room refl, of "?u # ?chain" ?u];
          auto simp: find_tuple_None tuple_pair_def)+
    moreover have "k_nvram_set n v st = (0, ?st)"
      using None room by (simp add: k_nvram_set_def k_nvram_realloc_def Let_def)
    ultimately show ?thesis by simp
  next
    case (Some t)
    then have t: "t \<in> set ?chain" "t_name t = n"
      using find_tuple_Some by auto
    show ?thesis
    proof (cases "cstr_at (nvram_buf st) (t_value t) = v")
      case True
      have "update_tuple t ?chain = ?chain"
        using d t(1) by (rule update_tuple_id)
      then have "k_nvram_set n v st = (0, st)"
        using Some True room by (simp add: k_nvram_set_def k_nvram_realloc_def Let_def)
      moreover have "kabs st n = Some v"
        using Some True by (simp add: kabs_def k_nvram_get_def)
      ultimately show ?thesis
        using inv by (auto simp: fun_eq_iff)
    next
      case False
      let ?u = "\<lparr>t_name = n, t_value = nvram_offset st\<rparr>"
      let ?st = "st\<lparr>nvram_hash := (nvram_hash st)[hash_index n := update_tuple ?u ?chain], nvram_buf := ?b,
                    nvram_offset := nvram_offset st + length v + 1\<rparr>"
      have u: "t\<lparr>t_value := nvram_offset st\<rparr> = ?u"
        using t(2) by simp
      have m: "map_of (map (tuple_pair ?b) (update_tuple ?u ?chain)) =
          (map_of (map (tuple_pair ?b) ?chain))(n \<mapsto> v)"
        using map_of_update_tuple [of ?u ?chain ?b] t n off by force
      have "kinv ?st" "kabs ?st = (kabs st)(n \<mapsto> v)"
        using d n off m set_update_tuple [of ?u ?chain]
        by (intro k_nvram_set_new [OF inv n room refl, of "update_tuple ?u ?chain" ?u]; simp)+
      moreover have "k_nvram_set n v st = (0, ?st)"
        using Some False room u by (simp add: k_nvram_set_def k_nvram_realloc_def Let_def)
      ultimately show ?thesis by simp
    qed
  qed
qed

lemma k_nvram_unset_ok:
  assumes inv: "kinv st"
  shows "\<exists>st'. k_nvram_unset n st = (0, st') \<and> kinv st' \<and> kabs st' = (kabs st)(n := None) \<and>
               nvram_offset st' = nvram_offset st"
proof (cases "find_tuple n (nvram_hash st ! hash_index n)")
  case None
  then have "kabs st n = None"
    by (simp add: kabs_def k_nvram_get_def)
  then show ?thesis
    using inv None by (auto simp: k_nvram_unset_def Let_def fun_eq_iff)
next
  case (Some t)
  let ?chain = "nvram_hash st ! hash_index n"
  let ?st = "st\<lparr>nvram_hash := (nvram_hash st)[hash_index n := remove_tuple n ?chain],
                nvram_dead := t # nvram_dead st\<rparr>"
  have ok: "kchain_ok (nvram_buf st) (nvram_offset st) (hash_index n) (remove_tuple n ?chain)"
    using kinv_chain [OF inv, of n] distinct_remove_tuple [of ?chain n] set_remove_tuple [of n ?chain]
    by (auto simp: kchain_ok_def)
  have d: "distinct (map t_name ?chain)"
    using kinv_chain [OF inv, of n] by (simp add: kchain_ok_def)
  have "kinv ?st"
    using inv ok by (intro kinv_update(1) [OF inv]) (simp_all add: kinv_def)
  moreover have "kabs ?st m = ((kabs st)(n := None)) m" for m
  proof -
    have "kabs ?st m = (if hash_index m = hash_index n
        then map_of (map (tuple_pair (nvram_buf ?st)) (remove_tuple n ?chain)) m else kabs st m)"
      using inv ok by (intro kinv_update(2) [OF inv]) (simp_all add: kinv_def)
    then show ?thesis
      using d by (auto simp: map_of_remove_tuple kabs_map_of [of st])
  qed
  ultimately show ?thesis
    using Some by (auto simp: k_nvram_unset_def Let_def fun_eq_iff)
qed

section \<open>Writing out and reading back\<close>

text \<open>The variables in the order in which they are written.\<close>

definition kpairs :: "kstate \<Rightarrow> (string \<times> string) list" where
  "kpairs st = map (tuple_pair (nvram_buf st)) (concat (nvram_hash st))"

definition entries :: "(string \<times> string) list \<Rightarrow> string" where
  "entries ps = concat (map (\<lambda>(n, v). entry n v) ps)"

lemma entries_simps [simp]:
  "entries [] = []" "entries ((n, v) # ps) = entry n v @ entries ps"
  "entries (ps @ qs) = entries ps @ entries qs"
  by (simp_all add: entries_def)

lemma length_entry [simp]: "length (entry n v) = length n + length v + 2"
  by (simp add: entry_def)

lemma length_entries: "length (entries ps) = sum_list (map (\<lambda>(n, v). length n + length v + 2) ps)"
  by (induction ps) auto

text \<open>When everything fits, the loops write every tuple.\<close>

lemma write_chain_all:
  assumes "\<And>l e. l + e \<le> N \<Longrightarrow> fits l e"
    and "length acc + length (entries (map (tuple_pair buf) chain)) \<le> N"
  shows "write_chain fits buf chain acc = acc @ entries (map (tuple_pair buf) chain)"
  using assms(2) by (induction chain arbitrary: acc) (simp_all add: tuple_pair_def Let_def assms(1))

lemma write_chains_all:
  assumes "\<And>l e. l + e \<le> N \<Longrightarrow> fits l e"
    and "length acc + length (entries (map (tuple_pair buf) (concat css))) \<le> N"
  shows "foldl (\<lambda>acc chain. write_chain fits buf chain acc) acc css =
    acc @ entries (map (tuple_pair buf) (concat css))"
  using assms(2)
  by (induction css arbitrary: acc) (simp_all add: write_chain_all [OF assms(1)])

lemma write_tuples_all:
  assumes "\<And>l e. l + e \<le> N \<Longrightarrow> fits l e" and "length (entries (kpairs st)) \<le> N"
  shows "write_tuples fits st = entries (kpairs st)"
  using write_chains_all [OF assms(1), where acc = "[]"] assms(2) by (simp add: write_tuples_def kpairs_def)

text \<open>Reading back one entry.\<close>

lemma c_string_entry:
  assumes "CHR 0x00 \<notin> set n" and "CHR 0x00 \<notin> set v"
  shows "c_string (entry n v @ rest) = n @ CHR ''='' # v"
  using c_string_append_nul [of "n @ CHR ''='' # v" rest] assms by (simp add: entry_def)

lemma rehash_loop_entry:
  assumes "CHR ''='' \<notin> set n" and "CHR 0x00 \<notin> set n" and "CHR 0x00 \<notin> set v"
  shows "rehash_loop (entry n v @ rest) st = rehash_loop rest (snd (k_nvram_set n v st))"
proof -
  have "takeWhile (\<lambda>ch. ch \<noteq> CHR ''='') (n @ CHR ''='' # v) = n"
    using assms(1) by (induction n) auto
  moreover have "drop (Suc (length (n @ CHR ''='' # v))) (entry n v @ rest) = rest"
    by (simp add: entry_def)
  ultimately show ?thesis
    using assms by (subst rehash_loop.simps) (simp add: c_string_entry Let_def)
qed

definition set_all :: "(string \<times> string) list \<Rightarrow> kstate \<Rightarrow> kstate" where
  "set_all ps st = foldl (\<lambda>st (n, v). snd (k_nvram_set n v st)) st ps"

definition pair_ok :: "string \<times> string \<Rightarrow> bool" where
  "pair_ok p \<longleftrightarrow> CHR ''='' \<notin> set (fst p) \<and> CHR 0x00 \<notin> set (fst p) \<and> CHR 0x00 \<notin> set (snd p)"

lemma rehash_loop_entries:
  assumes "list_all pair_ok ps"
  shows "rehash_loop (entries ps @ CHR 0x00 # rest) st = set_all ps st"
  using assms
proof (induction ps arbitrary: st)
  case Nil
  then show ?case
    by (subst rehash_loop.simps) (simp add: c_string_def set_all_def Let_def)
next
  case (Cons p ps)
  then show ?case
    by (cases p) (simp add: rehash_loop_entry pair_ok_def set_all_def)
qed

definition values_size :: "(string \<times> string) list \<Rightarrow> nat" where
  "values_size ps = sum_list (map (\<lambda>(n, v). length v + 1) ps)"

lemma set_all_ok:
  assumes "kinv st" and "list_all pair_ok ps" and "nvram_offset st + values_size ps \<le> NVRAM_SPACE"
  shows "kinv (set_all ps st) \<and> kabs (set_all ps st) = kabs st ++ map_of (rev ps) \<and>
         nvram_offset (set_all ps st) \<le> nvram_offset st + values_size ps"
  using assms
proof (induction ps arbitrary: st)
  case Nil
  then show ?case by (simp add: set_all_def values_size_def)
next
  case (Cons p ps)
  obtain n v where p: "p = (n, v)" by (cases p)
  obtain st' where st': "k_nvram_set n v st = (0, st')" "kinv st'" "kabs st' = (kabs st)(n \<mapsto> v)"
      "nvram_offset st' \<le> nvram_offset st + length v + 1"
    using k_nvram_set_ok [of st n v] Cons.prems p by (auto simp: pair_ok_def values_size_def)
  then have "kinv (set_all ps st') \<and> kabs (set_all ps st') = kabs st' ++ map_of (rev ps) \<and>
      nvram_offset (set_all ps st') \<le> nvram_offset st' + values_size ps"
    using Cons p by (intro Cons.IH) (auto simp: values_size_def)
  moreover have "set_all (p # ps) st = set_all ps st'"
    using st'(1) p by (simp add: set_all_def)
  ultimately show ?case
    using st'(3,4) p by (auto simp: values_size_def map_add_def fun_eq_iff split: option.split)
qed

end
