(* ===== verification/Kernel_Commit.thy ===== *)
theory Kernel_Commit
  imports Kernel_Hash
begin

text \<open>
  The image of the store in flash: \<^verbatim>\<open>_nvram_commit\<close> and \<^verbatim>\<open>_nvram_valid\<close> of \<^verbatim>\<open>nvram.c\<close> with the helpers of
  \<^verbatim>\<open>ezutils.c\<close> that they call (\<^verbatim>\<open>hndcrc8\<close>, \<^verbatim>\<open>bcm_strtoul\<close>).  The target is little-endian, so \<^verbatim>\<open>htol32\<close> and
  \<^verbatim>\<open>ltoh32\<close> are the identity.  The theorems show that an image is valid, that reading it back gives the
  same variables, and that the driver's \<^verbatim>\<open>nvram_set\<close> uses this to reclaim garbage.
\<close>

section \<open>Checksum\<close>

definition crc8_table :: "8 word list" where
  "crc8_table =
    [0x00, 0xF7, 0xB9, 0x4E, 0x25, 0xD2, 0x9C, 0x6B,
     0x4A, 0xBD, 0xF3, 0x04, 0x6F, 0x98, 0xD6, 0x21,
     0x94, 0x63, 0x2D, 0xDA, 0xB1, 0x46, 0x08, 0xFF,
     0xDE, 0x29, 0x67, 0x90, 0xFB, 0x0C, 0x42, 0xB5,
     0x7F, 0x88, 0xC6, 0x31, 0x5A, 0xAD, 0xE3, 0x14,
     0x35, 0xC2, 0x8C, 0x7B, 0x10, 0xE7, 0xA9, 0x5E,
     0xEB, 0x1C, 0x52, 0xA5, 0xCE, 0x39, 0x77, 0x80,
     0xA1, 0x56, 0x18, 0xEF, 0x84, 0x73, 0x3D, 0xCA,
     0xFE, 0x09, 0x47, 0xB0, 0xDB, 0x2C, 0x62, 0x95,
     0xB4, 0x43, 0x0D, 0xFA, 0x91, 0x66, 0x28, 0xDF,
     0x6A, 0x9D, 0xD3, 0x24, 0x4F, 0xB8, 0xF6, 0x01,
     0x20, 0xD7, 0x99, 0x6E, 0x05, 0xF2, 0xBC, 0x4B,
     0x81, 0x76, 0x38, 0xCF, 0xA4, 0x53, 0x1D, 0xEA,
     0xCB, 0x3C, 0x72, 0x85, 0xEE, 0x19, 0x57, 0xA0,
     0x15, 0xE2, 0xAC, 0x5B, 0x30, 0xC7, 0x89, 0x7E,
     0x5F, 0xA8, 0xE6, 0x11, 0x7A, 0x8D, 0xC3, 0x34,
     0xAB, 0x5C, 0x12, 0xE5, 0x8E, 0x79, 0x37, 0xC0,
     0xE1, 0x16, 0x58, 0xAF, 0xC4, 0x33, 0x7D, 0x8A,
     0x3F, 0xC8, 0x86, 0x71, 0x1A, 0xED, 0xA3, 0x54,
     0x75, 0x82, 0xCC, 0x3B, 0x50, 0xA7, 0xE9, 0x1E,
     0xD4, 0x23, 0x6D, 0x9A, 0xF1, 0x06, 0x48, 0xBF,
     0x9E, 0x69, 0x27, 0xD0, 0xBB, 0x4C, 0x02, 0xF5,
     0x40, 0xB7, 0xF9, 0x0E, 0x65, 0x92, 0xDC, 0x2B,
     0x0A, 0xFD, 0xB3, 0x44, 0x2F, 0xD8, 0x96, 0x61,
     0x55, 0xA2, 0xEC, 0x1B, 0x70, 0x87, 0xC9, 0x3E,
     0x1F, 0xE8, 0xA6, 0x51, 0x3A, 0xCD, 0x83, 0x74,
     0xC1, 0x36, 0x78, 0x8F, 0xE4, 0x13, 0x5D, 0xAA,
     0x8B, 0x7C, 0x32, 0xC5, 0xAE, 0x59, 0x17, 0xE0,
     0x2A, 0xDD, 0x93, 0x64, 0x0F, 0xF8, 0xB6, 0x41,
     0x60, 0x97, 0xD9, 0x2E, 0x45, 0xB2, 0xFC, 0x0B,
     0xBE, 0x49, 0x07, 0xF0, 0x9B, 0x6C, 0x22, 0xD5,
     0xF4, 0x03, 0x4D, 0xBA, 0xD1, 0x26, 0x68, 0x9F]"

definition CRC8_INIT_VALUE :: "8 word" where "CRC8_INIT_VALUE = 0xff"

definition hndcrc8 :: "string \<Rightarrow> 8 word \<Rightarrow> 8 word" where
  "hndcrc8 pdata crc = foldl (\<lambda>crc ch. crc8_table ! unat ((crc XOR of_nat (of_char ch)) AND 0xff)) crc pdata"

section \<open>Numbers\<close>

definition bcm_isspace :: "char \<Rightarrow> bool" where
  "bcm_isspace ch = (let n = (of_char ch :: nat) in (9 \<le> n \<and> n \<le> 13) \<or> n = 32 \<or> n = 160)"

definition bcm_isdigit :: "char \<Rightarrow> bool" where
  "bcm_isdigit ch = (let n = (of_char ch :: nat) in 48 \<le> n \<and> n \<le> 57)"

definition bcm_isxdigit :: "char \<Rightarrow> bool" where
  "bcm_isxdigit ch =
     (let n = (of_char ch :: nat) in bcm_isdigit ch \<or> (65 \<le> n \<and> n \<le> 70) \<or> (97 \<le> n \<and> n \<le> 102))"

definition bcm_digit_value :: "char \<Rightarrow> nat" where
  "bcm_digit_value ch =
     (let n = of_char ch in if bcm_isdigit ch then n - 48 else if 97 \<le> n then n - 87 else n - 55)"

fun bcm_digits :: "nat \<Rightarrow> string \<Rightarrow> 32 word \<Rightarrow> 32 word" where
  "bcm_digits base [] result = result"
| "bcm_digits base (ch # cp) result =
     (if bcm_isxdigit ch \<and> bcm_digit_value ch < base
      then bcm_digits base cp (result * of_nat base + of_nat (bcm_digit_value ch))
      else result)"

definition starts_0x :: "string \<Rightarrow> bool" where
  "starts_0x cp \<longleftrightarrow> take 2 cp = ''0x'' \<or> take 2 cp = ''0X''"

definition bcm_strtoul :: "string \<Rightarrow> nat \<Rightarrow> 32 word" where
  "bcm_strtoul str base =
     (let cp = dropWhile bcm_isspace str;
          minus = (cp \<noteq> [] \<and> hd cp = CHR ''-'');
          cp = (if cp \<noteq> [] \<and> (hd cp = CHR ''+'' \<or> hd cp = CHR ''-'') then tl cp else cp);
          (base, cp) =
            (if base = 0 then
               if starts_0x cp then (16, drop 2 cp)
               else if cp \<noteq> [] \<and> hd cp = CHR ''0'' then (8, tl cp)
               else (10, cp)
             else if base = 16 \<and> starts_0x cp then (16, drop 2 cp)
             else (base, cp));
          result = bcm_digits base cp 0
      in if minus then - result else result)"

section \<open>The image\<close>

record nvram_header =
  h_magic :: "32 word"
  h_len :: "32 word"
  h_crc_ver_init :: "32 word"
  h_config_refresh :: "32 word"
  h_config_ncdl :: "32 word"

definition roundup :: "nat \<Rightarrow> nat \<Rightarrow> nat" where
  "roundup x y = ((x + (y - 1)) div y) * y"

text \<open>The test \<^verbatim>\<open>ptr + strlen(t->name) + 1 + strlen(t->value) + 1 > end\<close>, negated.\<close>

definition commit_fits :: "nat \<Rightarrow> nat \<Rightarrow> bool" where
  "commit_fits len e \<longleftrightarrow> NVRAM_HEADER_SIZE + len + e \<le> NVRAM_SPACE - 2"

definition sdram_fields :: "kstate \<Rightarrow> (string \<times> string \<times> string \<times> string) option" where
  "sdram_fields st = do {
     init \<leftarrow> kabs st ''sdram_init'';
     config \<leftarrow> kabs st ''sdram_config'';
     refresh \<leftarrow> kabs st ''sdram_refresh'';
     ncdl \<leftarrow> kabs st ''sdram_ncdl'';
     Some (init, config, refresh, ncdl)
   }"

text \<open>
  \<^verbatim>\<open>_nvram_commit\<close> up to the call of \<^verbatim>\<open>nvram_rehash\<close>: the header and the bytes behind it.  Without the
  variables \<^verbatim>\<open>sdram_*\<close> the field \<^verbatim>\<open>config_ncdl\<close> keeps what the buffer held before (\<open>junk\<close>).
\<close>

definition commit_image :: "32 word \<Rightarrow> kstate \<Rightarrow> nvram_header \<times> string" where
  "commit_image junk st =
     (let (ver_init, config_refresh, config_ncdl) =
            (case sdram_fields st of
               None \<Rightarrow> (push_bit 8 NVRAM_VERSION, 0, junk)
             | Some (init, config, refresh, ncdl) \<Rightarrow>
                 (push_bit 8 NVRAM_VERSION OR push_bit 16 (bcm_strtoul init 0 AND 0xffff),
                  (bcm_strtoul config 0 AND 0xffff) OR push_bit 16 (bcm_strtoul refresh 0 AND 0xffff),
                  bcm_strtoul ncdl 0));
          text = write_tuples commit_fits st;
          bytes = zero_fill (NVRAM_SPACE - NVRAM_HEADER_SIZE) text;
          len = roundup (NVRAM_HEADER_SIZE + length text + 2) 4;
          crc = hndcrc8 (take (len - NVRAM_HEADER_SIZE) bytes) CRC8_INIT_VALUE
      in (\<lparr>h_magic = NVRAM_MAGIC, h_len = of_nat len, h_crc_ver_init = ver_init OR ucast crc,
           h_config_refresh = config_refresh, h_config_ncdl = config_ncdl\<rparr>, bytes))"

definition k_nvram_commit :: "32 word \<Rightarrow> kstate \<Rightarrow> (nvram_header \<times> string) \<times> kstate" where
  "k_nvram_commit junk st =
     (let img = commit_image junk st in (img, k_nvram_rehash (snd img) st))"

text \<open>
  \<^verbatim>\<open>_nvram_valid\<close>: 0 for a valid image.  The length in the header is used as it is; a length that
  reaches outside the buffer makes the checksum read outside it.
\<close>

definition k_nvram_valid :: "nvram_header \<Rightarrow> string \<Rightarrow> bool \<Rightarrow> int c" where
  "k_nvram_valid h bytes failsafe =
     (if h_magic h \<noteq> NVRAM_MAGIC then Some 1
      else let nbytes = unat (h_len h - of_nat NVRAM_HEADER_SIZE) in
        if length bytes < nbytes then None
        else if \<not> failsafe \<and> hndcrc8 (take nbytes bytes) CRC8_INIT_VALUE \<noteq> ucast (h_crc_ver_init h)
        then Some 1
        else Some 0)"

section \<open>The driver's set with consolidation\<close>

text \<open>
  \<^verbatim>\<open>nvram_set\<close> of \<^verbatim>\<open>nvram_linux.c\<close>: when the value does not fit, the store is written out and read back,
  which drops the garbage, and the value is set again.
\<close>

definition drv_nvram_set :: "string \<Rightarrow> string \<Rightarrow> kstate \<Rightarrow> int \<times> kstate" where
  "drv_nvram_set name value st =
     (let (ret, st1) = k_nvram_set name value st in
      if ret \<noteq> 0 then k_nvram_set name value (snd (k_nvram_commit 0 st1))
      else (ret, st1))"

section \<open>The variables survive\<close>

lemma kinv_tuple:
  assumes "kinv st" and "i < NVRAM_HASH_SIZE" and "t \<in> set (nvram_hash st ! i)"
  shows "hash_index (t_name t) = i \<and> ktuple_ok (nvram_buf st) (nvram_offset st) t"
  using assms by (simp add: kinv_def kchain_ok_def)

lemma kpairs_ok:
  assumes "kinv st"
  shows "list_all pair_ok (kpairs st)"
proof -
  have "pair_ok (tuple_pair (nvram_buf st) t)" if t: "t \<in> set (concat (nvram_hash st))" for t
  proof -
    obtain i where "i < NVRAM_HASH_SIZE" "t \<in> set (nvram_hash st ! i)"
      using t assms unfolding in_concat_nth by (auto simp: kinv_def)
    then have "ktuple_ok (nvram_buf st) (nvram_offset st) t"
      using kinv_tuple [OF assms] by blast
    then show ?thesis
      by (simp add: ktuple_ok_def pair_ok_def tuple_pair_def cstr_at_def)
  qed
  then show ?thesis
    by (auto simp: kpairs_def list_all_iff)
qed

lemma map_of_concat:
  assumes "i < length css" and "\<And>j. j < length css \<Longrightarrow> j \<noteq> i \<Longrightarrow> n \<notin> fst ` set (css ! j)"
  shows "map_of (concat css) n = map_of (css ! i) n"
  using assms
proof (induction css arbitrary: i)
  case Nil
  then show ?case by simp
next
  case (Cons c css)
  show ?case
  proof (cases i)
    case 0
    have "n \<notin> fst ` set (css ! j)" if "j < length css" for j
      using Cons.prems(2) [of "Suc j"] 0 that by simp
    then have "map_of (concat css) n = None"
      unfolding map_of_eq_None_iff image_iff Bex_def in_concat_nth by blast
    then show ?thesis
      using 0 by (simp add: map_add_def split: option.split)
  next
    case (Suc k)
    have "map_of c n = None"
      using Cons.prems(2) [of 0] Suc by (simp add: map_of_eq_None_iff)
    moreover have "map_of (concat css) n = map_of (css ! k) n"
    proof (rule Cons.IH)
      show "n \<notin> fst ` set (css ! j)" if "j < length css" "j \<noteq> k" for j
        using Cons.prems(2) [of "Suc j"] Suc that by simp
    qed (use Cons.prems(1) Suc in simp)
    ultimately show ?thesis
      using Suc by (simp add: map_add_def)
  qed
qed

lemma map_of_kpairs:
  assumes "kinv st"
  shows "map_of (kpairs st) = kabs st"
proof
  fix n
  let ?css = "map (map (tuple_pair (nvram_buf st))) (nvram_hash st)"
  have len: "length (nvram_hash st) = NVRAM_HASH_SIZE"
    using assms by (simp add: kinv_def)
  have "n \<notin> fst ` set (?css ! j)" if "j < length ?css" "j \<noteq> hash_index n" for j
    using assms that len by (auto simp: kinv_def kchain_ok_def tuple_pair_def)
  then have "map_of (concat ?css) n = map_of (?css ! hash_index n) n"
    using len by (intro map_of_concat) simp_all
  then show "map_of (kpairs st) n = kabs st n"
    using len by (simp add: kpairs_def kabs_map_of map_concat)
qed

lemma distinct_kpairs:
  assumes "kinv st"
  shows "distinct (map fst (kpairs st))"
proof -
  have "distinct (concat (map (map t_name) (nvram_hash st)))"
  proof (rule distinct_concat_nth)
    fix i
    assume "i < length (map (map t_name) (nvram_hash st))"
    then show "distinct (map (map t_name) (nvram_hash st) ! i)"
      using assms by (simp add: kinv_def kchain_ok_def)
  next
    fix i j
    assume "i < length (map (map t_name) (nvram_hash st))" "j < length (map (map t_name) (nvram_hash st))" "i \<noteq> j"
    then show "set (map (map t_name) (nvram_hash st) ! i) \<inter> set (map (map t_name) (nvram_hash st) ! j) = {}"
      using assms kinv_tuple [OF assms] by (auto simp: kinv_def) metis
  qed
  then show ?thesis
    by (simp add: kpairs_def map_concat comp_def tuple_pair_def)
qed

text \<open>
  Bytes that a map needs: \<open>image_size\<close> in an image (names, values, two separators each), \<open>buffer_size\<close>
  in the buffer after consolidation (values with their NUL).
\<close>

definition image_size :: "(string \<Rightarrow> string option) \<Rightarrow> nat" where
  "image_size m = (\<Sum>n \<in> dom m. length n + length (the (m n)) + 2)"

definition buffer_size :: "(string \<Rightarrow> string option) \<Rightarrow> nat" where
  "buffer_size m = (\<Sum>n \<in> dom m. length (the (m n)) + 1)"

lemma sum_map_of:
  assumes "distinct (map fst ps)"
  shows "(\<Sum>n \<in> dom (map_of ps). f n (the (map_of ps n))) = sum_list (map (\<lambda>(n, v). f n v) ps)"
  using assms
proof (induction ps)
  case Nil
  then show ?case by simp
next
  case (Cons p ps)
  obtain n v where p: "p = (n, v)" by (cases p)
  have n: "n \<notin> dom (map_of ps)"
    using Cons.prems p by (simp add: dom_map_of_conv_image_fst)
  have "(\<Sum>x \<in> dom (map_of ps). f x (the (((map_of ps)(n \<mapsto> v)) x))) =
      (\<Sum>x \<in> dom (map_of ps). f x (the (map_of ps x)))"
    using n by (intro sum.cong) auto
  moreover have "dom (map_of (p # ps)) = insert n (dom (map_of ps))" "map_of (p # ps) = (map_of ps)(n \<mapsto> v)"
    using p by auto
  ultimately show ?case
    using Cons n p by (simp add: finite_dom_map_of del: map_of.simps fun_upd_apply dom_fun_upd)
      (simp add: finite_dom_map_of)
qed

lemma image_size_kpairs: "kinv st \<Longrightarrow> image_size (kabs st) = length (entries (kpairs st))"
  using sum_map_of [OF distinct_kpairs, of st "\<lambda>n v. length n + length v + 2"]
  by (simp add: image_size_def map_of_kpairs length_entries)

lemma buffer_size_kpairs: "kinv st \<Longrightarrow> buffer_size (kabs st) = values_size (kpairs st)"
  using sum_map_of [OF distinct_kpairs, of st "\<lambda>n v. length v + 1"]
  by (simp add: buffer_size_def map_of_kpairs values_size_def)

text \<open>The space that an image offers to the entries.\<close>

definition IMAGE_ROOM :: nat where "IMAGE_ROOM = 32746"

lemma IMAGE_ROOM_eq: "NVRAM_SPACE = IMAGE_ROOM + NVRAM_HEADER_SIZE + 2"
  by (simp add: kernel_sizes IMAGE_ROOM_def)

lemma commit_text:
  assumes "kinv st" and "image_size (kabs st) \<le> IMAGE_ROOM"
  shows "write_tuples commit_fits st = entries (kpairs st)"
  using assms
  by (intro write_tuples_all [of IMAGE_ROOM])
    (simp_all add: commit_fits_def IMAGE_ROOM_eq image_size_kpairs)

lemma kinv_free: "kinv st \<Longrightarrow> kinv (k_nvram_free st)" "kabs (k_nvram_free st) = Map.empty"
    "nvram_offset (k_nvram_free st) = 0"
  by (auto simp: kinv_def k_nvram_free_def kchain_ok_def kabs_map_of fun_eq_iff)

lemma terminate_zero_fill:
  assumes "length s + 2 \<le> n"
  shows "terminate_area (zero_fill n s) = zero_fill n s"
proof -
  obtain k where "n = length s + k + 2"
    using assms by (metis add.commute add.left_commute le_Suc_ex)
  moreover have "replicate (Suc (Suc k)) z = replicate k z @ [z, z]" for z :: char
    by (induction k) auto
  ultimately have "zero_fill n s = (s @ replicate k (CHR 0x00)) @ [CHR 0x00, CHR 0x00]"
    by (simp add: zero_fill_def)
  then show ?thesis
    by (simp add: terminate_area_def)
qed

lemma map_of_rev_distinct: "distinct (map fst ps) \<Longrightarrow> map_of (rev ps) = map_of ps"
  by (rule map_of_inject_set [THEN iffD2]) (simp_all flip: rev_map)

text \<open>Reading the bytes of an image back into the store.\<close>

lemma rehash_entries:
  assumes "kinv st" and ps: "list_all pair_ok ps" "distinct (map fst ps)"
    and len: "length (entries ps) \<le> IMAGE_ROOM"
    and bytes: "terminate_area bytes = entries ps @ CHR 0x00 # rest"
  shows "kinv (k_nvram_rehash bytes st)" and "kabs (k_nvram_rehash bytes st) = map_of ps"
    and "nvram_offset (k_nvram_rehash bytes st) \<le> values_size ps"
proof -
  have r: "k_nvram_rehash bytes st = set_all ps (k_nvram_free st)"
    using rehash_loop_entries [OF ps(1)] bytes by (simp add: k_nvram_rehash_def)
  have "values_size ps \<le> length (entries ps)"
    by (induction ps) (auto simp: values_size_def)
  then have "nvram_offset (k_nvram_free st) + values_size ps \<le> NVRAM_SPACE"
    using len by (simp add: IMAGE_ROOM_eq kinv_free)
  note ok = set_all_ok [OF kinv_free(1) [OF assms(1)] ps(1) this]
  show "kinv (k_nvram_rehash bytes st)" "nvram_offset (k_nvram_rehash bytes st) \<le> values_size ps"
    using ok r by (simp_all add: kinv_free)
  show "kabs (k_nvram_rehash bytes st) = map_of ps"
    using ok r map_of_rev_distinct [OF ps(2)] by (simp add: kinv_free)
qed

lemma terminate_commit:
  assumes "length (entries ps) \<le> IMAGE_ROOM"
  shows "terminate_area (zero_fill (NVRAM_SPACE - NVRAM_HEADER_SIZE) (entries ps)) =
    entries ps @ CHR 0x00 # replicate (IMAGE_ROOM + 1 - length (entries ps)) (CHR 0x00)"
proof -
  have "terminate_area (zero_fill (NVRAM_SPACE - NVRAM_HEADER_SIZE) (entries ps)) =
      zero_fill (NVRAM_SPACE - NVRAM_HEADER_SIZE) (entries ps)"
    using assms by (intro terminate_zero_fill) (simp add: IMAGE_ROOM_eq)
  then show ?thesis
    using assms by (simp add: zero_fill_def IMAGE_ROOM_eq Suc_diff_le)
qed

text \<open>
  Committing keeps the variables, provided that they fit into an image, and leaves no garbage.
\<close>

lemma k_nvram_commit_ok:
  assumes "kinv st" and "image_size (kabs st) \<le> IMAGE_ROOM" and "k_nvram_commit junk st = (img, st')"
  shows "kinv st'" and "kabs st' = kabs st" and "nvram_offset st' \<le> buffer_size (kabs st)"
proof -
  have "snd (commit_image junk st) = zero_fill (NVRAM_SPACE - NVRAM_HEADER_SIZE) (entries (kpairs st))"
    using commit_text [OF assms(1,2)]
    by (simp add: commit_image_def Let_def split: option.split prod.split)
  then have st': "st' = k_nvram_rehash (zero_fill (NVRAM_SPACE - NVRAM_HEADER_SIZE) (entries (kpairs st))) st"
    using assms(3) by (auto simp: k_nvram_commit_def Let_def)
  have "length (entries (kpairs st)) \<le> IMAGE_ROOM"
    using assms(1,2) by (simp add: image_size_kpairs)
  note r = rehash_entries [OF assms(1) kpairs_ok [OF assms(1)] distinct_kpairs [OF assms(1)] this
      terminate_commit [OF this]]
  show "kinv st'" "kabs st' = kabs st" "nvram_offset st' \<le> buffer_size (kabs st)"
    using r assms(1) by (simp_all add: st' map_of_kpairs buffer_size_kpairs)
qed

text \<open>An image that \<^verbatim>\<open>_nvram_commit\<close> writes passes \<^verbatim>\<open>_nvram_valid\<close>.\<close>

lemma roundup_4_less: "roundup x 4 < x + 4" "x \<le> roundup x 4"
  by (simp_all add: roundup_def)

lemma write_chain_length:
  assumes "\<And>l e. fits l e \<Longrightarrow> l + e \<le> N" and "length acc \<le> N"
  shows "length (write_chain fits buf chain acc) \<le> N"
  using assms(2)
proof (induction chain arbitrary: acc)
  case Nil
  then show ?case by simp
next
  case (Cons t chain)
  then show ?case
    using assms(1) [of "length acc" "length (entry (t_name t) (cstr_at buf (t_value t)))"]
    by (simp add: Let_def)
qed

lemma write_tuples_length:
  assumes "\<And>l e. fits l e \<Longrightarrow> l + e \<le> N"
  shows "length (write_tuples fits st) \<le> N"
proof -
  have "length (foldl (\<lambda>acc chain. write_chain fits buf chain acc) acc css) \<le> N"
    if "length acc \<le> N" for acc buf css
    using that by (induction css arbitrary: acc) (simp_all add: write_chain_length [OF assms])
  then show ?thesis
    by (simp add: write_tuples_def)
qed

lemma ucast_crc:
  fixes c :: "8 word" and a :: "32 word"
  assumes "\<And>i. i < 8 \<Longrightarrow> \<not> bit a i"
  shows "ucast (a OR ucast c) = c"
  using assms by (intro bit_eqI) (auto simp: bit_simps)

lemma commit_image_shape:
  assumes "commit_image junk st = (h, bytes)"
  shows "\<exists>len vi. NVRAM_HEADER_SIZE + length (write_tuples commit_fits st) + 2 \<le> len \<and> len \<le> NVRAM_SPACE \<and>
    unat (h_len h) = len \<and> unat (h_len h - of_nat NVRAM_HEADER_SIZE) = len - NVRAM_HEADER_SIZE \<and>
    h_magic h = NVRAM_MAGIC \<and> (\<forall>i < 8. \<not> bit vi i) \<and>
    bytes = zero_fill (NVRAM_SPACE - NVRAM_HEADER_SIZE) (write_tuples commit_fits st) \<and>
    h_crc_ver_init h = vi OR ucast (hndcrc8 (take (len - NVRAM_HEADER_SIZE) bytes) CRC8_INIT_VALUE)"
proof -
  define written where "written = write_tuples commit_fits st"
  define len where "len = roundup (NVRAM_HEADER_SIZE + length written + 2) 4"
  have t: "length written \<le> IMAGE_ROOM"
    unfolding written_def by (rule write_tuples_length) (simp add: commit_fits_def IMAGE_ROOM_eq)
  have lo: "NVRAM_HEADER_SIZE + length written + 2 \<le> len"
    unfolding len_def by (rule roundup_4_less(2))
  have "len \<le> roundup NVRAM_SPACE 4"
    unfolding len_def roundup_def using t
    by (intro mult_right_mono div_le_mono) (simp_all add: IMAGE_ROOM_eq)
  then have hi: "len \<le> NVRAM_SPACE"
    by (simp add: roundup_def NVRAM_SPACE_def)
  obtain vi where h: "h_magic h = NVRAM_MAGIC" "h_len h = of_nat len"
      "bytes = zero_fill (NVRAM_SPACE - NVRAM_HEADER_SIZE) written"
      "h_crc_ver_init h = vi OR ucast (hndcrc8 (take (len - NVRAM_HEADER_SIZE) bytes) CRC8_INIT_VALUE)"
    and vi: "\<And>i. i < 8 \<Longrightarrow> \<not> bit vi i"
    using assms
    by (auto simp: commit_image_def Let_def written_def len_def bit_simps split: option.splits prod.splits)
  have small: "unat (of_nat k :: 32 word) = k" if "k \<le> NVRAM_SPACE" for k
    using that by (simp add: unat_of_nat NVRAM_SPACE_def take_bit_nat_eq_self)
  have "h_len h - of_nat NVRAM_HEADER_SIZE = of_nat (len - NVRAM_HEADER_SIZE)"
    using h(2) lo by (simp add: of_nat_diff)
  then show ?thesis
    using h vi lo hi small [of len] small [of "len - NVRAM_HEADER_SIZE"] unfolding written_def
    by (intro exI [of _ len] exI [of _ vi]) simp
qed

text \<open>
  The checksum covers the bytes up to the length in the header; what follows them does not matter.
\<close>

lemma commit_image_valid:
  assumes "commit_image junk st = (h, bytes)" and "length bytes' = length bytes"
    and "take (unat (h_len h) - NVRAM_HEADER_SIZE) bytes' = take (unat (h_len h) - NVRAM_HEADER_SIZE) bytes"
  shows "k_nvram_valid h bytes' failsafe = Some 0"
proof -
  obtain len vi where s: "NVRAM_HEADER_SIZE + length (write_tuples commit_fits st) + 2 \<le> len" "len \<le> NVRAM_SPACE"
      "unat (h_len h) = len" "unat (h_len h - of_nat NVRAM_HEADER_SIZE) = len - NVRAM_HEADER_SIZE"
      "h_magic h = NVRAM_MAGIC" "\<And>i. i < 8 \<Longrightarrow> \<not> bit vi i"
      "bytes = zero_fill (NVRAM_SPACE - NVRAM_HEADER_SIZE) (write_tuples commit_fits st)"
      "h_crc_ver_init h = vi OR ucast (hndcrc8 (take (len - NVRAM_HEADER_SIZE) bytes) CRC8_INIT_VALUE)"
    using commit_image_shape [OF assms(1)] by blast
  have "len - NVRAM_HEADER_SIZE \<le> length bytes'"
    using assms(2) s by (simp add: zero_fill_def)
  then show ?thesis
    using assms(3) s ucast_crc [OF s(6)] by (simp add: k_nvram_valid_def Let_def)
qed

section \<open>Consolidation\<close>

text \<open>
  The space that \<open>drv_nvram_set\<close> needs: the variables fit into an image, and the values fit into the
  buffer together with the new one.
\<close>

definition kroom :: "(string \<Rightarrow> string option) \<Rightarrow> string \<Rightarrow> string \<Rightarrow> bool" where
  "kroom m n v \<longleftrightarrow> image_size m \<le> IMAGE_ROOM \<and> buffer_size m + length v + 1 \<le> NVRAM_SPACE"

lemma drv_nvram_set_ok:
  assumes inv: "kinv st" and n: "CHR ''='' \<notin> set n" "CHR 0x00 \<notin> set n" "CHR 0x00 \<notin> set v"
    and room: "kroom (kabs st) n v"
  shows "\<exists>st'. drv_nvram_set n v st = (0, st') \<and> kinv st' \<and> kabs st' = (kabs st)(n \<mapsto> v)"
proof (cases "nvram_offset st + length v + 1 \<le> NVRAM_SPACE")
  case True
  then show ?thesis
    using k_nvram_set_ok [OF inv n] by (auto simp: drv_nvram_set_def)
next
  case False
  obtain img st1 where c: "k_nvram_commit 0 st = (img, st1)"
    by (cases "k_nvram_commit 0 st")
  note ok = k_nvram_commit_ok [OF inv _ c]
  have "nvram_offset st1 + length v + 1 \<le> NVRAM_SPACE"
    using ok(3) room by (simp add: kroom_def)
  then obtain st' where "k_nvram_set n v st1 = (0, st')" "kinv st'" "kabs st' = (kabs st1)(n \<mapsto> v)"
    using k_nvram_set_ok [OF ok(1) n] room by (auto simp: kroom_def)
  then show ?thesis
    using k_nvram_set_full [of st v n] False c ok(2) room
    by (simp add: drv_nvram_set_def kroom_def ENOMEM_def)
qed

end
