(* ===== verification/Build_Config.thy ===== *)
theory Build_Config
  imports Prelude
begin

text \<open>
  What the build system fixes before the library is compiled: which preprocessor macros are defined
  (\<^verbatim>\<open>-DPLATFORM_...\<close>, \<^verbatim>\<open>-DEZP_PROD_BRAND_...\<close> of \<^verbatim>\<open>src/package/ezp-nvram/Makefile\<close>), the numbers of
  interfaces and the strings that \<^verbatim>\<open>xstr()\<close> pastes into the code.  Every definition that depends on
  them takes the configuration as an argument, so that the theorems hold for every product.
\<close>

datatype macro =
    AXIMDDNS | QFILE_CGI | AR8316 | AR8328
  | PLATFORM_ALS | PLATFORM_AXA | PLATFORM_M2E | PLATFORM_GMA | PLATFORM_BAD_m
  | EZP_PROD_BRAND_PROX | EZP_PROD_BRAND_PLANET | EZP_PROD_BRAND_SONY | EZP_PROD_BRAND_ALLIS
  | EZP_SUB_BRAND_GARMIN | EZP_SUB_BRAND_APOLLO | EZP_SUB_BRAND_SONY
  | EZP_PROD_SUPERCAT_X | CONFIG_EZP_ARCH_RT305X
  | CONFIG_EZP_ARCH_AS500 | CONFIG_EZP_ARCH_BRCM | TURBONAT | LAN_AUTOIP_SWITCH | PLATFORM_AXM
  | EZP_PROD_BRAND_AXIM | EZP_PROD_BRAND_ABOCOM | EZP_PROD_BRAND_ZYUS | EZP_PROD_BRAND_WHITE | EZP_PROD_BRAND_MYMO
  | EZP_SUB_BRAND_FEENEY | EZP_SUB_BRAND_RFLINK
  | EZP_PROD_CAT_P | EZP_PROD_CAT_K | EZP_PROD_CAT_G | EZP_PROD_CAT_I

text \<open>
  \<open>xstr\<close> gives the text that a macro of \<^verbatim>\<open>nvram_ezpacket.h\<close> or of the header of the architecture stands
  for, by its name; for a macro that is a number it is the text that \<^verbatim>\<open>xstr()\<close> makes of it.  \<open>inet_addr\<close> is
  the function of the C library the program is linked with.
\<close>

record build =
  defined :: "macro \<Rightarrow> bool"
  WAN_NUM :: nat
  LAN_NUM :: nat
  WL_NUM :: nat
  EZP_PROD_VERSION :: string
  CUSTOM_PROD_VERSION :: string
  EZP_MODEL :: string
  xstr :: "string \<Rightarrow> string"
  inet_addr :: "string \<Rightarrow> 32 word"

end
