(* ===== verification/Device.thy ===== *)
theory Device
  imports Build_Config
begin

text \<open>
  The interface between the library of \<^verbatim>\<open>src/package/ezp-nvram/src/nvram_linux.c\<close> and the character
  device \<^verbatim>\<open>/dev/nvram\<close>, the state that the library works on, and the contract of the device as a
  locale.  The theory \<open>Kernel_Device\<close> interprets the locale with the driver of the kernel; the
  specification device at the end of this theory, a plain map, is the abstract reference.
\<close>

unbundle bit_operations_syntax

section \<open>The table of defaults\<close>

text \<open>\<^verbatim>\<open>struct nvram_tuple\<close> of \<^verbatim>\<open>include/bcmnvram.h\<close> and its option bits.\<close>

record nvram_tuple =
  tup_name :: string
  tup_value :: "string option"
  tup_option :: "32 word"

definition NVRAM_NONE :: "32 word" where "NVRAM_NONE = 0x00"
definition NVRAM_PRIVATE :: "32 word" where "NVRAM_PRIVATE = 0x01"
definition NVRAM_PROTECTED :: "32 word" where "NVRAM_PROTECTED = 0x02"
definition NVRAM_TEMP :: "32 word" where "NVRAM_TEMP = 0x04"
definition NVRAM_CUSTOMIZED :: "32 word" where "NVRAM_CUSTOMIZED = 0x08"
definition NVRAM_EMPTY :: "32 word" where "NVRAM_EMPTY = 0x10"
definition NVRAM_DEFAULT :: "32 word" where "NVRAM_DEFAULT = 0x20"
definition NVRAM_UNDEFINED :: "32 word" where "NVRAM_UNDEFINED = 0x80000000"

lemmas nvram_option_defs =
  NVRAM_NONE_def NVRAM_PRIVATE_def NVRAM_PROTECTED_def NVRAM_TEMP_def NVRAM_CUSTOMIZED_def
  NVRAM_EMPTY_def NVRAM_DEFAULT_def NVRAM_UNDEFINED_def

abbreviation has_option :: "32 word \<Rightarrow> 32 word \<Rightarrow> bool" where
  "has_option opts bits \<equiv> opts AND bits \<noteq> 0"

section \<open>Device and world\<close>

text \<open>
  An \<open>env\<close> is what surrounds the library: the build, the outcome of \<^verbatim>\<open>nvram_init\<close> (0, or the
  \<^verbatim>\<open>errno\<close> with which opening or mapping the device fails), and the file operations of the device on
  its state.  \<open>dev_read\<close> is the \<^verbatim>\<open>read\<close> of a name together with the access to the mapped buffer at the
  offset that \<^verbatim>\<open>read\<close> returns; it is \<^term>\<open>None\<close> when \<^verbatim>\<open>read\<close> does not return \<^verbatim>\<open>sizeof(unsigned long)\<close>.
  \<open>dev_readall\<close> is the \<^verbatim>\<open>read\<close> of an empty name into a buffer of the given size.  The strings given
  to the device are transferred with their terminating NUL.
\<close>

record 's env =
  bld :: build
  nvram_open :: int
  dev_read :: "string \<Rightarrow> 's \<Rightarrow> string option"
  dev_readall :: "nat \<Rightarrow> 's \<Rightarrow> int \<times> string"
  dev_write :: "string \<Rightarrow> 's \<Rightarrow> int \<times> 's"
  dev_ioctl :: "'s \<Rightarrow> (int \<times> 's) c"

text \<open>
  The world holds the state of the device, the table \<^verbatim>\<open>nvram_ezpacket_default\<close> (the entries before its
  sentinel; \<^verbatim>\<open>nvram_boot\<close> changes values in it), the contents of the file \<^verbatim>\<open>/tmp/action\<close>, the other
  files that are read or written, the paths that \<^verbatim>\<open>fopen\<close> can open for writing, and the commands given
  to \<^verbatim>\<open>system\<close>.  What is printed is not part of it.
\<close>

record 's world =
  kdev :: 's
  nvram_ezpacket_default :: "nvram_tuple list"
  action_file :: "string option"
  files :: "string \<Rightarrow> string option"
  writable :: "string \<Rightarrow> bool"
  sys_calls :: "string list"

definition good_name :: "string \<Rightarrow> bool" where
  "good_name n \<longleftrightarrow> n \<noteq> [] \<and> length n < 100 \<and> CHR ''='' \<notin> set n \<and> CHR 0x00 \<notin> set n"

section \<open>The contract of the device\<close>

text \<open>
  \<open>abs\<close> gives the variables that a state of the device holds, \<open>inv\<close> is its invariant, and
  \<open>room m n v\<close> says that a device that holds \<open>m\<close> has space to set \<open>n\<close> to \<open>v\<close>.
\<close>

locale nvram_device =
  fixes E :: "'s env"
    and abs :: "'s \<Rightarrow> string \<Rightarrow> string option"
    and inv :: "'s \<Rightarrow> bool"
    and room :: "(string \<Rightarrow> string option) \<Rightarrow> string \<Rightarrow> string \<Rightarrow> bool"
  assumes opened: "nvram_open E = 0"
    and abs_no_nul: "inv s \<Longrightarrow> abs s n = Some v \<Longrightarrow> CHR 0x00 \<notin> set v"
    and read_abs: "inv s \<Longrightarrow> n \<noteq> [] \<Longrightarrow> dev_read E n s = abs s n"
    and write_set:
      "\<lbrakk>inv s; CHR ''='' \<notin> set n; CHR 0x00 \<notin> set n; v \<noteq> []; CHR 0x00 \<notin> set v; room (abs s) n v\<rbrakk>
       \<Longrightarrow> \<exists>s'. dev_write E (n @ ''='' @ v) s = (int (length n + length v + 2), s') \<and> inv s' \<and>
               abs s' = (abs s)(n \<mapsto> v)"
    and write_empty:
      "\<lbrakk>inv s; CHR ''='' \<notin> set n; CHR 0x00 \<notin> set n\<rbrakk>
       \<Longrightarrow> \<exists>s'. dev_write E (n @ ''='') s = (int (length n + 2), s') \<and> inv s' \<and>
               abs s' = (abs s)(n := None)"
    and write_name:
      "\<lbrakk>inv s; CHR ''='' \<notin> set n; CHR 0x00 \<notin> set n\<rbrakk>
       \<Longrightarrow> \<exists>s'. dev_write E n s = (int (length n + 1), s') \<and> inv s' \<and>
               abs s' = (abs s)(n := None)"

section \<open>The specification device\<close>

text \<open>A device whose state is the map itself, and which always has room.\<close>

type_synonym nvmap = "string \<Rightarrow> string option"

definition spec_write :: "string \<Rightarrow> nvmap \<Rightarrow> int \<times> nvmap" where
  "spec_write msg m =
     (let n = takeWhile (\<lambda>ch. ch \<noteq> CHR ''='') msg; v = drop (length n + 1) msg
      in (int (length msg + 1), if v = [] then m(n := None) else m(n \<mapsto> v)))"

definition spec_env :: "build \<Rightarrow> nvmap env" where
  "spec_env b =
     \<lparr>bld = b, nvram_open = 0,
      dev_read = (\<lambda>n m. if n = [] then None else m n),
      dev_readall = (\<lambda>count m. (int count, replicate count (CHR 0x00))),
      dev_write = spec_write,
      dev_ioctl = (\<lambda>m. Some (0, m))\<rparr>"

lemma spec_env_sel [simp]:
  "bld (spec_env b) = b" "nvram_open (spec_env b) = 0"
  "dev_read (spec_env b) n m = (if n = [] then None else m n)"
  "dev_write (spec_env b) msg m = spec_write msg m"
  "dev_ioctl (spec_env b) m = Some (0, m)"
  by (simp_all add: spec_env_def)

lemma takeWhile_to_sep [simp]:
  "c \<notin> set n \<Longrightarrow> takeWhile (\<lambda>ch. ch \<noteq> c) (n @ c # v) = n"
  "c \<notin> set n \<Longrightarrow> takeWhile (\<lambda>ch. ch \<noteq> c) n = n"
  by (induction n) auto

lemma spec_write_simps [simp]:
  assumes "CHR ''='' \<notin> set n"
  shows "spec_write (n @ CHR ''='' # v) m =
      (int (length n + length v + 2), if v = [] then m(n := None) else m(n \<mapsto> v))"
    and "spec_write n m = (int (length n + 1), m(n := None))"
  using assms by (simp_all add: spec_write_def Let_def)

definition spec_inv :: "nvmap \<Rightarrow> bool" where
  "spec_inv m \<longleftrightarrow> (\<forall>n v. m n = Some v \<longrightarrow> CHR 0x00 \<notin> set v)"

interpretation specdev: nvram_device "spec_env b" id spec_inv "\<lambda>_ _ _. True" for b
  by unfold_locales (auto simp: spec_inv_def)

end
