(* ===== verification/Nvram_User.thy ===== *)
theory Nvram_User
  imports Device
begin

text \<open>
  The access functions of \<^verbatim>\<open>src/package/ezp-nvram/src/nvram_linux.c\<close>: reading and writing variables
  through the device, the option bits of the table of defaults that guard writes, committing, and the
  functions that fill in default values.  The build with \<^verbatim>\<open>EZP_PROD_SUPERCAT_X\<close>, in which a variable may
  be stored under its name with the product category appended, is the branch of that macro.
\<close>

section \<open>Reading\<close>

text \<open>
  \<^verbatim>\<open>get_prod_cat\<close> copies at most four characters; four of them leave the buffer without a terminating
  NUL, which the callers that print it run into.
\<close>

definition get_prod_cat :: "'s env \<Rightarrow> 's world \<Rightarrow> string" where
  "get_prod_cat E w =
     (if nvram_open E \<noteq> 0 then []
      else case dev_read E ''prod_cat'' (kdev w) of
             Some v \<Rightarrow> take 4 v
           | None \<Rightarrow> [])"

definition get_name_with_prodcat :: "'s env \<Rightarrow> string \<Rightarrow> 's world \<Rightarrow> string c" where
  "get_name_with_prodcat E name w =
     (let prod_cat_buf = get_prod_cat E w in
      if 4 \<le> length prod_cat_buf then None
      else Some (snprintf_store 100 (name @ ''_'' @ prod_cat_buf)))"

text \<open>
  \<^verbatim>\<open>_nvram_get\<close>.  The name is copied into \<^verbatim>\<open>tmp[100]\<close> whatever its length, because the buffer that was
  allocated for a long name is dropped before it is used.
\<close>

definition nvram_get_prod :: "'s env \<Rightarrow> string \<Rightarrow> bool \<Rightarrow> 's world \<Rightarrow> string option c" where
  "nvram_get_prod E name with_prod_cat w =
     (if nvram_open E \<noteq> 0 then Some None
      else if 100 \<le> length name then None
      else case dev_read E name (kdev w) of
             Some v \<Rightarrow> Some (Some v)
           | None \<Rightarrow>
               (let curr_prod_cat = get_prod_cat E w in
                if with_prod_cat \<and> curr_prod_cat \<noteq> [] then
                  if 4 \<le> length curr_prod_cat \<or> 100 \<le> length name + 1 + length curr_prod_cat then None
                  else Some (dev_read E (name @ ''_'' @ curr_prod_cat) (kdev w))
                else Some None))"

definition nvram_get :: "'s env \<Rightarrow> string \<Rightarrow> 's world \<Rightarrow> string option c" where
  "nvram_get E name w = nvram_get_prod E name (defined (bld E) EZP_PROD_SUPERCAT_X) w"

text \<open>The macro \<^verbatim>\<open>nvram_safe_get(name) (nvram_get(name) ? : "")\<close>.\<close>

definition nvram_safe_get :: "'s env \<Rightarrow> string \<Rightarrow> 's world \<Rightarrow> string c" where
  "nvram_safe_get E name w =
     map_option (\<lambda>r. case r of None \<Rightarrow> [] | Some v \<Rightarrow> v) (nvram_get E name w)"

definition nvram_match :: "'s env \<Rightarrow> string \<Rightarrow> string \<Rightarrow> 's world \<Rightarrow> bool c" where
  "nvram_match E name match w = map_option (\<lambda>value. value = Some match) (nvram_get E name w)"

definition nvram_invmatch :: "'s env \<Rightarrow> string \<Rightarrow> string \<Rightarrow> 's world \<Rightarrow> bool c" where
  "nvram_invmatch E name invmatch w =
     map_option (\<lambda>value. value \<noteq> None \<and> value \<noteq> Some invmatch) (nvram_get E name w)"

definition nvram_getall :: "'s env \<Rightarrow> nat \<Rightarrow> 's world \<Rightarrow> int \<times> string option" where
  "nvram_getall E count w =
     (if nvram_open E \<noteq> 0 then (nvram_open E, None)
      else if count = 0 then (0, None)
      else let (ret, buf) = dev_readall E count (kdev w)
           in (if ret = int count then 0 else ret, Some buf))"

definition nvram_get_option :: "string \<Rightarrow> nvram_tuple list \<Rightarrow> 32 word" where
  "nvram_get_option name tuples =
     (case List.find (\<lambda>v. tup_name v = name) tuples of
        Some v \<Rightarrow> tup_option v
      | None \<Rightarrow> NVRAM_UNDEFINED)"

section \<open>Writing\<close>

definition EINVAL :: int where "EINVAL = 22"
definition EACCES :: int where "EACCES = 13"

definition nvram_set_raw :: "'s env \<Rightarrow> string \<Rightarrow> string option \<Rightarrow> 's world \<Rightarrow> int \<times> 's world" where
  "nvram_set_raw E name value w =
     (if nvram_open E \<noteq> 0 then (nvram_open E, w)
      else let buf = (case value of Some v \<Rightarrow> name @ ''='' @ v | None \<Rightarrow> name);
               (ret, k) = dev_write E buf (kdev w)
           in (if ret = int (length buf + 1) then 0 else ret, w\<lparr>kdev := k\<rparr>))"

text \<open>
  The second half of \<^verbatim>\<open>nvram_set\<close>: a protected variable that has a value is not overwritten.
\<close>

definition nvram_set_checked ::
    "'s env \<Rightarrow> string \<Rightarrow> 32 word \<Rightarrow> string option \<Rightarrow> 's world \<Rightarrow> (int \<times> 's world) c" where
  "nvram_set_checked E tmpname opts value w =
     (if has_option opts NVRAM_PROTECTED then do {
        exist \<leftarrow> nvram_get E tmpname w;
        if exist \<noteq> None \<and> exist \<noteq> Some [] then Some (EACCES, w)
        else Some (nvram_set_raw E tmpname value w)
      }
      else Some (nvram_set_raw E tmpname value w))"

text \<open>
  A name of 100 characters or more fills \<^verbatim>\<open>tmpname\<close> without a NUL; the comparison with the table runs
  past the array when an entry starts with the same 100 characters.
\<close>

definition nvram_set_prod ::
    "'s env \<Rightarrow> string \<Rightarrow> string option \<Rightarrow> bool \<Rightarrow> 's world \<Rightarrow> (int \<times> 's world) c" where
  "nvram_set_prod E name value with_prod_cat w =
     (let tuples = nvram_ezpacket_default w; opts = nvram_get_option name tuples in
      if 100 \<le> length name \<and> (\<exists>v \<in> set tuples. take 100 (tup_name v) = take 100 name) then None
      else if has_option opts NVRAM_UNDEFINED then
        if with_prod_cat then do {
          tmpname \<leftarrow> get_name_with_prodcat E name w;
          let opts' = nvram_get_option tmpname tuples;
          if has_option opts' NVRAM_UNDEFINED then Some (EINVAL, w)
          else do {
            old \<leftarrow> nvram_get_prod E name False w;
            let w' = (if old \<noteq> None then snd (nvram_set_raw E name None w) else w);
            nvram_set_checked E tmpname opts' value w'
          }
        }
        else Some (EINVAL, w)
      else nvram_set_checked E name opts value w)"

definition nvram_set :: "'s env \<Rightarrow> string \<Rightarrow> string option \<Rightarrow> 's world \<Rightarrow> (int \<times> 's world) c" where
  "nvram_set E name value w =
     nvram_set_prod E name value (defined (bld E) EZP_PROD_SUPERCAT_X) w"

definition nvram_fset :: "'s env \<Rightarrow> string \<Rightarrow> string option \<Rightarrow> 's world \<Rightarrow> (int \<times> 's world) c" where
  "nvram_fset E name value w =
     (if defined (bld E) EZP_PROD_SUPERCAT_X then do {
        tmpname \<leftarrow> get_name_with_prodcat E name w;
        if \<not> has_option (nvram_get_option tmpname (nvram_ezpacket_default w)) NVRAM_UNDEFINED then do {
          old \<leftarrow> nvram_get_prod E name False w;
          let w' = (if old \<noteq> None then snd (nvram_set_raw E name None w) else w);
          Some (nvram_set_raw E tmpname value w')
        }
        else Some (nvram_set_raw E name value w)
      }
      else Some (nvram_set_raw E name value w))"

definition nvram_unset :: "'s env \<Rightarrow> string \<Rightarrow> 's world \<Rightarrow> (int \<times> 's world) c" where
  "nvram_unset E name w = nvram_fset E name None w"

section \<open>Committing\<close>

datatype action =
    ACT_IDLE | ACT_TFTP_UPGRADE | ACT_WEB_UPGRADE | ACT_WEBS_UPGRADE | ACT_SW_RESTORE | ACT_HW_RESTORE

text \<open>\<^verbatim>\<open>file_to_buf\<close> returns 1 and the first line of the file, or 0 when it cannot be opened.\<close>

definition file_to_buf :: "string option \<Rightarrow> nat \<Rightarrow> int \<times> string" where
  "file_to_buf contents len =
     (case contents of
        Some s \<Rightarrow> (1, c_string (fgets_line len s))
      | None \<Rightarrow> (0, []))"

definition check_action :: "'s world \<Rightarrow> action" where
  "check_action w =
     (let (r, buf) = file_to_buf (action_file w) 80 in
      if r \<noteq> 0 then
        if buf = ''ACT_TFTP_UPGRADE'' then ACT_TFTP_UPGRADE
        else if buf = ''ACT_WEBS_UPGRADE'' then ACT_WEBS_UPGRADE
        else if buf = ''ACT_WEB_UPGRADE'' then ACT_WEB_UPGRADE
        else if buf = ''ACT_SW_RESTORE'' then ACT_SW_RESTORE
        else if buf = ''ACT_HW_RESTORE'' then ACT_HW_RESTORE
        else ACT_IDLE
      else ACT_IDLE)"

text \<open>
  The value that \<^verbatim>\<open>nvram_commit\<close> returns is \<^term>\<open>None\<close> when the code returns the variable \<^verbatim>\<open>ret\<close> without
  having assigned it, which it does while an upgrade is going on.
\<close>

definition nvram_commit :: "'s env \<Rightarrow> 's world \<Rightarrow> (int option \<times> 's world) c" where
  "nvram_commit E w =
     (if check_action w = ACT_IDLE \<or> check_action w = ACT_SW_RESTORE \<or> check_action w = ACT_HW_RESTORE then
        if nvram_open E \<noteq> 0 then Some (Some (nvram_open E), w)
        else do {
          (ret, k) \<leftarrow> dev_ioctl E (kdev w);
          Some (Some ret, w\<lparr>kdev := k\<rparr>)
        }
      else Some (None, w))"

section \<open>Default values\<close>

text \<open>One round of the loop of \<^verbatim>\<open>nvram_boot\<close>, for the entry with index \<open>i\<close>.\<close>

definition nvram_boot_step :: "'s env \<Rightarrow> nat \<Rightarrow> 's world \<Rightarrow> 's world c" where
  "nvram_boot_step E i w =
     (let v = nvram_ezpacket_default w ! i in do {
        value \<leftarrow> nvram_get E (tup_name v) w;
        if value = None \<or> value = Some [] then
          if has_option (tup_option v) NVRAM_EMPTY then Some w
          else if has_option (tup_option v) NVRAM_DEFAULT then
            if 64 \<le> length (tup_name v) + 8 then None
            else do {
              dflt \<leftarrow> nvram_get E (tup_name v @ ''_default'') w;
              let w' = w\<lparr>nvram_ezpacket_default := (nvram_ezpacket_default w)[i := v\<lparr>tup_value := dflt\<rparr>]\<rparr>;
              map_option snd (nvram_fset E (tup_name v) dflt w')
            }
          else map_option snd (nvram_fset E (tup_name v) (tup_value v) w)
        else if has_option (tup_option v) NVRAM_TEMP then
          map_option snd (nvram_fset E (tup_name v) (tup_value v) w)
        else Some w
      })"

definition nvram_boot :: "'s env \<Rightarrow> 's world \<Rightarrow> 's world c" where
  "nvram_boot E w = fold_c (nvram_boot_step E) [0..<length (nvram_ezpacket_default w)] w"

definition nvram_default :: "'s env \<Rightarrow> 's world \<Rightarrow> 's world c" where
  "nvram_default E w =
     fold_c (\<lambda>v w. map_option snd (nvram_set E (tup_name v) (tup_value v) w)) (nvram_ezpacket_default w) w"

definition nvram_default_rule :: "'s env \<Rightarrow> string \<Rightarrow> 's world \<Rightarrow> 's world c" where
  "nvram_default_rule E rulename w =
     (case List.find (\<lambda>v. tup_name v = rulename) (nvram_ezpacket_default w) of
        Some v \<Rightarrow> map_option snd (nvram_set E (tup_name v) (tup_value v) w)
      | None \<Rightarrow> Some w)"

section \<open>What the functions do on a device that keeps its contract\<close>

text \<open>What a write leaves in the device: an empty value removes the variable.\<close>

definition norm_val :: "string option \<Rightarrow> string option" where
  "norm_val value = (if value = Some [] then None else value)"

lemma norm_val_simps [simp]:
  "norm_val None = None" "norm_val (Some []) = None" "v \<noteq> [] \<Longrightarrow> norm_val (Some v) = Some v"
  "norm_val (Some (ch # v)) = Some (ch # v)"
  by (simp_all add: norm_val_def)

lemma nvram_get_option_None:
  "name \<notin> tup_name ` set tuples \<Longrightarrow> nvram_get_option name tuples = NVRAM_UNDEFINED"
  by (auto simp: nvram_get_option_def find_Some_iff split: option.split)

lemma nvram_get_option_find:
  "v \<in> set tuples \<Longrightarrow> distinct (map tup_name tuples) \<Longrightarrow>
     List.find (\<lambda>u. tup_name u = tup_name v) tuples = Some v"
  by (induction tuples) (auto simp: image_iff)

lemma has_option_undefined [simp]:
  "NVRAM_UNDEFINED \<noteq> 0" "\<not> has_option NVRAM_UNDEFINED NVRAM_PROTECTED"
  by (simp_all add: nvram_option_defs)

lemma nvram_set_undefined:
  assumes "name \<notin> tup_name ` set (nvram_ezpacket_default w)" and "length name < 100"
    and "\<not> defined (bld E) EZP_PROD_SUPERCAT_X"
  shows "nvram_set E name value w = Some (EINVAL, w)"
  using assms by (simp add: nvram_set_def nvram_set_prod_def nvram_get_option_None Let_def)

lemma nvram_set_known:
  assumes "\<not> has_option (nvram_get_option name (nvram_ezpacket_default w)) NVRAM_UNDEFINED"
    and "length name < 100"
  shows "nvram_set E name value w =
    nvram_set_checked E name (nvram_get_option name (nvram_ezpacket_default w)) value w"
  using assms by (simp add: nvram_set_def nvram_set_prod_def Let_def)

context nvram_device
begin

lemma nvram_get_abs:
  assumes "inv (kdev w)" and "good_name n" and "\<not> defined (bld E) EZP_PROD_SUPERCAT_X"
  shows "nvram_get E n w = Some (abs (kdev w) n)"
  using assms opened
  by (auto simp: nvram_get_def nvram_get_prod_def good_name_def read_abs Let_def split: option.split)

lemma nvram_safe_get_abs:
  assumes "inv (kdev w)" and "good_name n" and "\<not> defined (bld E) EZP_PROD_SUPERCAT_X"
  shows "nvram_safe_get E n w = Some (case abs (kdev w) n of None \<Rightarrow> [] | Some v \<Rightarrow> v)"
  using nvram_get_abs [OF assms] by (simp add: nvram_safe_get_def)

lemma nvram_set_raw_abs:
  assumes "inv (kdev w)" and "good_name n"
    and "\<And>v. value = Some v \<Longrightarrow> CHR 0x00 \<notin> set v"
    and "\<And>v. norm_val value = Some v \<Longrightarrow> room (abs (kdev w)) n v"
  shows "\<exists>k. nvram_set_raw E n value w = (0, w\<lparr>kdev := k\<rparr>) \<and> inv k \<and>
             abs k = (abs (kdev w))(n := norm_val value)"
proof -
  have n: "CHR ''='' \<notin> set n" "CHR 0x00 \<notin> set n"
    using assms(2) by (auto simp: good_name_def)
  consider "value = None" | "value = Some []" | v where "value = Some v" "v \<noteq> []"
    by (cases "value") auto
  then show ?thesis
  proof cases
    case 1
    then show ?thesis
      using write_name [OF assms(1) n] opened by (auto simp: nvram_set_raw_def)
  next
    case 2
    then show ?thesis
      using write_empty [OF assms(1) n] opened by (auto simp: nvram_set_raw_def)
  next
    case 3
    then show ?thesis
      using write_set [OF assms(1) n, of v] assms(3,4) opened by (auto simp: nvram_set_raw_def)
  qed
qed

lemma nvram_fset_abs:
  assumes "inv (kdev w)" and "good_name n" and "\<not> defined (bld E) EZP_PROD_SUPERCAT_X"
    and "\<And>v. value = Some v \<Longrightarrow> CHR 0x00 \<notin> set v"
    and "\<And>v. norm_val value = Some v \<Longrightarrow> room (abs (kdev w)) n v"
  shows "\<exists>k. nvram_fset E n value w = Some (0, w\<lparr>kdev := k\<rparr>) \<and> inv k \<and>
             abs k = (abs (kdev w))(n := norm_val value)"
  using nvram_set_raw_abs [of w n "value"] assms by (auto simp: nvram_fset_def)

text \<open>
  \<^verbatim>\<open>nvram_set\<close> writes a variable of the table of defaults unless it is protected and has a value.
\<close>

lemma nvram_set_abs:
  assumes "inv (kdev w)" and "good_name n" and "\<not> defined (bld E) EZP_PROD_SUPERCAT_X"
    and "\<And>v. value = Some v \<Longrightarrow> CHR 0x00 \<notin> set v"
    and "\<And>v. norm_val value = Some v \<Longrightarrow> room (abs (kdev w)) n v"
    and "\<not> has_option (nvram_get_option n (nvram_ezpacket_default w)) NVRAM_UNDEFINED"
    and "\<not> has_option (nvram_get_option n (nvram_ezpacket_default w)) NVRAM_PROTECTED \<or>
         abs (kdev w) n = None \<or> abs (kdev w) n = Some []"
  shows "\<exists>k. nvram_set E n value w = Some (0, w\<lparr>kdev := k\<rparr>) \<and> inv k \<and>
             abs k = (abs (kdev w))(n := norm_val value)"
  using nvram_set_raw_abs [of w n "value"] nvram_get_abs [of w n] assms
  by (auto simp: nvram_set_known nvram_set_checked_def good_name_def)

lemma nvram_set_protected:
  assumes "inv (kdev w)" and "good_name n" and "\<not> defined (bld E) EZP_PROD_SUPERCAT_X"
    and "has_option (nvram_get_option n (nvram_ezpacket_default w)) NVRAM_PROTECTED"
    and "\<not> has_option (nvram_get_option n (nvram_ezpacket_default w)) NVRAM_UNDEFINED"
    and "abs (kdev w) n = Some v" and "v \<noteq> []"
  shows "nvram_set E n value w = Some (EACCES, w)"
  using nvram_get_abs [of w n] assms
  by (auto simp: nvram_set_known nvram_set_checked_def good_name_def)

text \<open>Whatever \<^verbatim>\<open>nvram_set\<close> does, it changes no other variable, and a protected value stays.\<close>

lemma nvram_set_frame:
  assumes "inv (kdev w)" and "good_name n" and "\<not> defined (bld E) EZP_PROD_SUPERCAT_X"
    and "\<And>v. value = Some v \<Longrightarrow> CHR 0x00 \<notin> set v"
    and "\<And>v. norm_val value = Some v \<Longrightarrow> room (abs (kdev w)) n v"
  shows "\<exists>r k. nvram_set E n value w = Some (r, w\<lparr>kdev := k\<rparr>) \<and> inv k \<and>
               (\<forall>x. x \<noteq> n \<longrightarrow> abs k x = abs (kdev w) x)"
proof -
  let ?o = "nvram_get_option n (nvram_ezpacket_default w)"
  consider "has_option ?o NVRAM_UNDEFINED"
    | v where "\<not> has_option ?o NVRAM_UNDEFINED" "has_option ?o NVRAM_PROTECTED"
        "abs (kdev w) n = Some v" "v \<noteq> []"
    | "\<not> has_option ?o NVRAM_UNDEFINED"
      "\<not> has_option ?o NVRAM_PROTECTED \<or> abs (kdev w) n = None \<or> abs (kdev w) n = Some []"
    by (cases "abs (kdev w) n") auto
  then show ?thesis
  proof cases
    case 1
    then have "nvram_set E n value w = Some (EINVAL, w)"
      using assms by (auto simp: nvram_set_def nvram_set_prod_def Let_def good_name_def)
    then show ?thesis
      using assms(1) by (intro exI [of _ EINVAL] exI [of _ "kdev w"]) simp
  next
    case 2
    then have "nvram_set E n value w = Some (EACCES, w)"
      using nvram_set_protected assms by blast
    then show ?thesis
      using assms(1) by (intro exI [of _ EACCES] exI [of _ "kdev w"]) simp
  next
    case 3
    then show ?thesis
      using nvram_set_abs [of w n "value"] assms by fastforce
  qed
qed

end

end
