(* ===== verification/Base64.thy ===== *)
theory Base64
  imports Prelude
begin

text \<open>
  \<^verbatim>\<open>src/package/ezp-nvram/src/base64.c\<close>: the base64 coder of \<^verbatim>\<open>libshared\<close>, which protects passwords and
  SSIDs inside rules.  Bytes are \<^typ>\<open>char\<close>s; the shifts and masks of the code are the bit operations
  of \<^typ>\<open>nat\<close> (every intermediate value is below \<open>2 ^ 24\<close>, so nothing wraps).  The main result is the
  round trip: what \<open>base64_encode\<close> writes, \<open>base64_decode\<close> reads back.
\<close>

unbundle bit_operations_syntax

datatype crypt = CRYPT_OK | CRYPT_BUFFER_OVERFLOW | CRYPT_INVALID_PACKET

definition codes :: string where
  "codes = ''ABCDEFGHIJKLMNOPQRSTUVWXYZabcdefghijklmnopqrstuvwxyz0123456789+/''"

definition b64_map :: "nat list" where
  "b64_map =
    [
255, 255, 255, 255, 255, 255, 255, 255, 255, 255, 255, 255, 255, 255, 255, 255,
     255, 255, 255, 255, 255, 255, 255, 255, 255, 255, 255, 255, 255, 255, 255, 255,
     255, 255, 255, 255, 255, 255, 255, 255, 255, 255, 255, 62, 255, 255, 255, 63,
     52, 53, 54, 55, 56, 57, 58, 59, 60, 61, 255, 255, 255, 254, 255, 255,
     255, 0, 1, 2, 3, 4, 5, 6, 7, 8, 9, 10, 11, 12, 13, 14,
     15, 16, 17, 18, 19, 20, 21, 22, 23, 24, 25, 255, 255, 255, 255, 255,
     255, 26, 27, 28, 29, 30, 31, 32, 33, 34, 35, 36, 37, 38, 39, 40,
     41, 42, 43, 44, 45, 46, 47, 48, 49, 50, 51, 255, 255, 255, 255, 255,
     255, 255, 255, 255, 255, 255, 255, 255, 255, 255, 255, 255, 255, 255, 255, 255,
     255, 255, 255, 255, 255, 255, 255, 255, 255, 255, 255, 255, 255, 255, 255, 255,
     255, 255, 255, 255, 255, 255, 255, 255, 255, 255, 255, 255, 255, 255, 255, 255,
     255, 255, 255, 255, 255, 255, 255, 255, 255, 255, 255, 255, 255, 255, 255, 255,
     255, 255, 255, 255, 255, 255, 255, 255, 255, 255, 255, 255, 255, 255, 255, 255,
     255, 255, 255, 255, 255, 255, 255, 255, 255, 255, 255, 255, 255, 255, 255, 255,
     255, 255, 255, 255, 255, 255, 255, 255, 255, 255, 255, 255, 255, 255, 255, 255,
     255, 255, 255, 255, 255, 255, 255, 255, 255, 255, 255, 255, 255, 255, 255, 255
    ]"

section \<open>Encoding\<close>

text \<open>The loop over groups of three bytes, and the padding after it.\<close>

fun b64_groups :: "string \<Rightarrow> string" where
  "b64_groups [] = []"
| "b64_groups [x] =
     (let a = of_char x; b = 0 in
      [codes ! (drop_bit 2 a AND 63),
       codes ! ((push_bit 4 (a AND 3) + drop_bit 4 b) AND 63),
       CHR ''='', CHR ''=''])"
| "b64_groups [x, y] =
     (let a = of_char x; b = of_char y in
      [codes ! (drop_bit 2 a AND 63),
       codes ! ((push_bit 4 (a AND 3) + drop_bit 4 b) AND 63),
       codes ! (push_bit 2 (b AND 15) AND 63), CHR ''=''])"
| "b64_groups (x # y # z # rest) =
     (let a = of_char x; b = of_char y; d = of_char z in
      [codes ! (drop_bit 2 a AND 63),
       codes ! ((push_bit 4 (a AND 3) + drop_bit 4 b) AND 63),
       codes ! ((push_bit 2 (b AND 15) + drop_bit 6 d) AND 63),
       codes ! (d AND 63)] @ b64_groups rest)"

text \<open>
  The result is the return code and, unless it is an error, what was stored in \<^verbatim>\<open>out\<close>; \<^verbatim>\<open>*outlen\<close> is its
  length.  On an error neither is written.
\<close>

definition base64_encode :: "string \<Rightarrow> nat \<Rightarrow> crypt \<times> string option" where
  "base64_encode inp outlen =
     (let len2 = 4 * ((length inp + 2) div 3) in
      if outlen < len2 + 1 then (CRYPT_BUFFER_OVERFLOW, None)
      else (CRYPT_OK, Some (b64_groups inp)))"

section \<open>Decoding\<close>

text \<open>
  The body of the loop of \<^verbatim>\<open>base64_decode\<close>; \<open>g\<close>, \<open>y\<close>, \<open>t\<close> are the variables of the code, \<open>out\<close> what
  has been stored (\<open>z = length out\<close>).  \<open>g\<close> is a signed \<^verbatim>\<open>int\<close> that is added to an \<^verbatim>\<open>unsigned long\<close>: the
  sum is taken modulo \<open>2 ^ 32\<close>.  A store behind the end of \<^verbatim>\<open>out\<close> is undefined.  \<^const>\<open>Inl\<close> leaves the
  function, \<^const>\<open>Inr\<close> goes on with the next character.
\<close>

definition b64_emit :: "int \<Rightarrow> nat \<Rightarrow> string" where
  "b64_emit g t =
     [char_of (drop_bit 16 t AND 255)] @
     (if 1 < g then [char_of (drop_bit 8 t AND 255)] else []) @
     (if 2 < g then [char_of (t AND 255)] else [])"

definition b64_step ::
    "nat \<Rightarrow> char \<Rightarrow> int \<Rightarrow> nat \<Rightarrow> nat \<Rightarrow> string \<Rightarrow> (crypt \<times> string + int \<times> nat \<times> nat \<times> string) c" where
  "b64_step outlen x g y t out =
     (let c = b64_map ! of_char x in
      if c = 255 then Some (Inr (g, y, t, out))
      else
        let g = (if c = 254 then g - 1 else g);
            t = push_bit 6 t OR (if c = 254 then 0 else c)
        in
          if y + 1 \<noteq> 4 then Some (Inr (g, y + 1, t, out))
          else if int outlen < (int (length out) + g) mod 2 ^ 32
               then Some (Inl (CRYPT_BUFFER_OVERFLOW, out))
          else if outlen < length out + length (b64_emit g t) then None
          else Some (Inr (g, 0, 0, out @ b64_emit g t)))"

primrec b64_loop :: "nat \<Rightarrow> string \<Rightarrow> int \<times> nat \<times> nat \<times> string \<Rightarrow> (crypt \<times> string) c" where
  "b64_loop outlen [] st =
     (case st of (g, y, t, out) \<Rightarrow>
        if y \<noteq> 0 then Some (CRYPT_INVALID_PACKET, out) else Some (CRYPT_OK, out))"
| "b64_loop outlen (x # xs) st =
     (case st of (g, y, t, out) \<Rightarrow> do {
        r \<leftarrow> b64_step outlen x g y t out;
        case r of Inl res \<Rightarrow> Some res | Inr st' \<Rightarrow> b64_loop outlen xs st'
      })"

definition base64_decode :: "string \<Rightarrow> nat \<Rightarrow> (crypt \<times> string) c" where
  "base64_decode inp outlen = b64_loop outlen inp (3, 0, 0, [])"

section \<open>Round trip\<close>

lemma length_codes [simp]: "length codes = 64"
  by (simp add: codes_def)

lemma b64_map_codes_all: "map (\<lambda>c. b64_map ! of_char c) codes = [0..<64]"
  by (simp add: codes_def b64_map_def upt_rec)

lemma b64_map_codes [simp]:
  assumes "n < 64"
  shows "b64_map ! (of_char (codes ! n)) = n"
proof -
  have "map (\<lambda>c. b64_map ! of_char c) codes ! n = [0..<64] ! n"
    by (simp only: b64_map_codes_all)
  with assms show ?thesis by simp
qed

lemma b64_map_pad [simp]: "b64_map ! 61 = 254"
  by (simp add: b64_map_def)

lemma masks:
  fixes x :: nat
  shows "x AND 3 = x mod 4" "x AND 15 = x mod 16" "x AND 63 = x mod 64" "x AND 255 = x mod 256"
  using take_bit_eq_mask [of 2 x] take_bit_eq_mask [of 4 x]
    take_bit_eq_mask [of 6 x] take_bit_eq_mask [of 8 x]
  by (simp_all add: take_bit_eq_mod mask_eq_exp_minus_1)

lemma shift_or:
  fixes t :: nat
  assumes "n < 64"
  shows "push_bit 6 t OR n = 64 * t + n"
proof -
  have "push_bit 6 t AND n = 0"
  proof (rule bit_eqI)
    fix k
    show "bit (push_bit 6 t AND n) k = bit (0 :: nat) k"
    proof (cases "k < 6")
      case True
      then show ?thesis by (simp add: bit_simps)
    next
      case False
      have "n = take_bit 6 n"
        using assms by (simp add: take_bit_nat_eq_self)
      with False have "\<not> bit n k"
        by (metis bit_take_bit_iff)
      then show ?thesis by (simp add: bit_simps)
    qed
  qed
  then show ?thesis
    by (simp add: push_bit_eq_mult flip: disjunctive_add_eq_or)
qed

lemmas b64_arith = masks shift_or drop_bit_eq_div push_bit_eq_mult

text \<open>A code character inside a group only shifts its six bits into \<open>t\<close>.\<close>

lemma b64_step_code:
  assumes "n < 64" and "y < 3"
  shows "b64_step outlen (codes ! n) g y t out = Some (Inr (g, Suc y, 64 * t + n, out))"
  using assms by (simp add: b64_step_def Let_def shift_or)

lemma b64_step_pad:
  assumes "y < 3"
  shows "b64_step outlen (CHR ''='') g y t out = Some (Inr (g - 1, Suc y, 64 * t, out))"
  using assms by (simp add: b64_step_def Let_def push_bit_eq_mult mult.commute)

text \<open>The fourth character of a group stores the bytes of the group.\<close>

lemma b64_step_last_code:
  assumes "n < 64" and "length out + 3 \<le> outlen" and "outlen < 2 ^ 32"
  shows "b64_step outlen (codes ! n) 3 3 t out = Some (Inr (3, 0, 0, out @ b64_emit 3 (64 * t + n)))"
  using assms by (simp add: b64_step_def Let_def shift_or b64_emit_def)

lemma length_b64_emit: "1 \<le> g \<Longrightarrow> g \<le> 3 \<Longrightarrow> length (b64_emit g t) = nat g"
  by (auto simp: b64_emit_def)

lemma b64_step_last_pad:
  assumes "1 \<le> g" and "g \<le> 2" and "length out + nat g \<le> outlen" and "outlen < 2 ^ 32"
  shows "b64_step outlen (CHR ''='') (g + 1) 3 t out = Some (Inr (g, 0, 0, out @ b64_emit g (64 * t)))"
proof -
  have "(int (length out) + g) mod 2 ^ 32 = int (length out) + g"
    using assms by simp
  then show ?thesis
    using assms
    by (simp add: b64_step_def Let_def push_bit_eq_mult length_b64_emit mult.commute)
qed

text \<open>The loop on one group of four characters.\<close>

lemma b64_loop_full:
  assumes "n0 < 64" "n1 < 64" "n2 < 64" "n3 < 64" "length out + 3 \<le> outlen" "outlen < 2 ^ 32"
  shows "b64_loop outlen ([codes ! n0, codes ! n1, codes ! n2, codes ! n3] @ rest) (3, 0, 0, out) =
    b64_loop outlen rest (3, 0, 0, out @ b64_emit 3 (64 * (64 * (64 * n0 + n1) + n2) + n3))"
proof -
  have 3: "Suc (Suc (Suc 0)) = 3" by simp
  show ?thesis
    using assms by (simp add: b64_step_code 3 b64_step_last_code [simplified])
qed

lemma b64_loop_one_pad:
  assumes "n0 < 64" "n1 < 64" "n2 < 64" "length out + 2 \<le> outlen" "outlen < 2 ^ 32"
  shows "b64_loop outlen [codes ! n0, codes ! n1, codes ! n2, CHR ''=''] (3, 0, 0, out) =
    Some (CRYPT_OK, out @ b64_emit 2 (64 * (64 * (64 * n0 + n1) + n2)))"
proof -
  have 3: "Suc (Suc (Suc 0)) = 3" by simp
  show ?thesis
    using assms by (simp add: b64_step_code 3 b64_step_last_pad [of 2, simplified])
qed

lemma b64_loop_two_pads:
  assumes "n0 < 64" "n1 < 64" "length out + 1 \<le> outlen" "outlen < 2 ^ 32"
  shows "b64_loop outlen [codes ! n0, codes ! n1, CHR ''='', CHR ''=''] (3, 0, 0, out) =
    Some (CRYPT_OK, out @ b64_emit 1 (64 * (64 * (64 * n0 + n1))))"
proof -
  have 3: "Suc (Suc (Suc 0)) = 3" by simp
  show ?thesis
    using assms by (simp add: b64_step_code b64_step_pad 3 b64_step_last_pad [of 1, simplified])
qed

text \<open>The four sextets of three bytes, put together again, are the three bytes.\<close>

lemma b64_sextets:
  fixes a b d :: nat
  assumes "a < 256" and "b < 256" and "d < 256"
  shows "64 * (64 * (64 * (drop_bit 2 a AND 63) + ((push_bit 4 (a AND 3) + drop_bit 4 b) AND 63))
           + ((push_bit 2 (b AND 15) + drop_bit 6 d) AND 63)) + (d AND 63) = 65536 * a + 256 * b + d"
proof -
  have "(a div 4) mod 64 = a div 4" "(16 * (a mod 4) + b div 16) mod 64 = 16 * (a mod 4) + b div 16"
    "(4 * (b mod 16) + d div 64) mod 64 = 4 * (b mod 16) + d div 64"
    using assms by simp_all
  moreover have "64 * (64 * (64 * (a div 4) + (16 * (a mod 4) + b div 16)) + (4 * (b mod 16) + d div 64)) + d mod 64
      = 65536 * a + 256 * b + d"
  proof -
    have "a = 4 * p + q \<Longrightarrow> b = 16 * r + s \<Longrightarrow> d = 64 * t + u \<Longrightarrow>
      64 * (64 * (64 * p + (16 * q + r)) + (4 * s + t)) + u = 65536 * a + 256 * b + d" for p q r s t u :: nat
      by simp
    then show ?thesis by (metis mult_div_mod_eq)
  qed
  ultimately show ?thesis
    by (simp add: masks drop_bit_eq_div push_bit_eq_mult mult.commute)
qed

lemma b64_emit_bytes:
  assumes "a < 256" and "b < 256" and "d < 256"
  shows "b64_emit g (65536 * a + 256 * b + d) =
     [char_of a] @ (if 1 < g then [char_of b] else []) @ (if 2 < g then [char_of d] else [])"
proof -
  have "65536 * a + 256 * b + d = d + 256 * (256 * a + b)" by simp
  then have "(65536 * a + 256 * b + d) mod 256 = d"
    using assms by (metis mod_less mod_mult_self2)
  moreover have "(65536 * a + 256 * b + d) div 65536 = a"
    "(65536 * a + 256 * b + d) div 256 = 256 * a + b"
    using assms by simp_all
  ultimately show ?thesis
    using assms by (simp add: b64_emit_def masks drop_bit_eq_div)
qed

lemma and_63_less: "(n :: nat) AND 63 < 64"
  by (simp add: masks)

lemma of_char_less: "(of_char c :: nat) < 256"
  by simp

lemmas b64_group_facts =
  b64_sextets [OF of_char_less of_char_less of_char_less]
  b64_emit_bytes [OF of_char_less of_char_less of_char_less]

lemma b64_loop_three:
  assumes "length out + 3 \<le> outlen" and "outlen < 2 ^ 32"
  shows "b64_loop outlen (b64_groups (x # y # z # rest)) (3, 0, 0, out) =
    b64_loop outlen (b64_groups rest) (3, 0, 0, out @ [x, y, z])"
  unfolding b64_groups.simps Let_def
  by (subst b64_loop_full [OF and_63_less and_63_less and_63_less and_63_less assms])
    (simp only: b64_group_facts, simp)

lemma b64_loop_groups:
  assumes "length out + length s \<le> outlen" and "outlen < 2 ^ 32"
  shows "b64_loop outlen (b64_groups s) (3, 0, 0, out) = Some (CRYPT_OK, out @ s)"
  using assms
proof (induction s arbitrary: out rule: b64_groups.induct)
  case 1
  then show ?case by simp
next
  case (2 x)
  have "64 * (64 * (64 * (drop_bit 2 (of_char x) AND 63) + ((push_bit 4 (of_char x AND 3) + drop_bit 4 0) AND 63)))
      = 65536 * (of_char x :: nat)"
    using b64_sextets [of "of_char x" 0 0] by simp
  moreover have "b64_emit 1 (65536 * of_char x) = [x]"
    using b64_emit_bytes [of "of_char x" 0 0 1] by simp
  moreover have "length out + 1 \<le> outlen" using 2 by simp
  ultimately show ?case
    using 2 b64_loop_two_pads [OF and_63_less and_63_less, of out outlen]
    by (simp only: b64_groups.simps Let_def list.size add_0)
next
  case (3 x y)
  have "64 * (64 * (64 * (drop_bit 2 (of_char x) AND 63) +
      ((push_bit 4 (of_char x AND 3) + drop_bit 4 (of_char y)) AND 63)) + (push_bit 2 (of_char y AND 15) AND 63))
      = 65536 * of_char x + 256 * (of_char y :: nat)"
    using b64_sextets [of "of_char x" "of_char y" 0] by simp
  moreover have "b64_emit 2 (65536 * of_char x + 256 * of_char y) = [x, y]"
    using b64_emit_bytes [of "of_char x" "of_char y" 0 2] by simp
  moreover have "length out + 2 \<le> outlen" using 3 by simp
  ultimately show ?case
    using 3 b64_loop_one_pad [OF and_63_less and_63_less and_63_less, of out outlen]
    by (simp only: b64_groups.simps Let_def)
next
  case (4 x y z rest)
  then have "b64_loop outlen (b64_groups (x # y # z # rest)) (3, 0, 0, out) =
      b64_loop outlen (b64_groups rest) (3, 0, 0, out @ [x, y, z])"
    by (intro b64_loop_three) simp_all
  also have "\<dots> = Some (CRYPT_OK, (out @ [x, y, z]) @ rest)"
    using "4.prems" by (intro "4.IH") simp_all
  finally show ?case by simp
qed


lemma length_b64_groups: "length (b64_groups s) = 4 * ((length s + 2) div 3)"
proof (induction s rule: b64_groups.induct)
  case (4 x y z rest)
  have "(5 + length rest) div 3 = Suc ((length rest + 2) div 3)" by presburger
  with 4 show ?case by (simp add: Let_def)
qed (simp_all add: Let_def)

text \<open>C40. Round trip: whatever \<open>base64_encode\<close> stores successfully, \<open>base64_decode\<close> accepts and turns back
  into the encoded bytes, provided the output buffer has room for them.
\<close>

theorem base64_roundtrip:
  assumes "base64_encode s n = (CRYPT_OK, Some e)"
    and "length s \<le> outlen" and "outlen < 2 ^ 32"
  shows "base64_decode e outlen = Some (CRYPT_OK, s)"
  using assms b64_loop_groups [of "[]" s outlen]
  by (auto simp: base64_encode_def base64_decode_def Let_def split: if_splits)

theorem base64_roundtrip_witness:
  "base64_decode ''cm9vdA=='' 8192 = Some (CRYPT_OK, ''root'')"
proof (rule base64_roundtrip [of "''root''" 256])
  show "base64_encode ''root'' 256 = (CRYPT_OK, Some ''cm9vdA=='')"
    by (simp add: base64_encode_def codes_def Let_def)
qed simp_all

text \<open>The encoder stores exactly \<open>4 * ceil (n / 3)\<close> characters and refuses, without storing anything,
  precisely when they and the terminating NUL do not fit.
\<close>

theorem base64_encode_length:
  "base64_encode s n =
     (if 4 * ((length s + 2) div 3) < n then (CRYPT_OK, Some (b64_groups s)) else (CRYPT_BUFFER_OVERFLOW, None))
   \<and> length (b64_groups s) = 4 * ((length s + 2) div 3)"
  by (auto simp: base64_encode_def Let_def length_b64_groups)

end
