(* ===== verification/Attr_Show.thy ===== *)
theory Attr_Show
  imports Build_Config Base64
begin

text \<open>
  The functions of \<^verbatim>\<open>src/package/ezp-nvram/src/ezp-lib.c\<close> that copy the value of one attribute into the
  caller's buffer (\<^verbatim>\<open>show_value\<close> and its variants), and the types of the attribute tables that refer to
  them.  Each function returns the \<^verbatim>\<open>int\<close> of the code together with the contents of the caller's
  buffer, which is \<^term>\<open>None\<close> when the function leaves the buffer alone.
\<close>

unbundle bit_operations_syntax

definition EZPLIB_BUF_LEN :: nat where "EZPLIB_BUF_LEN = 8192"

definition EZPLIB_USE_CLI :: int where "EZPLIB_USE_CLI = 0"
definition EZPLIB_USE_WEB :: int where "EZPLIB_USE_WEB = 1"

definition EZPLIB_INVALID :: int where "EZPLIB_INVALID = -1"
definition EZPLIB_VAL_TRUNC :: int where "EZPLIB_VAL_TRUNC = -2"
definition EZPLIB_NO_RULE_SET :: int where "EZPLIB_NO_RULE_SET = -3"
definition EZPLIB_NO_RULE :: int where "EZPLIB_NO_RULE = -4"
definition EZPLIB_NO_ATTRIBUTE :: int where "EZPLIB_NO_ATTRIBUTE = -5"
definition EZPLIB_IDX_OUT_RANGE :: int where "EZPLIB_IDX_OUT_RANGE = -6"

lemmas ezplib_codes =
  EZPLIB_INVALID_def EZPLIB_VAL_TRUNC_def EZPLIB_NO_RULE_SET_def EZPLIB_NO_RULE_def
  EZPLIB_NO_ATTRIBUTE_def EZPLIB_IDX_OUT_RANGE_def EZPLIB_USE_CLI_def EZPLIB_USE_WEB_def
  EZPLIB_BUF_LEN_def

type_synonym show_result = "int \<times> string option"

text \<open>
  \<^verbatim>\<open>if (snprintf(buf, bsize, "%s", s) >= bsize) return EZPLIB_VAL_TRUNC; ... return strlen(buf);\<close>
\<close>

definition show_snprintf :: "string \<Rightarrow> nat \<Rightarrow> show_result" where
  "show_snprintf s bsize =
     (if bsize = 0 then (EZPLIB_VAL_TRUNC, None)
      else if bsize \<le> length s then (EZPLIB_VAL_TRUNC, Some (snprintf_store bsize s))
      else (int (length s), Some s))"

definition show_enable_value :: "string option \<Rightarrow> nat \<Rightarrow> show_result" where
  "show_enable_value val bsize =
     (case val of
        None \<Rightarrow> (EZPLIB_NO_ATTRIBUTE, None)
      | Some v \<Rightarrow> show_snprintf (if v = ''1'' then ''enabled'' else ''disabled'') bsize)"

definition show_value :: "string option \<Rightarrow> nat \<Rightarrow> show_result" where
  "show_value val bsize =
     (case val of
        None \<Rightarrow> (EZPLIB_NO_ATTRIBUTE, None)
      | Some v \<Rightarrow> show_snprintf v bsize)"

definition iftype :: "string list" where
  "iftype = [''wan'', ''lan'']"

text \<open>
  \<^verbatim>\<open>show_if_value\<close> compares the whole value with the interface types, so the text behind the type
  (\<^verbatim>\<open>ptr = val + len\<close>) is always empty when a type is found.
\<close>

definition show_if_value :: "string option \<Rightarrow> nat \<Rightarrow> show_result" where
  "show_if_value val bsize =
     (case val of
        None \<Rightarrow> (EZPLIB_NO_ATTRIBUTE, None)
      | Some v \<Rightarrow>
          (case List.find (\<lambda>t. v = t) iftype of
             None \<Rightarrow> show_snprintf v bsize
           | Some t \<Rightarrow>
               (let ptr = drop (length t) v; idx = atoi ptr + 1
                in show_snprintf (t @ int_to_dec idx) bsize)))"

definition show_proto_value :: "string option \<Rightarrow> nat \<Rightarrow> show_result" where
  "show_proto_value val bsize =
     (case val of
        None \<Rightarrow> (EZPLIB_NO_ATTRIBUTE, None)
      | Some v \<Rightarrow>
          if v = ''both'' then show_snprintf ''UDP/TCP'' bsize
          else if v = ''tcp'' then show_snprintf ''TCP'' bsize
          else if v = ''udp'' then show_snprintf ''UDP'' bsize
          else show_snprintf v bsize)"

text \<open>
  \<^verbatim>\<open>for (i = 0; i < maskbits; i++) mask |= 1 << (31 - i);\<close> on the 32-bit \<^verbatim>\<open>unsigned long\<close>, and the
  dotted-quad text that \<^verbatim>\<open>inet_ntoa\<close> gives it.
\<close>

definition netmask_bits :: "nat \<Rightarrow> 32 word" where
  "netmask_bits maskbits = foldl (\<lambda>m i. m OR push_bit (31 - i) 1) 0 [0..<maskbits]"

definition inet_ntoa :: "32 word \<Rightarrow> string" where
  "inet_ntoa a =
     nat_to_dec (unat (drop_bit 24 a AND 255)) @ ''.'' @
     nat_to_dec (unat (drop_bit 16 a AND 255)) @ ''.'' @
     nat_to_dec (unat (drop_bit 8 a AND 255)) @ ''.'' @
     nat_to_dec (unat (a AND 255))"

definition show_mask_value :: "string option \<Rightarrow> nat \<Rightarrow> show_result" where
  "show_mask_value val bsize =
     (case val of
        None \<Rightarrow> (EZPLIB_NO_ATTRIBUTE, None)
      | Some v \<Rightarrow>
          (let maskbits = atoi v in
           if 1 \<le> maskbits \<and> maskbits \<le> 32
           then show_snprintf (inet_ntoa (netmask_bits (nat maskbits))) bsize
           else show_snprintf '''' bsize))"

text \<open>
  The return code of \<^verbatim>\<open>base64_decode\<close> is ignored.  After an error \<^verbatim>\<open>outlen\<close> still is the size of \<^verbatim>\<open>tmp\<close>,
  and the following \<^verbatim>\<open>tmp[outlen] = '\0'\<close> writes behind the array.
\<close>

definition show_b64_value :: "string option \<Rightarrow> nat \<Rightarrow> show_result c" where
  "show_b64_value val bsize =
     (case val of
        None \<Rightarrow> Some (EZPLIB_NO_ATTRIBUTE, None)
      | Some v \<Rightarrow> do {
          (rc, out) \<leftarrow> base64_decode v EZPLIB_BUF_LEN;
          if rc = CRYPT_OK \<and> length out < EZPLIB_BUF_LEN
          then Some (show_snprintf (c_string out) bsize)
          else None
        })"

section \<open>Types of the tables\<close>

text \<open>The function pointers of \<^verbatim>\<open>struct attr\<close>, by name.\<close>

datatype show_fn =
    Show_value | Show_enable_value | Show_if_value | Show_proto_value | Show_mask_value | Show_b64_value

fun show_call :: "show_fn \<Rightarrow> string option \<Rightarrow> nat \<Rightarrow> show_result c" where
  "show_call Show_value val bsize = Some (show_value val bsize)"
| "show_call Show_enable_value val bsize = Some (show_enable_value val bsize)"
| "show_call Show_if_value val bsize = Some (show_if_value val bsize)"
| "show_call Show_proto_value val bsize = Some (show_proto_value val bsize)"
| "show_call Show_mask_value val bsize = Some (show_mask_value val bsize)"
| "show_call Show_b64_value val bsize = show_b64_value val bsize"

record attr =
  attr_name :: "string option"
  func_orig :: "show_fn option"
  func_wrap :: "show_fn option"

definition attr_entry :: "string \<Rightarrow> show_fn \<Rightarrow> show_fn \<Rightarrow> attr" where
  "attr_entry n f g = \<lparr>attr_name = Some n, func_orig = Some f, func_wrap = Some g\<rparr>"

definition attr_null :: attr where
  "attr_null = \<lparr>attr_name = None, func_orig = None, func_wrap = None\<rparr>"

record rule =
  rule_name :: "string option"
  rule_attr :: "attr list"

definition rule_entry :: "string \<Rightarrow> attr list \<Rightarrow> rule" where
  "rule_entry n a = \<lparr>rule_name = Some n, rule_attr = a\<rparr>"

definition rule_null :: rule where
  "rule_null = \<lparr>rule_name = None, rule_attr = []\<rparr>"

lemma attr_entry_sel [simp]:
  "attr_name (attr_entry n f g) = Some n" "func_orig (attr_entry n f g) = Some f"
  "func_wrap (attr_entry n f g) = Some g"
  by (simp_all add: attr_entry_def)

lemma attr_null_sel [simp]:
  "attr_name attr_null = None" "func_orig attr_null = None" "func_wrap attr_null = None"
  by (simp_all add: attr_null_def)

lemma rule_entry_sel [simp]:
  "rule_name (rule_entry n a) = Some n" "rule_attr (rule_entry n a) = a"
  by (simp_all add: rule_entry_def)

lemma rule_null_sel [simp]: "rule_name rule_null = None"
  by (simp add: rule_null_def)

section \<open>What the functions store\<close>

lemma show_snprintf_fits: "length s < bsize \<Longrightarrow> show_snprintf s bsize = (int (length s), Some s)"
  by (simp add: show_snprintf_def)

text \<open>No function of this kind stores more than the caller's buffer holds.\<close>

lemma show_snprintf_bounded:
  "show_snprintf s bsize = (r, Some t) \<Longrightarrow> 0 < bsize \<Longrightarrow> length t < bsize"
  by (auto simp: show_snprintf_def snprintf_store_def split: if_splits)

lemma show_call_bounded:
  assumes "show_call f val bsize = Some (r, Some t)" and "0 < bsize"
  shows "length t < bsize"
  using assms
  by (cases f)
    (auto simp: show_value_def show_enable_value_def show_if_value_def show_proto_value_def
      show_mask_value_def show_b64_value_def Let_def
      dest: show_snprintf_bounded split: option.splits if_splits bind_splits)

text \<open>\<^verbatim>\<open>show_b64_value\<close> undoes \<^verbatim>\<open>base64_encode\<close> on values without NUL.\<close>

lemma show_b64_value_encoded:
  assumes "base64_encode s n = (CRYPT_OK, Some e)"
    and "length s < EZPLIB_BUF_LEN" and "CHR 0x00 \<notin> set s"
  shows "show_b64_value (Some e) bsize = Some (show_snprintf s bsize)"
proof -
  have "base64_decode e EZPLIB_BUF_LEN = Some (CRYPT_OK, s)"
    using assms(1) b64_loop_groups [of "[]" s EZPLIB_BUF_LEN] assms(2)
    by (auto simp: base64_encode_def base64_decode_def Let_def EZPLIB_BUF_LEN_def split: if_splits)
  then show ?thesis
    using assms(2,3) by (simp add: show_b64_value_def)
qed

end
