(* ===== verification/Rule_Tables.thy ===== *)
theory Rule_Tables
  imports Attr_Show
begin

text \<open>
  The attribute tables of \<^verbatim>\<open>src/package/ezp-nvram/src/ezp-lib.c\<close>: one table per kind of rule, which
  names the attributes of a rule in their order and the functions that show them, and the table
  \<^verbatim>\<open>rules\<close> that gives every rule set its attribute table.  The sentinel entries that end the arrays
  are list elements, so that an array without a sentinel is visible as such.  An entry that the
  preprocessor includes only in some builds is guarded by the macro; \<open>D\<close> tells which macros
  are defined.
\<close>

section \<open>Attribute tables\<close>

definition aximddns_rule_attr :: "attr list" where
  [table_defs]: "aximddns_rule_attr =
     [attr_entry ''user_enable'' Show_value Show_enable_value,
      attr_entry ''user_name'' Show_value Show_enable_value,
      attr_entry ''user_counter'' Show_value Show_enable_value,
      attr_entry ''default_counter'' Show_value Show_enable_value,
      attr_entry ''trycnnt_countdown'' Show_value Show_enable_value,
      attr_null]"

definition aximddns_tmp_rule_attr :: "attr list" where
  [table_defs]: "aximddns_tmp_rule_attr =
     [attr_entry ''user_enable'' Show_value Show_enable_value,
      attr_entry ''user_name'' Show_value Show_enable_value,
      attr_entry ''user_counter'' Show_value Show_enable_value,
      attr_entry ''wan_ip'' Show_value Show_enable_value,
      attr_null]"

definition cgi_progress_attr :: "attr list" where
  [table_defs]: "cgi_progress_attr =
     [attr_entry ''pid'' Show_value Show_value,
      attr_entry ''copy_file'' Show_value Show_value,
      attr_entry ''copy_number'' Show_value Show_value,
      attr_entry ''files_count'' Show_value Show_value,
      attr_entry ''copy_size'' Show_value Show_value,
      attr_entry ''percent'' Show_value Show_value,
      attr_entry ''copying'' Show_value Show_value,
      attr_entry ''copy_status'' Show_value Show_value,
      attr_null]"

definition mac_sense_attr :: "attr list" where
  [table_defs]: "mac_sense_attr =
     [attr_entry ''proto'' Show_value Show_value,
      attr_entry ''server_ip'' Show_value Show_value,
      attr_entry ''server_port'' Show_value Show_value,
      attr_entry ''server_time'' Show_value Show_value,
      attr_entry ''server_timeout'' Show_value Show_value,
      attr_entry ''wds_enable'' Show_value Show_value,
      attr_entry ''remote_ip'' Show_value Show_value,
      attr_null]"

definition file_mode_attr :: "attr list" where
  [table_defs]: "file_mode_attr =
     [attr_entry ''enable'' Show_value Show_value,
      attr_entry ''sd'' Show_value Show_value,
      attr_entry ''usb'' Show_value Show_value,
      attr_entry ''record_1'' Show_value Show_value,
      attr_entry ''record_2'' Show_value Show_value,
      attr_entry ''record_3'' Show_value Show_value,
      attr_null]"

definition relay_schedule_attr :: "attr list" where
  [table_defs]: "relay_schedule_attr =
     [attr_entry ''sun'' Show_value Show_value,
      attr_entry ''mon'' Show_value Show_value,
      attr_entry ''tue'' Show_value Show_value,
      attr_entry ''wed'' Show_value Show_value,
      attr_entry ''thu'' Show_value Show_value,
      attr_entry ''fri'' Show_value Show_value,
      attr_entry ''sat'' Show_value Show_value,
      attr_null]"

definition mail_attr :: "attr list" where
  [table_defs]: "mail_attr =
     [attr_entry ''battery'' Show_value Show_value,
      attr_entry ''sd'' Show_value Show_value,
      attr_entry ''usb'' Show_value Show_value,
      attr_entry ''relay'' Show_value Show_value,
      attr_entry ''gpio'' Show_value Show_value,
      attr_entry ''sms'' Show_value Show_value,
      attr_entry ''mail'' Show_value Show_value,
      attr_entry ''address_1'' Show_value Show_value,
      attr_entry ''address_2'' Show_value Show_value,
      attr_entry ''send_mail'' Show_value Show_value,
      attr_entry ''email'' Show_value Show_value,
      attr_entry ''phone'' Show_value Show_value,
      attr_entry ''server'' Show_value Show_value,
      attr_entry ''act'' Show_value Show_value,
      attr_entry ''pwd'' Show_value Show_value,
      attr_null]"

definition failover_attr :: "attr list" where
  [table_defs]: "failover_attr =
     [attr_entry ''enable'' Show_value Show_value,
      attr_entry ''type'' Show_value Show_value,
      attr_entry ''count'' Show_value Show_value,
      attr_null]"

definition alert_attr :: "attr list" where
  [table_defs]: "alert_attr =
     [attr_entry ''battery'' Show_value Show_value,
      attr_entry ''sd'' Show_value Show_value,
      attr_entry ''usb'' Show_value Show_value,
      attr_entry ''relay'' Show_value Show_value,
      attr_entry ''gpio'' Show_value Show_value,
      attr_null]"

definition relay_attr :: "attr list" where
  [table_defs]: "relay_attr =
     [attr_entry ''enable'' Show_value Show_value,
      attr_entry ''option'' Show_value Show_value,
      attr_null]"

definition als_battery_rule_attr :: "attr list" where
  [table_defs]: "als_battery_rule_attr =
     [attr_entry ''battery'' Show_value Show_value,
      attr_null]"

definition als_status_rule_attr :: "attr list" where
  [table_defs]: "als_status_rule_attr =
     [attr_entry ''enable'' Show_value Show_value,
      attr_entry ''mode'' Show_value Show_value,
      attr_entry ''tx'' Show_value Show_value,
      attr_entry ''rx'' Show_value Show_value,
      attr_entry ''isp1'' Show_value Show_value,
      attr_entry ''isp2'' Show_value Show_value,
      attr_entry ''isp3'' Show_value Show_value,
      attr_entry ''isp4'' Show_value Show_value,
      attr_null]"

definition als_serial_rule_attr :: "attr list" where
  [table_defs]: "als_serial_rule_attr =
     [attr_entry ''alias'' Show_value Show_value,
      attr_entry ''baudrate'' Show_value Show_value,
      attr_entry ''databit'' Show_value Show_value,
      attr_entry ''stopbit'' Show_value Show_value,
      attr_entry ''parity'' Show_value Show_value,
      attr_entry ''flow'' Show_value Show_value,
      attr_entry ''fifo'' Show_value Show_value,
      attr_entry ''device'' Show_value Show_value,
      attr_null]"

definition als_operating_rule_attr :: "attr list" where
  [table_defs]: "als_operating_rule_attr =
     [attr_entry ''mode'' Show_value Show_value,
      attr_entry ''alive'' Show_value Show_value,
      attr_entry ''inactive'' Show_value Show_value,
      attr_entry ''max_connect'' Show_value Show_value,
      attr_entry ''jammed_ip'' Show_value Show_value,
      attr_null]"

definition als_operating_data_packing_rule_attr :: "attr list" where
  [table_defs]: "als_operating_data_packing_rule_attr =
     [attr_entry ''length'' Show_value Show_value,
      attr_entry ''transmit'' Show_value Show_value,
      attr_null]"

definition als_operating_option_rule_attr :: "attr list" where
  [table_defs]: "als_operating_option_rule_attr =
     [attr_entry ''tcp_port'' Show_value Show_value,
      attr_entry ''ip_1'' Show_value Show_value,
      attr_entry ''ip_port_1'' Show_value Show_value,
      attr_entry ''ip_2'' Show_value Show_value,
      attr_entry ''ip_port_2'' Show_value Show_value,
      attr_entry ''ip_3'' Show_value Show_value,
      attr_entry ''ip_port_3'' Show_value Show_value,
      attr_entry ''ip_4'' Show_value Show_value,
      attr_entry ''ip_port_4'' Show_value Show_value,
      attr_entry ''port_1'' Show_value Show_value,
      attr_entry ''port_2'' Show_value Show_value,
      attr_entry ''port_3'' Show_value Show_value,
      attr_entry ''port_4'' Show_value Show_value,
      attr_entry ''udp_port'' Show_value Show_value,
      attr_null]"

definition plug_rule_attr :: "attr list" where
  [table_defs]: "plug_rule_attr =
     [attr_entry ''ethernet'' Show_value Show_value,
      attr_entry ''wisp'' Show_value Show_value,
      attr_entry ''usb'' Show_value Show_value,
      attr_null]"

definition cnnt_rule_attr :: "attr list" where
  [table_defs]: "cnnt_rule_attr =
     [attr_entry ''expand'' Show_value Show_value,
      attr_entry ''name'' Show_value Show_value,
      attr_entry ''enable'' Show_value Show_enable_value,
      attr_entry ''connection'' Show_value Show_value,
      attr_entry ''proto'' Show_value Show_value,
      attr_null]"

definition fr_rule_attr :: "attr list" where
  [table_defs]: "fr_rule_attr =
     [attr_entry ''name'' Show_value Show_value,
      attr_entry ''enable'' Show_value Show_enable_value,
      attr_entry ''extif'' Show_value Show_value,
      attr_entry ''proto'' Show_value Show_proto_value,
      attr_entry ''extport_start'' Show_value Show_value,
      attr_entry ''extport_end'' Show_value Show_value,
      attr_entry ''ipaddr'' Show_value Show_value,
      attr_entry ''inport_start'' Show_value Show_value,
      attr_entry ''inport_end'' Show_value Show_value,
      attr_null]"

definition wizard_rule_attr :: "attr list" where
  [table_defs]: "wizard_rule_attr =
     [attr_entry ''set_wizard'' Show_value Show_value,
      attr_entry ''admin'' Show_value Show_value,
      attr_entry ''mode'' Show_value Show_value,
      attr_entry ''wan_trad'' Show_value Show_value,
      attr_entry ''wan_wwan'' Show_value Show_value,
      attr_entry ''bw'' Show_value Show_value,
      attr_entry ''time'' Show_value Show_value,
      attr_entry ''wifi'' Show_value Show_value,
      attr_null]"

definition vs_rule_attr :: "attr list" where
  [table_defs]: "vs_rule_attr =
     [attr_entry ''name'' Show_value Show_value,
      attr_entry ''enable'' Show_value Show_enable_value,
      attr_entry ''extif'' Show_value Show_value,
      attr_entry ''index'' Show_value Show_value,
      attr_entry ''wan_ipaddr'' Show_value Show_value,
      attr_entry ''mapped_ipaddr'' Show_value Show_value,
      attr_null]"

definition wan_main_rule_attr :: "attr list" where
  [table_defs]: "wan_main_rule_attr =
     [attr_entry ''name'' Show_value Show_value,
      attr_entry ''enable'' Show_value Show_enable_value,
      attr_entry ''mtu'' Show_value Show_value,
      attr_entry ''stp'' Show_value Show_value,
      attr_entry ''maxcount'' Show_value Show_value,
      attr_null]"

definition wan_detect_rule_attr :: "attr list" where
  [table_defs]: "wan_detect_rule_attr =
     [attr_entry ''enable'' Show_value Show_enable_value,
      attr_entry ''threshold'' Show_value Show_value,
      attr_entry ''timeout'' Show_value Show_value,
      attr_entry ''type'' Show_value Show_value,
      attr_entry ''host_type'' Show_value Show_value,
      attr_entry ''host'' Show_value Show_value,
      attr_null]"

definition wan_lb_rule_attr :: "attr list" where
  [table_defs]: "wan_lb_rule_attr =
     [attr_entry ''type'' Show_value Show_value,
      attr_entry ''weight'' Show_value Show_value,
      attr_entry ''target'' Show_value Show_value,
      attr_entry ''backup'' Show_value Show_value,
      attr_entry ''failback'' Show_value Show_value,
      attr_null]"

definition wan_status_rule_attr :: "(macro \<Rightarrow> bool) \<Rightarrow> attr list" where
  [table_defs]: "wan_status_rule_attr D =
     [attr_entry ''state'' Show_value Show_value,
      attr_entry ''trycount'' Show_value Show_value,
      attr_entry ''action'' Show_value Show_value,
      attr_entry ''uptime'' Show_value Show_value] @
     (if D PLATFORM_AXA \<or> D PLATFORM_M2E \<or> D PLATFORM_ALS then [attr_entry ''wisp_trycount'' Show_value Show_value] else []) @
     (if D EZP_PROD_BRAND_PROX then [attr_entry ''usb_trycount'' Show_value Show_value] else []) @
     (if D EZP_SUB_BRAND_GARMIN then [attr_entry ''priority_index'' Show_value Show_value,
      attr_entry ''priority_num'' Show_value Show_value] else []) @
     [attr_null]"

definition wan_action_style_rule_attr :: "attr list" where
  [table_defs]: "wan_action_style_rule_attr =
     [attr_entry ''upfb'' Show_value Show_value,
      attr_entry ''downfb'' Show_value Show_value,
      attr_null]"

definition storage_device_mount_rule_attr :: "attr list" where
  [table_defs]: "storage_device_mount_rule_attr =
     [attr_entry ''uport'' Show_value Show_value,
      attr_entry ''mnt'' Show_value Show_value,
      attr_entry ''smb_create_mask'' Show_value Show_value,
      attr_entry ''smb_dir_mask'' Show_value Show_value,
      attr_entry ''smb_guest_ok'' Show_value Show_value,
      attr_entry ''smb_read_only'' Show_value Show_value,
      attr_null]"

definition countdown_rule_attr :: "attr list" where
  [table_defs]: "countdown_rule_attr =
     [attr_entry ''w_enable'' Show_value Show_value,
      attr_entry ''w_countdown'' Show_value Show_value,
      attr_entry ''w_count'' Show_value Show_value,
      attr_entry ''p_enable'' Show_value Show_value,
      attr_entry ''p_countdown'' Show_value Show_value,
      attr_entry ''p_count'' Show_value Show_value,
      attr_null]"

definition license_status_rule_attr :: "attr list" where
  [table_defs]: "license_status_rule_attr =
     [attr_entry ''state'' Show_value Show_value,
      attr_entry ''trycount'' Show_value Show_value,
      attr_null]"

definition wan_upnp_status_rule_attr :: "attr list" where
  [table_defs]: "wan_upnp_status_rule_attr =
     [attr_entry ''state'' Show_value Show_value,
      attr_entry ''action'' Show_value Show_value,
      attr_entry ''proto'' Show_value Show_value,
      attr_null]"

definition wan_bw_rule_attr :: "attr list" where
  [table_defs]: "wan_bw_rule_attr =
     [attr_entry ''type'' Show_value Show_value,
      attr_entry ''dl'' Show_value Show_value,
      attr_entry ''ul'' Show_value Show_value,
      attr_entry ''expert_dl'' Show_value Show_value,
      attr_entry ''expert_ul'' Show_value Show_value,
      attr_entry ''link_percent'' Show_value Show_value,
      attr_entry ''global_percent'' Show_value Show_value,
      attr_entry ''user_percent'' Show_value Show_value,
      attr_entry ''dbm_upmax'' Show_value Show_value,
      attr_entry ''dbm_upmin'' Show_value Show_value,
      attr_entry ''dbm_downmax'' Show_value Show_value,
      attr_entry ''dbm_downmin'' Show_value Show_value,
      attr_null]"

definition wan_static_rule_attr :: "attr list" where
  [table_defs]: "wan_static_rule_attr =
     [attr_entry ''ipaddr'' Show_value Show_value,
      attr_entry ''mask'' Show_value Show_value,
      attr_entry ''gateway'' Show_value Show_value,
      attr_entry ''dns1'' Show_value Show_value,
      attr_entry ''dns2'' Show_value Show_value,
      attr_entry ''wins'' Show_value Show_value,
      attr_null]"

definition wan_dhcp_rule_attr :: "attr list" where
  [table_defs]: "wan_dhcp_rule_attr =
     [attr_entry ''hostname'' Show_value Show_value,
      attr_entry ''domain'' Show_value Show_value,
      attr_entry ''lease'' Show_value Show_value,
      attr_null]"

definition wan_pppoe_rule_attr :: "attr list" where
  [table_defs]: "wan_pppoe_rule_attr =
     [attr_entry ''auth'' Show_value Show_value,
      attr_entry ''username'' Show_b64_value Show_value,
      attr_entry ''passwd'' Show_b64_value Show_value,
      attr_entry ''demand'' Show_value Show_value,
      attr_entry ''idletime'' Show_value Show_value,
      attr_entry ''echo_failure'' Show_value Show_value,
      attr_entry ''redialperiod'' Show_value Show_value,
      attr_entry ''mru'' Show_value Show_value,
      attr_entry ''mtu'' Show_value Show_value,
      attr_null]"

definition wan_bigpond_rule_attr :: "attr list" where
  [table_defs]: "wan_bigpond_rule_attr =
     [attr_entry ''enable'' Show_value Show_value,
      attr_entry ''server'' Show_value Show_value,
      attr_entry ''username'' Show_value Show_value,
      attr_entry ''passwd'' Show_value Show_value,
      attr_null]"

definition wan_wwan_rule_attr :: "attr list" where
  [table_defs]: "wan_wwan_rule_attr =
     [attr_entry ''apn_type'' Show_value Show_value,
      attr_entry ''location'' Show_value Show_value,
      attr_entry ''isp'' Show_value Show_value,
      attr_entry ''apn'' Show_value Show_value,
      attr_entry ''pin'' Show_value Show_value,
      attr_entry ''mode'' Show_value Show_value,
      attr_entry ''auth'' Show_value Show_value,
      attr_entry ''username'' Show_value Show_value,
      attr_entry ''passwd'' Show_value Show_value,
      attr_entry ''demand'' Show_value Show_value,
      attr_entry ''idletime'' Show_value Show_value,
      attr_entry ''echo_failure'' Show_value Show_value,
      attr_entry ''redialperiod'' Show_value Show_value,
      attr_entry ''mru'' Show_value Show_value,
      attr_entry ''mtu'' Show_value Show_value,
      attr_entry ''dialstr'' Show_value Show_value,
      attr_entry ''brand'' Show_value Show_value,
      attr_entry ''model'' Show_value Show_value,
      attr_entry ''ttynum'' Show_value Show_value,
      attr_entry ''datatty'' Show_value Show_value,
      attr_entry ''ctrltty'' Show_value Show_value,
      attr_entry ''devname'' Show_value Show_value,
      attr_entry ''flag'' Show_value Show_value,
      attr_entry ''turbolink'' Show_value Show_enable_value,
      attr_null]"

definition wan_barry_rule_attr :: "attr list" where
  [table_defs]: "wan_barry_rule_attr =
     [attr_entry ''barrypasswd'' Show_value Show_value,
      attr_entry ''apn_type'' Show_value Show_value,
      attr_entry ''location'' Show_value Show_value,
      attr_entry ''isp'' Show_value Show_value,
      attr_entry ''apn'' Show_value Show_value,
      attr_entry ''username'' Show_value Show_value,
      attr_entry ''password'' Show_value Show_value,
      attr_entry ''dialstr'' Show_value Show_value,
      attr_entry ''turbolink'' Show_value Show_enable_value,
      attr_null]"

definition wan_htc_rule_attr :: "attr list" where
  [table_defs]: "wan_htc_rule_attr =
     [attr_entry ''hostname'' Show_value Show_value,
      attr_entry ''domain'' Show_value Show_value,
      attr_entry ''lease'' Show_value Show_value,
      attr_entry ''mtu'' Show_value Show_value,
      attr_entry ''turbolink'' Show_value Show_enable_value,
      attr_null]"

definition wan_beceem_rule_attr :: "attr list" where
  [table_defs]: "wan_beceem_rule_attr =
     [attr_entry ''isp'' Show_value Show_value,
      attr_entry ''username'' Show_value Show_value,
      attr_entry ''password'' Show_value Show_value,
      attr_null]"

definition wan_wimax_rule_attr :: "attr list" where
  [table_defs]: "wan_wimax_rule_attr =
     [attr_entry ''mtu'' Show_value Show_value,
      attr_entry ''turbolink'' Show_value Show_enable_value,
      attr_null]"

definition wan_iphone_rule_attr :: "attr list" where
  [table_defs]: "wan_iphone_rule_attr =
     [attr_entry ''hostname'' Show_value Show_value,
      attr_entry ''domain'' Show_value Show_value,
      attr_entry ''lease'' Show_value Show_value,
      attr_entry ''mtu'' Show_value Show_value,
      attr_entry ''turbolink'' Show_value Show_enable_value,
      attr_null]"

definition wan_wwan_probe_rule_attr :: "attr list" where
  [table_defs]: "wan_wwan_probe_rule_attr =
     [attr_entry ''brand'' Show_value Show_value,
      attr_entry ''model'' Show_value Show_value,
      attr_entry ''signal'' Show_value Show_value,
      attr_entry ''ttynum'' Show_value Show_value,
      attr_entry ''datatty'' Show_value Show_value,
      attr_entry ''ctrltty'' Show_value Show_value,
      attr_entry ''devname'' Show_value Show_value,
      attr_entry ''flag'' Show_value Show_value,
      attr_entry ''sig'' Show_value Show_value,
      attr_entry ''imei'' Show_value Show_value,
      attr_entry ''provider'' Show_value Show_value,
      attr_entry ''firmware'' Show_value Show_value,
      attr_entry ''apn'' Show_value Show_value,
      attr_entry ''vendor'' Show_value Show_value,
      attr_entry ''product'' Show_value Show_value,
      attr_entry ''stayfg'' Show_value Show_value,
      attr_null]"

definition wan_hwaddr_rule_default_attr :: "attr list" where
  [table_defs]: "wan_hwaddr_rule_default_attr =
     [attr_entry ''hwaddr'' Show_value Show_value,
      attr_null]"

definition wan_hwaddr_clone_rule_attr :: "attr list" where
  [table_defs]: "wan_hwaddr_clone_rule_attr =
     [attr_entry ''enable'' Show_value Show_enable_value,
      attr_entry ''hwaddr'' Show_value Show_value,
      attr_null]"

definition wan_ddns_rule_attr :: "attr list" where
  [table_defs]: "wan_ddns_rule_attr =
     [attr_entry ''name'' Show_value Show_value,
      attr_entry ''enable'' Show_value Show_enable_value,
      attr_entry ''type'' Show_value Show_value,
      attr_entry ''username'' Show_value Show_value,
      attr_entry ''passwd'' Show_value Show_value,
      attr_entry ''hostname'' Show_value Show_value,
      attr_entry ''server'' Show_value Show_value,
      attr_null]"

definition wan_apple_filter_rule_attr :: "attr list" where
  [table_defs]: "wan_apple_filter_rule_attr =
     [attr_entry ''host'' Show_value Show_value,
      attr_entry ''ipaddr'' Show_value Show_value,
      attr_null]"

definition wan_opendns_rule_attr :: "attr list" where
  [table_defs]: "wan_opendns_rule_attr =
     [attr_entry ''name'' Show_value Show_value,
      attr_entry ''enable'' Show_value Show_enable_value,
      attr_entry ''username'' Show_value Show_value,
      attr_entry ''passwd'' Show_value Show_value,
      attr_entry ''redirect'' Show_value Show_value,
      attr_entry ''label'' Show_value Show_value,
      attr_null]"

definition lan_main_rule_attr :: "attr list" where
  [table_defs]: "lan_main_rule_attr =
     [attr_entry ''name'' Show_value Show_value,
      attr_entry ''enable'' Show_value Show_value,
      attr_entry ''mtu'' Show_value Show_value,
      attr_entry ''stp'' Show_value Show_value,
      attr_entry ''weight'' Show_value Show_value,
      attr_null]"

definition wan_pptp_l2tp_global_rule_attr :: "attr list" where
  [table_defs]: "wan_pptp_l2tp_global_rule_attr =
     [attr_entry ''enable'' Show_value Show_value,
      attr_entry ''selected'' Show_value Show_value,
      attr_entry ''enabled'' Show_value Show_value]"

definition wan_pptp_l2tp_rule_attr :: "attr list" where
  [table_defs]: "wan_pptp_l2tp_rule_attr =
     [attr_entry ''enable'' Show_value Show_value,
      attr_entry ''name'' Show_value Show_value,
      attr_entry ''vpn_type'' Show_value Show_value,
      attr_entry ''host'' Show_value Show_value,
      attr_entry ''ipaddr'' Show_value Show_value,
      attr_entry ''netmask'' Show_value Show_value,
      attr_entry ''gateway'' Show_value Show_value,
      attr_entry ''username'' Show_value Show_value,
      attr_entry ''passwd'' Show_value Show_value,
      attr_entry ''nailup'' Show_value Show_value,
      attr_entry ''timeout'' Show_value Show_value,
      attr_entry ''pppiptype'' Show_value Show_value,
      attr_entry ''custom_ipaddr'' Show_value Show_value,
      attr_entry ''encmode'' Show_value Show_value,
      attr_entry ''auth'' Show_value Show_value,
      attr_null]"

definition wan_l2tp_status_rule_attr :: "attr list" where
  [table_defs]: "wan_l2tp_status_rule_attr =
     [attr_entry ''first_start'' Show_value Show_value,
      attr_null]"

definition lan_hwaddr_rule_default_attr :: "attr list" where
  [table_defs]: "lan_hwaddr_rule_default_attr =
     [attr_entry ''hwaddr'' Show_value Show_value,
      attr_null]"

definition lan_hwaddr_clone_rule_attr :: "attr list" where
  [table_defs]: "lan_hwaddr_clone_rule_attr =
     [attr_entry ''enable'' Show_value Show_enable_value,
      attr_entry ''hwaddr'' Show_value Show_value,
      attr_null]"

definition nat_rule_attr :: "attr list" where
  [table_defs]: "nat_rule_attr =
     [attr_entry ''hw_enable'' Show_value Show_value,
      attr_null]"

definition guest_lan_rule_attr :: "attr list" where
  [table_defs]: "guest_lan_rule_attr =
     [attr_entry ''enable'' Show_value Show_value,
      attr_entry ''ipaddr'' Show_value Show_value,
      attr_entry ''mask'' Show_value Show_value,
      attr_null]"

definition lan_static_rule_attr :: "attr list" where
  [table_defs]: "lan_static_rule_attr =
     [attr_entry ''ipaddr'' Show_value Show_value,
      attr_entry ''mask'' Show_value Show_value,
      attr_entry ''gateway'' Show_value Show_value,
      attr_entry ''dns'' Show_value Show_value,
      attr_entry ''wins'' Show_value Show_value,
      attr_null]"

definition lan_dhcps_rule_attr :: "attr list" where
  [table_defs]: "lan_dhcps_rule_attr =
     [attr_entry ''name'' Show_value Show_value,
      attr_entry ''enable'' Show_value Show_enable_value,
      attr_entry ''start'' Show_value Show_value,
      attr_entry ''num'' Show_value Show_value,
      attr_entry ''lease'' Show_value Show_value,
      attr_entry ''domain'' Show_value Show_value,
      attr_entry ''wins'' Show_value Show_value,
      attr_entry ''dnstype'' Show_value Show_value,
      attr_entry ''dnsaddr1'' Show_value Show_value,
      attr_entry ''dnsaddr2'' Show_value Show_value,
      attr_entry ''dnsaddr3'' Show_value Show_value,
      attr_entry ''dnsaddr4'' Show_value Show_value,
      attr_null]"

definition wl0_wds_attr :: "attr list" where
  [table_defs]: "wl0_wds_attr =
     [attr_entry ''hwaddr0'' Show_value Show_value,
      attr_entry ''hwaddr1'' Show_value Show_value,
      attr_entry ''hwaddr2'' Show_value Show_value,
      attr_entry ''hwaddr3'' Show_value Show_value,
      attr_null]"

definition wl_wps_sta_rule_attr :: "attr list" where
  [table_defs]: "wl_wps_sta_rule_attr =
     [attr_entry ''mode'' Show_value Show_value,
      attr_entry ''pin'' Show_value Show_value,
      attr_entry ''reg_ssid'' Show_value Show_value,
      attr_entry ''reg_auth'' Show_value Show_value,
      attr_entry ''reg_enc'' Show_value Show_value,
      attr_entry ''reg_keyindex'' Show_value Show_value,
      attr_entry ''reg_key'' Show_value Show_value,
      attr_null]"

definition wl_wps_rule_attr :: "attr list" where
  [table_defs]: "wl_wps_rule_attr =
     [attr_entry ''mode'' Show_value Show_value,
      attr_entry ''pin'' Show_value Show_value,
      attr_entry ''configured'' Show_value Show_value,
      attr_entry ''display'' Show_value Show_value,
      attr_null]"

definition bw_sbm_rule_attr :: "(macro \<Rightarrow> bool) \<Rightarrow> attr list" where
  [table_defs]: "bw_sbm_rule_attr D =
     [attr_entry ''name'' Show_value Show_value,
      attr_entry ''enable'' Show_value Show_value,
      attr_entry ''inipaddr_start'' Show_value Show_value,
      attr_entry ''inipaddr_end'' Show_value Show_value,
      attr_entry ''inipaddr_num'' Show_value Show_value,
      attr_entry ''proto'' Show_value Show_value,
      attr_entry ''port_start'' Show_value Show_value,
      attr_entry ''port_end'' Show_value Show_value,
      attr_entry ''extif'' Show_value Show_value,
      attr_entry ''bw_alloc'' Show_value Show_value,
      attr_entry ''bw_ratio'' Show_value Show_value,
      attr_entry ''bw_upload'' Show_value Show_value,
      attr_entry ''bw_download'' Show_value Show_value,
      attr_entry ''sched_idx'' Show_value Show_value,
      attr_entry ''excess'' Show_value Show_value,
      attr_entry ''excess_ratio'' Show_value Show_value,
      attr_entry ''excess_upload'' Show_value Show_value,
      attr_entry ''excess_download'' Show_value Show_value] @
     (if D EZP_PROD_BRAND_PLANET then [attr_entry ''dscpid'' Show_value Show_value,
      attr_entry ''remarkdscpid'' Show_value Show_value,
      attr_entry ''groupid'' Show_value Show_value] else []) @
     [attr_null]"

definition bw_dbm_rule_attr :: "attr list" where
  [table_defs]: "bw_dbm_rule_attr =
     [attr_entry ''name'' Show_value Show_value,
      attr_entry ''enable'' Show_value Show_value,
      attr_entry ''inipaddr_start'' Show_value Show_value,
      attr_entry ''inipaddr_end'' Show_value Show_value,
      attr_entry ''inipaddr_num'' Show_value Show_value,
      attr_entry ''sched_idx'' Show_value Show_value]"

definition bw_group_rule_attr :: "attr list" where
  [table_defs]: "bw_group_rule_attr =
     [attr_entry ''name'' Show_value Show_value,
      attr_entry ''enable'' Show_value Show_value,
      attr_entry ''bw_uprate'' Show_value Show_value,
      attr_entry ''bw_upceil'' Show_value Show_value,
      attr_entry ''prio'' Show_value Show_value,
      attr_null]"

definition rt_rule_attr :: "attr list" where
  [table_defs]: "rt_rule_attr =
     [attr_entry ''name'' Show_value Show_value,
      attr_entry ''enable'' Show_value Show_enable_value,
      attr_entry ''srcipaddr_start'' Show_value Show_value,
      attr_entry ''srcipaddr_end'' Show_value Show_value,
      attr_entry ''dstipaddr_start'' Show_value Show_value,
      attr_entry ''dstipaddr_end'' Show_value Show_value,
      attr_entry ''proto'' Show_value Show_proto_value,
      attr_entry ''srcport_start'' Show_value Show_value,
      attr_entry ''srcport_end'' Show_value Show_value,
      attr_entry ''dstport_start'' Show_value Show_value,
      attr_entry ''dstport_end'' Show_value Show_value,
      attr_entry ''extif'' Show_value Show_value,
      attr_entry ''routing_type'' Show_value Show_value,
      attr_entry ''gateway_ipaddr'' Show_value Show_value,
      attr_null]"

definition wf_content_rule_attr :: "attr list" where
  [table_defs]: "wf_content_rule_attr =
     [attr_entry ''activex_enable'' Show_value Show_enable_value,
      attr_entry ''java_enable'' Show_value Show_enable_value,
      attr_entry ''proxy_enable'' Show_value Show_enable_value]"

definition wf_rule_attr :: "attr list" where
  [table_defs]: "wf_rule_attr =
     [attr_entry ''enable'' Show_value Show_enable_value,
      attr_entry ''keyword'' Show_value Show_value,
      attr_entry ''type'' Show_value Show_value,
      attr_entry ''access'' Show_value Show_value]"

definition sched_rule_attr :: "attr list" where
  [table_defs]: "sched_rule_attr =
     [attr_entry ''name'' Show_value Show_value,
      attr_entry ''enable'' Show_value Show_enable_value,
      attr_entry ''used'' Show_value Show_value,
      attr_entry ''start_hour'' Show_value Show_value,
      attr_entry ''start_min'' Show_value Show_value,
      attr_entry ''stop_hour'' Show_value Show_value,
      attr_entry ''stop_min'' Show_value Show_value,
      attr_entry ''sun'' Show_value Show_value,
      attr_entry ''mon'' Show_value Show_value,
      attr_entry ''tue'' Show_value Show_value,
      attr_entry ''wed'' Show_value Show_value,
      attr_entry ''thu'' Show_value Show_value,
      attr_entry ''fri'' Show_value Show_value,
      attr_entry ''sat'' Show_value Show_value,
      attr_null]"

definition cron_rule_attr :: "attr list" where
  [table_defs]: "cron_rule_attr =
     [attr_entry ''enable'' Show_value Show_enable_value,
      attr_entry ''ntp_enable'' Show_value Show_enable_value,
      attr_entry ''ntp_interval'' Show_value Show_value,
      attr_entry ''reboot_interval'' Show_value Show_value,
      attr_entry ''reboot_countdown'' Show_value Show_value,
      attr_entry ''reboot_hour'' Show_value Show_value,
      attr_entry ''ddns_countdown'' Show_value Show_value,
      attr_null]"

definition ntp_rule_attr :: "attr list" where
  [table_defs]: "ntp_rule_attr =
     [attr_entry ''name'' Show_value Show_value,
      attr_entry ''enable'' Show_value Show_enable_value,
      attr_entry ''type'' Show_value Show_value,
      attr_entry ''pool'' Show_value Show_value,
      attr_entry ''ipaddr'' Show_value Show_value,
      attr_entry ''zone'' Show_value Show_value,
      attr_entry ''daylight'' Show_value Show_value,
      attr_null]"

definition vlan_rule_attr :: "(macro \<Rightarrow> bool) \<Rightarrow> attr list" where
  [table_defs]: "vlan_rule_attr D =
     [attr_entry ''name'' Show_value Show_value,
      attr_entry ''enable'' Show_value Show_enable_value,
      attr_entry ''ifname'' Show_value Show_value,
      attr_entry ''vid'' Show_value Show_value,
      attr_entry ''portmember'' Show_value Show_value] @
     (if D AR8316 \<or> D AR8328 then [attr_entry ''tag'' Show_value Show_value,
      attr_entry ''prio'' Show_value Show_value] else []) @
     [attr_null]"

definition vlanport_rule_attr :: "(macro \<Rightarrow> bool) \<Rightarrow> attr list" where
  [table_defs]: "vlanport_rule_attr D =
     [attr_entry ''name'' Show_value Show_value,
      attr_entry ''portid'' Show_value Show_value,
      attr_entry ''pvid'' Show_value Show_value,
      attr_entry ''tag'' Show_value Show_value] @
     (if D AR8316 \<or> D AR8328 then [attr_entry ''mode'' Show_value Show_value,
      attr_entry ''gmemb'' Show_value Show_value] else []) @
     [attr_entry ''prio'' Show_value Show_value,
      attr_null]"

definition br_rule_attr :: "attr list" where
  [table_defs]: "br_rule_attr =
     [attr_entry ''name'' Show_value Show_value,
      attr_entry ''enable'' Show_value Show_enable_value,
      attr_entry ''ifnames'' Show_value Show_value,
      attr_entry ''flag'' Show_value Show_value,
      attr_null]"

definition ssh_rule_attr :: "attr list" where
  [table_defs]: "ssh_rule_attr =
     [attr_entry ''name'' Show_value Show_value,
      attr_entry ''enable'' Show_value Show_enable_value,
      attr_entry ''port'' Show_value Show_value,
      attr_null]"

definition log_rule_attr :: "attr list" where
  [table_defs]: "log_rule_attr =
     [attr_entry ''name'' Show_value Show_value,
      attr_entry ''enable'' Show_value Show_enable_value,
      attr_entry ''ipaddr'' Show_value Show_value,
      attr_entry ''ipt_enable'' Show_value Show_enable_value,
      attr_entry ''web_mgmt'' Show_value Show_enable_value,
      attr_entry ''dns'' Show_value Show_enable_value,
      attr_entry ''ppp'' Show_value Show_enable_value,
      attr_entry ''upnp'' Show_value Show_enable_value,
      attr_entry ''wireless'' Show_value Show_enable_value,
      attr_entry ''ntp'' Show_value Show_enable_value,
      attr_entry ''sys_warning'' Show_value Show_enable_value,
      attr_entry ''dhcp_serv'' Show_value Show_enable_value,
      attr_entry ''dhcp_cli'' Show_value Show_enable_value,
      attr_entry ''ddns'' Show_value Show_enable_value,
      attr_entry ''firewall'' Show_value Show_enable_value,
      attr_entry ''remote_enable'' Show_value Show_enable_value,
      attr_entry ''remote_ip'' Show_value Show_value,
      attr_entry ''proto'' Show_value Show_value,
      attr_entry ''remote_port'' Show_value Show_enable_value,
      attr_null]"

definition upnp_rule_attr :: "attr list" where
  [table_defs]: "upnp_rule_attr =
     [attr_entry ''name'' Show_value Show_value,
      attr_entry ''enable'' Show_value Show_enable_value,
      attr_entry ''pmp_enable'' Show_value Show_enable_value,
      attr_entry ''extif'' Show_value Show_value,
      attr_entry ''inif'' Show_value Show_value,
      attr_entry ''port'' Show_value Show_value,
      attr_null]"

definition fl_rule_attr :: "attr list" where
  [table_defs]: "fl_rule_attr =
     [attr_entry ''name'' Show_value Show_value,
      attr_entry ''enable'' Show_value Show_enable_value,
      attr_entry ''extif'' Show_value Show_if_value,
      attr_entry ''inif'' Show_value Show_if_value,
      attr_entry ''srcipaddr_start'' Show_value Show_value,
      attr_entry ''srcipaddr_end'' Show_value Show_mask_value,
      attr_entry ''dstipaddr_start'' Show_value Show_value,
      attr_entry ''dstipaddr_end'' Show_value Show_mask_value,
      attr_entry ''proto'' Show_value Show_proto_value,
      attr_entry ''srcport_start'' Show_value Show_value,
      attr_entry ''srcport_end'' Show_value Show_value,
      attr_entry ''dstport_start'' Show_value Show_value,
      attr_entry ''dstport_end'' Show_value Show_value,
      attr_entry ''action'' Show_value Show_value,
      attr_entry ''mark'' Show_value Show_value,
      attr_entry ''bw_idx'' Show_value Show_value,
      attr_entry ''sched_idx'' Show_value Show_value,
      attr_null]"

definition fl_hwaddr_rule_attr :: "attr list" where
  [table_defs]: "fl_hwaddr_rule_attr =
     [attr_entry ''name'' Show_value Show_value,
      attr_entry ''hwaddr'' Show_value Show_value,
      attr_entry ''action'' Show_value Show_value,
      attr_entry ''acl_enable'' Show_value Show_enable_value,
      attr_entry ''arp_enable'' Show_value Show_enable_value,
      attr_entry ''dhcp_enable'' Show_value Show_enable_value,
      attr_entry ''ipaddr'' Show_value Show_value,
      attr_null]"

definition fr_dmz_rule_attr :: "attr list" where
  [table_defs]: "fr_dmz_rule_attr =
     [attr_entry ''name'' Show_value Show_value,
      attr_entry ''enable'' Show_value Show_enable_value,
      attr_entry ''ipaddr'' Show_value Show_value,
      attr_null]"

definition tos_rule_attr :: "attr list" where
  [table_defs]: "tos_rule_attr =
     [attr_entry ''enable'' Show_value Show_enable_value,
      attr_entry ''icmp_enable'' Show_value Show_enable_value,
      attr_entry ''dns_enable'' Show_value Show_enable_value,
      attr_entry ''ssh_enable'' Show_value Show_enable_value,
      attr_entry ''telnet_enable'' Show_value Show_enable_value,
      attr_entry ''check_enable'' Show_value Show_enable_value,
      attr_entry ''ack_enable'' Show_value Show_enable_value,
      attr_null]"

definition ttl_rule_attr :: "attr list" where
  [table_defs]: "ttl_rule_attr =
     [attr_entry ''name'' Show_value Show_value,
      attr_entry ''enable'' Show_value Show_enable_value,
      attr_entry ''value'' Show_value Show_value,
      attr_null]"

definition user_rule_attr :: "attr list" where
  [table_defs]: "user_rule_attr =
     [attr_entry ''user'' Show_value Show_value,
      attr_entry ''permission_class'' Show_value Show_value,
      attr_null]"

definition http_rule_attr :: "attr list" where
  [table_defs]: "http_rule_attr =
     [attr_entry ''name'' Show_value Show_value,
      attr_entry ''enable'' Show_value Show_enable_value,
      attr_entry ''rmgt_enable'' Show_value Show_enable_value,
      attr_entry ''username'' Show_value Show_value,
      attr_entry ''passwd'' Show_value Show_value,
      attr_entry ''port'' Show_value Show_value,
      attr_null]"

definition http_redirect_rule_attr :: "attr list" where
  [table_defs]: "http_redirect_rule_attr =
     [attr_entry ''enable'' Show_value Show_enable_value,
      attr_null]"

definition snmp_rule_attr :: "attr list" where
  [table_defs]: "snmp_rule_attr =
     [attr_entry ''enable'' Show_value Show_enable_value,
      attr_entry ''udpport'' Show_value Show_enable_value,
      attr_entry ''tcpport'' Show_value Show_enable_value,
      attr_entry ''community'' Show_value Show_value,
      attr_entry ''vendor'' Show_value Show_value,
      attr_entry ''sysname'' Show_value Show_value,
      attr_entry ''location'' Show_value Show_value,
      attr_entry ''contact'' Show_b64_value Show_value,
      attr_entry ''timeout'' Show_value Show_value,
      attr_entry ''auth'' Show_value Show_enable_value,
      attr_null]"

definition adtool_rule_attr :: "attr list" where
  [table_defs]: "adtool_rule_attr =
     [attr_entry ''pingiface'' Show_value Show_value,
      attr_entry ''pinghost'' Show_value Show_value,
      attr_entry ''pingcnt'' Show_value Show_value,
      attr_entry ''arpingiface'' Show_value Show_value,
      attr_entry ''arpinghost'' Show_value Show_value,
      attr_entry ''arpingcnt'' Show_value Show_value,
      attr_entry ''tracerouteiface'' Show_value Show_value,
      attr_entry ''traceroutehost'' Show_value Show_value,
      attr_entry ''traceroutecnt'' Show_value Show_value,
      attr_null]"

definition stats_rule_attr :: "attr list" where
  [table_defs]: "stats_rule_attr =
     [attr_entry ''name'' Show_value Show_value,
      attr_entry ''enable'' Show_value Show_enable_value,
      attr_entry ''stime'' Show_value Show_value,
      attr_entry ''ifnames'' Show_value Show_value,
      attr_null]"

definition vnc_rule_attr :: "attr list" where
  [table_defs]: "vnc_rule_attr =
     [attr_entry ''enable'' Show_value Show_enable_value,
      attr_entry ''vport'' Show_value Show_value,
      attr_entry ''sport'' Show_value Show_value,
      attr_entry ''ipaddr'' Show_value Show_value,
      attr_entry ''mode'' Show_value Show_value,
      attr_entry ''event_enable'' Show_value Show_enable_value,
      attr_entry ''event_ipaddr'' Show_value Show_enable_value,
      attr_entry ''event_port'' Show_value Show_enable_value,
      attr_null]"

definition vnc_allow_rule_attr :: "attr list" where
  [table_defs]: "vnc_allow_rule_attr =
     [attr_entry ''ipaddr'' Show_value Show_value,
      attr_null]"

definition pptpd_rule_attr :: "attr list" where
  [table_defs]: "pptpd_rule_attr =
     [attr_entry ''enable'' Show_value Show_value,
      attr_entry ''name'' Show_value Show_value,
      attr_entry ''redialperiod'' Show_value Show_value,
      attr_entry ''mtu'' Show_value Show_value,
      attr_entry ''mru'' Show_value Show_value,
      attr_entry ''localip'' Show_value Show_value,
      attr_entry ''localip_range'' Show_value Show_value,
      attr_entry ''remoteip'' Show_value Show_value,
      attr_entry ''remoteip_range'' Show_value Show_value,
      attr_entry ''dns_auto_enable'' Show_value Show_value,
      attr_entry ''dns'' Show_value Show_value,
      attr_entry ''chap_enable'' Show_value Show_value,
      attr_entry ''mschap_enable'' Show_value Show_value,
      attr_entry ''mschapv2_enable'' Show_value Show_value,
      attr_entry ''eap_enable'' Show_value Show_value,
      attr_entry ''pap_enable'' Show_value Show_value,
      attr_entry ''mppe128_enable'' Show_value Show_value,
      attr_entry ''proxyarp_enable'' Show_value Show_value,
      attr_entry ''nat_enable'' Show_value Show_value,
      attr_null]"

definition pptpd_user_rule_attr :: "attr list" where
  [table_defs]: "pptpd_user_rule_attr =
     [attr_entry ''enable'' Show_value Show_value,
      attr_entry ''username'' Show_value Show_value,
      attr_entry ''provider'' Show_value Show_value,
      attr_entry ''passwd'' Show_value Show_value,
      attr_entry ''ipaddr'' Show_value Show_value,
      attr_null]"

definition l2tpd_rule_attr :: "attr list" where
  [table_defs]: "l2tpd_rule_attr =
     [attr_entry ''enable'' Show_value Show_value,
      attr_entry ''name'' Show_value Show_value,
      attr_entry ''mtu'' Show_value Show_value,
      attr_entry ''mru'' Show_value Show_value,
      attr_entry ''localip'' Show_value Show_value,
      attr_entry ''localip_range'' Show_value Show_value,
      attr_entry ''remoteip'' Show_value Show_value,
      attr_entry ''remoteip_range'' Show_value Show_value,
      attr_entry ''dns_auto_enable'' Show_value Show_value,
      attr_entry ''dns'' Show_value Show_value,
      attr_entry ''chap_enable'' Show_value Show_value,
      attr_entry ''pap_enable'' Show_value Show_value,
      attr_entry ''proxyarp_enable'' Show_value Show_value,
      attr_entry ''nat_enable'' Show_value Show_value,
      attr_null]"

definition l2tpd_user_rule_attr :: "attr list" where
  [table_defs]: "l2tpd_user_rule_attr =
     [attr_entry ''enable'' Show_value Show_value,
      attr_entry ''username'' Show_value Show_value,
      attr_entry ''provider'' Show_value Show_value,
      attr_entry ''passwd'' Show_value Show_value,
      attr_entry ''ipaddr'' Show_value Show_value,
      attr_null]"

definition wol_rule_attr :: "attr list" where
  [table_defs]: "wol_rule_attr =
     [attr_entry ''name'' Show_value Show_value,
      attr_entry ''enable'' Show_value Show_value,
      attr_entry ''bcast'' Show_value Show_value,
      attr_entry ''hwaddr'' Show_value Show_value,
      attr_entry ''iface'' Show_value Show_value,
      attr_entry ''passwd'' Show_value Show_value,
      attr_null]"

definition ipsec_rule_attr :: "(macro \<Rightarrow> bool) \<Rightarrow> attr list" where
  [table_defs]: "ipsec_rule_attr D =
     [attr_entry ''name'' Show_value Show_value,
      attr_entry ''enable'' Show_value Show_value,
      attr_entry ''mode'' Show_value Show_value,
      attr_entry ''l2tp'' Show_value Show_value,
      attr_entry ''local_extif'' Show_value Show_value,
      attr_entry ''local_inipaddr'' Show_value Show_value,
      attr_entry ''local_netmask'' Show_value Show_value,
      attr_entry ''remote_gateway'' Show_value Show_value,
      attr_entry ''remote_inipaddr'' Show_value Show_value,
      attr_entry ''remote_netmask'' Show_value Show_value,
      attr_entry ''conn_init'' Show_value Show_value,
      attr_entry ''ike_keymode'' Show_value Show_value,
      attr_entry ''psk'' Show_value Show_value,
      attr_entry ''rsa'' Show_value Show_value,
      attr_entry ''ca'' Show_value Show_value,
      attr_entry ''adv'' Show_value Show_value,
      attr_entry ''phase1_mode'' Show_value Show_value,
      attr_entry ''phase1_left_id'' Show_value Show_value,
      attr_entry ''phase1_right_id'' Show_value Show_value,
      attr_entry ''phase1_lifetime'' Show_value Show_value,
      attr_entry ''phase2_lifetime'' Show_value Show_value,
      attr_entry ''phase1_auth'' Show_value Show_value,
      attr_entry ''phase1_encrypt'' Show_value Show_value,
      attr_entry ''phase1_group'' Show_value Show_value,
      attr_entry ''phase2_auth'' Show_value Show_value,
      attr_entry ''phase2_encrypt'' Show_value Show_value,
      attr_entry ''phase2_group'' Show_value Show_value,
      attr_entry ''dpd_enable'' Show_value Show_value,
      attr_entry ''dpd_interval'' Show_value Show_value,
      attr_entry ''dpd_timeout'' Show_value Show_value,
      attr_entry ''ddns_gateway'' Show_value Show_value] @
     (if D EZP_PROD_BRAND_PROX then [attr_entry ''split_tunnel'' Show_value Show_value] else []) @
     [attr_null]"

definition ipsec_status_rule_attr :: "attr list" where
  [table_defs]: "ipsec_status_rule_attr =
     [attr_entry ''phase1'' Show_value Show_value,
      attr_entry ''phase2'' Show_value Show_value,
      attr_null]"

definition auth_server_rule_attr :: "attr list" where
  [table_defs]: "auth_server_rule_attr =
     [attr_entry ''web_serv_ipaddr'' Show_value Show_value,
      attr_entry ''web_serv_port'' Show_value Show_value,
      attr_entry ''logon_page'' Show_value Show_value,
      attr_entry ''status_page'' Show_value Show_value,
      attr_entry ''logoff_page'' Show_value Show_value,
      attr_entry ''admin_ipaddr'' Show_value Show_value,
      attr_entry ''dns_type'' Show_value Show_value,
      attr_entry ''dns_ipaddr'' Show_value Show_value,
      attr_entry ''radius_enable'' Show_value Show_enable_value,
      attr_entry ''radius_ipaddr'' Show_value Show_value,
      attr_entry ''radius_auth_port'' Show_value Show_value,
      attr_entry ''radius_accp_port'' Show_value Show_value,
      attr_entry ''radius_secret'' Show_value Show_value,
      attr_entry ''nasid'' Show_value Show_value,
      attr_entry ''locid'' Show_value Show_value,
      attr_entry ''rlocname'' Show_value Show_value,
      attr_entry ''rlocid'' Show_value Show_value,
      attr_entry ''userdb'' Show_value Show_value,
      attr_null]"

definition auth_user_rule_attr :: "attr list" where
  [table_defs]: "auth_user_rule_attr =
     [attr_entry ''name'' Show_value Show_value,
      attr_entry ''password'' Show_value Show_value,
      attr_entry ''valid_time'' Show_value Show_value,
      attr_null]"

definition fw_rule_attr :: "attr list" where
  [table_defs]: "fw_rule_attr =
     [attr_entry ''enable'' Show_value Show_enable_value,
      attr_entry ''syn_enable'' Show_value Show_enable_value,
      attr_entry ''icmp_enable'' Show_value Show_enable_value,
      attr_entry ''icmp_redir_enable'' Show_value Show_enable_value,
      attr_entry ''rpfilter_enable'' Show_value Show_enable_value,
      attr_entry ''state_enable'' Show_value Show_enable_value,
      attr_entry ''bc_storm_enable'' Show_value Show_enable_value,
      attr_null]"

definition nat_pass_rule_attr :: "attr list" where
  [table_defs]: "nat_pass_rule_attr =
     [attr_entry ''enable'' Show_value Show_enable_value,
      attr_entry ''ipsec_enable'' Show_value Show_enable_value,
      attr_entry ''pptp_enable'' Show_value Show_enable_value,
      attr_entry ''l2tp_redir_enable'' Show_value Show_enable_value,
      attr_entry ''h323_enable'' Show_value Show_enable_value,
      attr_entry ''rtsp_enable'' Show_value Show_enable_value,
      attr_entry ''mms_enable'' Show_value Show_enable_value,
      attr_null]"

definition wl_basic_rule_attr :: "attr list" where
  [table_defs]: "wl_basic_rule_attr =
     [attr_entry ''enable'' Show_value Show_value,
      attr_entry ''net_mode'' Show_value Show_value,
      attr_entry ''txpower'' Show_value Show_value,
      attr_entry ''channel'' Show_value Show_value,
      attr_entry ''bisolation'' Show_value Show_value,
      attr_null]"

definition wl_advanced_rule_attr :: "attr list" where
  [table_defs]: "wl_advanced_rule_attr =
     [attr_entry ''infra'' Show_value Show_value,
      attr_entry ''ap_mode'' Show_value Show_value,
      attr_entry ''rateset'' Show_value Show_value,
      attr_entry ''mrate'' Show_value Show_value,
      attr_entry ''frag'' Show_value Show_value,
      attr_entry ''rts'' Show_value Show_value,
      attr_entry ''dtim'' Show_value Show_value,
      attr_entry ''bcn'' Show_value Show_value,
      attr_entry ''plcphdr'' Show_value Show_value,
      attr_entry ''antdiv'' Show_value Show_value,
      attr_entry ''gmode'' Show_value Show_value,
      attr_entry ''gmode_protection'' Show_value Show_value,
      attr_entry ''afterburner'' Show_value Show_value,
      attr_entry ''frameburst'' Show_value Show_value,
      attr_entry ''txburst'' Show_value Show_enable_value,
      attr_entry ''pktaggr'' Show_value Show_enable_value,
      attr_entry ''txmode'' Show_value Show_value,
      attr_entry ''rdg'' Show_value Show_enable_value,
      attr_entry ''linkadapt'' Show_value Show_enable_value,
      attr_entry ''htc'' Show_value Show_enable_value,
      attr_entry ''htbw'' Show_value Show_enable_value,
      attr_entry ''gi'' Show_value Show_enable_value,
      attr_entry ''opmode'' Show_value Show_value,
      attr_entry ''mcs'' Show_value Show_value,
      attr_entry ''mpdu'' Show_value Show_value,
      attr_entry ''amsdu'' Show_value Show_enable_value,
      attr_entry ''autoba'' Show_value Show_enable_value,
      attr_entry ''bawinsize'' Show_value Show_value,
      attr_entry ''badecline'' Show_value Show_enable_value,
      attr_entry ''extcha'' Show_value Show_value,
      attr_entry ''wdstxmode'' Show_value Show_value,
      attr_null]"

definition wl_wds_rule_attr :: "attr list" where
  [table_defs]: "wl_wds_rule_attr =
     [attr_entry ''mode'' Show_value Show_value,
      attr_entry ''timeout'' Show_value Show_value,
      attr_null]"

definition wl_wme_rule_attr :: "attr list" where
  [table_defs]: "wl_wme_rule_attr =
     [attr_entry ''sta_bk'' Show_value Show_value,
      attr_entry ''sta_be'' Show_value Show_value,
      attr_entry ''sta_vi'' Show_value Show_value,
      attr_entry ''sta_vo'' Show_value Show_value,
      attr_entry ''ap_bk'' Show_value Show_value,
      attr_entry ''ap_be'' Show_value Show_value,
      attr_entry ''ap_vi'' Show_value Show_value,
      attr_entry ''ap_vo'' Show_value Show_value,
      attr_entry ''no_ack'' Show_value Show_value,
      attr_entry ''max_assoc'' Show_value Show_value,
      attr_null]"

definition wlv_basic_rule_attr :: "attr list" where
  [table_defs]: "wlv_basic_rule_attr =
     [attr_entry ''enable'' Show_value Show_value,
      attr_entry ''hidden'' Show_value Show_value,
      attr_entry ''rate'' Show_value Show_value,
      attr_entry ''wme'' Show_value Show_value,
      attr_entry ''isolation'' Show_value Show_value,
      attr_null]"

definition wlv_ifname_rule_attr :: "attr list" where
  [table_defs]: "wlv_ifname_rule_attr =
     [attr_entry ''ifname'' Show_value Show_value,
      attr_null]"

definition wlv_ssid_rule_attr :: "attr list" where
  [table_defs]: "wlv_ssid_rule_attr =
     [attr_entry ''ssid'' Show_value Show_value,
      attr_null]"

definition wlv_sec_rule_attr :: "attr list" where
  [table_defs]: "wlv_sec_rule_attr =
     [attr_entry ''secmode'' Show_value Show_value,
      attr_null]"

definition wlv_sec_wep_rule_attr :: "attr list" where
  [table_defs]: "wlv_sec_wep_rule_attr =
     [attr_entry ''key_index'' Show_value Show_value,
      attr_entry ''key1'' Show_b64_value Show_value,
      attr_entry ''key2'' Show_b64_value Show_value,
      attr_entry ''key3'' Show_b64_value Show_value,
      attr_entry ''key4'' Show_b64_value Show_value,
      attr_entry ''keytype'' Show_value Show_value,
      attr_entry ''encmode'' Show_value Show_value,
      attr_null]"

definition smbd_rule_attr :: "attr list" where
  [table_defs]: "smbd_rule_attr =
     [attr_entry ''enable'' Show_value Show_enable_value,
      attr_entry ''name'' Show_value Show_value,
      attr_entry ''workgroup'' Show_value Show_value,
      attr_entry ''description'' Show_value Show_value,
      attr_entry ''create_mask'' Show_value Show_value,
      attr_entry ''dir_mask'' Show_value Show_value,
      attr_entry ''security'' Show_value Show_value,
      attr_entry ''share_name'' Show_value Show_value,
      attr_entry ''share_path'' Show_value Show_value,
      attr_entry ''share_users'' Show_value Show_value,
      attr_entry ''read_only'' Show_value Show_value,
      attr_entry ''guest_ok'' Show_value Show_value,
      attr_entry ''ext_access'' Show_value Show_value,
      attr_entry ''codepage'' Show_value Show_value,
      attr_null]"

definition smbd_user_rule_attr :: "attr list" where
  [table_defs]: "smbd_user_rule_attr =
     [attr_entry ''enable'' Show_value Show_enable_value,
      attr_entry ''name'' Show_value Show_value,
      attr_entry ''passwd'' Show_value Show_value,
      attr_null]"

definition togo_rule_attr :: "attr list" where
  [table_defs]: "togo_rule_attr =
     [attr_entry ''status'' Show_value Show_value,
      attr_entry ''name'' Show_value Show_value,
      attr_entry ''proto'' Show_value Show_value,
      attr_entry ''ip'' Show_value Show_value,
      attr_entry ''port'' Show_value Show_value,
      attr_entry ''mac'' Show_value Show_value,
      attr_entry ''config'' Show_value Show_value,
      attr_null]"

definition camera_rule_attr :: "attr list" where
  [table_defs]: "camera_rule_attr =
     [attr_entry ''enable'' Show_value Show_enable_value,
      attr_entry ''port'' Show_value Show_value,
      attr_entry ''format'' Show_value Show_value,
      attr_entry ''auth_enable'' Show_value Show_enable_value,
      attr_entry ''user'' Show_value Show_value,
      attr_entry ''passwd'' Show_value Show_value,
      attr_entry ''config'' Show_value Show_value,
      attr_entry ''resolution'' Show_value Show_value,
      attr_null]"

definition drive_rule_attr :: "attr list" where
  [table_defs]: "drive_rule_attr =
     [attr_entry ''enable'' Show_value Show_enable_value,
      attr_entry ''guest'' Show_value Show_value,
      attr_entry ''port'' Show_value Show_value,
      attr_entry ''ext_access'' Show_value Show_value,
      attr_entry ''name'' Show_value Show_value,
      attr_entry ''password'' Show_value Show_value,
      attr_entry ''config'' Show_value Show_value,
      attr_null]"

definition music_rule_attr :: "attr list" where
  [table_defs]: "music_rule_attr =
     [attr_entry ''enable'' Show_value Show_enable_value,
      attr_null]"

definition led_rule_attr :: "attr list" where
  [table_defs]: "led_rule_attr =
     [attr_entry ''boot'' Show_value Show_value,
      attr_entry ''usb'' Show_value Show_value,
      attr_null]"

definition bt_rule_attr :: "attr list" where
  [table_defs]: "bt_rule_attr =
     [attr_entry ''enable'' Show_value Show_enable_value,
      attr_entry ''peer'' Show_value Show_value,
      attr_entry ''max_peer'' Show_value Show_value,
      attr_entry ''max_task'' Show_value Show_value,
      attr_entry ''download_rate'' Show_value Show_value,
      attr_entry ''upload_rate'' Show_value Show_value,
      attr_entry ''directory'' Show_value Show_value,
      attr_entry ''session'' Show_value Show_value,
      attr_entry ''load_start'' Show_value Show_value,
      attr_entry ''port_range_start'' Show_value Show_value,
      attr_entry ''port_range_end'' Show_value Show_value,
      attr_entry ''dht_port'' Show_value Show_value,
      attr_entry ''check_hash'' Show_value Show_value,
      attr_null]"

definition ftpd_rule_attr :: "attr list" where
  [table_defs]: "ftpd_rule_attr =
     [attr_entry ''enable'' Show_value Show_enable_value,
      attr_entry ''port'' Show_value Show_value,
      attr_entry ''noanonyous'' Show_value Show_value,
      attr_entry ''chrooteveryone'' Show_value Show_value,
      attr_entry ''maxclientsperip'' Show_value Show_value,
      attr_entry ''maxclientnumber'' Show_value Show_value,
      attr_entry ''peruserlimits'' Show_value Show_value,
      attr_entry ''umask'' Show_value Show_value,
      attr_entry ''userbandwidth'' Show_value Show_value,
      attr_entry ''timeout'' Show_value Show_value,
      attr_entry ''allow_ext_access'' Show_value Show_value,
      attr_null]"

definition ftpd_user_rule_attr :: "attr list" where
  [table_defs]: "ftpd_user_rule_attr =
     [attr_entry ''enable'' Show_value Show_enable_value,
      attr_entry ''username'' Show_value Show_value,
      attr_entry ''passwd'' Show_value Show_value,
      attr_entry ''upload'' Show_value Show_value,
      attr_entry ''download'' Show_value Show_value,
      attr_entry ''ipaddr'' Show_value Show_value,
      attr_null]"

definition itunes_rule_attr :: "attr list" where
  [table_defs]: "itunes_rule_attr =
     [attr_entry ''enable'' Show_value Show_enable_value,
      attr_entry ''port'' Show_value Show_value,
      attr_entry ''adminpasswd'' Show_value Show_value,
      attr_entry ''mp3dir'' Show_value Show_value,
      attr_entry ''servername'' Show_value Show_value,
      attr_entry ''runas'' Show_value Show_value,
      attr_entry ''password'' Show_value Show_value,
      attr_entry ''extensions'' Show_value Show_value]"

definition storage_rule_attr :: "attr list" where
  [table_defs]: "storage_rule_attr =
     [attr_entry ''codepage'' Show_value Show_value,
      attr_entry ''swap_size'' Show_value Show_value,
      attr_entry ''block_size'' Show_value Show_value,
      attr_entry ''ext_enable'' Show_value Show_enable_value,
      attr_entry ''target_ip'' Show_value Show_value,
      attr_entry ''target_dir'' Show_value Show_value,
      attr_entry ''user'' Show_value Show_value,
      attr_entry ''pw'' Show_value Show_value,
      attr_entry ''gp'' Show_value Show_value,
      attr_null]"

definition storage_state_rule_attr :: "attr list" where
  [table_defs]: "storage_state_rule_attr =
     [attr_entry ''dev_name'' Show_value Show_value,
      attr_entry ''format'' Show_value Show_value,
      attr_entry ''mount_state'' Show_value Show_value,
      attr_entry ''insert_state'' Show_value Show_value,
      attr_null]"

definition storage_used_state_rule_attr :: "attr list" where
  [table_defs]: "storage_used_state_rule_attr =
     [attr_entry ''dev_name'' Show_value Show_value,
      attr_entry ''mount_state'' Show_value Show_value,
      attr_entry ''free_state'' Show_value Show_value,
      attr_entry ''total_state'' Show_value Show_value,
      attr_entry ''diff_state'' Show_value Show_value,
      attr_null]"

definition myqnapcloud_id_rule_attr :: "attr list" where
  [table_defs]: "myqnapcloud_id_rule_attr =
     [attr_entry ''version'' Show_value Show_value,
      attr_entry ''app_token'' Show_value Show_value,
      attr_entry ''refresh_token'' Show_value Show_value,
      attr_entry ''auth_token'' Show_value Show_value,
      attr_entry ''token_valid_period'' Show_value Show_value,
      attr_entry ''last_token_update'' Show_value Show_value,
      attr_entry ''qid'' Show_value Show_value,
      attr_entry ''device_id'' Show_value Show_value,
      attr_entry ''device_token'' Show_value Show_value,
      attr_entry ''device_name'' Show_value Show_value,
      attr_entry ''status'' Show_value Show_value,
      attr_entry ''ddns_status'' Show_value Show_value,
      attr_null]"

definition model_name_attr :: "attr list" where
  [table_defs]: "model_name_attr =
     [attr_entry ''modelname'' Show_value Show_value,
      attr_null]"

definition is_rule_attr :: "attr list" where
  [table_defs]: "is_rule_attr =
     [attr_entry ''enable'' Show_value Show_enable_value,
      attr_entry ''isns_serv'' Show_value Show_value,
      attr_entry ''isid'' Show_value Show_value,
      attr_entry ''alias'' Show_value Show_value,
      attr_entry ''max_conn'' Show_value Show_value,
      attr_entry ''max_tx'' Show_value Show_value,
      attr_entry ''max_rx'' Show_value Show_value,
      attr_null]"

definition ishost_rule_attr :: "attr list" where
  [table_defs]: "ishost_rule_attr =
     [attr_entry ''enable'' Show_value Show_enable_value,
      attr_entry ''host'' Show_value Show_value,
      attr_entry ''action'' Show_value Show_value,
      attr_null]"

definition isuser_rule_attr :: "attr list" where
  [table_defs]: "isuser_rule_attr =
     [attr_entry ''enable'' Show_value Show_enable_value,
      attr_entry ''username'' Show_value Show_value,
      attr_entry ''password'' Show_value Show_value,
      attr_null]"

definition appmgr_rule_attr :: "attr list" where
  [table_defs]: "appmgr_rule_attr =
     [attr_entry ''wlan'' Show_value Show_value,
      attr_entry ''iscsi'' Show_value Show_value,
      attr_entry ''pptp'' Show_value Show_value,
      attr_entry ''l2tp'' Show_value Show_value,
      attr_entry ''ipsec'' Show_value Show_value,
      attr_entry ''storage'' Show_value Show_value,
      attr_entry ''wwan'' Show_value Show_value,
      attr_entry ''wisp'' Show_value Show_value,
      attr_entry ''portcfg'' Show_value Show_value,
      attr_entry ''hwnat'' Show_value Show_value,
      attr_entry ''firmware'' Show_value Show_value,
      attr_entry ''iphone'' Show_value Show_value,
      attr_entry ''barry'' Show_value Show_value,
      attr_entry ''smart'' Show_value Show_value,
      attr_entry ''usbled'' Show_value Show_value,
      attr_entry ''wimax'' Show_value Show_value,
      attr_entry ''beceem'' Show_value Show_value,
      attr_entry ''guest_lan'' Show_value Show_value,
      attr_entry ''vpnc'' Show_value Show_value,
      attr_entry ''wire'' Show_value Show_value,
      attr_null]"

definition wlv_sec_wpa_rule_attr :: "attr list" where
  [table_defs]: "wlv_sec_wpa_rule_attr =
     [attr_entry ''key'' Show_b64_value Show_value,
      attr_entry ''crypto'' Show_value Show_value,
      attr_entry ''radius_key'' Show_b64_value Show_value,
      attr_entry ''radius_ipaddr'' Show_value Show_value,
      attr_entry ''radius_port'' Show_value Show_value,
      attr_entry ''rekey_mode'' Show_value Show_value,
      attr_entry ''rekey_time_interval'' Show_value Show_value,
      attr_entry ''rekey_pkt_interval'' Show_value Show_value,
      attr_entry ''session_timeout'' Show_value Show_value,
      attr_null]"

definition wlv_sec_wpa2_rule_attr :: "attr list" where
  [table_defs]: "wlv_sec_wpa2_rule_attr =
     [attr_entry ''key'' Show_b64_value Show_value,
      attr_entry ''crypto'' Show_value Show_value,
      attr_entry ''radius_key'' Show_b64_value Show_value,
      attr_entry ''radius_ipaddr'' Show_value Show_value,
      attr_entry ''radius_port'' Show_value Show_value,
      attr_entry ''rekey_mode'' Show_value Show_value,
      attr_entry ''rekey_time_interval'' Show_value Show_value,
      attr_entry ''rekey_pkt_interval'' Show_value Show_value,
      attr_entry ''preauth'' Show_value Show_value,
      attr_entry ''pmkperiod'' Show_value Show_value,
      attr_entry ''session_timeout'' Show_value Show_value,
      attr_entry ''wpacap'' Show_value Show_value,
      attr_null]"

definition wlv_acl_basic_rule_attr :: "attr list" where
  [table_defs]: "wlv_acl_basic_rule_attr =
     [attr_entry ''enable'' Show_value Show_enable_value,
      attr_entry ''defpolicy'' Show_value Show_value,
      attr_null]"

definition wlv_acl_rule_attr :: "attr list" where
  [table_defs]: "wlv_acl_rule_attr =
     [attr_entry ''name'' Show_value Show_value,
      attr_entry ''enable'' Show_value Show_enable_value,
      attr_entry ''mac'' Show_value Show_value,
      attr_entry ''policy'' Show_value Show_value,
      attr_null]"

definition wl_wds_basic_rule_attr :: "attr list" where
  [table_defs]: "wl_wds_basic_rule_attr =
     [attr_entry ''hwaddr'' Show_value Show_value,
      attr_entry ''secmode'' Show_value Show_value,
      attr_null]"

definition wl_wds_sec_wep_rule_attr :: "attr list" where
  [table_defs]: "wl_wds_sec_wep_rule_attr =
     [attr_entry ''key'' Show_b64_value Show_value,
      attr_null]"

definition wl_wds_sec_wpa_rule_attr :: "attr list" where
  [table_defs]: "wl_wds_sec_wpa_rule_attr =
     [attr_entry ''key'' Show_b64_value Show_value,
      attr_entry ''crypto'' Show_value Show_value,
      attr_null]"

definition wl_apcli_rule_attr :: "(macro \<Rightarrow> bool) \<Rightarrow> attr list" where
  [table_defs]: "wl_apcli_rule_attr D =
     [attr_entry ''enable'' Show_value Show_value,
      attr_entry ''ssid'' Show_value Show_value,
      attr_entry ''bssid'' Show_value Show_value,
      attr_entry ''secmode'' Show_value Show_value,
      attr_entry ''wifiwan'' Show_value Show_value] @
     (if D EZP_SUB_BRAND_APOLLO \<or> D EZP_PROD_BRAND_PROX then [attr_entry ''ip_type'' Show_value Show_value] else []) @
     [attr_null]"

definition wl_apcli_sec_wep_rule_attr :: "attr list" where
  [table_defs]: "wl_apcli_sec_wep_rule_attr =
     [attr_entry ''key_index'' Show_value Show_value,
      attr_entry ''key1'' Show_b64_value Show_value,
      attr_entry ''key2'' Show_b64_value Show_value,
      attr_entry ''key3'' Show_b64_value Show_value,
      attr_entry ''key4'' Show_b64_value Show_value,
      attr_entry ''keytype'' Show_value Show_value,
      attr_entry ''encmode'' Show_value Show_value,
      attr_null]"

definition wl_apcli_sec_wpa_rule_attr :: "attr list" where
  [table_defs]: "wl_apcli_sec_wpa_rule_attr =
     [attr_entry ''key'' Show_b64_value Show_value,
      attr_entry ''crypto'' Show_value Show_value,
      attr_null]"

definition wl_apcli_swap_basic_rule_attr :: "attr list" where
  [table_defs]: "wl_apcli_swap_basic_rule_attr =
     [attr_entry ''enable'' Show_value Show_value,
      attr_entry ''max'' Show_value Show_value,
      attr_entry ''index'' Show_value Show_value,
      attr_null]"

definition wl_apcli_swap_channel_rule_attr :: "attr list" where
  [table_defs]: "wl_apcli_swap_channel_rule_attr =
     [attr_entry ''channel'' Show_value Show_value,
      attr_entry ''extcha'' Show_value Show_value,
      attr_null]"

definition wl_apcli_swap_rule_attr :: "(macro \<Rightarrow> bool) \<Rightarrow> attr list" where
  [table_defs]: "wl_apcli_swap_rule_attr D =
     [attr_entry ''enable'' Show_value Show_value,
      attr_entry ''ssid'' Show_value Show_value,
      attr_entry ''bssid'' Show_value Show_value,
      attr_entry ''secmode'' Show_value Show_value,
      attr_entry ''wifiwan'' Show_value Show_value] @
     (if D EZP_SUB_BRAND_APOLLO \<or> D EZP_PROD_BRAND_PROX then [attr_entry ''ip_type'' Show_value Show_value] else []) @
     [attr_null]"

definition wl_apcli_swap_sec_wep_rule_attr :: "attr list" where
  [table_defs]: "wl_apcli_swap_sec_wep_rule_attr =
     [attr_entry ''key_index'' Show_value Show_value,
      attr_entry ''key1'' Show_b64_value Show_value,
      attr_entry ''key2'' Show_b64_value Show_value,
      attr_entry ''key3'' Show_b64_value Show_value,
      attr_entry ''key4'' Show_b64_value Show_value,
      attr_entry ''keytype'' Show_value Show_value,
      attr_entry ''encmode'' Show_value Show_value,
      attr_null]"

definition wl_apcli_swap_sec_wpa_rule_attr :: "attr list" where
  [table_defs]: "wl_apcli_swap_sec_wpa_rule_attr =
     [attr_entry ''key'' Show_b64_value Show_value,
      attr_entry ''crypto'' Show_value Show_value,
      attr_null]"

definition x_mode_data_attr :: "attr list" where
  [table_defs]: "x_mode_data_attr =
     [attr_entry ''name'' Show_value Show_value,
      attr_entry ''prod_cat'' Show_value Show_value,
      attr_null]"

definition portcfg_rule_attr :: "attr list" where
  [table_defs]: "portcfg_rule_attr =
     [attr_entry ''name'' Show_value Show_value,
      attr_entry ''enable'' Show_value Show_value,
      attr_entry ''dispstr'' Show_value Show_value,
      attr_entry ''lan_member'' Show_value Show_value,
      attr_entry ''wan_member'' Show_value Show_value,
      attr_null]"

definition app_enable_rule_attr :: "attr list" where
  [table_defs]: "app_enable_rule_attr =
     [attr_entry ''sbm'' Show_value Show_value,
      attr_entry ''dbm'' Show_value Show_value,
      attr_entry ''gbm'' Show_value Show_value,
      attr_null]"

definition serial_num_rule_attr :: "attr list" where
  [table_defs]: "serial_num_rule_attr =
     [attr_entry ''serial_num'' Show_value Show_value,
      attr_null]"

definition mfg_test_result_rule_attr :: "attr list" where
  [table_defs]: "mfg_test_result_rule_attr =
     [attr_entry ''item'' Show_value Show_value,
      attr_entry ''result'' Show_value Show_value,
      attr_null]"

definition WISP_dtct_captive_portal_rule_attr :: "attr list" where
  [table_defs]: "WISP_dtct_captive_portal_rule_attr =
     [attr_entry ''captive_portal'' Show_value Show_value,
      attr_entry ''status'' Show_value Show_value,
      attr_null]"

definition igmp_proxy_rule_attr :: "attr list" where
  [table_defs]: "igmp_proxy_rule_attr =
     [attr_entry ''enable'' Show_value Show_value,
      attr_null]"

definition ppp_control_rule_attr :: "attr list" where
  [table_defs]: "ppp_control_rule_attr =
     [attr_entry ''gateway_valid'' Show_value Show_value,
      attr_null]"

definition wan_priority_rule_attr :: "attr list" where
  [table_defs]: "wan_priority_rule_attr =
     [attr_entry ''proto'' Show_value Show_value,
      attr_null]"

definition captive_rule_attr :: "attr list" where
  [table_defs]: "captive_rule_attr =
     [attr_entry ''enable'' Show_value Show_enable_value,
      attr_entry ''port'' Show_value Show_enable_value,
      attr_null]"

definition card_reader_hardware_rule_attr :: "attr list" where
  [table_defs]: "card_reader_hardware_rule_attr =
     [attr_entry ''dev'' Show_value Show_enable_value,
      attr_entry ''gpio'' Show_value Show_enable_value,
      attr_entry ''gpiopol'' Show_value Show_enable_value,
      attr_null]"

definition gpiodef_rule_attr :: "attr list" where
  [table_defs]: "gpiodef_rule_attr =
     [attr_entry ''num'' Show_value Show_value,
      attr_entry ''enable'' Show_value Show_enable_value,
      attr_entry ''func'' Show_value Show_value,
      attr_entry ''initval'' Show_value Show_value,
      attr_entry ''desc'' Show_value Show_value,
      attr_null]"

definition upnpc_setting_rule_attr :: "attr list" where
  [table_defs]: "upnpc_setting_rule_attr =
     [attr_entry ''name'' Show_value Show_value,
      attr_entry ''enable'' Show_value Show_enable_value,
      attr_entry ''inport'' Show_value Show_value,
      attr_entry ''outport'' Show_value Show_value,
      attr_entry ''proto'' Show_value Show_value,
      attr_null]"

definition upnpc_status_rule_attr :: "attr list" where
  [table_defs]: "upnpc_status_rule_attr =
     [attr_entry ''name'' Show_value Show_value,
      attr_entry ''activated'' Show_value Show_value,
      attr_entry ''inport'' Show_value Show_value,
      attr_entry ''outport'' Show_value Show_value,
      attr_entry ''fetch_result'' Show_value Show_value,
      attr_null]"

definition st_defpath_rule_attr :: "attr list" where
  [table_defs]: "st_defpath_rule_attr =
     [attr_entry ''defpath'' Show_value Show_value,
      attr_entry ''dev'' Show_value Show_value,
      attr_entry ''linkp'' Show_value Show_value,
      attr_null]"

definition gmn_nat_rule_attr :: "attr list" where
  [table_defs]: "gmn_nat_rule_attr =
     [attr_entry ''orig_intf'' Show_value Show_value,
      attr_entry ''orig_ip'' Show_value Show_value,
      attr_entry ''targ_intf'' Show_value Show_value,
      attr_entry ''targ_ip'' Show_value Show_value,
      attr_null]"

definition gmn_filter_rule_attr :: "attr list" where
  [table_defs]: "gmn_filter_rule_attr =
     [attr_entry ''src_intf'' Show_value Show_value,
      attr_entry ''dst_intf'' Show_value Show_value,
      attr_entry ''port_from'' Show_value Show_value,
      attr_entry ''port_to'' Show_value Show_value,
      attr_null]"

definition gmn_mcast_rule_attr :: "attr list" where
  [table_defs]: "gmn_mcast_rule_attr =
     [attr_entry ''orig_intf'' Show_value Show_value,
      attr_entry ''orig_ip'' Show_value Show_value,
      attr_entry ''mcast_intf'' Show_value Show_value,
      attr_entry ''mcast_group'' Show_value Show_value,
      attr_null]"

section \<open>The table of rule sets\<close>

definition rules :: "(macro \<Rightarrow> bool) \<Rightarrow> rule list" where
  [table_defs]: "rules D =
     [rule_entry ''fr_rule'' fr_rule_attr,
      rule_entry ''plug_rule'' plug_rule_attr,
      rule_entry ''cnnt_rule'' cnnt_rule_attr,
      rule_entry ''wizard_rule'' wizard_rule_attr,
      rule_entry ''vs_rule'' vs_rule_attr,
      rule_entry ''fl_rule'' fl_rule_attr,
      rule_entry ''fr_dmz_rule'' fr_dmz_rule_attr,
      rule_entry ''fl_hwaddr_rule'' fl_hwaddr_rule_attr] @
     (if D AXIMDDNS then [rule_entry ''aximddns_rule'' aximddns_rule_attr,
      rule_entry ''aximddns_tmp_rule'' aximddns_tmp_rule_attr] else []) @
     (if D QFILE_CGI then [rule_entry ''cgi_progress'' cgi_progress_attr] else []) @
     [rule_entry ''mac_sense_rule'' mac_sense_attr] @
     (if D PLATFORM_ALS then [rule_entry ''als_failover'' failover_attr,
      rule_entry ''alert_rule'' alert_attr,
      rule_entry ''mail_rule'' mail_attr,
      rule_entry ''relay_rule'' relay_attr,
      rule_entry ''relay_schedule_rule'' relay_schedule_attr,
      rule_entry ''file_mode_rule'' file_mode_attr,
      rule_entry ''als_battery_rule'' als_battery_rule_attr,
      rule_entry ''als_status_rule'' als_status_rule_attr,
      rule_entry ''als_serial_rule'' als_serial_rule_attr,
      rule_entry ''als_operating_rule'' als_operating_rule_attr,
      rule_entry ''als_operating_data_packing_rule'' als_operating_data_packing_rule_attr,
      rule_entry ''als_operating_option_rule'' als_operating_option_rule_attr] else []) @
     [rule_entry ''wan_main_rule'' wan_main_rule_attr,
      rule_entry ''wan_lb_rule'' wan_lb_rule_attr,
      rule_entry ''wan_detect_rule'' wan_detect_rule_attr,
      rule_entry ''wan_status_rule'' (wan_status_rule_attr D),
      rule_entry ''wan_action_style_rule'' wan_action_style_rule_attr,
      rule_entry ''storage_device_mount_rule'' storage_device_mount_rule_attr,
      rule_entry ''countdown_rule'' countdown_rule_attr,
      rule_entry ''license_status_rule'' license_status_rule_attr,
      rule_entry ''vpn_status_rule'' (wan_status_rule_attr D),
      rule_entry ''wan_upnp_status_rule'' wan_upnp_status_rule_attr,
      rule_entry ''wan_bw_rule'' wan_bw_rule_attr,
      rule_entry ''wan_static_rule'' wan_static_rule_attr,
      rule_entry ''wan_dhcp_rule'' wan_dhcp_rule_attr,
      rule_entry ''wan_pppoe_rule'' wan_pppoe_rule_attr,
      rule_entry ''wan_wwan_rule'' wan_wwan_rule_attr,
      rule_entry ''wan_barry_rule'' wan_barry_rule_attr,
      rule_entry ''wan_pptp_l2tp_global_rule'' wan_pptp_l2tp_global_rule_attr,
      rule_entry ''wan_pptp_l2tp_rule'' wan_pptp_l2tp_rule_attr,
      rule_entry ''wan_l2tp_status_rule'' wan_l2tp_status_rule_attr,
      rule_entry ''wan_htc_rule'' wan_htc_rule_attr,
      rule_entry ''wan_iphone_rule'' wan_iphone_rule_attr,
      rule_entry ''wan_beceem_rule'' wan_beceem_rule_attr,
      rule_entry ''wan_wimax_rule'' wan_wimax_rule_attr,
      rule_entry ''wan_wwan_probe_rule'' wan_wwan_probe_rule_attr,
      rule_entry ''wan_bigpond_rule'' wan_bigpond_rule_attr,
      rule_entry ''wan_hwaddr_rule_default'' wan_hwaddr_rule_default_attr,
      rule_entry ''wan_hwaddr_clone_rule'' wan_hwaddr_clone_rule_attr,
      rule_entry ''wan_ddns_rule'' wan_ddns_rule_attr,
      rule_entry ''wan_apple_filter_rule'' wan_apple_filter_rule_attr,
      rule_entry ''wan_opendns_rule'' wan_opendns_rule_attr,
      rule_entry ''lan_main_rule'' lan_main_rule_attr,
      rule_entry ''lan_hwaddr_rule_default'' lan_hwaddr_rule_default_attr,
      rule_entry ''lan_hwaddr_clone_rule'' lan_hwaddr_clone_rule_attr,
      rule_entry ''guest_lan_rule'' guest_lan_rule_attr,
      rule_entry ''lan_static_rule'' lan_static_rule_attr,
      rule_entry ''lan_status_rule'' (wan_status_rule_attr D),
      rule_entry ''lan_static_rule_default'' lan_static_rule_attr,
      rule_entry ''lan_dhcps_rule'' lan_dhcps_rule_attr,
      rule_entry ''wl0_wds'' wl0_wds_attr,
      rule_entry ''bw_sbm_rule'' (bw_sbm_rule_attr D),
      rule_entry ''bw_dbm_rule'' bw_dbm_rule_attr,
      rule_entry ''rt_rule'' rt_rule_attr,
      rule_entry ''wf_content_rule'' wf_content_rule_attr,
      rule_entry ''wf_rule'' wf_rule_attr,
      rule_entry ''sched_rule'' sched_rule_attr,
      rule_entry ''cron_rule'' cron_rule_attr,
      rule_entry ''vlan_rule'' (vlan_rule_attr D),
      rule_entry ''vlanport_rule'' (vlanport_rule_attr D),
      rule_entry ''br_rule'' br_rule_attr,
      rule_entry ''ntp_rule'' ntp_rule_attr,
      rule_entry ''ssh_rule'' ssh_rule_attr,
      rule_entry ''log_rule'' log_rule_attr,
      rule_entry ''ttl_rule'' ttl_rule_attr,
      rule_entry ''tos_rule'' tos_rule_attr,
      rule_entry ''upnp_rule'' upnp_rule_attr,
      rule_entry ''http_rule'' http_rule_attr,
      rule_entry ''user_rule'' user_rule_attr,
      rule_entry ''http_redirect_rule'' http_redirect_rule_attr,
      rule_entry ''snmp_rule'' snmp_rule_attr,
      rule_entry ''adtool_rule'' adtool_rule_attr,
      rule_entry ''smbd_rule'' smbd_rule_attr,
      rule_entry ''smbd_user_rule'' smbd_user_rule_attr,
      rule_entry ''togo_rule'' togo_rule_attr,
      rule_entry ''camera_rule'' camera_rule_attr,
      rule_entry ''drive_rule'' drive_rule_attr,
      rule_entry ''music_rule'' music_rule_attr,
      rule_entry ''led_rule'' led_rule_attr,
      rule_entry ''bt_rule'' bt_rule_attr,
      rule_entry ''ftpd_rule'' ftpd_rule_attr,
      rule_entry ''ftpd_user_rule'' ftpd_user_rule_attr,
      rule_entry ''itunes_rule'' itunes_rule_attr,
      rule_entry ''storage_rule'' storage_rule_attr,
      rule_entry ''storage_state_rule'' storage_state_rule_attr,
      rule_entry ''storage_used_state_rule'' storage_used_state_rule_attr,
      rule_entry ''myqnapcloud_id_rule'' myqnapcloud_id_rule_attr,
      rule_entry ''model_name'' model_name_attr,
      rule_entry ''is_rule'' is_rule_attr,
      rule_entry ''ishost_rule'' ishost_rule_attr,
      rule_entry ''isuser_rule'' isuser_rule_attr,
      rule_entry ''appmgr_rule'' appmgr_rule_attr,
      rule_entry ''http_rule_default'' http_rule_attr,
      rule_entry ''stats_rule'' stats_rule_attr,
      rule_entry ''vnc_rule'' vnc_rule_attr,
      rule_entry ''vnc_allow_rule'' vnc_allow_rule_attr,
      rule_entry ''pptpd_rule'' pptpd_rule_attr,
      rule_entry ''pptpd_user_rule'' pptpd_user_rule_attr,
      rule_entry ''wol_rule'' wol_rule_attr,
      rule_entry ''ipsec_rule'' (ipsec_rule_attr D),
      rule_entry ''ipsec_status_rule'' ipsec_status_rule_attr,
      rule_entry ''l2tpd_rule'' l2tpd_rule_attr,
      rule_entry ''l2tpd_user_rule'' pptpd_user_rule_attr,
      rule_entry ''auth_server_rule'' auth_server_rule_attr,
      rule_entry ''auth_user_rule'' auth_user_rule_attr,
      rule_entry ''fw_rule'' fw_rule_attr,
      rule_entry ''nat_pass_rule'' nat_pass_rule_attr,
      rule_entry ''wl_basic_rule'' wl_basic_rule_attr,
      rule_entry ''wl_advanced_rule'' wl_advanced_rule_attr,
      rule_entry ''wl_wds_rule'' wl_wds_rule_attr,
      rule_entry ''wl_wme_rule'' wl_wme_rule_attr,
      rule_entry ''wl_wps_sta_rule'' wl_wps_sta_rule_attr,
      rule_entry ''wl_wps_rule'' wl_wps_rule_attr,
      rule_entry ''wl0_basic_rule'' wlv_basic_rule_attr,
      rule_entry ''wl0_ifname_rule'' wlv_ifname_rule_attr,
      rule_entry ''wl0_ssid_rule'' wlv_ssid_rule_attr,
      rule_entry ''wl0_sec_rule'' wlv_sec_rule_attr,
      rule_entry ''wl0_sec_wep_rule'' wlv_sec_wep_rule_attr,
      rule_entry ''wl0_sec_wpa_rule'' wlv_sec_wpa_rule_attr,
      rule_entry ''wl0_sec_wpa2_rule'' wlv_sec_wpa2_rule_attr,
      rule_entry ''wl00_acl_basic_rule'' wlv_acl_basic_rule_attr,
      rule_entry ''wl00_acl_rule'' wlv_acl_rule_attr,
      rule_entry ''wl01_acl_basic_rule'' wlv_acl_basic_rule_attr,
      rule_entry ''wl01_acl_rule'' wlv_acl_rule_attr,
      rule_entry ''wl02_acl_basic_rule'' wlv_acl_basic_rule_attr,
      rule_entry ''wl02_acl_rule'' wlv_acl_rule_attr,
      rule_entry ''wl03_acl_basic_rule'' wlv_acl_basic_rule_attr,
      rule_entry ''wl03_acl_rule'' wlv_acl_rule_attr,
      rule_entry ''wl1_basic_rule'' wlv_basic_rule_attr,
      rule_entry ''wl1_ifname_rule'' wlv_ifname_rule_attr,
      rule_entry ''wl1_ssid_rule'' wlv_ssid_rule_attr,
      rule_entry ''wl1_sec_rule'' wlv_sec_rule_attr,
      rule_entry ''wl1_sec_wep_rule'' wlv_sec_wep_rule_attr,
      rule_entry ''wl1_sec_wpa_rule'' wlv_sec_wpa_rule_attr,
      rule_entry ''wl1_sec_wpa2_rule'' wlv_sec_wpa2_rule_attr,
      rule_entry ''wl0_wds_basic_rule'' wl_wds_basic_rule_attr,
      rule_entry ''wl0_wds_sec_wep_rule'' wl_wds_sec_wep_rule_attr,
      rule_entry ''wl0_wds_sec_wpa_rule'' wl_wds_sec_wpa_rule_attr,
      rule_entry ''wl0_apcli_rule'' (wl_apcli_rule_attr D),
      rule_entry ''wl0_apcli_sec_wep_rule'' wl_apcli_sec_wep_rule_attr,
      rule_entry ''wl0_apcli_sec_wpa_rule'' wl_apcli_sec_wpa_rule_attr,
      rule_entry ''wl0_apcli_sec_wpa2_rule'' wl_apcli_sec_wpa_rule_attr,
      rule_entry ''wl0_apcli_swap_rule'' (wl_apcli_swap_rule_attr D),
      rule_entry ''wl0_apcli_swap_basic_rule'' wl_apcli_swap_basic_rule_attr,
      rule_entry ''wl0_apcli_swap_channel_rule'' wl_apcli_swap_channel_rule_attr,
      rule_entry ''wl0_apcli_swap_sec_wep_rule'' wl_apcli_swap_sec_wep_rule_attr,
      rule_entry ''wl0_apcli_swap_sec_wpa_rule'' wl_apcli_swap_sec_wpa_rule_attr,
      rule_entry ''wl0_apcli_swap_sec_wpa2_rule'' wl_apcli_swap_sec_wpa_rule_attr,
      rule_entry ''wl1_wds_basic_rule'' wl_wds_basic_rule_attr,
      rule_entry ''wl1_wds_sec_wep_rule'' wl_wds_sec_wep_rule_attr,
      rule_entry ''wl1_wds_sec_wpa_rule'' wl_wds_sec_wpa_rule_attr,
      rule_entry ''wl1_apcli_rule'' (wl_apcli_rule_attr D),
      rule_entry ''wl1_apcli_sec_wep_rule'' wl_apcli_sec_wep_rule_attr,
      rule_entry ''wl1_apcli_sec_wpa_rule'' wl_apcli_sec_wpa_rule_attr,
      rule_entry ''wl1_apcli_sec_wpa2_rule'' wl_apcli_sec_wpa_rule_attr,
      rule_entry ''x_mode_data'' x_mode_data_attr,
      rule_entry ''portcfg_rule'' portcfg_rule_attr,
      rule_entry ''nat_rule'' nat_rule_attr,
      rule_entry ''app_enable_rule'' app_enable_rule_attr,
      rule_entry ''mfg_test_result_rule'' mfg_test_result_rule_attr,
      rule_entry ''serial_num_rule'' serial_num_rule_attr,
      rule_entry ''captive_rule'' captive_rule_attr,
      rule_entry ''igmp_proxy_rule'' igmp_proxy_rule_attr,
      rule_entry ''ppp_control_rule'' ppp_control_rule_attr,
      rule_entry ''card_reader_hardware_rule'' card_reader_hardware_rule_attr] @
     (if D PLATFORM_M2E then [rule_entry ''st_defpath_rule'' st_defpath_rule_attr,
      rule_entry ''gpiodef_rule'' gpiodef_rule_attr,
      rule_entry ''upnpc_setting_rule'' upnpc_setting_rule_attr,
      rule_entry ''upnpc_status_rule'' upnpc_status_rule_attr] else []) @
     (if D PLATFORM_GMA then [rule_entry ''wan_priority_rule'' wan_priority_rule_attr,
      rule_entry ''WISP_detect_portal_rule'' WISP_dtct_captive_portal_rule_attr,
      rule_entry ''gmn_nat_rule'' gmn_nat_rule_attr,
      rule_entry ''gmn_filter_rule'' gmn_filter_rule_attr,
      rule_entry ''gmn_mcast_rule'' gmn_mcast_rule_attr] else []) @
     [rule_null]"

end
