(* ===== verification/Ezp_Lib.thy ===== *)
theory Ezp_Lib
  imports Nvram_User Rule_Tables
begin

text \<open>
  The rule-set functions of \<^verbatim>\<open>src/package/ezp-nvram/src/ezp-lib.c\<close>.  A rule set is one variable whose
  value holds rules separated by \<^verbatim>\<open>|\<close>; a rule holds attributes separated by \<^verbatim>\<open>^\<close>.

  A pointer argument that the code tests against NULL is a \<^typ>\<open>string option\<close>; the caller's buffer is
  always there.  A function that fills a buffer returns the \<^verbatim>\<open>int\<close> of the code and the buffer, where
  \<^term>\<open>None\<close> is a buffer that was left alone.
\<close>

definition RULE_SEP :: char where "RULE_SEP = CHR ''|''"
definition ATTR_SEP :: char where "ATTR_SEP = CHR 0x5E"
definition MAX_ATTR_NUM :: nat where "MAX_ATTR_NUM = 32"

definition sep_string :: "string \<Rightarrow> char \<Rightarrow> nat \<Rightarrow> string list" where
  "sep_string word delim max_tok = take max_tok (split_on delim word)"

section \<open>Reading rules and attributes\<close>

text \<open>The loop over the tokens of the rule set; the rule is used as the format of \<^verbatim>\<open>snprintf\<close>.\<close>

fun get_rule_loop :: "string list \<Rightarrow> int \<Rightarrow> nat \<Rightarrow> (int \<times> string) c" where
  "get_rule_loop [] nth_i bsize = Some (if 0 \<le> nth_i then EZPLIB_NO_RULE else 0, [])"
| "get_rule_loop (ptr # str) nth_i bsize =
     (if nth_i \<noteq> 0 then get_rule_loop str (nth_i - 1) bsize
      else do {
        text \<leftarrow> printf_format ptr;
        Some (if bsize \<le> length text then EZPLIB_VAL_TRUNC else int (length text),
              snprintf_store bsize text)
      })"

definition ezplib_get_rule ::
    "'s env \<Rightarrow> string option \<Rightarrow> int \<Rightarrow> nat \<Rightarrow> 's world \<Rightarrow> (int \<times> string) c" where
  "ezplib_get_rule E rule_set nth_i bsize w =
     (case rule_set of
        None \<Rightarrow> Some (EZPLIB_INVALID, [])
      | Some rs \<Rightarrow>
          if rs = [] then Some (EZPLIB_INVALID, [])
          else do {
            wordlist \<leftarrow> nvram_get E rs w;
            case wordlist of
              None \<Rightarrow> Some (EZPLIB_NO_RULE_SET, [])
            | Some wl \<Rightarrow>
                if wl = [] then Some (EZPLIB_NO_RULE, [])
                else if EZPLIB_BUF_LEN \<le> length wl then Some (EZPLIB_VAL_TRUNC, [])
                else get_rule_loop (split_on RULE_SEP wl) nth_i bsize
          })"

text \<open>
  The loop of \<^verbatim>\<open>ezplib_get_subrule\<close> over the attributes, with the index \<open>i\<close>, the offset \<open>j\<close> and the
  text in the buffer.
\<close>

fun subrule_loop ::
    "string list \<Rightarrow> int \<Rightarrow> int \<Rightarrow> int \<Rightarrow> nat \<Rightarrow> nat \<Rightarrow> string \<Rightarrow> (nat \<times> string) c" where
  "subrule_loop [] i start end_i bsize j buf = Some (j, buf)"
| "subrule_loop (p # ps) i start end_i bsize j buf =
     (if start \<le> i \<and> i \<le> end_i then do {
        buf' \<leftarrow> snprintf_at bsize buf j (int bsize - int j) (p @ [ATTR_SEP]);
        subrule_loop ps (i + 1) start end_i bsize (j + length p + 1) buf'
      }
      else subrule_loop ps (i + 1) start end_i bsize j buf)"

text \<open>
  The final \<^verbatim>\<open>buf[j-1]\<close> is read wherever \<open>j\<close> has got to; inside the buffer it is the last separator
  or, when the last attribute just did not fit, the terminating NUL.
\<close>

definition ezplib_get_subrule ::
    "'s env \<Rightarrow> string option \<Rightarrow> int \<Rightarrow> int \<Rightarrow> int \<Rightarrow> nat \<Rightarrow> 's world \<Rightarrow> (int \<times> string option) c" where
  "ezplib_get_subrule E rule_set nth_i start end_i bsize w =
     (if rule_set = None \<or> rule_set = Some [] then Some (EZPLIB_INVALID, None)
      else if end_i < start then Some (EZPLIB_INVALID, None)
      else do {
        (ret, word) \<leftarrow> ezplib_get_rule E rule_set nth_i EZPLIB_BUF_LEN w;
        if ret < 0 then Some (ret, Some [])
        else do {
          (j, buf) \<leftarrow> subrule_loop (sep_string word ATTR_SEP MAX_ATTR_NUM) 0 start end_i bsize 0 [];
          if j = 0 then Some (0, Some buf)
          else if bsize < j then None
          else Some (0, Some (take (j - 1) buf))
        }
      })"

text \<open>
  The two nested loops over the table of rule sets and the attributes of the matching one.  A table
  that is left without its sentinel being met, and an index beyond \<^verbatim>\<open>ptr_array\<close>, are undefined.
\<close>

fun attr_scan ::
    "attr list \<Rightarrow> string list \<Rightarrow> nat \<Rightarrow> string \<Rightarrow> nat \<Rightarrow> int \<Rightarrow> show_result option c" where
  "attr_scan [] ps j type bsize use = None"
| "attr_scan (a # as) ps j type bsize use =
     (case attr_name a of
        None \<Rightarrow> Some None
      | Some n \<Rightarrow>
          if MAX_ATTR_NUM \<le> j then None
          else case ps of
                 [] \<Rightarrow> Some None
               | p # ps' \<Rightarrow>
                   if n = type \<and> use = EZPLIB_USE_CLI \<and> func_orig a \<noteq> None
                   then map_option Some (show_call (the (func_orig a)) (Some p) bsize)
                   else if n = type \<and> use = EZPLIB_USE_WEB \<and> func_wrap a \<noteq> None
                   then map_option Some (show_call (the (func_wrap a)) (Some p) bsize)
                   else attr_scan as ps' (j + 1) type bsize use)"

fun rules_scan ::
    "rule list \<Rightarrow> string list \<Rightarrow> string \<Rightarrow> string \<Rightarrow> nat \<Rightarrow> int \<Rightarrow> show_result option c" where
  "rules_scan [] ps rule_set type bsize use = None"
| "rules_scan (r # rs) ps rule_set type bsize use =
     (case rule_name r of
        None \<Rightarrow> Some None
      | Some n \<Rightarrow>
          if n \<noteq> rule_set then rules_scan rs ps rule_set type bsize use
          else do {
            found \<leftarrow> attr_scan (rule_attr r) ps 0 type bsize use;
            case found of
              Some res \<Rightarrow> Some (Some res)
            | None \<Rightarrow> rules_scan rs ps rule_set type bsize use
          })"

definition ezplib_get_attr_val ::
    "'s env \<Rightarrow> string option \<Rightarrow> int \<Rightarrow> string option \<Rightarrow> nat \<Rightarrow> int \<Rightarrow> 's world \<Rightarrow> (int \<times> string option) c" where
  "ezplib_get_attr_val E rule_set nth_i type bsize use w =
     (case (rule_set, type) of
        (Some rs, Some ty) \<Rightarrow>
          if rs = [] \<or> ty = [] then Some (EZPLIB_INVALID, None)
          else do {
            (ret, word) \<leftarrow> ezplib_get_rule E rule_set nth_i EZPLIB_BUF_LEN w;
            if ret < 0 then Some (ret, Some [])
            else do {
              found \<leftarrow> rules_scan (rules (defined (bld E))) (sep_string word ATTR_SEP MAX_ATTR_NUM) rs ty
                        bsize use;
              case found of
                Some (r, out) \<Rightarrow> Some (r, Some (case out of None \<Rightarrow> [] | Some t \<Rightarrow> t))
              | None \<Rightarrow> Some (EZPLIB_NO_ATTRIBUTE, Some [])
            }
          }
      | _ \<Rightarrow> Some (EZPLIB_INVALID, None))"

definition ezplib_get_rule_num :: "'s env \<Rightarrow> string \<Rightarrow> 's world \<Rightarrow> int c" where
  "ezplib_get_rule_num E rule_set w = do {
     v \<leftarrow> nvram_get E rule_set w;
     Some (case v of
             None \<Rightarrow> EZPLIB_NO_RULE_SET
           | Some s \<Rightarrow> if s = [] then 0 else int (count_list s RULE_SEP) + 1)
   }"

section \<open>Changing rule sets\<close>

datatype opcode = ADD_RULE | DELETE_RULE | REPLACE_RULE

text \<open>
  The loop of \<^verbatim>\<open>ezplib_op_rule\<close>: \<open>Inl\<close> is an early return with an error, \<open>Inr\<close> the text that the
  buffer holds after the loop.  Adding a rule emits it and visits the same index again, with
  \<open>nth_i\<close> set to -1.  \<open>new_rule\<close> is NULL for deletions only; printing NULL is undefined.
\<close>

function op_rule_loop ::
    "'s env \<Rightarrow> string \<Rightarrow> opcode \<Rightarrow> int \<Rightarrow> string option \<Rightarrow> nat \<Rightarrow> nat \<Rightarrow> string \<Rightarrow> 's world \<Rightarrow> (int + string) c" where
  "op_rule_loop E rule_set opc nth_i new_rule rule_num i buf w =
     (if rule_num \<le> i then Some (Inr buf)
      else do {
        (ret, word) \<leftarrow> ezplib_get_rule E (Some rule_set) (int i) EZPLIB_BUF_LEN w;
        if ret < 0 then Some (Inl ret)
        else if int i \<noteq> nth_i then
          (let buf' = buf @ word @ [RULE_SEP] in
           if EZPLIB_BUF_LEN \<le> length buf' then Some (Inl EZPLIB_VAL_TRUNC)
           else op_rule_loop E rule_set opc nth_i new_rule rule_num (i + 1) buf' w)
        else case opc of
               ADD_RULE \<Rightarrow> do {
                 new \<leftarrow> new_rule;
                 let buf' = buf @ new @ [RULE_SEP];
                 if EZPLIB_BUF_LEN \<le> length buf' then Some (Inl EZPLIB_VAL_TRUNC)
                 else op_rule_loop E rule_set opc (-1) new_rule rule_num i buf' w
               }
             | DELETE_RULE \<Rightarrow> op_rule_loop E rule_set opc nth_i new_rule rule_num (i + 1) buf w
             | REPLACE_RULE \<Rightarrow> do {
                 new \<leftarrow> new_rule;
                 let buf' = buf @ new @ [RULE_SEP];
                 if EZPLIB_BUF_LEN \<le> length buf' then Some (Inl EZPLIB_VAL_TRUNC)
                 else op_rule_loop E rule_set opc nth_i new_rule rule_num (i + 1) buf' w
               }
      })"
  by pat_completeness auto

termination
  by (relation "measure (\<lambda>(E, rule_set, opc, nth_i, new_rule, rule_num, i, buf, w).
        2 * (rule_num - i) + (if 0 \<le> nth_i then 1 else 0))") auto

declare op_rule_loop.simps [simp del]

text \<open>
  After the loop \<^verbatim>\<open>buf[len - 1]\<close> is read, which lies before the buffer when no rule was emitted.
\<close>

definition ezplib_op_rule ::
    "'s env \<Rightarrow> string \<Rightarrow> opcode \<Rightarrow> int \<Rightarrow> string option \<Rightarrow> 's world \<Rightarrow> (int \<times> 's world) c" where
  "ezplib_op_rule E rule_set opc nth_i new_rule w = do {
     rule_num \<leftarrow> ezplib_get_rule_num E rule_set w;
     if rule_num < 0 then Some (EZPLIB_NO_RULE_SET, w)
     else do {
       res \<leftarrow> op_rule_loop E rule_set opc nth_i new_rule (nat rule_num) 0 [] w;
       case res of
         Inl err \<Rightarrow> Some (err, w)
       | Inr buf \<Rightarrow>
           if buf = [] then None
           else (let buf' = (if last buf = RULE_SEP then butlast buf else buf) in do {
             (_, w') \<leftarrow> nvram_set E rule_set (Some buf') w;
             Some (int (length buf'), w')
           })
     }
   }"

definition ezplib_replace_rule ::
    "'s env \<Rightarrow> string option \<Rightarrow> int \<Rightarrow> string option \<Rightarrow> 's world \<Rightarrow> (int \<times> 's world) c" where
  "ezplib_replace_rule E rule_set nth_i new_rule w =
     (case (rule_set, new_rule) of
        (Some rs, Some new) \<Rightarrow>
          if rs = [] then Some (EZPLIB_INVALID, w)
          else do {
            rule_num \<leftarrow> ezplib_get_rule_num E rs w;
            if rule_num < 0 then Some (EZPLIB_NO_RULE_SET, w)
            else if nth_i > rule_num \<or> nth_i < 0 then Some (EZPLIB_IDX_OUT_RANGE, w)
            else do {
              (_, w') \<leftarrow> ezplib_op_rule E rs REPLACE_RULE nth_i (Some new) w;
              Some (0, w')
            }
          }
      | _ \<Rightarrow> Some (EZPLIB_INVALID, w))"

text \<open>
  The loops of \<^verbatim>\<open>ezplib_replace_attr\<close>: the attributes of the rule are copied while both the table and
  the rule have one more, the named one replaced.  \<open>Inl\<close> is the early return.
\<close>

fun replace_attr_scan ::
    "attr list \<Rightarrow> string list \<Rightarrow> nat \<Rightarrow> string \<Rightarrow> string \<Rightarrow> string \<Rightarrow> (int + string) c" where
  "replace_attr_scan [] ps j attr new_attr tmp = None"
| "replace_attr_scan (a # as) ps j attr new_attr tmp =
     (case attr_name a of
        None \<Rightarrow> Some (Inr tmp)
      | Some n \<Rightarrow>
          if MAX_ATTR_NUM \<le> j then None
          else case ps of
                 [] \<Rightarrow> Some (Inr tmp)
               | p # ps' \<Rightarrow>
                   (let val = (if n = attr then new_attr else p); tmp' = tmp @ val @ [ATTR_SEP] in
                    if EZPLIB_BUF_LEN \<le> length tmp' then Some (Inl EZPLIB_VAL_TRUNC)
                    else replace_attr_scan as ps' (j + 1) attr new_attr tmp'))"

fun rules_find :: "rule list \<Rightarrow> string \<Rightarrow> attr list option c" where
  "rules_find [] rule_set = None"
| "rules_find (r # rs) rule_set =
     (case rule_name r of
        None \<Rightarrow> Some None
      | Some n \<Rightarrow> if n \<noteq> rule_set then rules_find rs rule_set else Some (Some (rule_attr r)))"

definition ezplib_replace_attr ::
    "'s env \<Rightarrow> string option \<Rightarrow> int \<Rightarrow> string option \<Rightarrow> string option \<Rightarrow> 's world \<Rightarrow> (int \<times> 's world) c" where
  "ezplib_replace_attr E rule_set nth_i attr new_attr w =
     (case (rule_set, attr, new_attr) of
        (Some rs, Some an, Some new) \<Rightarrow>
          if rs = [] \<or> an = [] then Some (EZPLIB_INVALID, w)
          else do {
            (ret, word) \<leftarrow> ezplib_get_rule E rule_set nth_i EZPLIB_BUF_LEN w;
            if ret < 0 then Some (ret, w)
            else do {
              table \<leftarrow> rules_find (rules (defined (bld E))) rs;
              case table of
                None \<Rightarrow> Some (EZPLIB_NO_ATTRIBUTE, w)
              | Some attrs \<Rightarrow> do {
                  res \<leftarrow> replace_attr_scan attrs (sep_string word ATTR_SEP MAX_ATTR_NUM) 0 an new [];
                  case res of
                    Inl err \<Rightarrow> Some (err, w)
                  | Inr tmp \<Rightarrow>
                      if tmp = [] then None
                      else ezplib_replace_rule E rule_set nth_i
                             (Some (if last tmp = ATTR_SEP then butlast tmp else tmp)) w
                }
            }
          }
      | _ \<Rightarrow> Some (EZPLIB_INVALID, w))"

definition ezplib_delete_rule ::
    "'s env \<Rightarrow> string option \<Rightarrow> int \<Rightarrow> 's world \<Rightarrow> (int \<times> 's world) c" where
  "ezplib_delete_rule E rule_set nth_i w =
     (case rule_set of
        None \<Rightarrow> Some (EZPLIB_INVALID, w)
      | Some rs \<Rightarrow>
          if rs = [] then Some (EZPLIB_INVALID, w)
          else do {
            (_, w') \<leftarrow> ezplib_op_rule E rs DELETE_RULE nth_i None w;
            Some (0, w')
          })"

definition ezplib_append_rule ::
    "'s env \<Rightarrow> string option \<Rightarrow> string option \<Rightarrow> 's world \<Rightarrow> (int \<times> 's world) c" where
  "ezplib_append_rule E rule_set new_rule w =
     (case (rule_set, new_rule) of
        (Some rs, Some new) \<Rightarrow>
          if rs = [] then Some (EZPLIB_INVALID, w)
          else do {
            old_rules \<leftarrow> nvram_get E rs w;
            case old_rules of
              None \<Rightarrow> Some (EZPLIB_NO_RULE_SET, w)
            | Some old \<Rightarrow>
                (let buf = (if old = [] then new else old @ [RULE_SEP] @ new) in
                 if EZPLIB_BUF_LEN \<le> length buf then Some (EZPLIB_VAL_TRUNC, w)
                 else do {
                   (_, w') \<leftarrow> nvram_set E rs (Some buf) w;
                   Some (int (length buf), w')
                 })
          }
      | _ \<Rightarrow> Some (EZPLIB_INVALID, w))"

definition ezplib_add_rule ::
    "'s env \<Rightarrow> string option \<Rightarrow> int \<Rightarrow> string option \<Rightarrow> 's world \<Rightarrow> (int \<times> 's world) c" where
  "ezplib_add_rule E rule_set nth_i new_rule w =
     (case (rule_set, new_rule) of
        (Some rs, Some new) \<Rightarrow>
          if rs = [] then Some (EZPLIB_INVALID, w)
          else do {
            rule_num \<leftarrow> ezplib_get_rule_num E rs w;
            if rule_num < 0 then Some (EZPLIB_NO_RULE_SET, w)
            else if nth_i > rule_num \<or> nth_i < 0 then Some (EZPLIB_IDX_OUT_RANGE, w)
            else do {
              (_, w') \<leftarrow> (if nth_i = rule_num then ezplib_append_rule E rule_set new_rule w
                         else ezplib_op_rule E rs ADD_RULE nth_i (Some new) w);
              Some (0, w')
            }
          }
      | _ \<Rightarrow> Some (EZPLIB_INVALID, w))"

definition ezplib_prepend_rule ::
    "'s env \<Rightarrow> string option \<Rightarrow> string option \<Rightarrow> 's world \<Rightarrow> (int \<times> 's world) c" where
  "ezplib_prepend_rule E rule_set new_rule w =
     (case (rule_set, new_rule) of
        (Some rs, Some new) \<Rightarrow>
          if rs = [] then Some (EZPLIB_INVALID, w)
          else ezplib_op_rule E rs ADD_RULE 0 (Some new) w
      | _ \<Rightarrow> Some (EZPLIB_INVALID, w))"

section \<open>Comparing and searching\<close>

definition ezplib_check_rule_changed ::
    "'s env \<Rightarrow> string option \<Rightarrow> int \<Rightarrow> string \<Rightarrow> 's world \<Rightarrow> int c" where
  "ezplib_check_rule_changed E rule_set nth_i new_rule w = do {
     (len, tmp) \<leftarrow> ezplib_get_rule E rule_set nth_i 256 w;
     if len \<le> 0 then Some 0 else Some (strncmp new_rule tmp (nat len))
   }"

definition ezplib_check_attr_changed ::
    "'s env \<Rightarrow> string option \<Rightarrow> int \<Rightarrow> string option \<Rightarrow> string \<Rightarrow> 's world \<Rightarrow> int c" where
  "ezplib_check_attr_changed E rule_set nth_i attr new_rule w = do {
     (len, tmp) \<leftarrow> ezplib_get_attr_val E rule_set nth_i attr 256 EZPLIB_USE_CLI w;
     if len < 0 then Some 0
     else if int (length new_rule) \<noteq> len then Some 1
     else (case tmp of None \<Rightarrow> None | Some t \<Rightarrow> Some (strncmp new_rule t (nat len)))
   }"

fun is_infix :: "string \<Rightarrow> string \<Rightarrow> bool" where
  "is_infix needle [] = (needle = [])"
| "is_infix needle (x # xs) = (take (length needle) (x # xs) = needle \<or> is_infix needle xs)"

fun find_attr_loop ::
    "'s env \<Rightarrow> string \<Rightarrow> string option \<Rightarrow> string \<Rightarrow> string option \<Rightarrow> nat \<Rightarrow> nat list \<Rightarrow> 's world
     \<Rightarrow> (int \<times> string option) c" where
  "find_attr_loop E rule_set find_attr find_val attr bsize [] w = Some (1, None)"
| "find_attr_loop E rule_set find_attr find_val attr bsize (i # is) w = do {
     (_, tmp) \<leftarrow> ezplib_get_attr_val E (Some rule_set) (int i) find_attr 256 EZPLIB_USE_CLI w;
     case tmp of
       None \<Rightarrow> None
     | Some t \<Rightarrow>
         if is_infix find_val t then do {
           (_, buf) \<leftarrow> ezplib_get_attr_val E (Some rule_set) (int i) attr bsize EZPLIB_USE_CLI w;
           Some (0, buf)
         }
         else find_attr_loop E rule_set find_attr find_val attr bsize is w
   }"

definition ezplib_find_attr_val ::
    "'s env \<Rightarrow> string \<Rightarrow> string option \<Rightarrow> string \<Rightarrow> string option \<Rightarrow> nat \<Rightarrow> 's world
     \<Rightarrow> (int \<times> string option) c" where
  "ezplib_find_attr_val E rule_set find_attr find_val attr bsize w = do {
     rule_num \<leftarrow> ezplib_get_rule_num E rule_set w;
     find_attr_loop E rule_set find_attr find_val attr bsize [0..<nat rule_num] w
   }"

section \<open>The loops\<close>

lemma seps_distinct [simp]:
  "RULE_SEP \<noteq> CHR 0x00" "ATTR_SEP \<noteq> CHR 0x00" "CHR 0x00 \<noteq> RULE_SEP" "CHR 0x00 \<noteq> ATTR_SEP"
  by (simp_all add: RULE_SEP_def ATTR_SEP_def)

lemma get_rule_loop_nth:
  assumes "n < length ts" and "CHR ''%'' \<notin> set (ts ! n)"
  shows "get_rule_loop ts (int n) bsize =
    Some (if bsize \<le> length (ts ! n) then EZPLIB_VAL_TRUNC else int (length (ts ! n)),
          snprintf_store bsize (ts ! n))"
  using assms
proof (induction ts arbitrary: n)
  case Nil
  then show ?case by simp
next
  case (Cons t ts)
  then show ?case by (cases n) auto
qed

lemma get_rule_loop_beyond:
  "int (length ts) \<le> n \<Longrightarrow> get_rule_loop ts n bsize = Some (EZPLIB_NO_RULE, [])"
  by (induction ts arbitrary: n) auto

lemma get_rule_loop_negative: "n < 0 \<Longrightarrow> get_rule_loop ts n bsize = Some (0, [])"
  by (induction ts arbitrary: n) auto

text \<open>The list operation behind each opcode.\<close>

fun op_list :: "opcode \<Rightarrow> int \<Rightarrow> 'a \<Rightarrow> 'a list \<Rightarrow> 'a list" where
  "op_list opc n new [] = []"
| "op_list opc n new (x # xs) =
     (if n \<noteq> 0 then x # op_list opc (n - 1) new xs
      else case opc of
             ADD_RULE \<Rightarrow> new # x # xs
           | DELETE_RULE \<Rightarrow> xs
           | REPLACE_RULE \<Rightarrow> new # xs)"

lemma op_list_negative [simp]: "n < 0 \<Longrightarrow> op_list opc n new xs = xs"
  by (induction xs arbitrary: n) auto

lemma op_list_beyond: "int (length xs) \<le> n \<Longrightarrow> op_list opc n new xs = xs"
  by (induction xs arbitrary: n) auto

lemma op_list_replace: "op_list REPLACE_RULE (int n) new xs = xs[n := new]"
proof (induction xs arbitrary: n)
  case (Cons x xs)
  then show ?case by (cases n) auto
qed simp

lemma op_list_add: "n < length xs \<Longrightarrow> op_list ADD_RULE (int n) new xs = take n xs @ new # drop n xs"
proof (induction xs arbitrary: n)
  case (Cons x xs)
  then show ?case by (cases n) auto
qed simp

lemma op_list_delete: "op_list DELETE_RULE (int n) new xs = take n xs @ drop (Suc n) xs"
proof (induction xs arbitrary: n)
  case (Cons x xs)
  then show ?case by (cases n) auto
qed simp

lemma set_op_list: "set (op_list opc n new xs) \<subseteq> insert new (set xs)"
  by (induction xs arbitrary: n) (auto split: opcode.split)

text \<open>
  The loop of \<^verbatim>\<open>ezplib_op_rule\<close> emits the rules of the new list, or reports that they do not fit.
\<close>

definition emit_result :: "string \<Rightarrow> string list \<Rightarrow> int + string" where
  "emit_result buf ts =
     (let t = buf @ emit_all RULE_SEP ts in
      if length t < EZPLIB_BUF_LEN then Inr t else Inl EZPLIB_VAL_TRUNC)"

lemma emit_result_Cons:
  "emit_result buf (t # ts) =
     (if EZPLIB_BUF_LEN \<le> length (buf @ t @ [RULE_SEP]) then Inl EZPLIB_VAL_TRUNC
      else emit_result (buf @ t @ [RULE_SEP]) ts)"
  by (auto simp: emit_result_def Let_def)

lemma op_rule_loop_copy:
  assumes "\<And>i. i < length ts \<Longrightarrow>
      ezplib_get_rule E (Some rs) (int i) EZPLIB_BUF_LEN w = Some (int (length (ts ! i)), ts ! i)"
    and "length buf < EZPLIB_BUF_LEN" and "nth_i < int i"
  shows "op_rule_loop E rs opc nth_i new_rule (length ts) i buf w =
    Some (emit_result buf (drop i ts))"
  using assms(2,3)
proof (induction "length ts - i" arbitrary: i buf)
  case 0
  then show ?case by (simp add: op_rule_loop.simps [of E] emit_result_def)
next
  case (Suc k)
  then have i: "i < length ts" by simp
  have d: "drop i ts = ts ! i # drop (Suc i) ts"
    using i by (simp add: Cons_nth_drop_Suc)
  show ?case
    using Suc i
    by (subst op_rule_loop.simps) (simp add: assms(1) d emit_result_Cons Let_def)
qed

lemma op_rule_loop_list:
  assumes get: "\<And>i. i < length ts \<Longrightarrow>
      ezplib_get_rule E (Some rs) (int i) EZPLIB_BUF_LEN w = Some (int (length (ts ! i)), ts ! i)"
    and "length buf < EZPLIB_BUF_LEN" and new: "opc \<noteq> DELETE_RULE \<Longrightarrow> new_rule = Some new"
  shows "op_rule_loop E rs opc nth_i new_rule (length ts) i buf w =
    Some (emit_result buf (op_list opc (nth_i - int i) new (drop i ts)))"
  using assms(2)
proof (induction "length ts - i" arbitrary: i buf)
  case 0
  then show ?case by (simp add: op_rule_loop.simps [of E] emit_result_def)
next
  case (Suc k)
  then have i: "i < length ts" by simp
  have d: "drop i ts = ts ! i # drop (Suc i) ts"
    using i by (simp add: Cons_nth_drop_Suc)
  show ?case
  proof (cases "nth_i = int i")
    case False
    then show ?thesis
      using Suc i
      by (subst op_rule_loop.simps) (simp add: get d emit_result_Cons Let_def algebra_simps)
  next
    case True
    have copy: "op_rule_loop E rs op' n nr (length ts) j b w = Some (emit_result b (drop j ts))"
      if "length b < EZPLIB_BUF_LEN" "n < int j" for op' n nr j b
      by (rule op_rule_loop_copy [OF get that])
    show ?thesis
      using Suc.prems True i new
      by (subst op_rule_loop.simps)
        (cases opc; simp add: get d emit_result_Cons Let_def copy)
  qed
qed

section \<open>Rule sets on a device that keeps its contract\<close>

text \<open>
  \<open>stored_rules vars ok b w rs wl\<close>: the variable \<open>rs\<close> holds the rule set \<open>wl\<close>, which is not empty, fits
  the buffers of the library and has no \<^verbatim>\<open>%\<close>; the build does not append product categories to names.
\<close>

definition rule_text :: "string \<Rightarrow> bool" where
  "rule_text wl \<longleftrightarrow> wl \<noteq> [] \<and> length wl < EZPLIB_BUF_LEN \<and> CHR ''%'' \<notin> set wl"

definition stored_rules ::
    "('s \<Rightarrow> string \<Rightarrow> string option) \<Rightarrow> ('s \<Rightarrow> bool) \<Rightarrow> build \<Rightarrow> 's world \<Rightarrow> string \<Rightarrow> string \<Rightarrow> bool" where
  "stored_rules vars ok b w rs wl \<longleftrightarrow>
     ok (kdev w) \<and> good_name rs \<and> \<not> defined b EZP_PROD_SUPERCAT_X \<and>
     vars (kdev w) rs = Some wl \<and> rule_text wl"

definition may_write :: "'s world \<Rightarrow> string \<Rightarrow> bool" where
  "may_write w n \<longleftrightarrow>
     \<not> has_option (nvram_get_option n (nvram_ezpacket_default w)) NVRAM_UNDEFINED \<and>
     \<not> has_option (nvram_get_option n (nvram_ezpacket_default w)) NVRAM_PROTECTED"

lemma set_join_tokens:
  assumes "c \<noteq> d" and "c \<notin> set s" and "c \<notin> set new"
  shows "c \<notin> set (join_with d (op_list opc n new (split_on d s)))"
proof
  assume "c \<in> set (join_with d (op_list opc n new (split_on d s)))"
  then obtain t where "t \<in> set (op_list opc n new (split_on d s))" "c \<in> set t"
    using set_join_with [of d] assms(1) by blast
  then show False
    using set_op_list [of opc n new "split_on d s"] split_on_subset [of t d s] assms(2,3) by blast
qed

context nvram_device
begin

lemma stored_get:
  "stored_rules abs inv (bld E) w rs wl \<Longrightarrow> nvram_get E rs w = Some (Some wl)"
  by (simp add: stored_rules_def nvram_get_abs)

lemma get_rule_nth:
  assumes "stored_rules abs inv (bld E) w rs wl" and "n < length (split_on RULE_SEP wl)"
  shows "ezplib_get_rule E (Some rs) (int n) bsize w =
    (let t = split_on RULE_SEP wl ! n
     in Some (if bsize \<le> length t then EZPLIB_VAL_TRUNC else int (length t), snprintf_store bsize t))"
proof -
  have "CHR ''%'' \<notin> set (split_on RULE_SEP wl ! n)"
    using assms split_on_subset [OF nth_mem [OF assms(2)]]
    by (auto simp: stored_rules_def rule_text_def)
  then show ?thesis
    using assms stored_get [OF assms(1)] get_rule_loop_nth [OF assms(2)]
    by (auto simp: ezplib_get_rule_def stored_rules_def rule_text_def good_name_def Let_def)
qed

lemma get_rule_full:
  assumes "stored_rules abs inv (bld E) w rs wl" and "n < length (split_on RULE_SEP wl)"
  shows "ezplib_get_rule E (Some rs) (int n) EZPLIB_BUF_LEN w =
    Some (int (length (split_on RULE_SEP wl ! n)), split_on RULE_SEP wl ! n)"
proof -
  have "length (split_on RULE_SEP wl ! n) < EZPLIB_BUF_LEN"
    using assms length_split_on_token [OF nth_mem [OF assms(2)]]
    by (auto simp: stored_rules_def rule_text_def)
  then show ?thesis
    using get_rule_nth [OF assms] by (simp add: Let_def)
qed

lemma get_rule_beyond:
  assumes "stored_rules abs inv (bld E) w rs wl" and "int (length (split_on RULE_SEP wl)) \<le> n"
  shows "ezplib_get_rule E (Some rs) n bsize w = Some (EZPLIB_NO_RULE, [])"
  using assms stored_get [OF assms(1)] get_rule_loop_beyond [OF assms(2)]
  by (auto simp: ezplib_get_rule_def stored_rules_def rule_text_def good_name_def)

lemma get_rule_num_abs:
  assumes "stored_rules abs inv (bld E) w rs wl"
  shows "ezplib_get_rule_num E rs w = Some (int (length (split_on RULE_SEP wl)))"
  using assms stored_get [OF assms]
  by (simp add: ezplib_get_rule_num_def length_split_on stored_rules_def rule_text_def)

lemma set_stored:
  assumes st: "stored_rules abs inv (bld E) w rs wl" and wr: "may_write w rs"
    and v: "CHR 0x00 \<notin> set v" and rm: "v \<noteq> [] \<Longrightarrow> room (abs (kdev w)) rs v"
  shows "\<exists>k. nvram_set E rs (Some v) w = Some (0, w\<lparr>kdev := k\<rparr>) \<and> inv k \<and>
             abs k = (abs (kdev w))(rs := norm_val (Some v))"
proof (rule nvram_set_abs)
  show "room (abs (kdev w)) rs u" if "norm_val (Some v) = Some u" for u
    using that rm by (cases v) auto
qed (use assms in \<open>auto simp: stored_rules_def may_write_def\<close>)

text \<open>
  \<^verbatim>\<open>ezplib_op_rule\<close> performs its list operation on the rules and stores the rules it gets.
\<close>

lemma op_rule_abs:
  assumes st: "stored_rules abs inv (bld E) w rs wl" and wr: "may_write w rs"
    and new: "opc \<noteq> DELETE_RULE \<Longrightarrow> new_rule = Some new" "CHR 0x00 \<notin> set new"
    and ts: "ts = op_list opc nth_i new (split_on RULE_SEP wl)" "ts \<noteq> []"
    and len: "Suc (length (join_with RULE_SEP ts)) < EZPLIB_BUF_LEN"
    and rm: "join_with RULE_SEP ts \<noteq> [] \<Longrightarrow> room (abs (kdev w)) rs (join_with RULE_SEP ts)"
  shows "\<exists>k. ezplib_op_rule E rs opc nth_i new_rule w =
               Some (int (length (join_with RULE_SEP ts)), w\<lparr>kdev := k\<rparr>) \<and> inv k \<and>
             abs k = (abs (kdev w))(rs := norm_val (Some (join_with RULE_SEP ts)))"
proof -
  have "op_rule_loop E rs opc nth_i new_rule (length (split_on RULE_SEP wl)) 0 [] w =
      Some (Inr (emit_all RULE_SEP ts))"
    using op_rule_loop_list [OF get_rule_full [OF st], of "[]" opc new_rule new nth_i 0] new(1) len ts
    by (simp add: emit_result_def length_emit_all EZPLIB_BUF_LEN_def)
  moreover have "CHR 0x00 \<notin> set wl"
    using st abs_no_nul by (auto simp: stored_rules_def)
  then have "CHR 0x00 \<notin> set (join_with RULE_SEP ts)"
    using set_join_tokens [of "CHR 0x00" RULE_SEP wl new opc nth_i] new(2) ts by simp
  then obtain k where "nvram_set E rs (Some (join_with RULE_SEP ts)) w = Some (0, w\<lparr>kdev := k\<rparr>)"
      "inv k" "abs k = (abs (kdev w))(rs := norm_val (Some (join_with RULE_SEP ts)))"
    using set_stored [OF st wr] rm by blast
  ultimately show ?thesis
    using ts(2)
    by (auto simp: ezplib_op_rule_def get_rule_num_abs [OF st] last_emit_all butlast_emit_all)
qed

lemma op_rule_trunc:
  assumes st: "stored_rules abs inv (bld E) w rs wl"
    and new: "opc \<noteq> DELETE_RULE \<Longrightarrow> new_rule = Some new"
    and ts: "ts = op_list opc nth_i new (split_on RULE_SEP wl)" "ts \<noteq> []"
    and len: "EZPLIB_BUF_LEN \<le> Suc (length (join_with RULE_SEP ts))"
  shows "ezplib_op_rule E rs opc nth_i new_rule w = Some (EZPLIB_VAL_TRUNC, w)"
  using op_rule_loop_list [OF get_rule_full [OF st], of "[]" opc new_rule new nth_i 0] new len ts
  by (simp add: emit_result_def length_emit_all EZPLIB_BUF_LEN_def ezplib_op_rule_def
      get_rule_num_abs [OF st])

lemma replace_rule_abs:
  assumes st: "stored_rules abs inv (bld E) w rs wl" and wr: "may_write w rs"
    and new: "CHR 0x00 \<notin> set new" and n: "n < length (split_on RULE_SEP wl)"
    and ts: "ts = (split_on RULE_SEP wl)[n := new]"
    and len: "Suc (length (join_with RULE_SEP ts)) < EZPLIB_BUF_LEN"
    and rm: "join_with RULE_SEP ts \<noteq> [] \<Longrightarrow> room (abs (kdev w)) rs (join_with RULE_SEP ts)"
  shows "\<exists>k. ezplib_replace_rule E (Some rs) (int n) (Some new) w = Some (0, w\<lparr>kdev := k\<rparr>) \<and> inv k \<and>
             abs k = (abs (kdev w))(rs := norm_val (Some (join_with RULE_SEP ts)))"
proof -
  have "ts \<noteq> []"
    using ts by simp
  then obtain k where "ezplib_op_rule E rs REPLACE_RULE (int n) (Some new) w =
        Some (int (length (join_with RULE_SEP ts)), w\<lparr>kdev := k\<rparr>)" "inv k"
      "abs k = (abs (kdev w))(rs := norm_val (Some (join_with RULE_SEP ts)))"
    using op_rule_abs [OF st wr, of REPLACE_RULE "Some new" new ts "int n"] new len rm ts
    by (auto simp: op_list_replace)
  then show ?thesis
    using st n
    by (auto simp: ezplib_replace_rule_def get_rule_num_abs [OF st] stored_rules_def good_name_def)
qed

lemma add_rule_abs:
  assumes st: "stored_rules abs inv (bld E) w rs wl" and wr: "may_write w rs"
    and new: "CHR 0x00 \<notin> set new" and n: "n \<le> length (split_on RULE_SEP wl)"
    and ts: "ts = take n (split_on RULE_SEP wl) @ new # drop n (split_on RULE_SEP wl)"
    and len: "Suc (length (join_with RULE_SEP ts)) < EZPLIB_BUF_LEN"
    and rm: "join_with RULE_SEP ts \<noteq> [] \<Longrightarrow> room (abs (kdev w)) rs (join_with RULE_SEP ts)"
  shows "\<exists>k. ezplib_add_rule E (Some rs) (int n) (Some new) w = Some (0, w\<lparr>kdev := k\<rparr>) \<and> inv k \<and>
             abs k = (abs (kdev w))(rs := norm_val (Some (join_with RULE_SEP ts)))"
proof (cases "n = length (split_on RULE_SEP wl)")
  case True
  have wl: "wl \<noteq> []" "rs \<noteq> []" "CHR 0x00 \<notin> set wl"
    using st abs_no_nul by (auto simp: stored_rules_def rule_text_def good_name_def)
  have j: "join_with RULE_SEP ts = wl @ RULE_SEP # new"
    using True ts by (simp add: join_with_snoc join_split)
  then obtain k where "nvram_set E rs (Some (wl @ RULE_SEP # new)) w = Some (0, w\<lparr>kdev := k\<rparr>)"
      "inv k" "abs k = (abs (kdev w))(rs \<mapsto> wl @ RULE_SEP # new)"
    using set_stored [OF st wr, of "wl @ RULE_SEP # new"] rm wl new by auto
  then show ?thesis
    using True wl j len
    by (auto simp: ezplib_add_rule_def get_rule_num_abs [OF st] ezplib_append_rule_def
        stored_get [OF st])
next
  case False
  then have n: "n < length (split_on RULE_SEP wl)"
    using n by simp
  then obtain k where "ezplib_op_rule E rs ADD_RULE (int n) (Some new) w =
        Some (int (length (join_with RULE_SEP ts)), w\<lparr>kdev := k\<rparr>)" "inv k"
      "abs k = (abs (kdev w))(rs := norm_val (Some (join_with RULE_SEP ts)))"
    using op_rule_abs [OF st wr, of ADD_RULE "Some new" new ts "int n"] new len rm ts
    by (auto simp: op_list_add)
  then show ?thesis
    using st n
    by (auto simp: ezplib_add_rule_def get_rule_num_abs [OF st] stored_rules_def good_name_def)
qed

lemma delete_rule_abs:
  assumes st: "stored_rules abs inv (bld E) w rs wl" and wr: "may_write w rs"
    and n: "n < length (split_on RULE_SEP wl)" "1 < length (split_on RULE_SEP wl)"
    and ts: "ts = take n (split_on RULE_SEP wl) @ drop (Suc n) (split_on RULE_SEP wl)"
    and len: "Suc (length (join_with RULE_SEP ts)) < EZPLIB_BUF_LEN"
    and rm: "join_with RULE_SEP ts \<noteq> [] \<Longrightarrow> room (abs (kdev w)) rs (join_with RULE_SEP ts)"
  shows "\<exists>k. ezplib_delete_rule E (Some rs) (int n) w = Some (0, w\<lparr>kdev := k\<rparr>) \<and> inv k \<and>
             abs k = (abs (kdev w))(rs := norm_val (Some (join_with RULE_SEP ts)))"
proof -
  have "length ts = length (split_on RULE_SEP wl) - 1"
    using ts n by simp
  then have "ts \<noteq> []"
    using n(2) by (intro notI) simp
  then obtain k where "ezplib_op_rule E rs DELETE_RULE (int n) None w =
        Some (int (length (join_with RULE_SEP ts)), w\<lparr>kdev := k\<rparr>)" "inv k"
      "abs k = (abs (kdev w))(rs := norm_val (Some (join_with RULE_SEP ts)))"
    using op_rule_abs [OF st wr, of DELETE_RULE None "[]" ts "int n"] len rm ts
    by (auto simp: op_list_delete)
  then show ?thesis
    using st by (auto simp: ezplib_delete_rule_def stored_rules_def good_name_def)
qed

lemma append_rule_abs:
  assumes st: "stored_rules abs inv (bld E) w rs wl" and wr: "may_write w rs"
    and new: "CHR 0x00 \<notin> set new" and len: "length wl + 1 + length new < EZPLIB_BUF_LEN"
    and rm: "room (abs (kdev w)) rs (wl @ RULE_SEP # new)"
  shows "\<exists>k. ezplib_append_rule E (Some rs) (Some new) w =
               Some (int (length wl + 1 + length new), w\<lparr>kdev := k\<rparr>) \<and> inv k \<and>
             abs k = (abs (kdev w))(rs \<mapsto> wl @ RULE_SEP # new)"
proof -
  have wl: "wl \<noteq> []" "rs \<noteq> []" "CHR 0x00 \<notin> set wl"
    using st abs_no_nul by (auto simp: stored_rules_def rule_text_def good_name_def)
  obtain k where "nvram_set E rs (Some (wl @ RULE_SEP # new)) w = Some (0, w\<lparr>kdev := k\<rparr>)"
      "inv k" "abs k = (abs (kdev w))(rs \<mapsto> wl @ RULE_SEP # new)"
    using set_stored [OF st wr, of "wl @ RULE_SEP # new"] rm wl new by auto
  then show ?thesis
    using wl len by (auto simp: ezplib_append_rule_def stored_get [OF st])
qed

text \<open>Deleting the only rule of a set reads the byte before the buffer.\<close>

lemma delete_only_rule:
  assumes st: "stored_rules abs inv (bld E) w rs wl" and "RULE_SEP \<notin> set wl"
  shows "ezplib_delete_rule E (Some rs) 0 w = None"
proof -
  have "split_on RULE_SEP wl = [wl]"
    using assms(2) by (rule split_on_no_sep)
  then show ?thesis
    using op_rule_loop_list [OF get_rule_full [OF st], of "[]" DELETE_RULE None "[]" 0 0] st
    by (simp add: ezplib_delete_rule_def ezplib_op_rule_def get_rule_num_abs [OF st] emit_result_def
        EZPLIB_BUF_LEN_def stored_rules_def good_name_def)
qed

end

end
