(* ===== verification/Rule_Facts.thy ===== *)
theory Rule_Facts
  imports Rule_Tables
begin

text \<open>
  Well-formedness of the tables of \<^verbatim>\<open>ezp-lib.c\<close>, for every build: which attribute tables end in a
  sentinel, that no table has more attributes than \<^verbatim>\<open>ptr_array\<close> has slots, and that the
  attributes of a table have different names.
\<close>

text \<open>
  A table that the loops over \<^verbatim>\<open>attr[j].name\<close> can walk: named entries with both functions, different
  names, at most \<^verbatim>\<open>MAX_ATTR_NUM\<close> of them, and the sentinel at the end.
\<close>

definition attr_named :: "attr \<Rightarrow> bool" where
  "attr_named a \<longleftrightarrow> attr_name a \<noteq> None \<and> func_orig a \<noteq> None \<and> func_wrap a \<noteq> None"

definition attr_table :: "attr list \<Rightarrow> bool" where
  "attr_table as \<longleftrightarrow>
     as \<noteq> [] \<and> attr_name (last as) = None \<and> list_all attr_named (butlast as) \<and>
     distinct (map attr_name as) \<and> length as \<le> 33"

definition attr_table_open :: "attr list \<Rightarrow> bool" where
  "attr_table_open as \<longleftrightarrow> list_all attr_named as \<and> length as \<le> 32"

lemma attr_named_simps [simp]: "attr_named (attr_entry n f g)" "\<not> attr_named attr_null"
  by (simp_all add: attr_named_def)

lemma attr_tables:
  "attr_table aximddns_rule_attr"
  "attr_table aximddns_tmp_rule_attr"
  "attr_table cgi_progress_attr"
  "attr_table mac_sense_attr"
  "attr_table file_mode_attr"
  "attr_table relay_schedule_attr"
  "attr_table mail_attr"
  "attr_table failover_attr"
  "attr_table alert_attr"
  "attr_table relay_attr"
  "attr_table als_battery_rule_attr"
  "attr_table als_status_rule_attr"
  "attr_table als_serial_rule_attr"
  "attr_table als_operating_rule_attr"
  "attr_table als_operating_data_packing_rule_attr"
  "attr_table als_operating_option_rule_attr"
  "attr_table plug_rule_attr"
  "attr_table cnnt_rule_attr"
  "attr_table fr_rule_attr"
  "attr_table wizard_rule_attr"
  "attr_table vs_rule_attr"
  "attr_table wan_main_rule_attr"
  "attr_table wan_detect_rule_attr"
  "attr_table wan_lb_rule_attr"
  "attr_table wan_action_style_rule_attr"
  "attr_table storage_device_mount_rule_attr"
  "attr_table countdown_rule_attr"
  "attr_table license_status_rule_attr"
  "attr_table wan_upnp_status_rule_attr"
  "attr_table wan_bw_rule_attr"
  "attr_table wan_static_rule_attr"
  "attr_table wan_dhcp_rule_attr"
  "attr_table wan_pppoe_rule_attr"
  "attr_table wan_bigpond_rule_attr"
  "attr_table wan_wwan_rule_attr"
  "attr_table wan_barry_rule_attr"
  "attr_table wan_htc_rule_attr"
  "attr_table wan_beceem_rule_attr"
  "attr_table wan_wimax_rule_attr"
  "attr_table wan_iphone_rule_attr"
  "attr_table wan_wwan_probe_rule_attr"
  "attr_table wan_hwaddr_rule_default_attr"
  "attr_table wan_hwaddr_clone_rule_attr"
  "attr_table wan_ddns_rule_attr"
  "attr_table wan_apple_filter_rule_attr"
  "attr_table wan_opendns_rule_attr"
  "attr_table lan_main_rule_attr"
  "attr_table wan_pptp_l2tp_rule_attr"
  "attr_table wan_l2tp_status_rule_attr"
  "attr_table lan_hwaddr_rule_default_attr"
  "attr_table lan_hwaddr_clone_rule_attr"
  "attr_table nat_rule_attr"
  "attr_table guest_lan_rule_attr"
  "attr_table lan_static_rule_attr"
  "attr_table lan_dhcps_rule_attr"
  "attr_table wl0_wds_attr"
  "attr_table wl_wps_sta_rule_attr"
  "attr_table wl_wps_rule_attr"
  "attr_table bw_group_rule_attr"
  "attr_table rt_rule_attr"
  "attr_table sched_rule_attr"
  "attr_table cron_rule_attr"
  "attr_table ntp_rule_attr"
  "attr_table br_rule_attr"
  "attr_table ssh_rule_attr"
  "attr_table log_rule_attr"
  "attr_table upnp_rule_attr"
  "attr_table fl_rule_attr"
  "attr_table fl_hwaddr_rule_attr"
  "attr_table fr_dmz_rule_attr"
  "attr_table tos_rule_attr"
  "attr_table ttl_rule_attr"
  "attr_table user_rule_attr"
  "attr_table http_rule_attr"
  "attr_table http_redirect_rule_attr"
  "attr_table snmp_rule_attr"
  "attr_table adtool_rule_attr"
  "attr_table stats_rule_attr"
  "attr_table vnc_rule_attr"
  "attr_table vnc_allow_rule_attr"
  "attr_table pptpd_rule_attr"
  "attr_table pptpd_user_rule_attr"
  "attr_table l2tpd_rule_attr"
  "attr_table l2tpd_user_rule_attr"
  "attr_table wol_rule_attr"
  "attr_table ipsec_status_rule_attr"
  "attr_table auth_server_rule_attr"
  "attr_table auth_user_rule_attr"
  "attr_table fw_rule_attr"
  "attr_table nat_pass_rule_attr"
  "attr_table wl_basic_rule_attr"
  "attr_table wl_advanced_rule_attr"
  "attr_table wl_wds_rule_attr"
  "attr_table wl_wme_rule_attr"
  "attr_table wlv_basic_rule_attr"
  "attr_table wlv_ifname_rule_attr"
  "attr_table wlv_ssid_rule_attr"
  "attr_table wlv_sec_rule_attr"
  "attr_table wlv_sec_wep_rule_attr"
  "attr_table smbd_rule_attr"
  "attr_table smbd_user_rule_attr"
  "attr_table togo_rule_attr"
  "attr_table camera_rule_attr"
  "attr_table drive_rule_attr"
  "attr_table music_rule_attr"
  "attr_table led_rule_attr"
  "attr_table bt_rule_attr"
  "attr_table ftpd_rule_attr"
  "attr_table ftpd_user_rule_attr"
  "attr_table storage_rule_attr"
  "attr_table storage_state_rule_attr"
  "attr_table storage_used_state_rule_attr"
  "attr_table myqnapcloud_id_rule_attr"
  "attr_table model_name_attr"
  "attr_table is_rule_attr"
  "attr_table ishost_rule_attr"
  "attr_table isuser_rule_attr"
  "attr_table appmgr_rule_attr"
  "attr_table wlv_sec_wpa_rule_attr"
  "attr_table wlv_sec_wpa2_rule_attr"
  "attr_table wlv_acl_basic_rule_attr"
  "attr_table wlv_acl_rule_attr"
  "attr_table wl_wds_basic_rule_attr"
  "attr_table wl_wds_sec_wep_rule_attr"
  "attr_table wl_wds_sec_wpa_rule_attr"
  "attr_table wl_apcli_sec_wep_rule_attr"
  "attr_table wl_apcli_sec_wpa_rule_attr"
  "attr_table wl_apcli_swap_basic_rule_attr"
  "attr_table wl_apcli_swap_channel_rule_attr"
  "attr_table wl_apcli_swap_sec_wep_rule_attr"
  "attr_table wl_apcli_swap_sec_wpa_rule_attr"
  "attr_table x_mode_data_attr"
  "attr_table portcfg_rule_attr"
  "attr_table app_enable_rule_attr"
  "attr_table serial_num_rule_attr"
  "attr_table mfg_test_result_rule_attr"
  "attr_table WISP_dtct_captive_portal_rule_attr"
  "attr_table igmp_proxy_rule_attr"
  "attr_table ppp_control_rule_attr"
  "attr_table wan_priority_rule_attr"
  "attr_table captive_rule_attr"
  "attr_table card_reader_hardware_rule_attr"
  "attr_table gpiodef_rule_attr"
  "attr_table upnpc_setting_rule_attr"
  "attr_table upnpc_status_rule_attr"
  "attr_table st_defpath_rule_attr"
  "attr_table gmn_nat_rule_attr"
  "attr_table gmn_filter_rule_attr"
  "attr_table gmn_mcast_rule_attr"
  by code_simp+

lemma attr_tables_build:
  "attr_table (wan_status_rule_attr D)"
  "attr_table (bw_sbm_rule_attr D)"
  "attr_table (vlan_rule_attr D)"
  "attr_table (vlanport_rule_attr D)"
  "attr_table (ipsec_rule_attr D)"
  "attr_table (wl_apcli_rule_attr D)"
  "attr_table (wl_apcli_swap_rule_attr D)"
  by (auto simp: attr_table_def table_defs)

lemma attr_tables_open:
  "attr_table_open wan_pptp_l2tp_global_rule_attr"
  "attr_table_open bw_dbm_rule_attr"
  "attr_table_open wf_content_rule_attr"
  "attr_table_open wf_rule_attr"
  "attr_table_open itunes_rule_attr"
  by code_simp+

text \<open>The rule sets whose table lacks the sentinel.\<close>

definition open_rule_sets :: "string list" where
  "open_rule_sets =
     [''wan_pptp_l2tp_global_rule'', ''bw_dbm_rule'', ''wf_content_rule'', ''wf_rule'', ''itunes_rule'']"

definition rule_walkable :: "rule \<Rightarrow> bool" where
  "rule_walkable r \<longleftrightarrow>
     (case rule_name r of
        None \<Rightarrow> True
      | Some n \<Rightarrow> if n \<in> set open_rule_sets then attr_table_open (rule_attr r)
                  else attr_table (rule_attr r))"

lemma rule_walkable_simps [simp]:
  "rule_walkable rule_null"
  "rule_walkable (rule_entry n as) \<longleftrightarrow>
     (if n \<in> set open_rule_sets then attr_table_open as else attr_table as)"
  by (simp_all add: rule_walkable_def)

text \<open>In every build, every rule set of the table \<^verbatim>\<open>rules\<close> has an attribute table with named entries that
  have both show functions, at most 32 of them and, in a terminated table, with different names; all tables
  are terminated by the sentinel except the five of \<open>open_rule_sets\<close>.\<close>

theorem rules_walkable: "list_all rule_walkable (rules D)"
  by (simp add: rules_def open_rule_sets_def attr_tables attr_tables_build attr_tables_open)

section \<open>Walking a table\<close>

text \<open>The position of an attribute in a table.\<close>

fun attr_pos :: "attr list \<Rightarrow> string \<Rightarrow> nat option" where
  "attr_pos [] n = None"
| "attr_pos (a # as) n = (if attr_name a = Some n then Some 0 else map_option Suc (attr_pos as n))"

lemma attr_pos_nth: "attr_pos as n = Some j \<Longrightarrow> j < length as \<and> attr_name (as ! j) = Some n"
  by (induction as arbitrary: j) (auto split: if_splits)

lemma attr_table_Cons:
  assumes "attr_table (a # as)" and "attr_name a \<noteq> None"
  shows "attr_named a" and "list_all attr_named (butlast as)" and "as \<noteq> []"
    and "attr_name (last as) = None"
  using assms by (auto simp: attr_table_def split: if_splits)

end
