(* ===== verification/Ezp_Attr.thy ===== *)
theory Ezp_Attr
  imports Ezp_Lib Rule_Facts
begin

text \<open>
  Attributes inside rules: the loops of \<^verbatim>\<open>ezplib_get_attr_val\<close>, \<^verbatim>\<open>ezplib_replace_attr\<close> and
  \<^verbatim>\<open>ezplib_get_subrule\<close> as operations on the list of attributes of a rule.
\<close>

section \<open>The loops over a table\<close>

text \<open>The function that prints an attribute for the shell or for the web.\<close>

definition attr_fn :: "int \<Rightarrow> attr \<Rightarrow> show_fn" where
  "attr_fn use a = the (if use = EZPLIB_USE_CLI then func_orig a else func_wrap a)"

lemma attr_fn_CLI [simp]: "attr_fn EZPLIB_USE_CLI a = the (func_orig a)"
  by (simp add: attr_fn_def)

lemma attr_scan_found:
  assumes "attr_pos as ty = Some p" and "p < length ps" and "j + p < MAX_ATTR_NUM"
    and "list_all attr_named (take (Suc p) as)" and use: "use \<in> {EZPLIB_USE_CLI, EZPLIB_USE_WEB}"
  shows "attr_scan as ps j ty bsize use =
    map_option Some (show_call (attr_fn use (as ! p)) (Some (ps ! p)) bsize)"
  using assms(1-4)
proof (induction as arbitrary: p ps j)
  case Nil
  then show ?case by simp
next
  case (Cons a as)
  obtain q ps' where ps: "ps = q # ps'"
    using Cons.prems(2) by (cases ps) auto
  obtain n where n: "attr_name a = Some n" "func_orig a \<noteq> None" "func_wrap a \<noteq> None"
    using Cons.prems(4) by (auto simp: attr_named_def)
  show ?case
  proof (cases "n = ty")
    case True
    then show ?thesis
      using Cons.prems n ps use by (auto simp: attr_fn_def EZPLIB_USE_CLI_def EZPLIB_USE_WEB_def)
  next
    case False
    then obtain p' where p': "p = Suc p'" "attr_pos as ty = Some p'"
      using Cons.prems(1) n by auto
    then show ?thesis
      using False Cons.prems Cons.IH [of p' ps' "Suc j"] n ps by auto
  qed
qed

lemma attr_scan_short:
  assumes "attr_pos as ty = Some p" and "length ps \<le> p" and "j + p < MAX_ATTR_NUM"
    and "list_all attr_named (take (Suc p) as)"
  shows "attr_scan as ps j ty bsize use = Some None"
  using assms
proof (induction as arbitrary: p ps j)
  case Nil
  then show ?case by simp
next
  case (Cons a as)
  obtain n where n: "attr_name a = Some n"
    using Cons.prems(4) by (auto simp: attr_named_def)
  show ?case
  proof (cases ps)
    case Nil
    then show ?thesis
      using Cons.prems(3) n by simp
  next
    case (Cons q ps')
    then have "n \<noteq> ty"
      using Cons.prems(1,2) n by auto
    then obtain p' where "p = Suc p'" "attr_pos as ty = Some p'"
      using Cons.prems(1) n by auto
    then show ?thesis
      using \<open>n \<noteq> ty\<close> Cons.prems Cons.IH [of p' ps' "Suc j"] n \<open>ps = q # ps'\<close> by auto
  qed
qed

lemma rules_scan_find:
  "rules_find rl rs = Some (Some as) \<Longrightarrow>
   attr_scan as ps 0 ty bsize use = Some (Some res) \<Longrightarrow>
   rules_scan rl ps rs ty bsize use = Some (Some res)"
  by (induction rl) (auto split: option.splits if_splits)

lemma rules_scan_undefined:
  "rules_find rl rs = Some (Some as) \<Longrightarrow> attr_scan as ps 0 ty bsize use = None \<Longrightarrow>
   rules_scan rl ps rs ty bsize use = None"
  by (induction rl) (auto split: option.splits if_splits)

definition replaced_attrs :: "attr list \<Rightarrow> string \<Rightarrow> string \<Rightarrow> string list \<Rightarrow> string list" where
  "replaced_attrs as an new ps =
     map2 (\<lambda>a p. if attr_name a = Some an then new else p) (butlast as) ps"

lemma replace_attr_scan_list:
  assumes "as \<noteq> []" and "attr_name (last as) = None" and "list_all attr_named (butlast as)"
    and "j + length as \<le> Suc MAX_ATTR_NUM" and "length tmp < EZPLIB_BUF_LEN"
  shows "replace_attr_scan as ps j an new tmp =
    Some (let t = tmp @ emit_all ATTR_SEP (replaced_attrs as an new ps)
          in if length t < EZPLIB_BUF_LEN then Inr t else Inl EZPLIB_VAL_TRUNC)"
  using assms
proof (induction as arbitrary: ps j tmp)
  case Nil
  then show ?case by simp
next
  case (Cons a as)
  show ?case
  proof (cases "as = []")
    case True
    then show ?thesis
      using Cons.prems by (simp add: replaced_attrs_def)
  next
    case False
    obtain n where n: "attr_name a = Some n"
      using False Cons.prems(3) by (auto simp: attr_named_def)
    show ?thesis
    proof (cases ps)
      case Nil
      then show ?thesis
        using Cons.prems False n by (cases as) (simp_all add: replaced_attrs_def)
    next
      case (Cons p ps')
      let ?v = "if n = an then new else p"
      have IH: "replace_attr_scan as ps' (Suc j) an new t =
          Some (let u = t @ emit_all ATTR_SEP (replaced_attrs as an new ps')
                in if length u < EZPLIB_BUF_LEN then Inr u else Inl EZPLIB_VAL_TRUNC)"
        if "length t < EZPLIB_BUF_LEN" for t
        using that False Cons.prems Cons.IH [of "Suc j" t ps'] by simp
      have r: "replaced_attrs (a # as) an new (p # ps') = ?v # replaced_attrs as an new ps'"
        using False n by (simp add: replaced_attrs_def)
      have "j < MAX_ATTR_NUM"
        using Cons.prems(4) False by (cases as) auto
      then show ?thesis
        by (auto simp: \<open>ps = p # ps'\<close> n r IH Let_def)
    qed
  qed
qed

lemma replaced_attrs_update:
  assumes "distinct (map attr_name as)" and "attr_pos as an = Some p" and "length ps \<le> length as - 1"
  shows "replaced_attrs as an new ps = ps[p := new]"
proof (rule nth_equalityI)
  show "length (replaced_attrs as an new ps) = length (ps[p := new])"
    using assms(3) by (simp add: replaced_attrs_def)
next
  fix i
  assume "i < length (replaced_attrs as an new ps)"
  then have i: "i < length ps" "i < length as - 1"
    using assms(3) by (auto simp: replaced_attrs_def)
  have "attr_name (as ! i) = Some an \<longleftrightarrow> i = p"
    using attr_pos_nth [OF assms(2)] i nth_eq_iff_index_eq [OF assms(1), of i p] by auto
  then show "replaced_attrs as an new ps ! i = ps[p := new] ! i"
    using i by (auto simp: replaced_attrs_def nth_butlast nth_list_update)
qed

section \<open>Attributes on a device that keeps its contract\<close>

text \<open>What \<^verbatim>\<open>ezplib_get_attr_val\<close> makes of the result of a show function.\<close>

definition shown :: "show_result c \<Rightarrow> (int \<times> string option) c" where
  "shown res = map_option (\<lambda>(r, out). (r, Some (case out of None \<Rightarrow> [] | Some t \<Rightarrow> t))) res"

lemma attr_table_take:
  assumes "attr_table as" and "attr_pos as ty = Some p"
  shows "p < MAX_ATTR_NUM" and "list_all attr_named (take (Suc p) as)" and "p < length as - 1"
proof -
  have p: "p < length as" "attr_name (as ! p) = Some ty"
    using attr_pos_nth [OF assms(2)] by auto
  have "p \<noteq> length as - 1"
    using assms(1) p(2) by (auto simp: attr_table_def last_conv_nth)
  then show l: "p < length as - 1"
    using p(1) by simp
  then show "p < MAX_ATTR_NUM"
    using assms(1) by (auto simp: attr_table_def MAX_ATTR_NUM_def)
  have "take (Suc p) as = take (Suc p) (butlast as)"
    using l by (simp add: take_butlast)
  then show "list_all attr_named (take (Suc p) as)"
    using assms(1) by (auto simp: attr_table_def list_all_iff dest: in_set_takeD)
qed

lemma sep_string_nth: "p < MAX_ATTR_NUM \<Longrightarrow> sep_string s d MAX_ATTR_NUM ! p = split_on d s ! p"
  by (simp add: sep_string_def)

context nvram_device
begin

lemma get_attr_use_abs:
  assumes st: "stored_rules abs inv (bld E) w rs wl" and n: "n < length (split_on RULE_SEP wl)"
    and tab: "rules_find (rules (defined (bld E))) rs = Some (Some as)" "attr_table as"
    and pos: "attr_pos as ty = Some p" "ty \<noteq> []"
    and p: "p < length (split_on ATTR_SEP (split_on RULE_SEP wl ! n))"
    and use: "use \<in> {EZPLIB_USE_CLI, EZPLIB_USE_WEB}"
  shows "ezplib_get_attr_val E (Some rs) (int n) (Some ty) bsize use w =
    shown (show_call (attr_fn use (as ! p))
             (Some (split_on ATTR_SEP (split_on RULE_SEP wl ! n) ! p)) bsize)"
proof -
  let ?ps = "sep_string (split_on RULE_SEP wl ! n) ATTR_SEP MAX_ATTR_NUM"
  let ?c = "show_call (attr_fn use (as ! p)) (Some (split_on ATTR_SEP (split_on RULE_SEP wl ! n) ! p)) bsize"
  note tt = attr_table_take [OF tab(2) pos(1)]
  have "p < length ?ps"
    using p tt(1) by (simp add: sep_string_def)
  then have sc: "attr_scan as ?ps 0 ty bsize use = map_option Some ?c"
    using attr_scan_found [OF pos(1), of ?ps 0 use bsize] tt use by (simp add: sep_string_nth)
  have rs: "rs \<noteq> []"
    using st by (simp add: stored_rules_def good_name_def)
  show ?thesis
  proof (cases ?c)
    case None
    then have "rules_scan (rules (defined (bld E))) ?ps rs ty bsize use = None"
      using rules_scan_undefined [OF tab(1)] sc by simp
    then show ?thesis
      using None pos(2) rs by (simp add: ezplib_get_attr_val_def get_rule_full [OF st n] shown_def)
  next
    case (Some res)
    then have "rules_scan (rules (defined (bld E))) ?ps rs ty bsize use = Some (Some res)"
      using rules_scan_find [OF tab(1)] sc by simp
    then show ?thesis
      using Some pos(2) rs
      by (cases res) (simp add: ezplib_get_attr_val_def get_rule_full [OF st n] shown_def)
  qed
qed

lemmas get_attr_abs = get_attr_use_abs [where use = EZPLIB_USE_CLI, simplified]

text \<open>
  \<^verbatim>\<open>ezplib_replace_attr\<close> replaces one attribute of one rule, for a rule that has no more attributes than
  its table names.
\<close>

lemma replace_attr_abs:
  assumes st: "stored_rules abs inv (bld E) w rs wl" and wr: "may_write w rs"
    and n: "n < length (split_on RULE_SEP wl)"
    and tab: "rules_find (rules (defined (bld E))) rs = Some (Some as)" "attr_table as"
    and pos: "attr_pos as an = Some p" "an \<noteq> []" and new: "CHR 0x00 \<notin> set new"
    and ps: "ps = split_on ATTR_SEP (split_on RULE_SEP wl ! n)" "length ps \<le> length as - 1"
    and rule: "rule = join_with ATTR_SEP (ps[p := new])"
    and ts: "ts = (split_on RULE_SEP wl)[n := rule]"
    and len: "Suc (length (join_with RULE_SEP ts)) < EZPLIB_BUF_LEN" "Suc (length rule) < EZPLIB_BUF_LEN"
    and rm: "join_with RULE_SEP ts \<noteq> [] \<Longrightarrow> room (abs (kdev w)) rs (join_with RULE_SEP ts)"
  shows "\<exists>k. ezplib_replace_attr E (Some rs) (int n) (Some an) (Some new) w = Some (0, w\<lparr>kdev := k\<rparr>) \<and>
             inv k \<and> abs k = (abs (kdev w))(rs := norm_val (Some (join_with RULE_SEP ts)))"
proof -
  have as: "as \<noteq> []" "attr_name (last as) = None" "list_all attr_named (butlast as)"
      "distinct (map attr_name as)" "length as \<le> Suc MAX_ATTR_NUM"
    using tab(2) by (simp_all add: attr_table_def MAX_ATTR_NUM_def)
  have wl: "CHR 0x00 \<notin> set wl" "rs \<noteq> []"
    using st abs_no_nul by (auto simp: stored_rules_def good_name_def)
  have sep: "sep_string (split_on RULE_SEP wl ! n) ATTR_SEP MAX_ATTR_NUM = ps"
    using ps as(5) by (simp add: sep_string_def)
  have ne: "ps[p := new] \<noteq> []"
    using ps by simp
  have scan: "replace_attr_scan as ps 0 an new [] = Some (Inr (emit_all ATTR_SEP (ps[p := new])))"
    using replace_attr_scan_list [OF as(1-3), of 0 "[]" ps an new] as(5) len(2) ne rule
      replaced_attrs_update [OF as(4) pos(1) ps(2), of new]
    by (simp add: Let_def length_emit_all EZPLIB_BUF_LEN_def)
  have "CHR 0x00 \<notin> set (split_on RULE_SEP wl ! n)"
    using wl split_on_subset [OF nth_mem [OF n]] by auto
  then have "CHR 0x00 \<notin> set rule"
    using set_join_tokens [of "CHR 0x00" ATTR_SEP "split_on RULE_SEP wl ! n" new REPLACE_RULE "int p"]
      new ps(1) rule by (simp add: op_list_replace)
  then obtain k where "ezplib_replace_rule E (Some rs) (int n) (Some rule) w = Some (0, w\<lparr>kdev := k\<rparr>)"
      "inv k" "abs k = (abs (kdev w))(rs := norm_val (Some (join_with RULE_SEP ts)))"
    using replace_rule_abs [OF st wr _ n ts len(1) rm] by blast
  then show ?thesis
    using scan pos(2) tab(1) ne wl(2)
    by (intro exI [of _ k]) (simp add: ezplib_replace_attr_def get_rule_full [OF st n] sep last_emit_all
        butlast_emit_all flip: rule)
qed

end

text \<open>The rule set afterwards is again one whose rules and attributes read back.\<close>

definition attr_text_ok :: "string \<Rightarrow> bool" where
  "attr_text_ok new \<longleftrightarrow> CHR 0x00 \<notin> set new \<and> RULE_SEP \<notin> set new \<and> ATTR_SEP \<notin> set new \<and> CHR ''%'' \<notin> set new"

lemma replaced_rule_set:
  assumes n: "n < length (split_on RULE_SEP wl)" and new: "attr_text_ok new"
    and ps: "ps = split_on ATTR_SEP (split_on RULE_SEP wl ! n)" "p < length ps"
    and ts: "ts = (split_on RULE_SEP wl)[n := join_with ATTR_SEP (ps[p := new])]"
    and wl: "CHR ''%'' \<notin> set wl"
  shows "split_on RULE_SEP (join_with RULE_SEP ts) = ts" and "ts ! n = join_with ATTR_SEP (ps[p := new])"
    and "split_on ATTR_SEP (ts ! n) = ps[p := new]" and "CHR ''%'' \<notin> set (join_with RULE_SEP ts)"
    and "length (ts ! n) \<le> length (join_with RULE_SEP ts)"
proof -
  let ?rule = "join_with ATTR_SEP (ps[p := new])"
  have rule: "c \<notin> set ?rule" if "c \<notin> set (split_on RULE_SEP wl ! n)" "c \<notin> set new" "c \<noteq> ATTR_SEP" for c
    using set_join_tokens [of c ATTR_SEP "split_on RULE_SEP wl ! n" new REPLACE_RULE "int p"] that ps(1)
    by (simp add: op_list_replace)
  have sep: "RULE_SEP \<notin> set ?rule"
    using split_on_tokens [OF nth_mem [OF n]] new
    by (intro rule) (simp_all add: RULE_SEP_def ATTR_SEP_def attr_text_ok_def)
  have pct: "CHR ''%'' \<notin> set ?rule"
    using wl split_on_subset [OF nth_mem [OF n]] new by (intro rule) (auto simp: ATTR_SEP_def attr_text_ok_def)
  have tok: "\<forall>t \<in> set ts. RULE_SEP \<notin> set t" "ts \<noteq> []" "n < length ts"
    using ts sep n split_on_tokens [of _ RULE_SEP wl]
      set_update_subset_insert [of "split_on RULE_SEP wl" n ?rule] by auto
  then show spl: "split_on RULE_SEP (join_with RULE_SEP ts) = ts"
    by (intro split_join) auto
  show nth: "ts ! n = ?rule"
    using ts n by simp
  show "length (ts ! n) \<le> length (join_with RULE_SEP ts)"
    using length_split_on_token [of "ts ! n" RULE_SEP "join_with RULE_SEP ts"] spl tok(3) by simp
  show "split_on ATTR_SEP (ts ! n) = ps[p := new]"
    unfolding nth using new ps split_on_tokens [of _ ATTR_SEP] set_update_subset_insert [of ps p new]
    by (intro split_join) (auto simp: attr_text_ok_def)
  show "CHR ''%'' \<notin> set (join_with RULE_SEP ts)"
    using set_join_tokens [of "CHR ''%''" RULE_SEP wl ?rule REPLACE_RULE "int n"] wl pct ts
    by (simp add: op_list_replace RULE_SEP_def)
qed

context nvram_device
begin

lemma replace_attr_stored:
  assumes st: "stored_rules abs inv (bld E) w rs wl" and wr: "may_write w rs"
    and n: "n < length (split_on RULE_SEP wl)"
    and tab: "rules_find (rules (defined (bld E))) rs = Some (Some as)" "attr_table as"
    and pos: "attr_pos as an = Some p" "an \<noteq> []" and new: "attr_text_ok new"
    and ps: "ps = split_on ATTR_SEP (split_on RULE_SEP wl ! n)" "p < length ps" "length ps \<le> length as - 1"
    and ts: "ts = (split_on RULE_SEP wl)[n := join_with ATTR_SEP (ps[p := new])]"
    and len: "Suc (length (join_with RULE_SEP ts)) < EZPLIB_BUF_LEN" "join_with RULE_SEP ts \<noteq> []"
    and rm: "room (abs (kdev w)) rs (join_with RULE_SEP ts)"
  shows "\<exists>k. ezplib_replace_attr E (Some rs) (int n) (Some an) (Some new) w = Some (0, w\<lparr>kdev := k\<rparr>) \<and>
             abs k = (abs (kdev w))(rs \<mapsto> join_with RULE_SEP ts) \<and>
             stored_rules abs inv (bld E) (w\<lparr>kdev := k\<rparr>) rs (join_with RULE_SEP ts) \<and> may_write (w\<lparr>kdev := k\<rparr>) rs"
proof -
  have wl: "CHR ''%'' \<notin> set wl" "wl \<noteq> []"
    using st by (simp_all add: stored_rules_def rule_text_def)
  note rep = replaced_rule_set [OF n new ps(1,2) ts wl(1)]
  have nul: "CHR 0x00 \<notin> set new"
    using new by (simp add: attr_text_ok_def)
  obtain k where k: "ezplib_replace_attr E (Some rs) (int n) (Some an) (Some new) w = Some (0, w\<lparr>kdev := k\<rparr>)"
      "inv k" "abs k = (abs (kdev w))(rs := norm_val (Some (join_with RULE_SEP ts)))"
    using replace_attr_abs [OF st wr n tab pos nul ps(1,3) refl ts len(1)] rep(2,5) len(1) rm by auto
  moreover have "norm_val (Some (join_with RULE_SEP ts)) = Some (join_with RULE_SEP ts)"
    using len(2) by (cases "join_with RULE_SEP ts") simp_all
  ultimately show ?thesis
    using st wr rep(4) len by (intro exI [of _ k]) (simp add: stored_rules_def rule_text_def may_write_def)
qed

end

section \<open>Subrules\<close>

text \<open>The loop of \<^verbatim>\<open>ezplib_get_subrule\<close> as a computation on the selected attributes.\<close>

fun subrule_emit :: "string list \<Rightarrow> nat \<Rightarrow> nat \<Rightarrow> string \<Rightarrow> (nat \<times> string) c" where
  "subrule_emit [] bsize j buf = Some (j, buf)"
| "subrule_emit (p # ps) bsize j buf = do {
     buf' \<leftarrow> snprintf_at bsize buf j (int bsize - int j) (p @ [ATTR_SEP]);
     subrule_emit ps bsize (j + length p + 1) buf'
   }"

definition slice :: "int \<Rightarrow> int \<Rightarrow> 'a list \<Rightarrow> 'a list" where
  "slice start end_i xs = drop (nat start) (take (nat (end_i + 1)) xs)"

lemma subrule_loop_emit:
  "subrule_loop ps i start end_i bsize j buf =
     subrule_emit (drop (nat (start - i)) (take (nat (end_i + 1 - i)) ps)) bsize j buf"
proof (induction ps arbitrary: i j buf)
  case Nil
  then show ?case by simp
next
  case (Cons p ps)
  consider "i < start" | "end_i < i" "start \<le> i" | "start \<le> i" "i \<le> end_i"
    by linarith
  then show ?case
  proof cases
    case 1
    then have "nat (start - i) = Suc (nat (start - (i + 1)))" by simp
    moreover have "nat (end_i + 1 - i) = Suc (nat (end_i + 1 - (i + 1)))" if "i \<le> end_i"
      using that by simp
    ultimately show ?thesis
      using 1 Cons.IH [of "i + 1"] by (cases "i \<le> end_i") auto
  next
    case 2
    then show ?thesis
      using Cons.IH [of "i + 1"] by simp
  next
    case 3
    then have "nat (end_i + 1 - i) = Suc (nat (end_i + 1 - (i + 1)))" by simp
    then show ?thesis
      using 3 Cons.IH [of "i + 1"] by (auto split: bind_split)
  qed
qed

text \<open>
  The selected attributes are emitted into the buffer as long as they fit; one attribute may be cut,
  but then the offset lies beyond the buffer or at its end.
\<close>

lemma subrule_emit_fits:
  assumes "length buf = j" and "j + length (emit_all ATTR_SEP ps) < bsize"
  shows "subrule_emit ps bsize j buf =
    Some (j + length (emit_all ATTR_SEP ps), buf @ emit_all ATTR_SEP ps)"
  using assms
proof (induction ps arbitrary: j buf)
  case Nil
  then show ?case by simp
next
  case (Cons p ps)
  then have "snprintf_at bsize buf j (int bsize - int j) (p @ [ATTR_SEP]) = Some (buf @ p @ [ATTR_SEP])"
    by (intro snprintf_at_fits) auto
  then show ?case
    using Cons.prems Cons.IH [of "buf @ p @ [ATTR_SEP]" "j + length p + 1"] by simp
qed

lemma subrule_emit_offset:
  "subrule_emit ps bsize j buf = Some (j', buf') \<Longrightarrow> j' = j + length (emit_all ATTR_SEP ps)"
proof (induction ps arbitrary: j buf)
  case Nil
  then show ?case by simp
next
  case (Cons p ps)
  then show ?case by (force split: bind_splits)
qed

context nvram_device
begin

lemma get_subrule_abs:
  assumes st: "stored_rules abs inv (bld E) w rs wl" and n: "n < length (split_on RULE_SEP wl)"
    and ps: "ps = slice start end_i (take MAX_ATTR_NUM (split_on ATTR_SEP (split_on RULE_SEP wl ! n)))"
    and se: "start \<le> end_i" and len: "length (emit_all ATTR_SEP ps) < bsize"
  shows "ezplib_get_subrule E (Some rs) (int n) start end_i bsize w =
    Some (0, Some (join_with ATTR_SEP ps))"
proof -
  have "subrule_loop (sep_string (split_on RULE_SEP wl ! n) ATTR_SEP MAX_ATTR_NUM) 0 start end_i bsize 0 [] =
      Some (length (emit_all ATTR_SEP ps), emit_all ATTR_SEP ps)"
    using subrule_emit_fits [of "[]" 0 ps bsize] len ps
    by (simp add: subrule_loop_emit slice_def sep_string_def)
  then show ?thesis
    using st se len
    by (cases "ps = []")
      (simp_all add: ezplib_get_subrule_def get_rule_full [OF st n] emit_all_join stored_rules_def
        good_name_def)
qed

text \<open>Attributes that need more than the buffer make the function leave it.\<close>

lemma get_subrule_overflow:
  assumes st: "stored_rules abs inv (bld E) w rs wl" and n: "n < length (split_on RULE_SEP wl)"
    and ps: "ps = slice start end_i (take MAX_ATTR_NUM (split_on ATTR_SEP (split_on RULE_SEP wl ! n)))"
    and se: "start \<le> end_i" and len: "bsize < length (emit_all ATTR_SEP ps)"
  shows "ezplib_get_subrule E (Some rs) (int n) start end_i bsize w = None"
proof (cases "subrule_emit ps bsize 0 []")
  case None
  then show ?thesis
    using st se ps
    by (simp add: ezplib_get_subrule_def get_rule_full [OF st n] stored_rules_def good_name_def
        subrule_loop_emit slice_def sep_string_def)
next
  case (Some res)
  obtain j buf where "res = (j, buf)" by (cases res)
  then have "subrule_emit ps bsize 0 [] = Some (length (emit_all ATTR_SEP ps), buf)"
    using Some subrule_emit_offset [of ps bsize 0 "[]" j buf] by simp
  then show ?thesis
    using st se ps len
    by (auto simp: ezplib_get_subrule_def get_rule_full [OF st n] stored_rules_def good_name_def
        subrule_loop_emit slice_def sep_string_def)
qed

end

end
