(* ===== verification/Nvram_Boot.thy ===== *)
theory Nvram_Boot
  imports Nvram_User
begin

text \<open>
  Filling in the default values: \<^verbatim>\<open>nvram_boot\<close>, \<^verbatim>\<open>nvram_default\<close> and \<^verbatim>\<open>nvram_default_rule\<close> write many variables,
  so their contract needs a device whose capacity is known beforehand.  The locale \<open>bounded_device\<close> adds
  this to the contract of the device; the loops are shown to compute a fold over the table of defaults.
\<close>

section \<open>Devices of known capacity\<close>

text \<open>
  \<open>cap m\<close>: the device can hold \<open>m\<close> and every change of it that sets a name of \<open>names\<close> to a
  value that is acceptable for it.
\<close>

locale bounded_device = nvram_device +
  fixes cap :: "(string \<Rightarrow> string option) \<Rightarrow> bool"
    and val_ok :: "string \<Rightarrow> string \<Rightarrow> bool"
    and names :: "string set"
  assumes cap_room: "cap m \<Longrightarrow> n \<in> names \<Longrightarrow> val_ok n v \<Longrightarrow> room m n v"
    and cap_set: "cap m \<Longrightarrow> n \<in> names \<Longrightarrow> val_ok n v \<Longrightarrow> cap (m(n \<mapsto> v))"
    and cap_unset: "cap m \<Longrightarrow> cap (m(n := None))"
    and cap_val: "cap m \<Longrightarrow> m n = Some v \<Longrightarrow> val_ok n v"

interpretation specb: bounded_device "spec_env b" id spec_inv "\<lambda>_ _ _. True" "\<lambda>_. True" "\<lambda>_ _. True" UNIV for b
  by unfold_locales simp_all

section \<open>What booting does to the variables\<close>

definition empty_value :: "string option \<Rightarrow> bool" where
  "empty_value cur \<longleftrightarrow> cur = None \<or> cur = Some []"

text \<open>One entry of the table: the specification of a round of the loop of \<^verbatim>\<open>nvram_boot\<close>.\<close>

definition boot_entry :: "nvram_tuple \<Rightarrow> nvmap \<Rightarrow> nvmap" where
  "boot_entry v m =
     (let n = tup_name v; opts = tup_option v in
      if empty_value (m n) then
        if has_option opts NVRAM_EMPTY then m
        else if has_option opts NVRAM_DEFAULT then m(n := norm_val (m (n @ ''_default'')))
        else m(n := norm_val (tup_value v))
      else if has_option opts NVRAM_TEMP then m(n := norm_val (tup_value v))
      else m)"

definition tuple_ok :: "string set \<Rightarrow> (string \<Rightarrow> string \<Rightarrow> bool) \<Rightarrow> nvram_tuple \<Rightarrow> bool" where
  "tuple_ok ns ok v \<longleftrightarrow>
     good_name (tup_name v) \<and> tup_name v \<in> ns \<and> length (tup_name v) < 56 \<and>
     (\<forall>x. tup_value v = Some x \<longrightarrow> CHR 0x00 \<notin> set x \<and> ok (tup_name v) x) \<and>
     (\<forall>x. has_option (tup_option v) NVRAM_DEFAULT \<longrightarrow> ok (tup_name v @ ''_default'') x \<longrightarrow> ok (tup_name v) x)"

lemma boot_entry_other: "x \<noteq> tup_name v \<Longrightarrow> boot_entry v m x = m x"
  by (simp add: boot_entry_def Let_def)

lemma boot_entry_keeps:
  "\<not> empty_value (m (tup_name v)) \<Longrightarrow> \<not> has_option (tup_option v) NVRAM_TEMP \<Longrightarrow> boot_entry v m = m"
  by (simp add: boot_entry_def Let_def)

lemma good_name_default: "good_name n \<Longrightarrow> length n < 56 \<Longrightarrow> good_name (n @ ''_default'')"
  by (simp add: good_name_def)

text \<open>One entry for \<^verbatim>\<open>nvram_default\<close>, whose writes go through \<^verbatim>\<open>nvram_set\<close> and its option bits.\<close>

definition default_entry :: "nvram_tuple list \<Rightarrow> nvram_tuple \<Rightarrow> nvmap \<Rightarrow> nvmap" where
  "default_entry tuples v m =
     (let n = tup_name v; opts = nvram_get_option n tuples in
      if has_option opts NVRAM_UNDEFINED then m
      else if has_option opts NVRAM_PROTECTED \<and> \<not> empty_value (m n) then m
      else m(n := norm_val (tup_value v)))"

lemma fold_boot_other: "x \<notin> tup_name ` set vs \<Longrightarrow> fold boot_entry vs m x = m x"
  by (induction vs arbitrary: m) (auto simp: boot_entry_other)

lemma default_entry_other: "x \<noteq> tup_name v \<Longrightarrow> default_entry ts v m x = m x"
  by (simp add: default_entry_def Let_def)

lemma fold_default_other: "x \<notin> tup_name ` set vs \<Longrightarrow> fold (default_entry ts) vs m x = m x"
  by (induction vs arbitrary: m) (auto simp: default_entry_other)

text \<open>When the names of the table are distinct, each variable is decided by its own entry.\<close>

lemma fold_own_entry:
  assumes "distinct (map tup_name vs)" and "v \<in> set vs"
    and other: "\<And>u m x. x \<noteq> tup_name u \<Longrightarrow> f u m x = m x"
  shows "\<exists>m'. fold f vs m (tup_name v) = f v m' (tup_name v) \<and> m' (tup_name v) = m (tup_name v) \<and>
              (\<forall>x. x \<notin> tup_name ` set vs \<longrightarrow> m' x = m x)"
proof -
  obtain as bs where vs: "vs = as @ v # bs"
    using assms(2) by (meson split_list)
  have frame: "fold f us m x = m x" if "x \<notin> tup_name ` set us" for us m x
    using that by (induction us arbitrary: m) (auto simp: other)
  have "tup_name v \<notin> tup_name ` set as" "tup_name v \<notin> tup_name ` set bs"
    using assms(1) vs by auto
  moreover have "fold f as m x = m x" if "x \<notin> tup_name ` set vs" for x
    using that vs by (intro frame) auto
  ultimately show ?thesis
    using frame vs by (intro exI [of _ "fold f as m"]) auto
qed

lemma fold_boot_keeps:
  assumes "distinct (map tup_name vs)" and "v \<in> set vs" and "\<not> has_option (tup_option v) NVRAM_TEMP"
    and "\<not> empty_value (m (tup_name v))"
  shows "fold boot_entry vs m (tup_name v) = m (tup_name v)"
  using fold_own_entry [OF assms(1,2), of boot_entry m] assms boot_entry_other by (metis boot_entry_keeps)

lemma fold_boot_fills:
  assumes "distinct (map tup_name vs)" and "v \<in> set vs" and "empty_value (m (tup_name v))"
    and "\<not> has_option (tup_option v) NVRAM_EMPTY" and "\<not> has_option (tup_option v) NVRAM_DEFAULT"
  shows "fold boot_entry vs m (tup_name v) = norm_val (tup_value v)"
  using fold_own_entry [OF assms(1,2), of boot_entry m] assms boot_entry_other
  by (auto simp: boot_entry_def Let_def)

lemma fold_boot_temp:
  assumes "distinct (map tup_name vs)" and "v \<in> set vs" and "\<not> empty_value (m (tup_name v))"
    and "has_option (tup_option v) NVRAM_TEMP"
  shows "fold boot_entry vs m (tup_name v) = norm_val (tup_value v)"
  using fold_own_entry [OF assms(1,2), of boot_entry m] assms boot_entry_other
  by (auto simp: boot_entry_def Let_def)

lemma fold_default_entry:
  assumes "distinct (map tup_name vs)" and "v \<in> set vs" and "\<not> has_option (tup_option v) NVRAM_UNDEFINED"
  shows "fold (default_entry vs) vs m (tup_name v) =
    (if has_option (tup_option v) NVRAM_PROTECTED \<and> \<not> empty_value (m (tup_name v)) then m (tup_name v)
     else norm_val (tup_value v))"
  using fold_own_entry [OF assms(1,2), of "default_entry vs" m] assms default_entry_other
    nvram_get_option_find [OF assms(2,1)]
  by (auto simp: default_entry_def Let_def nvram_get_option_def)

lemma ex_list_update_same [simp]: "\<exists>u. xs = xs[i := u]"
  by (rule exI [of _ "xs ! i"]) simp

context bounded_device
begin

lemma fset_cap:
  assumes "inv (kdev w)" and "cap (abs (kdev w))" and "good_name n" and "n \<in> names"
    and "\<not> defined (bld E) EZP_PROD_SUPERCAT_X" and "\<And>x. val = Some x \<Longrightarrow> CHR 0x00 \<notin> set x \<and> val_ok n x"
  shows "\<exists>k. nvram_fset E n val w = Some (0, w\<lparr>kdev := k\<rparr>) \<and> inv k \<and>
             abs k = (abs (kdev w))(n := norm_val val) \<and> cap (abs k)"
proof -
  have "\<exists>k. nvram_fset E n val w = Some (0, w\<lparr>kdev := k\<rparr>) \<and> inv k \<and> abs k = (abs (kdev w))(n := norm_val val)"
    using assms by (intro nvram_fset_abs) (auto simp: norm_val_def cap_room split: if_splits)
  moreover have "cap ((abs (kdev w))(n := norm_val val))"
    using assms by (cases "norm_val val") (auto simp: norm_val_def cap_set cap_unset split: if_splits)
  ultimately show ?thesis by auto
qed

lemma boot_step_abs:
  assumes w: "inv (kdev w)" "cap (abs (kdev w))" and plain: "\<not> defined (bld E) EZP_PROD_SUPERCAT_X"
    and v: "i < length (nvram_ezpacket_default w)" "v = nvram_ezpacket_default w ! i" "tuple_ok names val_ok v"
  shows "\<exists>w'. nvram_boot_step E i w = Some w' \<and> inv (kdev w') \<and> cap (abs (kdev w')) \<and>
              abs (kdev w') = boot_entry v (abs (kdev w)) \<and>
              (\<exists>u. nvram_ezpacket_default w' = (nvram_ezpacket_default w)[i := u])"
proof -
  let ?n = "tup_name v" and ?t = "nvram_ezpacket_default w"
  have n: "good_name ?n" "?n \<in> names" "length ?n < 56" "\<And>x. tup_value v = Some x \<Longrightarrow> CHR 0x00 \<notin> set x \<and> val_ok ?n x"
    using v(3) by (auto simp: tuple_ok_def)
  have get: "nvram_get E ?n w = Some (abs (kdev w) ?n)"
      "nvram_get E (?n @ ''_default'') w = Some (abs (kdev w) (?n @ ''_default''))"
    using nvram_get_abs [OF w(1) _ plain] n(1) good_name_default [OF n(1,3)] by blast+
  have d: "\<And>x. abs (kdev w) (?n @ ''_default'') = Some x \<Longrightarrow> CHR 0x00 \<notin> set x \<and> val_ok ?n x"
    if "has_option (tup_option v) NVRAM_DEFAULT"
    using abs_no_nul [OF w(1)] cap_val [OF w(2)] v(3) that unfolding tuple_ok_def by blast
  let ?w = "w\<lparr>nvram_ezpacket_default := ?t[i := v\<lparr>tup_value := abs (kdev w) (?n @ ''_default'')\<rparr>]\<rparr>"
  obtain k where k: "nvram_fset E ?n (tup_value v) w = Some (0, w\<lparr>kdev := k\<rparr>)" "inv k" "cap (abs k)"
      "abs k = (abs (kdev w))(?n := norm_val (tup_value v))"
    using fset_cap [OF w n(1,2) plain n(4)] by blast
  note simps = nvram_boot_step_def Let_def boot_entry_def empty_value_def
  consider "empty_value (abs (kdev w) ?n)" "has_option (tup_option v) NVRAM_EMPTY"
    | "empty_value (abs (kdev w) ?n)" "\<not> has_option (tup_option v) NVRAM_EMPTY" "has_option (tup_option v) NVRAM_DEFAULT"
    | "empty_value (abs (kdev w) ?n)" "\<not> has_option (tup_option v) NVRAM_EMPTY" "\<not> has_option (tup_option v) NVRAM_DEFAULT"
    | "\<not> empty_value (abs (kdev w) ?n)" by blast
  then show ?thesis
  proof cases
    case 1
    then show ?thesis
      using w get v(2) by (auto simp: simps)
  next
    case 2
    obtain k' where k': "nvram_fset E ?n (abs (kdev w) (?n @ ''_default'')) ?w = Some (0, ?w\<lparr>kdev := k'\<rparr>)" "inv k'"
        "cap (abs k')" "abs k' = (abs (kdev w))(?n := norm_val (abs (kdev w) (?n @ ''_default'')))"
      using fset_cap [of ?w ?n "abs (kdev w) (?n @ ''_default'')", simplified, OF w n(1,2) plain] d [OF 2(3)] by auto
    then show ?thesis
      using 2 get n(3) v(2) by (auto simp: simps)
  next
    case 3
    then show ?thesis
      using k get v(2) by (auto simp: simps)
  next
    case 4
    then show ?thesis
      using k w get v(2) by (auto simp: simps)
  qed
qed

lemma boot_loop_abs:
  assumes "inv (kdev w)" and "cap (abs (kdev w))" and plain: "\<not> defined (bld E) EZP_PROD_SUPERCAT_X"
    and "i \<le> n" and "n = length (nvram_ezpacket_default w)"
    and "\<forall>v \<in> set (drop i (nvram_ezpacket_default w)). tuple_ok names val_ok v"
  shows "\<exists>w'. fold_c (nvram_boot_step E) [i..<n] w = Some w' \<and> inv (kdev w') \<and> cap (abs (kdev w')) \<and>
              abs (kdev w') = fold boot_entry (drop i (nvram_ezpacket_default w)) (abs (kdev w))"
  using assms(1,2,4-)
proof (induction "n - i" arbitrary: i w)
  case 0
  then show ?case by simp
next
  case (Suc k)
  let ?t = "nvram_ezpacket_default w"
  have i: "i < length ?t"
    using Suc.hyps Suc.prems by linarith
  then have dr: "drop i ?t = ?t ! i # drop (Suc i) ?t"
    by (rule Cons_nth_drop_Suc [symmetric])
  obtain w1 u where w1: "nvram_boot_step E i w = Some w1" "inv (kdev w1)" "cap (abs (kdev w1))"
      "abs (kdev w1) = boot_entry (?t ! i) (abs (kdev w))" "nvram_ezpacket_default w1 = ?t[i := u]"
    using boot_step_abs [OF Suc.prems(1,2) plain i refl] Suc.prems(5) dr by auto
  have "drop (Suc i) (nvram_ezpacket_default w1) = drop (Suc i) ?t"
    using w1(5) by (simp add: drop_update_cancel)
  then have "\<exists>w'. fold_c (nvram_boot_step E) [Suc i..<n] w1 = Some w' \<and> inv (kdev w') \<and> cap (abs (kdev w')) \<and>
      abs (kdev w') = fold boot_entry (drop (Suc i) ?t) (abs (kdev w1))"
    using Suc.hyps Suc.prems i w1 dr by (metis Suc.hyps(1) Suc_diff_Suc Suc_leI diff_Suc_1 insert_iff
        length_list_update list.simps(15))
  moreover have "[i..<n] = i # [Suc i..<n]"
    using i Suc.prems(4) by (simp add: upt_conv_Cons)
  ultimately show ?case
    using w1(1,4) dr by simp
qed

lemma nvram_boot_abs:
  assumes "inv (kdev w)" and "cap (abs (kdev w))" and "\<not> defined (bld E) EZP_PROD_SUPERCAT_X"
    and "\<forall>v \<in> set (nvram_ezpacket_default w). tuple_ok names val_ok v"
  shows "\<exists>w'. nvram_boot E w = Some w' \<and> inv (kdev w') \<and> cap (abs (kdev w')) \<and>
              abs (kdev w') = fold boot_entry (nvram_ezpacket_default w) (abs (kdev w))"
  using boot_loop_abs [OF assms(1-3), of 0 "length (nvram_ezpacket_default w)"] assms(4)
  by (simp add: nvram_boot_def)

lemma set_default_entry:
  assumes w: "inv (kdev w)" "cap (abs (kdev w))" and plain: "\<not> defined (bld E) EZP_PROD_SUPERCAT_X"
    and v: "tuple_ok names val_ok v"
  shows "\<exists>r k. nvram_set E (tup_name v) (tup_value v) w = Some (r, w\<lparr>kdev := k\<rparr>) \<and> inv k \<and> cap (abs k) \<and>
           abs k = default_entry (nvram_ezpacket_default w) v (abs (kdev w))"
proof -
  let ?n = "tup_name v" and ?m = "abs (kdev w)" and ?o = "nvram_get_option (tup_name v) (nvram_ezpacket_default w)"
  have n: "good_name ?n" "?n \<in> names" "\<And>x. tup_value v = Some x \<Longrightarrow> CHR 0x00 \<notin> set x \<and> val_ok ?n x"
    using v by (auto simp: tuple_ok_def)
  have len: "length ?n < 100"
    using n(1) by (simp add: good_name_def)
  note defs = default_entry_def Let_def empty_value_def
  consider "has_option ?o NVRAM_UNDEFINED"
    | "\<not> has_option ?o NVRAM_UNDEFINED" "has_option ?o NVRAM_PROTECTED" "\<not> empty_value (?m ?n)"
    | "\<not> has_option ?o NVRAM_UNDEFINED" "\<not> has_option ?o NVRAM_PROTECTED \<or> empty_value (?m ?n)" by blast
  then show ?thesis
  proof cases
    case 1
    then have "nvram_set E ?n (tup_value v) w = Some (EINVAL, w\<lparr>kdev := kdev w\<rparr>)"
      using plain len by (simp add: nvram_set_def nvram_set_prod_def Let_def)
    moreover have "default_entry (nvram_ezpacket_default w) v ?m = ?m"
      using 1 by (simp add: defs)
    ultimately show ?thesis
      using w by metis
  next
    case 2
    then obtain x where "?m ?n = Some x" "x \<noteq> []"
      by (auto simp: empty_value_def)
    then have "nvram_set E ?n (tup_value v) w = Some (EACCES, w\<lparr>kdev := kdev w\<rparr>)"
      using nvram_set_protected [OF w(1) n(1) plain 2(2,1)] by simp
    moreover have "default_entry (nvram_ezpacket_default w) v ?m = ?m"
      using 2 by (simp add: defs)
    ultimately show ?thesis
      using w by metis
  next
    case 3
    have "cap (?m(?n := norm_val (tup_value v)))"
      using w n(2,3) by (cases "norm_val (tup_value v)") (auto simp: norm_val_def cap_set cap_unset split: if_splits)
    moreover have "\<exists>k. nvram_set E ?n (tup_value v) w = Some (0, w\<lparr>kdev := k\<rparr>) \<and> inv k \<and>
        abs k = ?m(?n := norm_val (tup_value v))"
      using w n 3 plain by (intro nvram_set_abs) (auto simp: norm_val_def cap_room empty_value_def split: if_splits)
    moreover have "default_entry (nvram_ezpacket_default w) v ?m = ?m(?n := norm_val (tup_value v))"
      using 3 by (auto simp: defs)
    ultimately show ?thesis
      by metis
  qed
qed

lemma default_loop_abs:
  assumes "inv (kdev w)" and "cap (abs (kdev w))" and plain: "\<not> defined (bld E) EZP_PROD_SUPERCAT_X"
    and "\<forall>v \<in> set vs. tuple_ok names val_ok v"
  shows "\<exists>k. fold_c (\<lambda>v w. map_option snd (nvram_set E (tup_name v) (tup_value v) w)) vs w = Some (w\<lparr>kdev := k\<rparr>) \<and>
             inv k \<and> cap (abs k) \<and> abs k = fold (default_entry (nvram_ezpacket_default w)) vs (abs (kdev w))"
  using assms(1,2,4)
proof (induction vs arbitrary: w)
  case Nil
  then show ?case by (auto intro!: exI [of _ "kdev w"])
next
  case (Cons v vs)
  obtain r k where k: "nvram_set E (tup_name v) (tup_value v) w = Some (r, w\<lparr>kdev := k\<rparr>)" "inv k" "cap (abs k)"
      "abs k = default_entry (nvram_ezpacket_default w) v (abs (kdev w))"
    using set_default_entry [OF Cons.prems(1,2) plain] Cons.prems(3) by (meson list.set_intros(1))
  then show ?case
    using Cons.IH [of "w\<lparr>kdev := k\<rparr>"] Cons.prems(3) by auto
qed

lemma nvram_default_abs:
  assumes "inv (kdev w)" and "cap (abs (kdev w))" and "\<not> defined (bld E) EZP_PROD_SUPERCAT_X"
    and "\<forall>v \<in> set (nvram_ezpacket_default w). tuple_ok names val_ok v"
  shows "\<exists>k. nvram_default E w = Some (w\<lparr>kdev := k\<rparr>) \<and> inv k \<and> cap (abs k) \<and>
             abs k = fold (default_entry (nvram_ezpacket_default w)) (nvram_ezpacket_default w) (abs (kdev w))"
  using default_loop_abs [OF assms] by (simp add: nvram_default_def)

end

end
