(* ===== verification/Nvram_Commit.thy ===== *)
theory Nvram_Commit
  imports Nvram_Boot
begin

text \<open>
  Devices on which a commit keeps the variables: the locale \<open>committing_device\<close> extends \<open>bounded_device\<close> by the law
  of the \<^verbatim>\<open>ioctl\<close> behind \<^verbatim>\<open>nvram_commit\<close>.
\<close>

locale committing_device = bounded_device +
  assumes commit_keeps:
    "inv s \<Longrightarrow> cap (abs s) \<Longrightarrow> \<exists>r s'. dev_ioctl E s = Some (r, s') \<and> inv s' \<and> abs s' = abs s"

interpretation specc: committing_device "spec_env b" id spec_inv "\<lambda>_ _ _. True" "\<lambda>_. True" "\<lambda>_ _. True" UNIV for b
  by unfold_locales simp

context committing_device
begin

text \<open>Whether or not an upgrade is going on, \<^verbatim>\<open>nvram_commit\<close> returns and keeps the variables.\<close>

lemma nvram_commit_abs:
  assumes "inv (kdev w)" and "cap (abs (kdev w))"
  shows "\<exists>r k. nvram_commit E w = Some (r, w\<lparr>kdev := k\<rparr>) \<and> inv k \<and> abs k = abs (kdev w)"
proof -
  obtain r k where k: "dev_ioctl E (kdev w) = Some (r, k)" "inv k" "abs k = abs (kdev w)"
    using commit_keeps [OF assms] by blast
  show ?thesis
  proof (cases "check_action w \<in> {ACT_IDLE, ACT_SW_RESTORE, ACT_HW_RESTORE}")
    case True
    then show ?thesis
      using k opened by (intro exI [of _ "Some r"] exI [of _ k]) (auto simp: nvram_commit_def)
  next
    case False
    then show ?thesis
      using assms(1) by (intro exI [of _ None] exI [of _ "kdev w"]) (simp add: nvram_commit_def)
  qed
qed

end

end
