(* ===== verification/Kernel_Device.thy ===== *)
theory Kernel_Device
  imports Kernel_Commit Ezp_Attr Nvram_Commit
begin

text \<open>
  The driver \<^verbatim>\<open>nvram_cfg/nvram_linux.c\<close>: the file operations of \<^verbatim>\<open>/dev/nvram\<close>, committing to the flash
  partitions, and the initialisation that reads them at boot.  The partitions are driven through the MTD
  layer of the kernel, which is a parameter (\<open>mtd_ops\<close>).  The driver is single-threaded under
  \<^verbatim>\<open>nvram_sem\<close>, so each operation is one step.  Memory allocation succeeds.  The last section interprets
  the contract of the device with the driver.
\<close>

section \<open>Flash partitions\<close>

text \<open>
  \<^verbatim>\<open>struct mtd_info\<close>: the size and the erase block size of a partition, and its operations.  A read gives
  the error code, the number of bytes read and the bytes; a write gives the error code and the number
  of bytes written.
\<close>

record 'm mtd_ops =
  mtd_size :: "'m \<Rightarrow> nat"
  mtd_erasesize :: "'m \<Rightarrow> nat"
  mtd_read :: "nat \<Rightarrow> nat \<Rightarrow> 'm \<Rightarrow> int \<times> nat \<times> string"
  mtd_unlock :: "nat \<Rightarrow> nat \<Rightarrow> 'm \<Rightarrow> 'm"
  mtd_erase :: "nat \<Rightarrow> nat \<Rightarrow> 'm \<Rightarrow> int \<times> 'm"
  mtd_write :: "nat \<Rightarrow> string \<Rightarrow> 'm \<Rightarrow> int \<times> nat \<times> 'm"

record 'm driver =
  kst :: kstate
  nvram_mtd :: "'m option"
  nvram_backup_mtd :: "'m option"

definition EIO :: int where "EIO = 5"
definition ENODEV :: int where "ENODEV = 19"

text \<open>A word in little-endian order.\<close>

definition le32 :: "32 word \<Rightarrow> string" where
  "le32 w =
     [char_of (unat (w AND 255)), char_of (unat (drop_bit 8 w AND 255)),
      char_of (unat (drop_bit 16 w AND 255)), char_of (unat (drop_bit 24 w AND 255))]"

definition un_le32 :: "string \<Rightarrow> 32 word" where
  "un_le32 bs = foldr (\<lambda>ch w. push_bit 8 w OR of_nat (of_char ch)) bs 0"

definition header_bytes :: "nvram_header \<Rightarrow> string" where
  "header_bytes h =
     le32 (h_magic h) @ le32 (h_len h) @ le32 (h_crc_ver_init h) @ le32 (h_config_refresh h) @
     le32 (h_config_ncdl h)"

definition parse_header :: "string \<Rightarrow> nvram_header" where
  "parse_header bs =
     \<lparr>h_magic = un_le32 (take 4 bs), h_len = un_le32 (take 4 (drop 4 bs)),
      h_crc_ver_init = un_le32 (take 4 (drop 8 bs)), h_config_refresh = un_le32 (take 4 (drop 12 bs)),
      h_config_ncdl = un_le32 (take 4 (drop 16 bs))\<rparr>"

text \<open>
  The loop that erases the blocks from \<open>offset\<close> up to \<open>bound\<close>.  A block size of 0 never gets here,
  because \<^verbatim>\<open>ROUNDUP\<close> divides by it.
\<close>

function erase_loop :: "'m mtd_ops \<Rightarrow> nat \<Rightarrow> nat \<Rightarrow> nat \<Rightarrow> 'm \<Rightarrow> int \<times> 'm" where
  "erase_loop F es offset bound m =
     (if offset < bound \<and> 0 < es then
        let (ret, m') = mtd_erase F offset es (mtd_unlock F offset es m) in
        if ret \<noteq> 0 then (ret, m') else erase_loop F es (offset + es) bound m'
      else (0, m))"
  by pat_completeness auto

termination
  by (relation "measure (\<lambda>(F, es, offset, bound, m). bound - offset)") auto

declare erase_loop.simps [simp del]

text \<open>
  \<^verbatim>\<open>nvram_mtd_commit\<close>.  When the erase block is larger than \<^verbatim>\<open>NVRAM_SPACE\<close>, the bytes before the store are
  read first and written back with it.  \<open>junk\<close> is what the allocated buffer holds in the field
  \<^verbatim>\<open>config_ncdl\<close>.  A partition is at least as large as the blocks that hold the store.
\<close>

definition nvram_mtd_commit ::
    "'m mtd_ops \<Rightarrow> 32 word \<Rightarrow> 'm \<Rightarrow> kstate \<Rightarrow> (int \<times> 'm \<times> kstate) c" where
  "nvram_mtd_commit F junk m st =
     (let size = mtd_size F m; es = mtd_erasesize F m; erasesize = roundup NVRAM_SPACE es;
          pad = erasesize - NVRAM_SPACE;
          (rret, rlen, before) = (if 0 < pad then mtd_read F (size - erasesize) pad m else (0, 0, []))
      in if es = 0 then None
         else if rret \<noteq> 0 \<or> rlen \<noteq> pad then Some (- EIO, m, st)
         else
           let offset = (if 0 < pad then size - erasesize else size - NVRAM_SPACE);
               ((h, bytes), st') = k_nvram_commit junk st;
               (eret, m1) = erase_loop F es offset (size - NVRAM_SPACE + unat (h_len h)) m
           in if eret \<noteq> 0 then Some (eret, m1, st')
              else
                let i = pad + unat (h_len h);
                    (wret, wlen, m2) = mtd_write F (size - erasesize) (take i (before @ header_bytes h @ bytes)) m1
                in if wret \<noteq> 0 \<or> wlen \<noteq> i then Some (- EIO, m2, st')
                   else Some (fst (mtd_read F (size - erasesize) 4 m2), m2, st'))"

text \<open>
  \<^verbatim>\<open>nvram_commit\<close>: first the backup, then the primary partition; the result is that of the primary one.
\<close>

definition drv_nvram_commit :: "'m mtd_ops \<Rightarrow> 32 word \<Rightarrow> 'm driver \<Rightarrow> (int \<times> 'm driver) c" where
  "drv_nvram_commit F junk d =
     (case nvram_mtd d of
        None \<Rightarrow> Some (- ENODEV, d)
      | Some m \<Rightarrow> do {
          d1 \<leftarrow> (case nvram_backup_mtd d of
                  None \<Rightarrow> Some d
                | Some b \<Rightarrow> do {
                    (_, b', st') \<leftarrow> nvram_mtd_commit F junk b (kst d);
                    Some (d\<lparr>kst := st', nvram_backup_mtd := Some b'\<rparr>)
                  });
          (ret, m', st') \<leftarrow> nvram_mtd_commit F junk m (kst d1);
          Some (ret, d1\<lparr>kst := st', nvram_mtd := Some m'\<rparr>)
        })"

section \<open>Initialisation\<close>

definition k_nvram_read :: "'m mtd_ops \<Rightarrow> 'm option \<Rightarrow> kstate \<Rightarrow> string" where
  "k_nvram_read F mo st =
     (case mo of
        None \<Rightarrow> nvram_buf st
      | Some m \<Rightarrow>
          let (ret, len, bytes) = mtd_read F (mtd_size F m - NVRAM_SPACE) NVRAM_SPACE m
          in if ret \<noteq> 0 \<or> len \<noteq> NVRAM_SPACE then nvram_buf st else bytes)"

definition k_nvram_init :: "'m mtd_ops \<Rightarrow> 'm option \<Rightarrow> bool \<Rightarrow> kstate \<Rightarrow> (int \<times> kstate) c" where
  "k_nvram_init F mo failsafe st =
     (let buf = k_nvram_read F mo st; bytes = drop NVRAM_HEADER_SIZE buf in do {
        ret \<leftarrow> k_nvram_valid (parse_header buf) bytes failsafe;
        Some (ret, if ret = 0 then k_nvram_rehash bytes st else st)
      })"

text \<open>The search for the partitions among the MTD devices, by name and size.\<close>

definition locate_mtd :: "'m mtd_ops \<Rightarrow> string \<Rightarrow> (string \<times> 'm) list \<Rightarrow> 'm option" where
  "locate_mtd F name devs =
     map_option snd (List.find (\<lambda>(n, m). n = name \<and> NVRAM_SPACE \<le> mtd_size F m) (rev devs))"

definition empty_kstate :: kstate where
  "empty_kstate =
     \<lparr>nvram_hash = replicate NVRAM_HASH_SIZE [], nvram_dead = [],
      nvram_buf = replicate NVRAM_SPACE (CHR 0x00), nvram_offset = 0\<rparr>"

text \<open>
  \<^verbatim>\<open>dev_nvram_init\<close>: a valid primary partition is read first and then the backup over it; a partition
  that is not valid is rewritten from the other one.  \<^term>\<open>None\<close> of the inner type is a failed
  initialisation (no primary partition).
\<close>

definition dev_nvram_init :: "'m mtd_ops \<Rightarrow> 32 word \<Rightarrow> (string \<times> 'm) list \<Rightarrow> 'm driver option c" where
  "dev_nvram_init F junk devs =
     (let main = locate_mtd F ''nvram'' devs; backup = locate_mtd F ''nvram_backup'' devs in
      case main of
        None \<Rightarrow> Some None
      | Some m \<Rightarrow> do {
          (ret, st) \<leftarrow> k_nvram_init F main False empty_kstate;
          if ret \<noteq> 0 then
            (case backup of
               Some b \<Rightarrow> do {
                 (ret, st) \<leftarrow> k_nvram_init F backup False st;
                 if ret \<noteq> 0 then do {
                   (_, st) \<leftarrow> k_nvram_init F main True st;
                   Some (Some \<lparr>kst = st, nvram_mtd = main, nvram_backup_mtd = backup\<rparr>)
                 }
                 else do {
                   (_, m', st) \<leftarrow> nvram_mtd_commit F junk m st;
                   Some (Some \<lparr>kst = st, nvram_mtd = Some m', nvram_backup_mtd = backup\<rparr>)
                 }
               }
             | None \<Rightarrow> do {
                 (_, st) \<leftarrow> k_nvram_init F main True st;
                 Some (Some \<lparr>kst = st, nvram_mtd = main, nvram_backup_mtd = None\<rparr>)
               })
          else
            (case backup of
               None \<Rightarrow> Some (Some \<lparr>kst = st, nvram_mtd = main, nvram_backup_mtd = None\<rparr>)
             | Some b \<Rightarrow> do {
                 (ret, st) \<leftarrow> k_nvram_init F backup False st;
                 if ret \<noteq> 0 then do {
                   (_, st) \<leftarrow> k_nvram_init F main False st;
                   (_, b', st) \<leftarrow> nvram_mtd_commit F junk b st;
                   Some (Some \<lparr>kst = st, nvram_mtd = main, nvram_backup_mtd = Some b'\<rparr>)
                 }
                 else Some (Some \<lparr>kst = st, nvram_mtd = main, nvram_backup_mtd = backup\<rparr>)
               })
        })"

section \<open>File operations\<close>

text \<open>
  What \<^verbatim>\<open>dev_nvram_read\<close> returns for a string of \<open>count\<close> bytes: all variables for an empty name, 0 for an
  unknown name, otherwise the offset of the value in the buffer that user space has mapped.
\<close>

datatype read_result = Read_all int string | Read_none | Read_offset nat

definition dev_nvram_read :: "string \<Rightarrow> nat \<Rightarrow> kstate \<Rightarrow> read_result" where
  "dev_nvram_read name count st =
     (if name = [] then Read_all (int count) (k_nvram_getall count st)
      else case k_nvram_get name st of
             None \<Rightarrow> Read_none
           | Some off \<Rightarrow> Read_offset off)"

text \<open>\<^verbatim>\<open>dev_nvram_write\<close> on a string of \<open>length buf + 1\<close> bytes; an empty value removes the variable.\<close>

definition dev_nvram_write :: "string \<Rightarrow> kstate \<Rightarrow> int \<times> kstate" where
  "dev_nvram_write buf st =
     (let name = takeWhile (\<lambda>ch. ch \<noteq> CHR ''='') buf; val = drop (length name + 1) buf;
          (ret, st') = (if val \<noteq> [] then drv_nvram_set name val st else k_nvram_unset name st)
      in (if ret \<noteq> 0 then ret else int (length buf + 1), st'))"

definition dev_nvram_ioctl :: "'m mtd_ops \<Rightarrow> 32 word \<Rightarrow> 32 word \<Rightarrow> 'm driver \<Rightarrow> (int \<times> 'm driver) c" where
  "dev_nvram_ioctl F junk cmd d =
     (if cmd \<noteq> NVRAM_MAGIC then Some (- 22, d) else drv_nvram_commit F junk d)"

section \<open>The driver keeps the contract of the device\<close>

text \<open>The environment of the library on the driver.\<close>

definition kern_env :: "build \<Rightarrow> 'm mtd_ops \<Rightarrow> 32 word \<Rightarrow> 'm driver env" where
  "kern_env b F junk =
     \<lparr>bld = b, nvram_open = 0,
      dev_read = (\<lambda>n d. case dev_nvram_read n (length n + 1) (kst d) of
                          Read_offset off \<Rightarrow> Some (cstr_at (nvram_buf (kst d)) off)
                        | _ \<Rightarrow> None),
      dev_readall = (\<lambda>count d. case dev_nvram_read [] count (kst d) of
                                 Read_all r bytes \<Rightarrow> (r, bytes)
                               | _ \<Rightarrow> (0, [])),
      dev_write = (\<lambda>buf d. let (r, st) = dev_nvram_write buf (kst d) in (r, d\<lparr>kst := st\<rparr>)),
      dev_ioctl = dev_nvram_ioctl F junk NVRAM_MAGIC\<rparr>"

abbreviation dabs :: "'m driver \<Rightarrow> string \<Rightarrow> string option" where
  "dabs d \<equiv> kabs (kst d)"

abbreviation dinv :: "'m driver \<Rightarrow> bool" where
  "dinv d \<equiv> kinv (kst d)"

lemma kern_env_sel [simp]:
  "bld (kern_env b F junk) = b" "nvram_open (kern_env b F junk) = 0"
  "n \<noteq> [] \<Longrightarrow> dev_read (kern_env b F junk) n d = dabs d n"
  "dev_write (kern_env b F junk) buf d = (let (r, st) = dev_nvram_write buf (kst d) in (r, d\<lparr>kst := st\<rparr>))"
  by (simp_all add: kern_env_def dev_nvram_read_def kabs_def split: option.split)

lemma dev_nvram_write_set:
  "CHR ''='' \<notin> set n \<Longrightarrow> v \<noteq> [] \<Longrightarrow> drv_nvram_set n v st = (0, st') \<Longrightarrow>
     dev_nvram_write (n @ CHR ''='' # v) st = (int (length n + length v + 2), st')"
  by (simp add: dev_nvram_write_def Let_def)

lemma dev_nvram_write_unset:
  "CHR ''='' \<notin> set n \<Longrightarrow> k_nvram_unset n st = (0, st') \<Longrightarrow>
     dev_nvram_write (n @ ''='') st = (int (length n + 2), st')"
  "CHR ''='' \<notin> set n \<Longrightarrow> k_nvram_unset n st = (0, st') \<Longrightarrow>
     dev_nvram_write n st = (int (length n + 1), st')"
  by (simp_all add: dev_nvram_write_def Let_def)

lemma kabs_no_nul: "kabs st n = Some v \<Longrightarrow> CHR 0x00 \<notin> set v"
  by (auto simp: kabs_def cstr_at_def)

interpretation kern: nvram_device "kern_env b F junk" dabs dinv kroom for b F junk
proof unfold_locales
  fix s :: "'a driver" and n v
  show "CHR 0x00 \<notin> set v" if "dabs s n = Some v"
    using kabs_no_nul that .
  show "\<exists>s'. dev_write (kern_env b F junk) (n @ ''='' @ v) s = (int (length n + length v + 2), s') \<and>
          dinv s' \<and> dabs s' = (dabs s)(n \<mapsto> v)"
    if h: "dinv s" "CHR ''='' \<notin> set n" "CHR 0x00 \<notin> set n" "v \<noteq> []" "CHR 0x00 \<notin> set v" "kroom (dabs s) n v"
  proof -
    obtain st' where "drv_nvram_set n v (kst s) = (0, st')" "kinv st'" "kabs st' = (dabs s)(n \<mapsto> v)"
      using drv_nvram_set_ok [of "kst s" n v] h by auto
    then show ?thesis
      using h by (simp add: dev_nvram_write_set)
  qed
  show "\<exists>s'. dev_write (kern_env b F junk) (n @ ''='') s = (int (length n + 2), s') \<and>
          dinv s' \<and> dabs s' = (dabs s)(n := None)"
    if "dinv s" "CHR ''='' \<notin> set n" "CHR 0x00 \<notin> set n"
    using k_nvram_unset_ok [of "kst s" n] that by (auto simp: dev_nvram_write_unset(1))
  show "\<exists>s'. dev_write (kern_env b F junk) n s = (int (length n + 1), s') \<and>
          dinv s' \<and> dabs s' = (dabs s)(n := None)"
    if "dinv s" "CHR ''='' \<notin> set n" "CHR 0x00 \<notin> set n"
    using k_nvram_unset_ok [of "kst s" n] that by (auto simp: dev_nvram_write_unset(2))
qed simp_all

section \<open>The capacity of the driver\<close>

text \<open>
  The driver can hold every map whose names are in \<open>N\<close> and whose values respect the limits \<open>lim\<close>, when
  the largest of them fits an image and one more value fits the buffer behind it.
\<close>

definition kcap :: "string set \<Rightarrow> (string \<Rightarrow> nat) \<Rightarrow> (string \<Rightarrow> string option) \<Rightarrow> bool" where
  "kcap N lim m \<longleftrightarrow>
     finite N \<and> dom m \<subseteq> N \<and> (\<forall>n v. m n = Some v \<longrightarrow> length v \<le> lim n) \<and>
     (\<Sum>n \<in> N. length n + lim n + 2) \<le> IMAGE_ROOM \<and>
     (\<forall>n \<in> N. (\<Sum>x \<in> N. lim x + 1) + lim n + 1 \<le> NVRAM_SPACE)"

lemma kcap_sizes:
  assumes "kcap N lim m"
  shows "image_size m \<le> IMAGE_ROOM" and "buffer_size m \<le> (\<Sum>x \<in> N. lim x + 1)"
proof -
  have fin: "finite N" "dom m \<subseteq> N" and lim: "\<And>n. n \<in> dom m \<Longrightarrow> length (the (m n)) \<le> lim n"
    using assms by (auto simp: kcap_def)
  have "image_size m \<le> (\<Sum>n \<in> dom m. length n + lim n + 2)"
    unfolding image_size_def using lim by (intro sum_mono) simp
  also have "\<dots> \<le> (\<Sum>n \<in> N. length n + lim n + 2)"
    using fin by (intro sum_mono2) auto
  finally show "image_size m \<le> IMAGE_ROOM"
    using assms by (simp add: kcap_def)
  have "buffer_size m \<le> (\<Sum>n \<in> dom m. lim n + 1)"
    unfolding buffer_size_def using lim by (intro sum_mono) simp
  also have "\<dots> \<le> (\<Sum>n \<in> N. lim n + 1)"
    using fin by (intro sum_mono2) auto
  finally show "buffer_size m \<le> (\<Sum>x \<in> N. lim x + 1)" .
qed

interpretation kernb: bounded_device "kern_env b F junk" dabs dinv kroom "kcap N lim" "\<lambda>n v. length v \<le> lim n" N
  for b F junk N lim
proof unfold_locales
  fix m :: "string \<Rightarrow> string option" and n v
  assume cap: "kcap N lim m"
  show "kroom m n v" if "n \<in> N" "length v \<le> lim n"
  proof -
    have "(\<Sum>x \<in> N. lim x + 1) + lim n + 1 \<le> NVRAM_SPACE"
      using cap that(1) by (simp add: kcap_def)
    then show ?thesis
      using kcap_sizes [OF cap] that(2) unfolding kroom_def by linarith
  qed
  show "kcap N lim (m(n \<mapsto> v))" if "n \<in> N" "length v \<le> lim n"
    using cap that by (auto simp: kcap_def)
  show "kcap N lim (m(n := None))"
    using cap by (auto simp: kcap_def)
  show "length v \<le> lim n" if "m n = Some v"
    using cap that by (simp add: kcap_def)
qed

end
