(* ===== verification/Kernel_Flash.thy ===== *)
theory Kernel_Flash
  imports Kernel_Device
begin

text \<open>
  Persistence: what the driver commits to flash, it finds again at boot.  The MTD layer is described by
  \<open>mtd_works\<close>: reads return the contents, erasing a block sets its bytes to \<^verbatim>\<open>0xFF\<close>, and a write to erased
  bytes stores them.  Nothing is assumed about a write to bytes that are not erased.
\<close>

definition overwrite :: "nat \<Rightarrow> string \<Rightarrow> string \<Rightarrow> string" where
  "overwrite off bs m = take off m @ bs @ drop (off + length bs) m"

definition erased :: "nat \<Rightarrow> string" where
  "erased n = replicate n (CHR 0xFF)"

definition mtd_works :: "'m mtd_ops \<Rightarrow> ('m \<Rightarrow> string) \<Rightarrow> bool" where
  "mtd_works F img \<longleftrightarrow>
     (\<forall>m. length (img m) = mtd_size F m) \<and>
     (\<forall>m off n. off + n \<le> mtd_size F m \<longrightarrow> mtd_read F off n m = (0, n, take n (drop off (img m)))) \<and>
     (\<forall>m off n. img (mtd_unlock F off n m) = img m \<and>
        mtd_erasesize F (mtd_unlock F off n m) = mtd_erasesize F m) \<and>
     (\<forall>m off. off + mtd_erasesize F m \<le> mtd_size F m \<longrightarrow>
        (\<exists>m'. mtd_erase F off (mtd_erasesize F m) m = (0, m') \<and> mtd_erasesize F m' = mtd_erasesize F m \<and>
              img m' = overwrite off (erased (mtd_erasesize F m)) (img m))) \<and>
     (\<forall>m off bs. off + length bs \<le> mtd_size F m \<longrightarrow>
        take (length bs) (drop off (img m)) = erased (length bs) \<longrightarrow>
        (\<exists>m'. mtd_write F off bs m = (0, length bs, m') \<and> mtd_erasesize F m' = mtd_erasesize F m \<and>
              img m' = overwrite off bs (img m)))"

lemma mtd_works_write:
  assumes "mtd_works F img" and "off + length bs \<le> mtd_size F m"
    and "take (length bs) (drop off (img m)) = erased (length bs)"
  shows "\<exists>m'. mtd_write F off bs m = (0, length bs, m') \<and> mtd_erasesize F m' = mtd_erasesize F m \<and>
              img m' = overwrite off bs (img m)"
  using assms unfolding mtd_works_def by blast

lemma mtd_works_read:
  "mtd_works F img \<Longrightarrow> off + n \<le> mtd_size F m \<Longrightarrow> mtd_read F off n m = (0, n, take n (drop off (img m)))"
  unfolding mtd_works_def by blast

section \<open>Bytes\<close>

lemma length_overwrite [simp]: "off + length bs \<le> length m \<Longrightarrow> length (overwrite off bs m) = length m"
  by (simp add: overwrite_def)

lemma length_erased [simp]: "length (erased n) = n"
  by (simp add: erased_def)

lemma overwrite_overwrite:
  assumes "off + length a + length b \<le> length m"
  shows "overwrite (off + length a) b (overwrite off a m) = overwrite off (a @ b) m"
proof -
  have "take (off + length a) (overwrite off a m) = take off m @ a"
    using assms by (simp add: overwrite_def)
  moreover have "drop (off + length a + length b) (overwrite off a m) = drop (off + length a + length b) m"
    using assms by (simp add: overwrite_def add.commute)
  ultimately show ?thesis
    by (simp add: overwrite_def add.assoc)
qed

lemma take_drop_overwrite:
  assumes "off + length bs \<le> length m"
  shows "take (length bs) (drop off (overwrite off bs m)) = bs"
  using assms by (simp add: overwrite_def)

lemma length_le32 [simp]: "length (le32 w) = 4"
  by (simp add: le32_def)

lemma length_header_bytes [simp]: "length (header_bytes h) = NVRAM_HEADER_SIZE"
  by (simp add: header_bytes_def NVRAM_HEADER_SIZE_def)

lemma of_char_byte: "(of_nat (of_char (char_of (unat (w AND 255)))) :: 32 word) = w AND 255" for w :: "32 word"
proof -
  have "w AND 255 \<le> 255"
    by (rule word_and_le1)
  then have "unat (w AND 255) < 256"
    by (simp add: word_le_nat_alt)
  then show ?thesis
    by (simp add: unsigned_of_nat)
qed

lemma mask_8: "(255 :: 32 word) = mask 8"
  by (simp add: mask_eq_exp_minus_1)

lemma bytes_join:
  "push_bit 8 (push_bit 8 (push_bit 8 (drop_bit 24 w AND 255) OR drop_bit 16 w AND 255) OR
     drop_bit 8 w AND 255) OR w AND 255 = (w :: 32 word)"
  unfolding mask_8
proof (rule bit_word_eqI)
  fix n
  assume "n < LENGTH(32)"
  then consider "n < 8" | "8 \<le> n" "n < 16" | "16 \<le> n" "n < 24" | "24 \<le> n" "n < 32"
    by fastforce
  then show "bit (push_bit 8 (push_bit 8 (push_bit 8 (drop_bit 24 w AND mask 8) OR drop_bit 16 w AND mask 8) OR
      drop_bit 8 w AND mask 8) OR w AND mask 8) n = bit w n"
    by cases (auto simp: bit_simps)
qed

lemma un_le32_le32 [simp]: "un_le32 (le32 w) = w"
  unfolding un_le32_def le32_def foldr.simps comp_def id_def of_char_byte push_bit_of_0 or.left_neutral
  by (rule bytes_join)

lemma parse_header_bytes: "parse_header (header_bytes h @ rest) = h"
  by (simp add: parse_header_def header_bytes_def)

section \<open>Erasing\<close>

lemma erase_loop_blocks:
  assumes "mtd_works F img" and "0 < mtd_erasesize F m" and "es = mtd_erasesize F m"
    and "offset + k * es \<le> mtd_size F m" and "bound \<le> offset + k * es"
    and "0 < k \<Longrightarrow> offset + (k - 1) * es < bound"
  shows "\<exists>m'. erase_loop F es offset bound m = (0, m') \<and> mtd_erasesize F m' = es \<and>
              img m' = overwrite offset (erased (k * es)) (img m)"
  using assms(2-)
proof (induction k arbitrary: offset m)
  case 0
  then show ?case
    by (subst erase_loop.simps) (simp add: overwrite_def erased_def)
next
  case (Suc k)
  have size: "length (img x) = mtd_size F x" for x
    using assms(1) by (simp add: mtd_works_def)
  define u where "u = mtd_unlock F offset es m"
  have u: "img u = img m" "mtd_erasesize F u = es" "mtd_size F u = mtd_size F m"
    using assms(1) Suc.prems size [of u] size [of m] by (simp_all add: mtd_works_def u_def)
  obtain m1 where m1: "mtd_erase F offset es u = (0, m1)" "mtd_erasesize F m1 = es"
      "img m1 = overwrite offset (erased es) (img m)"
  proof -
    have "offset + mtd_erasesize F u \<le> mtd_size F u"
      using Suc.prems u by simp
    then show ?thesis
      using assms(1) u that unfolding mtd_works_def by metis
  qed
  have size1: "mtd_size F m1 = mtd_size F m"
    using size [of m1] size [of m] m1(3) Suc.prems by simp
  have "\<exists>m'. erase_loop F es (offset + es) bound m1 = (0, m') \<and> mtd_erasesize F m' = es \<and>
      img m' = overwrite (offset + es) (erased (k * es)) (img m1)"
  proof (rule Suc.IH)
    show "0 < k \<Longrightarrow> offset + es + (k - 1) * es < bound"
      using Suc.prems by (cases k) (simp_all add: algebra_simps)
  qed (use Suc.prems m1 size1 in \<open>simp_all add: algebra_simps\<close>)
  moreover have "overwrite (offset + es) (erased (k * es)) (img m1) = overwrite offset (erased (Suc k * es)) (img m)"
    using overwrite_overwrite [of offset "erased es" "erased (k * es)" "img m"] Suc.prems size [of m] m1(3)
    by (simp add: erased_def replicate_add add.commute)
  moreover have "erase_loop F es offset bound m = erase_loop F es (offset + es) bound m1"
    using Suc.prems m1(1) by (subst erase_loop.simps) (simp add: u_def)
  ultimately show ?case by simp
qed

section \<open>Committing a partition\<close>

text \<open>The partition is large enough for the erase blocks that hold the store.\<close>

definition mtd_fits :: "'m mtd_ops \<Rightarrow> 'm \<Rightarrow> bool" where
  "mtd_fits F m \<longleftrightarrow> 0 < mtd_erasesize F m \<and> roundup NVRAM_SPACE (mtd_erasesize F m) \<le> mtd_size F m"

text \<open>The partition ends in an image of the variables.\<close>

definition holds_image :: "'m mtd_ops \<Rightarrow> ('m \<Rightarrow> string) \<Rightarrow> 'm \<Rightarrow> (string \<Rightarrow> string option) \<Rightarrow> bool" where
  "holds_image F img m vars \<longleftrightarrow>
     (\<exists>junk st h bytes rest. kinv st \<and> kabs st = vars \<and> image_size vars \<le> IMAGE_ROOM \<and>
        commit_image junk st = (h, bytes) \<and> NVRAM_SPACE \<le> mtd_size F m \<and>
        drop (mtd_size F m - NVRAM_SPACE) (img m) =
          header_bytes h @ take (unat (h_len h) - NVRAM_HEADER_SIZE) bytes @ rest)"

lemma roundup_bounds:
  assumes "0 < y"
  shows "x \<le> roundup x y" and "roundup x y < x + y" and "y dvd roundup x y"
proof -
  have "roundup x y + (x + (y - 1)) mod y = x + (y - 1)"
    by (simp add: roundup_def)
  then show "x \<le> roundup x y" "roundup x y < x + y"
    using assms mod_less_divisor [OF assms, of "x + (y - 1)"] by linarith+
  show "y dvd roundup x y"
    by (simp add: roundup_def)
qed

lemma roundup_least: "0 < y \<Longrightarrow> y dvd z \<Longrightarrow> x \<le> z \<Longrightarrow> roundup x y \<le> z"
proof -
  assume "0 < y" "y dvd z" "x \<le> z"
  then obtain c where z: "z = c * y"
    by (metis dvd_def mult.commute)
  have "(x + (y - 1)) div y \<le> (c * y + (y - 1)) div y"
    using \<open>x \<le> z\<close> z by (intro div_le_mono) simp
  also have "\<dots> = c"
    using \<open>0 < y\<close> div_mult_self1 [of y "y - 1" c] by (simp add: add.commute del: div_mult_self1)
  finally show ?thesis
    unfolding roundup_def z by (rule mult_right_mono) simp
qed

lemma mtd_commit_ok:
  assumes works: "mtd_works F img" and fits: "mtd_fits F m"
    and inv: "kinv st" and size: "image_size (kabs st) \<le> IMAGE_ROOM"
  shows "\<exists>m' st'. nvram_mtd_commit F junk m st = Some (0, m', st') \<and> kinv st' \<and> kabs st' = kabs st \<and>
           mtd_size F m' = mtd_size F m \<and> mtd_erasesize F m' = mtd_erasesize F m \<and>
           holds_image F img m' (kabs st)"
proof -
  define es S R pad P where defs: "es = mtd_erasesize F m" "S = mtd_size F m" "R = roundup NVRAM_SPACE es"
    "pad = R - NVRAM_SPACE" "P = S - R"
  have es: "0 < es" "NVRAM_SPACE \<le> R" "R \<le> S" "es dvd R"
    using fits roundup_bounds [of es NVRAM_SPACE] by (simp_all add: mtd_fits_def defs)
  have len_img: "length (img x) = mtd_size F x" for x
    using works by (simp add: mtd_works_def)
  obtain h bytes where im: "commit_image junk st = (h, bytes)"
    by (cases "commit_image junk st")
  obtain st' where c: "k_nvram_commit junk st = ((h, bytes), st')"
    using im by (simp add: k_nvram_commit_def)
  define len where "len = unat (h_len h)"
  have len: "NVRAM_HEADER_SIZE + 2 \<le> len" "len \<le> NVRAM_SPACE" "length bytes = NVRAM_SPACE - NVRAM_HEADER_SIZE"
    using commit_image_shape [OF im] by (auto simp: len_def zero_fill_def)
  define before where "before = take pad (drop P (img m))"
  define bs where "bs = take (pad + len) (before @ header_bytes h @ bytes)"
  have lb: "length before = pad" "length bs = pad + len"
    using es len len_img [of m] by (auto simp: before_def bs_def defs kernel_sizes)
  have dbs: "drop pad bs = header_bytes h @ take (len - NVRAM_HEADER_SIZE) bytes"
    using len(1) lb(1) by (simp add: bs_def)
  define k where "k = roundup (pad + len) es div es"
  have ke: "k * es = roundup (pad + len) es"
    using roundup_bounds(3) [OF es(1)] by (simp add: k_def)
  have kR: "roundup (pad + len) es \<le> R"
    using es len(2) by (intro roundup_least) (simp_all add: defs)
  have "\<exists>m1. erase_loop F es P (P + pad + len) m = (0, m1) \<and> mtd_erasesize F m1 = es \<and>
      img m1 = overwrite P (erased (k * es)) (img m)"
  proof (rule erase_loop_blocks [OF works])
    show "P + k * es \<le> mtd_size F m"
      using kR es ke by (simp add: defs)
    show "P + pad + len \<le> P + k * es"
      using roundup_bounds(1) [OF es(1), of "pad + len"] ke by simp
    show "P + (k - 1) * es < P + pad + len" if "0 < k"
    proof -
      have "es \<le> k * es"
        using that by simp
      then show ?thesis
        using roundup_bounds(2) [OF es(1), of "pad + len"] ke unfolding diff_mult_distrib by linarith
    qed
  qed (use es in \<open>simp_all add: defs\<close>)
  then obtain m1 where m1: "erase_loop F es P (P + pad + len) m = (0, m1)" "mtd_erasesize F m1 = es"
      "img m1 = overwrite P (erased (k * es)) (img m)" by blast
  have Pk: "P + k * es \<le> S" "pad + len \<le> k * es"
    using kR es ke roundup_bounds(1) [OF es(1), of "pad + len"] by (simp_all add: defs)
  have S1: "mtd_size F m1 = S"
    using len_img [of m1] len_img [of m] m1(3) Pk by (simp add: defs)
  have "take (length bs) (drop P (img m1)) = erased (length bs)"
    using m1(3) Pk len_img [of m] lb(2) by (simp add: overwrite_def erased_def defs)
  then obtain m2 where m2: "mtd_write F P bs m1 = (0, length bs, m2)" "mtd_erasesize F m2 = es"
      "img m2 = overwrite P bs (img m1)"
    using mtd_works_write [OF works, of P bs m1] Pk S1 lb(2) m1(2) by auto
  have S2: "mtd_size F m2 = S"
    using len_img [of m2] len_img [of m1] m2(3) S1 lb(2) Pk by simp
  have rd: "mtd_read F P pad m = (0, pad, before)" "fst (mtd_read F P 4 m2) = 0"
    using mtd_works_read [OF works, of P pad m] mtd_works_read [OF works, of P 4 m2] es S2
    by (simp_all add: before_def defs kernel_sizes)
  have b: "S - NVRAM_SPACE = P + pad"
    using es by (simp add: defs)
  have wr: "mtd_write F P (take (pad + len) (before @ header_bytes h @ bytes)) m1 = (0, pad + len, m2)"
    using m2(1) lb(2) by (simp add: bs_def)
  have er: "erase_loop F es P (S - NVRAM_SPACE + len) m = (0, m1)"
    using m1(1) b by simp
  have "nvram_mtd_commit F junk m st = Some (0, m2, st')"
  proof (cases "pad = 0")
    case True
    then show ?thesis
      using es(1) rd(2) c er wr b lb(1)
      unfolding nvram_mtd_commit_def Let_def defs(1,2) [symmetric]
      unfolding defs(3) [symmetric] unfolding defs(4,5) [symmetric]
      by (simp add: len_def del: take_append)
  next
    case False
    then show ?thesis
      using es(1) rd c er wr
      unfolding nvram_mtd_commit_def Let_def defs(1,2) [symmetric]
      unfolding defs(3) [symmetric] unfolding defs(4,5) [symmetric]
      by (simp add: len_def del: take_append)
  qed
  moreover have "drop (S - NVRAM_SPACE) (img m2) =
      header_bytes h @ take (len - NVRAM_HEADER_SIZE) bytes @ drop (P + length bs) (img m1)"
    using b dbs len_img [of m1] S1 Pk lb(2) by (simp add: m2(3) overwrite_def)
  then have "holds_image F img m2 (kabs st)"
    unfolding holds_image_def S2 len_def using inv size im es(2,3)
    by (intro exI [of _ junk] exI [of _ st] exI [of _ h] exI [of _ bytes] exI conjI) auto
  ultimately show ?thesis
    using k_nvram_commit_ok [OF inv size c] S2 m2(2) by (auto simp: defs)
qed

section \<open>Booting\<close>

lemma terminate_prefix:
  assumes "length bytes = NVRAM_SPACE - NVRAM_HEADER_SIZE" and "length e \<le> IMAGE_ROOM"
    and "bytes = e @ CHR 0x00 # rest"
  shows "\<exists>rest'. terminate_area bytes = e @ CHR 0x00 # rest'"
proof -
  have "length bytes - 2 = IMAGE_ROOM"
    using assms(1) by (simp add: IMAGE_ROOM_eq)
  moreover have "take IMAGE_ROOM bytes = e @ take (IMAGE_ROOM - length e) (CHR 0x00 # rest)"
    using assms(2,3) by simp
  ultimately show ?thesis
    by (cases "IMAGE_ROOM - length e") (simp_all add: terminate_area_def)
qed

text \<open>A partition that holds an image gives its variables at initialisation.\<close>

lemma init_image:
  assumes works: "mtd_works F img" and "holds_image F img m vars" and "kinv st0"
  shows "\<exists>st. k_nvram_init F (Some m) failsafe st0 = Some (0, st) \<and> kinv st \<and> kabs st = vars"
proof -
  obtain junk st h bytes rest where st: "kinv st" "kabs st = vars" "image_size vars \<le> IMAGE_ROOM"
      "commit_image junk st = (h, bytes)" "NVRAM_SPACE \<le> mtd_size F m"
      "drop (mtd_size F m - NVRAM_SPACE) (img m) =
         header_bytes h @ take (unat (h_len h) - NVRAM_HEADER_SIZE) bytes @ rest"
    using assms(2) unfolding holds_image_def by blast
  define n where "n = unat (h_len h) - NVRAM_HEADER_SIZE"
  define bytes' where "bytes' = take n bytes @ rest"
  have e: "write_tuples commit_fits st = entries (kpairs st)" "length (entries (kpairs st)) \<le> IMAGE_ROOM"
    using commit_text [OF st(1)] image_size_kpairs [OF st(1)] st(2,3) by simp_all
  have n: "length (entries (kpairs st)) + 2 \<le> n" "n \<le> length bytes"
      "bytes = zero_fill (NVRAM_SPACE - NVRAM_HEADER_SIZE) (entries (kpairs st))"
      "length bytes = NVRAM_SPACE - NVRAM_HEADER_SIZE"
    using commit_image_shape [OF st(4)] e by (auto simp: n_def zero_fill_def IMAGE_ROOM_eq)
  have "length (img m) = mtd_size F m"
    using works by (simp add: mtd_works_def)
  then have "length (header_bytes h @ bytes') = NVRAM_SPACE"
    using st(5,6) by (simp add: bytes'_def n_def flip: st(6))
  then have l: "length bytes' = length bytes"
    using n(4) by simp
  have read: "k_nvram_read F (Some m) st0 = header_bytes h @ bytes'"
  proof -
    have "drop (mtd_size F m - NVRAM_SPACE) (img m) = header_bytes h @ bytes'"
      using st(6) by (simp add: bytes'_def n_def)
    moreover have "length (header_bytes h @ bytes') = NVRAM_SPACE"
      using l n(4) by (simp add: kernel_sizes)
    ultimately show ?thesis
      using mtd_works_read [OF works, of "mtd_size F m - NVRAM_SPACE" NVRAM_SPACE m] st(5)
      by (simp add: k_nvram_read_def)
  qed
  have "take n bytes = entries (kpairs st) @ take (n - length (entries (kpairs st)))
      (replicate (NVRAM_SPACE - NVRAM_HEADER_SIZE - length (entries (kpairs st))) (CHR 0x00))"
    using n(1,3) by (simp add: zero_fill_def)
  moreover obtain z where "n - length (entries (kpairs st)) = Suc z"
    using n(1) by (metis Suc_diff_Suc Suc_le_lessD add_2_eq_Suc' less_imp_diff_less Suc_leD)
  moreover obtain y where "NVRAM_SPACE - NVRAM_HEADER_SIZE - length (entries (kpairs st)) = Suc y"
    using e(2) by (simp add: IMAGE_ROOM_eq Suc_diff_le)
  ultimately have "bytes' = entries (kpairs st) @ CHR 0x00 # (take z (replicate y (CHR 0x00)) @ rest)"
    by (simp add: bytes'_def)
  then obtain r where "terminate_area bytes' = entries (kpairs st) @ CHR 0x00 # r"
    using terminate_prefix [of bytes' "entries (kpairs st)"] l n(4) e(2) by auto
  note rh = rehash_entries [OF assms(3) kpairs_ok [OF st(1)] distinct_kpairs [OF st(1)] e(2) this]
  have "k_nvram_valid h bytes' failsafe = Some 0"
    using l n(2) by (intro commit_image_valid [OF st(4)]) (simp_all add: bytes'_def flip: n_def)
  then have "k_nvram_init F (Some m) failsafe st0 = Some (0, k_nvram_rehash bytes' st0)"
    by (simp add: k_nvram_init_def read Let_def parse_header_bytes)
  then show ?thesis
    using rh(1,2) map_of_kpairs [OF st(1)] st(2) by simp
qed

lemma kinv_empty: "kinv empty_kstate" "kabs empty_kstate = Map.empty"
  by (auto simp: kinv_def empty_kstate_def kchain_ok_def kabs_map_of fun_eq_iff)

section \<open>The contract of committing\<close>

text \<open>The MTD layer works, and the partitions that there are can hold the store.\<close>

definition flash_ok :: "'m mtd_ops \<Rightarrow> 'm driver \<Rightarrow> bool" where
  "flash_ok F d \<longleftrightarrow>
     (\<exists>img. mtd_works F img) \<and> (\<forall>m. nvram_mtd d = Some m \<longrightarrow> mtd_fits F m) \<and>
     (\<forall>b. nvram_backup_mtd d = Some b \<longrightarrow> mtd_fits F b)"

definition dinv_flash :: "'m mtd_ops \<Rightarrow> 'm driver \<Rightarrow> bool" where
  "dinv_flash F d \<longleftrightarrow> dinv d \<and> flash_ok F d"

lemma flash_ok_kst [simp]: "flash_ok F (d\<lparr>kst := st\<rparr>) = flash_ok F d"
  by (simp add: flash_ok_def)

lemma drv_commit_keeps:
  assumes "dinv_flash F d" and size: "image_size (dabs d) \<le> IMAGE_ROOM"
  shows "\<exists>r d'. drv_nvram_commit F junk d = Some (r, d') \<and> dinv_flash F d' \<and> dabs d' = dabs d"
proof -
  obtain img where works: "mtd_works F img"
    using assms(1) by (auto simp: dinv_flash_def flash_ok_def)
  have inv: "dinv d" and fits: "\<And>m. nvram_mtd d = Some m \<Longrightarrow> mtd_fits F m" "\<And>b. nvram_backup_mtd d = Some b \<Longrightarrow> mtd_fits F b"
    using assms(1) by (auto simp: dinv_flash_def flash_ok_def)
  show ?thesis
  proof (cases "nvram_mtd d")
    case None
    then show ?thesis
      using assms(1) by (simp add: drv_nvram_commit_def)
  next
    case (Some m)
    have one: "\<exists>m' st'. nvram_mtd_commit F junk m st = Some (0, m', st') \<and> kinv st' \<and> kabs st' = kabs st \<and> mtd_fits F m'"
      if h: "mtd_fits F m" "kinv st" "kabs st = dabs d" for m st
    proof -
      have "image_size (kabs st) \<le> IMAGE_ROOM"
        using size h(3) by simp
      then obtain m' st' where "nvram_mtd_commit F junk m st = Some (0, m', st')" "kinv st'" "kabs st' = kabs st"
          "mtd_size F m' = mtd_size F m" "mtd_erasesize F m' = mtd_erasesize F m"
        using mtd_commit_ok [OF works h(1,2), of junk] by blast
      then show ?thesis
        using h(1) by (simp add: mtd_fits_def)
    qed
    show ?thesis
    proof (cases "nvram_backup_mtd d")
      case None
      then show ?thesis
        using one [OF fits(1) [OF Some] inv refl] works Some
        by (auto simp: drv_nvram_commit_def dinv_flash_def flash_ok_def)
    next
      case b: (Some b)
      obtain b' st1 where 1: "nvram_mtd_commit F junk b (kst d) = Some (0, b', st1)" "kinv st1" "kabs st1 = dabs d"
          "mtd_fits F b'"
        using one [OF fits(2) [OF b] inv refl] by blast
      then show ?thesis
        using one [OF fits(1) [OF Some] 1(2,3)] works Some b
        by (auto simp: drv_nvram_commit_def dinv_flash_def flash_ok_def)
    qed
  qed
qed

interpretation kernc: committing_device "kern_env b F junk" dabs "dinv_flash F" kroom "kcap N lim"
    "\<lambda>n v. length v \<le> lim n" N for b F junk N lim
proof unfold_locales
  fix s :: "'a driver" and n v
  have upd: "\<exists>s'. dev_write (kern_env b F junk) buf s = (r, s') \<and> dinv_flash F s' \<and> dabs s' = m"
    if "dinv_flash F s" "\<exists>s'. dev_write (kern_env b F junk) buf s = (r, s') \<and> dinv s' \<and> dabs s' = m" for buf r m
    using that by (auto simp: dinv_flash_def split: prod.splits)
  show "CHR 0x00 \<notin> set v" if "dinv_flash F s" "dabs s n = Some v"
    using kern.abs_no_nul [of s n v] that by (simp add: dinv_flash_def)
  show "dev_read (kern_env b F junk) n s = dabs s n" if "dinv_flash F s" "n \<noteq> []"
    using that by simp
  show "\<exists>s'. dev_write (kern_env b F junk) (n @ ''='' @ v) s = (int (length n + length v + 2), s') \<and>
          dinv_flash F s' \<and> dabs s' = (dabs s)(n \<mapsto> v)"
    if h: "dinv_flash F s" "CHR ''='' \<notin> set n" "CHR 0x00 \<notin> set n" "v \<noteq> []" "CHR 0x00 \<notin> set v" "kroom (dabs s) n v"
    using h kern.write_set [OF _ h(2-6)] by (intro upd) (auto simp: dinv_flash_def)
  show "\<exists>s'. dev_write (kern_env b F junk) (n @ ''='') s = (int (length n + 2), s') \<and>
          dinv_flash F s' \<and> dabs s' = (dabs s)(n := None)"
    if h: "dinv_flash F s" "CHR ''='' \<notin> set n" "CHR 0x00 \<notin> set n"
    using h kern.write_empty [OF _ h(2,3)] by (intro upd) (auto simp: dinv_flash_def)
  show "\<exists>s'. dev_write (kern_env b F junk) n s = (int (length n + 1), s') \<and>
          dinv_flash F s' \<and> dabs s' = (dabs s)(n := None)"
    if h: "dinv_flash F s" "CHR ''='' \<notin> set n" "CHR 0x00 \<notin> set n"
    using h kern.write_name [OF _ h(2,3)] by (intro upd) (auto simp: dinv_flash_def)
  show "\<exists>r s'. dev_ioctl (kern_env b F junk) s = Some (r, s') \<and> dinv_flash F s' \<and> dabs s' = dabs s"
    if "dinv_flash F s" "kcap N lim (dabs s)"
    using drv_commit_keeps [OF that(1) kcap_sizes(1) [OF that(2)]]
    by (simp add: kern_env_def dev_nvram_ioctl_def)
qed (use kernb.cap_room kernb.cap_set kernb.cap_unset kernb.cap_val in \<open>simp_all\<close>)

end
