(* ===== verification/Demo.thy ===== *)
theory Demo
  imports Kernel_Flash
begin

text \<open>
  Concrete instances at which the theorems are applied: a flash partition as an array of bytes, a build,
  and worlds whose device holds given variables.
\<close>

definition demo_build :: build where
  "demo_build =
     \<lparr>defined = (\<lambda>_. False), WAN_NUM = 1, LAN_NUM = 1, WL_NUM = 1, EZP_PROD_VERSION = ''3.0.7'',
      CUSTOM_PROD_VERSION = ''1.0'', EZP_MODEL = ''X116NX'',
      xstr = (\<lambda>_. ''0''), inet_addr = (\<lambda>_. 0)\<rparr>"

lemma demo_build_sel [simp]:
  "defined demo_build = (\<lambda>_. False)" "WAN_NUM demo_build = 1" "LAN_NUM demo_build = 1"
  "EZP_PROD_VERSION demo_build = ''3.0.7''" "CUSTOM_PROD_VERSION demo_build = ''1.0''"
  by (simp_all add: demo_build_def)

text \<open>
  A NOR flash with erase blocks of 32 KB: erasing sets all bits of the bytes, writing can only clear bits.
\<close>

definition and_char :: "char \<Rightarrow> char \<Rightarrow> char" where
  "and_char a b = char_of (and (of_char a) (of_char b) :: nat)"

definition nor_flash :: "string mtd_ops" where
  "nor_flash =
     \<lparr>mtd_size = length, mtd_erasesize = (\<lambda>_. NVRAM_SPACE),
      mtd_read = (\<lambda>off n m. (0, n, take n (drop off m))),
      mtd_unlock = (\<lambda>off n m. m),
      mtd_erase = (\<lambda>off n m. (0, overwrite off (erased n) m)),
      mtd_write = (\<lambda>off bs m.
         (0, length bs, overwrite off (map2 and_char bs (take (length bs) (drop off m))) m))\<rparr>"

definition demo_tuple :: "string \<Rightarrow> string \<Rightarrow> 32 word \<Rightarrow> nvram_tuple" where
  "demo_tuple n v opts = \<lparr>tup_name = n, tup_value = Some v, tup_option = opts\<rparr>"

definition demo_world :: "nvram_tuple list \<Rightarrow> 's \<Rightarrow> 's world" where
  "demo_world tuples k =
     \<lparr>kdev = k, nvram_ezpacket_default = tuples, action_file = None, files = Map.empty, writable = (\<lambda>_. True), sys_calls = []\<rparr>"

lemma demo_world_sel [simp]:
  "kdev (demo_world tuples k) = k" "nvram_ezpacket_default (demo_world tuples k) = tuples"
  "action_file (demo_world tuples k) = None"
  by (simp_all add: demo_world_def)

lemma demo_tuple_sel [simp]:
  "tup_name (demo_tuple n v opts) = n" "tup_value (demo_tuple n v opts) = Some v"
  "tup_option (demo_tuple n v opts) = opts"
  by (simp_all add: demo_tuple_def)

lemma image_size_simps [simp]: "image_size [n \<mapsto> v] = length n + length v + 2" "image_size Map.empty = 0"
  by (simp_all add: image_size_def)

lemma buffer_size_simps [simp]: "buffer_size [n \<mapsto> v] = length v + 1" "buffer_size Map.empty = 0"
  by (simp_all add: buffer_size_def)

text \<open>There is a state of the driver that holds one given variable.\<close>

lemma demo_driver:
  assumes "CHR ''='' \<notin> set n" and "CHR 0x00 \<notin> set n" and "CHR 0x00 \<notin> set v" and "length v < 32000"
  shows "\<exists>d :: 'm driver. dinv d \<and> dabs d = [n \<mapsto> v]"
proof -
  obtain st where "kinv st" "kabs st = [n \<mapsto> v]"
    using drv_nvram_set_ok [OF kinv_empty(1), of n v] assms kinv_empty(2)
    by (auto simp: kroom_def NVRAM_SPACE_def)
  then show ?thesis
    by (intro exI [of _ "\<lparr>kst = st, nvram_mtd = None, nvram_backup_mtd = None\<rparr>"]) simp
qed

text \<open>And one that holds two.\<close>

lemma demo_driver_two:
  assumes "CHR ''='' \<notin> set n" and "CHR 0x00 \<notin> set n" and "CHR 0x00 \<notin> set v" and "length n + length v < 30000"
    and "CHR ''='' \<notin> set n'" and "CHR 0x00 \<notin> set n'" and "CHR 0x00 \<notin> set v'" and "length v' < 2000"
  shows "\<exists>d :: 'm driver. dinv d \<and> dabs d = [n \<mapsto> v, n' \<mapsto> v']"
proof -
  obtain d :: "'m driver" where "dinv d" "dabs d = [n \<mapsto> v]"
    using demo_driver [of n v] assms by auto
  then obtain st where "kinv st" "kabs st = [n \<mapsto> v, n' \<mapsto> v']"
    using drv_nvram_set_ok [of "kst d" n' v'] assms by (auto simp: kroom_def IMAGE_ROOM_def NVRAM_SPACE_def)
  then show ?thesis
    by (intro exI [of _ "\<lparr>kst = st, nvram_mtd = None, nvram_backup_mtd = None\<rparr>"]) simp
qed

lemma kroom_demo:
  "length n + length u < 30000 \<Longrightarrow> length v < 2000 \<Longrightarrow> kroom [n \<mapsto> u] n' v"
  by (simp add: kroom_def IMAGE_ROOM_def NVRAM_SPACE_def)

text \<open>A driver that holds one rule set, which the table of defaults knows.\<close>

abbreviation demo_rules :: "string \<Rightarrow> 's \<Rightarrow> 's world" where
  "demo_rules rs d \<equiv> demo_world [demo_tuple rs [] NVRAM_NONE] d"

lemma demo_rules_driver:
  assumes "good_name rs" and "rule_text wl" and "CHR 0x00 \<notin> set wl"
  shows "\<exists>d :: 'm driver. stored_rules dabs dinv demo_build (demo_rules rs d) rs wl \<and>
           dabs d = [rs \<mapsto> wl] \<and> may_write (demo_rules rs d) rs"
proof -
  obtain d :: "'m driver" where "dinv d" "dabs d = [rs \<mapsto> wl]"
    using demo_driver [of rs wl] assms by (auto simp: good_name_def rule_text_def EZPLIB_BUF_LEN_def)
  then show ?thesis
    using assms
    by (intro exI [of _ d])
      (simp add: stored_rules_def may_write_def nvram_get_option_def nvram_option_defs)
qed

end
