(* ===== verification/Rule_Props.thy ===== *)
theory Rule_Props
  imports Demo
begin

text \<open>
  The rule-set library on the driver: what reading, replacing, adding and deleting rules and attributes
  does to the variables that the kernel holds.
\<close>

section \<open>Variables\<close>

text \<open>C2. Setting a variable of the table of defaults that is not protected returns 0, stores the value in
  the driver (an empty value removes the variable), and leaves all other variables alone; reading the
  variable afterwards gives the value.\<close>

theorem nvram_set_get:
  fixes w :: "'m driver world"
  assumes "dinv (kdev w)" and "good_name n" and "\<not> defined b EZP_PROD_SUPERCAT_X" and "may_write w n"
    and "CHR 0x00 \<notin> set v" and "v \<noteq> []" and "kroom (dabs (kdev w)) n v"
  shows "\<exists>k. nvram_set (kern_env b F junk) n (Some v) w = Some (0, w\<lparr>kdev := k\<rparr>) \<and> dinv k \<and>
             dabs k = (dabs (kdev w))(n \<mapsto> v) \<and>
             nvram_get (kern_env b F junk) n (w\<lparr>kdev := k\<rparr>) = Some (Some v)"
proof -
  obtain k where "nvram_set (kern_env b F junk) n (Some v) w = Some (0, w\<lparr>kdev := k\<rparr>)" "dinv k"
      "dabs k = (dabs (kdev w))(n \<mapsto> v)"
    using kern.nvram_set_abs [of w n b F junk "Some v"] assms by (auto simp: may_write_def)
  then show ?thesis
    using kern.nvram_get_abs [of "w\<lparr>kdev := k\<rparr>" n b F junk] assms(2,3) by auto
qed

theorem nvram_set_get_witness:
  "\<exists>d k :: string driver. dinv d \<and> dabs d = [''lan_proto'' \<mapsto> ''static''] \<and>
     nvram_set (kern_env demo_build nor_flash 0) ''lan_proto'' (Some ''dhcp'')
         (demo_world [demo_tuple ''lan_proto'' ''static'' NVRAM_NONE] d) =
       Some (0, demo_world [demo_tuple ''lan_proto'' ''static'' NVRAM_NONE] k) \<and>
     dabs k ''lan_proto'' = Some ''dhcp''"
proof -
  obtain d :: "string driver" where d: "dinv d" "dabs d = [''lan_proto'' \<mapsto> ''static'']"
    using demo_driver [of "''lan_proto''" "''static''"] by auto
  let ?w = "demo_world [demo_tuple ''lan_proto'' ''static'' NVRAM_NONE] d"
  have "may_write ?w ''lan_proto''"
    by (simp add: may_write_def nvram_get_option_def nvram_option_defs)
  then obtain k where "nvram_set (kern_env demo_build nor_flash 0) ''lan_proto'' (Some ''dhcp'') ?w =
      Some (0, ?w\<lparr>kdev := k\<rparr>)" "dabs k = (dabs d)(''lan_proto'' \<mapsto> ''dhcp'')"
    using nvram_set_get [of ?w "''lan_proto''" demo_build "''dhcp''" nor_flash 0] d
    by (auto simp: good_name_def kroom_demo)
  then show ?thesis
    using d by (intro exI [of _ d] exI [of _ k]) (simp add: demo_world_def)
qed

text \<open>A protected variable that has a value is not overwritten: \<^verbatim>\<open>nvram_set\<close> returns \<^verbatim>\<open>EACCES\<close> and changes
  nothing.\<close>

theorem nvram_set_protected_kernel:
  fixes w :: "'m driver world"
  assumes "dinv (kdev w)" and "good_name n" and "\<not> defined b EZP_PROD_SUPERCAT_X"
    and "has_option (nvram_get_option n (nvram_ezpacket_default w)) NVRAM_PROTECTED"
    and "\<not> has_option (nvram_get_option n (nvram_ezpacket_default w)) NVRAM_UNDEFINED"
    and "dabs (kdev w) n = Some v" and "v \<noteq> []"
  shows "nvram_set (kern_env b F junk) n value w = Some (EACCES, w)"
  using kern.nvram_set_protected [of w n b F junk v "value"] assms by simp

theorem nvram_set_protected_kernel_witness:
  "\<exists>d :: string driver. dabs d ''fw_version'' = Some ''3.0.7'' \<and>
     nvram_set (kern_env demo_build nor_flash 0) ''fw_version'' (Some ''9.9.9'')
         (demo_world [demo_tuple ''fw_version'' ''3.0.7'' NVRAM_PROTECTED] d) =
       Some (EACCES, demo_world [demo_tuple ''fw_version'' ''3.0.7'' NVRAM_PROTECTED] d)"
proof -
  obtain d :: "string driver" where d: "dinv d" "dabs d = [''fw_version'' \<mapsto> ''3.0.7'']"
    using demo_driver [of "''fw_version''" "''3.0.7''"] by auto
  let ?w = "demo_world [demo_tuple ''fw_version'' ''3.0.7'' NVRAM_PROTECTED] d"
  have "nvram_set (kern_env demo_build nor_flash 0) ''fw_version'' (Some ''9.9.9'') ?w = Some (EACCES, ?w)"
    using d by (intro nvram_set_protected_kernel [of _ _ _ "''3.0.7''"])
      (simp_all add: good_name_def nvram_get_option_def nvram_option_defs)
  then show ?thesis
    using d by (intro exI [of _ d]) simp
qed

section \<open>Rules\<close>

lemma demo_split [simp]:
  "split_on RULE_SEP ''1^80|0^443'' = [''1^80'', ''0^443'']"
  by (simp add: RULE_SEP_def)

lemma demo_join [simp]:
  "join_with RULE_SEP [''1^80'', ''1^22''] = ''1^80|1^22''"
  "join_with RULE_SEP [''1^80'', ''0^443'', ''1^22''] = ''1^80|0^443|1^22''"
  by (simp_all add: RULE_SEP_def)

text \<open>\<^verbatim>\<open>ezplib_get_rule\<close> gives the \<open>n\<close>-th of the rules that \<^verbatim>\<open>|\<close> separates, with its length, cut off to
  the buffer when it does not fit, and \<^verbatim>\<open>EZPLIB_NO_RULE\<close> behind the last rule.\<close>

theorem get_rule_kernel:
  fixes w :: "'m driver world"
  assumes "stored_rules dabs dinv b w rs wl"
  shows "ezplib_get_rule (kern_env b F junk) (Some rs) (int n) bsize w =
    Some (if n < length (split_on RULE_SEP wl)
          then (let t = split_on RULE_SEP wl ! n
                in (if bsize \<le> length t then EZPLIB_VAL_TRUNC else int (length t), snprintf_store bsize t))
          else (EZPLIB_NO_RULE, []))"
  using kern.get_rule_nth [of b F junk w rs wl n bsize] kern.get_rule_beyond [of b F junk w rs wl "int n" bsize] assms
  by (simp add: Let_def)

theorem get_rule_kernel_witness:
  "\<exists>d :: string driver. dabs d = [''fr_rule'' \<mapsto> ''1^80|0^443''] \<and>
     ezplib_get_rule (kern_env demo_build nor_flash 0) (Some ''fr_rule'') 1 64 (demo_rules ''fr_rule'' d) =
       Some (5, ''0^443'')"
proof -
  obtain d :: "string driver" where d: "stored_rules dabs dinv demo_build (demo_rules ''fr_rule'' d) ''fr_rule'' ''1^80|0^443''"
      "dabs d = [''fr_rule'' \<mapsto> ''1^80|0^443'']"
    using demo_rules_driver [of "''fr_rule''" "''1^80|0^443''"]
    by (auto simp: good_name_def rule_text_def EZPLIB_BUF_LEN_def)
  then show ?thesis
    using get_rule_kernel [OF d(1), of nor_flash 0 1 64]
    by (intro exI [of _ d]) (simp add: RULE_SEP_def Let_def)
qed

text \<open>C6. \<^verbatim>\<open>ezplib_replace_rule\<close> replaces the \<open>n\<close>-th rule in the driver and nothing else: the variable then holds
  the same rules with that one replaced, and reading the rules gives them back.\<close>

theorem replace_rule_kernel:
  fixes w :: "'m driver world"
  assumes st: "stored_rules dabs dinv b w rs wl" "may_write w rs"
    and n: "n < length (split_on RULE_SEP wl)" "ts = (split_on RULE_SEP wl)[n := new]"
    and new: "CHR 0x00 \<notin> set new" "RULE_SEP \<notin> set new" "CHR ''%'' \<notin> set new" "new \<noteq> []"
    and len: "Suc (length (join_with RULE_SEP ts)) < EZPLIB_BUF_LEN"
    and room: "kroom (dabs (kdev w)) rs (join_with RULE_SEP ts)"
  shows "\<exists>k. ezplib_replace_rule (kern_env b F junk) (Some rs) (int n) (Some new) w = Some (0, w\<lparr>kdev := k\<rparr>) \<and>
             dinv k \<and> dabs k = (dabs (kdev w))(rs \<mapsto> join_with RULE_SEP ts) \<and>
             (\<forall>i < length ts. ezplib_get_rule (kern_env b F junk) (Some rs) (int i) EZPLIB_BUF_LEN (w\<lparr>kdev := k\<rparr>) =
                Some (int (length (ts ! i)), ts ! i))"
proof -
  have wl: "CHR ''%'' \<notin> set wl"
    using st(1) by (simp add: stored_rules_def rule_text_def)
  have ts: "ts \<noteq> []" "\<forall>t \<in> set ts. RULE_SEP \<notin> set t"
    using n new(2) split_on_tokens [of _ RULE_SEP wl] set_update_subset_insert [of "split_on RULE_SEP wl" n new]
    by auto
  have split: "split_on RULE_SEP (join_with RULE_SEP ts) = ts"
    using ts by (rule split_join)
  have "CHR ''%'' \<notin> set (join_with RULE_SEP ts)"
    using set_join_tokens [of "CHR ''%''" RULE_SEP wl new REPLACE_RULE "int n"] wl new(3) n(2)
    by (simp add: op_list_replace RULE_SEP_def)
  moreover have "n < length ts" "ts ! n = new"
    using n by simp_all
  then have "ts \<noteq> [[]]"
    using new(4) by auto
  ultimately have t: "rule_text (join_with RULE_SEP ts)"
    using len ts(1) by (simp add: rule_text_def join_with_eq_Nil)
  obtain k where k: "ezplib_replace_rule (kern_env b F junk) (Some rs) (int n) (Some new) w = Some (0, w\<lparr>kdev := k\<rparr>)"
      "dinv k" "dabs k = (dabs (kdev w))(rs := norm_val (Some (join_with RULE_SEP ts)))"
    using kern.replace_rule_abs [of b F junk w rs wl new n ts] assms by auto
  then have "stored_rules dabs dinv b (w\<lparr>kdev := k\<rparr>) rs (join_with RULE_SEP ts)"
    using st t by (auto simp: stored_rules_def rule_text_def)
  from kern.get_rule_full [of b F junk, simplified, OF this] show ?thesis
    using k t by (intro exI [of _ k]) (simp add: split rule_text_def)
qed

theorem replace_rule_kernel_witness:
  "\<exists>d k :: string driver. dabs d = [''fr_rule'' \<mapsto> ''1^80|0^443''] \<and>
     ezplib_replace_rule (kern_env demo_build nor_flash 0) (Some ''fr_rule'') 1 (Some ''1^22'')
         (demo_rules ''fr_rule'' d) = Some (0, demo_rules ''fr_rule'' k) \<and>
     dabs k = [''fr_rule'' \<mapsto> ''1^80|1^22'']"
proof -
  obtain d :: "string driver" where d: "stored_rules dabs dinv demo_build (demo_rules ''fr_rule'' d) ''fr_rule'' ''1^80|0^443''"
      "dabs d = [''fr_rule'' \<mapsto> ''1^80|0^443'']" "may_write (demo_rules ''fr_rule'' d) ''fr_rule''"
    using demo_rules_driver [of "''fr_rule''" "''1^80|0^443''"]
    by (auto simp: good_name_def rule_text_def EZPLIB_BUF_LEN_def)
  have ts: "(split_on RULE_SEP ''1^80|0^443'')[1 := ''1^22''] = [''1^80'', ''1^22'']"
    by (simp add: RULE_SEP_def)
  show ?thesis
    using replace_rule_kernel [OF d(1,3), of 1 "[''1^80'', ''1^22'']" "''1^22''" nor_flash 0] d(2) ts
    by (auto simp: RULE_SEP_def EZPLIB_BUF_LEN_def kroom_demo demo_world_def)
qed

text \<open>\<^verbatim>\<open>ezplib_add_rule\<close> inserts the rule before the \<open>n\<close>-th one, or behind the last one when \<open>n\<close> is the
  number of rules, keeps the order of the others, and changes no other variable.\<close>

theorem add_rule_kernel:
  fixes w :: "'m driver world"
  assumes "stored_rules dabs dinv b w rs wl" and "may_write w rs"
    and "n \<le> length (split_on RULE_SEP wl)"
    and "ts = take n (split_on RULE_SEP wl) @ new # drop n (split_on RULE_SEP wl)"
    and "CHR 0x00 \<notin> set new" and "Suc (length (join_with RULE_SEP ts)) < EZPLIB_BUF_LEN"
    and "kroom (dabs (kdev w)) rs (join_with RULE_SEP ts)"
  shows "\<exists>k. ezplib_add_rule (kern_env b F junk) (Some rs) (int n) (Some new) w = Some (0, w\<lparr>kdev := k\<rparr>) \<and>
             dinv k \<and> dabs k = (dabs (kdev w))(rs := norm_val (Some (join_with RULE_SEP ts)))"
  using kern.add_rule_abs [of b F junk w rs wl new n ts] assms by simp

theorem add_rule_kernel_witness:
  "\<exists>d k :: string driver. dabs d = [''fr_rule'' \<mapsto> ''1^80|0^443''] \<and>
     ezplib_add_rule (kern_env demo_build nor_flash 0) (Some ''fr_rule'') 2 (Some ''1^22'')
         (demo_rules ''fr_rule'' d) = Some (0, demo_rules ''fr_rule'' k) \<and>
     dabs k = [''fr_rule'' \<mapsto> ''1^80|0^443|1^22'']"
proof -
  obtain d :: "string driver" where d: "stored_rules dabs dinv demo_build (demo_rules ''fr_rule'' d) ''fr_rule'' ''1^80|0^443''"
      "dabs d = [''fr_rule'' \<mapsto> ''1^80|0^443'']" "may_write (demo_rules ''fr_rule'' d) ''fr_rule''"
    using demo_rules_driver [of "''fr_rule''" "''1^80|0^443''"]
    by (auto simp: good_name_def rule_text_def EZPLIB_BUF_LEN_def)
  have "\<exists>k. ezplib_add_rule (kern_env demo_build nor_flash 0) (Some ''fr_rule'') (int 2) (Some ''1^22'')
      (demo_rules ''fr_rule'' d) = Some (0, demo_rules ''fr_rule'' d\<lparr>kdev := k\<rparr>) \<and> dinv k \<and>
      dabs k = (dabs (kdev (demo_rules ''fr_rule'' d)))(''fr_rule'' := norm_val (Some ''1^80|0^443|1^22''))"
    using add_rule_kernel [OF d(1,3), of 2 "[''1^80'', ''0^443'', ''1^22'']" "''1^22''" nor_flash 0] d(2)
    by (simp add: EZPLIB_BUF_LEN_def kroom_demo del: split_on.simps join_with.simps fun_upd_apply)
  then show ?thesis
    using d(2) by (auto simp: demo_world_def)
qed

text \<open>\<^verbatim>\<open>ezplib_delete_rule\<close> on a set of at least two rules removes exactly the \<open>n\<close>-th one.\<close>

theorem delete_rule_kernel:
  fixes w :: "'m driver world"
  assumes "stored_rules dabs dinv b w rs wl" and "may_write w rs"
    and "n < length (split_on RULE_SEP wl)" and "1 < length (split_on RULE_SEP wl)"
    and "ts = take n (split_on RULE_SEP wl) @ drop (Suc n) (split_on RULE_SEP wl)"
    and "Suc (length (join_with RULE_SEP ts)) < EZPLIB_BUF_LEN"
    and "kroom (dabs (kdev w)) rs (join_with RULE_SEP ts)"
  shows "\<exists>k. ezplib_delete_rule (kern_env b F junk) (Some rs) (int n) w = Some (0, w\<lparr>kdev := k\<rparr>) \<and>
             dinv k \<and> dabs k = (dabs (kdev w))(rs := norm_val (Some (join_with RULE_SEP ts)))"
  using kern.delete_rule_abs [of b F junk w rs wl n ts] assms by simp

theorem delete_rule_kernel_witness:
  "\<exists>d k :: string driver. dabs d = [''fr_rule'' \<mapsto> ''1^80|0^443''] \<and>
     ezplib_delete_rule (kern_env demo_build nor_flash 0) (Some ''fr_rule'') 0 (demo_rules ''fr_rule'' d) =
       Some (0, demo_rules ''fr_rule'' k) \<and>
     dabs k = [''fr_rule'' \<mapsto> ''0^443'']"
proof -
  obtain d :: "string driver" where d: "stored_rules dabs dinv demo_build (demo_rules ''fr_rule'' d) ''fr_rule'' ''1^80|0^443''"
      "dabs d = [''fr_rule'' \<mapsto> ''1^80|0^443'']" "may_write (demo_rules ''fr_rule'' d) ''fr_rule''"
    using demo_rules_driver [of "''fr_rule''" "''1^80|0^443''"]
    by (auto simp: good_name_def rule_text_def EZPLIB_BUF_LEN_def)
  have "\<exists>k. ezplib_delete_rule (kern_env demo_build nor_flash 0) (Some ''fr_rule'') (int 0)
      (demo_rules ''fr_rule'' d) = Some (0, demo_rules ''fr_rule'' d\<lparr>kdev := k\<rparr>) \<and> dinv k \<and>
      dabs k = (dabs (kdev (demo_rules ''fr_rule'' d)))(''fr_rule'' := norm_val (Some (join_with RULE_SEP [''0^443''])))"
  proof (rule delete_rule_kernel [OF d(1,3)])
    show "kroom (dabs (kdev (demo_rules ''fr_rule'' d))) ''fr_rule'' (join_with RULE_SEP [''0^443''])"
      by (simp add: d(2) kroom_demo)
  qed (simp_all add: EZPLIB_BUF_LEN_def del: split_on.simps)
  then show ?thesis
    using d(2) by (auto simp: demo_world_def)
qed

text \<open>C38. Deleting the only rule of a rule set is undefined: the function reads the byte before its buffer and
  would store a buffer that was never written.\<close>

theorem delete_only_rule_kernel:
  fixes w :: "'m driver world"
  assumes "stored_rules dabs dinv b w rs wl" and "RULE_SEP \<notin> set wl"
  shows "ezplib_delete_rule (kern_env b F junk) (Some rs) 0 w = None"
  using kern.delete_only_rule [of b F junk w rs wl] assms by simp

theorem delete_only_rule_kernel_witness:
  "\<exists>d :: string driver. dabs d = [''fr_rule'' \<mapsto> ''1^80''] \<and>
     ezplib_delete_rule (kern_env demo_build nor_flash 0) (Some ''fr_rule'') 0 (demo_rules ''fr_rule'' d) = None"
proof -
  obtain d :: "string driver" where d: "stored_rules dabs dinv demo_build (demo_rules ''fr_rule'' d) ''fr_rule'' ''1^80''"
      "dabs d = [''fr_rule'' \<mapsto> ''1^80'']"
    using demo_rules_driver [of "''fr_rule''" "''1^80''"]
    by (auto simp: good_name_def rule_text_def EZPLIB_BUF_LEN_def)
  show ?thesis
    using delete_only_rule_kernel [OF d(1), of nor_flash 0] d(2)
    by (intro exI [of _ d]) (simp add: RULE_SEP_def)
qed

section \<open>Attributes\<close>

text \<open>C5. \<^verbatim>\<open>ezplib_replace_attr\<close> replaces one attribute of one rule: for a rule with no more attributes than its
  table, the attribute at the position that the table gives it gets the new value, all other attributes,
  rules and variables stay, and \<^verbatim>\<open>ezplib_get_attr_val\<close> reads every attribute of the changed rule back
  through its show function.\<close>

theorem replace_attr_kernel:
  fixes w :: "'m driver world"
  assumes st: "stored_rules dabs dinv b w rs wl" "may_write w rs" "n < length (split_on RULE_SEP wl)"
    and tab: "rules_find (rules (defined b)) rs = Some (Some as)" "attr_table as" "attr_pos as an = Some p" "an \<noteq> []"
    and new: "CHR 0x00 \<notin> set new" "RULE_SEP \<notin> set new" "ATTR_SEP \<notin> set new" "CHR ''%'' \<notin> set new"
    and ps: "ps = split_on ATTR_SEP (split_on RULE_SEP wl ! n)" "p < length ps" "length ps \<le> length as - 1"
    and ts: "ts = (split_on RULE_SEP wl)[n := join_with ATTR_SEP (ps[p := new])]"
    and len: "Suc (length (join_with RULE_SEP ts)) < EZPLIB_BUF_LEN" "join_with RULE_SEP ts \<noteq> []"
    and room: "kroom (dabs (kdev w)) rs (join_with RULE_SEP ts)"
  shows "\<exists>k. ezplib_replace_attr (kern_env b F junk) (Some rs) (int n) (Some an) (Some new) w =
               Some (0, w\<lparr>kdev := k\<rparr>) \<and> dinv k \<and>
             dabs k = (dabs (kdev w))(rs \<mapsto> join_with RULE_SEP ts) \<and>
             (\<forall>q ty. attr_pos as ty = Some q \<longrightarrow> ty \<noteq> [] \<longrightarrow> q < length ps \<longrightarrow>
                ezplib_get_attr_val (kern_env b F junk) (Some rs) (int n) (Some ty) bsize EZPLIB_USE_CLI
                    (w\<lparr>kdev := k\<rparr>) =
                  shown (show_call (the (func_orig (as ! q))) (Some (ps[p := new] ! q)) bsize))"
proof -
  let ?E = "kern_env b F junk"
  have wl: "CHR ''%'' \<notin> set wl"
    using st(1) by (simp add: stored_rules_def rule_text_def)
  have new': "attr_text_ok new"
    using new by (simp add: attr_text_ok_def)
  note rep = replaced_rule_set [OF st(3) new' ps(1,2) ts wl]
  obtain k where k: "ezplib_replace_attr ?E (Some rs) (int n) (Some an) (Some new) w = Some (0, w\<lparr>kdev := k\<rparr>)"
      "dabs k = (dabs (kdev w))(rs \<mapsto> join_with RULE_SEP ts)"
      "stored_rules dabs dinv b (w\<lparr>kdev := k\<rparr>) rs (join_with RULE_SEP ts)"
    using kern.replace_attr_stored [of b F junk w rs wl n as an p new ps ts] assms new' by auto
  have "ezplib_get_attr_val ?E (Some rs) (int n) (Some ty) bsize EZPLIB_USE_CLI (w\<lparr>kdev := k\<rparr>) =
      shown (show_call (the (func_orig (as ! q))) (Some (ps[p := new] ! q)) bsize)"
    if "attr_pos as ty = Some q" "ty \<noteq> []" "q < length ps" for q ty
    using kern.get_attr_abs [of b F junk "w\<lparr>kdev := k\<rparr>" rs "join_with RULE_SEP ts" n as ty q bsize] k(3) tab that
      rep(1,3) st(3) ts by simp
  moreover have "dinv k"
    using k(3) by (simp add: stored_rules_def)
  ultimately show ?thesis
    using k by blast
qed

lemma demo_ntp_table:
  "rules_find (rules (defined demo_build)) ''ntp_rule'' = Some (Some ntp_rule_attr)"
  by (simp add: rules_def)

lemma attr_table_ntp: "attr_table ntp_rule_attr"
  by code_simp

theorem replace_attr_kernel_witness:
  "\<exists>d k :: string driver. dabs d = [''ntp_rule'' \<mapsto> ''^1^pool^a.org^^GMT1^1''] \<and>
     ezplib_replace_attr (kern_env demo_build nor_flash 0) (Some ''ntp_rule'') 0 (Some ''zone'') (Some ''UTC0'')
         (demo_rules ''ntp_rule'' d) = Some (0, demo_rules ''ntp_rule'' k) \<and>
     dabs k = [''ntp_rule'' \<mapsto> ''^1^pool^a.org^^UTC0^1''] \<and>
     ezplib_get_attr_val (kern_env demo_build nor_flash 0) (Some ''ntp_rule'') 0 (Some ''zone'') 64 EZPLIB_USE_CLI
         (demo_rules ''ntp_rule'' k) = Some (4, Some ''UTC0'')"
proof -
  let ?wl = "''^1^pool^a.org^^GMT1^1''" and ?new = "''^1^pool^a.org^^UTC0^1''"
  let ?ps = "[[], ''1'', ''pool'', ''a.org'', [], ''GMT1'', ''1'']"
  obtain d :: "string driver" where d: "stored_rules dabs dinv demo_build (demo_rules ''ntp_rule'' d) ''ntp_rule'' ?wl"
      "dabs d = [''ntp_rule'' \<mapsto> ?wl]" "may_write (demo_rules ''ntp_rule'' d) ''ntp_rule''"
    using demo_rules_driver [of "''ntp_rule''" ?wl]
    by (auto simp: good_name_def rule_text_def EZPLIB_BUF_LEN_def)
  have wl: "split_on RULE_SEP ?wl = [?wl]" "split_on ATTR_SEP ?wl = ?ps"
    by (simp_all add: RULE_SEP_def ATTR_SEP_def)
  have new: "join_with ATTR_SEP (?ps[5 := ''UTC0'']) = ?new"
    by (simp add: ATTR_SEP_def)
  have pos: "attr_pos ntp_rule_attr ''zone'' = Some 5" "length ntp_rule_attr = 8"
      "the (func_orig (ntp_rule_attr ! 5)) = Show_value"
    by (simp_all add: ntp_rule_attr_def)
  have "\<exists>k. ezplib_replace_attr (kern_env demo_build nor_flash 0) (Some ''ntp_rule'') (int 0) (Some ''zone'')
        (Some ''UTC0'') (demo_rules ''ntp_rule'' d) = Some (0, demo_rules ''ntp_rule'' d\<lparr>kdev := k\<rparr>) \<and> dinv k \<and>
      dabs k = (dabs (kdev (demo_rules ''ntp_rule'' d)))(''ntp_rule'' \<mapsto> join_with RULE_SEP [?new]) \<and>
      (\<forall>q ty. attr_pos ntp_rule_attr ty = Some q \<longrightarrow> ty \<noteq> [] \<longrightarrow> q < length ?ps \<longrightarrow>
         ezplib_get_attr_val (kern_env demo_build nor_flash 0) (Some ''ntp_rule'') (int 0) (Some ty) 64 EZPLIB_USE_CLI
             (demo_rules ''ntp_rule'' d\<lparr>kdev := k\<rparr>) =
           shown (show_call (the (func_orig (ntp_rule_attr ! q))) (Some (?ps[5 := ''UTC0''] ! q)) 64))"
  proof (rule replace_attr_kernel [OF d(1,3) _ demo_ntp_table attr_table_ntp pos(1)])
    show "kroom (dabs (kdev (demo_rules ''ntp_rule'' d))) ''ntp_rule'' (join_with RULE_SEP [?new])"
      by (simp add: d(2) kroom_demo)
  qed (simp_all only: wl new pos, simp_all add: RULE_SEP_def ATTR_SEP_def EZPLIB_BUF_LEN_def)
  then show ?thesis
    using pos d(2)
    by (auto simp: demo_world_def shown_def show_value_def show_snprintf_def)
qed

section \<open>Subrules\<close>

text \<open>\<^verbatim>\<open>ezplib_get_subrule\<close> gives the attributes \<open>start\<close> to \<open>end\<close> of a rule, separated as in the rule, when they
  and a separator fit the buffer.\<close>

theorem get_subrule_kernel:
  fixes w :: "'m driver world"
  assumes "stored_rules dabs dinv b w rs wl" and "n < length (split_on RULE_SEP wl)"
    and "ps = slice start end_i (take MAX_ATTR_NUM (split_on ATTR_SEP (split_on RULE_SEP wl ! n)))"
    and "start \<le> end_i" and "length (emit_all ATTR_SEP ps) < bsize"
  shows "ezplib_get_subrule (kern_env b F junk) (Some rs) (int n) start end_i bsize w =
    Some (0, Some (join_with ATTR_SEP ps))"
  using kern.get_subrule_abs [of b F junk w rs wl n ps start end_i bsize] assms by simp

theorem get_subrule_kernel_witness:
  "\<exists>d :: string driver. dabs d = [''fr_rule'' \<mapsto> ''1^80|0^443''] \<and>
     ezplib_get_subrule (kern_env demo_build nor_flash 0) (Some ''fr_rule'') 1 1 5 64 (demo_rules ''fr_rule'' d) =
       Some (0, Some ''443'')"
proof -
  obtain d :: "string driver" where d: "stored_rules dabs dinv demo_build (demo_rules ''fr_rule'' d) ''fr_rule'' ''1^80|0^443''"
      "dabs d = [''fr_rule'' \<mapsto> ''1^80|0^443'']"
    using demo_rules_driver [of "''fr_rule''" "''1^80|0^443''"]
    by (auto simp: good_name_def rule_text_def EZPLIB_BUF_LEN_def)
  have "ezplib_get_subrule (kern_env demo_build nor_flash 0) (Some ''fr_rule'') (int 1) 1 5 64 (demo_rules ''fr_rule'' d) =
      Some (0, Some (join_with ATTR_SEP [''443'']))"
  proof (rule get_subrule_kernel [OF d(1)])
    show "[''443''] = slice 1 5 (take MAX_ATTR_NUM (split_on ATTR_SEP (split_on RULE_SEP ''1^80|0^443'' ! 1)))"
      by (simp add: RULE_SEP_def ATTR_SEP_def slice_def MAX_ATTR_NUM_def)
  qed (simp_all del: split_on.simps)
  then show ?thesis
    using d(2) by (intro exI [of _ d]) simp
qed

text \<open>C39. A buffer that is too small for the selected attributes leaves \<^verbatim>\<open>ezplib_get_subrule\<close> without a defined run: it
  reads or writes outside the buffer.  When the attributes before the last are too long already, the size given to
  \<^verbatim>\<open>snprintf\<close> is negative; when only the last does not fit, \<^verbatim>\<open>buf[j-1]\<close>, which is read, and cleared if it is
  not zero, lies outside.\<close>

theorem get_subrule_overflow_kernel:
  fixes w :: "'m driver world"
  assumes "stored_rules dabs dinv b w rs wl" and "n < length (split_on RULE_SEP wl)"
    and "ps = slice start end_i (take MAX_ATTR_NUM (split_on ATTR_SEP (split_on RULE_SEP wl ! n)))"
    and "start \<le> end_i" and "bsize < length (emit_all ATTR_SEP ps)"
  shows "ezplib_get_subrule (kern_env b F junk) (Some rs) (int n) start end_i bsize w = None"
  using kern.get_subrule_overflow [of b F junk w rs wl n ps start end_i bsize] assms by simp

theorem get_subrule_overflow_kernel_witness:
  "\<exists>d :: string driver. dabs d = [''fr_rule'' \<mapsto> ''1^80|0^443''] \<and>
     ezplib_get_subrule (kern_env demo_build nor_flash 0) (Some ''fr_rule'') 1 0 5 4 (demo_rules ''fr_rule'' d) = None"
proof -
  obtain d :: "string driver" where d: "stored_rules dabs dinv demo_build (demo_rules ''fr_rule'' d) ''fr_rule'' ''1^80|0^443''"
      "dabs d = [''fr_rule'' \<mapsto> ''1^80|0^443'']"
    using demo_rules_driver [of "''fr_rule''" "''1^80|0^443''"]
    by (auto simp: good_name_def rule_text_def EZPLIB_BUF_LEN_def)
  have "ezplib_get_subrule (kern_env demo_build nor_flash 0) (Some ''fr_rule'') (int 1) 0 5 4 (demo_rules ''fr_rule'' d) = None"
  proof (rule get_subrule_overflow_kernel [OF d(1)])
    show "[''0'', ''443''] = slice 0 5 (take MAX_ATTR_NUM (split_on ATTR_SEP (split_on RULE_SEP ''1^80|0^443'' ! 1)))"
      by (simp add: RULE_SEP_def ATTR_SEP_def slice_def MAX_ATTR_NUM_def)
  qed (simp_all del: split_on.simps)
  then show ?thesis
    using d(2) by (intro exI [of _ d]) simp
qed

end
