(* ===== verification/Flash_Props.thy ===== *)
theory Flash_Props
  imports Demo
begin

text \<open>
  The life of the variables across a reboot: committing to both partitions, and the initialisation that
  reads, checks and repairs them.
\<close>

lemma mtd_fits_space: "mtd_fits F m \<Longrightarrow> NVRAM_SPACE \<le> mtd_size F m"
  using roundup_bounds(1) [of "mtd_erasesize F m" NVRAM_SPACE] by (auto simp: mtd_fits_def)

lemma locate_both:
  assumes "mtd_fits F m" and "mtd_fits F b"
  shows "locate_mtd F ''nvram'' [(''nvram'', m), (''nvram_backup'', b)] = Some m"
    and "locate_mtd F ''nvram_backup'' [(''nvram'', m), (''nvram_backup'', b)] = Some b"
  using mtd_fits_space [OF assms(1)] mtd_fits_space [OF assms(2)] by (simp_all add: locate_mtd_def)

text \<open>Initialisation of two partitions that both hold an image.\<close>

lemma boot_two_images:
  assumes "mtd_works F img" and "mtd_fits F m" and "mtd_fits F b"
    and "holds_image F img m vars" and "holds_image F img b vars'"
  shows "\<exists>st. dev_nvram_init F junk [(''nvram'', m), (''nvram_backup'', b)] =
           Some (Some \<lparr>kst = st, nvram_mtd = Some m, nvram_backup_mtd = Some b\<rparr>) \<and>
         kinv st \<and> kabs st = vars'"
proof -
  obtain st1 where st1: "k_nvram_init F (Some m) False empty_kstate = Some (0, st1)" "kinv st1"
    using init_image [OF assms(1,4) kinv_empty(1)] by blast
  obtain st2 where "k_nvram_init F (Some b) False st1 = Some (0, st2)" "kinv st2" "kabs st2 = vars'"
    using init_image [OF assms(1,5) st1(2)] by blast
  then show ?thesis
    using st1 by (simp add: dev_nvram_init_def locate_both [OF assms(2,3)])
qed

text \<open>C1. Persistence: when the variables fit into an image, committing returns 0, keeps the variables in
  memory, and a later boot from the two partitions finds exactly the same variables.  The flash may have
  any erase block size and need only store what is written to erased bytes.\<close>

theorem commit_reboot:
  assumes works: "mtd_works F img" and inv: "kinv (kst d)" and size: "image_size (kabs (kst d)) \<le> IMAGE_ROOM"
    and m: "nvram_mtd d = Some m" "mtd_fits F m" and b: "nvram_backup_mtd d = Some b" "mtd_fits F b"
  shows "\<exists>st m' b'. drv_nvram_commit F junk d = Some (0, \<lparr>kst = st, nvram_mtd = Some m', nvram_backup_mtd = Some b'\<rparr>) \<and>
           kinv st \<and> kabs st = kabs (kst d) \<and>
           (\<exists>d'. dev_nvram_init F junk' [(''nvram'', m'), (''nvram_backup'', b')] = Some (Some d') \<and>
                 kinv (kst d') \<and> kabs (kst d') = kabs (kst d))"
proof -
  obtain b' st1 where c1: "nvram_mtd_commit F junk b (kst d) = Some (0, b', st1)" "kinv st1"
      "kabs st1 = kabs (kst d)" "mtd_size F b' = mtd_size F b" "mtd_erasesize F b' = mtd_erasesize F b"
      "holds_image F img b' (kabs (kst d))"
    using mtd_commit_ok [OF works b(2) inv size] by blast
  obtain m' st2 where c2: "nvram_mtd_commit F junk m st1 = Some (0, m', st2)" "kinv st2"
      "kabs st2 = kabs (kst d)" "mtd_size F m' = mtd_size F m" "mtd_erasesize F m' = mtd_erasesize F m"
      "holds_image F img m' (kabs (kst d))"
    using mtd_commit_ok [OF works m(2) c1(2), of junk] c1(3) size by auto
  have "mtd_fits F m'" "mtd_fits F b'"
    using m(2) b(2) c1(4,5) c2(4,5) by (simp_all add: mtd_fits_def)
  from boot_two_images [OF works this c2(6) c1(6), of junk'] show ?thesis
    using c1(1) c2(1-3) m(1) b(1) by (cases d) (auto simp: drv_nvram_commit_def)
qed

text \<open>C17. Recovery: when the primary partition is not valid and the backup holds an image, booting takes the
  variables from the backup and rewrites the primary partition with them.\<close>

theorem boot_recovers_primary:
  assumes works: "mtd_works F img" and fits: "mtd_fits F m" "mtd_fits F b"
    and bad: "k_nvram_init F (Some m) False empty_kstate = Some (r, st0)" "r \<noteq> 0"
    and good: "holds_image F img b vars"
  shows "\<exists>st m'. dev_nvram_init F junk [(''nvram'', m), (''nvram_backup'', b)] =
           Some (Some \<lparr>kst = st, nvram_mtd = Some m', nvram_backup_mtd = Some b\<rparr>) \<and>
         kinv st \<and> kabs st = vars \<and> holds_image F img m' vars"
proof -
  have "st0 = empty_kstate"
    using bad by (auto simp: k_nvram_init_def Let_def split: bind_splits if_splits)
  then obtain st1 where st1: "k_nvram_init F (Some b) False st0 = Some (0, st1)" "kinv st1" "kabs st1 = vars"
    using init_image [OF works good] kinv_empty(1) by blast
  have "image_size vars \<le> IMAGE_ROOM"
    using good by (auto simp: holds_image_def)
  then obtain m' st2 where "nvram_mtd_commit F junk m st1 = Some (0, m', st2)" "kinv st2" "kabs st2 = vars"
      "holds_image F img m' vars"
    using mtd_commit_ok [OF works fits(1) st1(2), of junk] st1(3) by auto
  then show ?thesis
    using bad st1 by (auto simp: dev_nvram_init_def locate_both [OF fits])
qed

text \<open>When both partitions hold a valid image, the variables of the backup win: the primary partition is read
  first and the backup over it.  If the last commit reached only the primary partition, the next boot brings
  back the older variables of the backup.\<close>

theorem boot_prefers_backup:
  assumes "mtd_works F img" and "mtd_fits F m" and "mtd_fits F b"
    and "holds_image F img m vars" and "holds_image F img b vars'"
  shows "\<exists>st. dev_nvram_init F junk [(''nvram'', m), (''nvram_backup'', b)] =
           Some (Some \<lparr>kst = st, nvram_mtd = Some m, nvram_backup_mtd = Some b\<rparr>) \<and> kabs st = vars'"
  using boot_two_images [OF assms] by blast

section \<open>Instances\<close>

lemma and_char_erased: "and_char c (CHR 0xFF) = c"
proof -
  have "(of_char c :: nat) < 2 ^ 8"
    using of_char_less [of c] by simp
  then have "and (of_char c) 255 = (of_char c :: nat)"
    using take_bit_nat_eq_self [of "of_char c" 8] by (simp add: mask_eq_exp_minus_1 take_bit_eq_mask)
  then show ?thesis
    by (simp add: and_char_def)
qed

lemma nor_flash_works: "mtd_works nor_flash id"
proof -
  have "map2 and_char bs (erased (length bs)) = bs" for bs
    by (induction bs) (simp_all add: erased_def and_char_erased)
  then show ?thesis
    by (auto simp: mtd_works_def nor_flash_def)
qed

lemma nor_flash_fits: "length m = NVRAM_SPACE \<Longrightarrow> mtd_fits nor_flash m"
  by (simp add: mtd_fits_def nor_flash_def roundup_def NVRAM_SPACE_def)

lemma demo_store:
  assumes "CHR ''='' \<notin> set n" and "CHR 0x00 \<notin> set n" and "CHR 0x00 \<notin> set v" and "length v < 32000"
    and "length n < 100"
  shows "\<exists>st. kinv st \<and> kabs st = [n \<mapsto> v] \<and> image_size (kabs st) \<le> IMAGE_ROOM"
  using demo_driver [OF assms(1-4), where 'm = unit] assms(4,5) by (auto simp: IMAGE_ROOM_def)

text \<open>A partition that holds one variable.\<close>

lemma demo_partition:
  assumes "CHR ''='' \<notin> set n" and "CHR 0x00 \<notin> set n" and "CHR 0x00 \<notin> set v" and "length v < 32000"
    and "length n < 100"
  shows "\<exists>m. mtd_fits nor_flash m \<and> holds_image nor_flash id m [n \<mapsto> v]"
proof -
  obtain st where st: "kinv st" "kabs st = [n \<mapsto> v]" "image_size (kabs st) \<le> IMAGE_ROOM"
    using demo_store [OF assms] by blast
  have "mtd_fits nor_flash (erased NVRAM_SPACE)"
    by (rule nor_flash_fits) simp
  then obtain m where "mtd_size nor_flash m = mtd_size nor_flash (erased NVRAM_SPACE)"
      "mtd_erasesize nor_flash m = mtd_erasesize nor_flash (erased NVRAM_SPACE)"
      "holds_image nor_flash id m (kabs st)"
    using mtd_commit_ok [OF nor_flash_works _ st(1,3), of "erased NVRAM_SPACE" 0] by blast
  then show ?thesis
    using \<open>mtd_fits nor_flash (erased NVRAM_SPACE)\<close> st(2)
    by (intro exI [of _ m]) (simp add: mtd_fits_def)
qed

lemma four_bytes: "replicate 4 ch = [ch, ch, ch, ch]"
  by (simp add: eval_nat_numeral)

lemma erased_invalid:
  "k_nvram_init nor_flash (Some (erased NVRAM_SPACE)) False empty_kstate = Some (1, empty_kstate)"
  by (simp add: k_nvram_init_def k_nvram_read_def nor_flash_def k_nvram_valid_def parse_header_def erased_def
      un_le32_def NVRAM_MAGIC_def NVRAM_SPACE_def four_bytes)

theorem commit_reboot_witness:
  "\<exists>(d :: string driver) d'. kabs (kst d) = [''lan_proto'' \<mapsto> ''static''] \<and>
     (\<exists>st m' b'. drv_nvram_commit nor_flash 0 d =
        Some (0, \<lparr>kst = st, nvram_mtd = Some m', nvram_backup_mtd = Some b'\<rparr>) \<and>
        dev_nvram_init nor_flash 0 [(''nvram'', m'), (''nvram_backup'', b')] = Some (Some d')) \<and>
     kabs (kst d') = [''lan_proto'' \<mapsto> ''static'']"
proof -
  obtain st where st: "kinv st" "kabs st = [''lan_proto'' \<mapsto> ''static'']" "image_size (kabs st) \<le> IMAGE_ROOM"
    using demo_store [of "''lan_proto''" "''static''"] by auto
  let ?d = "\<lparr>kst = st, nvram_mtd = Some (erased NVRAM_SPACE), nvram_backup_mtd = Some (erased NVRAM_SPACE)\<rparr>"
  have f: "mtd_fits nor_flash (erased NVRAM_SPACE)"
    by (rule nor_flash_fits) simp
  obtain st' m' b' d' where "drv_nvram_commit nor_flash 0 ?d =
        Some (0, \<lparr>kst = st', nvram_mtd = Some m', nvram_backup_mtd = Some b'\<rparr>)"
      "dev_nvram_init nor_flash 0 [(''nvram'', m'), (''nvram_backup'', b')] = Some (Some d')"
      "kabs (kst d') = kabs st"
    using commit_reboot [OF nor_flash_works _ _ _ f _ f, of ?d 0 0] st(1,3) by auto
  then show ?thesis
    using st(2) by (intro exI [of _ ?d] exI [of _ d'] conjI) auto
qed

theorem boot_recovers_primary_witness:
  "\<exists>b d. dev_nvram_init nor_flash 0 [(''nvram'', erased NVRAM_SPACE), (''nvram_backup'', b)] = Some (Some d) \<and>
     kabs (kst d) = [''lan_proto'' \<mapsto> ''static'']"
proof -
  obtain b where b: "mtd_fits nor_flash b" "holds_image nor_flash id b [''lan_proto'' \<mapsto> ''static'']"
    using demo_partition [of "''lan_proto''" "''static''"] by auto
  have f: "mtd_fits nor_flash (erased NVRAM_SPACE)"
    by (rule nor_flash_fits) simp
  obtain st m' where "dev_nvram_init nor_flash 0 [(''nvram'', erased NVRAM_SPACE), (''nvram_backup'', b)] =
        Some (Some \<lparr>kst = st, nvram_mtd = Some m', nvram_backup_mtd = Some b\<rparr>)"
      "kabs st = [''lan_proto'' \<mapsto> ''static'']"
    using boot_recovers_primary [OF nor_flash_works f b(1) erased_invalid _ b(2), of 0] by auto
  then show ?thesis
    by (intro exI [of _ b] exI [of _ "\<lparr>kst = st, nvram_mtd = Some m', nvram_backup_mtd = Some b\<rparr>"]) simp
qed

theorem boot_prefers_backup_witness:
  "\<exists>m b d. holds_image nor_flash id m [''lan_proto'' \<mapsto> ''dhcp''] \<and>
     dev_nvram_init nor_flash 0 [(''nvram'', m), (''nvram_backup'', b)] = Some (Some d) \<and>
     kabs (kst d) = [''lan_proto'' \<mapsto> ''static'']"
proof -
  obtain m where m: "mtd_fits nor_flash m" "holds_image nor_flash id m [''lan_proto'' \<mapsto> ''dhcp'']"
    using demo_partition [of "''lan_proto''" "''dhcp''"] by auto
  obtain b where b: "mtd_fits nor_flash b" "holds_image nor_flash id b [''lan_proto'' \<mapsto> ''static'']"
    using demo_partition [of "''lan_proto''" "''static''"] by auto
  obtain st where "dev_nvram_init nor_flash 0 [(''nvram'', m), (''nvram_backup'', b)] =
        Some (Some \<lparr>kst = st, nvram_mtd = Some m, nvram_backup_mtd = Some b\<rparr>)"
      "kabs st = [''lan_proto'' \<mapsto> ''static'']"
    using boot_prefers_backup [OF nor_flash_works m(1) b(1) m(2) b(2), of 0] by auto
  then show ?thesis
    using m(2)
    by (intro exI [of _ m] exI [of _ b] exI [of _ "\<lparr>kst = st, nvram_mtd = Some m, nvram_backup_mtd = Some b\<rparr>"]) simp
qed

end
