(* ===== verification/Boot_Props.thy ===== *)
theory Boot_Props
  imports Demo
begin

text \<open>
  Default values and guarded commits on the driver: what \<^verbatim>\<open>nvram_boot\<close> and \<^verbatim>\<open>nvram_default\<close> leave in the device,
  which names \<^verbatim>\<open>nvram_set\<close> refuses, and when \<^verbatim>\<open>nvram_commit\<close> writes nothing.
\<close>

section \<open>Booting\<close>

text \<open>C7. On the driver, \<^verbatim>\<open>nvram_boot\<close> returns whenever the table of defaults fits the store. Afterwards a
  variable that had a value and is not marked \<^verbatim>\<open>NVRAM_TEMP\<close> still has it; a variable without a value that is
  neither \<^verbatim>\<open>NVRAM_EMPTY\<close> nor \<^verbatim>\<open>NVRAM_DEFAULT\<close> has the value of the table (an empty one leaves it unset); and
  variables outside the table are unchanged.\<close>

theorem boot_fills_defaults:
  fixes w :: "'m driver world"
  assumes "dinv (kdev w)" and "kcap N lim (dabs (kdev w))" and "\<not> defined b EZP_PROD_SUPERCAT_X"
    and ok: "\<forall>v \<in> set (nvram_ezpacket_default w). tuple_ok N (\<lambda>n x. length x \<le> lim n) v"
    and names: "distinct (map tup_name (nvram_ezpacket_default w))"
  shows "\<exists>w'. nvram_boot (kern_env b F junk) w = Some w' \<and> dinv (kdev w') \<and> kcap N lim (dabs (kdev w')) \<and>
    (\<forall>v \<in> set (nvram_ezpacket_default w).
       (\<not> empty_value (dabs (kdev w) (tup_name v)) \<longrightarrow> \<not> has_option (tup_option v) NVRAM_TEMP \<longrightarrow>
          dabs (kdev w') (tup_name v) = dabs (kdev w) (tup_name v)) \<and>
       (\<not> empty_value (dabs (kdev w) (tup_name v)) \<longrightarrow> has_option (tup_option v) NVRAM_TEMP \<longrightarrow>
          dabs (kdev w') (tup_name v) = norm_val (tup_value v)) \<and>
       (empty_value (dabs (kdev w) (tup_name v)) \<longrightarrow> \<not> has_option (tup_option v) NVRAM_EMPTY \<longrightarrow>
        \<not> has_option (tup_option v) NVRAM_DEFAULT \<longrightarrow> dabs (kdev w') (tup_name v) = norm_val (tup_value v))) \<and>
    (\<forall>x. x \<notin> tup_name ` set (nvram_ezpacket_default w) \<longrightarrow> dabs (kdev w') x = dabs (kdev w) x)"
proof -
  let ?t = "nvram_ezpacket_default w" and ?m = "dabs (kdev w)"
  obtain w' where w': "nvram_boot (kern_env b F junk) w = Some w'" "dinv (kdev w')" "kcap N lim (dabs (kdev w'))"
      "dabs (kdev w') = fold boot_entry ?t ?m"
    using kernb.nvram_boot_abs [of w N lim b F junk] assms by auto
  then show ?thesis
    using fold_boot_keeps [OF names] fold_boot_fills [OF names] fold_boot_temp [OF names]
    by (intro exI [of _ w']) (simp add: fold_boot_other)
qed

definition demo_boot_table :: "nvram_tuple list" where
  "demo_boot_table =
     [demo_tuple ''lan_ipaddr'' ''192.168.1.1'' NVRAM_NONE, demo_tuple ''wan_status'' ''0'' NVRAM_TEMP,
      demo_tuple ''hostname'' ''router'' NVRAM_NONE]"

definition demo_lim :: "string \<Rightarrow> nat" where
  "demo_lim n = 100"

lemma kcap_demo:
  "length v \<le> 100 \<Longrightarrow> n \<in> {''lan_ipaddr'', ''wan_status'', ''hostname''} \<Longrightarrow>
     kcap {''lan_ipaddr'', ''wan_status'', ''hostname''} demo_lim [n \<mapsto> v]"
  by (auto simp: kcap_def demo_lim_def IMAGE_ROOM_def NVRAM_SPACE_def split: if_splits)

lemma demo_boot_tuples:
  "\<forall>v \<in> set demo_boot_table.
     tuple_ok {''lan_ipaddr'', ''wan_status'', ''hostname''} (\<lambda>n x. length x \<le> demo_lim n) v"
  "distinct (map tup_name demo_boot_table)"
  by (simp_all add: demo_boot_table_def demo_lim_def tuple_ok_def good_name_def)

theorem boot_fills_defaults_witness:
  "\<exists>(d :: string driver) w'.
     nvram_boot (kern_env demo_build nor_flash 0) (demo_world demo_boot_table d) = Some w' \<and>
     dabs d = [''hostname'' \<mapsto> ''mybox''] \<and>
     dabs (kdev w') ''hostname'' = Some ''mybox'' \<and> dabs (kdev w') ''lan_ipaddr'' = Some ''192.168.1.1''"
proof -
  obtain d :: "string driver" where d: "dinv d" "dabs d = [''hostname'' \<mapsto> ''mybox'']"
    using demo_driver [of "''hostname''" "''mybox''"] by auto
  have "kcap {''lan_ipaddr'', ''wan_status'', ''hostname''} demo_lim (dabs d)"
    unfolding d(2) by (rule kcap_demo) simp_all
  then obtain w' where w': "nvram_boot (kern_env demo_build nor_flash 0) (demo_world demo_boot_table d) = Some w'"
    "\<forall>v \<in> set demo_boot_table.
       (\<not> empty_value (dabs d (tup_name v)) \<longrightarrow> \<not> has_option (tup_option v) NVRAM_TEMP \<longrightarrow>
          dabs (kdev w') (tup_name v) = dabs d (tup_name v)) \<and>
       (empty_value (dabs d (tup_name v)) \<longrightarrow> \<not> has_option (tup_option v) NVRAM_EMPTY \<longrightarrow>
        \<not> has_option (tup_option v) NVRAM_DEFAULT \<longrightarrow> dabs (kdev w') (tup_name v) = norm_val (tup_value v))"
    using boot_fills_defaults [of "demo_world demo_boot_table d" "{''lan_ipaddr'', ''wan_status'', ''hostname''}"
        demo_lim demo_build nor_flash 0] d(1) demo_boot_tuples by fastforce
  moreover have "dabs (kdev w') ''hostname'' = Some ''mybox''"
    using w'(2) d(2) by (simp add: demo_boot_table_def empty_value_def nvram_option_defs)
  moreover have "dabs (kdev w') ''lan_ipaddr'' = Some ''192.168.1.1''"
    using w'(2) d(2) by (simp add: demo_boot_table_def empty_value_def nvram_option_defs)
  ultimately show ?thesis
    using d(2) by blast
qed

section \<open>Factory defaults\<close>

text \<open>C11. On the driver, \<^verbatim>\<open>nvram_default\<close> returns whenever the table fits the store. A protected variable that has
  a value (the MAC address, the serial number) keeps it, every other variable of the table gets the value of
  the table, and variables outside the table are unchanged.\<close>

theorem default_keeps_protected:
  fixes w :: "'m driver world"
  assumes "dinv (kdev w)" and "kcap N lim (dabs (kdev w))" and "\<not> defined b EZP_PROD_SUPERCAT_X"
    and ok: "\<forall>v \<in> set (nvram_ezpacket_default w). tuple_ok N (\<lambda>n x. length x \<le> lim n) v"
    and names: "distinct (map tup_name (nvram_ezpacket_default w))"
    and known: "\<forall>v \<in> set (nvram_ezpacket_default w). \<not> has_option (tup_option v) NVRAM_UNDEFINED"
  shows "\<exists>k. nvram_default (kern_env b F junk) w = Some (w\<lparr>kdev := k\<rparr>) \<and> dinv k \<and> kcap N lim (dabs k) \<and>
    (\<forall>v \<in> set (nvram_ezpacket_default w).
       dabs k (tup_name v) =
         (if has_option (tup_option v) NVRAM_PROTECTED \<and> \<not> empty_value (dabs (kdev w) (tup_name v))
          then dabs (kdev w) (tup_name v) else norm_val (tup_value v))) \<and>
    (\<forall>x. x \<notin> tup_name ` set (nvram_ezpacket_default w) \<longrightarrow> dabs k x = dabs (kdev w) x)"
proof -
  let ?t = "nvram_ezpacket_default w" and ?m = "dabs (kdev w)"
  obtain k where k: "nvram_default (kern_env b F junk) w = Some (w\<lparr>kdev := k\<rparr>)" "dinv k" "kcap N lim (dabs k)"
      "dabs k = fold (default_entry ?t) ?t ?m"
    using kernb.nvram_default_abs [of w N lim b F junk] assms by auto
  then show ?thesis
    using known fold_default_entry [OF names]
    by (intro exI [of _ k]) (simp add: fold_default_other)
qed

theorem default_keeps_protected_witness:
  "\<exists>d k :: string driver.
     nvram_default (kern_env demo_build nor_flash 0)
       (demo_world [demo_tuple ''lan_ipaddr'' ''192.168.1.1'' NVRAM_NONE,
                    demo_tuple ''hostname'' ''router'' NVRAM_PROTECTED] d) =
       Some (demo_world [demo_tuple ''lan_ipaddr'' ''192.168.1.1'' NVRAM_NONE,
                    demo_tuple ''hostname'' ''router'' NVRAM_PROTECTED] k) \<and>
     dabs d = [''hostname'' \<mapsto> ''mybox''] \<and> dabs k ''hostname'' = Some ''mybox'' \<and>
     dabs k ''lan_ipaddr'' = Some ''192.168.1.1''"
proof -
  let ?t = "[demo_tuple ''lan_ipaddr'' ''192.168.1.1'' NVRAM_NONE,
             demo_tuple ''hostname'' ''router'' NVRAM_PROTECTED]"
  let ?N = "{''lan_ipaddr'', ''wan_status'', ''hostname''}"
  obtain d :: "string driver" where d: "dinv d" "dabs d = [''hostname'' \<mapsto> ''mybox'']"
    using demo_driver [of "''hostname''" "''mybox''"] by auto
  have "kcap ?N demo_lim (dabs d)"
    unfolding d(2) by (rule kcap_demo) simp_all
  moreover have "\<forall>v \<in> set ?t. tuple_ok ?N (\<lambda>n x. length x \<le> demo_lim n) v" "distinct (map tup_name ?t)"
    by (simp_all add: tuple_ok_def good_name_def demo_lim_def)
  moreover have "\<forall>v \<in> set ?t. \<not> has_option (tup_option v) NVRAM_UNDEFINED"
    by (simp add: nvram_option_defs)
  ultimately obtain k where k: "nvram_default (kern_env demo_build nor_flash 0) (demo_world ?t d) =
      Some ((demo_world ?t d)\<lparr>kdev := k\<rparr>)"
    "\<forall>v \<in> set ?t. dabs k (tup_name v) =
       (if has_option (tup_option v) NVRAM_PROTECTED \<and> \<not> empty_value (dabs d (tup_name v))
        then dabs d (tup_name v) else norm_val (tup_value v))"
    using default_keeps_protected [of "demo_world ?t d" ?N demo_lim demo_build nor_flash 0] d(1)
    unfolding demo_world_sel demo_build_sel by blast
  moreover have "(demo_world ?t d)\<lparr>kdev := k\<rparr> = demo_world ?t k"
    by (simp add: demo_world_def)
  moreover have "dabs k ''hostname'' = Some ''mybox''" "dabs k ''lan_ipaddr'' = Some ''192.168.1.1''"
    using k(2) d(2) by (simp_all add: empty_value_def nvram_option_defs)
  ultimately show ?thesis
    using d(2) by (intro exI [of _ d] exI [of _ k]) (simp only: simp_thms)
qed

section \<open>Refused operations\<close>

text \<open>\<^verbatim>\<open>nvram_set\<close> refuses, on any device, a name that the table of defaults does not have: it returns
  \<^verbatim>\<open>EINVAL\<close> and changes nothing.\<close>

theorem set_unknown_refused:
  assumes "name \<notin> tup_name ` set (nvram_ezpacket_default w)" and "length name < 100"
    and "\<not> defined (bld E) EZP_PROD_SUPERCAT_X"
  shows "nvram_set E name val w = Some (EINVAL, w)"
  using assms by (rule nvram_set_undefined)

theorem set_unknown_refused_witness:
  "nvram_set (spec_env demo_build) ''backdoor'' (Some ''1'') (demo_world demo_boot_table Map.empty) =
     Some (EINVAL, demo_world demo_boot_table Map.empty)"
  by (rule set_unknown_refused) (simp_all add: demo_boot_table_def spec_env_def)

text \<open>While a firmware upgrade is going on, that is while the action file holds one of the three upgrade
  actions, \<^verbatim>\<open>nvram_commit\<close> touches neither the device nor the flash on any device, and its result is the
  unassigned variable \<^verbatim>\<open>ret\<close>.\<close>

theorem commit_skipped_in_upgrade:
  assumes "action_file w \<in> {Some ''ACT_TFTP_UPGRADE'', Some ''ACT_WEB_UPGRADE'', Some ''ACT_WEBS_UPGRADE''}"
  shows "nvram_commit E w = Some (None, w)"
  using assms by (auto simp: nvram_commit_def check_action_def file_to_buf_def fgets_line_def c_string_def)

theorem commit_skipped_in_upgrade_witness:
  "nvram_commit (spec_env demo_build) ((demo_world demo_boot_table Map.empty)\<lparr>action_file := Some ''ACT_WEB_UPGRADE''\<rparr>) =
     Some (None, (demo_world demo_boot_table Map.empty)\<lparr>action_file := Some ''ACT_WEB_UPGRADE''\<rparr>)"
  by (rule commit_skipped_in_upgrade) simp

end
