(* ===== verification/Fw_Base.thy ===== *)
theory Fw_Base
  imports Ezp_Lib
begin

text \<open>
  What the migration functions \<^verbatim>\<open>fw_func_*\<close> of \<^verbatim>\<open>src/package/ezp-nvram/src/nvram_linux.c\<close> have in common.  They
  read variables, rules and attributes into local arrays, put a new rule together with a sequence of
  \<^verbatim>\<open>snprintf(str, 1024 - j, ...); j += len; str += len;\<close> and write it back.  Their results are not used by the
  callers, so a migration is a function from worlds to worlds.

  A local array that is read before it was written is undefined, and so is one that is read behind the
  terminating NUL of the string it holds.
\<close>

section \<open>Calls whose return value is dropped\<close>

text \<open>
  The text that a call leaves in the array of the caller; an array that the call leaves alone holds
  nothing that may be read.
\<close>

definition attr_text :: "'s env \<Rightarrow> string \<Rightarrow> nat \<Rightarrow> string \<Rightarrow> nat \<Rightarrow> int \<Rightarrow> 's world \<Rightarrow> string c" where
  "attr_text E rs i attr bsize use w = do {
     (_, buf) \<leftarrow> ezplib_get_attr_val E (Some rs) (int i) (Some attr) bsize use w;
     buf
   }"

definition subrule_text :: "'s env \<Rightarrow> string \<Rightarrow> nat \<Rightarrow> nat \<Rightarrow> nat \<Rightarrow> nat \<Rightarrow> 's world \<Rightarrow> string c" where
  "subrule_text E rs i start end_i bsize w = do {
     (_, buf) \<leftarrow> ezplib_get_subrule E (Some rs) (int i) (int start) (int end_i) bsize w;
     buf
   }"

definition rule_buf :: "'s env \<Rightarrow> string \<Rightarrow> nat \<Rightarrow> nat \<Rightarrow> 's world \<Rightarrow> string c" where
  "rule_buf E rs i bsize w = map_option snd (ezplib_get_rule E (Some rs) (int i) bsize w)"

definition put_rule :: "'s env \<Rightarrow> string \<Rightarrow> nat \<Rightarrow> string \<Rightarrow> 's world \<Rightarrow> 's world c" where
  "put_rule E rs i new w = map_option snd (ezplib_replace_rule E (Some rs) (int i) (Some new) w)"

definition put_attr :: "'s env \<Rightarrow> string \<Rightarrow> nat \<Rightarrow> string \<Rightarrow> string \<Rightarrow> 's world \<Rightarrow> 's world c" where
  "put_attr E rs i attr new w =
     map_option snd (ezplib_replace_attr E (Some rs) (int i) (Some attr) (Some new) w)"

definition add_last_rule :: "'s env \<Rightarrow> string \<Rightarrow> string \<Rightarrow> 's world \<Rightarrow> 's world c" where
  "add_last_rule E rs new w = map_option snd (ezplib_append_rule E (Some rs) (Some new) w)"

definition set_var :: "'s env \<Rightarrow> string \<Rightarrow> string \<Rightarrow> 's world \<Rightarrow> 's world c" where
  "set_var E n v w = map_option snd (nvram_set E n (Some v) w)"

definition fset_var :: "'s env \<Rightarrow> string \<Rightarrow> string \<Rightarrow> 's world \<Rightarrow> 's world c" where
  "fset_var E n v w = map_option snd (nvram_fset E n (Some v) w)"

definition unset_var :: "'s env \<Rightarrow> string \<Rightarrow> 's world \<Rightarrow> 's world c" where
  "unset_var E n w = map_option snd (nvram_unset E n w)"

definition commit_vars :: "'s env \<Rightarrow> 's world \<Rightarrow> 's world c" where
  "commit_vars E w = map_option snd (nvram_commit E w)"

text \<open>\<^verbatim>\<open>atoi(nvram_safe_get(name))\<close> as the bound of a loop that starts at 0.\<close>

definition var_num :: "'s env \<Rightarrow> string \<Rightarrow> 's world \<Rightarrow> int c" where
  "var_num E n w = map_option atoi (nvram_safe_get E n w)"

definition call_system :: "string \<Rightarrow> 's world \<Rightarrow> 's world" where
  "call_system cmd w = w\<lparr>sys_calls := sys_calls w @ [cmd]\<rparr>"

text \<open>The value of a variable that was declared and not assigned.\<close>

definition unassigned :: "'a c" where
  "unassigned = None"

section \<open>Arithmetic and formats\<close>

text \<open>Signed arithmetic that leaves the range of \<^verbatim>\<open>int\<close> is undefined; division truncates.\<close>

definition chk_int :: "int \<Rightarrow> int c" where
  "chk_int x = (if - 2147483648 \<le> x \<and> x \<le> 2147483647 then Some x else None)"

definition c_div :: "int \<Rightarrow> int \<Rightarrow> int c" where
  "c_div a b = (if b = 0 then None else chk_int (sgn a * sgn b * (\<bar>a\<bar> div \<bar>b\<bar>)))"

text \<open>\<^verbatim>\<open>%04X\<close> of an \<^verbatim>\<open>int\<close>.\<close>

definition hex_char :: "nat \<Rightarrow> char" where
  "hex_char n = char_of (if n < 10 then 48 + n else 55 + n)"

fun nat_to_hex :: "nat \<Rightarrow> string" where
  "nat_to_hex n = (if n < 16 then [hex_char n] else nat_to_hex (n div 16) @ [hex_char (n mod 16)])"

declare nat_to_hex.simps [simp del]

definition hex4 :: "int \<Rightarrow> string" where
  "hex4 i =
     (let s = nat_to_hex (nat (i mod 2 ^ 32)) in replicate (4 - length s) (CHR ''0'') @ s)"

text \<open>\<^verbatim>\<open>s[0] == ch\<close>\<close>

definition starts_with :: "char \<Rightarrow> string \<Rightarrow> bool" where
  "starts_with ch s = (case s of [] \<Rightarrow> False | x # _ \<Rightarrow> x = ch)"

section \<open>Putting a rule together\<close>

text \<open>
  The array \<^verbatim>\<open>new[1024]\<close> as the string it holds, the offset of \<^verbatim>\<open>str\<close> in it, and \<^verbatim>\<open>j\<close>.  The offset and \<^verbatim>\<open>j\<close> go
  on by the length of the text, also when it did not fit.
\<close>

type_synonym draft = "string \<times> nat \<times> nat"

definition emit :: "string \<Rightarrow> draft \<Rightarrow> draft c" where
  "emit s dr =
     (case dr of (buf, off, j) \<Rightarrow> do {
        buf' \<leftarrow> snprintf_at 1024 buf off (1024 - int j) s;
        Some (buf', off + length s, j + length s)
      })"

text \<open>
  The pieces of a rule: the text that one of the statements prints, given the rule set, the index of the
  rule and the size of the array \<^verbatim>\<open>tmp\<close>.
\<close>

type_synonym 's piece = "'s env \<Rightarrow> string \<Rightarrow> nat \<Rightarrow> nat \<Rightarrow> 's world \<Rightarrow> string c"

definition lit :: "string \<Rightarrow> 's piece" where
  "lit s E rs i bsize w = Some s"

definition attr_p :: "string \<Rightarrow> string \<Rightarrow> 's piece" where
  "attr_p name suffix E rs i bsize w =
     map_option (\<lambda>t. t @ suffix) (attr_text E rs i name bsize EZPLIB_USE_CLI w)"

definition subrule_p :: "nat \<Rightarrow> nat \<Rightarrow> string \<Rightarrow> 's piece" where
  "subrule_p start end_i suffix E rs i bsize w =
     map_option (\<lambda>t. t @ suffix) (subrule_text E rs i start end_i bsize w)"

definition var_p :: "string \<Rightarrow> string \<Rightarrow> 's piece" where
  "var_p name suffix E rs i bsize w = map_option (\<lambda>t. t @ suffix) (nvram_safe_get E name w)"

fun emit_pieces :: "'s piece list \<Rightarrow> 's env \<Rightarrow> string \<Rightarrow> nat \<Rightarrow> nat \<Rightarrow> 's world \<Rightarrow> draft \<Rightarrow> draft c" where
  "emit_pieces [] E rs i bsize w dr = Some dr"
| "emit_pieces (p # ps) E rs i bsize w dr = do {
     t \<leftarrow> p E rs i bsize w;
     dr' \<leftarrow> emit t dr;
     emit_pieces ps E rs i bsize w dr'
   }"

text \<open>A rule that is written from the start of the array with \<^verbatim>\<open>j = 0\<close>.\<close>

definition format_rule :: "'s piece list \<Rightarrow> 's env \<Rightarrow> string \<Rightarrow> nat \<Rightarrow> nat \<Rightarrow> 's world \<Rightarrow> string c" where
  "format_rule ps E rs i bsize w = map_option fst (emit_pieces ps E rs i bsize w ([], 0, 0))"

section \<open>Lemmas\<close>

lemma chk_int_range: "chk_int x = Some y \<Longrightarrow> y = x \<and> - 2147483648 \<le> x \<and> x \<le> 2147483647"
  by (simp add: chk_int_def split: if_splits)

lemma emit_fits: "length buf + length s < 1024 \<Longrightarrow>
    emit s (buf, length buf, length buf) = Some (buf @ s, length buf + length s, length buf + length s)"
  by (simp add: emit_def snprintf_at_fits)

text \<open>While everything fits, the pieces are concatenated.\<close>

lemma emit_pieces_fits:
  assumes "list_all2 (\<lambda>p t. p E rs i bsize w = Some t) ps ts"
    and "length buf + length (concat ts) < 1024"
  shows "emit_pieces ps E rs i bsize w (buf, length buf, length buf) =
    Some (buf @ concat ts, length buf + length (concat ts), length buf + length (concat ts))"
  using assms
proof (induction arbitrary: buf rule: list_all2_induct)
  case Nil
  then show ?case by simp
next
  case (Cons p ps t ts)
  then show ?case
    using Cons.IH [of "buf @ t"] by (simp add: emit_fits)
qed

lemma format_rule_fits:
  assumes "list_all2 (\<lambda>p t. p E rs i bsize w = Some t) ps ts" and "length (concat ts) < 1024"
  shows "format_rule ps E rs i bsize w = Some (concat ts)"
  using emit_pieces_fits [OF assms(1), of "[]"] assms(2) by (simp add: format_rule_def)

end
