(* ===== verification/Fw_Migrate_1.thy ===== *)
theory Fw_Migrate_1
  imports Fw_Base
begin

text \<open>
  The migrations of \<^verbatim>\<open>src/package/ezp-nvram/src/nvram_linux.c\<close> between the versions 0.0.0 and 1.7.7 that change
  variables: the formats of \<^verbatim>\<open>wan_bw_rule\<close>, \<^verbatim>\<open>upnp_rule\<close>, \<^verbatim>\<open>ntp_rule\<close>, \<^verbatim>\<open>ipsec_rule\<close> and the wireless rules.
\<close>

section \<open>The bandwidth rules of the WAN interfaces\<close>

text \<open>
  The loop over the interfaces sets \<^verbatim>\<open>str\<close> and \<^verbatim>\<open>j\<close> before it starts and not again, so every round goes on
  behind the text of the round before.
\<close>

definition wan_bw_round ::
    "('s env \<Rightarrow> string \<Rightarrow> nat \<Rightarrow> 's world \<Rightarrow> draft \<Rightarrow> draft c) \<Rightarrow> 's env \<Rightarrow> nat \<Rightarrow> 's world \<times> draft \<Rightarrow> ('s world \<times> draft) c" where
  "wan_bw_round body E i st =
     (case st of (w, dr) \<Rightarrow> do {
        dr' \<leftarrow> body E ''wan_bw_rule'' i w dr;
        w' \<leftarrow> put_rule E ''wan_bw_rule'' i (fst dr') w;
        Some (w', dr')
      })"

definition wan_bw_loop ::
    "('s env \<Rightarrow> string \<Rightarrow> nat \<Rightarrow> 's world \<Rightarrow> draft \<Rightarrow> draft c) \<Rightarrow> 's env \<Rightarrow> 's world \<Rightarrow> 's world c" where
  "wan_bw_loop body E w =
     map_option fst (fold_c (wan_bw_round body E) [0..<WAN_NUM (bld E)] (w, ([], 0, 0)))"

definition bw_0_0_0_to_1_6_5 :: "'s piece list" where
  "bw_0_0_0_to_1_6_5 =
     [attr_p ''type'' ''^'', attr_p ''dl'' ''^'', attr_p ''ul'' ''^'', lit ''0^'', lit ''0^'',
      attr_p ''expert_dl'' ''^'', attr_p ''expert_ul'' ''^'', attr_p ''link_percent'' ''^'',
      attr_p ''global_percent'' ''^'', attr_p ''user_percent'' ''^'', attr_p ''dbm_upmax'' ''^'',
      attr_p ''dbm_upmin'' []]"

definition fw_func_0_0_0_to_1_6_5 :: "'s env \<Rightarrow> 's world \<Rightarrow> 's world c" where
  "fw_func_0_0_0_to_1_6_5 E w = do {
     val \<leftarrow> nvram_safe_get E ''wan_bw_rule'' w;
     if val \<noteq> [] then wan_bw_loop (\<lambda>E rs i. emit_pieces bw_0_0_0_to_1_6_5 E rs i 64) E w else Some w
   }"

definition bw_1_6_5_to_0_0_0 :: "'s piece list" where
  "bw_1_6_5_to_0_0_0 =
     [attr_p ''type'' ''^'', attr_p ''dl'' ''^'', attr_p ''ul'' ''^'', attr_p ''link_percent'' ''^'',
      attr_p ''global_percent'' ''^'', attr_p ''user_percent'' ''^'', attr_p ''dbm_upmax'' ''^'',
      attr_p ''dbm_upmin'' ''^'', attr_p ''dbm_downmax'' ''^'', attr_p ''dbm_downmin'' []]"

definition fw_func_1_6_5_to_0_0_0 :: "'s env \<Rightarrow> 's world \<Rightarrow> 's world c" where
  "fw_func_1_6_5_to_0_0_0 E w = do {
     val \<leftarrow> nvram_safe_get E ''wan_bw_rule'' w;
     w \<leftarrow> fold_c (\<lambda>i. unset_var E (''wan'' @ nat_to_dec i @ ''_bw_mode'')) [0..<WAN_NUM (bld E)] w;
     if val \<noteq> [] then wan_bw_loop (\<lambda>E rs i. emit_pieces bw_1_6_5_to_0_0_0 E rs i 128) E w else Some w
   }"

definition bw_tail :: "'s piece list" where
  "bw_tail =
     [attr_p ''expert_dl'' ''^'', attr_p ''expert_ul'' ''^'', attr_p ''link_percent'' ''^'',
      attr_p ''global_percent'' ''^'', attr_p ''user_percent'' ''^'', attr_p ''dbm_upmax'' ''^'',
      attr_p ''dbm_upmin'' ''^'', attr_p ''dbm_downmax'' ''^'', attr_p ''dbm_downmin'' []]"

definition fw_func_1_6_6_to_1_6_7 :: "'s env \<Rightarrow> 's world \<Rightarrow> 's world c" where
  "fw_func_1_6_6_to_1_6_7 E w = do {
     val \<leftarrow> nvram_safe_get E ''wan_bw_rule'' w;
     if val \<noteq> [] then
       wan_bw_loop
         (\<lambda>E rs i. emit_pieces
            ((\<lambda>E rs i bsize w. map_option (\<lambda>t. CHR ''A'' # t @ ''^'') (attr_text E rs i ''type'' bsize EZPLIB_USE_CLI w)) #
             attr_p ''dl'' ''^'' # attr_p ''ul'' ''^'' # bw_tail) E rs i 64) E w
     else Some w
   }"

definition bw_type :: "string list" where
  "bw_type = [''1M64K'', ''2M256K'', ''2M512K'', ''3M640K'', ''4M1M'', ''8M640K'', ''10M2M'', ''12M1M'']"

text \<open>
  Type, download and upload for 1.6.6; the first character of the type is the kind of line.  For an
  empty type the code looks behind its terminating NUL.
\<close>

definition old_bw_type :: "string \<Rightarrow> string \<Rightarrow> string \<Rightarrow> (string \<times> string \<times> string) c" where
  "old_bw_type tmp tmp_dl tmp_ul =
     (if tmp = ''Custom'' then Some (''Custom'', tmp_dl, tmp_ul)
      else case tmp of
             [] \<Rightarrow> None
           | _ # type \<Rightarrow>
               if type \<in> set bw_type then Some (type, tmp_dl, tmp_ul)
               else Some (''2M256K'', ''2048'', ''256''))"

definition bw_1_6_7_to_1_6_6 ::
    "'s env \<Rightarrow> string \<Rightarrow> nat \<Rightarrow> 's world \<Rightarrow> draft \<Rightarrow> draft c" where
  "bw_1_6_7_to_1_6_6 E rs i w dr = do {
     tmp \<leftarrow> attr_text E rs i ''type'' 128 EZPLIB_USE_CLI w;
     tmp_dl \<leftarrow> attr_text E rs i ''dl'' 128 EZPLIB_USE_CLI w;
     tmp_ul \<leftarrow> attr_text E rs i ''ul'' 128 EZPLIB_USE_CLI w;
     (type, dl, ul) \<leftarrow> old_bw_type tmp tmp_dl tmp_ul;
     dr \<leftarrow> emit (type @ ''^'' @ dl @ ''^'' @ ul @ ''^'') dr;
     emit_pieces bw_tail E rs i 128 w dr
   }"

definition fw_func_1_6_7_to_1_6_6 :: "'s env \<Rightarrow> 's world \<Rightarrow> 's world c" where
  "fw_func_1_6_7_to_1_6_6 E w = do {
     val \<leftarrow> nvram_safe_get E ''wan_bw_rule'' w;
     if val \<noteq> [] then wan_bw_loop bw_1_6_7_to_1_6_6 E w else Some w
   }"

section \<open>UPnP\<close>

definition fw_func_1_6_5_to_1_6_6 :: "'s env \<Rightarrow> 's world \<Rightarrow> 's world c" where
  "fw_func_1_6_5_to_1_6_6 E w = do {
     val \<leftarrow> nvram_safe_get E ''upnp_rule'' w;
     if val \<noteq> [] then do {
       new \<leftarrow> format_rule
         [attr_p ''name'' ''^'', attr_p ''enable'' ''^'', lit ''0^'', attr_p ''pmp_enable'' ''^'',
          attr_p ''extif'' ''^'', attr_p ''inif'' []] E ''upnp_rule'' 0 64 w;
       put_rule E ''upnp_rule'' 0 new w
     }
     else Some w
   }"

text \<open>This function uses \<^verbatim>\<open>j\<close> without having assigned it.\<close>

definition fw_func_1_6_6_to_1_6_5 :: "'s env \<Rightarrow> 's world \<Rightarrow> 's world c" where
  "fw_func_1_6_6_to_1_6_5 E w = do {
     val \<leftarrow> nvram_safe_get E ''upnp_rule'' w;
     if val \<noteq> [] then do {
       j \<leftarrow> unassigned;
       (new, _) \<leftarrow> emit_pieces
         [attr_p ''name'' ''^'', attr_p ''enable'' ''^'', attr_p ''extif'' ''^'', attr_p ''inif'' ''^'',
          attr_p ''port'' []] E ''upnp_rule'' 0 128 w ([], 0, j);
       put_rule E ''upnp_rule'' 0 new w
     }
     else Some w
   }"

definition fw_func_1_7_4_to_1_7_5 :: "'s env \<Rightarrow> 's world \<Rightarrow> 's world c" where
  "fw_func_1_7_4_to_1_7_5 E w = do {
     tmp \<leftarrow> attr_text E ''upnp_rule'' 0 ''pmp_enable'' 32 EZPLIB_USE_CLI w;
     w \<leftarrow> (if tmp = ''1'' then put_attr E ''upnp_rule'' 0 ''pmp_enable'' ''0'' w else Some w);
     tmp \<leftarrow> attr_text E ''upnp_rule'' 0 ''port'' 32 EZPLIB_USE_CLI w;
     if tmp = ''5000'' then put_attr E ''upnp_rule'' 0 ''port'' ''5555'' w else Some w
   }"

section \<open>Time servers and IPsec\<close>

text \<open>
  The loop over the IPsec rules starts every rule at the start of the array again, but leaves \<^verbatim>\<open>j\<close> where the
  rule before has got to.
\<close>

definition ipsec_round :: "'s piece list \<Rightarrow> 's env \<Rightarrow> nat \<Rightarrow> 's world \<times> string \<times> nat \<Rightarrow> ('s world \<times> string \<times> nat) c" where
  "ipsec_round ps E i st =
     (case st of (w, buf, j) \<Rightarrow> do {
        old \<leftarrow> rule_buf E ''ipsec_rule'' i 1024 w;
        if old \<noteq> [] then do {
          (buf, _, j) \<leftarrow> emit_pieces ps E ''ipsec_rule'' i 64 w (buf, 0, j);
          w \<leftarrow> put_rule E ''ipsec_rule'' i buf w;
          Some (w, buf, j)
        }
        else Some (w, buf, j)
      })"

definition ipsec_loop :: "'s piece list \<Rightarrow> 's env \<Rightarrow> 's world \<Rightarrow> 's world c" where
  "ipsec_loop ps E w = do {
     rule_num \<leftarrow> var_num E ''ipsec_rule_num'' w;
     map_option fst (fold_c (ipsec_round ps E) [0..<nat rule_num] (w, [], 0))
   }"

definition auth_p :: "nat \<Rightarrow> nat \<Rightarrow> 's piece" where
  "auth_p n_md5 n_sha1 E rs i bsize w = do {
     tmp \<leftarrow> subrule_text E rs i n_md5 n_md5 bsize w;
     tmp2 \<leftarrow> subrule_text E rs i n_sha1 n_sha1 bsize w;
     Some (if starts_with (CHR ''1'') tmp then ''md5^''
           else if starts_with (CHR ''1'') tmp2 then ''sha1^''
           else ''md5^'')
   }"

definition encrypt_p :: "nat \<Rightarrow> nat \<Rightarrow> nat \<Rightarrow> 's piece" where
  "encrypt_p n_des n_3des n_aes E rs i bsize w = do {
     tmp \<leftarrow> subrule_text E rs i n_des n_des bsize w;
     tmp2 \<leftarrow> subrule_text E rs i n_3des n_3des bsize w;
     tmp3 \<leftarrow> subrule_text E rs i n_aes n_aes bsize w;
     Some (if starts_with (CHR ''1'') tmp2 then ''3des^''
           else if starts_with (CHR ''1'') tmp3 then ''aes^''
           else if starts_with (CHR ''1'') tmp then ''des^''
           else ''3des^'')
   }"

definition ipsec_1_7_5_to_1_7_6 :: "'s piece list" where
  "ipsec_1_7_5_to_1_7_6 =
     [subrule_p 0 1 ''^'', subrule_p 3 11 ''^'', subrule_p 27 30 ''^'', subrule_p 2 2 ''^'',
      subrule_p 12 12 ''^'', subrule_p 18 18 ''^'', subrule_p 24 25 ''^'', auth_p 13 14,
      encrypt_p 15 16 17, lit ''dh2^'', auth_p 19 20, encrypt_p 21 22 23, lit ''dh2'']"

definition auth_bits_p :: "string \<Rightarrow> 's piece" where
  "auth_bits_p name E rs i bsize w = do {
     tmp \<leftarrow> attr_text E rs i name bsize EZPLIB_USE_CLI w;
     Some (if tmp = ''md5'' then ''1^0^'' else if tmp = ''sha1'' then ''0^1^'' else ''1^1^'')
   }"

definition encrypt_bits_p :: "string \<Rightarrow> string \<Rightarrow> 's piece" where
  "encrypt_bits_p name other E rs i bsize w = do {
     tmp \<leftarrow> attr_text E rs i name bsize EZPLIB_USE_CLI w;
     Some (if tmp = ''des'' then ''1^0^0^'' else if tmp = ''3des'' then ''0^1^0^''
           else if tmp = ''aes'' then ''0^0^1^'' else other)
   }"

definition ipsec_1_7_6_to_1_7_5 :: "'s piece list" where
  "ipsec_1_7_6_to_1_7_5 =
     [subrule_p 0 1 ''^'', attr_p ''adv'' ''^'', subrule_p 2 10 ''^'', attr_p ''phase1_mode'' ''^'',
      auth_bits_p ''phase1_auth'', encrypt_bits_p ''phase1_encrypt'' ''1^1^1^'', attr_p ''phase1_id'' ''^'',
      auth_bits_p ''phase2_auth'', encrypt_bits_p ''phase2_encrypt'' ''0^0^0^'', subrule_p 18 19 ''^'',
      lit ''0^'', subrule_p 11 14 []]"

definition ntp_1_7_5_to_1_7_6 :: "'s env \<Rightarrow> 's world \<Rightarrow> 's world c" where
  "ntp_1_7_5_to_1_7_6 E w = do {
     val \<leftarrow> nvram_safe_get E ''ntp_rule'' w;
     if val \<noteq> [] then do {
       new \<leftarrow> format_rule
         [attr_p ''name'' ''^'', attr_p ''enable'' ''^'', lit ''pool^'', attr_p ''type'' ''^'', lit ''^'',
          attr_p ''pool'' []] E ''ntp_rule'' 0 64 w;
       put_rule E ''ntp_rule'' 0 new w
     }
     else Some w
   }"

definition ntp_1_7_6_to_1_7_5 :: "'s env \<Rightarrow> 's world \<Rightarrow> 's world c" where
  "ntp_1_7_6_to_1_7_5 E w = do {
     val \<leftarrow> nvram_safe_get E ''ntp_rule'' w;
     if val \<noteq> [] then do {
       new \<leftarrow> format_rule
         [attr_p ''name'' ''^'', attr_p ''enable'' ''^'', attr_p ''pool'' ''^'', attr_p ''zone'' []]
         E ''ntp_rule'' 0 64 w;
       put_rule E ''ntp_rule'' 0 new w
     }
     else Some w
   }"

section \<open>Wireless\<close>

text \<open>A rule set that gets its default value first and then a new first rule.\<close>

definition reset_rule :: "string \<Rightarrow> string \<Rightarrow> 's piece list \<Rightarrow> 's env \<Rightarrow> 's world \<Rightarrow> 's world c" where
  "reset_rule rs m ps E w = do {
     w \<leftarrow> fset_var E rs (xstr (bld E) m) w;
     new \<leftarrow> format_rule ps E rs 0 64 w;
     put_rule E rs 0 new w
   }"

definition reset_rule_to_var :: "string \<Rightarrow> string \<Rightarrow> string \<Rightarrow> 's env \<Rightarrow> 's world \<Rightarrow> 's world c" where
  "reset_rule_to_var rs m name E w = do {
     w \<leftarrow> fset_var E rs (xstr (bld E) m) w;
     ptr \<leftarrow> nvram_safe_get E name w;
     put_rule E rs 0 ptr w
   }"

definition wpa_pieces :: "'s piece list" where
  "wpa_pieces =
     [var_p ''wl0_wpa_psk'' ''^'', var_p ''wl0_crypto'' ''^'', var_p ''wl0_radius_key'' ''^'',
      var_p ''wl0_radius_ipaddr'' ''^'', var_p ''wl0_radius_port'' ''^'', attr_p ''rekey_mode'' ''^'',
      attr_p ''rekey_time_interval'' ''^'']"

definition wds_p :: "'s piece" where
  "wds_p E rs i bsize w = do {
     ptr \<leftarrow> nvram_safe_get E ''wl0_wds_enable'' w;
     Some ((if starts_with (CHR ''0'') ptr then ''disabled'' else ''repeater'') @ ''^1'')
   }"

definition wds_round :: "'s env \<Rightarrow> nat \<Rightarrow> 's world \<Rightarrow> 's world c" where
  "wds_round E i w = do {
     tmp \<leftarrow> subrule_text E ''wl0_wds'' 0 i i 64 w;
     put_rule E ''wl0_wds_basic_rule'' i (snprintf_store 1024 (tmp @ ''^disabled'')) w
   }"

definition wireless_1_7_5_to_1_7_6 :: "'s env \<Rightarrow> 's world \<Rightarrow> 's world c" where
  "wireless_1_7_5_to_1_7_6 E w = do {
     w \<leftarrow> reset_rule ''wl_basic_rule'' ''WL_BASIC_RULE''
            [var_p ''wl0_radio'' ''^'', attr_p ''net_mode'' ''^'', attr_p ''txpower'' ''^'', attr_p ''channel'' []] E w;
     w \<leftarrow> reset_rule ''wl0_basic_rule'' ''WL0_BASIC_RULE''
            [var_p ''wl0_radio'' ''^'', attr_p ''hidden'' ''^'', attr_p ''rate'' ''^'', attr_p ''wme'' []] E w;
     w \<leftarrow> reset_rule_to_var ''wl0_ssid_rule'' ''WL0_SSID_RULE'' ''wl0_ssid'' E w;
     w \<leftarrow> reset_rule_to_var ''wl0_sec_rule'' ''WL0_SEC_RULE'' ''wl0_sec_mode'' E w;
     w \<leftarrow> reset_rule ''wl0_sec_wep_rule'' ''WL0_SEC_WEP_RULE''
            [var_p ''wl0_key'' ''^'', var_p ''wl0_key1'' ''^'', var_p ''wl0_key2'' ''^'', var_p ''wl0_key3'' ''^'',
             var_p ''wl0_key4'' ''^''] E w;
     w \<leftarrow> reset_rule ''wl0_sec_wpa_rule'' ''WL0_SEC_WPA_RULE''
            (wpa_pieces @ [attr_p ''rekey_pkt_interval'' []]) E w;
     w \<leftarrow> reset_rule ''wl0_sec_wpa2_rule'' ''WL0_SEC_WPA2_RULE''
            (wpa_pieces @ [attr_p ''rekey_pkt_interval'' ''^'', attr_p ''preauth'' ''^'']) E w;
     w \<leftarrow> reset_rule ''wl_wds_rule'' ''WL_WDS_RULE'' [wds_p] E w;
     w \<leftarrow> fset_var E ''wl0_wds_basic_rule'' (xstr (bld E) ''WL0_WDS_BASIC_RULE'') w;
     w \<leftarrow> set_var E ''wl0_wds_rule_num'' (xstr (bld E) ''WDS_RULE_MAX'') w;
     max \<leftarrow> var_num E ''wl0_wds_rule_num'' w;
     w \<leftarrow> fold_c (wds_round E) [0..<nat max] w;
     unset_var E ''wl0_radio'' w
   }"

definition fw_func_1_7_5_to_1_7_6 :: "'s env \<Rightarrow> 's world \<Rightarrow> 's world c" where
  "fw_func_1_7_5_to_1_7_6 E w = do {
     w \<leftarrow> ntp_1_7_5_to_1_7_6 E w;
     w \<leftarrow> ipsec_loop ipsec_1_7_5_to_1_7_6 E w;
     if 0 < WL_NUM (bld E) then do {
       val \<leftarrow> nvram_safe_get E ''wl0_radio'' w;
       value2 \<leftarrow> nvram_safe_get E ''wl_basic_rule'' w;
       if val \<noteq> [] \<and> value2 = [] then wireless_1_7_5_to_1_7_6 E w else Some w
     }
     else Some w
   }"

definition fw_func_1_7_6_to_1_7_5 :: "'s env \<Rightarrow> 's world \<Rightarrow> 's world c" where
  "fw_func_1_7_6_to_1_7_5 E w = do {
     w \<leftarrow> ntp_1_7_6_to_1_7_5 E w;
     w \<leftarrow> ipsec_loop ipsec_1_7_6_to_1_7_5 E w;
     val \<leftarrow> nvram_safe_get E ''wl0_radio'' w;
     value2 \<leftarrow> nvram_safe_get E ''wl_basic_rule'' w;
     if val = [] \<and> value2 \<noteq> [] then do {
       tmp \<leftarrow> attr_text E ''wl_basic_rule'' 0 ''enable'' 64 EZPLIB_USE_CLI w;
       w \<leftarrow> fset_var E ''wl0_radio'' tmp w;
       tmp \<leftarrow> attr_text E ''wl0_ssid_rule'' 0 ''ssid'' 64 EZPLIB_USE_CLI w;
       w \<leftarrow> fset_var E ''wl0_ssid'' tmp w;
       unset_var E ''wl_basic_rule'' w
     }
     else Some w
   }"

text \<open>The text of a rule with another attribute behind it.\<close>

definition extend_rule :: "'s env \<Rightarrow> string \<Rightarrow> string \<Rightarrow> nat \<Rightarrow> nat \<Rightarrow> nat \<Rightarrow> 's world \<Rightarrow> 's world c" where
  "extend_rule E rs suffix bsize newsize i w = do {
     old \<leftarrow> rule_buf E rs i bsize w;
     put_rule E rs i (snprintf_store newsize (old @ suffix)) w
   }"

definition wl_basic_name :: "nat \<Rightarrow> string" where
  "wl_basic_name i = ''wl'' @ nat_to_dec i @ ''_basic_rule''"

definition wireless_1_7_6_to_1_7_7 :: "'s env \<Rightarrow> 's world \<Rightarrow> 's world c" where
  "wireless_1_7_6_to_1_7_7 E w = do {
     tmp \<leftarrow> attr_text E ''wl_wds_rule'' 0 ''mode'' 64 EZPLIB_USE_CLI w;
     w \<leftarrow> (if starts_with (CHR ''0'') tmp then do {
              tmp \<leftarrow> attr_text E ''wl_wds_rule'' 0 ''timeout'' 64 EZPLIB_USE_CLI w;
              put_rule E ''wl_wds_rule'' 0 (snprintf_store 1024 (''disabled^'' @ tmp)) w
            }
            else Some w);
     str \<leftarrow> nvram_safe_get E ''wl0_wds_basic_rule'' w;
     w \<leftarrow> (if str = ''0^1'' then set_var E ''wl0_wds_basic_rule'' (xstr (bld E) ''WL0_WDS_BASIC_RULE'') w
            else Some w);
     num \<leftarrow> var_num E ''wl_num'' w;
     w \<leftarrow> fold_c (extend_rule E ''wl_basic_rule'' ''^0'' 1024 1024) [0..<nat num] w;
     num \<leftarrow> var_num E ''wl_num'' w;
     fold_c (\<lambda>i. fold_c (extend_rule E (wl_basic_name i) ''^0'' 1024 1024)
                    [0..<nat (atoi (xstr (bld E) ''WL0_RULE_NUM''))]) [0..<nat num] w
   }"

definition fw_func_1_7_6_to_1_7_7 :: "'s env \<Rightarrow> 's world \<Rightarrow> 's world c" where
  "fw_func_1_7_6_to_1_7_7 E w = do {
     w \<leftarrow> (if 0 < WL_NUM (bld E) then wireless_1_7_6_to_1_7_7 E w else Some w);
     unset_var E ''upnp_rule'' w
   }"

text \<open>A part of a rule in the place of the rule with index \<open>j\<close>.\<close>

definition cut_rule :: "'s env \<Rightarrow> string \<Rightarrow> nat \<Rightarrow> nat \<Rightarrow> nat \<Rightarrow> nat \<Rightarrow> nat \<Rightarrow> 's world \<Rightarrow> 's world c" where
  "cut_rule E rs start end_i bsize i j w = do {
     new \<leftarrow> subrule_text E rs i start end_i bsize w;
     put_rule E rs j new w
   }"

text \<open>In the inner loop the code reads the rule with the index \<open>i\<close> of the outer loop.\<close>

definition fw_func_1_7_7_to_1_7_6 :: "'s env \<Rightarrow> 's world \<Rightarrow> 's world c" where
  "fw_func_1_7_7_to_1_7_6 E w = do {
     num \<leftarrow> var_num E ''wl_num'' w;
     w \<leftarrow> fold_c (\<lambda>i. cut_rule E ''wl_basic_rule'' 0 3 1024 i i) [0..<nat num] w;
     num \<leftarrow> var_num E ''wl_num'' w;
     vnum \<leftarrow> var_num E ''wlv_rule_num'' w;
     w \<leftarrow> fold_c (\<lambda>i. fold_c (cut_rule E (wl_basic_name i) 0 3 1024 i) [0..<nat vnum]) [0..<nat num] w;
     w \<leftarrow> unset_var E ''upnp_rule'' w;
     Some (call_system ''echo 1 > /proc/ezp_rewind'' w)
   }"

end
