(* ===== verification/Fw_Migrate_2.thy ===== *)
theory Fw_Migrate_2
  imports Fw_Migrate_1
begin

text \<open>
  The migrations of \<^verbatim>\<open>src/package/ezp-nvram/src/nvram_linux.c\<close> from 1.7.8 on that change variables: the filter and
  bandwidth rules, storage, DHCP, WAN and VLAN rules, the encoding of the PPPoE account, and the versions
  that restore default values.
\<close>

section \<open>Filters and bandwidth\<close>

text \<open>
  The addresses are converted by \<^verbatim>\<open>ntohl(inet_addr())\<close> into \<^verbatim>\<open>int\<close>; the target is little-endian.
\<close>

definition ntohl :: "32 word \<Rightarrow> 32 word" where
  "ntohl x = push_bit 24 (x AND 255) OR push_bit 8 (x AND 0xFF00) OR (drop_bit 8 x AND 0xFF00) OR drop_bit 24 x"

definition address_int :: "'s env \<Rightarrow> string \<Rightarrow> int" where
  "address_int E s = sint (ntohl (inet_addr (bld E) s))"

text \<open>The part of a round of \<^verbatim>\<open>fw_func_1_7_8_to_1_7_9\<close> that makes a DBM rule of a filter rule.\<close>

definition dbm_from_fl :: "'s env \<Rightarrow> nat \<Rightarrow> 's world \<Rightarrow> 's world c" where
  "dbm_from_fl E i w = do {
     name \<leftarrow> attr_text E ''fl_rule'' i ''name'' 1024 EZPLIB_USE_CLI w;
     ipaddr_start \<leftarrow> attr_text E ''fl_rule'' i ''srcipaddr_start'' 64 EZPLIB_USE_CLI w;
     ipaddr_end \<leftarrow> attr_text E ''fl_rule'' i ''srcipaddr_end'' 64 EZPLIB_USE_CLI w;
     num \<leftarrow> chk_int (address_int E ipaddr_end - address_int E ipaddr_start);
     num \<leftarrow> chk_int (num + 1);
     w \<leftarrow> add_last_rule E ''bw_dbm_rule''
            (snprintf_store 1024 (name @ ''^1^'' @ ipaddr_start @ ''^'' @ ipaddr_end @ ''^'' @ int_to_dec num @ ''^'')) w;
     dbm_nrule \<leftarrow> var_num E ''bw_dbm_rule_num'' w;
     dbm_nrule \<leftarrow> chk_int (dbm_nrule + 1);
     set_var E ''bw_dbm_rule_num'' (int_to_dec dbm_nrule) w
   }"

definition fl_round_1_7_9 :: "'s env \<Rightarrow> nat \<Rightarrow> 's world \<Rightarrow> 's world c" where
  "fl_round_1_7_9 E i w = do {
     tmp \<leftarrow> subrule_text E ''fl_rule'' i 14 14 1024 w;
     w \<leftarrow> (if starts_with (CHR ''1'') tmp then dbm_from_fl E i w else Some w);
     new \<leftarrow> format_rule [subrule_p 0 13 ''^'', subrule_p 16 18 ''^''] E ''fl_rule'' i 1024 w;
     put_rule E ''fl_rule'' i new w
   }"

definition fw_func_1_7_8_to_1_7_9 :: "'s env \<Rightarrow> 's world \<Rightarrow> 's world c" where
  "fw_func_1_7_8_to_1_7_9 E w = do {
     w \<leftarrow> fset_var E ''bw_dbm_rule'' [] w;
     w \<leftarrow> fset_var E ''bw_dbm_rule_num'' ''0'' w;
     w \<leftarrow> fset_var E ''bw_sbm_rule'' [] w;
     w \<leftarrow> fset_var E ''bw_sbm_rule_num'' ''0'' w;
     nrule \<leftarrow> var_num E ''fl_rule_num'' w;
     fold_c (fl_round_1_7_9 E) [0..<nat nrule] w
   }"

text \<open>
  The loops of \<^verbatim>\<open>fw_func_1_7_9_to_1_7_8\<close> end every round with \<^verbatim>\<open>j += atoi(num)\<close>; \<open>num\<close> is \<^term>\<open>None\<close> while the array
  has not been written.
\<close>

definition fl_round_1_7_8 :: "'s env \<Rightarrow> string option \<Rightarrow> nat \<Rightarrow> 's world \<Rightarrow> 's world c" where
  "fl_round_1_7_8 E num i w = do {
     (new, _, j) \<leftarrow> emit_pieces [subrule_p 0 13 ''^'', lit ''0^0^'', subrule_p 14 16 ''^''] E ''fl_rule'' i 1024 w ([], 0, 0);
     w \<leftarrow> put_rule E ''fl_rule'' i new w;
     num \<leftarrow> num;
     chk_int (int j + atoi num);
     Some w
   }"

definition dbm_round_1_7_8 ::
    "'s env \<Rightarrow> nat \<Rightarrow> 's world \<times> string option \<times> int \<Rightarrow> ('s world \<times> string option \<times> int) c" where
  "dbm_round_1_7_8 E i st =
     (case st of (w, num, j) \<Rightarrow> do {
        tmp \<leftarrow> attr_text E ''bw_dbm_rule'' i ''enable'' 1024 EZPLIB_USE_CLI w;
        (w, num) \<leftarrow>
          (if starts_with (CHR ''0'') tmp then Some (w, num)
           else do {
             name \<leftarrow> attr_text E ''bw_dbm_rule'' i ''name'' 1024 EZPLIB_USE_CLI w;
             start \<leftarrow> attr_text E ''bw_dbm_rule'' i ''inipaddr_start'' 64 EZPLIB_USE_CLI w;
             end_ip \<leftarrow> attr_text E ''bw_dbm_rule'' i ''inipaddr_end'' 64 EZPLIB_USE_CLI w;
             new_num \<leftarrow> attr_text E ''bw_dbm_rule'' i ''inipaddr_num'' 64 EZPLIB_USE_CLI w;
             mark \<leftarrow> map_option hex4 (chk_int (j + 1));
             w \<leftarrow> add_last_rule E ''fl_rule''
                    (snprintf_store 1024
                       (name @ ''^1^^^'' @ start @ ''^'' @ end_ip @ ''^^^^^^^^1^1^'' @ new_num @ ''^'' @ mark @ ''^0^0'')) w;
             fl_nrule \<leftarrow> var_num E ''fl_rule_num'' w;
             fl_nrule \<leftarrow> chk_int (fl_nrule + 1);
             w \<leftarrow> set_var E ''fl_rule_num'' (int_to_dec fl_nrule) w;
             Some (w, Some new_num)
           });
        n \<leftarrow> num;
        j \<leftarrow> chk_int (j + atoi n);
        Some (w, num, j)
      })"

text \<open>\<^verbatim>\<open>used * link_percent / 100\<close> and so on\<close>

definition percent :: "int \<Rightarrow> int \<Rightarrow> int c" where
  "percent n p = do { x \<leftarrow> chk_int (n * p); c_div x 100 }"

definition bw_limits :: "int \<Rightarrow> int \<Rightarrow> (int \<times> int) c" where
  "bw_limits used bw_num = do {
     x \<leftarrow> percent used 75;
     x \<leftarrow> percent x 90;
     bw_max \<leftarrow> percent x 90;
     bw_min \<leftarrow> c_div bw_max bw_num;
     Some (bw_max, bw_min)
   }"

definition wan_bw_round_1_7_8 :: "'s env \<Rightarrow> nat \<Rightarrow> 's world \<Rightarrow> 's world c" where
  "wan_bw_round_1_7_8 E i w = do {
     bw_num \<leftarrow> var_num E ''dbm_max'' w;
     dl \<leftarrow> attr_text E ''wan_bw_rule'' i ''dl'' 64 EZPLIB_USE_CLI w;
     ul \<leftarrow> attr_text E ''wan_bw_rule'' i ''ul'' 64 EZPLIB_USE_CLI w;
     (ulmax, ulmin) \<leftarrow> bw_limits (atoi ul) bw_num;
     (dlmax, dlmin) \<leftarrow> bw_limits (atoi dl) bw_num;
     w \<leftarrow> put_attr E ''wan_bw_rule'' i ''link_percent'' ''75'' w;
     w \<leftarrow> put_attr E ''wan_bw_rule'' i ''dbm_upmax'' (int_to_dec ulmax) w;
     w \<leftarrow> put_attr E ''wan_bw_rule'' i ''dbm_upmin'' (int_to_dec ulmin) w;
     w \<leftarrow> put_attr E ''wan_bw_rule'' i ''dbm_downmax'' (int_to_dec dlmax) w;
     put_attr E ''wan_bw_rule'' i ''dbm_downmin'' (int_to_dec dlmin) w
   }"

definition fw_func_1_7_9_to_1_7_8 :: "'s env \<Rightarrow> 's world \<Rightarrow> 's world c" where
  "fw_func_1_7_9_to_1_7_8 E w = do {
     nrule \<leftarrow> var_num E ''fl_rule_num'' w;
     w \<leftarrow> fold_c (fl_round_1_7_8 E None) [0..<nat nrule] w;
     nrule \<leftarrow> var_num E ''bw_dbm_rule_num'' w;
     (w, _) \<leftarrow> fold_c (dbm_round_1_7_8 E) [0..<nat nrule] (w, None, 0);
     nrule \<leftarrow> var_num E ''wan_num'' w;
     w \<leftarrow> fold_c (wan_bw_round_1_7_8 E) [0..<nat nrule] w;
     w \<leftarrow> unset_var E ''bw_dbm_rule'' w;
     w \<leftarrow> unset_var E ''bw_dbm_rule_num'' w;
     w \<leftarrow> unset_var E ''bw_sbm_rule'' w;
     unset_var E ''bw_sbm_rule_num'' w
   }"

definition fw_func_1_7_10_to_1_7_11 :: "'s env \<Rightarrow> 's world \<Rightarrow> 's world c" where
  "fw_func_1_7_10_to_1_7_11 E w = set_var E ''bw_mask'' ''0xFFFF0000'' w"

definition fw_func_1_7_11_to_1_7_10 :: "'s env \<Rightarrow> 's world \<Rightarrow> 's world c" where
  "fw_func_1_7_11_to_1_7_10 E w = set_var E ''bw_mask'' ''0x00FFFFFF'' w"

section \<open>Versions 2.0.0 to 2.0.3\<close>

text \<open>A part of a rule between two texts in the place of that rule.\<close>

definition rewrite_rule ::
    "'s env \<Rightarrow> string \<Rightarrow> string \<Rightarrow> nat \<Rightarrow> nat \<Rightarrow> string \<Rightarrow> nat \<Rightarrow> nat \<Rightarrow> nat \<Rightarrow> 's world \<Rightarrow> 's world c" where
  "rewrite_rule E rs prefix start end_i suffix bsize newsize i w = do {
     buf \<leftarrow> subrule_text E rs i start end_i bsize w;
     put_rule E rs i (snprintf_store newsize (prefix @ buf @ suffix)) w
   }"

definition fw_func_2_0_1_to_2_0_0 :: "'s env \<Rightarrow> 's world \<Rightarrow> 's world c" where
  "fw_func_2_0_1_to_2_0_0 E w = do {
     codepage \<leftarrow> attr_text E ''storage_rule'' 0 ''codepage'' 64 EZPLIB_USE_CLI w;
     swap_size \<leftarrow> attr_text E ''storage_rule'' 0 ''swap_size'' 64 EZPLIB_USE_CLI w;
     w \<leftarrow> put_rule E ''storage_rule'' 0 (snprintf_store 1024 (''^'' @ codepage @ ''^'' @ swap_size @ ''^'')) w;
     unset_var E ''storage_state_rule'' w
   }"

definition fw_func_2_0_0_to_2_0_1 :: "'s env \<Rightarrow> 's world \<Rightarrow> 's world c" where
  "fw_func_2_0_0_to_2_0_1 E w = do {
     w \<leftarrow> fset_var E ''storage_state_rule'' ''^'' w;
     rewrite_rule E ''storage_rule'' [] 1 2 ''^4096'' 64 1024 0 w
   }"

definition stats_rule_round :: "'s env \<Rightarrow> string \<Rightarrow> string \<Rightarrow> 's world \<Rightarrow> 's world c" where
  "stats_rule_round E one_wan two_wans w =
     (if defined (bld E) CONFIG_EZP_ARCH_RT305X \<and> WAN_NUM (bld E) = 1 \<and> LAN_NUM (bld E) = 1
      then put_rule E ''stats_rule'' 0 one_wan w
      else if defined (bld E) CONFIG_EZP_ARCH_RT305X \<and> WAN_NUM (bld E) = 2 \<and> LAN_NUM (bld E) = 1
      then put_rule E ''stats_rule'' 0 two_wans w
      else Some w)"

definition fw_func_2_0_2_to_2_0_1 :: "'s env \<Rightarrow> 's world \<Rightarrow> 's world c" where
  "fw_func_2_0_2_to_2_0_1 E w = do {
     w \<leftarrow> rewrite_rule E ''lan_dhcps_rule'' [] 0 6 [] 64 1024 0 w;
     stats_rule_round E ''^1^60^vlan1 vlan2 ppp0 br0 ra0'' ''^1^60^vlan3 vlan1 vlan2 ppp0 ppp1 br0 ra0'' w
   }"

definition fw_func_2_0_1_to_2_0_2 :: "'s env \<Rightarrow> 's world \<Rightarrow> 's world c" where
  "fw_func_2_0_1_to_2_0_2 E w = do {
     w \<leftarrow> rewrite_rule E ''lan_dhcps_rule'' [] 0 6 ''^dnsrelay^^^^'' 64 1024 0 w;
     stats_rule_round E ''^1^60^vlan1 vlan2 ppp0 br0 ra0 usb0 eth0''
       ''^1^60^vlan3 vlan1 vlan2 ppp0 ppp1 br0 ra0 usb0 eth0 eth1'' w
   }"

definition wwan_round :: "'s env \<Rightarrow> string \<Rightarrow> nat \<Rightarrow> nat \<Rightarrow> nat \<Rightarrow> 's world \<Rightarrow> 's world c" where
  "wwan_round E middle start end_i i w = do {
     buf \<leftarrow> subrule_text E ''wan_wwan_rule'' i 0 5 256 w;
     buf2 \<leftarrow> subrule_text E ''wan_wwan_rule'' i start end_i 256 w;
     put_rule E ''wan_wwan_rule'' i (snprintf_store 1024 (buf @ middle @ buf2)) w
   }"

definition fw_func_2_0_3_to_2_0_2 :: "'s env \<Rightarrow> 's world \<Rightarrow> 's world c" where
  "fw_func_2_0_3_to_2_0_2 E w = do {
     nrule \<leftarrow> var_num E ''wan_num'' w;
     w \<leftarrow> fold_c (\<lambda>i. cut_rule E ''wan_pppoe_rule'' 1 8 256 i i) [0..<nat nrule] w;
     w \<leftarrow> fold_c (wwan_round E ''^'' 7 21) [0..<nat nrule] w;
     w \<leftarrow> rewrite_rule E ''ftpd_rule'' [] 0 9 [] 256 1024 0 w;
     nrule \<leftarrow> var_num E ''wl_rule_num'' w;
     w \<leftarrow> fold_c (\<lambda>i. cut_rule E ''wl_advanced_rule'' 0 13 256 i i) [0..<nat nrule] w;
     nrule \<leftarrow> var_num E ''rt_rule_num'' w;
     w \<leftarrow> fold_c (\<lambda>i. cut_rule E ''rt_rule'' 0 11 256 i i) [0..<nat nrule] w;
     nrule \<leftarrow> var_num E ''wan_num'' w;
     fold_c (\<lambda>i. cut_rule E ''wan_opendns_rule'' 0 4 256 i i) [0..<nat nrule] w
   }"

definition fw_func_2_0_2_to_2_0_3 :: "'s env \<Rightarrow> 's world \<Rightarrow> 's world c" where
  "fw_func_2_0_2_to_2_0_3 E w = do {
     nrule \<leftarrow> var_num E ''wan_num'' w;
     w \<leftarrow> fold_c (rewrite_rule E ''wan_pppoe_rule'' ''chap^'' 0 7 [] 256 1024) [0..<nat nrule] w;
     w \<leftarrow> fold_c (wwan_round E ''^chap^'' 6 20) [0..<nat nrule] w;
     w \<leftarrow> rewrite_rule E ''ftpd_rule'' [] 0 9 ''^0'' 256 1024 0 w;
     w \<leftarrow> unset_var E ''samba_rule'' w;
     nrule \<leftarrow> var_num E ''wl_rule_num'' w;
     w \<leftarrow> fold_c (extend_rule E ''wl_advanced_rule'' ''^1^0^0^0^0^0^1^1^0^33^5^0^1^8^0'' 256 1024) [0..<nat nrule] w;
     nrule \<leftarrow> var_num E ''rt_rule_num'' w;
     w \<leftarrow> fold_c (extend_rule E ''rt_rule'' ''^default^'' 256 1024) [0..<nat nrule] w;
     w \<leftarrow> put_attr E ''lan_dhcps_rule'' 0 ''dnstype'' ''opendns'' w;
     w \<leftarrow> put_attr E ''lan_dhcps_rule'' 0 ''dnsaddr1'' ''208.67.220.220'' w;
     w \<leftarrow> put_attr E ''lan_dhcps_rule'' 0 ''dnsaddr2'' ''208.67.222.222'' w;
     nrule \<leftarrow> var_num E ''wan_num'' w;
     fold_c (extend_rule E ''wan_opendns_rule'' ''^'' 256 1024) [0..<nat nrule] w
   }"

section \<open>Versions 2.0.4 to 2.0.8\<close>

definition fw_func_2_0_4_to_2_0_3 :: "'s env \<Rightarrow> 's world \<Rightarrow> 's world c" where
  "fw_func_2_0_4_to_2_0_3 E w = do {
     buf \<leftarrow> subrule_text E ''bt_rule'' 0 1 1 256 w;
     buf2 \<leftarrow> subrule_text E ''bt_rule'' 0 3 12 256 w;
     w \<leftarrow> set_var E ''rtorrent_rule'' (snprintf_store 1024 (''1^10^'' @ buf @ ''^2^'' @ buf2)) w;
     buf \<leftarrow> subrule_text E ''bt_torrent_max'' 0 0 0 256 w;
     w \<leftarrow> set_var E ''rtorrent_torrent_max'' buf w;
     w \<leftarrow> unset_var E ''bt_rule'' w;
     w \<leftarrow> unset_var E ''bt_torrent_max'' w;
     nrule \<leftarrow> var_num E ''wan_num'' w;
     w \<leftarrow> fold_c (\<lambda>i. cut_rule E ''wan_wwan_rule'' 0 21 256 i i) [0..<nat nrule] w;
     nrule \<leftarrow> var_num E ''wan_num'' w;
     fold_c (\<lambda>i. cut_rule E ''wan_htc_rule'' 0 3 256 i i) [0..<nat nrule] w
   }"

definition fw_func_2_0_3_to_2_0_4 :: "'s env \<Rightarrow> 's world \<Rightarrow> 's world c" where
  "fw_func_2_0_3_to_2_0_4 E w = do {
     buf \<leftarrow> subrule_text E ''rtorrent_rule'' 0 2 2 256 w;
     buf2 \<leftarrow> subrule_text E ''rtorrent_rule'' 0 4 12 256 w;
     w \<leftarrow> set_var E ''bt_rule'' (snprintf_store 1024 (''1^'' @ buf @ ''^250^10^'' @ buf2)) w;
     w \<leftarrow> unset_var E ''rtorrent_rule'' w;
     w \<leftarrow> unset_var E ''rtorrent_torrent_max'' w;
     nrule \<leftarrow> var_num E ''wan_num'' w;
     w \<leftarrow> fold_c (rewrite_rule E ''wan_wwan_rule'' [] 0 21 ''^0'' 256 1024) [0..<nat nrule] w;
     nrule \<leftarrow> var_num E ''wan_num'' w;
     fold_c (rewrite_rule E ''wan_htc_rule'' [] 0 3 ''^0'' 256 1024) [0..<nat nrule] w
   }"

text \<open>What stands behind \<^verbatim>\<open>return 0;\<close> in \<^verbatim>\<open>fw_func_2_0_5_to_2_0_4\<close> is never run.\<close>

definition fw_func_2_0_5_to_2_0_4 :: "'s env \<Rightarrow> 's world \<Rightarrow> 's world c" where
  "fw_func_2_0_5_to_2_0_4 E w = do {
     w \<leftarrow> cut_rule E ''storage_rule'' 0 2 256 0 0 w;
     w \<leftarrow> cut_rule E ''fw_rule'' 0 5 256 0 0 w;
     num \<leftarrow> var_num E ''vlan_rule_num'' w;
     w \<leftarrow> fold_c (rewrite_rule E ''vlan_rule'' [] 0 4 ''^0000001^'' 256 256) [0..<nat num] w;
     w \<leftarrow> unset_var E ''vlanport_rule'' w;
     w \<leftarrow> unset_var E ''vlanport_rule_num'' w;
     unset_var E ''vlanport_rule_max'' w
   }"

definition put_bw_max :: "'s env \<Rightarrow> string \<Rightarrow> 's world \<Rightarrow> 's world c" where
  "put_bw_max E n w = do {
     w \<leftarrow> put_rule E ''bw_rule_max'' 0 n w;
     w \<leftarrow> put_rule E ''bw_sbm_rule_max'' 0 n w;
     put_rule E ''bw_dbm_rule_max'' 0 n w
   }"

definition fw_func_2_0_4_to_2_0_5 :: "'s env \<Rightarrow> 's world \<Rightarrow> 's world c" where
  "fw_func_2_0_4_to_2_0_5 E w = do {
     w \<leftarrow> extend_rule E ''storage_rule'' ''^0^^^^^'' 256 256 0 w;
     w \<leftarrow> extend_rule E ''fw_rule'' ''^0'' 256 256 0 w;
     num \<leftarrow> var_num E ''vlan_rule_num'' w;
     w \<leftarrow> fold_c (\<lambda>i. cut_rule E ''vlan_rule'' 0 4 256 i i) [0..<nat num] w;
     w \<leftarrow> nvram_default_rule E ''vlanport_rule'' w;
     tmp \<leftarrow> rule_buf E ''prod_subcat'' 0 256 w;
     w \<leftarrow> (if tmp = ''2'' then put_bw_max E ''32'' w else Some w);
     if tmp = ''3'' \<or> tmp = ''4'' then put_bw_max E ''64'' w else Some w
   }"

text \<open>
  An account attribute is replaced by its base64 form.  An attribute that is too long leaves \<^verbatim>\<open>b64\<close>
  unwritten the first time; the second time it holds the text of the first.
\<close>

definition encode_attr :: "'s env \<Rightarrow> string \<Rightarrow> string option \<Rightarrow> 's world \<Rightarrow> ('s world \<times> string option) c" where
  "encode_attr E attr b64 w = do {
     tmp \<leftarrow> attr_text E ''wan_pppoe_rule'' 0 attr 256 EZPLIB_USE_WEB w;
     let (_, out) = base64_encode tmp 256;
     let b64 = (case out of Some t \<Rightarrow> Some t | None \<Rightarrow> b64);
     t \<leftarrow> b64;
     w \<leftarrow> put_attr E ''wan_pppoe_rule'' 0 attr t w;
     Some (w, b64)
   }"

definition fw_func_2_0_5_to_2_0_6 :: "'s env \<Rightarrow> 's world \<Rightarrow> 's world c" where
  "fw_func_2_0_5_to_2_0_6 E w = do {
     (w, b64) \<leftarrow> encode_attr E ''username'' None w;
     (w, _) \<leftarrow> encode_attr E ''passwd'' b64 w;
     nrule \<leftarrow> var_num E ''ipsec_rule_num'' w;
     fold_c (rewrite_rule E ''ipsec_rule'' [] 0 25 ''^0^10^60'' 256 256) [0..<nat nrule] w
   }"

definition decode_attr :: "'s env \<Rightarrow> string \<Rightarrow> 's world \<Rightarrow> 's world c" where
  "decode_attr E attr w = do {
     tmp \<leftarrow> attr_text E ''wan_pppoe_rule'' 0 attr 256 EZPLIB_USE_CLI w;
     put_attr E ''wan_pppoe_rule'' 0 attr tmp w
   }"

definition fw_func_2_0_6_to_2_0_5 :: "'s env \<Rightarrow> 's world \<Rightarrow> 's world c" where
  "fw_func_2_0_6_to_2_0_5 E w = do {
     w \<leftarrow> decode_attr E ''username'' w;
     w \<leftarrow> decode_attr E ''passwd'' w;
     cut_rule E ''ipsec_rule'' 0 25 256 0 0 w
   }"

definition fw_func_2_0_6_to_2_0_7 :: "'s env \<Rightarrow> 's world \<Rightarrow> 's world c" where
  "fw_func_2_0_6_to_2_0_7 E w = do {
     w \<leftarrow> nvram_default_rule E ''appmgr_rule'' w;
     w \<leftarrow> rewrite_rule E ''cron_rule'' [] 0 2 ''^0^week^03^09^30'' 256 256 0 w;
     w \<leftarrow> rewrite_rule E ''log_rule'' ''syslog^'' 1 3
            ''^1^1^1^1^1^1^1^1^1^1^1^0^0^192.168.1.2^tcp^514'' 256 256 0 w;
     w \<leftarrow> put_attr E ''wan_bw_rule'' 0 ''link_percent'' ''90'' w;
     w \<leftarrow> nvram_default_rule E ''wan_main_rule'' w;
     nvram_default_rule E ''wan_detect_rule'' w
   }"

definition fw_func_2_0_7_to_2_0_6 :: "'s env \<Rightarrow> 's world \<Rightarrow> 's world c" where
  "fw_func_2_0_7_to_2_0_6 E w = do {
     w \<leftarrow> unset_var E ''appmgr_rule'' w;
     w \<leftarrow> cut_rule E ''cron_rule'' 0 2 256 0 0 w;
     w \<leftarrow> cut_rule E ''log_rule'' 0 3 256 0 0 w;
     w \<leftarrow> put_attr E ''wan_bw_rule'' 0 ''link_percent'' ''75'' w;
     w \<leftarrow> unset_var E ''wan_main_rule'' w;
     w \<leftarrow> nvram_default_rule E ''wan_status_rule'' w;
     w \<leftarrow> nvram_default_rule E ''lan_status_rule'' w;
     w \<leftarrow> nvram_default_rule E ''wan_lb_rule'' w;
     nvram_default_rule E ''wan_upnp_status_rule'' w
   }"

definition default_three :: "'s env \<Rightarrow> 's world \<Rightarrow> 's world c" where
  "default_three E w = do {
     w \<leftarrow> nvram_default_rule E ''wan_status_rule'' w;
     w \<leftarrow> nvram_default_rule E ''snmp_rule'' w;
     nvram_default_rule E ''cron_rule'' w
   }"

definition fw_func_2_0_7_to_2_0_8 :: "'s env \<Rightarrow> 's world \<Rightarrow> 's world c" where
  "fw_func_2_0_7_to_2_0_8 E w = default_three E w"

definition fw_func_2_0_8_to_2_0_7 :: "'s env \<Rightarrow> 's world \<Rightarrow> 's world c" where
  "fw_func_2_0_8_to_2_0_7 E w = default_three E w"

section \<open>Version 3\<close>

text \<open>
  The arrays have 128 bytes.  An encoded name that does not fit leaves \<^verbatim>\<open>b64\<close> unwritten, and \<^verbatim>\<open>b64[n] = 0\<close> is a
  write behind the array when \<^verbatim>\<open>n\<close> is its size.
\<close>

definition fw_func_2_0_15_to_3_0_0 :: "'s env \<Rightarrow> 's world \<Rightarrow> 's world c" where
  "fw_func_2_0_15_to_3_0_0 E w = do {
     buf \<leftarrow> attr_text E ''wl0_apcli_rule'' 0 ''ssid'' 128 EZPLIB_USE_CLI w;
     b64 \<leftarrow> snd (base64_encode buf 128);
     w \<leftarrow> put_attr E ''wl0_apcli_rule'' 0 ''ssid'' b64 w;
     if defined (bld E) PLATFORM_BAD_m then put_attr E ''wl0_apcli_swap_basic_rule'' 0 ''enable'' ''1'' w
     else Some w
   }"

definition fw_func_3_0_0_to_2_0_15 :: "'s env \<Rightarrow> 's world \<Rightarrow> 's world c" where
  "fw_func_3_0_0_to_2_0_15 E w = do {
     buf \<leftarrow> attr_text E ''wl0_apcli_rule'' 0 ''ssid'' 128 EZPLIB_USE_CLI w;
     (err, out) \<leftarrow> base64_decode buf 128;
     if err \<noteq> CRYPT_OK \<or> 128 \<le> length out then None
     else do {
       w \<leftarrow> put_attr E ''wl0_apcli_rule'' 0 ''ssid'' (c_string out) w;
       if defined (bld E) PLATFORM_BAD_m then put_attr E ''wl0_apcli_swap_basic_rule'' 0 ''enable'' ''0'' w
       else Some w
     }
   }"

definition fw_func_3_0_7_to_3_0_8 :: "'s env \<Rightarrow> 's world \<Rightarrow> 's world c" where
  "fw_func_3_0_7_to_3_0_8 E w =
     (if defined (bld E) EZP_PROD_BRAND_SONY then nvram_default_rule E ''ntp_rule'' w else Some w)"

definition fw_func_3_0_8_to_3_0_7 :: "'s env \<Rightarrow> 's world \<Rightarrow> 's world c" where
  "fw_func_3_0_8_to_3_0_7 E w =
     (if defined (bld E) EZP_PROD_BRAND_SONY then do {
        w \<leftarrow> fset_var E ''ntp_rule'' ''^1^pool^north-america.pool.ntp.org^^PST8PDT,M3.2.0/2,M11.1.0/2^1'' w;
        commit_vars E w
      }
      else Some w)"

definition default_and_commit :: "'s env \<Rightarrow> 's world \<Rightarrow> 's world c" where
  "default_and_commit E w = do { w \<leftarrow> nvram_default E w; commit_vars E w }"

definition platform_defaults :: "'s env \<Rightarrow> 's world \<Rightarrow> 's world c" where
  "platform_defaults E w = do {
     w \<leftarrow> (if defined (bld E) PLATFORM_M2E then default_and_commit E w else Some w);
     if defined (bld E) PLATFORM_AXA then do {
       w \<leftarrow> nvram_default_rule E ''wl0_apcli_swap_rule'' w;
       w \<leftarrow> nvram_default_rule E ''wl0_apcli_rule'' w;
       w \<leftarrow> nvram_default_rule E ''appmgr_rule_G'' w;
       w \<leftarrow> nvram_default_rule E ''appmgr_rule_I'' w;
       commit_vars E w
     }
     else Some w
   }"

definition fw_func_3_0_20_to_3_1_0 :: "'s env \<Rightarrow> 's world \<Rightarrow> 's world c" where
  "fw_func_3_0_20_to_3_1_0 E w = do {
     w \<leftarrow> platform_defaults E w;
     if defined (bld E) EZP_PROD_BRAND_ALLIS then nvram_default E w else Some w
   }"

definition fw_func_3_1_0_to_3_0_20 :: "'s env \<Rightarrow> 's world \<Rightarrow> 's world c" where
  "fw_func_3_1_0_to_3_0_20 E w = platform_defaults E w"

definition fw_func_3_1_1_to_3_1_2 :: "'s env \<Rightarrow> 's world \<Rightarrow> 's world c" where
  "fw_func_3_1_1_to_3_1_2 E w =
     (if defined (bld E) PLATFORM_M2E then do {
        w \<leftarrow> fset_var E ''model'' (EZP_MODEL (bld E)) w;
        commit_vars E w
      }
      else Some w)"

definition fw_func_3_2_0_to_3_1_9 :: "'s env \<Rightarrow> 's world \<Rightarrow> 's world c" where
  "fw_func_3_2_0_to_3_1_9 E w = default_and_commit E w"

definition fw_func_3_2_0_to_3_2_1 :: "'s env \<Rightarrow> 's world \<Rightarrow> 's world c" where
  "fw_func_3_2_0_to_3_2_1 E w = default_and_commit E w"

definition fw_func_3_2_1_to_3_2_2 :: "'s env \<Rightarrow> 's world \<Rightarrow> 's world c" where
  "fw_func_3_2_1_to_3_2_2 E w = default_and_commit E w"

end
