(* ===== verification/Fw_Table.thy ===== *)
theory Fw_Table
  imports Fw_Migrate_2
begin

text \<open>
  The enumeration \<^verbatim>\<open>nvram_fw_version\<close> of \<^verbatim>\<open>src/package/ezp-nvram/src/nvram_fw.h\<close>, the migrations of
  \<^verbatim>\<open>src/package/ezp-nvram/src/nvram_linux.c\<close> that only print a message, and the table of versions.
\<close>

section \<open>Versions\<close>

definition NVRAM_FW_0_0_0 :: int where "NVRAM_FW_0_0_0 = 0"
definition NVRAM_FW_1_6_5 :: int where "NVRAM_FW_1_6_5 = 1"
definition NVRAM_FW_1_6_6 :: int where "NVRAM_FW_1_6_6 = 2"
definition NVRAM_FW_1_6_7 :: int where "NVRAM_FW_1_6_7 = 3"
definition NVRAM_FW_1_7_0 :: int where "NVRAM_FW_1_7_0 = 4"
definition NVRAM_FW_1_7_1 :: int where "NVRAM_FW_1_7_1 = 5"
definition NVRAM_FW_1_7_2 :: int where "NVRAM_FW_1_7_2 = 6"
definition NVRAM_FW_1_7_3 :: int where "NVRAM_FW_1_7_3 = 7"
definition NVRAM_FW_1_7_4 :: int where "NVRAM_FW_1_7_4 = 8"
definition NVRAM_FW_1_7_5 :: int where "NVRAM_FW_1_7_5 = 9"
definition NVRAM_FW_1_7_6 :: int where "NVRAM_FW_1_7_6 = 10"
definition NVRAM_FW_1_7_7 :: int where "NVRAM_FW_1_7_7 = 11"
definition NVRAM_FW_1_7_8 :: int where "NVRAM_FW_1_7_8 = 12"
definition NVRAM_FW_1_7_9 :: int where "NVRAM_FW_1_7_9 = 13"
definition NVRAM_FW_1_7_10 :: int where "NVRAM_FW_1_7_10 = 14"
definition NVRAM_FW_1_7_11 :: int where "NVRAM_FW_1_7_11 = 15"
definition NVRAM_FW_2_0_0 :: int where "NVRAM_FW_2_0_0 = 16"
definition NVRAM_FW_2_0_1 :: int where "NVRAM_FW_2_0_1 = 17"
definition NVRAM_FW_2_0_2 :: int where "NVRAM_FW_2_0_2 = 18"
definition NVRAM_FW_2_0_3 :: int where "NVRAM_FW_2_0_3 = 19"
definition NVRAM_FW_2_0_4 :: int where "NVRAM_FW_2_0_4 = 20"
definition NVRAM_FW_2_0_5 :: int where "NVRAM_FW_2_0_5 = 21"
definition NVRAM_FW_2_0_6 :: int where "NVRAM_FW_2_0_6 = 22"
definition NVRAM_FW_2_0_7 :: int where "NVRAM_FW_2_0_7 = 23"
definition NVRAM_FW_2_0_8 :: int where "NVRAM_FW_2_0_8 = 24"
definition NVRAM_FW_2_0_9 :: int where "NVRAM_FW_2_0_9 = 25"
definition NVRAM_FW_2_0_10 :: int where "NVRAM_FW_2_0_10 = 26"
definition NVRAM_FW_2_0_11 :: int where "NVRAM_FW_2_0_11 = 27"
definition NVRAM_FW_2_0_12 :: int where "NVRAM_FW_2_0_12 = 28"
definition NVRAM_FW_2_0_13 :: int where "NVRAM_FW_2_0_13 = 29"
definition NVRAM_FW_2_0_14 :: int where "NVRAM_FW_2_0_14 = 30"
definition NVRAM_FW_2_0_15 :: int where "NVRAM_FW_2_0_15 = 31"
definition NVRAM_FW_3_0_0 :: int where "NVRAM_FW_3_0_0 = 32"
definition NVRAM_FW_3_0_1 :: int where "NVRAM_FW_3_0_1 = 33"
definition NVRAM_FW_3_0_2 :: int where "NVRAM_FW_3_0_2 = 34"
definition NVRAM_FW_3_0_3 :: int where "NVRAM_FW_3_0_3 = 35"
definition NVRAM_FW_3_0_4 :: int where "NVRAM_FW_3_0_4 = 36"
definition NVRAM_FW_3_0_5 :: int where "NVRAM_FW_3_0_5 = 37"
definition NVRAM_FW_3_0_6 :: int where "NVRAM_FW_3_0_6 = 38"
definition NVRAM_FW_3_0_7 :: int where "NVRAM_FW_3_0_7 = 39"
definition NVRAM_FW_3_0_8 :: int where "NVRAM_FW_3_0_8 = 40"
definition NVRAM_FW_3_0_9 :: int where "NVRAM_FW_3_0_9 = 41"
definition NVRAM_FW_3_0_10 :: int where "NVRAM_FW_3_0_10 = 42"
definition NVRAM_FW_3_0_11 :: int where "NVRAM_FW_3_0_11 = 43"
definition NVRAM_FW_3_0_12 :: int where "NVRAM_FW_3_0_12 = 44"
definition NVRAM_FW_3_0_13 :: int where "NVRAM_FW_3_0_13 = 45"
definition NVRAM_FW_3_0_14 :: int where "NVRAM_FW_3_0_14 = 46"
definition NVRAM_FW_3_0_15 :: int where "NVRAM_FW_3_0_15 = 47"
definition NVRAM_FW_3_0_16 :: int where "NVRAM_FW_3_0_16 = 48"
definition NVRAM_FW_3_0_17 :: int where "NVRAM_FW_3_0_17 = 49"
definition NVRAM_FW_3_0_18 :: int where "NVRAM_FW_3_0_18 = 50"
definition NVRAM_FW_3_0_19 :: int where "NVRAM_FW_3_0_19 = 51"
definition NVRAM_FW_3_0_20 :: int where "NVRAM_FW_3_0_20 = 52"
definition NVRAM_FW_3_1_0 :: int where "NVRAM_FW_3_1_0 = 53"
definition NVRAM_FW_3_1_1 :: int where "NVRAM_FW_3_1_1 = 54"
definition NVRAM_FW_3_1_2 :: int where "NVRAM_FW_3_1_2 = 55"
definition NVRAM_FW_3_1_3 :: int where "NVRAM_FW_3_1_3 = 56"
definition NVRAM_FW_3_1_4 :: int where "NVRAM_FW_3_1_4 = 57"
definition NVRAM_FW_3_1_5 :: int where "NVRAM_FW_3_1_5 = 58"
definition NVRAM_FW_3_1_6 :: int where "NVRAM_FW_3_1_6 = 59"
definition NVRAM_FW_3_1_7 :: int where "NVRAM_FW_3_1_7 = 60"
definition NVRAM_FW_3_1_8 :: int where "NVRAM_FW_3_1_8 = 61"
definition NVRAM_FW_3_1_9 :: int where "NVRAM_FW_3_1_9 = 62"
definition NVRAM_FW_3_1_10 :: int where "NVRAM_FW_3_1_10 = 63"
definition NVRAM_FW_3_2_0 :: int where "NVRAM_FW_3_2_0 = 64"
definition NVRAM_FW_3_2_1 :: int where "NVRAM_FW_3_2_1 = 65"
definition NVRAM_FW_3_2_2 :: int where "NVRAM_FW_3_2_2 = 66"
definition NVRAM_FW_INVALID :: int where "NVRAM_FW_INVALID = 67"

lemmas fw_version_defs =
  NVRAM_FW_0_0_0_def NVRAM_FW_1_6_5_def NVRAM_FW_1_6_6_def NVRAM_FW_1_6_7_def
  NVRAM_FW_1_7_0_def NVRAM_FW_1_7_1_def NVRAM_FW_1_7_2_def NVRAM_FW_1_7_3_def
  NVRAM_FW_1_7_4_def NVRAM_FW_1_7_5_def NVRAM_FW_1_7_6_def NVRAM_FW_1_7_7_def
  NVRAM_FW_1_7_8_def NVRAM_FW_1_7_9_def NVRAM_FW_1_7_10_def NVRAM_FW_1_7_11_def
  NVRAM_FW_2_0_0_def NVRAM_FW_2_0_1_def NVRAM_FW_2_0_2_def NVRAM_FW_2_0_3_def
  NVRAM_FW_2_0_4_def NVRAM_FW_2_0_5_def NVRAM_FW_2_0_6_def NVRAM_FW_2_0_7_def
  NVRAM_FW_2_0_8_def NVRAM_FW_2_0_9_def NVRAM_FW_2_0_10_def NVRAM_FW_2_0_11_def
  NVRAM_FW_2_0_12_def NVRAM_FW_2_0_13_def NVRAM_FW_2_0_14_def NVRAM_FW_2_0_15_def
  NVRAM_FW_3_0_0_def NVRAM_FW_3_0_1_def NVRAM_FW_3_0_2_def NVRAM_FW_3_0_3_def
  NVRAM_FW_3_0_4_def NVRAM_FW_3_0_5_def NVRAM_FW_3_0_6_def NVRAM_FW_3_0_7_def
  NVRAM_FW_3_0_8_def NVRAM_FW_3_0_9_def NVRAM_FW_3_0_10_def NVRAM_FW_3_0_11_def
  NVRAM_FW_3_0_12_def NVRAM_FW_3_0_13_def NVRAM_FW_3_0_14_def NVRAM_FW_3_0_15_def
  NVRAM_FW_3_0_16_def NVRAM_FW_3_0_17_def NVRAM_FW_3_0_18_def NVRAM_FW_3_0_19_def
  NVRAM_FW_3_0_20_def NVRAM_FW_3_1_0_def NVRAM_FW_3_1_1_def NVRAM_FW_3_1_2_def
  NVRAM_FW_3_1_3_def NVRAM_FW_3_1_4_def NVRAM_FW_3_1_5_def NVRAM_FW_3_1_6_def
  NVRAM_FW_3_1_7_def NVRAM_FW_3_1_8_def NVRAM_FW_3_1_9_def NVRAM_FW_3_1_10_def
  NVRAM_FW_3_2_0_def NVRAM_FW_3_2_1_def NVRAM_FW_3_2_2_def NVRAM_FW_INVALID_def

section \<open>Migrations without effect\<close>

definition fw_func_1_6_7_to_1_7_0 :: "'s env \<Rightarrow> 's world \<Rightarrow> 's world c" where
  "fw_func_1_6_7_to_1_7_0 E w = Some w"

definition fw_func_1_7_0_to_1_6_7 :: "'s env \<Rightarrow> 's world \<Rightarrow> 's world c" where
  "fw_func_1_7_0_to_1_6_7 E w = Some w"

definition fw_func_1_7_0_to_1_7_1 :: "'s env \<Rightarrow> 's world \<Rightarrow> 's world c" where
  "fw_func_1_7_0_to_1_7_1 E w = Some w"

definition fw_func_1_7_1_to_1_7_0 :: "'s env \<Rightarrow> 's world \<Rightarrow> 's world c" where
  "fw_func_1_7_1_to_1_7_0 E w = Some w"

definition fw_func_1_7_1_to_1_7_2 :: "'s env \<Rightarrow> 's world \<Rightarrow> 's world c" where
  "fw_func_1_7_1_to_1_7_2 E w = Some w"

definition fw_func_1_7_2_to_1_7_1 :: "'s env \<Rightarrow> 's world \<Rightarrow> 's world c" where
  "fw_func_1_7_2_to_1_7_1 E w = Some w"

definition fw_func_1_7_2_to_1_7_3 :: "'s env \<Rightarrow> 's world \<Rightarrow> 's world c" where
  "fw_func_1_7_2_to_1_7_3 E w = Some w"

definition fw_func_1_7_3_to_1_7_2 :: "'s env \<Rightarrow> 's world \<Rightarrow> 's world c" where
  "fw_func_1_7_3_to_1_7_2 E w = Some w"

definition fw_func_1_7_3_to_1_7_4 :: "'s env \<Rightarrow> 's world \<Rightarrow> 's world c" where
  "fw_func_1_7_3_to_1_7_4 E w = Some w"

definition fw_func_1_7_4_to_1_7_3 :: "'s env \<Rightarrow> 's world \<Rightarrow> 's world c" where
  "fw_func_1_7_4_to_1_7_3 E w = Some w"

definition fw_func_1_7_5_to_1_7_4 :: "'s env \<Rightarrow> 's world \<Rightarrow> 's world c" where
  "fw_func_1_7_5_to_1_7_4 E w = Some w"

definition fw_func_1_7_7_to_1_7_8 :: "'s env \<Rightarrow> 's world \<Rightarrow> 's world c" where
  "fw_func_1_7_7_to_1_7_8 E w = Some w"

definition fw_func_1_7_8_to_1_7_7 :: "'s env \<Rightarrow> 's world \<Rightarrow> 's world c" where
  "fw_func_1_7_8_to_1_7_7 E w = Some w"

definition fw_func_1_7_9_to_1_7_10 :: "'s env \<Rightarrow> 's world \<Rightarrow> 's world c" where
  "fw_func_1_7_9_to_1_7_10 E w = Some w"

definition fw_func_1_7_10_to_1_7_9 :: "'s env \<Rightarrow> 's world \<Rightarrow> 's world c" where
  "fw_func_1_7_10_to_1_7_9 E w = Some w"

definition fw_func_1_7_11_to_2_0_0 :: "'s env \<Rightarrow> 's world \<Rightarrow> 's world c" where
  "fw_func_1_7_11_to_2_0_0 E w = Some w"

definition fw_func_2_0_0_to_1_7_11 :: "'s env \<Rightarrow> 's world \<Rightarrow> 's world c" where
  "fw_func_2_0_0_to_1_7_11 E w = Some w"

definition fw_func_2_0_8_to_2_0_9 :: "'s env \<Rightarrow> 's world \<Rightarrow> 's world c" where
  "fw_func_2_0_8_to_2_0_9 E w = Some w"

definition fw_func_2_0_9_to_2_0_8 :: "'s env \<Rightarrow> 's world \<Rightarrow> 's world c" where
  "fw_func_2_0_9_to_2_0_8 E w = Some w"

definition fw_func_2_0_9_to_2_0_10 :: "'s env \<Rightarrow> 's world \<Rightarrow> 's world c" where
  "fw_func_2_0_9_to_2_0_10 E w = Some w"

definition fw_func_2_0_10_to_2_0_9 :: "'s env \<Rightarrow> 's world \<Rightarrow> 's world c" where
  "fw_func_2_0_10_to_2_0_9 E w = Some w"

definition fw_func_2_0_10_to_2_0_11 :: "'s env \<Rightarrow> 's world \<Rightarrow> 's world c" where
  "fw_func_2_0_10_to_2_0_11 E w = Some w"

definition fw_func_2_0_11_to_2_0_10 :: "'s env \<Rightarrow> 's world \<Rightarrow> 's world c" where
  "fw_func_2_0_11_to_2_0_10 E w = Some w"

definition fw_func_2_0_11_to_2_0_12 :: "'s env \<Rightarrow> 's world \<Rightarrow> 's world c" where
  "fw_func_2_0_11_to_2_0_12 E w = Some w"

definition fw_func_2_0_12_to_2_0_11 :: "'s env \<Rightarrow> 's world \<Rightarrow> 's world c" where
  "fw_func_2_0_12_to_2_0_11 E w = Some w"

definition fw_func_2_0_12_to_2_0_13 :: "'s env \<Rightarrow> 's world \<Rightarrow> 's world c" where
  "fw_func_2_0_12_to_2_0_13 E w = Some w"

definition fw_func_2_0_13_to_2_0_12 :: "'s env \<Rightarrow> 's world \<Rightarrow> 's world c" where
  "fw_func_2_0_13_to_2_0_12 E w = Some w"

definition fw_func_2_0_13_to_2_0_14 :: "'s env \<Rightarrow> 's world \<Rightarrow> 's world c" where
  "fw_func_2_0_13_to_2_0_14 E w = Some w"

definition fw_func_2_0_14_to_2_0_13 :: "'s env \<Rightarrow> 's world \<Rightarrow> 's world c" where
  "fw_func_2_0_14_to_2_0_13 E w = Some w"

definition fw_func_2_0_14_to_2_0_15 :: "'s env \<Rightarrow> 's world \<Rightarrow> 's world c" where
  "fw_func_2_0_14_to_2_0_15 E w = Some w"

definition fw_func_2_0_15_to_2_0_14 :: "'s env \<Rightarrow> 's world \<Rightarrow> 's world c" where
  "fw_func_2_0_15_to_2_0_14 E w = Some w"

definition fw_func_3_0_0_to_3_0_1 :: "'s env \<Rightarrow> 's world \<Rightarrow> 's world c" where
  "fw_func_3_0_0_to_3_0_1 E w = Some w"

definition fw_func_3_0_1_to_3_0_0 :: "'s env \<Rightarrow> 's world \<Rightarrow> 's world c" where
  "fw_func_3_0_1_to_3_0_0 E w = Some w"

definition fw_func_3_0_1_to_3_0_2 :: "'s env \<Rightarrow> 's world \<Rightarrow> 's world c" where
  "fw_func_3_0_1_to_3_0_2 E w = Some w"

definition fw_func_3_0_2_to_3_0_1 :: "'s env \<Rightarrow> 's world \<Rightarrow> 's world c" where
  "fw_func_3_0_2_to_3_0_1 E w = Some w"

definition fw_func_3_0_2_to_3_0_3 :: "'s env \<Rightarrow> 's world \<Rightarrow> 's world c" where
  "fw_func_3_0_2_to_3_0_3 E w = Some w"

definition fw_func_3_0_3_to_3_0_2 :: "'s env \<Rightarrow> 's world \<Rightarrow> 's world c" where
  "fw_func_3_0_3_to_3_0_2 E w = Some w"

definition fw_func_3_0_3_to_3_0_4 :: "'s env \<Rightarrow> 's world \<Rightarrow> 's world c" where
  "fw_func_3_0_3_to_3_0_4 E w = Some w"

definition fw_func_3_0_4_to_3_0_3 :: "'s env \<Rightarrow> 's world \<Rightarrow> 's world c" where
  "fw_func_3_0_4_to_3_0_3 E w = Some w"

definition fw_func_3_0_4_to_3_0_5 :: "'s env \<Rightarrow> 's world \<Rightarrow> 's world c" where
  "fw_func_3_0_4_to_3_0_5 E w = Some w"

definition fw_func_3_0_5_to_3_0_4 :: "'s env \<Rightarrow> 's world \<Rightarrow> 's world c" where
  "fw_func_3_0_5_to_3_0_4 E w = Some w"

definition fw_func_3_0_5_to_3_0_6 :: "'s env \<Rightarrow> 's world \<Rightarrow> 's world c" where
  "fw_func_3_0_5_to_3_0_6 E w = Some w"

definition fw_func_3_0_6_to_3_0_5 :: "'s env \<Rightarrow> 's world \<Rightarrow> 's world c" where
  "fw_func_3_0_6_to_3_0_5 E w = Some w"

definition fw_func_3_0_6_to_3_0_7 :: "'s env \<Rightarrow> 's world \<Rightarrow> 's world c" where
  "fw_func_3_0_6_to_3_0_7 E w = Some w"

definition fw_func_3_0_7_to_3_0_6 :: "'s env \<Rightarrow> 's world \<Rightarrow> 's world c" where
  "fw_func_3_0_7_to_3_0_6 E w = Some w"

definition fw_func_3_0_8_to_3_0_9 :: "'s env \<Rightarrow> 's world \<Rightarrow> 's world c" where
  "fw_func_3_0_8_to_3_0_9 E w = Some w"

definition fw_func_3_0_9_to_3_0_8 :: "'s env \<Rightarrow> 's world \<Rightarrow> 's world c" where
  "fw_func_3_0_9_to_3_0_8 E w = Some w"

definition fw_func_3_0_9_to_3_0_10 :: "'s env \<Rightarrow> 's world \<Rightarrow> 's world c" where
  "fw_func_3_0_9_to_3_0_10 E w = Some w"

definition fw_func_3_0_10_to_3_0_9 :: "'s env \<Rightarrow> 's world \<Rightarrow> 's world c" where
  "fw_func_3_0_10_to_3_0_9 E w = Some w"

definition fw_func_3_0_10_to_3_0_11 :: "'s env \<Rightarrow> 's world \<Rightarrow> 's world c" where
  "fw_func_3_0_10_to_3_0_11 E w = Some w"

definition fw_func_3_0_11_to_3_0_10 :: "'s env \<Rightarrow> 's world \<Rightarrow> 's world c" where
  "fw_func_3_0_11_to_3_0_10 E w = Some w"

definition fw_func_3_0_11_to_3_0_12 :: "'s env \<Rightarrow> 's world \<Rightarrow> 's world c" where
  "fw_func_3_0_11_to_3_0_12 E w = Some w"

definition fw_func_3_0_12_to_3_0_11 :: "'s env \<Rightarrow> 's world \<Rightarrow> 's world c" where
  "fw_func_3_0_12_to_3_0_11 E w = Some w"

definition fw_func_3_0_12_to_3_0_13 :: "'s env \<Rightarrow> 's world \<Rightarrow> 's world c" where
  "fw_func_3_0_12_to_3_0_13 E w = Some w"

definition fw_func_3_0_13_to_3_0_12 :: "'s env \<Rightarrow> 's world \<Rightarrow> 's world c" where
  "fw_func_3_0_13_to_3_0_12 E w = Some w"

definition fw_func_3_0_13_to_3_0_14 :: "'s env \<Rightarrow> 's world \<Rightarrow> 's world c" where
  "fw_func_3_0_13_to_3_0_14 E w = Some w"

definition fw_func_3_0_14_to_3_0_13 :: "'s env \<Rightarrow> 's world \<Rightarrow> 's world c" where
  "fw_func_3_0_14_to_3_0_13 E w = Some w"

definition fw_func_3_0_14_to_3_0_15 :: "'s env \<Rightarrow> 's world \<Rightarrow> 's world c" where
  "fw_func_3_0_14_to_3_0_15 E w = Some w"

definition fw_func_3_0_15_to_3_0_14 :: "'s env \<Rightarrow> 's world \<Rightarrow> 's world c" where
  "fw_func_3_0_15_to_3_0_14 E w = Some w"

definition fw_func_3_0_15_to_3_0_16 :: "'s env \<Rightarrow> 's world \<Rightarrow> 's world c" where
  "fw_func_3_0_15_to_3_0_16 E w = Some w"

definition fw_func_3_0_16_to_3_0_15 :: "'s env \<Rightarrow> 's world \<Rightarrow> 's world c" where
  "fw_func_3_0_16_to_3_0_15 E w = Some w"

definition fw_func_3_0_16_to_3_0_17 :: "'s env \<Rightarrow> 's world \<Rightarrow> 's world c" where
  "fw_func_3_0_16_to_3_0_17 E w = Some w"

definition fw_func_3_0_17_to_3_0_16 :: "'s env \<Rightarrow> 's world \<Rightarrow> 's world c" where
  "fw_func_3_0_17_to_3_0_16 E w = Some w"

definition fw_func_3_0_17_to_3_0_18 :: "'s env \<Rightarrow> 's world \<Rightarrow> 's world c" where
  "fw_func_3_0_17_to_3_0_18 E w = Some w"

definition fw_func_3_0_18_to_3_0_17 :: "'s env \<Rightarrow> 's world \<Rightarrow> 's world c" where
  "fw_func_3_0_18_to_3_0_17 E w = Some w"

definition fw_func_3_0_18_to_3_0_19 :: "'s env \<Rightarrow> 's world \<Rightarrow> 's world c" where
  "fw_func_3_0_18_to_3_0_19 E w = Some w"

definition fw_func_3_0_19_to_3_0_18 :: "'s env \<Rightarrow> 's world \<Rightarrow> 's world c" where
  "fw_func_3_0_19_to_3_0_18 E w = Some w"

definition fw_func_3_0_19_to_3_0_20 :: "'s env \<Rightarrow> 's world \<Rightarrow> 's world c" where
  "fw_func_3_0_19_to_3_0_20 E w = Some w"

definition fw_func_3_0_20_to_3_0_19 :: "'s env \<Rightarrow> 's world \<Rightarrow> 's world c" where
  "fw_func_3_0_20_to_3_0_19 E w = Some w"

definition fw_func_3_1_0_to_3_1_1 :: "'s env \<Rightarrow> 's world \<Rightarrow> 's world c" where
  "fw_func_3_1_0_to_3_1_1 E w = Some w"

definition fw_func_3_1_1_to_3_1_0 :: "'s env \<Rightarrow> 's world \<Rightarrow> 's world c" where
  "fw_func_3_1_1_to_3_1_0 E w = Some w"

definition fw_func_3_1_2_to_3_1_1 :: "'s env \<Rightarrow> 's world \<Rightarrow> 's world c" where
  "fw_func_3_1_2_to_3_1_1 E w = Some w"

definition fw_func_3_1_2_to_3_1_3 :: "'s env \<Rightarrow> 's world \<Rightarrow> 's world c" where
  "fw_func_3_1_2_to_3_1_3 E w = Some w"

definition fw_func_3_1_3_to_3_1_2 :: "'s env \<Rightarrow> 's world \<Rightarrow> 's world c" where
  "fw_func_3_1_3_to_3_1_2 E w = Some w"

definition fw_func_3_1_3_to_3_1_4 :: "'s env \<Rightarrow> 's world \<Rightarrow> 's world c" where
  "fw_func_3_1_3_to_3_1_4 E w = Some w"

definition fw_func_3_1_4_to_3_1_3 :: "'s env \<Rightarrow> 's world \<Rightarrow> 's world c" where
  "fw_func_3_1_4_to_3_1_3 E w = Some w"

definition fw_func_3_1_4_to_3_1_5 :: "'s env \<Rightarrow> 's world \<Rightarrow> 's world c" where
  "fw_func_3_1_4_to_3_1_5 E w = Some w"

definition fw_func_3_1_5_to_3_1_4 :: "'s env \<Rightarrow> 's world \<Rightarrow> 's world c" where
  "fw_func_3_1_5_to_3_1_4 E w = Some w"

definition fw_func_3_1_5_to_3_1_6 :: "'s env \<Rightarrow> 's world \<Rightarrow> 's world c" where
  "fw_func_3_1_5_to_3_1_6 E w = Some w"

definition fw_func_3_1_6_to_3_1_5 :: "'s env \<Rightarrow> 's world \<Rightarrow> 's world c" where
  "fw_func_3_1_6_to_3_1_5 E w = Some w"

definition fw_func_3_1_6_to_3_1_7 :: "'s env \<Rightarrow> 's world \<Rightarrow> 's world c" where
  "fw_func_3_1_6_to_3_1_7 E w = Some w"

definition fw_func_3_1_7_to_3_1_6 :: "'s env \<Rightarrow> 's world \<Rightarrow> 's world c" where
  "fw_func_3_1_7_to_3_1_6 E w = Some w"

definition fw_func_3_1_7_to_3_1_8 :: "'s env \<Rightarrow> 's world \<Rightarrow> 's world c" where
  "fw_func_3_1_7_to_3_1_8 E w = Some w"

definition fw_func_3_1_8_to_3_1_7 :: "'s env \<Rightarrow> 's world \<Rightarrow> 's world c" where
  "fw_func_3_1_8_to_3_1_7 E w = Some w"

definition fw_func_3_1_8_to_3_1_9 :: "'s env \<Rightarrow> 's world \<Rightarrow> 's world c" where
  "fw_func_3_1_8_to_3_1_9 E w = Some w"

definition fw_func_3_1_9_to_3_1_8 :: "'s env \<Rightarrow> 's world \<Rightarrow> 's world c" where
  "fw_func_3_1_9_to_3_1_8 E w = Some w"

definition fw_func_3_1_9_to_3_1_10 :: "'s env \<Rightarrow> 's world \<Rightarrow> 's world c" where
  "fw_func_3_1_9_to_3_1_10 E w = Some w"

definition fw_func_3_1_10_to_3_1_9 :: "'s env \<Rightarrow> 's world \<Rightarrow> 's world c" where
  "fw_func_3_1_10_to_3_1_9 E w = Some w"

definition fw_func_3_1_9_to_3_2_0 :: "'s env \<Rightarrow> 's world \<Rightarrow> 's world c" where
  "fw_func_3_1_9_to_3_2_0 E w = Some w"

definition fw_func_3_2_1_to_3_2_0 :: "'s env \<Rightarrow> 's world \<Rightarrow> 's world c" where
  "fw_func_3_2_1_to_3_2_0 E w = Some w"

definition fw_func_3_2_2_to_3_2_1 :: "'s env \<Rightarrow> 's world \<Rightarrow> 's world c" where
  "fw_func_3_2_2_to_3_2_1 E w = Some w"

lemmas fw_noop_defs =
  fw_func_1_6_7_to_1_7_0_def fw_func_1_7_0_to_1_6_7_def fw_func_1_7_0_to_1_7_1_def
  fw_func_1_7_1_to_1_7_0_def fw_func_1_7_1_to_1_7_2_def fw_func_1_7_2_to_1_7_1_def
  fw_func_1_7_2_to_1_7_3_def fw_func_1_7_3_to_1_7_2_def fw_func_1_7_3_to_1_7_4_def
  fw_func_1_7_4_to_1_7_3_def fw_func_1_7_5_to_1_7_4_def fw_func_1_7_7_to_1_7_8_def
  fw_func_1_7_8_to_1_7_7_def fw_func_1_7_9_to_1_7_10_def fw_func_1_7_10_to_1_7_9_def
  fw_func_1_7_11_to_2_0_0_def fw_func_2_0_0_to_1_7_11_def fw_func_2_0_8_to_2_0_9_def
  fw_func_2_0_9_to_2_0_8_def fw_func_2_0_9_to_2_0_10_def fw_func_2_0_10_to_2_0_9_def
  fw_func_2_0_10_to_2_0_11_def fw_func_2_0_11_to_2_0_10_def fw_func_2_0_11_to_2_0_12_def
  fw_func_2_0_12_to_2_0_11_def fw_func_2_0_12_to_2_0_13_def fw_func_2_0_13_to_2_0_12_def
  fw_func_2_0_13_to_2_0_14_def fw_func_2_0_14_to_2_0_13_def fw_func_2_0_14_to_2_0_15_def
  fw_func_2_0_15_to_2_0_14_def fw_func_3_0_0_to_3_0_1_def fw_func_3_0_1_to_3_0_0_def
  fw_func_3_0_1_to_3_0_2_def fw_func_3_0_2_to_3_0_1_def fw_func_3_0_2_to_3_0_3_def
  fw_func_3_0_3_to_3_0_2_def fw_func_3_0_3_to_3_0_4_def fw_func_3_0_4_to_3_0_3_def
  fw_func_3_0_4_to_3_0_5_def fw_func_3_0_5_to_3_0_4_def fw_func_3_0_5_to_3_0_6_def
  fw_func_3_0_6_to_3_0_5_def fw_func_3_0_6_to_3_0_7_def fw_func_3_0_7_to_3_0_6_def
  fw_func_3_0_8_to_3_0_9_def fw_func_3_0_9_to_3_0_8_def fw_func_3_0_9_to_3_0_10_def
  fw_func_3_0_10_to_3_0_9_def fw_func_3_0_10_to_3_0_11_def fw_func_3_0_11_to_3_0_10_def
  fw_func_3_0_11_to_3_0_12_def fw_func_3_0_12_to_3_0_11_def fw_func_3_0_12_to_3_0_13_def
  fw_func_3_0_13_to_3_0_12_def fw_func_3_0_13_to_3_0_14_def fw_func_3_0_14_to_3_0_13_def
  fw_func_3_0_14_to_3_0_15_def fw_func_3_0_15_to_3_0_14_def fw_func_3_0_15_to_3_0_16_def
  fw_func_3_0_16_to_3_0_15_def fw_func_3_0_16_to_3_0_17_def fw_func_3_0_17_to_3_0_16_def
  fw_func_3_0_17_to_3_0_18_def fw_func_3_0_18_to_3_0_17_def fw_func_3_0_18_to_3_0_19_def
  fw_func_3_0_19_to_3_0_18_def fw_func_3_0_19_to_3_0_20_def fw_func_3_0_20_to_3_0_19_def
  fw_func_3_1_0_to_3_1_1_def fw_func_3_1_1_to_3_1_0_def fw_func_3_1_2_to_3_1_1_def
  fw_func_3_1_2_to_3_1_3_def fw_func_3_1_3_to_3_1_2_def fw_func_3_1_3_to_3_1_4_def
  fw_func_3_1_4_to_3_1_3_def fw_func_3_1_4_to_3_1_5_def fw_func_3_1_5_to_3_1_4_def
  fw_func_3_1_5_to_3_1_6_def fw_func_3_1_6_to_3_1_5_def fw_func_3_1_6_to_3_1_7_def
  fw_func_3_1_7_to_3_1_6_def fw_func_3_1_7_to_3_1_8_def fw_func_3_1_8_to_3_1_7_def
  fw_func_3_1_8_to_3_1_9_def fw_func_3_1_9_to_3_1_8_def fw_func_3_1_9_to_3_1_10_def
  fw_func_3_1_10_to_3_1_9_def fw_func_3_1_9_to_3_2_0_def fw_func_3_2_1_to_3_2_0_def
  fw_func_3_2_2_to_3_2_1_def

section \<open>The table\<close>

text \<open>\<^verbatim>\<open>struct nvram_fw_tuple\<close>; a function that is NULL is \<^term>\<open>None\<close>.\<close>

record 's nvram_fw_tuple =
  fw_str :: string
  fw_version :: int
  fw_upgrade_func :: "('s world \<Rightarrow> 's world c) option"
  fw_downgrade_func :: "('s world \<Rightarrow> 's world c) option"

definition fw_row ::
    "string \<Rightarrow> int \<Rightarrow> ('s world \<Rightarrow> 's world c) option \<Rightarrow> ('s world \<Rightarrow> 's world c) option \<Rightarrow> 's nvram_fw_tuple" where
  "fw_row s v up down = \<lparr>fw_str = s, fw_version = v, fw_upgrade_func = up, fw_downgrade_func = down\<rparr>"

definition nvram_fw_table :: "'s env \<Rightarrow> 's nvram_fw_tuple list" where
  "nvram_fw_table E =
     [fw_row ''0.0.0'' NVRAM_FW_0_0_0 None
        None,
      fw_row ''1.6.5'' NVRAM_FW_1_6_5 (Some (fw_func_0_0_0_to_1_6_5 E))
        (Some (fw_func_1_6_5_to_0_0_0 E)),
      fw_row ''1.6.6'' NVRAM_FW_1_6_6 (Some (fw_func_1_6_5_to_1_6_6 E))
        (Some (fw_func_1_6_6_to_1_6_5 E)),
      fw_row ''1.6.7'' NVRAM_FW_1_6_7 (Some (fw_func_1_6_6_to_1_6_7 E))
        (Some (fw_func_1_6_7_to_1_6_6 E)),
      fw_row ''1.7.0'' NVRAM_FW_1_7_0 (Some (fw_func_1_6_7_to_1_7_0 E))
        (Some (fw_func_1_7_0_to_1_6_7 E)),
      fw_row ''1.7.1'' NVRAM_FW_1_7_1 (Some (fw_func_1_7_0_to_1_7_1 E))
        (Some (fw_func_1_7_1_to_1_7_0 E)),
      fw_row ''1.7.2'' NVRAM_FW_1_7_2 (Some (fw_func_1_7_1_to_1_7_2 E))
        (Some (fw_func_1_7_2_to_1_7_1 E)),
      fw_row ''1.7.3'' NVRAM_FW_1_7_3 (Some (fw_func_1_7_2_to_1_7_3 E))
        (Some (fw_func_1_7_3_to_1_7_2 E)),
      fw_row ''1.7.4'' NVRAM_FW_1_7_4 (Some (fw_func_1_7_3_to_1_7_4 E))
        (Some (fw_func_1_7_4_to_1_7_3 E)),
      fw_row ''1.7.5'' NVRAM_FW_1_7_5 (Some (fw_func_1_7_4_to_1_7_5 E))
        (Some (fw_func_1_7_5_to_1_7_4 E)),
      fw_row ''1.7.6'' NVRAM_FW_1_7_6 (Some (fw_func_1_7_5_to_1_7_6 E))
        (Some (fw_func_1_7_6_to_1_7_5 E)),
      fw_row ''1.7.7'' NVRAM_FW_1_7_7 (Some (fw_func_1_7_6_to_1_7_7 E))
        (Some (fw_func_1_7_7_to_1_7_6 E)),
      fw_row ''1.7.8'' NVRAM_FW_1_7_8 (Some (fw_func_1_7_7_to_1_7_8 E))
        (Some (fw_func_1_7_8_to_1_7_7 E)),
      fw_row ''1.7.9'' NVRAM_FW_1_7_9 (Some (fw_func_1_7_8_to_1_7_9 E))
        (Some (fw_func_1_7_9_to_1_7_8 E)),
      fw_row ''1.7.10'' NVRAM_FW_1_7_10 (Some (fw_func_1_7_9_to_1_7_10 E))
        (Some (fw_func_1_7_10_to_1_7_9 E)),
      fw_row ''1.7.11'' NVRAM_FW_1_7_11 (Some (fw_func_1_7_10_to_1_7_11 E))
        (Some (fw_func_1_7_11_to_1_7_10 E)),
      fw_row ''2.0.0'' NVRAM_FW_2_0_0 (Some (fw_func_1_7_11_to_2_0_0 E))
        (Some (fw_func_2_0_0_to_1_7_11 E)),
      fw_row ''2.0.1'' NVRAM_FW_2_0_1 (Some (fw_func_2_0_0_to_2_0_1 E))
        (Some (fw_func_2_0_1_to_2_0_0 E)),
      fw_row ''2.0.2'' NVRAM_FW_2_0_2 (Some (fw_func_2_0_1_to_2_0_2 E))
        (Some (fw_func_2_0_2_to_2_0_1 E)),
      fw_row ''2.0.3'' NVRAM_FW_2_0_3 (Some (fw_func_2_0_2_to_2_0_3 E))
        (Some (fw_func_2_0_3_to_2_0_2 E)),
      fw_row ''2.0.4'' NVRAM_FW_2_0_4 (Some (fw_func_2_0_3_to_2_0_4 E))
        (Some (fw_func_2_0_4_to_2_0_3 E)),
      fw_row ''2.0.5'' NVRAM_FW_2_0_5 (Some (fw_func_2_0_4_to_2_0_5 E))
        (Some (fw_func_2_0_5_to_2_0_4 E)),
      fw_row ''2.0.6'' NVRAM_FW_2_0_6 (Some (fw_func_2_0_5_to_2_0_6 E))
        (Some (fw_func_2_0_6_to_2_0_5 E)),
      fw_row ''2.0.7'' NVRAM_FW_2_0_7 (Some (fw_func_2_0_6_to_2_0_7 E))
        (Some (fw_func_2_0_7_to_2_0_6 E)),
      fw_row ''2.0.8'' NVRAM_FW_2_0_8 (Some (fw_func_2_0_7_to_2_0_8 E))
        (Some (fw_func_2_0_8_to_2_0_7 E)),
      fw_row ''2.0.9'' NVRAM_FW_2_0_9 (Some (fw_func_2_0_8_to_2_0_9 E))
        (Some (fw_func_2_0_9_to_2_0_8 E)),
      fw_row ''2.0.10'' NVRAM_FW_2_0_10 (Some (fw_func_2_0_9_to_2_0_10 E))
        (Some (fw_func_2_0_10_to_2_0_9 E)),
      fw_row ''2.0.11'' NVRAM_FW_2_0_11 (Some (fw_func_2_0_10_to_2_0_11 E))
        (Some (fw_func_2_0_11_to_2_0_10 E)),
      fw_row ''2.0.12'' NVRAM_FW_2_0_12 (Some (fw_func_2_0_11_to_2_0_12 E))
        (Some (fw_func_2_0_12_to_2_0_11 E)),
      fw_row ''2.0.12'' NVRAM_FW_2_0_13 (Some (fw_func_2_0_12_to_2_0_13 E))
        (Some (fw_func_2_0_13_to_2_0_12 E)),
      fw_row ''2.0.12'' NVRAM_FW_2_0_14 (Some (fw_func_2_0_13_to_2_0_14 E))
        (Some (fw_func_2_0_14_to_2_0_13 E)),
      fw_row ''2.0.12'' NVRAM_FW_2_0_15 (Some (fw_func_2_0_14_to_2_0_15 E))
        (Some (fw_func_2_0_15_to_2_0_14 E)),
      fw_row ''3.0.0'' NVRAM_FW_3_0_0 (Some (fw_func_2_0_15_to_3_0_0 E))
        (Some (fw_func_3_0_0_to_2_0_15 E)),
      fw_row ''3.0.1'' NVRAM_FW_3_0_1 (Some (fw_func_3_0_0_to_3_0_1 E))
        (Some (fw_func_3_0_1_to_3_0_0 E)),
      fw_row ''3.0.2'' NVRAM_FW_3_0_2 (Some (fw_func_3_0_1_to_3_0_2 E))
        (Some (fw_func_3_0_2_to_3_0_1 E)),
      fw_row ''3.0.3'' NVRAM_FW_3_0_3 (Some (fw_func_3_0_2_to_3_0_3 E))
        (Some (fw_func_3_0_3_to_3_0_2 E)),
      fw_row ''3.0.4'' NVRAM_FW_3_0_4 (Some (fw_func_3_0_3_to_3_0_4 E))
        (Some (fw_func_3_0_4_to_3_0_3 E)),
      fw_row ''3.0.5'' NVRAM_FW_3_0_5 (Some (fw_func_3_0_4_to_3_0_5 E))
        (Some (fw_func_3_0_5_to_3_0_4 E)),
      fw_row ''3.0.6'' NVRAM_FW_3_0_6 (Some (fw_func_3_0_5_to_3_0_6 E))
        (Some (fw_func_3_0_6_to_3_0_5 E)),
      fw_row ''3.0.7'' NVRAM_FW_3_0_7 (Some (fw_func_3_0_6_to_3_0_7 E))
        (Some (fw_func_3_0_7_to_3_0_6 E)),
      fw_row ''3.0.8'' NVRAM_FW_3_0_8 (Some (fw_func_3_0_7_to_3_0_8 E))
        (Some (fw_func_3_0_8_to_3_0_7 E)),
      fw_row ''3.0.9'' NVRAM_FW_3_0_9 (Some (fw_func_3_0_8_to_3_0_9 E))
        (Some (fw_func_3_0_9_to_3_0_8 E)),
      fw_row ''3.0.10'' NVRAM_FW_3_0_10 (Some (fw_func_3_0_9_to_3_0_10 E))
        (Some (fw_func_3_0_10_to_3_0_9 E)),
      fw_row ''3.0.11'' NVRAM_FW_3_0_11 (Some (fw_func_3_0_10_to_3_0_11 E))
        (Some (fw_func_3_0_11_to_3_0_10 E)),
      fw_row ''3.0.12'' NVRAM_FW_3_0_12 (Some (fw_func_3_0_11_to_3_0_12 E))
        (Some (fw_func_3_0_12_to_3_0_11 E)),
      fw_row ''3.0.13'' NVRAM_FW_3_0_13 (Some (fw_func_3_0_12_to_3_0_13 E))
        (Some (fw_func_3_0_13_to_3_0_12 E)),
      fw_row ''3.0.14'' NVRAM_FW_3_0_14 (Some (fw_func_3_0_13_to_3_0_14 E))
        (Some (fw_func_3_0_14_to_3_0_13 E)),
      fw_row ''3.0.15'' NVRAM_FW_3_0_15 (Some (fw_func_3_0_14_to_3_0_15 E))
        (Some (fw_func_3_0_15_to_3_0_14 E)),
      fw_row ''3.0.16'' NVRAM_FW_3_0_16 (Some (fw_func_3_0_15_to_3_0_16 E))
        (Some (fw_func_3_0_16_to_3_0_15 E)),
      fw_row ''3.0.17'' NVRAM_FW_3_0_17 (Some (fw_func_3_0_16_to_3_0_17 E))
        (Some (fw_func_3_0_17_to_3_0_16 E)),
      fw_row ''3.0.18'' NVRAM_FW_3_0_18 (Some (fw_func_3_0_17_to_3_0_18 E))
        (Some (fw_func_3_0_18_to_3_0_17 E)),
      fw_row ''3.0.19'' NVRAM_FW_3_0_19 (Some (fw_func_3_0_18_to_3_0_19 E))
        (Some (fw_func_3_0_19_to_3_0_18 E)),
      fw_row ''3.0.20'' NVRAM_FW_3_0_20 (Some (fw_func_3_0_19_to_3_0_20 E))
        (Some (fw_func_3_0_20_to_3_0_19 E)),
      fw_row ''3.1.0'' NVRAM_FW_3_1_0 (Some (fw_func_3_0_20_to_3_1_0 E))
        (Some (fw_func_3_1_0_to_3_0_20 E)),
      fw_row ''3.1.1'' NVRAM_FW_3_1_1 (Some (fw_func_3_1_0_to_3_1_1 E))
        (Some (fw_func_3_1_1_to_3_1_0 E)),
      fw_row ''3.1.2'' NVRAM_FW_3_1_2 (Some (fw_func_3_1_1_to_3_1_2 E))
        (Some (fw_func_3_1_2_to_3_1_1 E)),
      fw_row ''3.1.3'' NVRAM_FW_3_1_3 (Some (fw_func_3_1_2_to_3_1_3 E))
        (Some (fw_func_3_1_3_to_3_1_2 E)),
      fw_row ''3.1.4'' NVRAM_FW_3_1_4 (Some (fw_func_3_1_3_to_3_1_4 E))
        (Some (fw_func_3_1_4_to_3_1_3 E)),
      fw_row ''3.1.5'' NVRAM_FW_3_1_5 (Some (fw_func_3_1_4_to_3_1_5 E))
        (Some (fw_func_3_1_5_to_3_1_4 E)),
      fw_row ''3.1.6'' NVRAM_FW_3_1_6 (Some (fw_func_3_1_5_to_3_1_6 E))
        (Some (fw_func_3_1_6_to_3_1_5 E)),
      fw_row ''3.1.7'' NVRAM_FW_3_1_7 (Some (fw_func_3_1_6_to_3_1_7 E))
        (Some (fw_func_3_1_7_to_3_1_6 E)),
      fw_row ''3.1.8'' NVRAM_FW_3_1_8 (Some (fw_func_3_1_7_to_3_1_8 E))
        (Some (fw_func_3_1_8_to_3_1_7 E)),
      fw_row ''3.1.9'' NVRAM_FW_3_1_9 (Some (fw_func_3_1_8_to_3_1_9 E))
        (Some (fw_func_3_1_9_to_3_1_8 E)),
      fw_row ''3.1.10'' NVRAM_FW_3_1_10 (Some (fw_func_3_1_9_to_3_1_10 E))
        (Some (fw_func_3_1_10_to_3_1_9 E)),
      fw_row ''3.2.0'' NVRAM_FW_3_2_0 (Some (fw_func_3_1_9_to_3_2_0 E))
        (Some (fw_func_3_2_0_to_3_1_9 E)),
      fw_row ''3.2.1'' NVRAM_FW_3_2_1 (Some (fw_func_3_2_0_to_3_2_1 E))
        (Some (fw_func_3_2_1_to_3_2_0 E)),
      fw_row ''3.2.2'' NVRAM_FW_3_2_2 (Some (fw_func_3_2_1_to_3_2_2 E))
        (Some (fw_func_3_2_2_to_3_2_1 E))]"

end
