(* ===== verification/Fw_Upgrade.thy ===== *)
theory Fw_Upgrade
  imports Fw_Table
begin

text \<open>
  Moving the variables to another firmware version: \<^verbatim>\<open>get_ver\<close>, \<^verbatim>\<open>nvram_upgrade\<close>, \<^verbatim>\<open>nvram_downgrade\<close> and what they
  call, in \<^verbatim>\<open>src/package/ezp-nvram/src/nvram_linux.c\<close>.
\<close>

section \<open>Version numbers\<close>

text \<open>
  \<^verbatim>\<open>VER_TO_VERID\<close>: four bits each for the first two numbers, eight for the third, four for the stage and eight
  for the number of the alpha or beta release.
\<close>

definition VER_TO_VERID :: "nat \<Rightarrow> nat \<Rightarrow> nat \<Rightarrow> char \<Rightarrow> nat \<Rightarrow> 32 word" where
  "VER_TO_VERID major sub minor ab vab =
     push_bit 24 (of_nat major) + push_bit 20 (of_nat sub) + push_bit 12 (of_nat minor) +
     (if ab = CHR ''r'' then 0 else push_bit 8 (of_nat (of_char ab - 97 + 1))) + of_nat vab"

text \<open>\<^verbatim>\<open>strchr\<close>: the string from the first occurrence of the character on.\<close>

definition strchr :: "char \<Rightarrow> string \<Rightarrow> string option" where
  "strchr ch s = (case dropWhile (\<lambda>x. x \<noteq> ch) s of [] \<Rightarrow> None | x # xs \<Rightarrow> Some (x # xs))"

lemma strchr_shorter: "strchr ch s = Some t \<Longrightarrow> length t \<le> length s \<and> t \<noteq> []"
  using length_dropWhile_le [of "\<lambda>x. x \<noteq> ch" s]
  by (cases "dropWhile (\<lambda>x. x \<noteq> ch) s") (auto simp: strchr_def)

text \<open>
  The loop over the numbers: the first two are shifted by four bits, the others by eight.  The shifts are
  those of the 32-bit registers.
\<close>

function ver_loop :: "string \<Rightarrow> nat \<Rightarrow> 32 word \<Rightarrow> 32 word" where
  "ver_loop verstart dot_level relv =
     (case strchr (CHR ''.'') verstart of
        Some dotptr \<Rightarrow>
          ver_loop (tl dotptr) (dot_level + 1)
            (push_bit (if dot_level < 2 then 4 else 8) relv + of_int (atoi verstart))
      | None \<Rightarrow> push_bit 8 relv + of_int (atoi verstart))"
  by pat_completeness auto

termination
  by (relation "measure (\<lambda>(s, _, _). length s)") (auto dest!: strchr_shorter simp: Suc_le_eq neq_Nil_conv)

declare ver_loop.simps [simp del]

text \<open>
  \<^verbatim>\<open>get_ver\<close>: version, number of the alpha or beta release, and stage.  \<^term>\<open>None\<close> leaves the variables of the
  caller alone.
\<close>

definition get_ver :: "string \<Rightarrow> (32 word \<times> 32 word \<times> char) option" where
  "get_ver verstr =
     (if strchr (CHR ''.'') verstr = None then None
      else
        let relv = ver_loop verstr 0 0;
            dashptr = strchr (CHR ''-'') verstr;
            ahphaptr = strchr (CHR ''A'') verstr;
            betaptr = strchr (CHR ''B'') verstr;
            (relv, alphabetav, stage) =
              (if ahphaptr \<noteq> None \<and> dashptr \<noteq> None
               then (push_bit 4 relv + 1, of_int (atoi (tl (the ahphaptr))), CHR ''b'')
               else if betaptr \<noteq> None \<and> dashptr \<noteq> None
               then (push_bit 4 relv + 2, of_int (atoi (tl (the betaptr))), CHR ''c'')
               else (push_bit 4 relv, 0, CHR ''a''))
        in Some (push_bit 8 relv + alphabetav, alphabetav, stage))"

section \<open>Special cases\<close>

definition non_standard_release_process :: "'s env \<Rightarrow> string \<Rightarrow> string \<Rightarrow> 's world \<Rightarrow> (bool \<times> 's world) c" where
  "non_standard_release_process E old_str new_str w =
     (let (oldver, oldabver, oldab) = (case get_ver old_str of Some r \<Rightarrow> r | None \<Rightarrow> (0, 0, CHR ''r''));
          (newver, newabver, newab) = (case get_ver new_str of Some r \<Rightarrow> r | None \<Rightarrow> (0, 0, CHR ''r''));
          below = (\<lambda>id. oldver < id \<and> id \<le> newver)
      in if oldab \<noteq> newab \<and> oldab \<noteq> CHR ''a'' \<and> newab \<noteq> CHR ''a'' then Some (False, w)
         else if drop_bit 12 oldver \<noteq> drop_bit 12 newver then Some (False, w)
         else do {
           (tocommit, w) \<leftarrow>
             (if newver = VER_TO_VERID 3 0 7 (CHR ''a'') 37 then do {
                w \<leftarrow> put_attr E ''ntp_rule'' 0 ''zone'' ''UTC0'' w;
                w \<leftarrow> put_attr E ''ntp_rule'' 0 ''daylight'' ''0'' w;
                Some (True, w)
              }
              else Some (False, w));
           (tocommit, w) \<leftarrow>
             (if defined (bld E) PLATFORM_M2E then do {
                (tocommit, w) \<leftarrow>
                  (if oldver \<le> VER_TO_VERID 3 1 0 (CHR ''a'') 2 \<and> VER_TO_VERID 3 1 0 (CHR ''a'') 2 \<le> newver
                   then map_option (Pair True) (nvram_default E w) else Some (tocommit, w));
                (tocommit, w) \<leftarrow>
                  (if below (VER_TO_VERID 3 1 0 (CHR ''a'') 9)
                   then map_option (Pair True) (nvram_default_rule E ''wan_pptp_l2tp_rule'' w) else Some (tocommit, w));
                (tocommit, w) \<leftarrow>
                  (if VER_TO_VERID 3 1 0 (CHR ''a'') 9 \<le> oldver \<and> newver < VER_TO_VERID 3 1 0 (CHR ''a'') 9
                   then map_option (Pair True) (set_var E ''wan_pptp_l2tp_rule'' [] w) else Some (tocommit, w));
                (if below (VER_TO_VERID 3 1 0 (CHR ''a'') 14)
                 then map_option (Pair True)
                        (nvram_default E (call_system ''mtd write /rom/rom/uboot.bin Bootload'' w))
                 else Some (tocommit, w))
              }
              else Some (tocommit, w));
           (if defined (bld E) PLATFORM_AXA \<and> below (VER_TO_VERID 3 0 7 (CHR ''a'') 50)
            then map_option (Pair True) (nvram_default E w) else Some (tocommit, w))
         })"

text \<open>It always returns 1.\<close>

definition special_processing :: "'s env \<Rightarrow> 's world \<Rightarrow> 's world c" where
  "special_processing E w = do {
     tmp \<leftarrow> attr_text E ''ssh_rule'' 0 ''enable'' 32 EZPLIB_USE_CLI w;
     w \<leftarrow> (if \<not> starts_with (CHR ''0'') tmp then put_attr E ''ssh_rule'' 0 ''enable'' ''0'' w else Some w);
     val \<leftarrow> nvram_get E ''turbonat_enable'' w;
     w \<leftarrow> (if val = None \<or> starts_with (CHR ''0'') (the val) then fset_var E ''turbonat_enable'' ''1'' w else Some w);
     commit_vars E w
   }"

definition fw_version_update :: "'s env \<Rightarrow> string \<Rightarrow> 's world \<Rightarrow> 's world c" where
  "fw_version_update E new_str w = do {
     w \<leftarrow> fset_var E ''fw_version'' new_str w;
     w \<leftarrow> fset_var E ''custom_fw_version'' (CUSTOM_PROD_VERSION (bld E)) w;
     commit_vars E w
   }"

definition mosra_ntp :: string where
  "mosra_ntp = ''^1^pool^north-america.pool.ntp.org^^UTC0^1''"

definition mosra_special_firmware_setting :: "'s env \<Rightarrow> 's world \<Rightarrow> 's world c" where
  "mosra_special_firmware_setting E w = do {
     tmp \<leftarrow> nvram_get E ''ntp_rule'' w;
     if tmp \<noteq> Some mosra_ntp then do {
       w \<leftarrow> fset_var E ''ntp_rule'' mosra_ntp w;
       commit_vars E w
     }
     else Some w
   }"

section \<open>The search for the version\<close>

text \<open>\<^verbatim>\<open>1.6.5-RC1\<close> becomes \<^verbatim>\<open>1.6.5\<close>.\<close>

definition purify :: "string \<Rightarrow> string" where
  "purify s = takeWhile (\<lambda>ch. ch = CHR ''.'' \<or> is_digit ch) s"

text \<open>The loop over the table keeps the last entry that matches.\<close>

definition find_version :: "'s nvram_fw_tuple list \<Rightarrow> string \<Rightarrow> int option \<Rightarrow> int option" where
  "find_version table s dflt = fold (\<lambda>v acc. if fw_str v = s then Some (fw_version v) else acc) table dflt"

text \<open>The entry with index \<open>i\<close>, and a call of its function unless that is NULL.\<close>

definition table_entry :: "'s nvram_fw_tuple list \<Rightarrow> int \<Rightarrow> 's nvram_fw_tuple c" where
  "table_entry table i = (if 0 \<le> i \<and> i < int (length table) then Some (table ! nat i) else None)"

definition run_upgrade :: "'s env \<Rightarrow> int \<Rightarrow> 's world \<Rightarrow> 's world c" where
  "run_upgrade E i w = do {
     v \<leftarrow> table_entry (nvram_fw_table E) i;
     case fw_upgrade_func v of Some f \<Rightarrow> f w | None \<Rightarrow> Some w
   }"

definition run_downgrade :: "'s env \<Rightarrow> int \<Rightarrow> 's world \<Rightarrow> 's world c" where
  "run_downgrade E i w = do {
     v \<leftarrow> table_entry (nvram_fw_table E) i;
     case fw_downgrade_func v of Some f \<Rightarrow> f w | None \<Rightarrow> Some w
   }"

text \<open>\<^verbatim>\<open>for (i = old + 1; i <= new; i++)\<close> and \<^verbatim>\<open>for (i = old; i >= new + 1; i--)\<close>\<close>

definition upgrade_loop :: "'s env \<Rightarrow> int \<Rightarrow> int \<Rightarrow> 's world \<Rightarrow> 's world c" where
  "upgrade_loop E old new w = fold_c (run_upgrade E) [old + 1..new] w"

definition downgrade_loop :: "'s env \<Rightarrow> int \<Rightarrow> int \<Rightarrow> 's world \<Rightarrow> 's world c" where
  "downgrade_loop E old new w = fold_c (run_downgrade E) (rev [new + 1..old]) w"

definition unset_subsubcat :: "'s env \<Rightarrow> bool \<Rightarrow> 's world \<Rightarrow> (bool \<times> 's world) c" where
  "unset_subsubcat E change w = do {
     s \<leftarrow> nvram_safe_get E ''prod_subsubcat'' w;
     if s \<noteq> [] then map_option (Pair True) (unset_var E ''prod_subsubcat'' w) else Some (change, w)
   }"

section \<open>Upgrading and downgrading\<close>

text \<open>
  The part of \<^verbatim>\<open>nvram_upgrade\<close> that runs when the version strings differ at all.
\<close>

definition upgrade_prologue :: "'s env \<Rightarrow> string \<Rightarrow> string \<Rightarrow> 's world \<Rightarrow> (bool \<times> 's world) c" where
  "upgrade_prologue E old_str new_str w =
     (if old_str \<noteq> new_str then do {
        w \<leftarrow> (if defined (bld E) PLATFORM_AXA \<or> defined (bld E) PLATFORM_M2E
               then map_option snd (non_standard_release_process E old_str new_str w) else Some w);
        w \<leftarrow> special_processing E w;
        w \<leftarrow> fw_version_update E new_str w;
        Some (True, w)
      }
      else Some (False, w))"

text \<open>
  \<^verbatim>\<open>nvram_upgrade\<close>, which returns whether anything changed.  The variable \<^verbatim>\<open>new\<close> is not assigned when the
  version of the build is not in the table; \<^verbatim>\<open>old = 0xEFFFFFFF\<close> is a negative \<^verbatim>\<open>int\<close>.
\<close>

definition nvram_upgrade :: "'s env \<Rightarrow> string option \<Rightarrow> 's world \<Rightarrow> (bool \<times> 's world) c" where
  "nvram_upgrade E source w = do {
     old_str \<leftarrow> (case source of
                    Some s \<Rightarrow> if s \<noteq> [] then Some s else nvram_safe_get E ''fw_version'' w
                  | None \<Rightarrow> nvram_safe_get E ''fw_version'' w);
     let new_str = EZP_PROD_VERSION (bld E);
     if 32 \<le> length old_str \<or> 32 \<le> length new_str then None
     else do {
       (change, w) \<leftarrow> upgrade_prologue E old_str new_str w;
       let old_str = (if purify old_str = [] then ''0.0.0'' else purify old_str);
       let new_str = purify new_str;
       old \<leftarrow> find_version (nvram_fw_table E) old_str (Some (- 268435457));
       let new = find_version (nvram_fw_table E) new_str None;
       w \<leftarrow> (if defined (bld E) EZP_SUB_BRAND_SONY then mosra_special_firmware_setting E w else Some w);
       new \<leftarrow> new;
       (change, w) \<leftarrow> (if old < new then map_option (Pair True) (upgrade_loop E old new w) else Some (change, w));
       unset_subsubcat E change w
     }
   }"

text \<open>\<^verbatim>\<open>nvram_downgrade\<close>: an unknown target version counts as newer than all.\<close>

definition nvram_downgrade :: "'s env \<Rightarrow> string \<Rightarrow> 's world \<Rightarrow> (bool \<times> 's world) c" where
  "nvram_downgrade E target w = do {
     old_str \<leftarrow> nvram_safe_get E ''fw_version'' w;
     if 32 \<le> length old_str \<or> 32 \<le> length target then None
     else do {
       (change, w) \<leftarrow>
         (if old_str \<noteq> target then do {
            w \<leftarrow> (if defined (bld E) PLATFORM_AXA \<or> defined (bld E) PLATFORM_M2E
                   then map_option snd (non_standard_release_process E old_str target w) else Some w);
            w \<leftarrow> special_processing E w;
            Some (True, w)
          }
          else Some (False, w));
       let old_str = (if purify old_str = [] then ''0.0.0'' else purify old_str);
       let new_str = (if purify target = [] then ''0.0.0'' else purify target);
       old \<leftarrow> find_version (nvram_fw_table E) old_str (Some 0);
       new \<leftarrow> find_version (nvram_fw_table E) new_str (Some NVRAM_FW_INVALID);
       (change, w) \<leftarrow>
         (if new < old then do {
            w \<leftarrow> downgrade_loop E old new w;
            w \<leftarrow> fw_version_update E target w;
            Some (True, w)
          }
          else Some (change, w));
       unset_subsubcat E change w
     }
   }"

end
