(* ===== verification/Fw_Version.thy ===== *)
theory Fw_Version
  imports Demo Fw_Upgrade
begin

text \<open>
  Version numbers: what \<^verbatim>\<open>get_ver\<close> makes of a version string, that the numbers are ordered as the versions are,
  and the table of versions.
\<close>

section \<open>Searching a character\<close>

lemma strchr_append: "ch \<notin> set s \<Longrightarrow> strchr ch (s @ ch # t) = Some (ch # t)"
  by (induction s) (auto simp: strchr_def)

lemma strchr_skip: "ch \<notin> set s \<Longrightarrow> strchr ch (s @ t) = strchr ch t"
  by (induction s) (auto simp: strchr_def)

lemma strchr_Cons: "strchr ch (x # s) = (if x = ch then Some (x # s) else strchr ch s)"
  by (simp add: strchr_def)

lemma strchr_Nil [simp]: "strchr ch [] = None"
  by (simp add: strchr_def)

lemma nat_to_dec_no_char: "\<not> is_digit ch \<Longrightarrow> ch \<notin> set (nat_to_dec n)"
  using nat_to_dec_digits by blast

lemma strchr_digits [simp]: "\<not> is_digit ch \<Longrightarrow> strchr ch (nat_to_dec n @ s) = strchr ch s"
  "\<not> is_digit ch \<Longrightarrow> strchr ch (nat_to_dec n) = None"
  using strchr_skip [of ch "nat_to_dec n" s] strchr_skip [of ch "nat_to_dec n" "[]"]
  by (simp_all add: nat_to_dec_no_char)

lemma dec_value_stop: "\<forall>c \<in> set s. is_digit c \<Longrightarrow> t = [] \<or> \<not> is_digit (hd t) \<Longrightarrow> dec_value acc (s @ t) = dec_value acc s"
  by (cases t; induction s arbitrary: acc) auto

lemma atoi_number:
  assumes "n < 2147483648" and "t = [] \<or> \<not> is_digit (hd t)"
  shows "atoi (nat_to_dec n @ t) = int n"
proof -
  obtain c s where s: "nat_to_dec n = c # s"
    by (cases "nat_to_dec n") auto
  then have c: "is_digit c"
    using nat_to_dec_digits [of n] by simp
  have "dec_value 0 (nat_to_dec n @ t) = n"
    using dec_value_stop [OF nat_to_dec_digits assms(2)] dec_value_nat_to_dec by simp
  then show ?thesis
    using s is_digit_not_space [OF c] is_digit_not_sign [OF c] assms(1)
    by (simp add: atoi_def Let_def clamp_int_def)
qed

section \<open>The number of a version\<close>

definition version_text :: "nat \<Rightarrow> nat \<Rightarrow> nat \<Rightarrow> string" where
  "version_text major sub minor = nat_to_dec major @ ''.'' @ nat_to_dec sub @ ''.'' @ nat_to_dec minor"

definition version_ok :: "nat \<Rightarrow> nat \<Rightarrow> nat \<Rightarrow> nat \<Rightarrow> bool" where
  "version_ok major sub minor vab \<longleftrightarrow> major < 16 \<and> sub < 16 \<and> minor < 256 \<and> vab < 256"

text \<open>The number of a version, as a natural number; the stage is 0 for a release and 1 for an alpha version.\<close>

definition ver_number :: "nat \<Rightarrow> nat \<Rightarrow> nat \<Rightarrow> nat \<Rightarrow> nat \<Rightarrow> nat" where
  "ver_number major sub minor stage vab = major * 2 ^ 24 + sub * 2 ^ 20 + minor * 2 ^ 12 + stage * 2 ^ 8 + vab"

lemma not_digits [simp]: "\<not> is_digit (CHR ''.'')" "\<not> is_digit (CHR ''-'')" "\<not> is_digit (CHR ''A'')" "\<not> is_digit (CHR ''B'')"
  by (simp_all add: is_digit_def)

lemma ver_loop_text:
  assumes "major < 2147483648" "sub < 2147483648" "minor < 2147483648"
    and "t = [] \<or> \<not> is_digit (hd t)" and "CHR ''.'' \<notin> set t"
  shows "ver_loop (version_text major sub minor @ t) 0 0 = of_nat (major * 2 ^ 12 + sub * 2 ^ 8 + minor)"
proof -
  have nt: "strchr (CHR ''.'') t = None"
    using strchr_skip [of "CHR ''.''" t "[]"] assms(5) by simp
  show ?thesis
    unfolding version_text_def append_assoc
    by (subst ver_loop.simps, subst ver_loop.simps, subst ver_loop.simps)
      (simp add: strchr_Cons atoi_number assms(1-4) nt push_bit_eq_mult algebra_simps)
qed

lemma get_ver_release:
  assumes "version_ok major sub minor 0"
  shows "get_ver (version_text major sub minor) = Some (of_nat (ver_number major sub minor 0 0), 0, CHR ''a'')"
proof -
  have "ver_loop (version_text major sub minor) 0 0 = of_nat (major * 2 ^ 12 + sub * 2 ^ 8 + minor)"
    using ver_loop_text [of major sub minor "[]"] assms by (simp add: version_ok_def)
  then show ?thesis
    by (simp add: get_ver_def Let_def strchr_Cons ver_number_def push_bit_eq_mult algebra_simps)
      (simp add: version_text_def strchr_Cons)
qed

lemma get_ver_alpha:
  assumes "version_ok major sub minor vab"
  shows "get_ver (version_text major sub minor @ ''-A'' @ nat_to_dec vab) =
    Some (of_nat (ver_number major sub minor 1 vab), of_nat vab, CHR ''b'')"
proof -
  have "ver_loop (version_text major sub minor @ ''-A'' @ nat_to_dec vab) 0 0 =
      of_nat (major * 2 ^ 12 + sub * 2 ^ 8 + minor)"
    using assms by (intro ver_loop_text) (auto simp: version_ok_def nat_to_dec_no_char)
  moreover have "atoi (nat_to_dec vab) = int vab"
    using atoi_number [of vab "[]"] assms by (simp add: version_ok_def)
  ultimately show ?thesis
    by (simp add: get_ver_def Let_def ver_number_def push_bit_eq_mult algebra_simps)
      (simp add: version_text_def strchr_Cons)
qed

lemma VER_TO_VERID_number:
  "VER_TO_VERID major sub minor (CHR ''r'') vab = of_nat (ver_number major sub minor 0 vab)"
  "VER_TO_VERID major sub minor (CHR ''a'') vab = of_nat (ver_number major sub minor 1 vab)"
  by (simp_all add: VER_TO_VERID_def ver_number_def push_bit_eq_mult algebra_simps)

lemma ver_number_bound:
  assumes "version_ok major sub minor vab" and "stage < 16"
  shows "ver_number major sub minor stage vab < 2 ^ 32"
  using assms by (simp add: version_ok_def ver_number_def)

lemma unat_version:
  assumes "version_ok major sub minor vab" and "stage < 16"
  shows "unat (of_nat (ver_number major sub minor stage vab) :: 32 word) = ver_number major sub minor stage vab"
  using ver_number_bound [OF assms] by (simp add: unat_of_nat)

lemma digits_less:
  fixes a a' b b' B :: nat
  assumes "b < B" and "b' < B"
  shows "a * B + b < a' * B + b' \<longleftrightarrow> a < a' \<or> a = a' \<and> b < b'"
proof -
  consider "a < a'" | "a = a'" | "a' < a" by linarith
  then show ?thesis
  proof cases
    case 1
    then have "(a + 1) * B \<le> a' * B" by (intro mult_right_mono) auto
    then show ?thesis using 1 assms by simp
  next
    case 2
    then show ?thesis by simp
  next
    case 3
    then have "(a' + 1) * B \<le> a * B" by (intro mult_right_mono) auto
    then show ?thesis using 3 assms by simp
  qed
qed

lemma digits_eq:
  fixes a a' b b' B :: nat
  assumes "b < B" and "b' < B"
  shows "a * B + b = a' * B + b' \<longleftrightarrow> a = a' \<and> b = b'"
  using digits_less [OF assms, of a a'] digits_less [OF assms(2,1), of a' a] by (metis linorder_neqE_nat less_irrefl)

lemma ver_number_less:
  assumes "version_ok ma su mi va" and "version_ok ma' su' mi' va'" and "st < 16" and "st' < 16"
  shows "ver_number ma su mi st va < ver_number ma' su' mi' st' va' \<longleftrightarrow>
    ma < ma' \<or> ma = ma' \<and> (su < su' \<or> su = su' \<and> (mi < mi' \<or> mi = mi' \<and> (st < st' \<or> st = st' \<and> va < va')))"
proof -
  have n: "ver_number ma su mi st va = (((ma * 16 + su) * 256 + mi) * 16 + st) * 256 + va" for ma su mi st va
    by (simp add: ver_number_def algebra_simps)
  show ?thesis
    unfolding n using assms by (simp only: version_ok_def digits_less digits_eq) blast
qed

section \<open>The table\<close>

lemma table_versions: "map fw_version (nvram_fw_table E) = [0..66]"
  by (simp add: nvram_fw_table_def fw_row_def fw_version_defs upto.simps)

lemma length_table: "length (nvram_fw_table E) = 67"
  using arg_cong [OF table_versions, of length] by simp

lemma table_version_nth: "i < 67 \<Longrightarrow> fw_version (nvram_fw_table E ! i) = int i"
  using arg_cong [OF table_versions [of E], of "\<lambda>xs. xs ! i"] length_table [of E] by simp

lemma find_version_fold:
  "find_version table s dflt = fold (\<lambda>(n, v) acc. if n = s then Some v else acc) (map (\<lambda>v. (fw_str v, fw_version v)) table) dflt"
  by (simp add: find_version_def fold_map comp_def)

lemma find_version_cases:
  "find_version table s dflt = Some v \<Longrightarrow> dflt = Some v \<or> (\<exists>e \<in> set table. fw_str e = s \<and> fw_version e = v)"
proof (induction table arbitrary: dflt)
  case Nil
  then show ?case by (simp add: find_version_def)
next
  case (Cons e table)
  then have "find_version table s (if fw_str e = s then Some (fw_version e) else dflt) = Some v"
    by (simp add: find_version_def)
  from Cons.IH [OF this] show ?case
    by (auto split: if_splits)
qed

lemma find_version_unknown:
  "s \<notin> fw_str ` set table \<Longrightarrow> find_version table s dflt = dflt"
  unfolding find_version_def by (induction table) auto

lemma find_version_range:
  assumes "find_version (nvram_fw_table E) s None = Some v"
  shows "0 \<le> v \<and> v \<le> 66"
proof -
  obtain e where "e \<in> set (nvram_fw_table E)" "fw_version e = v"
    using find_version_cases [OF assms] by auto
  then have "v \<in> set (map fw_version (nvram_fw_table E))"
    by auto
  then show ?thesis
    by (simp only: table_versions) simp
qed

text \<open>The text that is searched does not depend on the variable the result goes to, when it is found.\<close>

lemma find_version_found:
  "s \<in> fw_str ` set table \<Longrightarrow> find_version table s d = find_version table s d'"
  unfolding find_version_def by (induction table arbitrary: d d') auto

lemma find_version_mem:
  "s \<in> fw_str ` set table \<Longrightarrow> find_version table s None \<noteq> None"
  using find_version_found [of s table None "Some 0"]
    fold_invariant [of table "\<lambda>_. True" "\<lambda>acc. acc \<noteq> None" "Some 0" "\<lambda>v acc. if fw_str v = s then Some (fw_version v) else acc"]
  by (auto simp: find_version_def)

lemma known_version_not_empty:
  assumes "find_version (nvram_fw_table E) s None = Some n"
  shows "s \<noteq> []"
proof
  assume "s = []"
  then have "find_version (nvram_fw_table E) s None = None"
    by (simp add: find_version_def nvram_fw_table_def fw_row_def)
  then show False
    using assms by simp
qed

lemma find_version_known:
  assumes "find_version table s None = Some v"
  shows "find_version table s d = Some v"
  using assms find_version_found [of s table d None] find_version_unknown [of s table None]
  by (cases "s \<in> fw_str ` set table") auto

end
