(* ===== verification/Fw_Facts.thy ===== *)
theory Fw_Facts
  imports Fw_Version
begin

text \<open>
  What upgrading does to the variables of a device that keeps its contract.
\<close>

section \<open>Loops over the versions\<close>

lemma upgrade_loop_split:
  assumes "a \<le> b" and "b \<le> c"
  shows "upgrade_loop E a c w = do { w' \<leftarrow> upgrade_loop E a b w; upgrade_loop E b c w' }"
proof -
  have "[a + 1..c] = [a + 1..b] @ [b + 1..c]"
    using assms upto_split1 [of "a + 1" "b + 1" c] upto_split2 [of "a + 1" b c]
    by (cases "a = b") auto
  then show ?thesis
    by (simp add: upgrade_loop_def fold_c_append)
qed

lemma run_upgrade_entry:
  "0 \<le> i \<Longrightarrow> i < 67 \<Longrightarrow> run_upgrade E i w =
     (case fw_upgrade_func (nvram_fw_table E ! nat i) of Some f \<Rightarrow> f w | None \<Rightarrow> Some w)"
  by (simp add: run_upgrade_def table_entry_def length_table)

lemma run_upgrade_outside: "i < 0 \<Longrightarrow> run_upgrade E i w = None"
  by (simp add: run_upgrade_def table_entry_def)

lemma bind_fold_c_Nil [simp]: "Option.bind m (fold_c f []) = m"
  by (cases m) simp_all

lemma fold_c_noop: "(\<And>x. x \<in> set xs \<Longrightarrow> f x w = Some w) \<Longrightarrow> fold_c f xs w = Some w"
  by (induction xs) auto

text \<open>
  In a build without the platform and brand macros that the migrations test, the versions from 3.0.1 to 3.2.0
  change nothing.
\<close>

definition plain_build :: "build \<Rightarrow> bool" where
  "plain_build b \<longleftrightarrow>
     \<not> defined b EZP_PROD_SUPERCAT_X \<and> \<not> defined b PLATFORM_AXA \<and> \<not> defined b PLATFORM_M2E \<and>
     \<not> defined b EZP_SUB_BRAND_SONY \<and> \<not> defined b EZP_PROD_BRAND_SONY \<and> \<not> defined b EZP_PROD_BRAND_ALLIS"

definition quiet_tuple :: "'s nvram_fw_tuple \<Rightarrow> bool" where
  "quiet_tuple v \<longleftrightarrow> (\<forall>f w. fw_upgrade_func v = Some f \<longrightarrow> f w = Some w)"

lemma quiet_versions:
  assumes "plain_build (bld E)"
  shows "list_all quiet_tuple (take 32 (drop 33 (nvram_fw_table E)))"
  using assms
  by (simp add: nvram_fw_table_def fw_row_def quiet_tuple_def plain_build_def fw_noop_defs
      fw_func_3_0_7_to_3_0_8_def fw_func_3_0_20_to_3_1_0_def fw_func_3_1_1_to_3_1_2_def platform_defaults_def)

lemma run_upgrade_quiet:
  assumes "plain_build (bld E)" and "33 \<le> i" and "i \<le> 64"
  shows "run_upgrade E i w = Some w"
proof -
  have "take 32 (drop 33 (nvram_fw_table E)) ! (nat i - 33) = nvram_fw_table E ! nat i"
    using assms(2,3) by (simp add: length_table)
  moreover have "nat i - 33 < length (take 32 (drop 33 (nvram_fw_table E)))"
    using assms(2,3) by (simp add: length_table)
  ultimately have "quiet_tuple (nvram_fw_table E ! nat i)"
    using quiet_versions [OF assms(1)] unfolding list_all_length by metis
  then show ?thesis
    using assms(2,3) by (auto simp: run_upgrade_entry quiet_tuple_def split: option.split)
qed

lemma upgrade_loop_quiet:
  "plain_build (bld E) \<Longrightarrow> NVRAM_FW_3_0_0 \<le> old \<Longrightarrow> new \<le> NVRAM_FW_3_2_0 \<Longrightarrow> upgrade_loop E old new w = Some w"
  unfolding upgrade_loop_def
  by (intro fold_c_noop run_upgrade_quiet) (auto simp: NVRAM_FW_3_0_0_def NVRAM_FW_3_2_0_def)

lemma run_upgrade_3_2:
  "run_upgrade E 65 w = default_and_commit E w" "run_upgrade E 66 w = default_and_commit E w"
  by (simp_all add: run_upgrade_entry nvram_fw_table_def fw_row_def fw_func_3_2_0_to_3_2_1_def fw_func_3_2_1_to_3_2_2_def)

section \<open>The steps of an upgrade\<close>

context committing_device
begin

lemma commit_vars_abs:
  assumes "inv (kdev w)" and "cap (abs (kdev w))"
  shows "\<exists>k. commit_vars E w = Some (w\<lparr>kdev := k\<rparr>) \<and> inv k \<and> abs k = abs (kdev w)"
  using nvram_commit_abs [OF assms] by (auto simp: commit_vars_def)

lemma fset_var_abs:
  assumes "inv (kdev w)" and "cap (abs (kdev w))" and "good_name n" and "n \<in> names"
    and "\<not> defined (bld E) EZP_PROD_SUPERCAT_X" and "CHR 0x00 \<notin> set v" and "val_ok n v"
  shows "\<exists>k. fset_var E n v w = Some (w\<lparr>kdev := k\<rparr>) \<and> inv k \<and> cap (abs k) \<and>
             abs k = (abs (kdev w))(n := norm_val (Some v))"
  using fset_cap [OF assms(1-5), of "Some v"] assms(6,7) by (auto simp: fset_var_def)

lemma unset_var_abs:
  assumes "inv (kdev w)" and "cap (abs (kdev w))" and "good_name n"
    and "\<not> defined (bld E) EZP_PROD_SUPERCAT_X"
  shows "\<exists>k. unset_var E n w = Some (w\<lparr>kdev := k\<rparr>) \<and> inv k \<and> cap (abs k) \<and> abs k = (abs (kdev w))(n := None)"
  using nvram_fset_abs [OF assms(1,3,4), of None] cap_unset [OF assms(2)]
  by (auto simp: unset_var_def nvram_unset_def)

lemma default_and_commit_abs:
  assumes "inv (kdev w)" and "cap (abs (kdev w))" and "\<not> defined (bld E) EZP_PROD_SUPERCAT_X"
    and "\<forall>v \<in> set (nvram_ezpacket_default w). tuple_ok names val_ok v"
  shows "\<exists>k. default_and_commit E w = Some (w\<lparr>kdev := k\<rparr>) \<and> inv k \<and> cap (abs k) \<and>
             abs k = fold (default_entry (nvram_ezpacket_default w)) (nvram_ezpacket_default w) (abs (kdev w))"
proof -
  let ?t = "nvram_ezpacket_default w"
  obtain k where k: "nvram_default E w = Some (w\<lparr>kdev := k\<rparr>)" "inv k" "cap (abs k)"
      "abs k = fold (default_entry ?t) ?t (abs (kdev w))"
    using nvram_default_abs [OF assms] by blast
  then obtain k' where "commit_vars E (w\<lparr>kdev := k\<rparr>) = Some (w\<lparr>kdev := k'\<rparr>)" "inv k'" "abs k' = abs k"
    using commit_vars_abs [of "w\<lparr>kdev := k\<rparr>"] by auto
  then show ?thesis
    using k by (intro exI [of _ k']) (simp add: default_and_commit_def)
qed

lemma upgrade_3_2_abs:
  assumes "inv (kdev w)" and "cap (abs (kdev w))" and plain: "\<not> defined (bld E) EZP_PROD_SUPERCAT_X"
    and ok: "\<forall>v \<in> set (nvram_ezpacket_default w). tuple_ok names val_ok v"
  shows "\<exists>k. upgrade_loop E NVRAM_FW_3_2_0 NVRAM_FW_3_2_2 w = Some (w\<lparr>kdev := k\<rparr>) \<and> inv k \<and> cap (abs k) \<and>
     abs k = fold (default_entry (nvram_ezpacket_default w)) (nvram_ezpacket_default w)
               (fold (default_entry (nvram_ezpacket_default w)) (nvram_ezpacket_default w) (abs (kdev w)))"
proof -
  let ?d = "fold (default_entry (nvram_ezpacket_default w)) (nvram_ezpacket_default w)"
  obtain k where k: "default_and_commit E w = Some (w\<lparr>kdev := k\<rparr>)" "inv k" "cap (abs k)" "abs k = ?d (abs (kdev w))"
    using default_and_commit_abs [OF assms] by blast
  then obtain k' where "default_and_commit E (w\<lparr>kdev := k\<rparr>) = Some (w\<lparr>kdev := k'\<rparr>)" "inv k'" "cap (abs k')"
      "abs k' = ?d (abs k)"
    using default_and_commit_abs [of "w\<lparr>kdev := k\<rparr>"] plain ok by auto
  moreover have "[65..66] = [65, 66 :: int]"
    by (simp add: upto.simps)
  ultimately show ?thesis
    using k
    by (intro exI [of _ k']) (simp add: upgrade_loop_def NVRAM_FW_3_2_0_def NVRAM_FW_3_2_2_def run_upgrade_3_2)
qed

lemma fw_version_update_abs:
  assumes "inv (kdev w)" and "cap (abs (kdev w))" and plain: "\<not> defined (bld E) EZP_PROD_SUPERCAT_X"
    and names: "''fw_version'' \<in> names" "''custom_fw_version'' \<in> names"
    and v: "CHR 0x00 \<notin> set v" "val_ok ''fw_version'' v"
    and c: "CHR 0x00 \<notin> set (CUSTOM_PROD_VERSION (bld E))" "val_ok ''custom_fw_version'' (CUSTOM_PROD_VERSION (bld E))"
  shows "\<exists>k. fw_version_update E v w = Some (w\<lparr>kdev := k\<rparr>) \<and> inv k \<and> cap (abs k) \<and>
     abs k = (abs (kdev w))(''fw_version'' := norm_val (Some v),
               ''custom_fw_version'' := norm_val (Some (CUSTOM_PROD_VERSION (bld E))))"
proof -
  obtain k where k: "fset_var E ''fw_version'' v w = Some (w\<lparr>kdev := k\<rparr>)" "inv k" "cap (abs k)"
      "abs k = (abs (kdev w))(''fw_version'' := norm_val (Some v))"
    using fset_var_abs [OF assms(1,2) _ names(1) plain v] by (auto simp: good_name_def)
  obtain k' where k': "fset_var E ''custom_fw_version'' (CUSTOM_PROD_VERSION (bld E)) (w\<lparr>kdev := k\<rparr>) = Some (w\<lparr>kdev := k'\<rparr>)"
      "inv k'" "cap (abs k')" "abs k' = (abs k)(''custom_fw_version'' := norm_val (Some (CUSTOM_PROD_VERSION (bld E))))"
    using fset_var_abs [of "w\<lparr>kdev := k\<rparr>", OF _ _ _ names(2) plain c] k by (auto simp: good_name_def)
  obtain k'' where k'': "commit_vars E (w\<lparr>kdev := k'\<rparr>) = Some (w\<lparr>kdev := k''\<rparr>)" "inv k''" "abs k'' = abs k'"
    using commit_vars_abs [of "w\<lparr>kdev := k'\<rparr>"] k' by auto
  show ?thesis
    using k k' k'' by (intro exI [of _ k'']) (simp add: fw_version_update_def)
qed

end

end
