(* ===== verification/Fw_Attr.thy ===== *)
theory Fw_Attr
  imports Fw_Base Ezp_Attr
begin

text \<open>
  One attribute of one rule, as the migrations read and write it: \<open>attr_of\<close> and \<open>with_attr\<close> are the effect of
  \<open>attr_text\<close> and \<open>put_attr\<close> on the text of the rule set.
\<close>

definition attr_of :: "nat \<Rightarrow> nat \<Rightarrow> string \<Rightarrow> string" where
  "attr_of n p wl = split_on ATTR_SEP (split_on RULE_SEP wl ! n) ! p"

definition attr_count :: "nat \<Rightarrow> string \<Rightarrow> nat" where
  "attr_count n wl = length (split_on ATTR_SEP (split_on RULE_SEP wl ! n))"

definition with_attr :: "nat \<Rightarrow> nat \<Rightarrow> string \<Rightarrow> string \<Rightarrow> string" where
  "with_attr n p new wl =
     join_with RULE_SEP
       ((split_on RULE_SEP wl)[n := join_with ATTR_SEP ((split_on ATTR_SEP (split_on RULE_SEP wl ! n))[p := new])])"

lemma with_attr_same: "with_attr n p (attr_of n p wl) wl = wl"
  by (simp add: with_attr_def attr_of_def join_split)

lemma split_with_attr:
  assumes "n < length (split_on RULE_SEP wl)" and "p < attr_count n wl" and "attr_text_ok new" and "CHR ''%'' \<notin> set wl"
  shows "split_on RULE_SEP (with_attr n p new wl) =
      (split_on RULE_SEP wl)[n := join_with ATTR_SEP ((split_on ATTR_SEP (split_on RULE_SEP wl ! n))[p := new])]"
    and "split_on ATTR_SEP (split_on RULE_SEP (with_attr n p new wl) ! n) = (split_on ATTR_SEP (split_on RULE_SEP wl ! n))[p := new]"
    and "CHR ''%'' \<notin> set (with_attr n p new wl)"
  using replaced_rule_set [OF assms(1,3) refl _ refl assms(4), of p] assms(2)
  by (simp_all add: with_attr_def attr_count_def)

lemma with_attr:
  assumes "n < length (split_on RULE_SEP wl)" and "p < attr_count n wl" and "attr_text_ok new" and "CHR ''%'' \<notin> set wl"
  shows "length (split_on RULE_SEP (with_attr n p new wl)) = length (split_on RULE_SEP wl)"
    and "attr_count n (with_attr n p new wl) = attr_count n wl"
    and "attr_of n q (with_attr n p new wl) = (if q = p then new else attr_of n q wl)"
    and "with_attr n q old (with_attr n p new wl) = (if q = p then with_attr n p old wl
           else join_with RULE_SEP ((split_on RULE_SEP wl)[n := join_with ATTR_SEP
                  ((split_on ATTR_SEP (split_on RULE_SEP wl ! n))[p := new, q := old])]))"
  using split_with_attr [OF assms] assms(2)
  by (auto simp: attr_count_def attr_of_def with_attr_def nth_list_update)

lemma with_attr_swap:
  assumes "n < length (split_on RULE_SEP wl)" and "p < attr_count n wl" and "q < attr_count n wl" and "p \<noteq> q"
    and "attr_text_ok u" and "attr_text_ok v" and "CHR ''%'' \<notin> set wl"
  shows "with_attr n q v (with_attr n p u wl) = with_attr n p u (with_attr n q v wl)"
  using with_attr(4) [OF assms(1,2,5,7), of q v] with_attr(4) [OF assms(1,3,6,7), of p u] assms(4)
  by (simp add: list_update_swap)

lemma with_attr_not_empty:
  assumes "n < length (split_on RULE_SEP wl)" and "p < attr_count n wl" and "attr_text_ok new" and "CHR ''%'' \<notin> set wl"
    and "1 < attr_count n wl"
  shows "with_attr n p new wl \<noteq> []"
proof
  assume "with_attr n p new wl = []"
  then have "length (split_on RULE_SEP wl) = 1" "attr_count n [] = attr_count n wl"
    using with_attr(1,2) [OF assms(1-4)] by simp_all
  then show False
    using assms(1,5) by (simp add: attr_count_def)
qed

text \<open>A stored attribute is again one that may be written.\<close>

lemma attr_of_ok:
  assumes "n < length (split_on RULE_SEP wl)" and "p < attr_count n wl" and "CHR 0x00 \<notin> set wl" and "CHR ''%'' \<notin> set wl"
  shows "attr_text_ok (attr_of n p wl)"
proof -
  have r: "split_on RULE_SEP wl ! n \<in> set (split_on RULE_SEP wl)"
    using assms(1) by simp
  have a: "attr_of n p wl \<in> set (split_on ATTR_SEP (split_on RULE_SEP wl ! n))"
    using assms(2) by (simp add: attr_of_def attr_count_def)
  have sub: "set (attr_of n p wl) \<subseteq> set (split_on RULE_SEP wl ! n)" "set (split_on RULE_SEP wl ! n) \<subseteq> set wl"
    using split_on_subset [OF a] split_on_subset [OF r] by auto
  then show ?thesis
    using assms(3,4) split_on_tokens [OF a] split_on_tokens [OF r] by (auto simp: attr_text_ok_def)
qed

definition shown_text :: "show_result \<Rightarrow> string" where
  "shown_text res = (case snd res of None \<Rightarrow> [] | Some t \<Rightarrow> t)"

lemma shown_snprintf [simp]: "length s < bsize \<Longrightarrow> shown_text (show_snprintf s bsize) = s"
  by (simp add: shown_text_def show_snprintf_fits)

context nvram_device
begin

lemma attr_text_abs:
  assumes "stored_rules abs inv (bld E) w rs wl" and "n < length (split_on RULE_SEP wl)"
    and "rules_find (rules (defined (bld E))) rs = Some (Some as)" "attr_table as"
    and "attr_pos as ty = Some p" "ty \<noteq> []" and "p < attr_count n wl"
    and "use \<in> {EZPLIB_USE_CLI, EZPLIB_USE_WEB}"
  shows "attr_text E rs n ty bsize use w =
    map_option shown_text (show_call (attr_fn use (as ! p)) (Some (attr_of n p wl)) bsize)"
  using get_attr_use_abs [OF assms(1-6) _ assms(8), of bsize] assms(7)
  by (cases "show_call (attr_fn use (as ! p)) (Some (attr_of n p wl)) bsize")
    (auto simp: attr_text_def attr_of_def attr_count_def shown_def shown_text_def)

lemma put_attr_abs:
  assumes st: "stored_rules abs inv (bld E) w rs wl" and wr: "may_write w rs"
    and n: "n < length (split_on RULE_SEP wl)"
    and tab: "rules_find (rules (defined (bld E))) rs = Some (Some as)" "attr_table as"
    and pos: "attr_pos as an = Some p" "an \<noteq> []" and new: "attr_text_ok new"
    and p: "p < attr_count n wl" "1 < attr_count n wl" "attr_count n wl \<le> length as - 1"
    and len: "Suc (length (with_attr n p new wl)) < EZPLIB_BUF_LEN"
    and rm: "room (abs (kdev w)) rs (with_attr n p new wl)"
  shows "\<exists>k. put_attr E rs n an new w = Some (w\<lparr>kdev := k\<rparr>) \<and>
             abs k = (abs (kdev w))(rs \<mapsto> with_attr n p new wl) \<and>
             stored_rules abs inv (bld E) (w\<lparr>kdev := k\<rparr>) rs (with_attr n p new wl) \<and> may_write (w\<lparr>kdev := k\<rparr>) rs"
proof -
  have "CHR ''%'' \<notin> set wl"
    using st by (simp add: stored_rules_def rule_text_def)
  then have ne: "with_attr n p new wl \<noteq> []"
    using with_attr_not_empty n p(1,2) new by blast
  obtain k where "ezplib_replace_attr E (Some rs) (int n) (Some an) (Some new) w = Some (0, w\<lparr>kdev := k\<rparr>)"
      "abs k = (abs (kdev w))(rs \<mapsto> with_attr n p new wl)"
      "stored_rules abs inv (bld E) (w\<lparr>kdev := k\<rparr>) rs (with_attr n p new wl)" "may_write (w\<lparr>kdev := k\<rparr>) rs"
    using replace_attr_stored [OF st wr n tab pos new refl, of _] p len rm ne
    unfolding with_attr_def attr_count_def by blast
  then show ?thesis
    by (intro exI [of _ k]) (simp add: put_attr_def)
qed

end

end
