(* ===== verification/Fw_Account.thy ===== *)
theory Fw_Account
  imports Fw_Attr Fw_Migrate_2 Kernel_Flash
begin

text \<open>
  The PPPoE account: 2.0.6 stores user name and password in base64, and the migrations encode and decode
  them.
\<close>

section \<open>Texts\<close>

lemma b64_char: "codes ! (n AND 63) \<in> set codes"
  using and_63_less [of n] by simp

lemma set_b64_groups: "set (b64_groups s) \<subseteq> insert (CHR ''='') (set codes)"
  by (induction s rule: b64_groups.induct) (auto simp: Let_def b64_char)

lemma b64_attr_ok: "attr_text_ok (b64_groups s)"
proof -
  have "CHR 0x00 \<notin> insert (CHR ''='') (set codes)" "RULE_SEP \<notin> insert (CHR ''='') (set codes)"
      "ATTR_SEP \<notin> insert (CHR ''='') (set codes)" "CHR ''%'' \<notin> insert (CHR ''='') (set codes)"
    by (simp_all add: codes_def RULE_SEP_def ATTR_SEP_def)
  then show ?thesis
    using set_b64_groups [of s] by (auto simp: attr_text_ok_def)
qed

lemma b64_encode_fits: "length s \<le> 189 \<Longrightarrow> base64_encode s 256 = (CRYPT_OK, Some (b64_groups s))"
  by (simp add: base64_encode_def Let_def)

lemma length_b64_fits: "length s \<le> 189 \<Longrightarrow> length (b64_groups s) \<le> 252"
  by (simp add: length_b64_groups)

lemma length_with_attr:
  assumes "n < length (split_on RULE_SEP wl)" and "p < attr_count n wl"
  shows "length (with_attr n p new wl) + length (attr_of n p wl) = length wl + length new"
proof -
  have upd: "length (join_with d (ts[i := x])) + length (ts ! i) = length (join_with d ts) + length x"
    if "i < length ts" for d :: char and ts i x
  proof -
    have "length (emit_all d (ts[i := x])) + length (ts ! i) = length (emit_all d ts) + length x"
      using that by (induction ts arbitrary: i) (auto simp: nth_Cons' list_update.simps split: nat.splits)
    moreover have "ts \<noteq> []" "ts[i := x] \<noteq> []"
      using that by auto
    ultimately show ?thesis
      by (simp add: emit_all_join)
  qed
  have "length (join_with ATTR_SEP ((split_on ATTR_SEP (split_on RULE_SEP wl ! n))[p := new])) + length (attr_of n p wl) =
      length (split_on RULE_SEP wl ! n) + length new"
    using upd [of p "split_on ATTR_SEP (split_on RULE_SEP wl ! n)" ATTR_SEP new] assms(2)
    by (simp add: attr_of_def attr_count_def join_split)
  then show ?thesis
    using upd [of n "split_on RULE_SEP wl" RULE_SEP
        "join_with ATTR_SEP ((split_on ATTR_SEP (split_on RULE_SEP wl ! n))[p := new])"] assms(1)
    by (simp add: with_attr_def join_split)
qed

section \<open>The two migrations on a device\<close>

lemma rules_find_skip:
  "list_all (\<lambda>r. rule_name r \<noteq> None \<and> rule_name r \<noteq> Some rs) xs \<Longrightarrow> rules_find (xs @ ys) rs = rules_find ys rs"
  by (induction xs) auto

lemma pppoe_table: "rules_find (rules D) ''wan_pppoe_rule'' = Some (Some wan_pppoe_rule_attr)"
  by (simp add: rules_def rules_find_skip)

lemma attr_table_pppoe: "attr_table wan_pppoe_rule_attr"
  by code_simp

text \<open>The positions of user name and password, and the functions that show them.\<close>

definition account_attr :: "string \<Rightarrow> nat \<Rightarrow> bool" where
  "account_attr an p \<longleftrightarrow> an = ''username'' \<and> p = 1 \<or> an = ''passwd'' \<and> p = 2"

lemma pppoe_attrs:
  "attr_pos wan_pppoe_rule_attr ''username'' = Some 1" "attr_pos wan_pppoe_rule_attr ''passwd'' = Some 2"
  "wan_pppoe_rule_attr ! 1 = attr_entry ''username'' Show_b64_value Show_value"
  "wan_pppoe_rule_attr ! 2 = attr_entry ''passwd'' Show_b64_value Show_value"
  by (simp_all add: wan_pppoe_rule_attr_def)

lemma use_attr: "attr_fn EZPLIB_USE_WEB (attr_entry an f g) = g" "attr_fn EZPLIB_USE_CLI (attr_entry an f g) = f"
  by (simp_all add: attr_fn_def EZPLIB_USE_WEB_def EZPLIB_USE_CLI_def)

lemma account_attr:
  assumes "account_attr an p"
  shows "attr_pos wan_pppoe_rule_attr an = Some p" "an \<noteq> []" "p \<le> 2"
    "attr_fn EZPLIB_USE_WEB (wan_pppoe_rule_attr ! p) = Show_value"
    "attr_fn EZPLIB_USE_CLI (wan_pppoe_rule_attr ! p) = Show_b64_value"
  using assms pppoe_attrs unfolding account_attr_def by (auto simp only: use_attr)

lemma length_pppoe: "length wan_pppoe_rule_attr = 10"
  by (simp add: wan_pppoe_rule_attr_def)

text \<open>A stored PPPoE rule set whose first rule has user name and password.\<close>

definition pppoe_stored ::
    "('s \<Rightarrow> string \<Rightarrow> string option) \<Rightarrow> ('s \<Rightarrow> bool) \<Rightarrow> (nvmap \<Rightarrow> bool) \<Rightarrow> build \<Rightarrow> 's world \<Rightarrow> string \<Rightarrow> bool" where
  "pppoe_stored vars ok capacity b w wl \<longleftrightarrow>
     stored_rules vars ok b w ''wan_pppoe_rule'' wl \<and> may_write w ''wan_pppoe_rule'' \<and> capacity (vars (kdev w)) \<and>
     2 < attr_count 0 wl \<and> attr_count 0 wl \<le> 9"

text \<open>The rule set with both attributes encoded.\<close>

definition encoded_account :: "string \<Rightarrow> string" where
  "encoded_account wl = with_attr 0 2 (b64_groups (attr_of 0 2 wl)) (with_attr 0 1 (b64_groups (attr_of 0 1 wl)) wl)"

text \<open>Without IPsec rules: the set is empty and its number, as after a first boot, zero.\<close>

definition ipsec_free :: "('s \<Rightarrow> string \<Rightarrow> string option) \<Rightarrow> 's \<Rightarrow> bool" where
  "ipsec_free vars k \<longleftrightarrow>
     vars k ''ipsec_rule'' = None \<and> (\<forall>v. vars k ''ipsec_rule_num'' = Some v \<longrightarrow> atoi v \<le> 0)"

context bounded_device
begin

lemma put_account:
  assumes st: "pppoe_stored abs inv cap (bld E) w wl" and an: "account_attr an p" and new: "attr_text_ok new"
    and len: "Suc (length (with_attr 0 p new wl)) < EZPLIB_BUF_LEN"
    and room: "''wan_pppoe_rule'' \<in> names" "val_ok ''wan_pppoe_rule'' (with_attr 0 p new wl)"
  shows "\<exists>k. put_attr E ''wan_pppoe_rule'' 0 an new w = Some (w\<lparr>kdev := k\<rparr>) \<and>
             abs k = (abs (kdev w))(''wan_pppoe_rule'' \<mapsto> with_attr 0 p new wl) \<and>
             pppoe_stored abs inv cap (bld E) (w\<lparr>kdev := k\<rparr>) (with_attr 0 p new wl)"
proof -
  have s: "stored_rules abs inv (bld E) w ''wan_pppoe_rule'' wl" "may_write w ''wan_pppoe_rule''" "cap (abs (kdev w))"
      "2 < attr_count 0 wl" "attr_count 0 wl \<le> 9" "CHR ''%'' \<notin> set wl"
    using st by (auto simp: pppoe_stored_def stored_rules_def rule_text_def)
  have p: "p < attr_count 0 wl" "1 < attr_count 0 wl" "attr_count 0 wl \<le> length wan_pppoe_rule_attr - 1"
    using s(4,5) account_attr(3) [OF an] by (simp_all add: length_pppoe)
  obtain k where k: "put_attr E ''wan_pppoe_rule'' 0 an new w = Some (w\<lparr>kdev := k\<rparr>)"
      "abs k = (abs (kdev w))(''wan_pppoe_rule'' \<mapsto> with_attr 0 p new wl)"
      "stored_rules abs inv (bld E) (w\<lparr>kdev := k\<rparr>) ''wan_pppoe_rule'' (with_attr 0 p new wl)"
      "may_write (w\<lparr>kdev := k\<rparr>) ''wan_pppoe_rule''"
    using put_attr_abs [OF s(1,2), of 0, OF _ pppoe_table attr_table_pppoe account_attr(1,2) [OF an] new p len]
      cap_room [OF s(3) room] by auto
  then show ?thesis
    using cap_set [OF s(3) room] with_attr(2) [OF _ p(1) new s(6)] s(4,5)
    by (intro exI [of _ k]) (simp add: pppoe_stored_def)
qed

lemma encode_account:
  assumes st: "pppoe_stored abs inv cap (bld E) w wl" and an: "account_attr an p"
    and u: "u = attr_of 0 p wl" "length u \<le> 189"
    and len: "Suc (length (with_attr 0 p (b64_groups u) wl)) < EZPLIB_BUF_LEN"
    and room: "''wan_pppoe_rule'' \<in> names" "val_ok ''wan_pppoe_rule'' (with_attr 0 p (b64_groups u) wl)"
  shows "\<exists>k. encode_attr E an b64 w = Some (w\<lparr>kdev := k\<rparr>, Some (b64_groups u)) \<and>
             abs k = (abs (kdev w))(''wan_pppoe_rule'' \<mapsto> with_attr 0 p (b64_groups u) wl) \<and>
             pppoe_stored abs inv cap (bld E) (w\<lparr>kdev := k\<rparr>) (with_attr 0 p (b64_groups u) wl)"
proof -
  have s: "stored_rules abs inv (bld E) w ''wan_pppoe_rule'' wl" "p < attr_count 0 wl"
    using st account_attr(3) [OF an] by (auto simp: pppoe_stored_def)
  have "attr_text E ''wan_pppoe_rule'' 0 an 256 EZPLIB_USE_WEB w = Some u"
    using attr_text_abs [OF s(1), of 0, OF _ pppoe_table attr_table_pppoe account_attr(1,2) [OF an] s(2), of EZPLIB_USE_WEB 256]
      account_attr(4) [OF an] u by (simp add: show_value_def)
  then show ?thesis
    using put_account [OF st an b64_attr_ok len room] b64_encode_fits [OF u(2)] by (auto simp: encode_attr_def)
qed

lemma read_account:
  assumes st: "pppoe_stored abs inv cap (bld E) w wl" and an: "account_attr an p"
    and s: "attr_of 0 p wl = b64_groups u" "length u \<le> 189" "CHR 0x00 \<notin> set u"
  shows "attr_text E ''wan_pppoe_rule'' 0 an 256 EZPLIB_USE_CLI w = Some u"
proof -
  have "stored_rules abs inv (bld E) w ''wan_pppoe_rule'' wl" "p < attr_count 0 wl"
    using st account_attr(3) [OF an] by (auto simp: pppoe_stored_def)
  moreover have "show_b64_value (Some (b64_groups u)) 256 = Some (show_snprintf u 256)"
    using b64_encode_fits [OF s(2)] s(2,3) by (intro show_b64_value_encoded [of u 256]) (auto simp: EZPLIB_BUF_LEN_def)
  ultimately show ?thesis
    using attr_text_abs [of w _ wl 0, OF _ _ pppoe_table attr_table_pppoe account_attr(1,2) [OF an], of EZPLIB_USE_CLI 256]
      account_attr(5) [OF an] s by simp
qed

lemma decode_account:
  assumes st: "pppoe_stored abs inv cap (bld E) w wl" and an: "account_attr an p"
    and s: "attr_of 0 p wl = b64_groups u" "length u \<le> 189" "attr_text_ok u"
    and len: "Suc (length (with_attr 0 p u wl)) < EZPLIB_BUF_LEN"
    and room: "''wan_pppoe_rule'' \<in> names" "val_ok ''wan_pppoe_rule'' (with_attr 0 p u wl)"
  shows "\<exists>k. decode_attr E an w = Some (w\<lparr>kdev := k\<rparr>) \<and>
             abs k = (abs (kdev w))(''wan_pppoe_rule'' \<mapsto> with_attr 0 p u wl) \<and>
             pppoe_stored abs inv cap (bld E) (w\<lparr>kdev := k\<rparr>) (with_attr 0 p u wl)"
  using read_account [OF st an s(1,2)] put_account [OF st an s(3) len room] s(3)
  by (auto simp: decode_attr_def attr_text_ok_def)

text \<open>Without IPsec rules the migrations leave the IPsec variables alone.\<close>

lemma atoi_empty: "atoi [] = 0"
  by (simp add: atoi_def Let_def clamp_int_def)

lemma no_ipsec:
  assumes "inv (kdev w)" and "\<not> defined (bld E) EZP_PROD_SUPERCAT_X"
    and "ipsec_free abs (kdev w)"
  shows "\<exists>n \<le> 0. var_num E ''ipsec_rule_num'' w = Some n" and "cut_rule E ''ipsec_rule'' 0 25 256 0 0 w = Some w"
proof -
  have "nvram_get E ''ipsec_rule'' w = Some None"
      "nvram_get E ''ipsec_rule_num'' w = Some (abs (kdev w) ''ipsec_rule_num'')"
    using nvram_get_abs [OF assms(1) _ assms(2)] assms(3) by (simp_all add: good_name_def ipsec_free_def)
  then show "\<exists>n \<le> 0. var_num E ''ipsec_rule_num'' w = Some n" "cut_rule E ''ipsec_rule'' 0 25 256 0 0 w = Some w"
    using assms(3) atoi_empty
    by (auto simp: ipsec_free_def split: option.split simp: var_num_def nvram_safe_get_def cut_rule_def subrule_text_def put_rule_def
        ezplib_get_subrule_def ezplib_get_rule_def ezplib_replace_rule_def ezplib_get_rule_num_def ezplib_codes clamp_int_def)
qed

lemma upgrade_account:
  assumes st: "pppoe_stored abs inv cap (bld E) w wl"
    and lens: "length (attr_of 0 1 wl) \<le> 189" "length (attr_of 0 2 wl) \<le> 189" "length wl + 510 < EZPLIB_BUF_LEN"
    and room: "''wan_pppoe_rule'' \<in> names" "\<And>x. length x \<le> length wl + 504 \<Longrightarrow> val_ok ''wan_pppoe_rule'' x"
    and ipsec: "ipsec_free abs (kdev w)"
  shows "\<exists>k. fw_func_2_0_5_to_2_0_6 E w = Some (w\<lparr>kdev := k\<rparr>) \<and>
      abs k = (abs (kdev w))(''wan_pppoe_rule'' \<mapsto> encoded_account wl) \<and>
      pppoe_stored abs inv cap (bld E) (w\<lparr>kdev := k\<rparr>) (encoded_account wl)"
proof -
  let ?u = "attr_of 0 1 wl" and ?p = "attr_of 0 2 wl"
  let ?wl1 = "with_attr 0 1 (b64_groups ?u) wl" and ?wl2 = "encoded_account wl"
  have ok: "account_attr ''username'' 1" "account_attr ''passwd'' 2"
    by (simp_all add: account_attr_def)
  have s: "1 < attr_count 0 wl" "2 < attr_count 0 wl" "CHR ''%'' \<notin> set wl"
    using st by (auto simp: pppoe_stored_def stored_rules_def rule_text_def)
  note w1 = with_attr [OF _ s(1) b64_attr_ok s(3)]
  have l1: "length ?wl1 \<le> length wl + 252"
    using length_with_attr [OF _ s(1), of "b64_groups ?u"] length_b64_fits [OF lens(1)] by simp
  have l2: "length ?wl2 \<le> length wl + 504"
    using length_with_attr [of 0 ?wl1 2 "b64_groups ?p"] w1(1,2) s(2) l1 length_b64_fits [OF lens(2)]
    by (simp add: encoded_account_def)
  obtain k where k: "encode_attr E ''username'' None w = Some (w\<lparr>kdev := k\<rparr>, Some (b64_groups ?u))"
      "abs k = (abs (kdev w))(''wan_pppoe_rule'' \<mapsto> ?wl1)" "pppoe_stored abs inv cap (bld E) (w\<lparr>kdev := k\<rparr>) ?wl1"
    using encode_account [OF st ok(1) refl lens(1) _ room(1) room(2), of None] l1 lens(3) by auto
  have p: "attr_of 0 2 ?wl1 = ?p"
    using w1(3) [of 2 ?u] by simp
  obtain k' where k': "encode_attr E ''passwd'' (Some (b64_groups ?u)) (w\<lparr>kdev := k\<rparr>) = Some (w\<lparr>kdev := k'\<rparr>, Some (b64_groups ?p))"
      "abs k' = (abs k)(''wan_pppoe_rule'' \<mapsto> ?wl2)" "pppoe_stored abs inv cap (bld E) (w\<lparr>kdev := k'\<rparr>) ?wl2"
    using encode_account [OF k(3) ok(2) p [symmetric] lens(2) _ room(1) room(2), of "Some (b64_groups ?u)"] l2 lens(3)
    by (auto simp: encoded_account_def)
  have "ipsec_free abs k'"
    using k(2) k'(2) ipsec by (simp add: ipsec_free_def)
  then obtain n where "n \<le> 0" "var_num E ''ipsec_rule_num'' (w\<lparr>kdev := k'\<rparr>) = Some n"
    using k'(3) no_ipsec(1) [where w = "w\<lparr>kdev := k'\<rparr>"] by (auto simp: pppoe_stored_def stored_rules_def)
  then show ?thesis
    using k k' by (intro exI [of _ k']) (simp add: fw_func_2_0_5_to_2_0_6_def)
qed

lemma encoded_account_attrs:
  assumes "pppoe_stored abs inv cap (bld E) w wl"
  shows "attr_of 0 1 (encoded_account wl) = b64_groups (attr_of 0 1 wl)"
    and "attr_of 0 2 (encoded_account wl) = b64_groups (attr_of 0 2 wl)"
    and "with_attr 0 2 (attr_of 0 2 wl) (with_attr 0 1 (attr_of 0 1 wl) (encoded_account wl)) = wl"
    and "attr_text_ok (attr_of 0 1 wl)" and "attr_text_ok (attr_of 0 2 wl)"
proof -
  let ?u = "attr_of 0 1 wl" and ?p = "attr_of 0 2 wl"
  let ?wl1 = "with_attr 0 1 (b64_groups ?u) wl"
  have s: "1 < attr_count 0 wl" "2 < attr_count 0 wl" "CHR ''%'' \<notin> set wl" "CHR 0x00 \<notin> set wl"
    using assms abs_no_nul by (auto simp: pppoe_stored_def stored_rules_def rule_text_def)
  show ok: "attr_text_ok ?u" "attr_text_ok ?p"
    using s by (auto intro!: attr_of_ok)
  note 1 = with_attr [OF _ s(1) b64_attr_ok s(3)] and pct = split_with_attr(3) [OF _ s(1) b64_attr_ok s(3)]
  have c: "0 < length (split_on RULE_SEP ?wl1)" "1 < attr_count 0 ?wl1" "2 < attr_count 0 ?wl1" "CHR ''%'' \<notin> set ?wl1"
    using 1(2) s(1,2) pct by auto
  note 2 = with_attr [OF c(1,3) b64_attr_ok c(4)]
  show "attr_of 0 1 (encoded_account wl) = b64_groups ?u" "attr_of 0 2 (encoded_account wl) = b64_groups ?p"
    using 2(3) [of 1 ?p] 2(3) [of 2 ?p] 1(3) [of 1 ?u] by (simp_all add: encoded_account_def)
  have "with_attr 0 1 ?u (encoded_account wl) = with_attr 0 2 (b64_groups ?p) (with_attr 0 1 ?u ?wl1)"
    unfolding encoded_account_def using c ok(1) b64_attr_ok by (intro with_attr_swap) auto
  also have "with_attr 0 1 ?u ?wl1 = wl"
    using 1(4) [of 1 ?u ?u] with_attr_same by simp
  finally have "with_attr 0 1 ?u (encoded_account wl) = with_attr 0 2 (b64_groups ?p) wl" .
  then show "with_attr 0 2 ?p (with_attr 0 1 ?u (encoded_account wl)) = wl"
    using with_attr(4) [OF _ s(2) b64_attr_ok s(3), of 2 ?p ?p] with_attr_same by simp
qed

lemma downgrade_account:
  assumes st: "pppoe_stored abs inv cap (bld E) w wl" and st': "pppoe_stored abs inv cap (bld E) w' (encoded_account wl)"
    and lens: "length (attr_of 0 1 wl) \<le> 189" "length (attr_of 0 2 wl) \<le> 189" "length wl + 510 < EZPLIB_BUF_LEN"
    and room: "''wan_pppoe_rule'' \<in> names" "\<And>x. length x \<le> length wl + 504 \<Longrightarrow> val_ok ''wan_pppoe_rule'' x"
    and ipsec: "ipsec_free abs (kdev w')"
  shows "\<exists>k. fw_func_2_0_6_to_2_0_5 E w' = Some (w'\<lparr>kdev := k\<rparr>) \<and> inv k \<and>
      abs k = (abs (kdev w'))(''wan_pppoe_rule'' \<mapsto> wl)"
proof -
  let ?u = "attr_of 0 1 wl" and ?p = "attr_of 0 2 wl"
  note enc = encoded_account_attrs [OF st]
  let ?wl3 = "with_attr 0 1 ?u (encoded_account wl)"
  have an: "account_attr ''username'' 1" "account_attr ''passwd'' 2"
    by (simp_all add: account_attr_def)
  have s: "1 < attr_count 0 (encoded_account wl)" "2 < attr_count 0 (encoded_account wl)" "CHR ''%'' \<notin> set (encoded_account wl)"
    using st' by (auto simp: pppoe_stored_def stored_rules_def rule_text_def)
  have p: "attr_of 0 2 ?wl3 = b64_groups ?p" "attr_count 0 ?wl3 = attr_count 0 (encoded_account wl)"
    using with_attr(2,3) [OF _ s(1) enc(4) s(3)] enc(2) by simp_all
  have "length (with_attr 0 2 ?p ?wl3) + length (b64_groups ?p) = length ?wl3 + length ?p"
    using length_with_attr [of 0 ?wl3 2 ?p] p s(2) by simp
  then have l: "length ?wl3 \<le> length wl + 252"
    using enc(3) length_b64_fits [OF lens(2)] by simp
  obtain k where k: "decode_attr E ''username'' w' = Some (w'\<lparr>kdev := k\<rparr>)"
      "abs k = (abs (kdev w'))(''wan_pppoe_rule'' \<mapsto> ?wl3)" "pppoe_stored abs inv cap (bld E) (w'\<lparr>kdev := k\<rparr>) ?wl3"
    using decode_account [OF st' an(1) enc(1) lens(1) enc(4) _ room(1) room(2)] l lens(3) by auto
  obtain k' where k': "decode_attr E ''passwd'' (w'\<lparr>kdev := k\<rparr>) = Some (w'\<lparr>kdev := k'\<rparr>)"
      "abs k' = (abs k)(''wan_pppoe_rule'' \<mapsto> wl)" "pppoe_stored abs inv cap (bld E) (w'\<lparr>kdev := k'\<rparr>) wl"
    using decode_account [OF k(3) an(2) p(1) lens(2) enc(5) _ room(1) room(2)] enc(3) lens(3) by auto
  have "cut_rule E ''ipsec_rule'' 0 25 256 0 0 (w'\<lparr>kdev := k'\<rparr>) = Some (w'\<lparr>kdev := k'\<rparr>)"
    using k(2) k'(2,3) ipsec by (intro no_ipsec(2)) (auto simp: pppoe_stored_def stored_rules_def ipsec_free_def)
  then show ?thesis
    using k k' by (intro exI [of _ k']) (simp add: fw_func_2_0_6_to_2_0_5_def pppoe_stored_def stored_rules_def)
qed

end

end
