(* ===== verification/Fw_Special.thy ===== *)
theory Fw_Special
  imports Fw_Facts Fw_Account
begin

text \<open>
  The part of an upgrade that every change of the version runs: closing the SSH server, switching the NAT
  acceleration on and recording the version, as functions on the variables.
\<close>

section \<open>The table of the SSH rule\<close>

lemma ssh_rule_table: "rules_find (rules D) ''ssh_rule'' = Some (Some ssh_rule_attr)"
  by (simp add: rules_def rules_find_skip)

lemma attr_table_ssh: "attr_table ssh_rule_attr"
  by code_simp

lemma ssh_enable: "attr_pos ssh_rule_attr ''enable'' = Some 1" "length ssh_rule_attr = 4"
    "attr_fn EZPLIB_USE_CLI (ssh_rule_attr ! 1) = Show_value"
  by (simp_all add: ssh_rule_attr_def)

section \<open>What the special processing does to the variables\<close>

text \<open>The enable flag is the second attribute of the first rule.\<close>

definition close_ssh :: "string \<Rightarrow> string" where
  "close_ssh wl = (if starts_with (CHR ''0'') (attr_of 0 1 wl) then wl else with_attr 0 1 ''0'' wl)"

definition turbonat_on :: "string option \<Rightarrow> string" where
  "turbonat_on cur = (case cur of None \<Rightarrow> ''1'' | Some v \<Rightarrow> if starts_with (CHR ''0'') v then ''1'' else v)"

definition special_map :: "string \<Rightarrow> nvmap \<Rightarrow> nvmap" where
  "special_map wl m = m(''ssh_rule'' \<mapsto> close_ssh wl, ''turbonat_enable'' \<mapsto> turbonat_on (m ''turbonat_enable''))"

definition version_map :: "build \<Rightarrow> string \<Rightarrow> nvmap \<Rightarrow> nvmap" where
  "version_map b v m =
     m(''fw_version'' := norm_val (Some v), ''custom_fw_version'' := norm_val (Some (CUSTOM_PROD_VERSION b)))"

definition drop_subsubcat :: "nvmap \<Rightarrow> nvmap" where
  "drop_subsubcat m = (if empty_value (m ''prod_subsubcat'') then m else m(''prod_subsubcat'' := None))"

lemma drop_subsubcat_other: "x \<noteq> ''prod_subsubcat'' \<Longrightarrow> drop_subsubcat m x = m x"
  by (simp add: drop_subsubcat_def)

lemma drop_subsubcat_empty: "empty_value (drop_subsubcat m ''prod_subsubcat'')"
  by (simp add: drop_subsubcat_def empty_value_def)

text \<open>An SSH rule with two or three attributes that fits the buffers, also with its flag cleared.\<close>

definition ssh_ok :: "string \<Rightarrow> bool" where
  "ssh_ok wl \<longleftrightarrow>
     1 < attr_count 0 wl \<and> attr_count 0 wl \<le> 3 \<and>
     Suc (length (with_attr 0 1 ''0'' wl)) < EZPLIB_BUF_LEN"

definition upgrade_room :: "string set \<Rightarrow> (string \<Rightarrow> string \<Rightarrow> bool) \<Rightarrow> build \<Rightarrow> string \<Rightarrow> string \<Rightarrow> bool" where
  "upgrade_room names val_ok b v wl \<longleftrightarrow>
     {''ssh_rule'', ''turbonat_enable'', ''fw_version'', ''custom_fw_version''} \<subseteq> names \<and>
     val_ok ''ssh_rule'' (with_attr 0 1 ''0'' wl) \<and> val_ok ''turbonat_enable'' ''1'' \<and>
     CHR 0x00 \<notin> set v \<and> val_ok ''fw_version'' v \<and>
     CHR 0x00 \<notin> set (CUSTOM_PROD_VERSION b) \<and> val_ok ''custom_fw_version'' (CUSTOM_PROD_VERSION b)"

lemma zero_attr_ok: "attr_text_ok ''0''"
  by (simp add: attr_text_ok_def RULE_SEP_def ATTR_SEP_def)

lemma close_ssh_flag:
  "ssh_ok wl \<Longrightarrow> CHR ''%'' \<notin> set wl \<Longrightarrow> starts_with (CHR ''0'') (attr_of 0 1 (close_ssh wl))"
  using with_attr(3) [of 0 wl 1 "''0''" 1] zero_attr_ok
  by (auto simp: close_ssh_def ssh_ok_def starts_with_def)

lemma starts_with_snprintf: "1 < n \<Longrightarrow> starts_with c (snprintf_store n s) = starts_with c s"
  by (cases s; cases n) (auto simp: snprintf_store_def starts_with_def take_Cons split: nat.split)

context committing_device
begin

lemma ssh_flag_read:
  assumes st: "stored_rules abs inv (bld E) w ''ssh_rule'' wl" and ok: "ssh_ok wl"
  shows "\<exists>t. attr_text E ''ssh_rule'' 0 ''enable'' 32 EZPLIB_USE_CLI w = Some t \<and>
    starts_with c t = starts_with c (attr_of 0 1 wl)"
  using attr_text_abs [OF st, of 0 ssh_rule_attr "''enable''" 1 EZPLIB_USE_CLI 32] ok ssh_rule_table
    attr_table_ssh ssh_enable
  by (simp add: ssh_ok_def show_value_def shown_text_def show_snprintf_def starts_with_snprintf)

lemma close_ssh_step:
  assumes st: "stored_rules abs inv (bld E) w ''ssh_rule'' wl" and cap: "cap (abs (kdev w))"
    and wr: "may_write w ''ssh_rule''" and ok: "ssh_ok wl"
    and room: "''ssh_rule'' \<in> names" "val_ok ''ssh_rule'' (with_attr 0 1 ''0'' wl)"
  shows "\<exists>t k. attr_text E ''ssh_rule'' 0 ''enable'' 32 EZPLIB_USE_CLI w = Some t \<and>
     (if \<not> starts_with (CHR ''0'') t then put_attr E ''ssh_rule'' 0 ''enable'' ''0'' w else Some w) =
       Some (w\<lparr>kdev := k\<rparr>) \<and> inv k \<and> cap (abs k) \<and> abs k = (abs (kdev w))(''ssh_rule'' \<mapsto> close_ssh wl)"
proof -
  obtain t where t: "attr_text E ''ssh_rule'' 0 ''enable'' 32 EZPLIB_USE_CLI w = Some t"
      "starts_with (CHR ''0'') t = starts_with (CHR ''0'') (attr_of 0 1 wl)"
    using ssh_flag_read [OF st ok] by blast
  show ?thesis
  proof (cases "starts_with (CHR ''0'') (attr_of 0 1 wl)")
    case True
    then show ?thesis
      using t st cap by (intro exI [of _ t] exI [of _ "kdev w"]) (auto simp: close_ssh_def stored_rules_def)
  next
    case False
    have "attr_count 0 wl \<le> length ssh_rule_attr - 1" "1 < attr_count 0 wl"
        "Suc (length (with_attr 0 1 ''0'' wl)) < EZPLIB_BUF_LEN"
      using ok by (simp_all add: ssh_ok_def ssh_enable)
    then obtain k where "put_attr E ''ssh_rule'' 0 ''enable'' ''0'' w = Some (w\<lparr>kdev := k\<rparr>)"
        "abs k = (abs (kdev w))(''ssh_rule'' \<mapsto> with_attr 0 1 ''0'' wl)"
        "stored_rules abs inv (bld E) (w\<lparr>kdev := k\<rparr>) ''ssh_rule'' (with_attr 0 1 ''0'' wl)"
      using put_attr_abs [OF st wr, of 0, OF _ ssh_rule_table attr_table_ssh ssh_enable(1) _ zero_attr_ok]
        cap_room [OF cap room] by auto
    then show ?thesis
      using t False cap_set [OF cap room]
      by (intro exI [of _ t] exI [of _ k]) (simp add: close_ssh_def stored_rules_def)
  qed
qed

lemma turbonat_step:
  assumes w: "inv (kdev w)" "cap (abs (kdev w))" and plain: "\<not> defined (bld E) EZP_PROD_SUPERCAT_X"
    and room: "''turbonat_enable'' \<in> names" "val_ok ''turbonat_enable'' ''1''"
  shows "\<exists>val k. nvram_get E ''turbonat_enable'' w = Some val \<and>
     (if val = None \<or> starts_with (CHR ''0'') (the val) then fset_var E ''turbonat_enable'' ''1'' w else Some w) =
       Some (w\<lparr>kdev := k\<rparr>) \<and> inv k \<and> cap (abs k) \<and>
     abs k = (abs (kdev w))(''turbonat_enable'' \<mapsto> turbonat_on (abs (kdev w) ''turbonat_enable''))"
proof -
  let ?v = "abs (kdev w) ''turbonat_enable''"
  have get: "nvram_get E ''turbonat_enable'' w = Some ?v"
    using w plain by (intro nvram_get_abs) (simp_all add: good_name_def)
  show ?thesis
  proof (cases "?v = None \<or> starts_with (CHR ''0'') (the ?v)")
    case True
    obtain k where "fset_var E ''turbonat_enable'' ''1'' w = Some (w\<lparr>kdev := k\<rparr>)" "inv k" "cap (abs k)"
        "abs k = (abs (kdev w))(''turbonat_enable'' := norm_val (Some ''1''))"
      using fset_var_abs [OF w _ room(1) plain _ room(2)] by (auto simp: good_name_def)
    then show ?thesis
      using True get by (intro exI [of _ ?v] exI [of _ k]) (auto simp: turbonat_on_def split: option.split)
  next
    case False
    then show ?thesis
      using w get by (intro exI [of _ ?v] exI [of _ "kdev w"]) (auto simp: turbonat_on_def)
  qed
qed

lemma special_processing_abs:
  assumes st: "stored_rules abs inv (bld E) w ''ssh_rule'' wl" and cap: "cap (abs (kdev w))"
    and wr: "may_write w ''ssh_rule''" and ok: "ssh_ok wl" and room: "upgrade_room names val_ok (bld E) v wl"
  shows "\<exists>k. special_processing E w = Some (w\<lparr>kdev := k\<rparr>) \<and> inv k \<and> cap (abs k) \<and>
     abs k = special_map wl (abs (kdev w))"
proof -
  have plain: "\<not> defined (bld E) EZP_PROD_SUPERCAT_X"
    using st by (simp add: stored_rules_def)
  obtain t k where k: "attr_text E ''ssh_rule'' 0 ''enable'' 32 EZPLIB_USE_CLI w = Some t"
      "(if \<not> starts_with (CHR ''0'') t then put_attr E ''ssh_rule'' 0 ''enable'' ''0'' w else Some w) = Some (w\<lparr>kdev := k\<rparr>)"
      "inv k" "cap (abs k)" "abs k = (abs (kdev w))(''ssh_rule'' \<mapsto> close_ssh wl)"
    using close_ssh_step [OF st cap wr ok] room by (auto simp: upgrade_room_def)
  obtain u k' where k': "nvram_get E ''turbonat_enable'' (w\<lparr>kdev := k\<rparr>) = Some u"
      "(if u = None \<or> starts_with (CHR ''0'') (the u) then fset_var E ''turbonat_enable'' ''1'' (w\<lparr>kdev := k\<rparr>)
        else Some (w\<lparr>kdev := k\<rparr>)) = Some (w\<lparr>kdev := k'\<rparr>)"
      "inv k'" "cap (abs k')" "abs k' = (abs k)(''turbonat_enable'' \<mapsto> turbonat_on (abs k ''turbonat_enable''))"
    using turbonat_step [of "w\<lparr>kdev := k\<rparr>"] k(3,4) plain room by (auto simp: upgrade_room_def)
  obtain k'' where k'': "commit_vars E (w\<lparr>kdev := k'\<rparr>) = Some (w\<lparr>kdev := k''\<rparr>)" "inv k''" "abs k'' = abs k'"
    using commit_vars_abs [of "w\<lparr>kdev := k'\<rparr>"] k'(3,4) by auto
  have "special_processing E w = Some (w\<lparr>kdev := k''\<rparr>)"
    using k(1,2) k'(1,2) k''(1) by (simp add: special_processing_def)
  then show ?thesis
    using k(4,5) k'(4,5) k''(2,3) by (intro exI [of _ k'']) (simp add: special_map_def)
qed

lemma upgrade_prologue_abs:
  assumes st: "stored_rules abs inv (bld E) w ''ssh_rule'' wl" and cap: "cap (abs (kdev w))"
    and wr: "may_write w ''ssh_rule''" and ok: "ssh_ok wl" and room: "upgrade_room names val_ok (bld E) v wl"
    and plain: "plain_build (bld E)" and "old \<noteq> v"
  shows "\<exists>k. upgrade_prologue E old v w = Some (True, w\<lparr>kdev := k\<rparr>) \<and> inv k \<and> cap (abs k) \<and>
     abs k = version_map (bld E) v (special_map wl (abs (kdev w)))"
proof -
  obtain k where k: "special_processing E w = Some (w\<lparr>kdev := k\<rparr>)" "inv k" "cap (abs k)"
      "abs k = special_map wl (abs (kdev w))"
    using special_processing_abs [OF st cap wr ok room] by blast
  obtain k' where "fw_version_update E v (w\<lparr>kdev := k\<rparr>) = Some (w\<lparr>kdev := k'\<rparr>)" "inv k'" "cap (abs k')"
      "abs k' = version_map (bld E) v (abs k)"
    using fw_version_update_abs [of "w\<lparr>kdev := k\<rparr>" v] k(2,3) plain room
    by (auto simp: upgrade_room_def plain_build_def version_map_def)
  then show ?thesis
    using k assms(7) plain by (intro exI [of _ k']) (simp add: upgrade_prologue_def plain_build_def)
qed

lemma unset_subsubcat_abs:
  assumes "inv (kdev w)" and "cap (abs (kdev w))" and "\<not> defined (bld E) EZP_PROD_SUPERCAT_X"
  shows "\<exists>k. unset_subsubcat E True w = Some (True, w\<lparr>kdev := k\<rparr>) \<and> inv k \<and> cap (abs k) \<and>
     abs k = drop_subsubcat (abs (kdev w))"
proof -
  let ?v = "abs (kdev w) ''prod_subsubcat''"
  have name: "good_name ''prod_subsubcat''"
    by (simp add: good_name_def)
  have get: "nvram_safe_get E ''prod_subsubcat'' w = Some (case ?v of None \<Rightarrow> [] | Some x \<Rightarrow> x)"
    using nvram_get_abs [OF assms(1) name assms(3)] by (simp add: nvram_safe_get_def)
  show ?thesis
  proof (cases "empty_value ?v")
    case True
    then show ?thesis
      using get assms(1,2)
      by (intro exI [of _ "kdev w"]) (auto simp: unset_subsubcat_def empty_value_def drop_subsubcat_def)
  next
    case False
    then show ?thesis
      using get unset_var_abs [OF assms(1,2) name assms(3)]
      by (auto simp: unset_subsubcat_def empty_value_def drop_subsubcat_def)
  qed
qed

end

end
