(* ===== verification/Fw_Run.thy ===== *)
theory Fw_Run
  imports Fw_Special
begin

text \<open>
  Whole runs of \<^verbatim>\<open>nvram_upgrade\<close> on a device that keeps its contract, for builds without the platform and brand
  macros: the special processing, the migrations, and the removal of \<^verbatim>\<open>prod_subsubcat\<close>.
\<close>

text \<open>The entry of the table for a stored version.\<close>

definition stored_version :: "'s env \<Rightarrow> string \<Rightarrow> int option" where
  "stored_version E s = find_version (nvram_fw_table E) (if purify s = [] then ''0.0.0'' else purify s) None"

lemma stored_version_known: "stored_version E s = Some i \<Longrightarrow>
    find_version (nvram_fw_table E) (if purify s = [] then ''0.0.0'' else purify s) d = Some i"
  unfolding stored_version_def by (rule find_version_known)

context committing_device
begin

lemma nvram_upgrade_abs:
  assumes st: "stored_rules abs inv (bld E) w ''ssh_rule'' wl" and cap: "cap (abs (kdev w))"
    and wr: "may_write w ''ssh_rule''" and ok: "ssh_ok wl"
    and room: "upgrade_room names val_ok (bld E) (EZP_PROD_VERSION (bld E)) wl" and plain: "plain_build (bld E)"
    and ver: "abs (kdev w) ''fw_version'' = Some old" "old \<noteq> EZP_PROD_VERSION (bld E)"
      "length old < 32" "length (EZP_PROD_VERSION (bld E)) < 32"
    and tab: "stored_version E old = Some i" "find_version (nvram_fw_table E) (purify (EZP_PROD_VERSION (bld E))) None = Some n"
    and loop: "\<And>k. inv k \<Longrightarrow> cap (abs k) \<Longrightarrow> i < n \<Longrightarrow>
      \<exists>k'. upgrade_loop E i n (w\<lparr>kdev := k\<rparr>) = Some (w\<lparr>kdev := k'\<rparr>) \<and> inv k' \<and> cap (abs k') \<and> abs k' = f (abs k)"
  shows "\<exists>k. nvram_upgrade E None w = Some (True, w\<lparr>kdev := k\<rparr>) \<and> inv k \<and> cap (abs k) \<and>
    abs k = drop_subsubcat ((if i < n then f else id)
      (version_map (bld E) (EZP_PROD_VERSION (bld E)) (special_map wl (abs (kdev w)))))"
proof -
  let ?v = "EZP_PROD_VERSION (bld E)"
  have x: "\<not> defined (bld E) EZP_PROD_SUPERCAT_X" "\<not> defined (bld E) EZP_SUB_BRAND_SONY"
    using plain by (simp_all add: plain_build_def)
  have get: "nvram_safe_get E ''fw_version'' w = Some old"
    using nvram_get_abs [of w "''fw_version''"] st x(1) ver(1)
    by (simp add: nvram_safe_get_def stored_rules_def good_name_def)
  obtain k where k: "upgrade_prologue E old ?v w = Some (True, w\<lparr>kdev := k\<rparr>)" "inv k" "cap (abs k)"
      "abs k = version_map (bld E) ?v (special_map wl (abs (kdev w)))"
    using upgrade_prologue_abs [OF st cap wr ok room plain ver(2)] by blast
  obtain k' where k': "(if i < n then map_option (Pair True) (upgrade_loop E i n (w\<lparr>kdev := k\<rparr>)) else Some (True, w\<lparr>kdev := k\<rparr>)) =
        Some (True, w\<lparr>kdev := k'\<rparr>)" "inv k'" "cap (abs k')" "abs k' = (if i < n then f else id) (abs k)"
    using loop [OF k(2,3)] k(2,3) by (cases "i < n") auto
  obtain k'' where k'': "unset_subsubcat E True (w\<lparr>kdev := k'\<rparr>) = Some (True, w\<lparr>kdev := k''\<rparr>)" "inv k''" "cap (abs k'')"
      "abs k'' = drop_subsubcat (abs k')"
    using unset_subsubcat_abs [of "w\<lparr>kdev := k'\<rparr>"] k'(2,3) x(1) by auto
  have "nvram_upgrade E None w = Some (True, w\<lparr>kdev := k''\<rparr>)"
    using get ver(3,4) k(1) stored_version_known [OF tab(1)] tab(2) x(2) k'(1) k''(1)
    by (simp add: nvram_upgrade_def Let_def)
  then show ?thesis
    using k(4) k'(4) k''(2-4) by (intro exI [of _ k'']) simp
qed

text \<open>An unknown old version: the loop starts at a negative index of the table.\<close>

lemma nvram_upgrade_unknown:
  assumes st: "stored_rules abs inv (bld E) w ''ssh_rule'' wl" and cap: "cap (abs (kdev w))"
    and wr: "may_write w ''ssh_rule''" and ok: "ssh_ok wl"
    and room: "upgrade_room names val_ok (bld E) (EZP_PROD_VERSION (bld E)) wl" and plain: "plain_build (bld E)"
    and ver: "abs (kdev w) ''fw_version'' = Some old" "length old < 32" "length (EZP_PROD_VERSION (bld E)) < 32"
    and tab: "stored_version E old = None" "find_version (nvram_fw_table E) (purify (EZP_PROD_VERSION (bld E))) None = Some n"
  shows "nvram_upgrade E None w = None"
proof -
  let ?v = "EZP_PROD_VERSION (bld E)" and ?s = "if purify old = [] then ''0.0.0'' else purify old"
  have x: "\<not> defined (bld E) EZP_PROD_SUPERCAT_X" "\<not> defined (bld E) EZP_SUB_BRAND_SONY"
    using plain by (simp_all add: plain_build_def)
  have get: "nvram_safe_get E ''fw_version'' w = Some old"
    using nvram_get_abs [of w "''fw_version''"] st x(1) ver(1)
    by (simp add: nvram_safe_get_def stored_rules_def good_name_def)
  have s: "?s \<notin> fw_str ` set (nvram_fw_table E)"
    using tab(1) find_version_mem [of ?s "nvram_fw_table E"] by (auto simp: stored_version_def)
  have "old \<noteq> ?v"
    using tab known_version_not_empty [OF tab(2)] by (auto simp: stored_version_def)
  then obtain k where k: "upgrade_prologue E old ?v w = Some (True, w\<lparr>kdev := k\<rparr>)"
    using upgrade_prologue_abs [OF st cap wr ok room plain] by blast
  have "[- 268435457 + 1..n] = (- 268435456) # [- 268435456 + 1..n]"
    using find_version_range [OF tab(2)] upto_rec1 [of "- 268435456" n] by simp
  then have "upgrade_loop E (- 268435457) n (w\<lparr>kdev := k\<rparr>) = None"
    unfolding upgrade_loop_def by (simp add: run_upgrade_outside)
  moreover have "- 268435457 < n"
    using find_version_range [OF tab(2)] by simp
  ultimately show ?thesis
    using get ver(2,3) k find_version_unknown [OF s, of "Some (- 268435457)"] tab(2) x(2)
    by (simp add: nvram_upgrade_def Let_def)
qed

text \<open>A device that has the version of the build is left alone.\<close>

lemma nvram_upgrade_current:
  assumes "inv (kdev w)" and plain: "plain_build (bld E)"
    and ver: "abs (kdev w) ''fw_version'' = Some (EZP_PROD_VERSION (bld E))" "length (EZP_PROD_VERSION (bld E)) < 32"
    and tab: "find_version (nvram_fw_table E) (purify (EZP_PROD_VERSION (bld E))) None = Some n"
    and "empty_value (abs (kdev w) ''prod_subsubcat'')"
  shows "nvram_upgrade E None w = Some (False, w)"
proof -
  let ?v = "EZP_PROD_VERSION (bld E)"
  have x: "\<not> defined (bld E) EZP_PROD_SUPERCAT_X" "\<not> defined (bld E) EZP_SUB_BRAND_SONY"
    using plain by (simp_all add: plain_build_def)
  have get: "nvram_safe_get E ''fw_version'' w = Some ?v" "nvram_safe_get E ''prod_subsubcat'' w = Some []"
    using nvram_get_abs [of w "''fw_version''"] nvram_get_abs [of w "''prod_subsubcat''"] assms(1,6) x(1) ver(1)
    by (auto simp: nvram_safe_get_def good_name_def empty_value_def)
  have "purify ?v \<noteq> []"
    by (rule known_version_not_empty [OF tab])
  then show ?thesis
    using get ver(2) find_version_known [OF tab] tab x(2)
    by (simp add: nvram_upgrade_def Let_def upgrade_prologue_def unset_subsubcat_def)
qed

text \<open>The migrations to 3.2.1 and 3.2.2 restore the default values, after versions that change nothing.\<close>

lemma upgrade_loop_reset:
  assumes "inv (kdev w)" and "cap (abs (kdev w))" and plain: "plain_build (bld E)"
    and ok: "\<forall>v \<in> set (nvram_ezpacket_default w). tuple_ok names val_ok v"
    and i: "NVRAM_FW_3_0_0 \<le> i" "i < n" and n: "n \<in> {NVRAM_FW_3_2_1, NVRAM_FW_3_2_2}"
  shows "\<exists>k. upgrade_loop E i n w = Some (w\<lparr>kdev := k\<rparr>) \<and> inv k \<and> cap (abs k) \<and>
     abs k = (fold (default_entry (nvram_ezpacket_default w)) (nvram_ezpacket_default w)
                ^^ (if i \<le> NVRAM_FW_3_2_0 \<and> n = NVRAM_FW_3_2_2 then 2 else 1)) (abs (kdev w))"
proof -
  let ?d = "fold (default_entry (nvram_ezpacket_default w)) (nvram_ezpacket_default w)"
  have x: "\<not> defined (bld E) EZP_PROD_SUPERCAT_X"
    using plain by (simp add: plain_build_def)
  have start: "upgrade_loop E i n w = upgrade_loop E (max i 64) n w"
  proof (cases "i \<le> 64")
    case True
    moreover have "upgrade_loop E i 64 w = Some w"
      using i plain by (intro upgrade_loop_quiet) (simp_all add: NVRAM_FW_3_2_0_def)
    ultimately show ?thesis
      using upgrade_loop_split [of i 64 n E w] n by (auto simp: fw_version_defs max_def)
  qed (simp add: max_def)
  note one = default_and_commit_abs [OF assms(1,2) x ok]
  consider "max i 64 = 64" "n = 65" | "max i 64 = 65" "n = 66" | "max i 64 = 64" "n = 66"
  proof -
    have "n = 65 \<or> n = 66" "i \<le> 64 \<or> i = 65"
      using i n by (auto simp: fw_version_defs)
    then show ?thesis
      using that i(2) by auto
  qed
  then show ?thesis
  proof cases
    case 1
    then show ?thesis
      using one unfolding start by (simp add: upgrade_loop_def run_upgrade_3_2 fw_version_defs)
  next
    case 2
    then have "\<not> i \<le> 64" by auto
    then show ?thesis
      using one 2 unfolding start by (simp add: upgrade_loop_def run_upgrade_3_2 fw_version_defs)
  next
    case 3
    then have "i \<le> 64" by auto
    then show ?thesis
      using upgrade_3_2_abs [OF assms(1,2) x ok] 3 unfolding start
      by (simp add: fw_version_defs numeral_2_eq_2)
  qed
qed

end

lemma funpow_default_entry:
  assumes "distinct (map tup_name vs)" and "v \<in> set vs" and "\<not> has_option (tup_option v) NVRAM_UNDEFINED"
  shows "(fold (default_entry vs) vs ^^ Suc j) m (tup_name v) =
    (if has_option (tup_option v) NVRAM_PROTECTED \<and> \<not> empty_value (m (tup_name v)) then m (tup_name v)
     else norm_val (tup_value v))"
  by (induction j) (auto simp: fold_default_entry [OF assms])

lemma funpow_default_other:
  "x \<notin> tup_name ` set vs \<Longrightarrow> (fold (default_entry ts) vs ^^ j) m x = m x"
  by (induction j) (auto simp: fold_default_other)

end
