(* ===== verification/Fw_Demo.thy ===== *)
theory Fw_Demo
  imports Flash_Props Fw_Run
begin

text \<open>Drivers that hold several given variables, for the witnesses of the properties of upgrades.\<close>

lemma demo_drivers:
  assumes "kcap N lim Map.empty"
    and "\<forall>(n, v) \<in> set xs. good_name n \<and> n \<in> N \<and> v \<noteq> [] \<and> CHR 0x00 \<notin> set v \<and> length v \<le> lim n"
  shows "\<exists>d :: string driver. dinv_flash nor_flash d \<and> kcap N lim (dabs d) \<and> dabs d = map_of xs"
  using assms(2)
proof (induction xs)
  case Nil
  have "dinv_flash nor_flash \<lparr>kst = empty_kstate, nvram_mtd = None, nvram_backup_mtd = None\<rparr>"
    using nor_flash_works by (auto simp: dinv_flash_def flash_ok_def kinv_empty)
  then show ?case
    using assms(1) by (intro exI [of _ "\<lparr>kst = empty_kstate, nvram_mtd = None, nvram_backup_mtd = None\<rparr>"]) (simp add: kinv_empty)
next
  case (Cons x xs)
  obtain n v where x: "x = (n, v)" by (cases x)
  obtain d :: "string driver" where d: "dinv_flash nor_flash d" "kcap N lim (dabs d)" "dabs d = map_of xs"
    using Cons by auto
  obtain k where "dinv_flash nor_flash k" "kcap N lim (dabs k)" "dabs k = (dabs d)(n := norm_val (Some v))"
    using kernc.fset_cap [of nor_flash "demo_world [] d" N lim n demo_build 0 "Some v"] d(1,2) Cons.prems x
    by (auto simp: kern_env_def)
  then show ?case
    using d(3) x Cons.prems by (intro exI [of _ k]) (cases v; simp add: fun_upd_def)
qed

text \<open>A small device for upgrades: the variables that an upgrade writes and one more.\<close>

definition demo_names :: "string set" where
  "demo_names =
     {''ssh_rule'', ''turbonat_enable'', ''fw_version'', ''custom_fw_version'', ''prod_subsubcat'', ''lan_ipaddr'', ''hwaddr''}"

definition lim100 :: "string \<Rightarrow> nat" where
  "lim100 n = 100"

lemma kcap_names: "kcap demo_names lim100 Map.empty"
  by (simp add: kcap_def demo_names_def lim100_def IMAGE_ROOM_def NVRAM_SPACE_def)

definition demo_fw_table :: "nvram_tuple list" where
  "demo_fw_table =
     [demo_tuple ''ssh_rule'' ''^0^22'' NVRAM_NONE, demo_tuple ''lan_ipaddr'' ''192.168.1.1'' NVRAM_NONE,
      demo_tuple ''hwaddr'' ''00:00:00:00:00:01'' NVRAM_PROTECTED, demo_tuple ''fw_version'' ''3.0.0'' NVRAM_PROTECTED]"

definition demo_vars :: "(string \<times> string) list" where
  "demo_vars =
     [(''ssh_rule'', ''^1^22''), (''fw_version'', ''3.0.5''), (''lan_ipaddr'', ''10.0.0.1''), (''hwaddr'', ''00:0E:2E:00:00:02'')]"

lemma demo_vars_driver:
  "\<exists>d :: string driver. dinv_flash nor_flash d \<and> kcap demo_names lim100 (dabs d) \<and> dabs d = map_of demo_vars"
  by (rule demo_drivers [OF kcap_names]) (simp add: demo_vars_def demo_names_def lim100_def good_name_def)

lemma demo_ssh:
  "with_attr 0 1 ''0'' ''^1^22'' = ''^0^22''" "attr_of 0 1 ''^1^22'' = ''1''" "ssh_ok ''^1^22''" "close_ssh ''^1^22'' = ''^0^22''"
proof -
  have s: "split_on RULE_SEP ''^1^22'' = [''^1^22'']" "split_on ATTR_SEP ''^1^22'' = [[], ''1'', ''22'']"
    by (simp_all add: RULE_SEP_def ATTR_SEP_def)
  show 1: "with_attr 0 1 ''0'' ''^1^22'' = ''^0^22''" "attr_of 0 1 ''^1^22'' = ''1''"
    by (simp_all add: with_attr_def attr_of_def s del: split_on.simps) (simp add: ATTR_SEP_def)
  then show "ssh_ok ''^1^22''" "close_ssh ''^1^22'' = ''^0^22''"
    by (simp_all add: ssh_ok_def close_ssh_def attr_count_def s starts_with_def EZPLIB_BUF_LEN_def del: split_on.simps)
qed

lemma demo_stored:
  assumes "dinv_flash nor_flash d" and "dabs d = map_of demo_vars"
  shows "stored_rules dabs (dinv_flash nor_flash) demo_build (demo_world demo_fw_table d) ''ssh_rule'' ''^1^22''"
    and "may_write (demo_world demo_fw_table d) ''ssh_rule''"
  using assms
  by (simp_all add: stored_rules_def rule_text_def EZPLIB_BUF_LEN_def good_name_def demo_vars_def
      may_write_def nvram_get_option_def demo_fw_table_def nvram_option_defs)

lemma demo_versions:
  "purify ''3.0.5'' = ''3.0.5''" "purify ''3.0.7'' = ''3.0.7''" "purify ''3.2.2'' = ''3.2.2''"
  by (simp_all add: purify_def is_digit_def)

lemma demo_find:
  "find_version (nvram_fw_table E) ''3.0.5'' d = Some NVRAM_FW_3_0_5"
  "find_version (nvram_fw_table E) ''3.0.7'' d = Some NVRAM_FW_3_0_7"
  "find_version (nvram_fw_table E) ''3.2.2'' d = Some NVRAM_FW_3_2_2"
  by (simp_all add: find_version_def nvram_fw_table_def fw_row_def)

end
