(* ===== verification/Fw_Props.thy ===== *)
theory Fw_Props
  imports Fw_Demo
begin

text \<open>
  Upgrades on the driver: what a whole run of \<^verbatim>\<open>nvram_upgrade\<close> leaves in the device, the order of version numbers,
  and versions that the table does not know.
\<close>

section \<open>Whole upgrades\<close>

lemma version_not_empty:
  "find_version (nvram_fw_table E) (purify v) None = Some n \<Longrightarrow> norm_val (Some v) = Some v"
  using known_version_not_empty [of E "purify v" n] by (cases v) (simp_all add: purify_def)

lemma turbonat_not_off: "\<not> starts_with (CHR ''0'') (turbonat_on cur)"
  by (simp add: turbonat_on_def starts_with_def split: option.split)

lemma kernel_upgrade_quiet:
  fixes w :: "'m driver world"
  assumes st: "stored_rules dabs (dinv_flash F) b w ''ssh_rule'' wl" and cap: "kcap N lim (dabs (kdev w))"
    and wr: "may_write w ''ssh_rule''" and ok: "ssh_ok wl"
    and room: "upgrade_room N (\<lambda>n v. length v \<le> lim n) b (EZP_PROD_VERSION b) wl" and plain: "plain_build b"
    and ver: "dabs (kdev w) ''fw_version'' = Some old" "old \<noteq> EZP_PROD_VERSION b"
      "length old < 32" "length (EZP_PROD_VERSION b) < 32"
    and tab: "stored_version (kern_env b F junk) old = Some i"
      "find_version (nvram_fw_table (kern_env b F junk)) (purify (EZP_PROD_VERSION b)) None = Some n"
    and range: "NVRAM_FW_3_0_0 \<le> i" "n \<le> NVRAM_FW_3_2_0"
  shows "\<exists>k. nvram_upgrade (kern_env b F junk) None w = Some (True, w\<lparr>kdev := k\<rparr>) \<and> dinv_flash F k \<and>
    dabs k = drop_subsubcat (version_map b (EZP_PROD_VERSION b) (special_map wl (dabs (kdev w))))"
proof -
  let ?E = "kern_env b F junk"
  have b: "bld ?E = b"
    by (simp add: kern_env_def)
  have loop: "\<exists>k'. upgrade_loop ?E i n (w\<lparr>kdev := k\<rparr>) = Some (w\<lparr>kdev := k'\<rparr>) \<and> dinv_flash F k' \<and>
      kcap N lim (dabs k') \<and> dabs k' = id (dabs k)" if "dinv_flash F k" "kcap N lim (dabs k)" "i < n" for k
    using that(1,2) upgrade_loop_quiet [of ?E i n] plain range b by (intro exI [of _ k]) simp
  show ?thesis
    using kernc.nvram_upgrade_abs [of F b junk w wl N lim old i n id, unfolded b, OF st cap wr ok room plain ver tab loop]
    by (auto split: if_splits)
qed

text \<open>C12. Upgrading on the driver from a version from 3.0.0 on to a newer one up to 3.2.0, in a build without the
  platform and brand macros, returns true and keeps the settings: the SSH server is switched off (the
  enable flag of its first rule starts with 0 afterwards), the NAT acceleration is not off, the version is
  the one of the build, \<^verbatim>\<open>prod_subsubcat\<close> is removed, and every other variable has the value it had.\<close>

theorem upgrade_keeps_settings:
  fixes w :: "'m driver world"
  assumes st: "stored_rules dabs (dinv_flash F) b w ''ssh_rule'' wl" and cap: "kcap N lim (dabs (kdev w))"
    and wr: "may_write w ''ssh_rule''" and ok: "ssh_ok wl"
    and room: "upgrade_room N (\<lambda>n v. length v \<le> lim n) b (EZP_PROD_VERSION b) wl" and plain: "plain_build b"
    and ver: "dabs (kdev w) ''fw_version'' = Some old" "old \<noteq> EZP_PROD_VERSION b"
      "length old < 32" "length (EZP_PROD_VERSION b) < 32"
    and tab: "stored_version (kern_env b F junk) old = Some i"
      "find_version (nvram_fw_table (kern_env b F junk)) (purify (EZP_PROD_VERSION b)) None = Some n"
    and range: "NVRAM_FW_3_0_0 \<le> i" "n \<le> NVRAM_FW_3_2_0"
  shows "\<exists>k wl' t. nvram_upgrade (kern_env b F junk) None w = Some (True, w\<lparr>kdev := k\<rparr>) \<and> dinv_flash F k \<and>
    dabs k ''ssh_rule'' = Some wl' \<and> starts_with (CHR ''0'') (attr_of 0 1 wl') \<and>
    dabs k ''turbonat_enable'' = Some t \<and> \<not> starts_with (CHR ''0'') t \<and>
    dabs k ''fw_version'' = Some (EZP_PROD_VERSION b) \<and> empty_value (dabs k ''prod_subsubcat'') \<and>
    (\<forall>x. x \<notin> {''ssh_rule'', ''turbonat_enable'', ''fw_version'', ''custom_fw_version'', ''prod_subsubcat''} \<longrightarrow>
       dabs k x = dabs (kdev w) x)"
proof -
  let ?E = "kern_env b F junk" and ?m = "version_map b (EZP_PROD_VERSION b) (special_map wl (dabs (kdev w)))"
  obtain k where k: "nvram_upgrade ?E None w = Some (True, w\<lparr>kdev := k\<rparr>)" "dinv_flash F k" "dabs k = drop_subsubcat ?m"
    using kernel_upgrade_quiet [OF assms] by blast
  have pct: "CHR ''%'' \<notin> set wl"
    using st by (simp add: stored_rules_def rule_text_def)
  show ?thesis
    using k version_not_empty [OF tab(2)] close_ssh_flag [OF ok pct] turbonat_not_off drop_subsubcat_empty
    by (intro exI [of _ k] exI [of _ "close_ssh wl"] exI [of _ "turbonat_on (dabs (kdev w) ''turbonat_enable'')"])
      (simp add: drop_subsubcat_other version_map_def special_map_def)
qed

lemma demo_upgrade_room:
  "length v < 100 \<Longrightarrow> CHR 0x00 \<notin> set v \<Longrightarrow> CUSTOM_PROD_VERSION b = ''1.0'' \<Longrightarrow>
     upgrade_room demo_names (\<lambda>n v. length v \<le> lim100 n) b v ''^1^22''"
  unfolding upgrade_room_def demo_ssh by (simp add: demo_names_def lim100_def)

lemma demo_stored_version: "stored_version E ''3.0.5'' = Some NVRAM_FW_3_0_5"
  by (simp add: stored_version_def demo_versions demo_find)

theorem upgrade_keeps_settings_witness:
  "\<exists>d k :: string driver. dabs d = map_of demo_vars \<and>
     nvram_upgrade (kern_env demo_build nor_flash 0) None (demo_world demo_fw_table d) =
       Some (True, (demo_world demo_fw_table d)\<lparr>kdev := k\<rparr>) \<and>
     dabs k ''fw_version'' = Some ''3.0.7'' \<and> dabs k ''lan_ipaddr'' = Some ''10.0.0.1''"
proof -
  obtain d :: "string driver" where d: "dinv_flash nor_flash d" "kcap demo_names lim100 (dabs d)" "dabs d = map_of demo_vars"
    using demo_vars_driver by blast
  let ?w = "demo_world demo_fw_table d" and ?E = "kern_env demo_build nor_flash 0"
  have "\<exists>k wl' t. nvram_upgrade ?E None ?w = Some (True, ?w\<lparr>kdev := k\<rparr>) \<and> dinv_flash nor_flash k \<and>
    dabs k ''ssh_rule'' = Some wl' \<and> starts_with (CHR ''0'') (attr_of 0 1 wl') \<and>
    dabs k ''turbonat_enable'' = Some t \<and> \<not> starts_with (CHR ''0'') t \<and>
    dabs k ''fw_version'' = Some (EZP_PROD_VERSION demo_build) \<and> empty_value (dabs k ''prod_subsubcat'') \<and>
    (\<forall>x. x \<notin> {''ssh_rule'', ''turbonat_enable'', ''fw_version'', ''custom_fw_version'', ''prod_subsubcat''} \<longrightarrow>
       dabs k x = dabs (kdev ?w) x)"
  proof (rule upgrade_keeps_settings [OF demo_stored(1) [OF d(1,3)] _ demo_stored(2) [OF d(1,3)] demo_ssh(3)])
    show "upgrade_room demo_names (\<lambda>n v. length v \<le> lim100 n) demo_build (EZP_PROD_VERSION demo_build) ''^1^22''"
      by (rule demo_upgrade_room) simp_all
    show "find_version (nvram_fw_table ?E) (purify (EZP_PROD_VERSION demo_build)) None = Some NVRAM_FW_3_0_7"
      by (simp add: demo_versions demo_find)
    show "dabs (kdev ?w) ''fw_version'' = Some ''3.0.5''"
      using d(3) by (simp add: demo_vars_def)
    show "stored_version ?E ''3.0.5'' = Some NVRAM_FW_3_0_5"
      by (rule demo_stored_version)
  qed (use d in \<open>simp_all add: plain_build_def fw_version_defs\<close>)
  then obtain k where k: "nvram_upgrade ?E None ?w = Some (True, ?w\<lparr>kdev := k\<rparr>)"
      "dabs k ''fw_version'' = Some ''3.0.7''"
      "\<forall>x. x \<notin> {''ssh_rule'', ''turbonat_enable'', ''fw_version'', ''custom_fw_version'', ''prod_subsubcat''} \<longrightarrow> dabs k x = dabs d x"
    unfolding demo_world_sel demo_build_sel by blast
  have "dabs k ''lan_ipaddr'' = Some ''10.0.0.1''"
    using k(3) [THEN spec, of "''lan_ipaddr''"] d(3) by (simp add: demo_vars_def)
  then show ?thesis
    using d(3) k(1,2) by (intro exI [of _ d] exI [of _ k]) (simp only: simp_thms)
qed

lemma kernel_upgrade_reset:
  fixes w :: "'m driver world"
  assumes st: "stored_rules dabs (dinv_flash F) b w ''ssh_rule'' wl" and cap: "kcap N lim (dabs (kdev w))"
    and wr: "may_write w ''ssh_rule''" and ok: "ssh_ok wl"
    and room: "upgrade_room N (\<lambda>n v. length v \<le> lim n) b (EZP_PROD_VERSION b) wl" and plain: "plain_build b"
    and ver: "dabs (kdev w) ''fw_version'' = Some old" "old \<noteq> EZP_PROD_VERSION b"
      "length old < 32" "length (EZP_PROD_VERSION b) < 32"
    and tab: "stored_version (kern_env b F junk) old = Some i"
      "find_version (nvram_fw_table (kern_env b F junk)) (purify (EZP_PROD_VERSION b)) None = Some n"
    and range: "NVRAM_FW_3_0_0 \<le> i" "i < n" "n \<in> {NVRAM_FW_3_2_1, NVRAM_FW_3_2_2}"
    and tuples: "\<forall>v \<in> set (nvram_ezpacket_default w). tuple_ok N (\<lambda>n x. length x \<le> lim n) v"
    and t: "t = nvram_ezpacket_default w" and m: "m = version_map b (EZP_PROD_VERSION b) (special_map wl (dabs (kdev w)))"
  shows "\<exists>k j. nvram_upgrade (kern_env b F junk) None w = Some (True, w\<lparr>kdev := k\<rparr>) \<and> dinv_flash F k \<and>
    dabs k = drop_subsubcat ((fold (default_entry t) t ^^ Suc j) m)"
proof -
  let ?E = "kern_env b F junk"
  obtain j where j: "(if i \<le> NVRAM_FW_3_2_0 \<and> n = NVRAM_FW_3_2_2 then 2 else 1) = Suc j"
    by (cases "i \<le> NVRAM_FW_3_2_0 \<and> n = NVRAM_FW_3_2_2") auto
  have b: "bld ?E = b"
    by (simp add: kern_env_def)
  have loop: "\<exists>k'. upgrade_loop ?E i n (w\<lparr>kdev := k\<rparr>) = Some (w\<lparr>kdev := k'\<rparr>) \<and> dinv_flash F k' \<and>
      kcap N lim (dabs k') \<and> dabs k' = (fold (default_entry t) t ^^ Suc j) (dabs k)"
    if "dinv_flash F k" "kcap N lim (dabs k)" "i < n" for k
    using kernc.upgrade_loop_reset [of F "w\<lparr>kdev := k\<rparr>" N lim b junk i n] that plain tuples range unfolding j t by (simp add: b)
  show ?thesis
    using kernc.nvram_upgrade_abs [of F b junk w wl N lim old i n, unfolded b, OF st cap wr ok room plain ver tab loop] range(2)
    unfolding m by auto
qed

text \<open>C13. Upgrading on the driver from a version from 3.0.0 on to 3.2.1 or 3.2.2, in a build without the platform
  and brand macros, returns true and restores the table of defaults: a protected variable that has a
  value after the special processing keeps it, every other variable of the table has its default, and a
  variable outside the table is as the special processing leaves it.\<close>

theorem upgrade_restores_defaults:
  fixes w :: "'m driver world"
  assumes st: "stored_rules dabs (dinv_flash F) b w ''ssh_rule'' wl" and cap: "kcap N lim (dabs (kdev w))"
    and wr: "may_write w ''ssh_rule''" and ok: "ssh_ok wl"
    and room: "upgrade_room N (\<lambda>n v. length v \<le> lim n) b (EZP_PROD_VERSION b) wl" and plain: "plain_build b"
    and ver: "dabs (kdev w) ''fw_version'' = Some old" "old \<noteq> EZP_PROD_VERSION b"
      "length old < 32" "length (EZP_PROD_VERSION b) < 32"
    and tab: "stored_version (kern_env b F junk) old = Some i"
      "find_version (nvram_fw_table (kern_env b F junk)) (purify (EZP_PROD_VERSION b)) None = Some n"
    and range: "NVRAM_FW_3_0_0 \<le> i" "i < n" "n \<in> {NVRAM_FW_3_2_1, NVRAM_FW_3_2_2}"
    and tuples: "\<forall>v \<in> set (nvram_ezpacket_default w). tuple_ok N (\<lambda>n x. length x \<le> lim n) v"
    and names: "distinct (map tup_name (nvram_ezpacket_default w))"
    and known: "\<forall>v \<in> set (nvram_ezpacket_default w). \<not> has_option (tup_option v) NVRAM_UNDEFINED"
    and m: "m = version_map b (EZP_PROD_VERSION b) (special_map wl (dabs (kdev w)))"
  shows "\<exists>k. nvram_upgrade (kern_env b F junk) None w = Some (True, w\<lparr>kdev := k\<rparr>) \<and> dinv_flash F k \<and>
    (\<forall>v \<in> set (nvram_ezpacket_default w). tup_name v \<noteq> ''prod_subsubcat'' \<longrightarrow>
       dabs k (tup_name v) =
         (if has_option (tup_option v) NVRAM_PROTECTED \<and> \<not> empty_value (m (tup_name v))
          then m (tup_name v) else norm_val (tup_value v))) \<and>
    (\<forall>x. x \<notin> tup_name ` set (nvram_ezpacket_default w) \<longrightarrow> x \<noteq> ''prod_subsubcat'' \<longrightarrow> dabs k x = m x) \<and>
    empty_value (dabs k ''prod_subsubcat'')"
proof -
  let ?E = "kern_env b F junk" and ?t = "nvram_ezpacket_default w"
  obtain k j where "nvram_upgrade ?E None w = Some (True, w\<lparr>kdev := k\<rparr>)" "dinv_flash F k"
      "dabs k = drop_subsubcat ((fold (default_entry ?t) ?t ^^ Suc j) m)"
    using kernel_upgrade_reset [OF st cap wr ok room plain ver tab range tuples refl m] by blast
  then show ?thesis
    using known funpow_default_entry [OF names, of _ j m] funpow_default_other [of _ ?t "Suc j" ?t m]
    by (intro exI [of _ k]) (simp add: drop_subsubcat_other drop_subsubcat_empty del: funpow.simps)
qed

definition demo_build_3_2 :: build where
  "demo_build_3_2 = demo_build\<lparr>EZP_PROD_VERSION := ''3.2.2''\<rparr>"

lemma demo_build_3_2_sel [simp]:
  "EZP_PROD_VERSION demo_build_3_2 = ''3.2.2''" "CUSTOM_PROD_VERSION demo_build_3_2 = ''1.0''" "defined demo_build_3_2 = (\<lambda>_. False)"
  by (simp_all add: demo_build_3_2_def)

theorem upgrade_restores_defaults_witness:
  "\<exists>d k :: string driver. dabs d = map_of demo_vars \<and>
     nvram_upgrade (kern_env demo_build_3_2 nor_flash 0) None (demo_world demo_fw_table d) =
       Some (True, (demo_world demo_fw_table d)\<lparr>kdev := k\<rparr>) \<and>
     dabs k ''lan_ipaddr'' = Some ''192.168.1.1'' \<and> dabs k ''hwaddr'' = Some ''00:0E:2E:00:00:02'' \<and>
     dabs k ''fw_version'' = Some ''3.2.2''"
proof -
  obtain d :: "string driver" where d: "dinv_flash nor_flash d" "kcap demo_names lim100 (dabs d)" "dabs d = map_of demo_vars"
    using demo_vars_driver by blast
  let ?w = "demo_world demo_fw_table d" and ?E = "kern_env demo_build_3_2 nor_flash 0"
  let ?m = "version_map demo_build_3_2 (EZP_PROD_VERSION demo_build_3_2) (special_map ''^1^22'' (dabs (kdev ?w)))"
  have st: "stored_rules dabs (dinv_flash nor_flash) demo_build_3_2 ?w ''ssh_rule'' ''^1^22''"
    using demo_stored(1) [OF d(1,3)] by (simp add: stored_rules_def)
  have "\<exists>k. nvram_upgrade ?E None ?w = Some (True, ?w\<lparr>kdev := k\<rparr>) \<and> dinv_flash nor_flash k \<and>
    (\<forall>v \<in> set (nvram_ezpacket_default ?w). tup_name v \<noteq> ''prod_subsubcat'' \<longrightarrow>
       dabs k (tup_name v) =
         (if has_option (tup_option v) NVRAM_PROTECTED \<and> \<not> empty_value (?m (tup_name v))
          then ?m (tup_name v) else norm_val (tup_value v))) \<and>
    (\<forall>x. x \<notin> tup_name ` set (nvram_ezpacket_default ?w) \<longrightarrow> x \<noteq> ''prod_subsubcat'' \<longrightarrow> dabs k x = ?m x) \<and>
    empty_value (dabs k ''prod_subsubcat'')"
  proof (rule upgrade_restores_defaults [OF st _ demo_stored(2) [OF d(1,3)] demo_ssh(3)])
    show "upgrade_room demo_names (\<lambda>n v. length v \<le> lim100 n) demo_build_3_2 (EZP_PROD_VERSION demo_build_3_2) ''^1^22''"
      by (rule demo_upgrade_room) simp_all
    show "find_version (nvram_fw_table ?E) (purify (EZP_PROD_VERSION demo_build_3_2)) None = Some NVRAM_FW_3_2_2"
      by (simp add: demo_versions demo_find)
    show "dabs (kdev ?w) ''fw_version'' = Some ''3.0.5''"
      using d(3) by (simp add: demo_vars_def)
    show "stored_version ?E ''3.0.5'' = Some NVRAM_FW_3_0_5"
      by (rule demo_stored_version)
    show "\<forall>v \<in> set (nvram_ezpacket_default ?w). tuple_ok demo_names (\<lambda>n x. length x \<le> lim100 n) v"
      by (simp add: demo_fw_table_def tuple_ok_def good_name_def demo_names_def lim100_def)
    show "distinct (map tup_name (nvram_ezpacket_default ?w))"
        "\<forall>v \<in> set (nvram_ezpacket_default ?w). \<not> has_option (tup_option v) NVRAM_UNDEFINED"
      by (simp_all add: demo_fw_table_def nvram_option_defs)
  qed (use d in \<open>simp_all add: plain_build_def fw_version_defs\<close>)
  then obtain k where k: "nvram_upgrade ?E None ?w = Some (True, ?w\<lparr>kdev := k\<rparr>)"
    "\<forall>v \<in> set demo_fw_table. tup_name v \<noteq> ''prod_subsubcat'' \<longrightarrow> dabs k (tup_name v) =
       (if has_option (tup_option v) NVRAM_PROTECTED \<and> \<not> empty_value (?m (tup_name v))
        then ?m (tup_name v) else norm_val (tup_value v))"
    unfolding demo_world_sel by blast
  have "dabs k ''lan_ipaddr'' = Some ''192.168.1.1''" "dabs k ''hwaddr'' = Some ''00:0E:2E:00:00:02''"
      "dabs k ''fw_version'' = Some ''3.2.2''"
    using k(2) d(3)
    by (simp_all add: demo_fw_table_def demo_vars_def nvram_option_defs empty_value_def version_map_def special_map_def)
  then show ?thesis
    using d(3) k(1) by (intro exI [of _ d] exI [of _ k]) (simp only: simp_thms)
qed

text \<open>C30. After an upgrade on the driver from a version from 3.0.0 on to any later one of the table, in a build without the
  platform and brand macros and whose table of defaults protects \<^verbatim>\<open>fw_version\<close>, as the real one does, a second run of
  \<^verbatim>\<open>nvram_upgrade\<close> finds nothing to do: it returns false and changes nothing, so the command that calls it does not commit
  again.  This includes 3.2.1 and 3.2.2, whose migrations restore the defaults, the version among them.\<close>

theorem upgrade_idempotent:
  fixes w :: "'m driver world"
  assumes st: "stored_rules dabs (dinv_flash F) b w ''ssh_rule'' wl" and cap: "kcap N lim (dabs (kdev w))"
    and wr: "may_write w ''ssh_rule''" and ok: "ssh_ok wl"
    and room: "upgrade_room N (\<lambda>n v. length v \<le> lim n) b (EZP_PROD_VERSION b) wl" and plain: "plain_build b"
    and ver: "dabs (kdev w) ''fw_version'' = Some old" "old \<noteq> EZP_PROD_VERSION b"
      "length old < 32" "length (EZP_PROD_VERSION b) < 32"
    and tab: "stored_version (kern_env b F junk) old = Some i"
      "find_version (nvram_fw_table (kern_env b F junk)) (purify (EZP_PROD_VERSION b)) None = Some n"
    and range: "NVRAM_FW_3_0_0 \<le> i" "i < n" "n \<le> NVRAM_FW_3_2_2"
    and tuples: "\<forall>v \<in> set (nvram_ezpacket_default w). tuple_ok N (\<lambda>n x. length x \<le> lim n) v"
    and names: "distinct (map tup_name (nvram_ezpacket_default w))"
    and known: "\<forall>v \<in> set (nvram_ezpacket_default w). \<not> has_option (tup_option v) NVRAM_UNDEFINED"
    and kept: "\<forall>v \<in> set (nvram_ezpacket_default w). tup_name v = ''fw_version'' \<longrightarrow> has_option (tup_option v) NVRAM_PROTECTED"
  shows "\<exists>w'. nvram_upgrade (kern_env b F junk) None w = Some (True, w') \<and>
              nvram_upgrade (kern_env b F junk) None w' = Some (False, w')"
proof -
  let ?E = "kern_env b F junk" and ?t = "nvram_ezpacket_default w"
  let ?m = "version_map b (EZP_PROD_VERSION b) (special_map wl (dabs (kdev w)))"
  have mv: "?m ''fw_version'' = Some (EZP_PROD_VERSION b)"
    using version_not_empty [OF tab(2)] by (simp add: version_map_def)
  have "EZP_PROD_VERSION b \<noteq> []"
    using version_not_empty [OF tab(2)] by auto
  then have full: "\<not> empty_value (?m ''fw_version'')"
    using mv by (simp add: empty_value_def)
  have "\<exists>k. nvram_upgrade ?E None w = Some (True, w\<lparr>kdev := k\<rparr>) \<and> dinv_flash F k \<and>
      dabs k ''fw_version'' = Some (EZP_PROD_VERSION b) \<and> empty_value (dabs k ''prod_subsubcat'')"
  proof (cases "n \<le> NVRAM_FW_3_2_0")
    case True
    then show ?thesis
      using kernel_upgrade_quiet [OF st cap wr ok room plain ver tab range(1) True] mv
      by (auto simp: drop_subsubcat_other drop_subsubcat_empty)
  next
    case False
    then have "n \<in> {NVRAM_FW_3_2_1, NVRAM_FW_3_2_2}"
      using range(3) by (auto simp: fw_version_defs)
    then obtain k j where k: "nvram_upgrade ?E None w = Some (True, w\<lparr>kdev := k\<rparr>)" "dinv_flash F k"
        "dabs k = drop_subsubcat ((fold (default_entry ?t) ?t ^^ Suc j) ?m)"
      using kernel_upgrade_reset [OF st cap wr ok room plain ver tab range(1,2) _ tuples refl refl] by blast
    have "(fold (default_entry ?t) ?t ^^ Suc j) ?m ''fw_version'' = ?m ''fw_version''"
    proof (cases "''fw_version'' \<in> tup_name ` set ?t")
      case True
      then obtain v where v: "v \<in> set ?t" "tup_name v = ''fw_version''"
        by auto
      then show ?thesis
        using funpow_default_entry [OF names v(1), of j ?m] known kept full by (simp del: funpow.simps)
    next
      case False
      then show ?thesis
        using funpow_default_other [of _ ?t "Suc j" ?t ?m] by (simp del: funpow.simps)
    qed
    then show ?thesis
      using k mv by (intro exI [of _ k]) (simp add: drop_subsubcat_other drop_subsubcat_empty del: funpow.simps)
  qed
  then obtain k where k: "nvram_upgrade ?E None w = Some (True, w\<lparr>kdev := k\<rparr>)" "dinv_flash F k"
      "dabs k ''fw_version'' = Some (EZP_PROD_VERSION b)" "empty_value (dabs k ''prod_subsubcat'')"
    by blast
  have "nvram_upgrade ?E None (w\<lparr>kdev := k\<rparr>) = Some (False, w\<lparr>kdev := k\<rparr>)"
    by (rule kernc.nvram_upgrade_current) (use k plain ver(4) tab(2) in \<open>simp_all add: kern_env_def\<close>)
  then show ?thesis
    using k(1) by blast
qed

theorem upgrade_idempotent_witness:
  "\<exists>(d :: string driver) w'. dabs d = map_of demo_vars \<and>
     nvram_upgrade (kern_env demo_build_3_2 nor_flash 0) None (demo_world demo_fw_table d) = Some (True, w') \<and>
     nvram_upgrade (kern_env demo_build_3_2 nor_flash 0) None w' = Some (False, w')"
proof -
  obtain d :: "string driver" where d: "dinv_flash nor_flash d" "kcap demo_names lim100 (dabs d)" "dabs d = map_of demo_vars"
    using demo_vars_driver by blast
  let ?w = "demo_world demo_fw_table d" and ?E = "kern_env demo_build_3_2 nor_flash 0"
  have st: "stored_rules dabs (dinv_flash nor_flash) demo_build_3_2 ?w ''ssh_rule'' ''^1^22''"
    using demo_stored(1) [OF d(1,3)] by (simp add: stored_rules_def)
  have "\<exists>w'. nvram_upgrade ?E None ?w = Some (True, w') \<and> nvram_upgrade ?E None w' = Some (False, w')"
  proof (rule upgrade_idempotent [OF st _ demo_stored(2) [OF d(1,3)] demo_ssh(3)])
    show "upgrade_room demo_names (\<lambda>n v. length v \<le> lim100 n) demo_build_3_2 (EZP_PROD_VERSION demo_build_3_2) ''^1^22''"
      by (rule demo_upgrade_room) simp_all
    show "find_version (nvram_fw_table ?E) (purify (EZP_PROD_VERSION demo_build_3_2)) None = Some NVRAM_FW_3_2_2"
      by (simp add: demo_versions demo_find)
    show "dabs (kdev ?w) ''fw_version'' = Some ''3.0.5''"
      using d(3) by (simp add: demo_vars_def)
    show "stored_version ?E ''3.0.5'' = Some NVRAM_FW_3_0_5"
      by (rule demo_stored_version)
    show "\<forall>v \<in> set (nvram_ezpacket_default ?w). tuple_ok demo_names (\<lambda>n x. length x \<le> lim100 n) v"
      by (simp add: demo_fw_table_def tuple_ok_def good_name_def demo_names_def lim100_def)
    show "distinct (map tup_name (nvram_ezpacket_default ?w))"
        "\<forall>v \<in> set (nvram_ezpacket_default ?w). \<not> has_option (tup_option v) NVRAM_UNDEFINED"
        "\<forall>v \<in> set (nvram_ezpacket_default ?w). tup_name v = ''fw_version'' \<longrightarrow> has_option (tup_option v) NVRAM_PROTECTED"
      by (simp_all add: demo_fw_table_def nvram_option_defs)
  qed (use d in \<open>simp_all add: plain_build_def fw_version_defs\<close>)
  then show ?thesis
    using d(3) by blast
qed

section \<open>Versions\<close>

text \<open>C36. \<^verbatim>\<open>get_ver\<close> gives a release \<^verbatim>\<open>a.b.c\<close> and an alpha version \<^verbatim>\<open>a.b.c-Ad\<close> the numbers that the macro \<^verbatim>\<open>VER_TO_VERID\<close> has for
  them.  For versions whose parts fit their bits, the 32-bit numbers of two alpha versions are ordered by the parts from
  left to right; but the number of a release is below those of its own alpha versions, so the numbers of releases and
  alpha versions together are not in the order of the versions.\<close>

theorem get_ver_order:
  assumes ok: "version_ok a b c d" "version_ok a' b' c' d'"
  shows "get_ver (version_text a b c) = Some (VER_TO_VERID a b c (CHR ''r'') 0, 0, CHR ''a'') \<and>
    get_ver (version_text a b c @ ''-A'' @ nat_to_dec d) = Some (VER_TO_VERID a b c (CHR ''a'') d, of_nat d, CHR ''b'') \<and>
    (VER_TO_VERID a b c (CHR ''a'') d < VER_TO_VERID a' b' c' (CHR ''a'') d' \<longleftrightarrow>
       a < a' \<or> a = a' \<and> (b < b' \<or> b = b' \<and> (c < c' \<or> c = c' \<and> d < d'))) \<and>
    VER_TO_VERID a b c (CHR ''r'') 0 < VER_TO_VERID a b c (CHR ''a'') d"
proof -
  have z: "version_ok a b c 0"
    using ok(1) by (simp add: version_ok_def)
  have "VER_TO_VERID a b c (CHR ''a'') d < VER_TO_VERID a' b' c' (CHR ''a'') d' \<longleftrightarrow>
      ver_number a b c 1 d < ver_number a' b' c' 1 d'"
    "VER_TO_VERID a b c (CHR ''r'') 0 < VER_TO_VERID a b c (CHR ''a'') d \<longleftrightarrow> ver_number a b c 0 0 < ver_number a b c 1 d"
    unfolding VER_TO_VERID_number word_less_nat_alt
    using unat_version [OF ok(1), of 1] unat_version [OF ok(2), of 1] unat_version [OF z, of 0] by simp_all
  then show ?thesis
    using get_ver_release [OF z] get_ver_alpha [OF ok(1)] ver_number_less [OF ok, of 1 1] ver_number_less [OF z ok(1), of 0 1]
    by (simp add: VER_TO_VERID_number)
qed

theorem get_ver_order_witness:
  "get_ver (version_text 3 0 7 @ ''-A'' @ nat_to_dec 37) = Some (VER_TO_VERID 3 0 7 (CHR ''a'') 37, of_nat 37, CHR ''b'') \<and>
   VER_TO_VERID 3 0 7 (CHR ''a'') 37 < VER_TO_VERID 3 0 7 (CHR ''a'') 50"
  using get_ver_order [of 3 0 7 37 3 0 7 50] by (simp add: version_ok_def)

text \<open>In every environment the entry of the version table with index \<open>i\<close> is the one of version \<open>i\<close> of the
  enumeration, which the loops over the migrations rely on; but the texts of 2.0.12 to 2.0.15 are all \<^verbatim>\<open>2.0.12\<close>, so
  a device with 2.0.12 is taken for one with 2.0.15, and 2.0.13 is not found.\<close>

theorem fw_table_indexed:
  "map fw_version (nvram_fw_table E) = [0..66] \<and>
   stored_version E ''2.0.12'' = Some NVRAM_FW_2_0_15 \<and> stored_version E ''2.0.13'' = None \<and>
   stored_version E [] = Some NVRAM_FW_0_0_0"
proof -
  have p: "purify ''2.0.12'' = ''2.0.12''" "purify ''2.0.13'' = ''2.0.13''" "purify [] = []"
    by (simp_all add: purify_def is_digit_def)
  show ?thesis
    unfolding stored_version_def p by (simp add: table_versions find_version_def) (simp add: nvram_fw_table_def fw_row_def)
qed

text \<open>C37. When the version stored on the driver is not in the table and the version of the build is, \<^verbatim>\<open>nvram_upgrade\<close> has
  no defined behaviour: \<^verbatim>\<open>old = 0xEFFFFFFF\<close> is a negative number, which is below the index of the new version, and
  the loop reads the table in front of its start, although the comment says that the upgrade is skipped.\<close>

theorem upgrade_unknown_version:
  fixes w :: "'m driver world"
  assumes "stored_rules dabs (dinv_flash F) b w ''ssh_rule'' wl" and "kcap N lim (dabs (kdev w))"
    and "may_write w ''ssh_rule''" and "ssh_ok wl"
    and "upgrade_room N (\<lambda>n v. length v \<le> lim n) b (EZP_PROD_VERSION b) wl" and "plain_build b"
    and "dabs (kdev w) ''fw_version'' = Some old" "length old < 32" "length (EZP_PROD_VERSION b) < 32"
    and "stored_version (kern_env b F junk) old = None"
      "find_version (nvram_fw_table (kern_env b F junk)) (purify (EZP_PROD_VERSION b)) None = Some n"
  shows "nvram_upgrade (kern_env b F junk) None w = None"
proof -
  have b: "bld (kern_env b F junk) = b"
    by (simp add: kern_env_def)
  show ?thesis
    by (rule kernc.nvram_upgrade_unknown [of F b junk w wl N lim old n, unfolded b, OF assms])
qed

theorem upgrade_unknown_version_witness:
  "\<exists>d :: string driver. dabs d ''fw_version'' = Some ''9.9.9'' \<and>
     nvram_upgrade (kern_env demo_build nor_flash 0) None (demo_world demo_fw_table d) = None"
proof -
  let ?vars = "[(''ssh_rule'', ''^1^22''), (''fw_version'', ''9.9.9'')]"
  obtain d :: "string driver" where d: "dinv_flash nor_flash d" "kcap demo_names lim100 (dabs d)" "dabs d = map_of ?vars"
    using demo_drivers [OF kcap_names, of ?vars] by (auto simp: demo_names_def lim100_def good_name_def)
  let ?w = "demo_world demo_fw_table d" and ?E = "kern_env demo_build nor_flash 0"
  have st: "stored_rules dabs (dinv_flash nor_flash) demo_build ?w ''ssh_rule'' ''^1^22''" "may_write ?w ''ssh_rule''"
    using d(1,3) by (simp_all add: stored_rules_def rule_text_def EZPLIB_BUF_LEN_def good_name_def may_write_def
        nvram_get_option_def demo_fw_table_def nvram_option_defs)
  have "nvram_upgrade ?E None ?w = None"
  proof (rule upgrade_unknown_version [OF st(1) _ st(2) demo_ssh(3)])
    show "upgrade_room demo_names (\<lambda>n v. length v \<le> lim100 n) demo_build (EZP_PROD_VERSION demo_build) ''^1^22''"
      by (rule demo_upgrade_room) simp_all
    show "find_version (nvram_fw_table ?E) (purify (EZP_PROD_VERSION demo_build)) None = Some NVRAM_FW_3_0_7"
      by (simp add: demo_versions demo_find)
    show "dabs (kdev ?w) ''fw_version'' = Some ''9.9.9''"
      using d(3) by simp
    show "stored_version ?E ''9.9.9'' = None"
      by (simp add: stored_version_def purify_def is_digit_def find_version_def) (simp add: nvram_fw_table_def fw_row_def)
  qed (use d in \<open>simp_all add: plain_build_def\<close>)
  then show ?thesis
    using d(3) by (intro exI [of _ d]) simp
qed

section \<open>The PPPoE account\<close>

text \<open>C14. On a device without IPsec rules the migration to 2.0.6 and back is a round trip for the PPPoE account on the
  driver: 2.0.6 stores user name and password in base64, \<^verbatim>\<open>ezplib_get_attr_val\<close> for the command line then gives the
  plain texts, and the downgrade to 2.0.5 restores all variables, for texts of at most 189 characters (more do not fit the
  256 bytes of the encoded form).  Without IPsec rules means that \<^verbatim>\<open>ipsec_rule\<close> is empty and \<^verbatim>\<open>ipsec_rule_num\<close> unset or
  zero, its default; the downgrade cuts the first IPsec rule only, so with two of them the other would keep its longer
  form.\<close>

theorem account_roundtrip:
  fixes w :: "'m driver world"
  assumes st: "pppoe_stored dabs dinv (kcap N lim) b w wl"
    and lens: "length (attr_of 0 1 wl) \<le> 189" "length (attr_of 0 2 wl) \<le> 189" "length wl + 510 < EZPLIB_BUF_LEN"
    and room: "''wan_pppoe_rule'' \<in> N" "length wl + 504 \<le> lim ''wan_pppoe_rule''"
    and ipsec: "ipsec_free dabs (kdev w)"
  shows "\<exists>w1 w2. fw_func_2_0_5_to_2_0_6 (kern_env b F junk) w = Some w1 \<and>
    dabs (kdev w1) = (dabs (kdev w))(''wan_pppoe_rule'' \<mapsto> encoded_account wl) \<and>
    attr_text (kern_env b F junk) ''wan_pppoe_rule'' 0 ''username'' 256 EZPLIB_USE_CLI w1 = Some (attr_of 0 1 wl) \<and>
    attr_text (kern_env b F junk) ''wan_pppoe_rule'' 0 ''passwd'' 256 EZPLIB_USE_CLI w1 = Some (attr_of 0 2 wl) \<and>
    fw_func_2_0_6_to_2_0_5 (kern_env b F junk) w1 = Some w2 \<and> dinv (kdev w2) \<and> dabs (kdev w2) = dabs (kdev w)"
proof -
  let ?E = "kern_env b F junk"
  have b: "bld ?E = b"
    by (simp add: kern_env_def)
  note up = kernb.upgrade_account [of N lim b F junk w wl, unfolded b]
    and down = kernb.downgrade_account [of N lim b F junk w wl, unfolded b]
    and read = kernb.read_account [of N lim b F junk, unfolded b]
    and enc = kernb.encoded_account_attrs [of N lim b F junk w wl, unfolded b, OF st]
  obtain k where k: "fw_func_2_0_5_to_2_0_6 ?E w = Some (w\<lparr>kdev := k\<rparr>)"
      "dabs k = (dabs (kdev w))(''wan_pppoe_rule'' \<mapsto> encoded_account wl)"
      "pppoe_stored dabs dinv (kcap N lim) b (w\<lparr>kdev := k\<rparr>) (encoded_account wl)"
    using up [OF st lens room(1) _ ipsec] room(2) by fastforce
  obtain k' where k': "fw_func_2_0_6_to_2_0_5 ?E (w\<lparr>kdev := k\<rparr>) = Some (w\<lparr>kdev := k'\<rparr>)" "dinv k'"
      "dabs k' = (dabs k)(''wan_pppoe_rule'' \<mapsto> wl)"
    using down [OF st k(3) lens room(1)] room(2) ipsec k(2) by (fastforce simp: ipsec_free_def)
  have "dabs (kdev w) ''wan_pppoe_rule'' = Some wl"
    using st by (simp add: pppoe_stored_def stored_rules_def)
  then have "dabs k' = dabs (kdev w)"
    using k(2) k'(3) by (simp add: fun_upd_idem)
  moreover have "attr_text ?E ''wan_pppoe_rule'' 0 ''username'' 256 EZPLIB_USE_CLI (w\<lparr>kdev := k\<rparr>) = Some (attr_of 0 1 wl)"
      "attr_text ?E ''wan_pppoe_rule'' 0 ''passwd'' 256 EZPLIB_USE_CLI (w\<lparr>kdev := k\<rparr>) = Some (attr_of 0 2 wl)"
    using read [OF k(3) _ enc(1) lens(1)] read [OF k(3) _ enc(2) lens(2)] enc(4,5)
    by (simp_all add: account_attr_def attr_text_ok_def)
  ultimately show ?thesis
    using k k' by (intro exI [of _ "w\<lparr>kdev := k\<rparr>"] exI [of _ "w\<lparr>kdev := k'\<rparr>"]) simp
qed

theorem account_roundtrip_witness:
  "\<exists>(d :: string driver) w1 w2. dabs d = [''wan_pppoe_rule'' \<mapsto> ''chap^joe^secret^0'', ''ipsec_rule_num'' \<mapsto> ''0''] \<and>
     fw_func_2_0_5_to_2_0_6 (kern_env demo_build nor_flash 0) (demo_rules ''wan_pppoe_rule'' d) = Some w1 \<and>
     dabs (kdev w1) = [''wan_pppoe_rule'' \<mapsto> ''chap^am9l^c2VjcmV0^0'', ''ipsec_rule_num'' \<mapsto> ''0''] \<and>
     fw_func_2_0_6_to_2_0_5 (kern_env demo_build nor_flash 0) w1 = Some w2 \<and> dabs (kdev w2) = dabs d"
proof -
  let ?wl = "''chap^joe^secret^0''" and ?N = "{''wan_pppoe_rule'', ''ipsec_rule_num''}" and ?lim = "\<lambda>_ :: string. 1000"
  obtain d :: "string driver" where "dinv d" and v: "dabs d = [''wan_pppoe_rule'' \<mapsto> ?wl, ''ipsec_rule_num'' \<mapsto> ''0'']"
    using demo_driver_two [of "''wan_pppoe_rule''" ?wl "''ipsec_rule_num''" "''0''"] by auto
  then have d: "stored_rules dabs dinv demo_build (demo_rules ''wan_pppoe_rule'' d) ''wan_pppoe_rule'' ?wl"
      "may_write (demo_rules ''wan_pppoe_rule'' d) ''wan_pppoe_rule''"
    by (simp_all add: stored_rules_def may_write_def good_name_def rule_text_def EZPLIB_BUF_LEN_def nvram_get_option_def
        nvram_option_defs)
  have free: "ipsec_free dabs (kdev (demo_rules ''wan_pppoe_rule'' d))"
    using v by (simp add: ipsec_free_def atoi_def Let_def clamp_int_def)
  have s: "split_on RULE_SEP ?wl = [?wl]" "split_on ATTR_SEP ?wl = [''chap'', ''joe'', ''secret'', ''0'']"
    by (simp_all add: RULE_SEP_def ATTR_SEP_def)
  have a: "attr_count 0 ?wl = 4" "attr_of 0 1 ?wl = ''joe''" "attr_of 0 2 ?wl = ''secret''"
    by (simp_all add: attr_count_def attr_of_def s del: split_on.simps)
  have e: "b64_groups ''joe'' = ''am9l''" "b64_groups ''secret'' = ''c2VjcmV0''"
    by (simp_all add: codes_def Let_def)
  have w1: "with_attr 0 1 ''am9l'' ?wl = ''chap^am9l^secret^0''"
    by (simp add: with_attr_def s del: split_on.simps) (simp add: ATTR_SEP_def)
  have s1: "split_on RULE_SEP ''chap^am9l^secret^0'' = [''chap^am9l^secret^0'']"
      "split_on ATTR_SEP ''chap^am9l^secret^0'' = [''chap'', ''am9l'', ''secret'', ''0'']"
    by (simp_all add: RULE_SEP_def ATTR_SEP_def)
  have enc: "encoded_account ?wl = ''chap^am9l^c2VjcmV0^0''"
    unfolding encoded_account_def a e w1 by (simp add: with_attr_def s1 del: split_on.simps) (simp add: ATTR_SEP_def)
  have st: "pppoe_stored dabs dinv (kcap ?N ?lim) demo_build (demo_rules ''wan_pppoe_rule'' d) ?wl"
    using d v a(1) by (auto simp: pppoe_stored_def kcap_def IMAGE_ROOM_def NVRAM_SPACE_def)
  obtain w1 w2 where "fw_func_2_0_5_to_2_0_6 (kern_env demo_build nor_flash 0) (demo_rules ''wan_pppoe_rule'' d) = Some w1"
      "dabs (kdev w1) = (dabs d)(''wan_pppoe_rule'' \<mapsto> encoded_account ?wl)"
      "fw_func_2_0_6_to_2_0_5 (kern_env demo_build nor_flash 0) w1 = Some w2" "dabs (kdev w2) = dabs d"
    using account_roundtrip [OF st, of nor_flash 0] a(2,3) free by (auto simp: EZPLIB_BUF_LEN_def)
  then show ?thesis
    unfolding enc using v by (intro exI [of _ d] exI [of _ w1] exI [of _ w2]) (simp add: fun_upd_twist)
qed

end
