(* ===== verification/Simulation.thy ===== *)
theory Simulation
  imports Kernel_Flash
begin

text \<open>
  The driver refines the plain map: every function of the library gives on the driver the same result as on
  the specification device of \<open>Device\<close>, and leaves variables that correspond.
\<close>

section \<open>Corresponding worlds\<close>

definition abs_world :: "('s \<Rightarrow> nvmap) \<Rightarrow> 's world \<Rightarrow> nvmap world" where
  "abs_world vars w =
     \<lparr>kdev = vars (kdev w), nvram_ezpacket_default = nvram_ezpacket_default w, action_file = action_file w,
      files = files w, writable = writable w, sys_calls = sys_calls w\<rparr>"

lemma abs_world_sel [simp]:
  "kdev (abs_world vars w) = vars (kdev w)" "nvram_ezpacket_default (abs_world vars w) = nvram_ezpacket_default w"
  "action_file (abs_world vars w) = action_file w"
  by (simp_all add: abs_world_def)

lemma abs_world_kdev [simp]: "abs_world vars (w\<lparr>kdev := k\<rparr>) = (abs_world vars w)\<lparr>kdev := vars k\<rparr>"
  by (simp add: abs_world_def)

lemma abs_world_same [simp]: "(abs_world vars w)\<lparr>kdev := vars (kdev w)\<rparr> = abs_world vars w"
  by (simp add: abs_world_def)

text \<open>
  A computation on the device simulates one on the map when both are undefined, or both return the same
  value and the devices correspond again.  Nothing but the device changes.
\<close>

definition simulates ::
    "('s \<Rightarrow> nvmap) \<Rightarrow> ('s \<Rightarrow> bool) \<Rightarrow> (nvmap \<Rightarrow> bool) \<Rightarrow> 's world \<Rightarrow> ('a \<times> 's world) c \<Rightarrow> ('a \<times> nvmap world) c \<Rightarrow> bool" where
  "simulates vars ok capacity w x y \<longleftrightarrow>
     (case y of
        None \<Rightarrow> x = None
      | Some (r, sw) \<Rightarrow>
          \<exists>k. x = Some (r, w\<lparr>kdev := k\<rparr>) \<and> ok k \<and> capacity (vars k) \<and> sw = (abs_world vars w)\<lparr>kdev := vars k\<rparr>)"

lemma simulates_None [simp]: "simulates vars ok capacity w None None"
  by (simp add: simulates_def)

lemma simulates_return:
  "ok (kdev w) \<Longrightarrow> capacity (vars (kdev w)) \<Longrightarrow> simulates vars ok capacity w (Some (r, w)) (Some (r, abs_world vars w))"
  unfolding simulates_def by (auto intro: exI [of _ "kdev w"])

lemma simulates_bind:
  assumes "simulates vars ok capacity w x y"
    and "\<And>r k. ok k \<Longrightarrow> capacity (vars k) \<Longrightarrow> simulates vars ok capacity (w\<lparr>kdev := k\<rparr>) (g (r, w\<lparr>kdev := k\<rparr>)) (h (r, abs_world vars (w\<lparr>kdev := k\<rparr>)))"
  shows "simulates vars ok capacity w (Option.bind x g) (Option.bind y h)"
proof (cases y)
  case None
  then show ?thesis
    using assms(1) by (simp add: simulates_def)
next
  case (Some p)
  then obtain r k where k: "y = Some (r, (abs_world vars w)\<lparr>kdev := vars k\<rparr>)" "x = Some (r, w\<lparr>kdev := k\<rparr>)" "ok k" "capacity (vars k)"
    using assms(1) by (cases p) (auto simp: simulates_def)
  show ?thesis
    using assms(2) [OF k(3,4), of r] by (auto simp: simulates_def k(1,2) split: option.splits)
qed

lemma simulates_result:
  assumes "simulates vars ok capacity w x y"
  shows "simulates vars ok capacity w (map_option (\<lambda>(r, w). (f r, w)) x) (map_option (\<lambda>(r, w). (f r, w)) y)"
  using assms by (auto simp: simulates_def split: option.splits)

section \<open>Access to variables\<close>

definition write_ok :: "string set \<Rightarrow> (string \<Rightarrow> string \<Rightarrow> bool) \<Rightarrow> string \<Rightarrow> string option \<Rightarrow> bool" where
  "write_ok names val_ok n v \<longleftrightarrow> good_name n \<and> n \<in> names \<and> (\<forall>x. v = Some x \<longrightarrow> CHR 0x00 \<notin> set x \<and> val_ok n x)"

context committing_device
begin

lemma spec_inv_abs: "inv s \<Longrightarrow> spec_inv (abs s)"
  using abs_no_nul by (auto simp: spec_inv_def)

lemma nvram_get_sim:
  assumes "inv (kdev w)" and "n \<noteq> []"
  shows "nvram_get (spec_env (bld E)) n (abs_world abs w) = nvram_get E n w"
proof -
  have "get_prod_cat (spec_env (bld E)) (abs_world abs w) = get_prod_cat E w"
    using read_abs [OF assms(1), of "''prod_cat''"] opened by (simp add: get_prod_cat_def)
  then show ?thesis
    using read_abs [OF assms(1)] assms(2) opened
    by (auto simp: nvram_get_def nvram_get_prod_def Let_def split: option.splits)
qed

lemma nvram_set_raw_sim:
  assumes "inv (kdev w)" and "cap (abs (kdev w))" and "write_ok names val_ok n v"
  shows "simulates abs inv cap w (Some (nvram_set_raw E n v w)) (Some (nvram_set_raw (spec_env (bld E)) n v (abs_world abs w)))"
proof -
  have rm: "room (abs (kdev w)) n x" if "norm_val v = Some x" for x
    using that assms(2,3) cap_room by (auto simp: write_ok_def norm_val_def split: if_splits)
  have n: "good_name n" "\<And>x. v = Some x \<Longrightarrow> CHR 0x00 \<notin> set x"
    using assms(3) by (auto simp: write_ok_def)
  obtain k where k: "nvram_set_raw E n v w = (0, w\<lparr>kdev := k\<rparr>)" "inv k" "abs k = (abs (kdev w))(n := norm_val v)"
    using nvram_set_raw_abs [OF assms(1) n rm] by blast
  have "cap (abs k)"
    unfolding k(3) using assms(2,3)
    by (cases "norm_val v") (auto simp: write_ok_def norm_val_def cap_set cap_unset split: if_splits)
  moreover have "nvram_set_raw (spec_env (bld E)) n v (abs_world abs w) = (0, (abs_world abs w)\<lparr>kdev := (abs (kdev w))(n := norm_val v)\<rparr>)"
    using specdev.nvram_set_raw_abs [of "abs_world abs w" n v "bld E"] spec_inv_abs [OF assms(1)] n by auto
  ultimately show ?thesis
    using k by (auto simp: simulates_def intro: exI [of _ k])
qed

lemma nvram_set_sim:
  assumes "inv (kdev w)" and "cap (abs (kdev w))" and "\<not> defined (bld E) EZP_PROD_SUPERCAT_X"
    and "write_ok names val_ok n v"
  shows "simulates abs inv cap w (nvram_set E n v w) (nvram_set (spec_env (bld E)) n v (abs_world abs w))"
proof -
  have "n \<noteq> []" "length n < 100"
    using assms(4) by (auto simp: write_ok_def good_name_def)
  then show ?thesis
    using nvram_set_raw_sim [OF assms(1,2,4)] nvram_get_sim [OF assms(1)] assms(1-3)
      nvram_get_abs [OF assms(1) _ assms(3), of n] assms(4)
    by (auto simp: nvram_set_def nvram_set_prod_def nvram_set_checked_def Let_def write_ok_def
        intro: simulates_return)
qed

lemma nvram_fset_sim:
  assumes "inv (kdev w)" and "cap (abs (kdev w))" and "\<not> defined (bld E) EZP_PROD_SUPERCAT_X"
    and "write_ok names val_ok n v"
  shows "simulates abs inv cap w (nvram_fset E n v w) (nvram_fset (spec_env (bld E)) n v (abs_world abs w))"
  using nvram_set_raw_sim [OF assms(1,2,4)] assms(3) by (simp add: nvram_fset_def)

text \<open>The return value of a commit depends on the flash, so only its effect is compared.\<close>

lemma nvram_commit_sim:
  assumes "inv (kdev w)" and "cap (abs (kdev w))"
  shows "simulates abs inv cap w (map_option (\<lambda>(_, w). ((), w)) (nvram_commit E w))
    (map_option (\<lambda>(_, w). ((), w)) (nvram_commit (spec_env (bld E)) (abs_world abs w)))"
proof -
  have "check_action (abs_world abs w) = check_action w"
    by (simp add: check_action_def)
  moreover obtain r k where "nvram_commit E w = Some (r, w\<lparr>kdev := k\<rparr>)" "inv k" "abs k = abs (kdev w)"
    using nvram_commit_abs [OF assms] by blast
  ultimately show ?thesis
    using assms by (auto simp: simulates_def nvram_commit_def spec_env_def intro!: exI [of _ k])
qed

end

end
