(* ===== verification/Simulation_Rules.thy ===== *)
theory Simulation_Rules
  imports Simulation
begin

text \<open>
  The rule library gives on every device that keeps its contract the same results as on the plain map, errors
  and undefined cases included.
\<close>

section \<open>What the loops can write\<close>

lemma printf_format_chars: "printf_format s = Some t \<Longrightarrow> set t \<subseteq> set s"
  by (induction s arbitrary: t rule: printf_format.induct) (fastforce split: if_splits list.splits)+

lemma get_rule_loop_chars:
  "get_rule_loop ts i bsize = Some (ret, word) \<Longrightarrow> c \<notin> \<Union> (set ` set ts) \<Longrightarrow> c \<notin> set word"
proof (induction ts arbitrary: i)
  case Nil
  then show ?case by simp
next
  case (Cons t ts)
  show ?case
  proof (cases "i = 0")
    case True
    then obtain u where "printf_format t = Some u" "word = snprintf_store bsize u"
      using Cons.prems(1) by (auto split: bind_splits)
    then show ?thesis
      using printf_format_chars [of t u] Cons.prems(2) set_take_subset [of "bsize - 1" u]
      by (auto simp: snprintf_store_def)
  next
    case False
    then show ?thesis
      using Cons by simp
  qed
qed

text \<open>The text that the loop over the rules leaves has no NUL and fits the buffer.\<close>

lemma op_rule_loop_text:
  assumes "op_rule_loop E rs opc n new num i buf w = Some (Inr out)"
    and "\<And>i ret word. ezplib_get_rule E (Some rs) i EZPLIB_BUF_LEN w = Some (ret, word) \<Longrightarrow> CHR 0x00 \<notin> set word"
    and "CHR 0x00 \<notin> set buf" and "\<And>x. new = Some x \<Longrightarrow> CHR 0x00 \<notin> set x" and "length buf < EZPLIB_BUF_LEN"
  shows "CHR 0x00 \<notin> set out \<and> length out < EZPLIB_BUF_LEN"
  using assms
proof (induction E rs opc n new num i buf w rule: op_rule_loop.induct)
  case (1 E rs opc n new num i buf w)
  show ?case
  proof (cases "num \<le> i")
    case True
    then show ?thesis
      using "1.prems" by (simp add: op_rule_loop.simps [of E rs opc n new num i buf w])
  next
    case False
    then obtain ret word where g: "ezplib_get_rule E (Some rs) (int i) EZPLIB_BUF_LEN w = Some (ret, word)"
      using "1.prems"(1) by (auto simp: op_rule_loop.simps [of E rs opc n new num i buf w] split: bind_splits)
    have step: "\<not> ret < 0"
      using "1.prems"(1) False g by (auto simp: op_rule_loop.simps [of E rs opc n new num i buf w] split: if_splits)
    note unfolded = "1.prems"(1) [unfolded op_rule_loop.simps [of E rs opc n new num i buf w]]
    show ?thesis
    proof (cases "int i = n")
      case neq: False
      then have "length (buf @ word @ [RULE_SEP]) < EZPLIB_BUF_LEN"
          "op_rule_loop E rs opc n new num (i + 1) (buf @ word @ [RULE_SEP]) w = Some (Inr out)"
        using unfolded False g step by (auto simp: Let_def split: if_splits)
      then show ?thesis
        using "1.IH"(1) [OF False g refl step neq refl] "1.prems"(2) [OF g] "1.prems"(2-4) by auto
    next
      case eq: True
      show ?thesis
      proof (cases opc)
        case ADD_RULE
        then obtain x where x: "new = Some x" "length (buf @ x @ [RULE_SEP]) < EZPLIB_BUF_LEN"
            "op_rule_loop E rs opc (- 1) new num i (buf @ x @ [RULE_SEP]) w = Some (Inr out)"
          using unfolded False g step eq by (auto simp: Let_def split: if_splits bind_splits)
        then show ?thesis
          using "1.IH"(2) [OF False g refl step, of x] "1.prems"(2-4) eq ADD_RULE by auto
      next
        case DELETE_RULE
        then have "op_rule_loop E rs opc n new num (i + 1) buf w = Some (Inr out)"
          using unfolded False g step eq by auto
        then show ?thesis
          using "1.IH"(3) [OF False g refl step] "1.prems"(2-5) eq DELETE_RULE by auto
      next
        case REPLACE_RULE
        then obtain x where x: "new = Some x" "length (buf @ x @ [RULE_SEP]) < EZPLIB_BUF_LEN"
            "op_rule_loop E rs opc n new num (i + 1) (buf @ x @ [RULE_SEP]) w = Some (Inr out)"
          using unfolded False g step eq by (auto simp: Let_def split: if_splits bind_splits)
        then show ?thesis
          using "1.IH"(4) [OF False g refl step, of x] "1.prems"(2-4) eq REPLACE_RULE by auto
      qed
    qed
  qed
qed

text \<open>The loop depends on the device only through the rules it reads.\<close>

lemma op_rule_loop_cong:
  assumes "\<And>i. ezplib_get_rule E (Some rs) i EZPLIB_BUF_LEN w = ezplib_get_rule E' (Some rs) i EZPLIB_BUF_LEN w'"
  shows "op_rule_loop E rs opc n new num i buf w = op_rule_loop E' rs opc n new num i buf w'"
  using assms
proof (induction E rs opc n new num i buf w rule: op_rule_loop.induct)
  case (1 E rs opc n new num i buf w)
  note unf = op_rule_loop.simps [of E rs opc n new num i buf w] op_rule_loop.simps [of E' rs opc n new num i buf w']
  show ?case
  proof (cases "num \<le> i \<or> ezplib_get_rule E (Some rs) (int i) EZPLIB_BUF_LEN w = None")
    case True
    then show ?thesis
      unfolding unf "1.prems" by auto
  next
    case False
    then obtain ret word where n: "\<not> num \<le> i" and g: "ezplib_get_rule E (Some rs) (int i) EZPLIB_BUF_LEN w = Some (ret, word)"
      by auto
    have g': "ezplib_get_rule E' (Some rs) (int i) EZPLIB_BUF_LEN w' = Some (ret, word)"
      using g "1.prems" by simp
    show ?thesis
    proof (cases "ret < 0")
      case True
      then show ?thesis
        unfolding unf g g' by simp
    next
      case pos: False
      note IH = "1.IH" [OF n g refl pos]
      show ?thesis
        using n pos IH(1) [OF _ refl _ "1.prems"] IH(2) [OF _ _ _ refl _ "1.prems"] IH(3) [OF _ _ "1.prems"]
          IH(4) [OF _ _ _ refl _ "1.prems"]
        unfolding unf g g' by (cases "int i = n"; cases opc; cases new) (auto simp: Let_def)
    qed
  qed
qed

section \<open>Reading\<close>

text \<open>A rule set that may be written: every text that the library can make of it is acceptable.\<close>

definition rule_set_ok :: "string set \<Rightarrow> (string \<Rightarrow> string \<Rightarrow> bool) \<Rightarrow> string \<Rightarrow> bool" where
  "rule_set_ok names val_ok rs \<longleftrightarrow> good_name rs \<and> rs \<in> names \<and> (\<forall>x. length x < EZPLIB_BUF_LEN \<longrightarrow> val_ok rs x)"

lemma rule_set_write_ok:
  "rule_set_ok names val_ok rs \<Longrightarrow> CHR 0x00 \<notin> set x \<Longrightarrow> length x < EZPLIB_BUF_LEN \<Longrightarrow> write_ok names val_ok rs (Some x)"
  by (simp add: rule_set_ok_def write_ok_def)

lemma replace_attr_scan_text:
  assumes "replace_attr_scan as ps j an new tmp = Some (Inr out)" and "CHR 0x00 \<notin> set tmp" and "CHR 0x00 \<notin> set new"
    and "\<forall>p \<in> set ps. CHR 0x00 \<notin> set p"
  shows "CHR 0x00 \<notin> set out"
  using assms
proof (induction as arbitrary: ps j tmp)
  case Nil
  then show ?case by simp
next
  case (Cons a as)
  then show ?case
    by (auto simp: Let_def split: option.splits if_splits list.splits)
qed

context committing_device
begin

lemma get_rule_sim:
  assumes "inv (kdev w)"
  shows "ezplib_get_rule (spec_env (bld E)) rs i bsize (abs_world abs w) = ezplib_get_rule E rs i bsize w"
  using nvram_get_sim [OF assms] by (auto simp: ezplib_get_rule_def split: option.splits)

lemma get_rule_num_sim:
  assumes "inv (kdev w)" and "rs \<noteq> []"
  shows "ezplib_get_rule_num (spec_env (bld E)) rs (abs_world abs w) = ezplib_get_rule_num E rs w"
  using nvram_get_sim [OF assms] by (simp add: ezplib_get_rule_num_def)

lemma get_subrule_sim:
  assumes "inv (kdev w)"
  shows "ezplib_get_subrule (spec_env (bld E)) rs i s e bsize (abs_world abs w) = ezplib_get_subrule E rs i s e bsize w"
  by (simp add: ezplib_get_subrule_def get_rule_sim [OF assms])

lemma get_attr_sim:
  assumes "inv (kdev w)"
  shows "ezplib_get_attr_val (spec_env (bld E)) rs i ty bsize use (abs_world abs w) = ezplib_get_attr_val E rs i ty bsize use w"
  unfolding ezplib_get_attr_val_def get_rule_sim [OF assms] spec_env_sel ..

lemma get_rule_no_nul:
  assumes "inv (kdev w)" and "ezplib_get_rule E (Some rs) i bsize w = Some (ret, word)"
    and "\<not> defined (bld E) EZP_PROD_SUPERCAT_X" and "good_name rs"
  shows "CHR 0x00 \<notin> set word"
proof -
  have "nvram_get E rs w = Some (abs (kdev w) rs)"
    by (rule nvram_get_abs [OF assms(1,4,3)])
  then consider "word = []" | wl where "abs (kdev w) rs = Some wl" "get_rule_loop (split_on RULE_SEP wl) i bsize = Some (ret, word)"
    using assms(2) by (auto simp: ezplib_get_rule_def split: if_splits option.splits)
  then show ?thesis
  proof cases
    case 2
    then have "CHR 0x00 \<notin> \<Union> (set ` set (split_on RULE_SEP wl))"
      using abs_no_nul [OF assms(1) 2(1)] split_on_subset by blast
    then show ?thesis
      by (rule get_rule_loop_chars [OF 2(2)])
  qed simp
qed

section \<open>Writing\<close>

lemma op_rule_sim:
  assumes "inv (kdev w)" and "cap (abs (kdev w))" and plain: "\<not> defined (bld E) EZP_PROD_SUPERCAT_X"
    and rs: "rule_set_ok names val_ok rs" and new: "\<And>x. new = Some x \<Longrightarrow> CHR 0x00 \<notin> set x"
  shows "simulates abs inv cap w (ezplib_op_rule E rs opc n new w) (ezplib_op_rule (spec_env (bld E)) rs opc n new (abs_world abs w))"
proof -
  have name: "good_name rs" "rs \<noteq> []"
    using rs by (auto simp: rule_set_ok_def good_name_def)
  note num = get_rule_num_sim [OF assms(1) name(2)]
  have loop: "op_rule_loop (spec_env (bld E)) rs opc n new m 0 [] (abs_world abs w) = op_rule_loop E rs opc n new m 0 [] w" for m
    by (rule op_rule_loop_cong) (simp add: get_rule_sim [OF assms(1)])
  note ret = simulates_return [of inv w cap abs, OF assms(1,2)]
  show ?thesis
  proof (cases "ezplib_get_rule_num E rs w")
    case None
    then show ?thesis
      by (simp add: ezplib_op_rule_def num)
  next
    case (Some m)
    show ?thesis
    proof (cases "m < 0 \<or> op_rule_loop E rs opc n new (nat m) 0 [] w = None")
      case True
      then show ?thesis
        using Some ret by (auto simp: ezplib_op_rule_def num loop)
    next
      case False
      then obtain res where res: "op_rule_loop E rs opc n new (nat m) 0 [] w = Some res" by auto
      show ?thesis
      proof (cases res)
        case (Inl err)
        then show ?thesis
          using Some False res ret by (simp add: ezplib_op_rule_def num loop)
      next
        case (Inr buf)
        have tx: "CHR 0x00 \<notin> set buf" "length buf < EZPLIB_BUF_LEN"
          using op_rule_loop_text [OF res [unfolded Inr]] get_rule_no_nul [OF assms(1) _ plain name(1)] new
          by (auto simp: EZPLIB_BUF_LEN_def)
        let ?buf = "if last buf = RULE_SEP then butlast buf else buf"
        have "write_ok names val_ok rs (Some ?buf)"
          using tx in_set_butlastD [of _ buf] by (intro rule_set_write_ok [OF rs]) (auto split: if_splits)
        note set = simulates_result [OF nvram_set_sim [OF assms(1-3) this], of "\<lambda>_. int (length ?buf)"]
        show ?thesis
          using set Some False res Inr
          by (auto simp: ezplib_op_rule_def num loop Let_def map_option_case case_prod_unfold
              split: option.splits bind_splits)
      qed
    qed
  qed
qed

end

end
