(* ===== verification/Simulation_Requests.thy ===== *)
theory Simulation_Requests
  imports Simulation_Rules
begin

text \<open>
  The operations that change rule sets, and sequences of requests to the library: a client cannot tell the
  driver from the plain map.
\<close>

section \<open>Changing rule sets\<close>

lemma simulates_drop:
  assumes "simulates vars ok capacity w x y"
  shows "simulates vars ok capacity w (do { (_, w') \<leftarrow> x; Some (c, w') }) (do { (_, w') \<leftarrow> y; Some (c, w') })"
  using simulates_result [OF assms, of "\<lambda>_. c"]
  by (auto simp: map_option_case case_prod_unfold split: option.splits bind_splits)

lemma unit_result: "map_option (Pair ()) (map_option snd x) = map_option (\<lambda>(r, w). ((), w)) x"
  by (cases x) auto

lemma unit_bind: "map_option (Pair ()) (Option.bind x g) = Option.bind (map_option (Pair ()) x) (\<lambda>(_, w). map_option (Pair ()) (g w))"
  by (cases x) auto

context committing_device
begin

lemma replace_rule_sim:
  assumes "inv (kdev w)" and "cap (abs (kdev w))" and "\<not> defined (bld E) EZP_PROD_SUPERCAT_X"
    and "rule_set_ok names val_ok rs" and "CHR 0x00 \<notin> set new"
  shows "simulates abs inv cap w (ezplib_replace_rule E (Some rs) n (Some new) w)
    (ezplib_replace_rule (spec_env (bld E)) (Some rs) n (Some new) (abs_world abs w))"
proof -
  have "rs \<noteq> []"
    using assms(4) by (auto simp: rule_set_ok_def good_name_def)
  then show ?thesis
    using simulates_drop [OF op_rule_sim [OF assms(1-4), of "Some new" REPLACE_RULE n], of 0]
      get_rule_num_sim [OF assms(1), of rs] simulates_return [of inv w cap abs, OF assms(1,2)] assms(5)
    by (cases "ezplib_get_rule_num E rs w") (auto simp: ezplib_replace_rule_def)
qed

lemma append_rule_sim:
  assumes "inv (kdev w)" and "cap (abs (kdev w))" and plain: "\<not> defined (bld E) EZP_PROD_SUPERCAT_X"
    and rs: "rule_set_ok names val_ok rs" and "CHR 0x00 \<notin> set new"
  shows "simulates abs inv cap w (ezplib_append_rule E (Some rs) (Some new) w)
    (ezplib_append_rule (spec_env (bld E)) (Some rs) (Some new) (abs_world abs w))"
proof -
  have name: "good_name rs" "rs \<noteq> []"
    using rs by (auto simp: rule_set_ok_def good_name_def)
  note get = nvram_get_abs [OF assms(1) name(1) plain] nvram_get_sim [OF assms(1) name(2)]
  note ret = simulates_return [of inv w cap abs, OF assms(1,2)]
  show ?thesis
  proof (cases "abs (kdev w) rs")
    case None
    then show ?thesis
      using name(2) get ret by (simp add: ezplib_append_rule_def)
  next
    case (Some old)
    let ?buf = "if old = [] then new else old @ [RULE_SEP] @ new"
    have nul: "CHR 0x00 \<notin> set ?buf"
      using assms(5) abs_no_nul [OF assms(1) Some] by auto
    show ?thesis
    proof (cases "EZPLIB_BUF_LEN \<le> length ?buf")
      case True
      then show ?thesis
        using name(2) get Some ret by (simp add: ezplib_append_rule_def Let_def)
    next
      case False
      then have "write_ok names val_ok rs (Some ?buf)"
        using nul by (intro rule_set_write_ok [OF rs]) simp_all
      then show ?thesis
        using simulates_drop [OF nvram_set_sim [OF assms(1-3)], of rs "Some ?buf" "int (length ?buf)"] False name(2) get Some
        by (simp add: ezplib_append_rule_def Let_def)
    qed
  qed
qed

lemma add_rule_sim:
  assumes "inv (kdev w)" and "cap (abs (kdev w))" and "\<not> defined (bld E) EZP_PROD_SUPERCAT_X"
    and "rule_set_ok names val_ok rs" and "CHR 0x00 \<notin> set new"
  shows "simulates abs inv cap w (ezplib_add_rule E (Some rs) n (Some new) w)
    (ezplib_add_rule (spec_env (bld E)) (Some rs) n (Some new) (abs_world abs w))"
proof -
  have "rs \<noteq> []"
    using assms(4) by (auto simp: rule_set_ok_def good_name_def)
  then show ?thesis
    using simulates_drop [OF op_rule_sim [OF assms(1-4), of "Some new" ADD_RULE n], of 0]
      simulates_drop [OF append_rule_sim [OF assms], of 0]
      get_rule_num_sim [OF assms(1), of rs] simulates_return [of inv w cap abs, OF assms(1,2)] assms(5)
    by (cases "ezplib_get_rule_num E rs w") (auto simp: ezplib_add_rule_def)
qed

lemma prepend_rule_sim:
  assumes "inv (kdev w)" and "cap (abs (kdev w))" and "\<not> defined (bld E) EZP_PROD_SUPERCAT_X"
    and "rule_set_ok names val_ok rs" and "CHR 0x00 \<notin> set new"
  shows "simulates abs inv cap w (ezplib_prepend_rule E (Some rs) (Some new) w)
    (ezplib_prepend_rule (spec_env (bld E)) (Some rs) (Some new) (abs_world abs w))"
  using op_rule_sim [OF assms(1-4), of "Some new" ADD_RULE 0] assms(4,5)
  by (auto simp: ezplib_prepend_rule_def rule_set_ok_def good_name_def)

lemma delete_rule_sim:
  assumes "inv (kdev w)" and "cap (abs (kdev w))" and "\<not> defined (bld E) EZP_PROD_SUPERCAT_X"
    and "rule_set_ok names val_ok rs"
  shows "simulates abs inv cap w (ezplib_delete_rule E (Some rs) n w)
    (ezplib_delete_rule (spec_env (bld E)) (Some rs) n (abs_world abs w))"
  using simulates_drop [OF op_rule_sim [OF assms, of None DELETE_RULE n], of 0] assms(4)
  by (auto simp: ezplib_delete_rule_def rule_set_ok_def good_name_def)

lemma replace_attr_sim:
  assumes "inv (kdev w)" and "cap (abs (kdev w))" and plain: "\<not> defined (bld E) EZP_PROD_SUPERCAT_X"
    and rs: "rule_set_ok names val_ok rs" and new: "CHR 0x00 \<notin> set new"
  shows "simulates abs inv cap w (ezplib_replace_attr E (Some rs) n (Some an) (Some new) w)
    (ezplib_replace_attr (spec_env (bld E)) (Some rs) n (Some an) (Some new) (abs_world abs w))"
proof -
  have name: "good_name rs" "rs \<noteq> []"
    using rs by (auto simp: rule_set_ok_def good_name_def)
  note ret = simulates_return [of inv w cap abs, OF assms(1,2)] and get = get_rule_sim [OF assms(1)]
  show ?thesis
  proof (cases "an = [] \<or> ezplib_get_rule E (Some rs) n EZPLIB_BUF_LEN w = None")
    case True
    then show ?thesis
      using name(2) ret get by (auto simp: ezplib_replace_attr_def)
  next
    case False
    then obtain r word where word: "an \<noteq> []" "ezplib_get_rule E (Some rs) n EZPLIB_BUF_LEN w = Some (r, word)" by auto
    let ?ps = "sep_string word ATTR_SEP MAX_ATTR_NUM"
    have ps: "\<forall>p \<in> set ?ps. CHR 0x00 \<notin> set p"
      using get_rule_no_nul [OF assms(1) word(2) plain name(1)] split_on_subset [of _ ATTR_SEP word] set_take_subset
      by (fastforce simp: sep_string_def)
    have rest: "simulates abs inv cap w (ezplib_replace_rule E (Some rs) n (Some (if last tmp = ATTR_SEP then butlast tmp else tmp)) w)
        (ezplib_replace_rule (spec_env (bld E)) (Some rs) n (Some (if last tmp = ATTR_SEP then butlast tmp else tmp)) (abs_world abs w))"
      if "replace_attr_scan attrs ?ps 0 an new [] = Some (Inr tmp)" for attrs tmp
      using replace_attr_scan_text [OF that _ new ps] in_set_butlastD [of _ tmp]
      by (intro replace_rule_sim [OF assms(1-4)]) (auto split: if_splits)
    show ?thesis
      using word name(2) ret get rest
      by (auto simp: ezplib_replace_attr_def split: option.splits sum.splits bind_splits)
  qed
qed

lemma default_rule_sim:
  assumes "inv (kdev w)" and "cap (abs (kdev w))" and "\<not> defined (bld E) EZP_PROD_SUPERCAT_X"
    and "\<forall>v \<in> set (nvram_ezpacket_default w). tuple_ok names val_ok v"
  shows "simulates abs inv cap w (map_option (Pair ()) (nvram_default_rule E n w))
    (map_option (Pair ()) (nvram_default_rule (spec_env (bld E)) n (abs_world abs w)))"
proof (cases "List.find (\<lambda>v. tup_name v = n) (nvram_ezpacket_default w)")
  case None
  then show ?thesis
    using simulates_return [of inv w cap abs "()", OF assms(1,2)] by (simp add: nvram_default_rule_def)
next
  case (Some v)
  then have "write_ok names val_ok (tup_name v) (tup_value v)"
    using assms(4) by (auto simp: find_Some_iff tuple_ok_def write_ok_def)
  from simulates_result [OF nvram_set_sim [OF assms(1-3) this], of "\<lambda>_. ()"] show ?thesis
    using Some by (simp add: nvram_default_rule_def unit_result)
qed

lemma default_loop_sim:
  assumes "inv (kdev w)" and "cap (abs (kdev w))" and plain: "\<not> defined (bld E) EZP_PROD_SUPERCAT_X"
    and "\<forall>v \<in> set vs. tuple_ok names val_ok v"
  shows "simulates abs inv cap w
    (map_option (Pair ()) (fold_c (\<lambda>v w. map_option snd (nvram_set E (tup_name v) (tup_value v) w)) vs w))
    (map_option (Pair ()) (fold_c (\<lambda>v w. map_option snd (nvram_set (spec_env (bld E)) (tup_name v) (tup_value v) w)) vs (abs_world abs w)))"
  using assms(1,2,4)
proof (induction vs arbitrary: w)
  case Nil
  then show ?case
    using simulates_return [of inv w cap abs "()"] by simp
next
  case (Cons v vs)
  then have "write_ok names val_ok (tup_name v) (tup_value v)"
    by (auto simp: tuple_ok_def write_ok_def)
  from simulates_result [OF nvram_set_sim [OF Cons.prems(1,2) plain this], of "\<lambda>_. ()"] show ?case
    unfolding fold_c.simps unit_bind unit_result
  proof (rule simulates_bind, goal_cases)
    case (1 r k)
    then show ?case
      using Cons.IH [of "w\<lparr>kdev := k\<rparr>"] Cons.prems(3) by simp
  qed
qed

lemma default_sim:
  assumes "inv (kdev w)" and "cap (abs (kdev w))" and "\<not> defined (bld E) EZP_PROD_SUPERCAT_X"
    and "\<forall>v \<in> set (nvram_ezpacket_default w). tuple_ok names val_ok v"
  shows "simulates abs inv cap w (map_option (Pair ()) (nvram_default E w))
    (map_option (Pair ()) (nvram_default (spec_env (bld E)) (abs_world abs w)))"
  using default_loop_sim [OF assms] by (simp add: nvram_default_def)

end

section \<open>Requests\<close>

datatype request =
    Get string
  | Set string "string option"
  | Fset string "string option"
  | Unset string
  | Commit
  | Default
  | Default_Rule string
  | Get_Rule string int nat
  | Get_Subrule string int int int nat
  | Get_Attr string int string nat int
  | Rule_Num string
  | Replace_Rule string int string
  | Replace_Attr string int string string
  | Add_Rule string int string
  | Append_Rule string string
  | Prepend_Rule string string
  | Delete_Rule string int

datatype response =
    Answer "string option"
  | Code int
  | Buffer int "string option"
  | Done

definition answer :: "('a \<Rightarrow> response) \<Rightarrow> ('a \<times> 's world) c \<Rightarrow> (response \<times> 's world) c" where
  "answer f x = map_option (\<lambda>(r, w). (f r, w)) x"

fun run_request :: "'s env \<Rightarrow> request \<Rightarrow> 's world \<Rightarrow> (response \<times> 's world) c" where
  "run_request E (Get n) w = map_option (\<lambda>r. (Answer r, w)) (nvram_get E n w)"
| "run_request E (Set n v) w = answer Code (nvram_set E n v w)"
| "run_request E (Fset n v) w = answer Code (nvram_fset E n v w)"
| "run_request E (Unset n) w = answer Code (nvram_unset E n w)"
| "run_request E Commit w = answer (\<lambda>_. Done) (nvram_commit E w)"
| "run_request E Default w = answer (\<lambda>_. Done) (map_option (Pair ()) (nvram_default E w))"
| "run_request E (Default_Rule n) w = answer (\<lambda>_. Done) (map_option (Pair ()) (nvram_default_rule E n w))"
| "run_request E (Get_Rule rs i bsize) w =
     map_option (\<lambda>(r, t). (Buffer r (Some t), w)) (ezplib_get_rule E (Some rs) i bsize w)"
| "run_request E (Get_Subrule rs i s e bsize) w =
     map_option (\<lambda>(r, t). (Buffer r t, w)) (ezplib_get_subrule E (Some rs) i s e bsize w)"
| "run_request E (Get_Attr rs i ty bsize use) w =
     map_option (\<lambda>(r, t). (Buffer r t, w)) (ezplib_get_attr_val E (Some rs) i (Some ty) bsize use w)"
| "run_request E (Rule_Num rs) w = map_option (\<lambda>r. (Code r, w)) (ezplib_get_rule_num E rs w)"
| "run_request E (Replace_Rule rs i new) w = answer Code (ezplib_replace_rule E (Some rs) i (Some new) w)"
| "run_request E (Replace_Attr rs i an new) w = answer Code (ezplib_replace_attr E (Some rs) i (Some an) (Some new) w)"
| "run_request E (Add_Rule rs i new) w = answer Code (ezplib_add_rule E (Some rs) i (Some new) w)"
| "run_request E (Append_Rule rs new) w = answer Code (ezplib_append_rule E (Some rs) (Some new) w)"
| "run_request E (Prepend_Rule rs new) w = answer Code (ezplib_prepend_rule E (Some rs) (Some new) w)"
| "run_request E (Delete_Rule rs i) w = answer Code (ezplib_delete_rule E (Some rs) i w)"

fun run_requests :: "'s env \<Rightarrow> request list \<Rightarrow> 's world \<Rightarrow> (response list \<times> 's world) c" where
  "run_requests E [] w = Some ([], w)"
| "run_requests E (q # qs) w = do {
     (r, w') \<leftarrow> run_request E q w;
     (rs, w'') \<leftarrow> run_requests E qs w';
     Some (r # rs, w'')
   }"

text \<open>
  The requests that the contract covers: names that fit the arrays of the library, values without NUL that the
  device has room for.
\<close>

fun admissible :: "string set \<Rightarrow> (string \<Rightarrow> string \<Rightarrow> bool) \<Rightarrow> nvram_tuple list \<Rightarrow> request \<Rightarrow> bool" where
  "admissible names ok ts (Get n) = (n \<noteq> [])"
| "admissible names ok ts (Set n v) = write_ok names ok n v"
| "admissible names ok ts (Fset n v) = write_ok names ok n v"
| "admissible names ok ts (Unset n) = write_ok names ok n None"
| "admissible names ok ts Commit = True"
| "admissible names ok ts Default = list_all (tuple_ok names ok) ts"
| "admissible names ok ts (Default_Rule n) = list_all (tuple_ok names ok) ts"
| "admissible names ok ts (Get_Rule rs i bsize) = True"
| "admissible names ok ts (Get_Subrule rs i s e bsize) = True"
| "admissible names ok ts (Get_Attr rs i ty bsize use) = True"
| "admissible names ok ts (Rule_Num rs) = (rs \<noteq> [])"
| "admissible names ok ts (Replace_Rule rs i new) = (rule_set_ok names ok rs \<and> CHR 0x00 \<notin> set new)"
| "admissible names ok ts (Replace_Attr rs i an new) = (rule_set_ok names ok rs \<and> CHR 0x00 \<notin> set new)"
| "admissible names ok ts (Add_Rule rs i new) = (rule_set_ok names ok rs \<and> CHR 0x00 \<notin> set new)"
| "admissible names ok ts (Append_Rule rs new) = (rule_set_ok names ok rs \<and> CHR 0x00 \<notin> set new)"
| "admissible names ok ts (Prepend_Rule rs new) = (rule_set_ok names ok rs \<and> CHR 0x00 \<notin> set new)"
| "admissible names ok ts (Delete_Rule rs i) = rule_set_ok names ok rs"

lemma simulates_answer:
  "simulates vars ok capacity w x y \<Longrightarrow> simulates vars ok capacity w (answer f x) (answer f y)"
  unfolding answer_def by (rule simulates_result)

lemma simulates_read:
  assumes "ok (kdev w)" and "capacity (vars (kdev w))"
  shows "simulates vars ok capacity w (map_option (\<lambda>r. (f r, w)) x) (map_option (\<lambda>r. (f r, abs_world vars w)) x)"
  using simulates_return [of ok w capacity vars, OF assms] by (cases x) simp_all

context committing_device
begin

lemma request_sim:
  assumes w: "inv (kdev w)" "cap (abs (kdev w))" and plain: "\<not> defined (bld E) EZP_PROD_SUPERCAT_X"
    and q: "admissible names val_ok (nvram_ezpacket_default w) q"
  shows "simulates abs inv cap w (run_request E q w) (run_request (spec_env (bld E)) q (abs_world abs w))"
proof -
  note read = simulates_read [of inv w cap abs, OF w]
  have read2: "simulates abs inv cap w (map_option (\<lambda>(r, t). (f r t, w)) x) (map_option (\<lambda>(r, t). (f r t, abs_world abs w)) x)" for f x
    using read [of "\<lambda>(r, t). f r t" x] by (simp add: case_prod_unfold)
  have commit: "simulates abs inv cap w (answer (\<lambda>_. Done) (nvram_commit E w))
      (answer (\<lambda>_. Done) (nvram_commit (spec_env (bld E)) (abs_world abs w)))"
    using simulates_answer [OF nvram_commit_sim [OF w], of "\<lambda>_. Done"]
    by (simp add: answer_def option.map_comp comp_def case_prod_unfold)
  show ?thesis
    using q
    by (cases q)
      (auto simp: nvram_unset_def nvram_get_sim [OF w(1)] get_rule_sim [OF w(1)] get_subrule_sim [OF w(1)]
        get_attr_sim [OF w(1)] get_rule_num_sim [OF w(1)] list_all_iff commit
        intro!: read read2 simulates_answer nvram_set_sim nvram_fset_sim default_sim default_rule_sim
          replace_rule_sim replace_attr_sim add_rule_sim append_rule_sim prepend_rule_sim delete_rule_sim w plain)
qed

lemma requests_sim:
  assumes "inv (kdev w)" and "cap (abs (kdev w))" and plain: "\<not> defined (bld E) EZP_PROD_SUPERCAT_X"
    and "\<forall>q \<in> set qs. admissible names val_ok (nvram_ezpacket_default w) q"
  shows "simulates abs inv cap w (run_requests E qs w) (run_requests (spec_env (bld E)) qs (abs_world abs w))"
  using assms(1,2,4)
proof (induction qs arbitrary: w)
  case Nil
  then show ?case
    using simulates_return [of inv w cap abs] by simp
next
  case (Cons q qs)
  show ?case
    unfolding run_requests.simps
  proof (rule simulates_bind [OF request_sim [OF Cons.prems(1,2) plain]])
    show "admissible names val_ok (nvram_ezpacket_default w) q"
      using Cons.prems(3) by simp
    show "simulates abs inv cap (w\<lparr>kdev := k\<rparr>)
        (case (r, w\<lparr>kdev := k\<rparr>) of (r, w') \<Rightarrow> do { (rs, w'') \<leftarrow> run_requests E qs w'; Some (r # rs, w'') })
        (case (r, abs_world abs (w\<lparr>kdev := k\<rparr>)) of (r, w') \<Rightarrow>
           do { (rs, w'') \<leftarrow> run_requests (spec_env (bld E)) qs w'; Some (r # rs, w'') })"
      if "inv k" "cap (abs k)" for r k
      using simulates_result [OF Cons.IH [of "w\<lparr>kdev := k\<rparr>"], of "(#) r"] that Cons.prems(3)
      by (simp add: map_conv_bind_option case_prod_unfold comp_def)
  qed
qed

end

end
