(* ===== verification/Simulation_Props.thy ===== *)
theory Simulation_Props
  imports Simulation_Requests Fw_Demo
begin

text \<open>The refinement of the plain map by the driver, for sequences of requests to the library.\<close>

text \<open>C3. Refinement: a client that sends a sequence of requests to the library (reading, setting and removing
  variables, committing, restoring defaults, and all operations on rules and attributes) gets from the
  driver, over any flash that works, exactly the answers that a plain map from names to values would give, errors
  and undefined runs included, and the variables of the driver are the ones of the map afterwards.  The
  invariant of the driver and its capacity are kept.\<close>

theorem driver_refines_map:
  fixes w :: "'m driver world"
  assumes "dinv_flash F (kdev w)" and "kcap N lim (dabs (kdev w))" and "\<not> defined b EZP_PROD_SUPERCAT_X"
    and "\<forall>q \<in> set qs. admissible N (\<lambda>n v. length v \<le> lim n) (nvram_ezpacket_default w) q"
  shows "case run_requests (spec_env b) qs (abs_world dabs w) of
      None \<Rightarrow> run_requests (kern_env b F junk) qs w = None
    | Some (answers, m) \<Rightarrow>
        \<exists>k. run_requests (kern_env b F junk) qs w = Some (answers, w\<lparr>kdev := k\<rparr>) \<and>
            dinv_flash F k \<and> kcap N lim (dabs k) \<and> dabs k = kdev m"
proof -
  have b: "bld (kern_env b F junk) = b"
    by (simp add: kern_env_def)
  have "simulates dabs (dinv_flash F) (kcap N lim) w (run_requests (kern_env b F junk) qs w)
      (run_requests (spec_env b) qs (abs_world dabs w))"
    using kernc.requests_sim [of F w N lim b junk qs] assms unfolding b by blast
  then show ?thesis
    by (auto simp: simulates_def split: option.splits)
qed

definition demo_requests :: "request list" where
  "demo_requests =
     [Set ''lan_ipaddr'' (Some ''10.0.0.1''), Append_Rule ''fl_rule'' ''b^1'', Commit, Get ''lan_ipaddr'',
      Get_Rule ''fl_rule'' 1 64, Rule_Num ''fl_rule'']"

definition demo_rule_lim :: "string \<Rightarrow> nat" where
  "demo_rule_lim n = (if n = ''fl_rule'' then 8191 else 100)"

definition demo_rule_table :: "nvram_tuple list" where
  "demo_rule_table = [demo_tuple ''fl_rule'' [] NVRAM_NONE, demo_tuple ''lan_ipaddr'' [] NVRAM_NONE]"

lemma demo_requests_spec:
  "\<exists>m. run_requests (spec_env demo_build) demo_requests (demo_world demo_rule_table [''fl_rule'' \<mapsto> ''a^0'']) =
     Some ([Code 0, Code 7, Done, Answer (Some ''10.0.0.1''), Buffer 3 (Some ''b^1''), Code 2],
           demo_world demo_rule_table m)"
  by (simp add: demo_requests_def answer_def demo_rule_table_def nvram_set_def nvram_set_prod_def nvram_set_checked_def
      nvram_get_option_def nvram_option_defs nvram_set_raw_def spec_write_def ezplib_append_rule_def nvram_get_def
      nvram_get_prod_def Let_def get_prod_cat_def nvram_commit_def check_action_def file_to_buf_def
      ezplib_get_rule_def ezplib_get_rule_num_def EZPLIB_BUF_LEN_def RULE_SEP_def snprintf_store_def)
    (simp add: demo_world_def)

theorem driver_refines_map_witness:
  "\<exists>(d :: string driver) w'. dabs d = [''fl_rule'' \<mapsto> ''a^0''] \<and>
     run_requests (kern_env demo_build nor_flash 0) demo_requests (demo_world demo_rule_table d) =
       Some ([Code 0, Code 7, Done, Answer (Some ''10.0.0.1''), Buffer 3 (Some ''b^1''), Code 2], w')"
proof -
  let ?N = "{''fl_rule'', ''lan_ipaddr''}"
  have cap: "kcap ?N demo_rule_lim Map.empty"
    by (simp add: kcap_def demo_rule_lim_def IMAGE_ROOM_def NVRAM_SPACE_def)
  obtain d :: "string driver" where d: "dinv_flash nor_flash d" "kcap ?N demo_rule_lim (dabs d)" "dabs d = map_of [(''fl_rule'', ''a^0'')]"
    using demo_drivers [OF cap, of "[(''fl_rule'', ''a^0'')]"] by (auto simp: demo_rule_lim_def good_name_def)
  let ?w = "demo_world demo_rule_table d"
  have aw: "abs_world dabs ?w = demo_world demo_rule_table [''fl_rule'' \<mapsto> ''a^0'']"
    using d(3) by (simp add: abs_world_def demo_world_def)
  have "\<forall>q \<in> set demo_requests. admissible ?N (\<lambda>n v. length v \<le> demo_rule_lim n) (nvram_ezpacket_default ?w) q"
    by (simp add: demo_requests_def write_ok_def rule_set_ok_def good_name_def demo_rule_lim_def EZPLIB_BUF_LEN_def)
  then have "case run_requests (spec_env demo_build) demo_requests (abs_world dabs ?w) of
      None \<Rightarrow> run_requests (kern_env demo_build nor_flash 0) demo_requests ?w = None
    | Some (answers, m) \<Rightarrow>
        \<exists>k. run_requests (kern_env demo_build nor_flash 0) demo_requests ?w = Some (answers, ?w\<lparr>kdev := k\<rparr>) \<and>
            dinv_flash nor_flash k \<and> kcap ?N demo_rule_lim (dabs k) \<and> dabs k = kdev m"
    using d(1,2) by (intro driver_refines_map) simp_all
  then show ?thesis
    using demo_requests_spec d(3) unfolding aw by (intro exI [of _ d]) auto
qed

end
