(* ===== verification/Nvram_Export.thy ===== *)
theory Nvram_Export
  imports Fw_Upgrade
begin

text \<open>
  Saving the variables in a file and loading them again: \<^verbatim>\<open>nvram_export\<close> and \<^verbatim>\<open>nvram_import\<close> of
  \<^verbatim>\<open>src/package/ezp-nvram/src/nvram_linux.c\<close>.
\<close>

section \<open>Files\<close>

text \<open>The file of the actions has a field of its own in the world.\<close>

definition action_path :: string where
  "action_path = ''/tmp/action''"

definition read_file :: "string \<Rightarrow> 's world \<Rightarrow> string option" where
  "read_file path w = (if path = action_path then action_file w else files w path)"

definition write_file :: "string \<Rightarrow> string \<Rightarrow> 's world \<Rightarrow> 's world" where
  "write_file path contents w =
     (if path = action_path then w\<lparr>action_file := Some contents\<rparr>
      else w\<lparr>files := (files w)(path \<mapsto> contents)\<rparr>)"

lemma read_write_file [simp]: "read_file path (write_file path contents w) = Some contents"
  by (simp add: read_file_def write_file_def)

section \<open>Export\<close>

text \<open>The version of the build is part of the format of \<^verbatim>\<open>fprintf\<close>.\<close>

definition export_header :: "'s env \<Rightarrow> 's world \<Rightarrow> string c" where
  "export_header E w = do {
     brand \<leftarrow> nvram_safe_get E ''brand'' w;
     model \<leftarrow> nvram_safe_get E ''model'' w;
     prod_cat \<leftarrow> nvram_safe_get E ''prod_cat'' w;
     prod_subcat \<leftarrow> nvram_safe_get E ''prod_subcat'' w;
     version \<leftarrow> printf_format (EZP_PROD_VERSION (bld E));
     Some (''[EZP_LOG v1.1] '' @ brand @ '' '' @ model @ '' [EZP_'' @ prod_cat @ prod_subcat @ ''] '' @ version @ [CHR 0x0A])
   }"

definition exported :: "nvram_tuple \<Rightarrow> bool" where
  "exported v \<longleftrightarrow> \<not> has_option (tup_option v) NVRAM_PROTECTED \<and> \<not> has_option (tup_option v) NVRAM_TEMP"

definition export_line :: "string \<Rightarrow> string \<Rightarrow> string" where
  "export_line n v = n @ CHR ''='' # v @ [CHR 0x0A]"

fun export_lines :: "'s env \<Rightarrow> nvram_tuple list \<Rightarrow> 's world \<Rightarrow> string c" where
  "export_lines E [] w = Some []"
| "export_lines E (v # vs) w =
     (if \<not> exported v then export_lines E vs w
      else do {
        val \<leftarrow> nvram_safe_get E (tup_name v) w;
        rest \<leftarrow> export_lines E vs w;
        Some (export_line (tup_name v) val @ rest)
      })"

definition nvram_export :: "'s env \<Rightarrow> string option \<Rightarrow> 's world \<Rightarrow> 's world c" where
  "nvram_export E filename w = do {
     path \<leftarrow> filename;
     if \<not> writable w path then Some w
     else do {
       header \<leftarrow> export_header E w;
       body \<leftarrow> export_lines E (nvram_ezpacket_default w) w;
       Some (write_file path (header @ body) w)
     }
   }"

section \<open>Import\<close>

fun strstr :: "string \<Rightarrow> string \<Rightarrow> string option" where
  "strstr needle [] = (if needle = [] then Some [] else None)"
| "strstr needle (x # xs) = (if take (length needle) (x # xs) = needle then Some (x # xs) else strstr needle xs)"

text \<open>\<^verbatim>\<open>s[i]\<close> up to the terminating NUL.\<close>

definition char_at :: "string \<Rightarrow> nat \<Rightarrow> char c" where
  "char_at s i = (if i < length s then Some (s ! i) else if i = length s then Some (CHR 0x00) else None)"

text \<open>
  The version of the file, from what follows the closing bracket.  \<^verbatim>\<open>strncpy\<close> copies the text without its NUL
  into \<^verbatim>\<open>old_str[32]\<close>, so a text that consists of digits and points only is read past its end.
\<close>

definition import_version :: "string \<Rightarrow> string c" where
  "import_version p =
     (case p of
        [] \<Rightarrow> Some ''0.0.0''
      | ch # s \<Rightarrow>
          if ch = CHR 0x0A then Some ''0.0.0''
          else if 32 < length s \<or> purify s = s then None
          else Some (purify s))"

text \<open>
  The checks of the first line: \<open>Inl 1\<close> is a file that is refused, \<open>Inr\<close> the version text of an accepted one.
\<close>

definition import_header :: "'s env \<Rightarrow> string \<Rightarrow> 's world \<Rightarrow> (int + string) c" where
  "import_header E buf w =
     (case strstr ''EZP_LOG'' buf of
        None \<Rightarrow> Some (Inl 1)
      | Some p \<Rightarrow>
          (case strstr ''EZP_'' (drop 7 p) of
             None \<Rightarrow> Some (Inl 1)
           | Some p \<Rightarrow> do {
               let p = drop 4 p;
               q \<leftarrow> nvram_safe_get E ''prod_cat'' w;
               p0 \<leftarrow> char_at p 0;
               q0 \<leftarrow> char_at q 0;
               if p0 \<noteq> q0 then Some (Inl 1)
               else do {
                 q \<leftarrow> nvram_safe_get E ''prod_subcat'' w;
                 p1 \<leftarrow> char_at p 1;
                 q0 \<leftarrow> char_at q 0;
                 if p1 \<noteq> q0 then Some (Inl 1)
                 else do {
                   p \<leftarrow> strchr (CHR '']'') p;
                   old_str \<leftarrow> import_version (tl p);
                   if 32 \<le> length (EZP_PROD_VERSION (bld E)) then None
                   else do {
                     old \<leftarrow> find_version (nvram_fw_table E) old_str (Some 268435455);
                     new \<leftarrow> find_version (nvram_fw_table E) (purify (EZP_PROD_VERSION (bld E))) None;
                     Some (if new < old then Inl 1 else Inr old_str)
                   }
                 }
               }
             }))"

text \<open>One line of the file, as the string that \<^verbatim>\<open>fgets\<close> leaves.\<close>

definition import_line :: "'s env \<Rightarrow> string \<Rightarrow> 's world \<Rightarrow> 's world c" where
  "import_line E buf w =
     (case strchr (CHR ''='') buf of
        None \<Rightarrow> Some w
      | Some p \<Rightarrow>
          (let n = takeWhile (\<lambda>ch. ch \<noteq> CHR ''='') buf; val = tl p in
           case List.find (\<lambda>v. tup_name v = n) (nvram_ezpacket_default w) of
             None \<Rightarrow> Some w
           | Some v \<Rightarrow>
               if \<not> exported v then Some w
               else map_option snd
                      (nvram_set E n
                         (Some (if starts_with (CHR 0x0A) val then []
                                else if val \<noteq> [] \<and> last val = CHR 0x0A then butlast val else val)) w)))"

lemma fgets_line_not_empty: "s \<noteq> [] \<Longrightarrow> 1 < n \<Longrightarrow> fgets_line n s \<noteq> []"
  by (cases s) (auto simp: fgets_line_def split: list.split)

function import_lines :: "'s env \<Rightarrow> string \<Rightarrow> 's world \<Rightarrow> 's world c" where
  "import_lines E s w =
     (if s = [] then Some w
      else do {
        w \<leftarrow> import_line E (c_string (fgets_line 4096 s)) w;
        import_lines E (drop (length (fgets_line 4096 s)) s) w
      })"
  by pat_completeness auto

termination
  by (relation "measure (\<lambda>(E, s, w). length s)") (use fgets_line_not_empty in auto)

declare import_lines.simps [simp del]

text \<open>
  \<^verbatim>\<open>nvram_import\<close>: the result of the final upgrade is dropped.  For an empty file the first line was never
  read.
\<close>

definition nvram_import :: "'s env \<Rightarrow> string option \<Rightarrow> 's world \<Rightarrow> (int \<times> 's world) c" where
  "nvram_import E filename w = do {
     path \<leftarrow> filename;
     case read_file path w of
       None \<Rightarrow> Some (1, w)
     | Some s \<Rightarrow>
         if s = [] then None
         else do {
           let line = fgets_line 4096 s;
           res \<leftarrow> import_header E (c_string line) w;
           case res of
             Inl err \<Rightarrow> Some (err, w)
           | Inr old_str \<Rightarrow> do {
               w \<leftarrow> import_lines E (drop (length line) s) w;
               (_, w) \<leftarrow> nvram_upgrade E (Some old_str) w;
               Some (0, w)
             }
         }
   }"

section \<open>Lemmas\<close>

lemma strstr_here [simp]: "needle \<noteq> [] \<Longrightarrow> strstr needle (needle @ r) = Some (needle @ r)"
  by (cases "needle @ r") (auto simp: neq_Nil_conv)

text \<open>The first \<^verbatim>\<open>EZP_\<close> is at the first underscore.\<close>

lemma strstr_product:
  "CHR ''_'' \<notin> set pre \<Longrightarrow> strstr ''EZP_'' (pre @ ''EZP_'' @ r) = Some (''EZP_'' @ r)"
proof (induction pre)
  case Nil
  then show ?case by simp
next
  case (Cons x pre)
  consider "pre = []" | a where "pre = [a]" | a b where "pre = [a, b]" | a b d rest where "pre = a # b # d # rest"
    by (metis neq_Nil_conv)
  then have "take (length ''EZP_'') ((x # pre) @ ''EZP_'' @ r) \<noteq> ''EZP_''"
    using Cons.prems by cases auto
  then show ?case
    using Cons by simp
qed

lemma fgets_line_one:
  assumes "CHR 0x0A \<notin> set t" and "length t + 1 < n"
  shows "fgets_line n (t @ CHR 0x0A # r) = t @ [CHR 0x0A]"
proof -
  have "dropWhile (\<lambda>ch. ch \<noteq> CHR 0x0A) (t @ CHR 0x0A # r) = CHR 0x0A # r"
    "takeWhile (\<lambda>ch. ch \<noteq> CHR 0x0A) (t @ CHR 0x0A # r) = t"
    using assms(1) by (auto simp: dropWhile_append takeWhile_append dropWhile_eq_Nil_conv)
  then show ?thesis
    using assms(2) by (simp add: fgets_line_def)
qed

end
