(* ===== verification/Export_Facts.thy ===== *)
theory Export_Facts
  imports Nvram_Export Fw_Run
begin

text \<open>
  What an exported file holds, and what importing such a file leaves in a device that keeps its contract.
\<close>

section \<open>The file\<close>

definition cur_text :: "string option \<Rightarrow> string" where
  "cur_text v = (case v of None \<Rightarrow> [] | Some x \<Rightarrow> x)"

lemma cur_text_simps [simp]: "cur_text None = []" "cur_text (Some x) = x" "norm_val (Some (cur_text v)) = norm_val v"
  by (cases v; simp add: cur_text_def norm_val_def)+

definition saved_line :: "nvmap \<Rightarrow> nvram_tuple \<Rightarrow> string" where
  "saved_line m v = export_line (tup_name v) (cur_text (m (tup_name v)))"

definition saved_lines :: "nvram_tuple list \<Rightarrow> nvmap \<Rightarrow> string" where
  "saved_lines vs m = concat (map (saved_line m) (filter exported vs))"

definition saved_header :: "build \<Rightarrow> nvmap \<Rightarrow> string" where
  "saved_header b m =
     ''[EZP_LOG v1.1] '' @ cur_text (m ''brand'') @ '' '' @ cur_text (m ''model'') @ '' [EZP_'' @ cur_text (m ''prod_cat'') @
     cur_text (m ''prod_subcat'') @ ''] '' @ EZP_PROD_VERSION b @ [CHR 0x0A]"

text \<open>
  When a file can be read back: no newline in what is printed, no underscore before the product, the category is
  one character, and no line is cut by \<^verbatim>\<open>fgets\<close>.
\<close>

definition header_ok :: "build \<Rightarrow> nvmap \<Rightarrow> bool" where
  "header_ok b m \<longleftrightarrow>
     CHR 0x0A \<notin> set (butlast (saved_header b m)) \<and> length (saved_header b m) < 4096 \<and>
     CHR ''_'' \<notin> set (cur_text (m ''brand'') @ cur_text (m ''model'')) \<and>
     length (cur_text (m ''prod_cat'')) = 1 \<and> cur_text (m ''prod_subcat'') \<noteq> [] \<and>
     CHR '']'' \<notin> set (cur_text (m ''prod_cat'') @ cur_text (m ''prod_subcat''))"

definition pure_version :: "build \<Rightarrow> bool" where
  "pure_version b \<longleftrightarrow> purify (EZP_PROD_VERSION b) = EZP_PROD_VERSION b \<and> length (EZP_PROD_VERSION b) < 32"

definition entry_ok :: "string set \<Rightarrow> (string \<Rightarrow> string \<Rightarrow> bool) \<Rightarrow> nvmap \<Rightarrow> nvram_tuple \<Rightarrow> bool" where
  "entry_ok names val_ok m v \<longleftrightarrow>
     good_name (tup_name v) \<and> tup_name v \<in> names \<and> \<not> has_option (tup_option v) NVRAM_UNDEFINED \<and>
     CHR 0x0A \<notin> set (butlast (saved_line m v)) \<and> length (saved_line m v) < 4096 \<and>
     val_ok (tup_name v) (cur_text (m (tup_name v)))"

text \<open>The variables after an import: the saved values, and everything else as it was.\<close>

definition restored :: "nvram_tuple list \<Rightarrow> nvmap \<Rightarrow> nvmap \<Rightarrow> nvmap" where
  "restored vs m old = (\<lambda>x. if x \<in> tup_name ` set (filter exported vs) then norm_val (m x) else old x)"

lemma restored_Nil [simp]: "restored [] m old = old"
  by (simp add: restored_def)

lemma restored_skip [simp]: "\<not> exported v \<Longrightarrow> restored (v # vs) m old = restored vs m old"
  by (simp add: restored_def)

lemma restored_Cons:
  "exported v \<Longrightarrow> restored (v # vs) m old = restored vs m (old(tup_name v := norm_val (m (tup_name v))))"
  by (auto simp: restored_def fun_eq_iff)

lemma restored_in: "v \<in> set vs \<Longrightarrow> exported v \<Longrightarrow> restored vs m old (tup_name v) = norm_val (m (tup_name v))"
  by (auto simp: restored_def)

lemma restored_out: "x \<notin> tup_name ` set (filter exported vs) \<Longrightarrow> restored vs m old x = old x"
  by (simp add: restored_def)

lemma saved_lines_Cons:
  "saved_lines (v # vs) m = (if exported v then saved_line m v @ saved_lines vs m else saved_lines vs m)"
  by (simp add: saved_lines_def)

lemma fgets_saved:
  assumes "CHR 0x0A \<notin> set (butlast t)" and "last t = CHR 0x0A" and "t \<noteq> []" and "length t < n"
  shows "fgets_line n (t @ r) = t"
proof -
  have "t = butlast t @ [CHR 0x0A]"
    using append_butlast_last_id [OF assms(3)] assms(2) by simp
  then show ?thesis
    using fgets_line_one [of "butlast t" n r] assms(1,4) by (metis append.assoc append_Cons append_Nil length_append_singleton Suc_eq_plus1)
qed

section \<open>The version in the first line\<close>

lemma purify_newline: "purify (v @ [CHR 0x0A]) = purify v"
  by (induction v) (simp_all add: purify_def is_digit_def)

lemma import_version_saved:
  assumes "pure_version b"
  shows "import_version ('' '' @ EZP_PROD_VERSION b @ [CHR 0x0A]) = Some (EZP_PROD_VERSION b)"
proof -
  let ?v = "EZP_PROD_VERSION b" and ?s = "EZP_PROD_VERSION b @ [CHR 0x0A]"
  have "purify ?s = ?v" "length ?s \<le> 32"
    using assms by (simp_all add: purify_newline pure_version_def)
  moreover have "?v \<noteq> ?s"
    by simp
  ultimately show ?thesis
    by (simp add: import_version_def del: append_self_conv)
qed

lemma pure_version_chars:
  assumes "pure_version b" and "ch \<in> set (EZP_PROD_VERSION b)"
  shows "ch = CHR ''.'' \<or> is_digit ch"
proof -
  have "ch \<in> set (takeWhile (\<lambda>ch. ch = CHR ''.'' \<or> is_digit ch) (EZP_PROD_VERSION b))"
    using assms by (simp only: pure_version_def purify_def)
  then show ?thesis
    by (blast dest: set_takeWhileD)
qed

section \<open>Exporting\<close>

lemma printf_pure: "pure_version b \<Longrightarrow> printf_format (EZP_PROD_VERSION b) = Some (EZP_PROD_VERSION b)"
  using pure_version_chars [of b "CHR ''%''"] by (intro printf_format_plain) (auto simp: is_digit_def)

context committing_device
begin

lemma safe_get_cur:
  assumes "inv (kdev w)" and "good_name n" and "\<not> defined (bld E) EZP_PROD_SUPERCAT_X"
  shows "nvram_safe_get E n w = Some (cur_text (abs (kdev w) n))"
  using nvram_safe_get_abs [OF assms] by (simp add: cur_text_def)

lemma export_lines_abs:
  assumes "inv (kdev w)" and "\<not> defined (bld E) EZP_PROD_SUPERCAT_X"
    and "\<forall>v \<in> set vs. exported v \<longrightarrow> good_name (tup_name v)"
  shows "export_lines E vs w = Some (saved_lines vs (abs (kdev w)))"
  using assms(3)
  by (induction vs) (simp_all add: saved_lines_Cons saved_line_def safe_get_cur [OF assms(1) _ assms(2)] saved_lines_def)

lemma nvram_export_abs:
  assumes "inv (kdev w)" and "\<not> defined (bld E) EZP_PROD_SUPERCAT_X" and "pure_version (bld E)"
    and "\<forall>v \<in> set (nvram_ezpacket_default w). exported v \<longrightarrow> good_name (tup_name v)" and "writable w path"
  shows "nvram_export E (Some path) w =
    Some (write_file path (saved_header (bld E) (abs (kdev w)) @ saved_lines (nvram_ezpacket_default w) (abs (kdev w))) w)"
proof -
  have "export_header E w = Some (saved_header (bld E) (abs (kdev w)))"
    using safe_get_cur [OF assms(1) _ assms(2)]
    by (simp add: export_header_def saved_header_def good_name_def printf_pure [OF assms(3)])
  then show ?thesis
    using export_lines_abs [OF assms(1,2,4)] assms(5) by (simp add: nvram_export_def)
qed

section \<open>Importing\<close>

lemma import_header_abs:
  assumes inv: "inv (kdev w)" and plain: "\<not> defined (bld E) EZP_PROD_SUPERCAT_X"
    and ver: "pure_version (bld E)" "find_version (nvram_fw_table E) (EZP_PROD_VERSION (bld E)) None = Some n"
    and ok: "header_ok (bld E) m"
    and same: "abs (kdev w) ''prod_cat'' = m ''prod_cat''" "abs (kdev w) ''prod_subcat'' = m ''prod_subcat''"
  shows "import_header E (saved_header (bld E) m) w = Some (Inr (EZP_PROD_VERSION (bld E)))"
proof -
  let ?v = "EZP_PROD_VERSION (bld E)" and ?s = "cur_text (m ''prod_subcat'')"
  obtain c where c: "cur_text (m ''prod_cat'') = [c]" "c \<noteq> CHR '']''"
    using ok by (auto simp: header_ok_def length_Suc_conv)
  have s: "?s \<noteq> []" "CHR '']'' \<notin> set ?s"
    using ok by (simp_all add: header_ok_def)
  let ?r = "[c] @ ?s @ ''] '' @ ?v @ [CHR 0x0A]"
  let ?pre = "'' v1.1] '' @ cur_text (m ''brand'') @ '' '' @ cur_text (m ''model'') @ '' [''"
  have h: "saved_header (bld E) m = CHR ''['' # ''EZP_LOG'' @ ?pre @ ''EZP_'' @ ?r"
    by (simp add: saved_header_def c(1))
  have 1: "strstr ''EZP_LOG'' (saved_header (bld E) m) = Some (''EZP_LOG'' @ ?pre @ ''EZP_'' @ ?r)"
    unfolding h using strstr_here [of "''EZP_LOG''" "?pre @ ''EZP_'' @ ?r"] by simp
  have "CHR ''_'' \<notin> set ?pre"
    using ok by (simp add: header_ok_def)
  then have 2: "strstr ''EZP_'' (?pre @ ''EZP_'' @ ?r) = Some (''EZP_'' @ ?r)"
    by (rule strstr_product)
  have 3: "strchr (CHR '']'') ?r = Some (''] '' @ ?v @ [CHR 0x0A])"
    using strchr_append [of "CHR '']''" "[c] @ ?s" "'' '' @ ?v @ [CHR 0x0A]"] c(2) s(2) by simp
  have 4: "char_at ?r 0 = Some c" "char_at ?r 1 = Some (hd ?s)" "char_at [c] 0 = Some c" "char_at ?s 0 = Some (hd ?s)"
    using s(1) by (simp_all add: char_at_def hd_conv_nth nth_append)
  have get: "nvram_safe_get E ''prod_cat'' w = Some [c]" "nvram_safe_get E ''prod_subcat'' w = Some ?s"
    using safe_get_cur [OF inv _ plain] same c(1) by (simp_all add: good_name_def)
  have v: "length ?v < 32" "purify ?v = ?v"
    using ver(1) by (simp_all add: pure_version_def)
  have d7: "drop 7 (''EZP_LOG'' @ x) = x" and d4: "drop 4 (''EZP_'' @ x) = x" and t: "tl (''] '' @ x) = '' '' @ x" for x
    by simp_all
  show ?thesis
    unfolding import_header_def 1 option.case Let_def d7 2 d4 get 3 4 Option.bind.simps t import_version_saved [OF ver(1)]
    by (simp only: 3 4 option.simps Option.bind.simps t import_version_saved [OF ver(1)] v(2) ver(2) find_version_known [OF ver(2)]
        simp_thms if_False if_True linorder_not_le [THEN iffD2, OF v(1)] less_irrefl)
qed

lemma set_plain_cap:
  assumes "inv (kdev w)" and "cap (abs (kdev w))" and "good_name n" and "n \<in> names"
    and "\<not> defined (bld E) EZP_PROD_SUPERCAT_X" and "CHR 0x00 \<notin> set x" and "val_ok n x"
    and "\<not> has_option (nvram_get_option n (nvram_ezpacket_default w)) NVRAM_UNDEFINED"
      "\<not> has_option (nvram_get_option n (nvram_ezpacket_default w)) NVRAM_PROTECTED"
  shows "\<exists>k. nvram_set E n (Some x) w = Some (0, w\<lparr>kdev := k\<rparr>) \<and> inv k \<and> cap (abs k) \<and>
    abs k = (abs (kdev w))(n := norm_val (Some x))"
proof -
  have "nvram_set E n (Some x) w = nvram_fset E n (Some x) w"
    using assms(3,5,8,9) by (simp add: nvram_set_known good_name_def nvram_set_checked_def nvram_fset_def)
  then show ?thesis
    using fset_cap [OF assms(1-5), of "Some x"] assms(6,7) by auto
qed

lemma import_line_abs:
  assumes w: "inv (kdev w)" "cap (abs (kdev w))" and plain: "\<not> defined (bld E) EZP_PROD_SUPERCAT_X"
    and v: "v \<in> set (nvram_ezpacket_default w)" "distinct (map tup_name (nvram_ezpacket_default w))" "exported v"
    and ok: "entry_ok names val_ok m v" and nul: "CHR 0x00 \<notin> set (cur_text (m (tup_name v)))"
  shows "\<exists>k. import_line E (saved_line m v) w = Some (w\<lparr>kdev := k\<rparr>) \<and> inv k \<and> cap (abs k) \<and>
    abs k = (abs (kdev w))(tup_name v := norm_val (m (tup_name v)))"
proof -
  let ?n = "tup_name v" and ?x = "cur_text (m (tup_name v))"
  have n: "good_name ?n" "?n \<in> names" "CHR ''='' \<notin> set ?n" "length ?n < 100"
    "\<not> has_option (tup_option v) NVRAM_UNDEFINED"
    using ok by (auto simp: entry_ok_def good_name_def)
  have find: "List.find (\<lambda>u. tup_name u = ?n) (nvram_ezpacket_default w) = Some v"
    using nvram_get_option_find [OF v(1,2)] .
  have x: "CHR 0x00 \<notin> set ?x" "val_ok ?n ?x" "CHR 0x0A \<notin> set ?x"
    using ok nul by (auto simp: entry_ok_def saved_line_def export_line_def butlast_append)
  obtain k where k: "nvram_set E ?n (Some ?x) w = Some (0, w\<lparr>kdev := k\<rparr>)" "inv k" "cap (abs k)"
      "abs k = (abs (kdev w))(?n := norm_val (m ?n))"
    using set_plain_cap [OF w n(1,2) plain x(1,2)] n(5) v(3) find
    by (auto simp: nvram_get_option_def exported_def)
  have split: "strchr (CHR ''='') (saved_line m v) = Some (CHR ''='' # ?x @ [CHR 0x0A])"
      "takeWhile (\<lambda>ch. ch \<noteq> CHR ''='') (saved_line m v) = ?n"
    using n(3) by (auto simp: saved_line_def export_line_def strchr_append takeWhile_append)
  have "(if starts_with (CHR 0x0A) (?x @ [CHR 0x0A]) then []
       else if ?x @ [CHR 0x0A] \<noteq> [] \<and> last (?x @ [CHR 0x0A]) = CHR 0x0A then butlast (?x @ [CHR 0x0A])
       else ?x @ [CHR 0x0A]) = ?x"
    using x(3) by (cases ?x) (auto simp: starts_with_def)
  then have "import_line E (saved_line m v) w = map_option snd (nvram_set E ?n (Some ?x) w)"
    unfolding import_line_def split option.case Let_def find list.sel by (simp only: v(3) simp_thms if_False)
  then show ?thesis
    using k by auto
qed

lemma import_lines_abs:
  assumes "inv (kdev w)" and "cap (abs (kdev w))" and plain: "\<not> defined (bld E) EZP_PROD_SUPERCAT_X"
    and "set vs \<subseteq> set (nvram_ezpacket_default w)" "distinct (map tup_name (nvram_ezpacket_default w))"
    and "\<forall>v \<in> set vs. exported v \<longrightarrow> entry_ok names val_ok m v" and nul: "\<And>n. CHR 0x00 \<notin> set (cur_text (m n))"
  shows "\<exists>k. import_lines E (saved_lines vs m) w = Some (w\<lparr>kdev := k\<rparr>) \<and> inv k \<and> cap (abs k) \<and>
    abs k = restored vs m (abs (kdev w))"
  using assms(1,2,4-6)
proof (induction vs arbitrary: w)
  case Nil
  then show ?case
    by (intro exI [of _ "kdev w"]) (simp add: saved_lines_def import_lines.simps)
next
  case (Cons v vs)
  show ?case
  proof (cases "exported v")
    case False
    then show ?thesis
      using Cons by (simp add: saved_lines_Cons)
  next
    case True
    let ?line = "saved_line m v"
    have ok: "entry_ok names val_ok m v"
      using Cons.prems(5) True by simp
    then have line: "CHR 0x0A \<notin> set (butlast ?line)" "length ?line < 4096" "?line \<noteq> []" "last ?line = CHR 0x0A" "CHR 0x00 \<notin> set ?line"
      using nul by (auto simp: entry_ok_def saved_line_def export_line_def good_name_def)
    obtain k where k: "import_line E ?line w = Some (w\<lparr>kdev := k\<rparr>)" "inv k" "cap (abs k)"
        "abs k = (abs (kdev w))(tup_name v := norm_val (m (tup_name v)))"
      using import_line_abs [OF Cons.prems(1,2) plain _ Cons.prems(4) True ok nul] Cons.prems(3) by auto
    obtain k' where k': "import_lines E (saved_lines vs m) (w\<lparr>kdev := k\<rparr>) = Some (w\<lparr>kdev := k'\<rparr>)" "inv k'" "cap (abs k')"
        "abs k' = restored vs m (abs k)"
      using Cons.IH [of "w\<lparr>kdev := k\<rparr>"] k(2,3) Cons.prems(3-5) by auto
    have "fgets_line 4096 (?line @ saved_lines vs m) = ?line"
      using fgets_saved line by blast
    then have "import_lines E (saved_lines (v # vs) m) w = Some (w\<lparr>kdev := k'\<rparr>)"
      using True line(3,5) k(1) k'(1) by (subst import_lines.simps) (simp add: saved_lines_Cons)
    then show ?thesis
      using k'(2-4) k(4) True by (auto simp: restored_Cons)
  qed
qed

lemma unset_subsubcat_flag:
  "unset_subsubcat E True w = Some (r, w') \<Longrightarrow> \<exists>r. unset_subsubcat E False w = Some (r, w')"
  by (cases "nvram_safe_get E ''prod_subsubcat'' w")
    (auto simp: unset_subsubcat_def split: if_splits)

text \<open>A source with the version of the build needs no upgrade.\<close>

lemma nvram_upgrade_same:
  assumes "inv (kdev w)" "cap (abs (kdev w))" and plain: "plain_build (bld E)" and ver: "pure_version (bld E)"
    and tab: "find_version (nvram_fw_table E) (EZP_PROD_VERSION (bld E)) None = Some n"
  shows "\<exists>r k. nvram_upgrade E (Some (EZP_PROD_VERSION (bld E))) w = Some (r, w\<lparr>kdev := k\<rparr>) \<and> inv k \<and>
    cap (abs k) \<and> abs k = drop_subsubcat (abs (kdev w))"
proof -
  let ?v = "EZP_PROD_VERSION (bld E)"
  have x: "\<not> defined (bld E) EZP_PROD_SUPERCAT_X" "\<not> defined (bld E) EZP_SUB_BRAND_SONY"
    using plain by (simp_all add: plain_build_def)
  have v: "?v \<noteq> []" "purify ?v = ?v" "\<not> 32 \<le> length ?v"
    using known_version_not_empty [OF tab] ver by (simp_all add: pure_version_def)
  have "nvram_upgrade E (Some ?v) w = unset_subsubcat E False w"
    using v find_version_known [OF tab] tab x(2)
    by (simp add: nvram_upgrade_def Let_def upgrade_prologue_def)
  moreover obtain k where k: "unset_subsubcat E True w = Some (True, w\<lparr>kdev := k\<rparr>)" "inv k" "cap (abs k)"
      "abs k = drop_subsubcat (abs (kdev w))"
    using unset_subsubcat_abs [OF assms(1,2) x(1)] by blast
  moreover obtain r where "unset_subsubcat E False w = Some (r, w\<lparr>kdev := k\<rparr>)"
    using unset_subsubcat_flag [OF k(1)] by blast
  ultimately show ?thesis
    using k(2-4) by (intro exI [of _ r] exI [of _ k]) (simp only: simp_thms)
qed

lemma nvram_import_abs:
  assumes w: "inv (kdev w)" "cap (abs (kdev w))" and plain: "plain_build (bld E)" and ver: "pure_version (bld E)"
      "find_version (nvram_fw_table E) (EZP_PROD_VERSION (bld E)) None = Some n"
    and hdr: "header_ok (bld E) m"
    and same: "abs (kdev w) ''prod_cat'' = m ''prod_cat''" "abs (kdev w) ''prod_subcat'' = m ''prod_subcat''"
    and tab: "distinct (map tup_name (nvram_ezpacket_default w))"
      "\<forall>v \<in> set (nvram_ezpacket_default w). exported v \<longrightarrow> entry_ok names val_ok m v"
    and nul: "\<And>n. CHR 0x00 \<notin> set (cur_text (m n))"
    and saved: "read_file path w = Some (saved_header (bld E) m @ saved_lines (nvram_ezpacket_default w) m)"
  shows "\<exists>k. nvram_import E (Some path) w = Some (0, w\<lparr>kdev := k\<rparr>) \<and> inv k \<and> cap (abs k) \<and>
    abs k = drop_subsubcat (restored (nvram_ezpacket_default w) m (abs (kdev w)))"
proof -
  let ?v = "EZP_PROD_VERSION (bld E)" and ?h = "saved_header (bld E) m" and ?t = "nvram_ezpacket_default w"
  have x: "\<not> defined (bld E) EZP_PROD_SUPERCAT_X"
    using plain by (simp add: plain_build_def)
  have h: "CHR 0x0A \<notin> set (butlast ?h)" "length ?h < 4096" "last ?h = CHR 0x0A" "?h \<noteq> []"
    using hdr by (simp_all add: header_ok_def) (simp_all add: saved_header_def)
  have line: "fgets_line 4096 (?h @ saved_lines ?t m) = ?h"
    using fgets_saved h by blast
  have str: "c_string ?h = ?h"
    using nul pure_version_chars [OF ver(1), of "CHR 0x00"] by (intro c_string_id) (auto simp: saved_header_def is_digit_def)
  obtain k where k: "import_lines E (saved_lines ?t m) w = Some (w\<lparr>kdev := k\<rparr>)" "inv k" "cap (abs k)"
      "abs k = restored ?t m (abs (kdev w))"
    using import_lines_abs [OF w x order_refl tab nul] by blast
  obtain r k' where k': "nvram_upgrade E (Some ?v) (w\<lparr>kdev := k\<rparr>) = Some (r, w\<lparr>kdev := k'\<rparr>)" "inv k'" "cap (abs k')"
      "abs k' = drop_subsubcat (abs k)"
    using nvram_upgrade_same [of "w\<lparr>kdev := k\<rparr>", OF _ _ plain ver] k(2,3) by auto
  have "nvram_import E (Some path) w = Some (0, w\<lparr>kdev := k'\<rparr>)"
    using saved h(4) import_header_abs [OF w(1) x ver hdr same] k(1) k'(1)
    by (simp add: nvram_import_def Let_def line str)
  then show ?thesis
    using k(4) k'(2-4) by (intro exI [of _ k']) simp
qed

end

end
