(* ===== verification/Export_Props.thy ===== *)
theory Export_Props
  imports Export_Facts Fw_Demo
begin

text \<open>Saving the settings of one driver in a file and loading them into another.\<close>

text \<open>C4. Round trip of export and import: \<^verbatim>\<open>nvram_export\<close> writes a file, and \<^verbatim>\<open>nvram_import\<close> of a file with
  that text, on any driver of the same product and build, returns 0 and leaves every exported variable
  of the table of defaults with the value it had on the first driver (an empty value counts as none), and
  every variable that is protected, temporary or outside the table with the value it had on the second.  Only
  \<^verbatim>\<open>prod_subsubcat\<close> is removed.  The table has distinct names, the lines fit the buffer of \<^verbatim>\<open>fgets\<close> and hold no
  newline, and the version of the build consists of digits and points and is in the table of versions.\<close>

theorem export_import_roundtrip:
  fixes w w2 :: "'m driver world"
  assumes src: "dinv_flash F (kdev w)" "writable w path"
    and tgt: "dinv_flash F (kdev w2)" "kcap N lim (dabs (kdev w2))"
    and tab: "nvram_ezpacket_default w2 = nvram_ezpacket_default w" "distinct (map tup_name (nvram_ezpacket_default w))"
      "\<forall>v \<in> set (nvram_ezpacket_default w). exported v \<longrightarrow> entry_ok N (\<lambda>n x. length x \<le> lim n) (dabs (kdev w)) v"
    and ver: "plain_build b" "pure_version b"
      "find_version (nvram_fw_table (kern_env b F junk)) (EZP_PROD_VERSION b) None = Some n"
    and hdr: "header_ok b (dabs (kdev w))"
    and same: "dabs (kdev w2) ''prod_cat'' = dabs (kdev w) ''prod_cat''"
      "dabs (kdev w2) ''prod_subcat'' = dabs (kdev w) ''prod_subcat''"
  shows "\<exists>s. nvram_export (kern_env b F junk) (Some path) w = Some (write_file path s w) \<and>
    (read_file path w2 = Some s \<longrightarrow>
      (\<exists>k. nvram_import (kern_env b F junk) (Some path) w2 = Some (0, w2\<lparr>kdev := k\<rparr>) \<and> dinv_flash F k \<and>
        empty_value (dabs k ''prod_subsubcat'') \<and>
        (\<forall>v \<in> set (nvram_ezpacket_default w). exported v \<and> tup_name v \<noteq> ''prod_subsubcat'' \<longrightarrow>
           dabs k (tup_name v) = norm_val (dabs (kdev w) (tup_name v))) \<and>
        (\<forall>x. x \<notin> tup_name ` set (filter exported (nvram_ezpacket_default w)) \<and> x \<noteq> ''prod_subsubcat'' \<longrightarrow>
           dabs k x = dabs (kdev w2) x)))"
proof -
  let ?E = "kern_env b F junk" and ?m = "dabs (kdev w)" and ?t = "nvram_ezpacket_default w"
  have b: "bld ?E = b"
    by (simp add: kern_env_def)
  have x: "\<not> defined b EZP_PROD_SUPERCAT_X"
    using ver(1) by (simp add: plain_build_def)
  have names: "\<forall>v \<in> set ?t. exported v \<longrightarrow> good_name (tup_name v)"
    using tab(3) by (auto simp: entry_ok_def)
  have nul: "CHR 0x00 \<notin> set (cur_text (?m n))" for n
    using kernc.abs_no_nul [OF src(1), of n] by (cases "?m n") auto
  have ex: "nvram_export ?E (Some path) w = Some (write_file path (saved_header b ?m @ saved_lines ?t ?m) w)"
    using kernc.nvram_export_abs [of F w b junk path, unfolded b] src x ver(2) names by blast
  let ?r = "drop_subsubcat (restored ?t ?m (dabs (kdev w2)))"
  have im: "\<exists>k. nvram_import ?E (Some path) w2 = Some (0, w2\<lparr>kdev := k\<rparr>) \<and> dinv_flash F k \<and> dabs k = ?r"
    if h: "read_file path w2 = Some (saved_header b ?m @ saved_lines ?t ?m)"
    using kernc.nvram_import_abs [of F w2 N lim b junk n ?m path, unfolded b tab(1)] tgt ver hdr same tab(2,3) nul h
    by blast
  have r: "empty_value (?r ''prod_subsubcat'')"
    "v \<in> set ?t \<Longrightarrow> exported v \<Longrightarrow> tup_name v \<noteq> ''prod_subsubcat'' \<Longrightarrow> ?r (tup_name v) = norm_val (?m (tup_name v))"
    "x \<notin> tup_name ` set (filter exported ?t) \<Longrightarrow> x \<noteq> ''prod_subsubcat'' \<Longrightarrow> ?r x = dabs (kdev w2) x" for v x
    by (simp_all add: drop_subsubcat_empty drop_subsubcat_other restored_in restored_out del: set_filter)
  show ?thesis
  proof (rule exI, rule conjI [OF ex], rule impI)
    assume "read_file path w2 = Some (saved_header b ?m @ saved_lines ?t ?m)"
    then obtain k where k: "nvram_import ?E (Some path) w2 = Some (0, w2\<lparr>kdev := k\<rparr>)" "dinv_flash F k" "dabs k = ?r"
      using im by blast
    show "\<exists>k. nvram_import ?E (Some path) w2 = Some (0, w2\<lparr>kdev := k\<rparr>) \<and> dinv_flash F k \<and>
        empty_value (dabs k ''prod_subsubcat'') \<and>
        (\<forall>v \<in> set ?t. exported v \<and> tup_name v \<noteq> ''prod_subsubcat'' \<longrightarrow> dabs k (tup_name v) = norm_val (?m (tup_name v))) \<and>
        (\<forall>x. x \<notin> tup_name ` set (filter exported ?t) \<and> x \<noteq> ''prod_subsubcat'' \<longrightarrow> dabs k x = dabs (kdev w2) x)"
      using k(1,2) r unfolding k(3) [symmetric] by blast
  qed
qed

definition demo_product :: "(string \<times> string) list" where
  "demo_product = [(''brand'', ''EZ''), (''model'', ''X1''), (''prod_cat'', ''1''), (''prod_subcat'', ''A'')]"

definition demo_export_names :: "string set" where
  "demo_export_names = {''brand'', ''model'', ''prod_cat'', ''prod_subcat'', ''lan_ipaddr'', ''hwaddr''}"

definition demo_export_table :: "nvram_tuple list" where
  "demo_export_table = [demo_tuple ''lan_ipaddr'' [] NVRAM_NONE, demo_tuple ''hwaddr'' [] NVRAM_PROTECTED]"

lemma demo_product_driver:
  "good_name n \<Longrightarrow> n \<in> demo_export_names \<Longrightarrow> v \<noteq> [] \<Longrightarrow> CHR 0x00 \<notin> set v \<Longrightarrow> length v \<le> 100 \<Longrightarrow>
   \<exists>d :: string driver. dinv_flash nor_flash d \<and> kcap demo_export_names lim100 (dabs d) \<and>
     dabs d = map_of ((n, v) # (''hwaddr'', h # hs) # demo_product)"
  if "CHR 0x00 \<notin> set (h # hs)" "length (h # hs) \<le> 100"
  by (rule demo_drivers)
    (use that in \<open>simp_all add: kcap_def demo_product_def demo_export_names_def lim100_def good_name_def IMAGE_ROOM_def NVRAM_SPACE_def\<close>)

lemma demo_exported: "exported (demo_tuple ''lan_ipaddr'' [] NVRAM_NONE)" "\<not> exported (demo_tuple ''hwaddr'' [] NVRAM_PROTECTED)"
  by (simp_all add: exported_def nvram_option_defs)

lemma demo_header:
  "header_ok demo_build (map_of ((''lan_ipaddr'', v) # (''hwaddr'', h) # demo_product))"
  by (simp add: header_ok_def saved_header_def demo_product_def)

lemma demo_entry:
  "entry_ok demo_export_names (\<lambda>n x. length x \<le> lim100 n)
     (map_of ((''lan_ipaddr'', ''10.0.0.1'') # (''hwaddr'', h) # demo_product)) (demo_tuple ''lan_ipaddr'' [] NVRAM_NONE)"
  by (simp add: entry_ok_def saved_line_def export_line_def good_name_def demo_export_names_def lim100_def nvram_option_defs)

theorem export_import_roundtrip_witness:
  "\<exists>(d :: string driver) d2 s k. dabs d ''lan_ipaddr'' = Some ''10.0.0.1'' \<and> dabs d2 ''lan_ipaddr'' = Some ''192.168.1.1'' \<and>
     nvram_export (kern_env demo_build nor_flash 0) (Some ''f'') (demo_world demo_export_table d) =
       Some (write_file ''f'' s (demo_world demo_export_table d)) \<and>
     nvram_import (kern_env demo_build nor_flash 0) (Some ''f'') (write_file ''f'' s (demo_world demo_export_table d2)) =
       Some (0, (write_file ''f'' s (demo_world demo_export_table d2))\<lparr>kdev := k\<rparr>) \<and>
     dabs k ''lan_ipaddr'' = Some ''10.0.0.1'' \<and> dabs k ''hwaddr'' = Some ''02''"
proof -
  obtain d :: "string driver" where d: "dinv_flash nor_flash d" "dabs d = map_of ((''lan_ipaddr'', ''10.0.0.1'') # (''hwaddr'', ''01'') # demo_product)"
    using demo_product_driver [of "CHR ''0''" "''1''" "''lan_ipaddr''" "''10.0.0.1''"]
    by (auto simp: demo_export_names_def good_name_def)
  obtain d2 :: "string driver" where d2: "dinv_flash nor_flash d2" "kcap demo_export_names lim100 (dabs d2)"
      "dabs d2 = map_of ((''lan_ipaddr'', ''192.168.1.1'') # (''hwaddr'', ''02'') # demo_product)"
    using demo_product_driver [of "CHR ''0''" "''2''" "''lan_ipaddr''" "''192.168.1.1''"]
    by (auto simp: demo_export_names_def good_name_def)
  let ?E = "kern_env demo_build nor_flash 0" and ?w = "demo_world demo_export_table d"
  let ?w2 = "\<lambda>s. write_file ''f'' s (demo_world demo_export_table d2)"
  have w2: "kdev (?w2 s) = d2" "nvram_ezpacket_default (?w2 s) = demo_export_table" "read_file ''f'' (?w2 s) = Some s" for s
    by (simp_all add: write_file_def read_file_def action_path_def)
  have tab: "nvram_ezpacket_default ?w = demo_export_table" "kdev ?w = d"
    by simp_all
  have *: "\<exists>s. nvram_export ?E (Some ''f'') ?w = Some (write_file ''f'' s ?w) \<and>
    (read_file ''f'' (?w2 t) = Some s \<longrightarrow>
      (\<exists>k. nvram_import ?E (Some ''f'') (?w2 t) = Some (0, (?w2 t)\<lparr>kdev := k\<rparr>) \<and> dinv_flash nor_flash k \<and>
        empty_value (dabs k ''prod_subsubcat'') \<and>
        (\<forall>v \<in> set (nvram_ezpacket_default ?w). exported v \<and> tup_name v \<noteq> ''prod_subsubcat'' \<longrightarrow>
           dabs k (tup_name v) = norm_val (dabs (kdev ?w) (tup_name v))) \<and>
        (\<forall>x. x \<notin> tup_name ` set (filter exported (nvram_ezpacket_default ?w)) \<and> x \<noteq> ''prod_subsubcat'' \<longrightarrow>
           dabs k x = dabs (kdev (?w2 t)) x)))" for t
  proof (rule export_import_roundtrip [where N = demo_export_names and lim = lim100])
    show "\<forall>v \<in> set (nvram_ezpacket_default ?w). exported v \<longrightarrow>
        entry_ok demo_export_names (\<lambda>n x. length x \<le> lim100 n) (dabs (kdev ?w)) v"
      unfolding tab d(2) using demo_entry demo_exported(2) by (simp add: demo_export_table_def)
    show "find_version (nvram_fw_table ?E) (EZP_PROD_VERSION demo_build) None = Some NVRAM_FW_3_0_7"
      by (simp add: demo_find)
    show "header_ok demo_build (dabs (kdev ?w))"
      unfolding tab d(2) by (rule demo_header)
    show "pure_version demo_build"
      by (simp add: pure_version_def demo_versions)
    show "dabs (kdev (?w2 t)) ''prod_cat'' = dabs (kdev ?w) ''prod_cat''"
      "dabs (kdev (?w2 t)) ''prod_subcat'' = dabs (kdev ?w) ''prod_subcat''"
      unfolding w2 tab d(2) d2(3) by simp_all
  qed (use d(1) d2(1,2) w2 in \<open>simp_all add: plain_build_def demo_world_def demo_export_table_def\<close>)
  obtain s where s: "nvram_export ?E (Some ''f'') ?w = Some (write_file ''f'' s ?w)"
    using * by blast
  have "s = s'" if "nvram_export ?E (Some ''f'') ?w = Some (write_file ''f'' s' ?w)" for s'
    using that s read_write_file [of "''f''" _ ?w] by (metis option.inject)
  then obtain k where k: "nvram_import ?E (Some ''f'') (?w2 s) = Some (0, (?w2 s)\<lparr>kdev := k\<rparr>)"
      "\<forall>v \<in> set demo_export_table. exported v \<and> tup_name v \<noteq> ''prod_subsubcat'' \<longrightarrow>
         dabs k (tup_name v) = norm_val (dabs d (tup_name v))"
      "\<forall>x. x \<notin> tup_name ` set (filter exported demo_export_table) \<and> x \<noteq> ''prod_subsubcat'' \<longrightarrow> dabs k x = dabs d2 x"
    using * [of s] unfolding w2 tab by blast
  have "dabs k ''lan_ipaddr'' = Some ''10.0.0.1''"
    using k(2) demo_exported(1) d(2) by (simp add: demo_export_table_def)
  moreover have "dabs k ''hwaddr'' = Some ''02''"
    using k(3) [THEN spec, of "''hwaddr''"] demo_exported d2(3) by (simp add: demo_export_table_def)
  ultimately show ?thesis
    using s d(2) d2(3) k(1) by (intro exI [of _ d] exI [of _ d2] exI [of _ s] exI [of _ k]) simp
qed

end
