(* ===== verification/Nvram_Cli.thy ===== *)
theory Nvram_Cli
  imports Nvram_Export Kernel_Hash
begin

text \<open>
  The \<^verbatim>\<open>nvram\<close> command, \<^verbatim>\<open>src/package/ezp-nvram/src/main.c\<close>: it selects an operation of the library by its
  arguments (without the name of the program) and prints the result.
\<close>

section \<open>Results\<close>

text \<open>
  The exit status, what is written to the standard output and to the standard error, and the signals that are
  sent, with the world that the command leaves.
\<close>

record cli_result =
  status :: int
  stdout :: string
  stderr :: string
  signals :: "(int \<times> int) list"

definition cli_exit :: "int \<Rightarrow> cli_result" where
  "cli_exit code = \<lparr>status = code, stdout = [], stderr = [], signals = []\<rparr>"

definition cli_print :: "string \<Rightarrow> cli_result" where
  "cli_print text = (cli_exit 0)\<lparr>stdout := text\<rparr>"

definition usage :: cli_result where
  "usage = (cli_exit 0)\<lparr>stderr :=
     ''usage: nvram [get name] [set name=value] '' @ [CHR 0x0A] @ '' [unset name] [show] [default] [factory] '' @ [CHR 0x0A] @
     '' [import filename] [export filename]'' @ [CHR 0x0A] @ '' [upgrade] [downgrade version]''\<rparr>"

definition puts_trim_cr :: "string \<Rightarrow> string" where
  "puts_trim_cr str = (if str \<noteq> [] \<and> last str = CHR 0x0D then butlast str else str) @ [CHR 0x0A]"

section \<open>Arguments\<close>

text \<open>\<^verbatim>\<open>!strncmp(arg, word, n)\<close>\<close>

definition begins :: "string \<Rightarrow> string \<Rightarrow> bool" where
  "begins arg word \<longleftrightarrow> strncmp arg word (length word) = 0"

definition abbreviates :: "string \<Rightarrow> string \<Rightarrow> bool" where
  "abbreviates arg word \<longleftrightarrow> strncmp arg word (length arg) = 0"

text \<open>
  \<^verbatim>\<open>!strncmp(argv[0], cmd, strlen(argv[0])) && !strncmp(argv[1], sub, strlen(argv[1]))\<close>: a missing second
  argument is the NULL that ends \<^verbatim>\<open>argv\<close>.
\<close>

definition two_words :: "string \<Rightarrow> string \<Rightarrow> string \<Rightarrow> string list \<Rightarrow> bool c" where
  "two_words cmd sub arg0 args =
     (if \<not> abbreviates arg0 cmd then Some False
      else case args of
             [] \<Rightarrow> None
           | arg1 # _ \<Rightarrow> Some (abbreviates arg1 sub))"

text \<open>
  \<^verbatim>\<open>strncpy(value = buf, *argv, sizeof(buf)); name = strsep(&value, "=")\<close>.  An argument that fills the buffer
  leaves it without a terminating NUL.
\<close>

definition split_assignment :: "string \<Rightarrow> (string \<times> string option) c" where
  "split_assignment arg =
     (if NVRAM_SPACE \<le> length arg then None
      else Some (takeWhile (\<lambda>ch. ch \<noteq> CHR ''='') arg,
                 case dropWhile (\<lambda>ch. ch \<noteq> CHR ''='') arg of [] \<Rightarrow> None | _ # v \<Rightarrow> Some v))"

section \<open>Showing\<close>

text \<open>The strings of the buffer up to the empty one; running past the buffer is undefined.\<close>

function buf_strings :: "string \<Rightarrow> string list c" where
  "buf_strings buf =
     (if CHR 0x00 \<notin> set buf then None
      else let s = c_string buf in
           if s = [] then Some []
           else map_option ((#) s) (buf_strings (drop (length s + 1) buf)))"
  by pat_completeness auto

termination
  by (relation "measure length") (auto simp: c_string_def takeWhile_eq_Nil_iff intro: diff_less)

declare buf_strings.simps [simp del]

definition show_all :: "'s env \<Rightarrow> 's world \<Rightarrow> cli_result c" where
  "show_all E w = do {
     buf \<leftarrow> snd (nvram_getall E NVRAM_SPACE w);
     names \<leftarrow> buf_strings buf;
     let bytes = int NVRAM_HEADER_SIZE + int (sum_list (map (\<lambda>s. length s + 1) names));
     Some ((cli_print (concat (map puts_trim_cr names)))
       \<lparr>stderr := ''size: '' @ int_to_dec bytes @ '' bytes ('' @ int_to_dec (int NVRAM_SPACE - bytes) @ '' left)'' @ [CHR 0x0A]\<rparr>)
   }"

definition cli_show :: "'s env \<Rightarrow> string list \<Rightarrow> 's world \<Rightarrow> cli_result c" where
  "cli_show E argv w =
     (case argv of
        [] \<Rightarrow> show_all E w
      | [rs, nth_i] \<Rightarrow>
          map_option (\<lambda>(_, res). cli_print (puts_trim_cr res)) (ezplib_get_rule E (Some rs) (atoi nth_i) EZPLIB_BUF_LEN w)
      | [rs, nth_i, type] \<Rightarrow> do {
          (_, out) \<leftarrow> ezplib_get_attr_val E (Some rs) (atoi nth_i) (Some type) EZPLIB_BUF_LEN EZPLIB_USE_CLI w;
          res \<leftarrow> out;
          Some (cli_print (puts_trim_cr res))
        }
      | [rs, nth_i, word, start, end_i] \<Rightarrow>
          if strncmp word ''subrule'' (length nth_i) = 0 then do {
            (_, out) \<leftarrow> ezplib_get_subrule E (Some rs) (atoi nth_i) (atoi start) (atoi end_i) EZPLIB_BUF_LEN w;
            res \<leftarrow> out;
            Some (cli_print (puts_trim_cr res))
          }
          else Some (cli_exit 1)
      | _ \<Rightarrow> Some (cli_exit 1))"

section \<open>Changing rules\<close>

text \<open>A negative result is printed by \<^verbatim>\<open>%s\<close>, for which an \<^verbatim>\<open>int\<close> is not an argument.\<close>

definition report_rule :: "(int \<times> 's world) c \<Rightarrow> (cli_result \<times> 's world) c" where
  "report_rule res = do {
     (ret, w) \<leftarrow> res;
     if ret < 0 then None else Some (cli_exit 0, w)
   }"

definition report_attr :: "(int \<times> 's world) c \<Rightarrow> (cli_result \<times> 's world) c" where
  "report_attr res = do {
     (ret, w) \<leftarrow> res;
     if ret < 0 then Some ((cli_exit 1)\<lparr>stdout := ''NVRAM replace attribute failed: '' @ int_to_dec ret @ [CHR 0x0A]\<rparr>, w)
     else Some (cli_exit 0, w)
   }"

definition cli_replace :: "'s env \<Rightarrow> string list \<Rightarrow> 's world \<Rightarrow> (cli_result \<times> 's world) c" where
  "cli_replace E args w =
     (case args of
        [] \<Rightarrow> None
      | arg1 # argv \<Rightarrow>
          if abbreviates arg1 ''rule'' then
            (case argv of
               [rs, nth_i, new] \<Rightarrow> report_rule (ezplib_replace_rule E (Some rs) (atoi nth_i) (Some new) w)
             | _ \<Rightarrow> Some (cli_exit 1, w))
          else if abbreviates arg1 ''attribute'' then
            (case argv of
               [rs, nth_i, attr, new] \<Rightarrow>
                 report_attr (ezplib_replace_attr E (Some rs) (atoi nth_i) (Some attr) (Some new) w)
             | _ \<Rightarrow> Some (cli_exit 1, w))
          else Some (cli_exit 1, w))"

section \<open>The command\<close>

text \<open>The part of \<^verbatim>\<open>main\<close> after the rule commands.\<close>

definition cli_system :: "'s env \<Rightarrow> string \<Rightarrow> string list \<Rightarrow> 's world \<Rightarrow> (cli_result \<times> 's world) c" where
  "cli_system E arg0 args w =
     (if begins arg0 ''boot'' then map_option (Pair (cli_exit 0)) (nvram_boot E w)
      else if begins arg0 ''upgrade'' then do {
        (change, w) \<leftarrow> nvram_upgrade E (case args of [] \<Rightarrow> None | s # _ \<Rightarrow> Some s) w;
        w \<leftarrow> (if change then map_option snd (nvram_commit E w) else Some w);
        Some (cli_exit 0, w)
      }
      else if begins arg0 ''downgrade'' then
        (case args of
           [target] \<Rightarrow> do {
             (change, w) \<leftarrow> nvram_downgrade E target w;
             w \<leftarrow> (if change then map_option snd (nvram_commit E w) else Some w);
             Some (cli_exit 0, w)
           }
         | _ \<Rightarrow> Some ((cli_exit 0)\<lparr>stderr := ''nvram downgrade error'' @ [CHR 0x0A]\<rparr>, w))
      else if begins arg0 ''default'' then
        map_option (Pair (cli_exit 0))
          (case args of [] \<Rightarrow> nvram_default E w | rulename # _ \<Rightarrow> nvram_default_rule E rulename w)
      else if begins arg0 ''factory'' then do {
        w \<leftarrow> nvram_default E w;
        (_, w) \<leftarrow> nvram_commit E w;
        Some ((cli_exit 0)\<lparr>signals := [(1, 15)]\<rparr>, w)
      }
      else if begins arg0 ''import'' then
        map_option (\<lambda>(ret, w). (cli_exit ret, w)) (nvram_import E (case args of [] \<Rightarrow> None | s # _ \<Rightarrow> Some s) w)
      else if begins arg0 ''export'' then
        map_option (Pair (cli_exit 0)) (nvram_export E (case args of [] \<Rightarrow> None | s # _ \<Rightarrow> Some s) w)
      else Some (cli_exit 1, w))"

text \<open>The commands \<^verbatim>\<open>append\<close> to \<^verbatim>\<open>rule num\<close>, each tried after the one before did not match.\<close>

definition cli_rules :: "'s env \<Rightarrow> string \<Rightarrow> string list \<Rightarrow> 's world \<Rightarrow> (cli_result \<times> 's world) c" where
  "cli_rules E arg0 args w = do {
     is_append \<leftarrow> two_words ''append'' ''rule'' arg0 args;
     if is_append then
       (case tl args of
          [rs, new] \<Rightarrow> report_rule (ezplib_append_rule E (Some rs) (Some new) w)
        | _ \<Rightarrow> Some (cli_exit 1, w))
     else do {
       is_prepend \<leftarrow> two_words ''prepend'' ''rule'' arg0 args;
       if is_prepend then
         (case tl args of
            [rs, new] \<Rightarrow> report_rule (ezplib_prepend_rule E (Some rs) (Some new) w)
          | _ \<Rightarrow> Some (cli_exit 1, w))
       else do {
         is_add \<leftarrow> two_words ''add'' ''rule'' arg0 args;
         if is_add then
           (case tl args of
              [rs, nth_i, new] \<Rightarrow> report_rule (ezplib_add_rule E (Some rs) (atoi nth_i) (Some new) w)
            | _ \<Rightarrow> Some (cli_exit 1, w))
         else do {
           is_delete \<leftarrow> two_words ''delete'' ''rule'' arg0 args;
           if is_delete then
             (case tl args of
                [rs, nth_i] \<Rightarrow> report_rule (ezplib_delete_rule E (Some rs) (atoi nth_i) w)
              | _ \<Rightarrow> Some (cli_exit 1, w))
           else do {
             is_num \<leftarrow> two_words ''rule'' ''num'' arg0 args;
             if is_num then
               (case tl args of
                  [rs] \<Rightarrow> report_rule (map_option (\<lambda>ret. (ret, w)) (ezplib_get_rule_num E rs w))
                | _ \<Rightarrow> Some (cli_exit 1, w))
             else cli_system E arg0 args w
           }
         }
       }
     }
   }"

definition nvram_main :: "'s env \<Rightarrow> string list \<Rightarrow> 's world \<Rightarrow> (cli_result \<times> 's world) c" where
  "nvram_main E argv w =
     (case argv of
        [] \<Rightarrow> Some (usage, w)
      | arg0 # args \<Rightarrow>
          if begins arg0 ''get'' then
            (case args of
               [] \<Rightarrow> Some (cli_exit 1, w)
             | name # _ \<Rightarrow> do {
                 value \<leftarrow> nvram_get E name w;
                 Some (case value of None \<Rightarrow> cli_exit 0 | Some v \<Rightarrow> cli_print (puts_trim_cr v), w)
               })
          else if begins arg0 ''set'' then
            (case args of
               [] \<Rightarrow> Some (cli_exit 1, w)
             | arg # _ \<Rightarrow> do {
                 (name, value) \<leftarrow> split_assignment arg;
                 (_, w) \<leftarrow> nvram_set E name value w;
                 Some (cli_exit 0, w)
               })
          else if begins arg0 ''fset'' then
            (case args of
               [] \<Rightarrow> Some (cli_exit 1, w)
             | arg # _ \<Rightarrow> do {
                 (name, value) \<leftarrow> split_assignment arg;
                 (_, w) \<leftarrow> nvram_fset E name value w;
                 Some (cli_exit 0, w)
               })
          else if begins arg0 ''unset'' then
            (case args of
               [] \<Rightarrow> Some (cli_exit 1, w)
             | name # _ \<Rightarrow> map_option (\<lambda>(_, w). (cli_exit 0, w)) (nvram_unset E name w))
          else if begins arg0 ''commit'' then map_option (\<lambda>(_, w). (cli_exit 0, w)) (nvram_commit E w)
          else if begins arg0 ''show'' then map_option (\<lambda>res. (res, w)) (cli_show E args w)
          else if abbreviates arg0 ''replace'' then cli_replace E args w
          else cli_rules E arg0 args w)"

end
