(* ===== verification/Cli_Facts.thy ===== *)
theory Cli_Facts
  imports Nvram_Cli Kernel_Flash
begin

text \<open>
  The choice of an operation by the arguments of the \<^verbatim>\<open>nvram\<close> command, and the listing of all variables.
\<close>

section \<open>Words\<close>

lemma begins_prefix: "CHR 0x00 \<notin> set arg \<Longrightarrow> CHR 0x00 \<notin> set word \<Longrightarrow> begins arg word \<longleftrightarrow> take (length word) arg = word"
  by (simp add: begins_def strncmp_zero)

lemma abbreviates_prefix:
  "CHR 0x00 \<notin> set arg \<Longrightarrow> CHR 0x00 \<notin> set word \<Longrightarrow> abbreviates arg word \<longleftrightarrow> take (length arg) word = arg"
  by (auto simp: abbreviates_def strncmp_zero)

lemmas word_simps = begins_prefix abbreviates_prefix

lemma puts_plain: "v = [] \<or> last v \<noteq> CHR 0x0D \<Longrightarrow> puts_trim_cr v = v @ [CHR 0x0A]"
  by (auto simp: puts_trim_cr_def)

lemma split_assignment_pair:
  assumes "CHR ''='' \<notin> set n" and "length n + length v + 1 < NVRAM_SPACE"
  shows "split_assignment (n @ CHR ''='' # v) = Some (n, Some v)"
  using assms by (auto simp: split_assignment_def takeWhile_append dropWhile_append dropWhile_eq_Nil_conv)

text \<open>What \<^verbatim>\<open>main\<close> does for the words of the properties.\<close>

lemma main_set: "nvram_main E [''set'', arg] w = do {
    (name, value) \<leftarrow> split_assignment arg;
    (_, w) \<leftarrow> nvram_set E name value w;
    Some (cli_exit 0, w)
  }"
  by (simp add: nvram_main_def word_simps)

lemma main_get: "nvram_main E [''get'', name] w = do {
    value \<leftarrow> nvram_get E name w;
    Some (case value of None \<Rightarrow> cli_exit 0 | Some v \<Rightarrow> cli_print (puts_trim_cr v), w)
  }"
  by (simp add: nvram_main_def word_simps)

lemma main_show: "nvram_main E (''show'' # args) w = map_option (\<lambda>res. (res, w)) (cli_show E args w)"
  by (simp add: nvram_main_def word_simps)

lemma main_replace: "nvram_main E (''replace'' # args) w = cli_replace E args w"
  by (simp add: nvram_main_def word_simps)

lemma main_rules:
  assumes "arg0 \<in> {''append'', ''prepend'', ''add'', ''delete'', ''a'', ''ad''}"
  shows "nvram_main E (arg0 # args) w = cli_rules E arg0 args w"
proof -
  have "\<not> begins arg0 ''get'' \<and> \<not> begins arg0 ''set'' \<and> \<not> begins arg0 ''fset'' \<and> \<not> begins arg0 ''unset'' \<and>
    \<not> begins arg0 ''commit'' \<and> \<not> begins arg0 ''show'' \<and> \<not> abbreviates arg0 ''replace''"
    using assms unfolding insert_iff empty_iff by (elim disjE; simp add: word_simps)
  then show ?thesis
    unfolding nvram_main_def list.case by (simp only: simp_thms if_False)
qed

section \<open>Rules\<close>

lemma split_on_snoc: "split_on d (s @ d # t) = split_on d s @ split_on d t"
  by (induction s rule: split_on.induct) (auto split: list.split)

lemma length_split_on_le: "length (split_on d s) \<le> Suc (length s)"
  by (simp add: length_split_on count_le_length)

section \<open>Listing\<close>

lemma buf_strings_entry:
  assumes "CHR 0x00 \<notin> set n" and "CHR 0x00 \<notin> set v"
  shows "buf_strings (entry n v @ rest) = map_option ((#) (n @ CHR ''='' # v)) (buf_strings rest)"
  using c_string_entry [OF assms, of rest]
  by (subst buf_strings.simps) (simp add: entry_def Let_def)

lemma buf_strings_entries:
  "list_all pair_ok ps \<Longrightarrow> buf_strings (entries ps @ CHR 0x00 # rest) = Some (map (\<lambda>(n, v). n @ CHR ''='' # v) ps)"
proof (induction ps)
  case Nil
  then show ?case
    by (subst buf_strings.simps) (simp add: c_string_def)
next
  case (Cons p ps)
  then show ?case
    by (cases p) (auto simp: pair_ok_def buf_strings_entry)
qed

lemma getall_kernel:
  assumes "dinv (kdev w)" and "image_size (dabs (kdev w)) < NVRAM_SPACE"
  shows "snd (nvram_getall (kern_env b F junk) NVRAM_SPACE w) =
    Some (zero_fill NVRAM_SPACE (entries (kpairs (kst (kdev w)))))"
proof -
  let ?st = "kst (kdev w)"
  have "length (entries (kpairs ?st)) \<le> NVRAM_SPACE - 1"
    using assms image_size_kpairs [of ?st] by simp
  then have "write_tuples (\<lambda>len e. e < NVRAM_SPACE - len) ?st = entries (kpairs ?st)"
    by (intro write_tuples_all [of "NVRAM_SPACE - 1"]) (auto simp: NVRAM_SPACE_def)
  then show ?thesis
    by (simp add: nvram_getall_def kern_env_def dev_nvram_read_def k_nvram_getall_def Let_def NVRAM_SPACE_def)
qed

lemma shown_size: "sum_list (map (\<lambda>s. length s + 1) (map (\<lambda>(n, v). n @ CHR ''='' # v) ps)) = length (entries ps)"
  by (induction ps) auto

lemma show_all_kernel:
  assumes "dinv (kdev w)" and "image_size (dabs (kdev w)) < NVRAM_SPACE"
  shows "show_all (kern_env b F junk) w = Some ((cli_print (concat (map (\<lambda>(n, v). puts_trim_cr (n @ CHR ''='' # v)) (kpairs (kst (kdev w))))))
    \<lparr>stderr := ''size: '' @ int_to_dec (int NVRAM_HEADER_SIZE + int (image_size (dabs (kdev w)))) @ '' bytes ('' @
       int_to_dec (int NVRAM_SPACE - (int NVRAM_HEADER_SIZE + int (image_size (dabs (kdev w))))) @ '' left)'' @ [CHR 0x0A]\<rparr>)"
proof -
  let ?st = "kst (kdev w)" and ?ps = "kpairs (kst (kdev w))"
  have ok: "list_all pair_ok ?ps" and size: "length (entries ?ps) = image_size (dabs (kdev w))"
    using kpairs_ok [of ?st] assms(1) image_size_kpairs [of ?st] by simp_all
  obtain z where "NVRAM_SPACE - length (entries ?ps) = Suc z"
    using assms(2) size by (metis Suc_diff_Suc)
  then have "zero_fill NVRAM_SPACE (entries ?ps) = entries ?ps @ CHR 0x00 # replicate z (CHR 0x00)"
    by (simp add: zero_fill_def)
  then have "buf_strings (zero_fill NVRAM_SPACE (entries ?ps)) = Some (map (\<lambda>(n, v). n @ CHR ''='' # v) ?ps)"
    using buf_strings_entries [OF ok] by simp
  moreover have "sum_list (map (\<lambda>s. length s + 1) (map (\<lambda>(n, v). n @ CHR ''='' # v) ?ps)) = image_size (dabs (kdev w))"
    unfolding size [symmetric] by (rule shown_size)
  ultimately show ?thesis
    by (simp add: show_all_def getall_kernel [OF assms] Let_def comp_def prod.case_distrib)
qed

end
