(* ===== verification/Cli_Props.thy ===== *)
theory Cli_Props
  imports Cli_Facts Fw_Demo
begin

text \<open>The \<^verbatim>\<open>nvram\<close> command on the driver: sequences of commands as a script would run them.\<close>

section \<open>Variables\<close>

text \<open>After \<^verbatim>\<open>nvram set name=value\<close> for a variable of the table that may be written, \<^verbatim>\<open>nvram get name\<close> prints the
  value and a newline; both commands end with status 0, and no other variable changes.  The argument fits
  the buffer of the command and the value does not end in a carriage return, which would be cut off.\<close>

theorem cli_set_get:
  fixes w :: "'m driver world"
  assumes "dinv (kdev w)" and "good_name n" and "\<not> defined b EZP_PROD_SUPERCAT_X" and "may_write w n"
    and "CHR 0x00 \<notin> set v" and "v \<noteq> []" and "last v \<noteq> CHR 0x0D" and "kroom (dabs (kdev w)) n v"
    and "length n + length v + 1 < NVRAM_SPACE"
  shows "\<exists>k. nvram_main (kern_env b F junk) [''set'', n @ CHR ''='' # v] w = Some (cli_exit 0, w\<lparr>kdev := k\<rparr>) \<and>
    nvram_main (kern_env b F junk) [''get'', n] (w\<lparr>kdev := k\<rparr>) = Some (cli_print (v @ [CHR 0x0A]), w\<lparr>kdev := k\<rparr>) \<and>
    dinv k \<and> dabs k = (dabs (kdev w))(n \<mapsto> v)"
proof -
  let ?E = "kern_env b F junk"
  obtain k where k: "nvram_set ?E n (Some v) w = Some (0, w\<lparr>kdev := k\<rparr>)" "dinv k" "dabs k = (dabs (kdev w))(n \<mapsto> v)"
    using kern.nvram_set_abs [of w n b F junk "Some v"] assms by (auto simp: may_write_def)
  have "nvram_get ?E n (w\<lparr>kdev := k\<rparr>) = Some (Some v)"
    using kern.nvram_get_abs [of "w\<lparr>kdev := k\<rparr>" n b F junk] assms(2,3) k(2,3) by simp
  moreover have "split_assignment (n @ CHR ''='' # v) = Some (n, Some v)"
    using assms(2,9) by (intro split_assignment_pair) (simp_all add: good_name_def)
  ultimately show ?thesis
    using k assms(7) by (intro exI [of _ k]) (simp add: main_set main_get puts_plain)
qed

theorem cli_set_get_witness:
  "\<exists>d k :: string driver. dabs d = [''lan_proto'' \<mapsto> ''static''] \<and>
     nvram_main (kern_env demo_build nor_flash 0) [''set'', ''lan_proto=dhcp'']
         (demo_world [demo_tuple ''lan_proto'' ''static'' NVRAM_NONE] d) =
       Some (cli_exit 0, (demo_world [demo_tuple ''lan_proto'' ''static'' NVRAM_NONE] d)\<lparr>kdev := k\<rparr>) \<and>
     dabs k ''lan_proto'' = Some ''dhcp''"
proof -
  obtain d :: "string driver" where d: "dinv d" "dabs d = [''lan_proto'' \<mapsto> ''static'']"
    using demo_driver [of "''lan_proto''" "''static''"] by auto
  let ?w = "demo_world [demo_tuple ''lan_proto'' ''static'' NVRAM_NONE] d"
  have "may_write ?w ''lan_proto''"
    by (simp add: may_write_def nvram_get_option_def nvram_option_defs)
  then obtain k where "nvram_main (kern_env demo_build nor_flash 0) [''set'', ''lan_proto=dhcp''] ?w =
      Some (cli_exit 0, ?w\<lparr>kdev := k\<rparr>)" "dabs k = (dabs d)(''lan_proto'' \<mapsto> ''dhcp'')"
    using cli_set_get [of ?w "''lan_proto''" demo_build "''dhcp''" nor_flash 0] d
    by (auto simp: good_name_def kroom_demo NVRAM_SPACE_def)
  then show ?thesis
    using d(2) by (intro exI [of _ d] exI [of _ k]) simp
qed

text \<open>C16. \<^verbatim>\<open>nvram show\<close> prints every variable of the driver exactly once, as a line \<^verbatim>\<open>name=value\<close>, changes nothing,
  and reports on the standard error the size of all entries with the header of an image and what an
  image has left, when the entries fit the buffer of the command.\<close>

theorem cli_show_all:
  fixes w :: "'m driver world"
  assumes "dinv (kdev w)" and "image_size (dabs (kdev w)) < NVRAM_SPACE"
  shows "\<exists>ps res. nvram_main (kern_env b F junk) [''show''] w = Some (res, w) \<and>
    distinct (map fst ps) \<and> map_of ps = dabs (kdev w) \<and>
    status res = 0 \<and> stdout res = concat (map (\<lambda>(n, v). puts_trim_cr (n @ CHR ''='' # v)) ps) \<and>
    (let size = int NVRAM_HEADER_SIZE + int (image_size (dabs (kdev w)))
     in stderr res = ''size: '' @ int_to_dec size @ '' bytes ('' @ int_to_dec (int NVRAM_SPACE - size) @ '' left)'' @ [CHR 0x0A])"
  using show_all_kernel [OF assms, of b F junk] distinct_kpairs [of "kst (kdev w)"] map_of_kpairs [of "kst (kdev w)"] assms(1)
  by (intro exI [of _ "kpairs (kst (kdev w))"]) (simp add: main_show cli_show_def cli_print_def cli_exit_def Let_def)

lemma digit_chars:
  "digit_char 1 = CHR ''1''" "digit_char 2 = CHR ''2''" "digit_char 3 = CHR ''3''" "digit_char 7 = CHR ''7''"
  "digit_char (Suc 0) = CHR ''1''"
  by code_simp+

theorem cli_show_all_witness:
  "\<exists>(d :: string driver) res. dabs d = [''lan_proto'' \<mapsto> ''static''] \<and>
     nvram_main (kern_env demo_build nor_flash 0) [''show''] (demo_world [] d) = Some (res, demo_world [] d) \<and>
     status res = 0 \<and> stderr res = ''size: 37 bytes (32731 left)'' @ [CHR 0x0A]"
proof -
  obtain d :: "string driver" where d: "dinv d" "dabs d = [''lan_proto'' \<mapsto> ''static'']"
    using demo_driver [of "''lan_proto''" "''static''"] by auto
  let ?w = "demo_world [] d"
  have "image_size (dabs (kdev ?w)) = 17"
    by (simp add: d(2))
  moreover have "int_to_dec 37 = ''37''" "int_to_dec 32731 = ''32731''"
    by (simp_all add: int_to_dec_def nat_to_dec.simps digit_chars)
  ultimately obtain res where "nvram_main (kern_env demo_build nor_flash 0) [''show''] ?w = Some (res, ?w)"
      "status res = 0" "stderr res = ''size: 37 bytes (32731 left)'' @ [CHR 0x0A]"
    using cli_show_all [of ?w demo_build nor_flash 0] d(1) by (auto simp: Let_def kernel_sizes)
  then show ?thesis
    using d(2) by (intro exI [of _ d] exI [of _ res]) (simp only: simp_thms)
qed

section \<open>Rules\<close>

text \<open>C15. After \<^verbatim>\<open>nvram append rule set new\<close>, \<^verbatim>\<open>nvram show set n\<close> with the former number of rules for \<^verbatim>\<open>n\<close> prints the new
  rule, and with a smaller \<^verbatim>\<open>n\<close> the rule that was there before; all commands end with status 0, and no
  other variable changes.\<close>

theorem cli_append_show:
  fixes w :: "'m driver world"
  assumes st: "stored_rules dabs dinv b w rs wl" "may_write w rs"
    and new: "CHR 0x00 \<notin> set new" "RULE_SEP \<notin> set new" "CHR ''%'' \<notin> set new"
    and len: "length wl + 1 + length new < EZPLIB_BUF_LEN"
    and room: "kroom (dabs (kdev w)) rs (wl @ RULE_SEP # new)"
    and n: "n \<le> length (split_on RULE_SEP wl)"
  shows "\<exists>k. nvram_main (kern_env b F junk) [''append'', ''rule'', rs, new] w = Some (cli_exit 0, w\<lparr>kdev := k\<rparr>) \<and>
    nvram_main (kern_env b F junk) [''show'', rs, nat_to_dec n] (w\<lparr>kdev := k\<rparr>) =
      Some (cli_print (puts_trim_cr (if n = length (split_on RULE_SEP wl) then new else split_on RULE_SEP wl ! n)), w\<lparr>kdev := k\<rparr>) \<and>
    dinv k \<and> dabs k = (dabs (kdev w))(rs \<mapsto> wl @ RULE_SEP # new)"
proof -
  let ?E = "kern_env b F junk" and ?wl = "wl @ RULE_SEP # new"
  have b: "bld ?E = b"
    by (simp add: kern_env_def)
  obtain k where k: "ezplib_append_rule ?E (Some rs) (Some new) w = Some (int (length wl + 1 + length new), w\<lparr>kdev := k\<rparr>)"
      "dinv k" "dabs k = (dabs (kdev w))(rs \<mapsto> ?wl)"
    using kern.append_rule_abs [of b F junk w rs wl new, unfolded b] st new(1) len room by blast
  have st': "stored_rules dabs dinv b (w\<lparr>kdev := k\<rparr>) rs ?wl"
    using st(1) k(2,3) new(3) len by (auto simp: stored_rules_def rule_text_def RULE_SEP_def)
  have split: "split_on RULE_SEP ?wl = split_on RULE_SEP wl @ [new]"
    using split_on_snoc [of RULE_SEP wl new] split_on_no_sep [OF new(2)] by simp
  have "length (split_on RULE_SEP wl) \<le> Suc (length wl)"
    by (rule length_split_on_le)
  then have "atoi (nat_to_dec n) = int n"
    using n len by (simp add: atoi_nat_to_dec clamp_int_def EZPLIB_BUF_LEN_def)
  moreover have "ezplib_get_rule ?E (Some rs) (int n) EZPLIB_BUF_LEN (w\<lparr>kdev := k\<rparr>) =
      Some (int (length (split_on RULE_SEP ?wl ! n)), split_on RULE_SEP ?wl ! n)"
    using kern.get_rule_full [of b F junk "w\<lparr>kdev := k\<rparr>" rs ?wl n, unfolded b] st' n by (simp add: split)
  moreover have "split_on RULE_SEP ?wl ! n = (if n = length (split_on RULE_SEP wl) then new else split_on RULE_SEP wl ! n)"
    using n by (simp add: split nth_append)
  ultimately have "nvram_main ?E [''show'', rs, nat_to_dec n] (w\<lparr>kdev := k\<rparr>) =
      Some (cli_print (puts_trim_cr (if n = length (split_on RULE_SEP wl) then new else split_on RULE_SEP wl ! n)), w\<lparr>kdev := k\<rparr>)"
    by (simp add: main_show cli_show_def)
  moreover have "nvram_main ?E [''append'', ''rule'', rs, new] w = Some (cli_exit 0, w\<lparr>kdev := k\<rparr>)"
    using k(1) by (simp add: main_rules cli_rules_def two_words_def word_simps report_rule_def)
  ultimately show ?thesis
    using k(2,3) by (intro exI [of _ k]) simp
qed

theorem cli_append_show_witness:
  "\<exists>d k :: string driver. dabs d = [''fr_rule'' \<mapsto> ''1^80|0^443''] \<and>
     nvram_main (kern_env demo_build nor_flash 0) [''append'', ''rule'', ''fr_rule'', ''1^22''] (demo_rules ''fr_rule'' d) =
       Some (cli_exit 0, (demo_rules ''fr_rule'' d)\<lparr>kdev := k\<rparr>) \<and>
     nvram_main (kern_env demo_build nor_flash 0) [''show'', ''fr_rule'', ''2''] ((demo_rules ''fr_rule'' d)\<lparr>kdev := k\<rparr>) =
       Some (cli_print (''1^22'' @ [CHR 0x0A]), (demo_rules ''fr_rule'' d)\<lparr>kdev := k\<rparr>)"
proof -
  obtain d :: "string driver" where d: "stored_rules dabs dinv demo_build (demo_rules ''fr_rule'' d) ''fr_rule'' ''1^80|0^443''"
      "dabs d = [''fr_rule'' \<mapsto> ''1^80|0^443'']" "may_write (demo_rules ''fr_rule'' d) ''fr_rule''"
    using demo_rules_driver [of "''fr_rule''" "''1^80|0^443''"]
    by (auto simp: good_name_def rule_text_def EZPLIB_BUF_LEN_def)
  have s: "length (split_on RULE_SEP ''1^80|0^443'') = 2" "puts_trim_cr ''1^22'' = ''1^22'' @ [CHR 0x0A]"
    by (simp_all add: RULE_SEP_def puts_plain)
  have d2: "nat_to_dec 2 = ''2''"
    by code_simp
  obtain k where "nvram_main (kern_env demo_build nor_flash 0) [''append'', ''rule'', ''fr_rule'', ''1^22''] (demo_rules ''fr_rule'' d) =
       Some (cli_exit 0, (demo_rules ''fr_rule'' d)\<lparr>kdev := k\<rparr>)"
     "nvram_main (kern_env demo_build nor_flash 0) [''show'', ''fr_rule'', nat_to_dec 2] ((demo_rules ''fr_rule'' d)\<lparr>kdev := k\<rparr>) =
       Some (cli_print (puts_trim_cr (if 2 = length (split_on RULE_SEP ''1^80|0^443'') then ''1^22''
         else split_on RULE_SEP ''1^80|0^443'' ! 2)), (demo_rules ''fr_rule'' d)\<lparr>kdev := k\<rparr>)"
    using cli_append_show [OF d(1,3), of "''1^22''" 2 nor_flash 0] d(2) s(1)
    by (auto simp: RULE_SEP_def EZPLIB_BUF_LEN_def kroom_demo)
  then show ?thesis
    using d(2) unfolding s d2 if_P [OF refl] by (intro exI [of _ d] exI [of _ k]) (simp only: simp_thms)
qed

text \<open>Abbreviated commands: any beginning of a word stands for it, and the first command of the code that fits is
  taken.  So \<^verbatim>\<open>nvram a rule set n new\<close> is an append with too many arguments and ends with status 1, as \<^verbatim>\<open>nvram r num
  set\<close> is a replacement, without any change; \<^verbatim>\<open>nvram ad rule\<close> is \<^verbatim>\<open>nvram add rule\<close>; and \<^verbatim>\<open>nvram append\<close> alone passes the
  NULL behind the last argument to \<^verbatim>\<open>strlen\<close>.\<close>

theorem cli_abbreviations:
  "nvram_main E [''a'', ''rule'', rs, n, new] w = Some (cli_exit 1, w) \<and>
   nvram_main E [''r'', ''num'', rs] w = Some (cli_exit 1, w) \<and>
   nvram_main E [''ad'', ''rule'', rs, n, new] w = nvram_main E [''add'', ''rule'', rs, n, new] w \<and>
   nvram_main E [''append''] w = None"
  by (intro conjI; (simp add: main_rules cli_rules_def two_words_def word_simps
    | simp add: nvram_main_def cli_replace_def word_simps))

text \<open>A failed rule command has no defined outcome: \<^verbatim>\<open>nvram replace rule set n new\<close> with an index beyond the
  number of rules gets a negative result from the library and passes it to \<^verbatim>\<open>printf\<close> for a \<^verbatim>\<open>%s\<close>.\<close>

theorem cli_replace_out_of_range:
  fixes w :: "'m driver world"
  assumes "stored_rules dabs dinv b w rs wl" and "length (split_on RULE_SEP wl) < n" and "n < 2147483648"
  shows "nvram_main (kern_env b F junk) [''replace'', ''rule'', rs, nat_to_dec n, new] w = None"
proof -
  have "atoi (nat_to_dec n) = int n"
    using assms(3) by (simp add: atoi_nat_to_dec clamp_int_def)
  moreover have "ezplib_get_rule_num (kern_env b F junk) rs w = Some (int (length (split_on RULE_SEP wl)))"
    using kern.get_rule_num_abs [of b F junk w rs wl] assms(1) by (simp add: kern_env_def)
  ultimately show ?thesis
    using assms(1,2)
    by (simp add: main_replace cli_replace_def word_simps report_rule_def ezplib_replace_rule_def
        stored_rules_def good_name_def EZPLIB_IDX_OUT_RANGE_def)
qed

theorem cli_replace_out_of_range_witness:
  "\<exists>d :: string driver. dabs d = [''fr_rule'' \<mapsto> ''1^80|0^443''] \<and>
     nvram_main (kern_env demo_build nor_flash 0) [''replace'', ''rule'', ''fr_rule'', ''3'', ''1^22''] (demo_rules ''fr_rule'' d) = None"
proof -
  obtain d :: "string driver" where d: "stored_rules dabs dinv demo_build (demo_rules ''fr_rule'' d) ''fr_rule'' ''1^80|0^443''"
      "dabs d = [''fr_rule'' \<mapsto> ''1^80|0^443'']"
    using demo_rules_driver [of "''fr_rule''" "''1^80|0^443''"]
    by (auto simp: good_name_def rule_text_def EZPLIB_BUF_LEN_def)
  have "nat_to_dec 3 = ''3''"
    by code_simp
  then show ?thesis
    using cli_replace_out_of_range [OF d(1), of 3 nor_flash 0 "''1^22''"] d(2)
    by (intro exI [of _ d]) (simp add: RULE_SEP_def)
qed

end
