(* ===== verification/Crc_Facts.thy ===== *)
theory Crc_Facts
  imports Kernel_Commit
begin

text \<open>
  The checksum of the images: the table of \<^verbatim>\<open>hndcrc8\<close> is the division by the generator polynomial bit by bit,
  so the checksum tells apart any two strings that differ in one character.
\<close>

section \<open>One bit\<close>

text \<open>
  The generator x^8 + x^7 + x^6 + x^4 + x^2 + 1 without its leading term, lowest power in the highest bit.
\<close>

definition CRC8_POLYNOMIAL :: "8 word" where "CRC8_POLYNOMIAL = 0xAB"

definition crc8_shift :: "8 word \<Rightarrow> 8 word" where
  "crc8_shift crc = (if bit crc 0 then drop_bit 1 crc XOR CRC8_POLYNOMIAL else drop_bit 1 crc)"

definition crc8_unshift :: "8 word \<Rightarrow> 8 word" where
  "crc8_unshift crc =
     (if bit crc 7 then push_bit 1 (crc XOR CRC8_POLYNOMIAL) OR 1 else push_bit 1 crc)"

text \<open>The checksum without a table: each character is xored in and then shifted out.\<close>

definition crc8_bitwise :: "string \<Rightarrow> 8 word \<Rightarrow> 8 word" where
  "crc8_bitwise pdata crc = foldl (\<lambda>crc ch. (crc8_shift ^^ 8) (crc XOR of_nat (of_char ch))) crc pdata"

abbreviation crc8_byte :: "8 word \<Rightarrow> 8 word" where
  "crc8_byte \<equiv> crc8_shift ^^ 8"

text \<open>Shifting is linear, so a table entry is determined by the entries of the two halves of its index.\<close>

lemma crc8_shift_xor: "crc8_shift (a XOR b) = crc8_shift a XOR crc8_shift b"
  by (rule bit_eqI) (auto simp: crc8_shift_def bit_simps)

lemma crc8_shifts_xor: "(crc8_shift ^^ n) (a XOR b) = (crc8_shift ^^ n) a XOR (crc8_shift ^^ n) b"
  by (induction n) (simp_all add: crc8_shift_xor)

lemma crc8_low_half:
  "map (\<lambda>i. crc8_byte (word_of_nat i)) [0..<16] =
     [0x00, 0xF7, 0xB9, 0x4E, 0x25, 0xD2, 0x9C, 0x6B, 0x4A, 0xBD, 0xF3, 0x04, 0x6F, 0x98, 0xD6, 0x21]"
  by code_simp

lemma crc8_high_half:
  "map (\<lambda>i. crc8_byte (push_bit 4 (word_of_nat i))) [0..<16] =
     [0x00, 0x94, 0x7F, 0xEB, 0xFE, 0x6A, 0x81, 0x15, 0xAB, 0x3F, 0xD4, 0x40, 0x55, 0xC1, 0x2A, 0xBE]"
  by code_simp

lemma byte_halves:
  "map word_of_nat [0..<256] =
     concat (map (\<lambda>h. map (\<lambda>l. push_bit 4 (word_of_nat h) XOR (word_of_nat l :: 8 word)) [0..<16]) [0..<16])"
  by code_simp

lemma crc8_table_halves:
  "crc8_table =
     concat (map (\<lambda>a. map (\<lambda>b. a XOR b) (map (\<lambda>i. crc8_byte (word_of_nat i)) [0..<16]))
       (map (\<lambda>i. crc8_byte (push_bit 4 (word_of_nat i))) [0..<16]))"
  unfolding crc8_low_half crc8_high_half by (simp add: crc8_table_def)

lemma crc8_table_bytes: "crc8_table = map crc8_byte (map word_of_nat [0..<256])"
  unfolding byte_halves crc8_table_halves by (simp only: map_concat map_map comp_def crc8_shifts_xor)

lemma unat_byte: "unat (c :: 8 word) < 256"
  using unsigned_less [of c] by simp

lemma crc8_table_nth: "crc8_table ! unat c = crc8_byte c"
proof -
  have "unat c < 256"
    by (rule unat_byte)
  then show ?thesis
    unfolding crc8_table_bytes by (simp del: upt_rec_numeral)
qed

section \<open>The whole checksum\<close>

lemma hndcrc8_bitwise: "hndcrc8 pdata crc = crc8_bitwise pdata crc"
proof -
  have "c AND 0xff = c" for c :: "8 word"
  proof -
    have "(0xff :: 8 word) = - 1"
      by simp
    then show ?thesis
      by (simp only: bit.conj_one_right)
  qed
  then show ?thesis
    by (simp add: hndcrc8_def crc8_bitwise_def crc8_table_nth)
qed

text \<open>Shifting loses nothing, because the generator has a constant term.\<close>

lemma crc8_unshift_shift: "crc8_unshift (crc8_shift c) = c"
proof -
  have "list_all (\<lambda>c :: 8 word. crc8_unshift (crc8_shift c) = c) (map word_of_nat [0..<256])"
    by code_simp
  moreover have "c \<in> set (map word_of_nat [0..<256])"
    unfolding set_map using unat_byte [of c] by (intro image_eqI [of _ _ "unat c"]) simp_all
  ultimately show ?thesis
    by (auto simp: list_all_iff)
qed

lemma crc8_byte_inj: "(crc8_shift ^^ n) a = (crc8_shift ^^ n) b \<longleftrightarrow> a = b"
  by (induction n) (auto dest: arg_cong [where f = crc8_unshift] simp: crc8_unshift_shift)

lemma word_xor_inj: "a XOR c = b XOR c \<longleftrightarrow> a = b" "c XOR a = c XOR b \<longleftrightarrow> a = b" for a b c :: "8 word"
proof -
  have "x = (x XOR c) XOR c" for x
    by (simp add: xor.assoc)
  then show "a XOR c = b XOR c \<longleftrightarrow> a = b"
    by metis
  then show "c XOR a = c XOR b \<longleftrightarrow> a = b"
    by (simp only: xor.commute)
qed

lemma hndcrc8_append: "hndcrc8 (xs @ ys) crc = hndcrc8 ys (hndcrc8 xs crc)"
  by (simp add: hndcrc8_def)

lemma hndcrc8_start_inj: "hndcrc8 xs a = hndcrc8 xs b \<longleftrightarrow> a = b"
  unfolding hndcrc8_bitwise crc8_bitwise_def
  by (induction xs arbitrary: a b) (simp_all add: crc8_byte_inj word_xor_inj del: funpow.simps)

lemma byte_inj: "(of_nat (of_char a) :: 8 word) = of_nat (of_char b) \<longleftrightarrow> a = b"
proof -
  have "take_bit 8 (of_char c :: nat) = of_char c" for c
    by (rule take_bit_nat_eq_self) simp
  then show ?thesis
    by (simp add: word_of_nat_eq_iff)
qed

lemma hndcrc8_one_char:
  "hndcrc8 (xs @ a # ys) crc = hndcrc8 (xs @ b # ys) crc \<longleftrightarrow> a = b"
proof -
  have "hndcrc8 [a] c = hndcrc8 [b] c \<longleftrightarrow> a = b" for c
    unfolding hndcrc8_bitwise crc8_bitwise_def by (simp add: crc8_byte_inj byte_inj word_xor_inj del: funpow.simps)
  then show ?thesis
    using hndcrc8_start_inj [of ys] by (metis append_Cons append_Nil hndcrc8_append)
qed

lemma hndcrc8_one_place:
  assumes "i < length bs"
  shows "hndcrc8 (bs[i := ch]) crc = hndcrc8 bs crc \<longleftrightarrow> ch = bs ! i"
  using hndcrc8_one_char [of "take i bs" ch "drop (Suc i) bs" crc "bs ! i"] id_take_nth_drop [OF assms] assms
  by (simp add: upd_conv_take_nth_drop)

end
