(* ===== verification/Crc_Props.thy ===== *)
theory Crc_Props
  imports Crc_Facts Demo
begin

text \<open>What the checksum of an image in flash promises.\<close>

text \<open>C31. The table-driven checksum \<^verbatim>\<open>hndcrc8\<close> is the division by the generator x^8 + x^7 + x^6 + x^4 + x^2 + 1, done bit by
  bit, for every string and every initial value; so all 256 entries of \<^verbatim>\<open>crc8_table\<close> are right.\<close>

theorem crc8_is_division: "hndcrc8 pdata crc = crc8_bitwise pdata crc"
  by (rule hndcrc8_bitwise)

text \<open>C18. An image whose bytes were changed in one place is not accepted: whatever variables the image of a commit
  holds, replacing any one byte that the length in its header covers makes \<^verbatim>\<open>_nvram_valid\<close> return 1.\<close>

theorem corrupt_image_rejected:
  assumes img: "commit_image junk st = (h, bytes)" and i: "i < unat (h_len h) - NVRAM_HEADER_SIZE" and ch: "ch \<noteq> bytes ! i"
  shows "k_nvram_valid h (bytes[i := ch]) False = Some 1"
proof -
  obtain len vi where s: "len \<le> NVRAM_SPACE"
      "unat (h_len h) = len" "unat (h_len h - of_nat NVRAM_HEADER_SIZE) = len - NVRAM_HEADER_SIZE"
      "h_magic h = NVRAM_MAGIC" "\<And>i. i < 8 \<Longrightarrow> \<not> bit vi i"
      "bytes = zero_fill (NVRAM_SPACE - NVRAM_HEADER_SIZE) (write_tuples commit_fits st)"
      "h_crc_ver_init h = vi OR ucast (hndcrc8 (take (len - NVRAM_HEADER_SIZE) bytes) CRC8_INIT_VALUE)"
    using commit_image_shape [OF img] by blast
  let ?n = "len - NVRAM_HEADER_SIZE"
  have len: "?n \<le> length bytes" "i < ?n"
    using s(1,2,6) i by (simp_all add: zero_fill_def)
  then have "hndcrc8 (take ?n (bytes[i := ch])) CRC8_INIT_VALUE \<noteq> hndcrc8 (take ?n bytes) CRC8_INIT_VALUE"
    using hndcrc8_one_place [of i "take ?n bytes" ch CRC8_INIT_VALUE] ch by (simp add: take_update_swap)
  then show ?thesis
    using s(3,4) len(1) ucast_crc [OF s(5)] by (simp add: k_nvram_valid_def Let_def s(7))
qed

theorem corrupt_image_rejected_witness:
  "\<exists>h bytes. commit_image 0 empty_kstate = (h, bytes) \<and> k_nvram_valid h (bytes[0 := CHR ''x'']) False = Some 1"
proof -
  obtain h bytes where img: "commit_image 0 empty_kstate = (h, bytes)"
    by (cases "commit_image 0 empty_kstate")
  have n: "0 < unat (h_len h) - NVRAM_HEADER_SIZE"
    using commit_image_shape [OF img] by auto
  have "write_tuples commit_fits empty_kstate = []"
    using commit_text [OF kinv_empty(1)] kinv_empty(2) image_size_kpairs [OF kinv_empty(1)] by simp
  then have "bytes ! 0 = CHR 0x00"
    using commit_image_shape [OF img] by (auto simp: zero_fill_def kernel_sizes)
  then have "CHR ''x'' \<noteq> bytes ! 0"
    by simp
  then show ?thesis
    using img corrupt_image_rejected [OF img n] by blast
qed

end
