(* ===== verification/Default_Table.thy ===== *)
theory Default_Table
  imports Build_Config Device
begin

unbundle bit_operations_syntax

text \<open>
  The table of defaults \<^verbatim>\<open>nvram_ezpacket_default\<close> of \<^verbatim>\<open>src/package/ezp-nvram/src/nvram_data.h\<close> with the files it includes,
  as a function of the build: names, values and option bits of the entries in their order, each guarded by the
  conditions of the preprocessor.  A value is a sequence of literals and of macros of the product headers,
  whose text is given by \<open>xstr\<close> of the build.  The sentinel at the end is left out, as everywhere.  In a build for the
  Broadcom architecture the initializers that its header contributes are not valid C, so they are left out.
\<close>

section \<open>Entries\<close>

datatype text_piece = Lit string | Text string

record default_row =
  entry_name :: string
  entry_value :: "text_piece list"
  entry_option :: "32 word"

definition de :: "string \<Rightarrow> text_piece list \<Rightarrow> 32 word \<Rightarrow> default_row" where
  "de n ps opts = \<lparr>entry_name = n, entry_value = ps, entry_option = opts\<rparr>"

definition dv :: "string \<Rightarrow> string \<Rightarrow> 32 word \<Rightarrow> default_row" where
  "dv n v opts = de n [Lit v] opts"

definition dm :: "string \<Rightarrow> string \<Rightarrow> 32 word \<Rightarrow> default_row" where
  "dm n m opts = de n [Text m] opts"

lemma entry_sel [simp]:
  "entry_name (de n ps opts) = n" "entry_value (de n ps opts) = ps" "entry_option (de n ps opts) = opts"
  "entry_name (dv n v opts) = n" "entry_value (dv n v opts) = [Lit v]" "entry_option (dv n v opts) = opts"
  "entry_name (dm n m opts) = n" "entry_value (dm n m opts) = [Text m]" "entry_option (dm n m opts) = opts"
  by (simp_all add: de_def dv_def dm_def)

fun piece_text :: "build \<Rightarrow> text_piece \<Rightarrow> string" where
  "piece_text b (Lit s) = s"
| "piece_text b (Text m) = xstr b m"

definition default_tuple :: "build \<Rightarrow> default_row \<Rightarrow> nvram_tuple" where
  "default_tuple b e =
     \<lparr>tup_name = entry_name e, tup_value = Some (concat (map (piece_text b) (entry_value e))), tup_option = entry_option e\<rparr>"

section \<open>The table\<close>

definition defaults_axim :: "build \<Rightarrow> default_row list" where
  "defaults_axim b =
     [dv ''brand'' ''AXIM'' NVRAM_NONE,
      de ''model'' [Lit (EZP_MODEL b)] NVRAM_NONE,
      dv ''lang_default'' ''EN'' (NVRAM_PROTECTED OR NVRAM_CUSTOMIZED)]"

definition defaults_abocom :: "build \<Rightarrow> default_row list" where
  "defaults_abocom b =
     [dv ''brand'' ''ABOCOM'' NVRAM_NONE,
      dv ''model'' ''AboCom Product'' (NVRAM_PROTECTED OR NVRAM_CUSTOMIZED),
      dv ''lang_default'' ''TW'' (NVRAM_PROTECTED OR NVRAM_CUSTOMIZED)]"

definition defaults_zyxel :: "build \<Rightarrow> default_row list" where
  "defaults_zyxel b =
     (if defined b EZP_SUB_BRAND_FEENEY then [dv ''brand'' ''FEENEY'' NVRAM_NONE,
          dv ''model'' ''Feeney Product'' (NVRAM_PROTECTED OR NVRAM_CUSTOMIZED)]
     else [dv ''brand'' ''ZYUS'' NVRAM_NONE,
          dv ''model'' ''ZyXEL Product'' (NVRAM_PROTECTED OR NVRAM_CUSTOMIZED)]) @
     [dv ''lang_default'' ''EN'' (NVRAM_PROTECTED OR NVRAM_CUSTOMIZED)]"

definition defaults_planet :: "build \<Rightarrow> default_row list" where
  "defaults_planet b =
     [dv ''brand'' ''PLANET'' NVRAM_NONE,
      dv ''model'' ''PLANET Product'' (NVRAM_PROTECTED OR NVRAM_CUSTOMIZED),
      dv ''lang_default'' ''EN'' (NVRAM_PROTECTED OR NVRAM_CUSTOMIZED)]"

definition defaults_white :: "build \<Rightarrow> default_row list" where
  "defaults_white b =
     [dv ''brand'' ''WHITE'' NVRAM_NONE,
      dv ''model'' ''MobileRouter'' (NVRAM_PROTECTED OR NVRAM_CUSTOMIZED),
      dv ''lang_default'' ''EN'' (NVRAM_PROTECTED OR NVRAM_CUSTOMIZED)]"

definition defaults_prox :: "build \<Rightarrow> default_row list" where
  "defaults_prox b =
     (if defined b EZP_SUB_BRAND_APOLLO then [dv ''hostname'' ''RR-WC310'' NVRAM_NONE,
          dv ''brand'' ''APOLLO'' NVRAM_NONE,
          dv ''model'' ''RR-WC310'' NVRAM_NONE]
     else [dv ''hostname'' ''LAN-Cell'' (NVRAM_PROTECTED OR NVRAM_CUSTOMIZED),
          dv ''brand'' ''PROX'' NVRAM_NONE,
          dv ''model'' ''LAN-Cell 3'' (NVRAM_PROTECTED OR NVRAM_CUSTOMIZED)]) @
     [dv ''lang_default'' ''EN_PROX'' NVRAM_NONE,
      dv ''prox_serial'' [] (NVRAM_PROTECTED OR NVRAM_CUSTOMIZED)]"

definition defaults_mymo :: "build \<Rightarrow> default_row list" where
  "defaults_mymo b =
     [dv ''hostname'' ''MyMO'' (NVRAM_PROTECTED OR NVRAM_CUSTOMIZED),
      dv ''brand'' ''MYMO'' NVRAM_NONE,
      dv ''model'' ''MyMO Product'' (NVRAM_PROTECTED OR NVRAM_CUSTOMIZED),
      dv ''lang_default'' ''EN'' (NVRAM_PROTECTED OR NVRAM_CUSTOMIZED)]"

definition defaults_sony :: "build \<Rightarrow> default_row list" where
  "defaults_sony b =
     [dv ''hostname'' ''Sony'' (NVRAM_PROTECTED OR NVRAM_CUSTOMIZED),
      dv ''brand'' ''SONY'' NVRAM_NONE,
      dv ''model'' ''WG-C10'' NVRAM_NONE,
      dv ''lang_default'' ''EN'' (NVRAM_PROTECTED OR NVRAM_CUSTOMIZED)]"

definition defaults_allis :: "build \<Rightarrow> default_row list" where
  "defaults_allis b =
     [dv ''brand'' ''ALLIS'' NVRAM_NONE,
      de ''model'' [Lit (EZP_MODEL b)] (NVRAM_PROTECTED OR NVRAM_CUSTOMIZED),
      dv ''lang_default'' ''EN'' (NVRAM_PROTECTED OR NVRAM_CUSTOMIZED)]"

definition defaults_P :: "build \<Rightarrow> default_row list" where
  "defaults_P b =
     [dm ''wan_num_P'' ''WAN_NUM_P'' NVRAM_NONE] @
     (if 1 \<le> atoi (xstr b ''WAN_NUM_P'') then [dm ''wan0_ifname_P'' ''WAN0_IFNAME_P'' NVRAM_NONE,
          dm ''wan0_device_P'' ''WAN0_DEVICE_P'' NVRAM_NONE,
          dm ''wan0_proto_P'' ''WAN0_PROTO_P'' NVRAM_NONE]
     else []) @
     [dm ''br_rule_P'' ''BR_RULE_P'' NVRAM_NONE,
      dm ''wan_main_rule_P'' ''WAN_MAIN_RULE_P'' NVRAM_NONE,
      dm ''appmgr_rule_P'' ''APPMBG_RULE_P'' NVRAM_NONE]"

definition defaults_K :: "build \<Rightarrow> default_row list" where
  "defaults_K b =
     [dm ''wan_num_K'' ''WAN_NUM_K'' NVRAM_NONE] @
     (if 1 \<le> atoi (xstr b ''WAN_NUM_K'') then [dm ''wan0_ifname_K'' ''WAN0_IFNAME_K'' NVRAM_NONE,
          dm ''wan0_device_K'' ''WAN0_DEVICE_K'' NVRAM_NONE,
          dm ''wan0_proto_K'' ''WAN0_PROTO_K'' NVRAM_NONE]
     else []) @
     [dm ''br_rule_K'' ''BR_RULE_K'' NVRAM_NONE,
      dm ''wan_main_rule_K'' ''WAN_MAIN_RULE_K'' NVRAM_NONE,
      dm ''appmgr_rule_K'' ''APPMBG_RULE_K'' NVRAM_NONE]"

definition defaults_G :: "build \<Rightarrow> default_row list" where
  "defaults_G b =
     [dm ''wan_num_G'' ''WAN_NUM_G'' NVRAM_NONE] @
     (if 1 \<le> atoi (xstr b ''WAN_NUM_G'') then [dm ''wan0_ifname_G'' ''WAN0_IFNAME_G'' NVRAM_NONE,
          dm ''wan0_device_G'' ''WAN0_DEVICE_G'' NVRAM_NONE,
          dm ''wan0_proto_G'' ''WAN0_PROTO_G'' NVRAM_NONE]
     else []) @
     (if 2 \<le> atoi (xstr b ''WAN_NUM_G'') then [dm ''wan1_ifname_G'' ''WAN1_IFNAME_G'' NVRAM_NONE,
          dm ''wan1_device_G'' ''WAN1_DEVICE_G'' NVRAM_NONE,
          dm ''wan1_proto_G'' ''WAN1_PROTO_G'' NVRAM_NONE]
     else []) @
     (if 3 \<le> atoi (xstr b ''WAN_NUM_G'') then [dm ''wan2_ifname_G'' ''WAN2_IFNAME_G'' NVRAM_NONE,
          dm ''wan2_device_G'' ''WAN2_DEVICE_G'' NVRAM_NONE,
          dm ''wan2_proto_G'' ''WAN2_PROTO_G'' NVRAM_NONE]
     else []) @
     (if 4 \<le> atoi (xstr b ''WAN_NUM_G'') then [dm ''wan3_ifname_G'' ''WAN3_IFNAME_G'' NVRAM_NONE,
          dm ''wan3_device_G'' ''WAN3_DEVICE_G'' NVRAM_NONE,
          dm ''wan3_proto_G'' ''WAN3_PROTO_G'' NVRAM_NONE]
     else []) @
     (if 5 \<le> atoi (xstr b ''WAN_NUM_G'') then [dm ''wan4_ifname_G'' ''WAN4_IFNAME_G'' NVRAM_NONE,
          dm ''wan4_device_G'' ''WAN4_DEVICE_G'' NVRAM_NONE,
          dm ''wan4_proto_G'' ''WAN4_PROTO_G'' NVRAM_NONE]
     else []) @
     [dm ''br_rule_G'' ''BR_RULE_G'' NVRAM_NONE,
      dm ''wan_main_rule_G'' ''WAN_MAIN_RULE_G'' NVRAM_NONE,
      dm ''appmgr_rule_G'' ''APPMBG_RULE_G'' NVRAM_NONE]"

definition defaults_I :: "build \<Rightarrow> default_row list" where
  "defaults_I b =
     [dm ''wan_num_I'' ''WAN_NUM_I'' NVRAM_NONE] @
     (if 1 \<le> atoi (xstr b ''WAN_NUM_I'') then [dm ''wan0_ifname_I'' ''WAN0_IFNAME_I'' NVRAM_NONE,
          dm ''wan0_device_I'' ''WAN0_DEVICE_I'' NVRAM_NONE,
          dm ''wan0_proto_I'' ''WAN0_PROTO_I'' NVRAM_NONE]
     else []) @
     (if 2 \<le> atoi (xstr b ''WAN_NUM_I'') then [dm ''wan1_ifname_I'' ''WAN1_IFNAME_I'' NVRAM_NONE,
          dm ''wan1_device_I'' ''WAN1_DEVICE_I'' NVRAM_NONE,
          dm ''wan1_proto_I'' ''WAN1_PROTO_I'' NVRAM_NONE]
     else []) @
     (if 3 \<le> atoi (xstr b ''WAN_NUM_I'') then [dm ''wan2_ifname_I'' ''WAN2_IFNAME_I'' NVRAM_NONE,
          dm ''wan2_device_I'' ''WAN2_DEVICE_I'' NVRAM_NONE,
          dm ''wan2_proto_I'' ''WAN2_PROTO_I'' NVRAM_NONE]
     else []) @
     (if 4 \<le> atoi (xstr b ''WAN_NUM_I'') then [dm ''wan3_ifname_I'' ''WAN3_IFNAME_I'' NVRAM_NONE,
          dm ''wan3_device_I'' ''WAN3_DEVICE_I'' NVRAM_NONE,
          dm ''wan3_proto_I'' ''WAN3_PROTO_I'' NVRAM_NONE]
     else []) @
     (if 5 \<le> atoi (xstr b ''WAN_NUM_I'') then [dm ''wan4_ifname_I'' ''WAN4_IFNAME_I'' NVRAM_NONE,
          dm ''wan4_device_I'' ''WAN4_DEVICE_I'' NVRAM_NONE,
          dm ''wan4_proto_I'' ''WAN4_PROTO_I'' NVRAM_NONE]
     else []) @
     [dm ''br_rule_I'' ''BR_RULE_I'' NVRAM_NONE,
      dm ''wan_main_rule_I'' ''WAN_MAIN_RULE_I'' NVRAM_NONE,
      dm ''appmgr_rule_I'' ''APPMBG_RULE_I'' NVRAM_NONE]"

definition rt305x_lan_num_1 :: "default_row list" where
  "rt305x_lan_num_1 =
     [dm ''vlan1ports'' ''VLAN1_PORTS'' NVRAM_NONE,
      dm ''vlan1hwname'' ''VLAN_HWNAME'' NVRAM_NONE]"

definition rt305x_wan_num_1 :: "default_row list" where
  "rt305x_wan_num_1 =
     [dm ''vlan2ports'' ''VLAN2_PORTS'' NVRAM_NONE,
      dm ''vlan2hwname'' ''VLAN_HWNAME'' NVRAM_NONE]"

definition rt305x_wan_num_2 :: "default_row list" where
  "rt305x_wan_num_2 =
     [dm ''vlan2ports'' ''VLAN3_PORTS'' NVRAM_NONE,
      dm ''vlan3hwname'' ''VLAN_HWNAME'' NVRAM_NONE]"

definition as500_lan_num_1 :: "default_row list" where
  "as500_lan_num_1 =
     [dm ''vlan1ports'' ''VLAN1_PORTS'' NVRAM_NONE,
      dm ''vlan1hwname'' ''VLAN_HWNAME'' NVRAM_NONE]"

definition as500_wan_num_1 :: "default_row list" where
  "as500_wan_num_1 =
     [dm ''vlan2ports'' ''VLAN2_PORTS'' NVRAM_NONE,
      dm ''vlan2hwname'' ''VLAN_HWNAME'' NVRAM_NONE]"

definition as500_wan_num_2 :: "default_row list" where
  "as500_wan_num_2 =
     [dm ''vlan2ports'' ''VLAN3_PORTS'' NVRAM_NONE,
      dm ''vlan3hwname'' ''VLAN_HWNAME'' NVRAM_NONE]"

definition as500_swap :: "default_row list" where
  "as500_swap =
     [dv ''no_root_swap'' ''1'' NVRAM_NONE]"

definition as500_initd :: "default_row list" where
  "as500_initd =
     [dv ''no_rcd_run'' ''0'' NVRAM_NONE]"

definition defaults_1 :: "build \<Rightarrow> default_row list" where
  "defaults_1 b =
     [dm ''bcclient_wan'' ''BCCLINET_WAN'' NVRAM_NONE,
      de ''fw_version'' [Lit (EZP_PROD_VERSION b)] NVRAM_PROTECTED,
      de ''custom_fw_version'' [Lit (CUSTOM_PROD_VERSION b)] NVRAM_PROTECTED,
      dv ''ifup_types'' ''lan wan'' NVRAM_NONE] @
     (if \<not> defined b EZP_PROD_SUPERCAT_X then [de ''wan_num'' [Lit (nat_to_dec (WAN_NUM b))] NVRAM_NONE]
     else []) @
     [dv ''wan_weight_type'' ''1'' NVRAM_NONE] @
     (if defined b EZP_PROD_BRAND_AXIM then defaults_axim b
     else if defined b EZP_PROD_BRAND_ABOCOM then defaults_abocom b
     else if defined b EZP_PROD_BRAND_ZYUS then defaults_zyxel b
     else if defined b EZP_PROD_BRAND_PLANET then defaults_planet b
     else if defined b EZP_PROD_BRAND_WHITE then defaults_white b
     else if defined b EZP_PROD_BRAND_PROX then defaults_prox b
     else if defined b EZP_PROD_BRAND_MYMO then defaults_mymo b
     else if defined b EZP_PROD_BRAND_SONY then defaults_sony b
     else if defined b EZP_PROD_BRAND_ALLIS then defaults_allis b
     else []) @
     (if defined b EZP_PROD_SUPERCAT_X then (if defined b EZP_PROD_CAT_P then defaults_P b
         else []) @
         (if defined b EZP_PROD_CAT_K then defaults_K b
         else []) @
         (if defined b EZP_PROD_CAT_G then defaults_G b
         else []) @
         (if defined b EZP_PROD_CAT_I then defaults_I b
         else [])
     else [])"

definition defaults_2 :: "build \<Rightarrow> default_row list" where
  "defaults_2 b =
     (if 1 \<le> WAN_NUM b then (if \<not> defined b EZP_PROD_SUPERCAT_X then [dm ''wan0_ifname'' ''WAN0_IFNAME'' NVRAM_NONE,
              dm ''wan0_device'' ''WAN0_DEVICE'' NVRAM_NONE,
              dm ''wan0_proto'' ''WAN0_PROTO'' NVRAM_NONE]
         else []) @
         [dm ''wan0_ifnames'' ''WAN0_IFNAMES'' NVRAM_NONE,
          dm ''wan0_hwname'' ''WAN0_HWNAME'' NVRAM_NONE,
          dm ''wan0_device_backup'' ''WAN0_DEVICE'' NVRAM_NONE,
          dv ''wan0_rtmark'' ''0x10000000'' NVRAM_NONE,
          dm ''wan0_ports'' ''WAN0_PORTS'' NVRAM_NONE,
          dv ''wan0_bw_mode'' ''auto'' NVRAM_NONE,
          dv ''vpn0_ifname'' [] NVRAM_TEMP,
          dv ''vpn0_ipaddr'' [] NVRAM_TEMP,
          dv ''vpn0_netmask'' [] NVRAM_TEMP,
          dv ''vpn0_mask'' [] NVRAM_TEMP,
          dv ''vpn0_gateway'' [] NVRAM_TEMP,
          dv ''vpn0_dns'' [] NVRAM_TEMP,
          dv ''wan0_ipaddr'' [] NVRAM_TEMP,
          dv ''wan0_netmask'' [] NVRAM_TEMP,
          dv ''wan0_mask'' [] NVRAM_TEMP,
          dv ''wan0_gateway'' [] NVRAM_TEMP,
          dv ''wan0_dns'' [] NVRAM_TEMP,
          dv ''wan0_wins'' [] NVRAM_TEMP,
          dv ''wan0_failcount'' [] NVRAM_TEMP,
          dv ''wan0_upnp_proto'' [] NVRAM_TEMP,
          dv ''wan0_upnp_ifname'' [] NVRAM_TEMP] @
         (if defined b AXIMDDNS then [dv ''aximddns_tmp_rule'' ''0^^0^'' NVRAM_TEMP]
         else [])
     else [])"

definition defaults_3 :: "build \<Rightarrow> default_row list" where
  "defaults_3 b =
     (if 2 \<le> WAN_NUM b then (if \<not> defined b EZP_PROD_SUPERCAT_X then [dm ''wan1_ifname'' ''WAN1_IFNAME'' NVRAM_NONE,
              dm ''wan1_device'' ''WAN1_DEVICE'' NVRAM_NONE,
              dm ''wan1_proto'' ''WAN1_PROTO'' NVRAM_NONE]
         else []) @
         [dm ''wan1_ifnames'' ''WAN1_IFNAMES'' NVRAM_NONE,
          dm ''wan1_hwname'' ''WAN1_HWNAME'' NVRAM_NONE,
          dm ''wan1_device_backup'' ''WAN1_DEVICE'' NVRAM_NONE,
          dv ''wan1_rtmark'' ''0x20000000'' NVRAM_NONE,
          dm ''wan1_ports'' ''WAN1_PORTS'' NVRAM_NONE,
          dv ''wan1_bw_mode'' ''auto'' NVRAM_NONE,
          dv ''vpn1_ifname'' [] NVRAM_TEMP,
          dv ''vpn1_ipaddr'' [] NVRAM_TEMP,
          dv ''vpn1_netmask'' [] NVRAM_TEMP,
          dv ''vpn1_mask'' [] NVRAM_TEMP,
          dv ''vpn1_gateway'' [] NVRAM_TEMP,
          dv ''vpn1_dns'' [] NVRAM_TEMP,
          dv ''wan1_ipaddr'' [] NVRAM_TEMP,
          dv ''wan1_netmask'' [] NVRAM_TEMP,
          dv ''wan1_mask'' [] NVRAM_TEMP,
          dv ''wan1_gateway'' [] NVRAM_TEMP,
          dv ''wan1_dns'' [] NVRAM_TEMP,
          dv ''wan1_wins'' [] NVRAM_TEMP,
          dv ''wan1_failcount'' [] NVRAM_TEMP,
          dv ''wan1_upnp_proto'' [] NVRAM_TEMP,
          dv ''wan1_upnp_ifname'' [] NVRAM_TEMP]
     else [])"

definition defaults_4 :: "build \<Rightarrow> default_row list" where
  "defaults_4 b =
     (if 3 \<le> WAN_NUM b then (if \<not> defined b EZP_PROD_SUPERCAT_X then [dm ''wan2_ifname'' ''WAN2_IFNAME'' NVRAM_NONE,
              dm ''wan2_device'' ''WAN2_DEVICE'' NVRAM_NONE,
              dm ''wan2_proto'' ''WAN2_PROTO'' NVRAM_NONE]
         else []) @
         [dm ''wan2_ifnames'' ''WAN2_IFNAMES'' NVRAM_NONE,
          dm ''wan2_hwname'' ''WAN2_HWNAME'' NVRAM_NONE,
          dm ''wan2_device_backup'' ''WAN2_DEVICE'' NVRAM_NONE,
          dv ''wan2_rtmark'' ''0x30000000'' NVRAM_NONE,
          dm ''wan2_ports'' ''WAN2_PORTS'' NVRAM_NONE,
          dv ''wan2_bw_mode'' ''auto'' NVRAM_NONE,
          dv ''vpn2_ifname'' [] NVRAM_TEMP,
          dv ''vpn2_ipaddr'' [] NVRAM_TEMP,
          dv ''vpn2_netmask'' [] NVRAM_TEMP,
          dv ''vpn2_mask'' [] NVRAM_TEMP,
          dv ''vpn2_gateway'' [] NVRAM_TEMP,
          dv ''vpn2_dns'' [] NVRAM_TEMP,
          dv ''wan2_ipaddr'' [] NVRAM_TEMP,
          dv ''wan2_netmask'' [] NVRAM_TEMP,
          dv ''wan2_mask'' [] NVRAM_TEMP,
          dv ''wan2_gateway'' [] NVRAM_TEMP,
          dv ''wan2_dns'' [] NVRAM_TEMP,
          dv ''wan2_wins'' [] NVRAM_TEMP,
          dv ''wan2_failcount'' [] NVRAM_TEMP,
          dv ''wan2_upnp_proto'' [] NVRAM_TEMP,
          dv ''wan2_upnp_ifname'' [] NVRAM_TEMP]
     else []) @
     (if \<not> defined b EZP_PROD_SUPERCAT_X then [dm ''wan_main_rule'' ''WAN_MAIN_RULE'' NVRAM_NONE]
     else [])"

definition defaults_5 :: "build \<Rightarrow> default_row list" where
  "defaults_5 b =
     (if defined b EZP_SUB_BRAND_GARMIN then [dv ''wanupnp_rule'' ''0'' NVRAM_NONE]
     else [dv ''wanupnp_rule'' ''1'' NVRAM_NONE]) @
     [dm ''wan_bw_rule'' ''WAN_BW_RULE'' NVRAM_NONE,
      dm ''wan_detect_rule'' ''WAN_DETECT_RULE'' NVRAM_NONE,
      dm ''wan_lb_rule'' ''WAN_LB_RULE'' NVRAM_NONE] @
     (if defined b PLATFORM_ALS then [dm ''storage_device_mount_rule'' ''STORAGE_DEVICE_MOUNT_RULE'' NVRAM_NONE]
     else [dm ''storage_device_mount_rule'' ''STORAGE_DEVICE_MOUNT_RULE'' NVRAM_NONE]) @
     [dm ''storage_device_mount_rule_num'' ''STORAGE_DEVICE_MOUNT_RULE_NUM'' NVRAM_NONE] @
     (if defined b EZP_PROD_BRAND_SONY then [dv ''countdown_rule'' ''1^10^10^0^60^60'' NVRAM_NONE]
     else [dv ''countdown_rule'' ''0^60^60^0^60^60'' NVRAM_NONE]) @
     [dv ''license_status_rule'' ''0^0'' NVRAM_TEMP,
      dm ''wan_status_rule'' ''WAN_STATUS_RULE'' NVRAM_TEMP,
      dm ''vpn_status_rule'' ''VPN_STATUS_RULE'' NVRAM_TEMP,
      dm ''mac_sense_rule'' ''MAC_SENSE_RULE'' NVRAM_NONE] @
     (if defined b PLATFORM_ALS then [dm ''file_mode_rule'' ''FILE_MODE_RULE'' NVRAM_NONE,
          dm ''relay_schedule_rule'' ''RELAY_SCHEDULE_RULE'' NVRAM_NONE,
          dm ''relay_rule'' ''RELAY_RULE'' NVRAM_NONE,
          dm ''mail_rule'' ''MAIL_RULE'' NVRAM_NONE,
          dm ''als_failover'' ''FAILOVER_RULE'' NVRAM_NONE,
          dm ''alert_rule'' ''ALERT_RULE'' NVRAM_TEMP]
     else []) @
     [dm ''wan_upnp_status_rule'' ''WAN_UPNP_STATUS_RULE'' NVRAM_TEMP,
      dv ''wan_action_style_rule'' ''bg^bg|bg^bg'' NVRAM_TEMP,
      dm ''wan_static_rule'' ''WAN_STATIC_RULE'' NVRAM_NONE,
      dm ''wan_dhcp_rule'' ''WAN_DHCP_RULE'' NVRAM_NONE,
      dm ''wan_pppoe_rule'' ''WAN_PPPOE_RULE'' NVRAM_NONE,
      dm ''wan_wwan_rule'' ''WAN_WWAN_RULE'' NVRAM_NONE]"

definition defaults_6 :: "build \<Rightarrow> default_row list" where
  "defaults_6 b =
     [dm ''wan_barry_rule'' ''WAN_BARRY_RULE'' NVRAM_NONE] @
     (if defined b PLATFORM_M2E then [dm ''wan_pptp_l2tp_rule_num'' ''WAN_PPTP_L2TP_RULE_NUM'' NVRAM_NONE,
          dm ''wan_pptp_l2tp_rule_max'' ''WAN_PPTP_L2TP_RULE_MAX'' NVRAM_NONE,
          dv ''wan_pptp_l2tp_global_rule'' ''0^0^0'' NVRAM_NONE,
          dv ''wan_pptp_l2tp_status'' ''Disabled'' NVRAM_TEMP]
     else []) @
     [dm ''wan_pptp_l2tp_rule'' ''WAN_PPTP_L2TP_RULE'' NVRAM_NONE,
      dv ''wan_l2tp_status_rule'' ''1'' NVRAM_TEMP,
      dm ''wan_htc_rule'' ''WAN_HTC_RULE'' NVRAM_NONE,
      dm ''wan_iphone_rule'' ''WAN_IPHONE_RULE'' NVRAM_NONE,
      dm ''wan_beceem_rule'' ''WAN_BECEEM_RULE'' NVRAM_NONE,
      dm ''wan_wimax_rule'' ''WAN_WIMAX_RULE'' NVRAM_NONE,
      dm ''wan_wwan_probe_rule'' ''WAN_WWAN_PROBE_RULE'' NVRAM_TEMP,
      dv ''ac340st'' ''unplug'' NVRAM_TEMP,
      dm ''wan_bigpond_rule'' ''WAN_BIGPOND_RULE'' NVRAM_NONE,
      dv ''wan_hwaddr_rule_default'' [] (NVRAM_PROTECTED OR NVRAM_CUSTOMIZED),
      dm ''wan_hwaddr_clone_rule'' ''WAN_HWADDR_CLONE_RULE'' NVRAM_NONE,
      dm ''wan_ddns_rule'' ''WAN_DDNS_RULE'' NVRAM_NONE,
      dm ''wan_apple_filter_rule'' ''WAN_APPLE_FILTER_RULE'' NVRAM_NONE,
      dm ''wan_opendns_rule'' ''WAN_OPENDNS_RULE'' NVRAM_NONE,
      de ''lan_num'' [Lit (nat_to_dec (LAN_NUM b))] NVRAM_NONE]"

definition defaults_7 :: "build \<Rightarrow> default_row list" where
  "defaults_7 b =
     (if 1 \<le> LAN_NUM b then [dm ''lan0_ifname'' ''LAN0_IFNAME'' NVRAM_NONE,
          dm ''lan0_ifnames'' ''LAN0_IFNAMES'' NVRAM_NONE,
          dm ''lan0_hwname'' ''LAN0_HWNAME'' NVRAM_NONE,
          dm ''lan0_device'' ''LAN0_DEVICE'' NVRAM_NONE,
          dv ''lan0_proto'' ''static'' NVRAM_PROTECTED,
          dm ''lan0_ports'' ''LAN0_PORTS'' NVRAM_NONE,
          dv ''lan0_ipaddr'' [] NVRAM_TEMP,
          dv ''lan0_netmask'' [] NVRAM_TEMP,
          dv ''lan0_mask'' [] NVRAM_TEMP,
          dv ''lan0_gateway'' [] NVRAM_TEMP,
          dv ''lan0_dns'' [] NVRAM_TEMP,
          dv ''lan0_wins'' [] NVRAM_TEMP] @
         (if defined b CONFIG_EZP_ARCH_RT305X then [dm ''vlan_rule'' ''VLAN_RULE'' NVRAM_NONE,
              dm ''vlan_rule_num'' ''VLAN_RULE_NUM'' NVRAM_NONE,
              dm ''vlan_rule_max'' ''VLAN_RULE_MAX'' NVRAM_NONE,
              dm ''vlanport_rule'' ''VLANPORT_RULE'' NVRAM_NONE,
              dm ''vlanport_rule_num'' ''VLANPORT_RULE_NUM'' NVRAM_NONE,
              dm ''vlanport_rule_max'' ''VLANPORT_RULE_MAX'' NVRAM_NONE] @
             (if \<not> defined b EZP_PROD_SUPERCAT_X then [dm ''br_rule'' ''BR_RULE'' NVRAM_NONE]
             else []) @
             [dm ''br_rule_num'' ''BR_RULE_NUM'' NVRAM_NONE,
              dm ''br_rule_max'' ''BR_RULE_MAX'' NVRAM_NONE] @
             rt305x_lan_num_1 @
             rt305x_wan_num_1 @
             (if WAN_NUM b = 2 then rt305x_wan_num_2
             else [])
         else [])
     else []) @
     (if defined b CONFIG_EZP_ARCH_AS500 then as500_lan_num_1 @
         as500_wan_num_1 @
         (if WAN_NUM b = 2 then as500_wan_num_2
         else []) @
         as500_swap @
         as500_initd
     else [])"

definition defaults_8 :: "build \<Rightarrow> default_row list" where
  "defaults_8 b =
     [dm ''lan_main_rule'' ''LAN_MAIN_RULE'' NVRAM_NONE,
      dv ''lan_hwaddr_rule_default'' [] (NVRAM_PROTECTED OR NVRAM_CUSTOMIZED),
      dm ''lan_static_rule_default'' ''LAN_STATIC_RULE_DEFAULT'' NVRAM_NONE,
      dm ''guest_lan_rule'' ''GUEST_LAN_RULE'' NVRAM_NONE,
      dv ''lan_static_rule'' [] NVRAM_DEFAULT,
      dm ''lan_status_rule'' ''LAN_STATUS_RULE'' NVRAM_TEMP,
      dm ''lan_dhcps_rule'' ''LAN_DHCPS_RULE'' NVRAM_NONE,
      dm ''lan_hwaddr_clone_rule'' ''LAN_HWADDR_CLONE_RULE'' NVRAM_NONE,
      dv ''rt_mask'' ''0xF0000000'' NVRAM_NONE,
      dv ''auth_mask'' ''0x0F000000'' NVRAM_NONE,
      dm ''dbm_max'' ''DBM_MAX'' NVRAM_NONE,
      dv ''dbm_mask'' ''0x00FF0000'' NVRAM_NONE,
      dv ''fl_mask'' ''0x0000FFFF'' NVRAM_NONE,
      dv ''fl_mark_default'' ''0x0000FFFF'' NVRAM_NONE] @
     (if defined b EZP_PROD_BRAND_ZYUS then [dv ''nat_rule'' ''1'' NVRAM_NONE]
     else [dv ''nat_rule'' ''0'' NVRAM_NONE]) @
     (if defined b EZP_PROD_BRAND_ZYUS \<or> \<not> defined b TURBONAT then [dv ''turbonat_enable'' ''0'' NVRAM_NONE]
     else [dv ''turbonat_enable'' ''1'' NVRAM_NONE]) @
     (if defined b EZP_PROD_BRAND_PROX then (if defined b EZP_SUB_BRAND_APOLLO then [dv ''snmp_rule'' ''1^161^161^public^^RR-WC310^^^10^0'' NVRAM_NONE]
         else [dv ''snmp_rule'' ''1^161^161^public^Proxicast Inc.^LAN-Cell 3^^^10^0'' NVRAM_NONE])
     else if defined b EZP_PROD_BRAND_MYMO then [dv ''snmp_rule'' ''1^161^161^public^MyMO Inc.^MyMO^^^10^0'' NVRAM_NONE]
     else if defined b EZP_SUB_BRAND_RFLINK then [dv ''snmp_rule'' ''0^161^161^public^RF-LINK Inc.^RF-LINK^^^10^0'' NVRAM_NONE]
     else [dv ''snmp_rule'' ''0^161^161^public^AXIMCom Inc.^AXIMCom Product^^^10^0'' NVRAM_NONE]) @
     [dv ''sm_mode'' ''fast'' NVRAM_NONE,
      dm ''bw_enable'' ''BW_ENABLE'' NVRAM_NONE,
      dv ''bw_sbm_mask'' ''0x00FF0000'' NVRAM_NONE] @
     [de ''bw_group_rule'' [Lit ''group1^1^10^100^|group2^1^10^100^|group3^1^10^100^|group4^1^10^100^''] NVRAM_NONE]"

definition defaults_9 :: "build \<Rightarrow> default_row list" where
  "defaults_9 b =
     [de ''bw_group_rule_num'' [Lit ''4''] NVRAM_NONE,
      de ''bw_group_rule_max'' [Lit ''4''] NVRAM_NONE,
      dm ''bw_sbm_rule'' ''BW_SBM_RULE'' NVRAM_NONE,
      dm ''bw_sbm_rule_num'' ''BW_SBM_RULE_NUM'' NVRAM_NONE,
      dm ''bw_sbm_rule_max'' ''BW_SBM_RULE_MAX'' NVRAM_NONE,
      dv ''bw_dbm_mask'' ''0x00FF0000'' NVRAM_NONE,
      dm ''bw_dbm_rule'' ''BW_DBM_RULE'' NVRAM_NONE,
      dm ''bw_dbm_rule_num'' ''BW_DBM_RULE_NUM'' NVRAM_NONE,
      dm ''bw_dbm_rule_max'' ''BW_DBM_RULE_MAX'' NVRAM_NONE,
      dv ''bw_mask'' ''0xFFFF0000'' NVRAM_NONE,
      dv ''rt_enable'' ''1'' NVRAM_NONE,
      dm ''rt_rule'' ''RT_RULE'' NVRAM_EMPTY] @
     (if defined b EZP_PROD_BRAND_PROX then [dv ''rt_rule_num'' ''0'' NVRAM_NONE]
     else [dv ''rt_rule_num'' ''1'' NVRAM_NONE]) @
     [dm ''rt_rule_max'' ''RT_RULE_MAX'' NVRAM_NONE,
      dv ''rt_conn_enable'' ''1'' NVRAM_NONE,
      dv ''wf_enable'' ''0'' NVRAM_EMPTY,
      dv ''wf_content_rule'' ''0^0^0'' NVRAM_EMPTY] @
     (if defined b EZP_PROD_BRAND_PROX \<or> defined b PLATFORM_ALS then [dv ''wf_rule'' [] NVRAM_EMPTY]
     else [dv ''wf_rule'' ''0^facebook.com^host^0|0^twitter.com^host^0|0^myspace^host^0|0^hi5.com^host^0'' NVRAM_EMPTY]) @
     (if defined b EZP_PROD_BRAND_PROX then [dv ''wf_rule_num'' ''0'' NVRAM_EMPTY]
     else [dv ''wf_rule_num'' ''4'' NVRAM_EMPTY]) @
     [dm ''wf_rule_max'' ''WF_RULE_MAX'' NVRAM_EMPTY,
      dv ''sched_rule'' [] NVRAM_NONE,
      dv ''sched_rule_num'' ''0'' NVRAM_NONE,
      dm ''sched_rule_max'' ''SCHED_RULE_MAX'' NVRAM_NONE]"

definition defaults_10 :: "build \<Rightarrow> default_row list" where
  "defaults_10 b =
     [dv ''rrd_enable'' ''0'' NVRAM_NONE,
      dv ''cron_rule'' ''1^1^02 4 * * *^^^-1^'' NVRAM_NONE] @
     (if defined b EZP_PROD_BRAND_PROX then [dv ''ntp_rule'' ''^1^pool^north-america.pool.ntp.org^^GMT0BST,M3.5.0/2,M10.5.0/2^1'' NVRAM_NONE]
     else if defined b EZP_PROD_BRAND_SONY then [dv ''ntp_rule'' ''^1^pool^north-america.pool.ntp.org^^UTC0^1'' NVRAM_NONE]
     else if defined b PLATFORM_AXA \<or> defined b PLATFORM_M2E \<or> defined b PLATFORM_ALS then [dv ''ntp_rule'' ''^1^pool^north-america.pool.ntp.org^^UTC0^0'' NVRAM_NONE]
     else [dv ''ntp_rule'' ''^1^pool^north-america.pool.ntp.org^^PST8PDT,M3.2.0/2,M11.1.0/2^1'' NVRAM_NONE]) @
     (if defined b EZP_PROD_BRAND_SONY then [dv ''smbd_rule'' ''1^WG-C10^WG-C10^WG-C10^0777^0777^^share^mnt^^0^1^0^cp437'' NVRAM_NONE]
     else if defined b PLATFORM_M2E then [dv ''smbd_rule'' ''0^QGenie^QGenie^^0777^0777^^share^mnt^^0^0^1^cp437'' NVRAM_NONE]
     else if defined b PLATFORM_AXA then [dv ''smbd_rule'' ''0^togobox^AXIMCOM^^0777^0777^^share^mnt^^0^1^0^cp437'' NVRAM_NONE]
     else [dv ''smbd_rule'' ''0^AXIMCOM^AXIMCOM^^0777^0777^^share^mnt^^0^1^0^cp437'' NVRAM_NONE]) @
     [dv ''smbd_user_rule'' ''1^admin^admin'' NVRAM_NONE,
      dv ''togo_rule_num'' ''0'' NVRAM_TEMP,
      dv ''togo_rule'' [] NVRAM_TEMP,
      dv ''camera_rule'' ''1^8082^^1^admin^admin^0^1280x720'' NVRAM_NONE,
      dv ''music_rule'' ''1'' NVRAM_NONE] @
     (if defined b EZP_PROD_BRAND_MYMO then [dv ''drive_rule'' ''1^0^80^1^admin^admin'' NVRAM_NONE]
     else if defined b PLATFORM_AXA then [dv ''drive_rule'' ''1^1^8081^1^admin^admin^0'' NVRAM_NONE]
     else if defined b PLATFORM_M2E then [dv ''drive_rule'' ''1^0^8081^1^admin^admin^0'' NVRAM_NONE]
     else [dv ''drive_rule'' ''1^0^8081^1^admin^admin^0'' NVRAM_NONE]) @
     [dv ''bt_rule'' ''0^50^250^10^100^10^download!temp^download!session^download^51001^51002^51000^no'' NVRAM_NONE,
      dm ''bt_torrent_max'' ''BT_TORRENT_MAX'' NVRAM_NONE,
      dm ''ftpd_rule'' ''FTPD_RULE'' NVRAM_NONE,
      dm ''ftpd_user_rule'' ''FTPD_USER_RULE'' NVRAM_NONE,
      dm ''ftpd_user_rule_num'' ''FTPD_USER_RULE_NUM'' NVRAM_NONE,
      dm ''ftpd_user_rule_max'' ''FTPD_USER_RULE_MAX'' NVRAM_NONE,
      dv ''itunes_rule'' ''0^3689^AXIMCom^mp3^AXIMCom iTunes^nobody^^.mp3,.m4a,.m4p'' NVRAM_NONE,
      dv ''storage_rule'' ''950^16384^4096^0^^^^^'' NVRAM_NONE]"

definition defaults_12 :: "build \<Rightarrow> default_row list" where
  "defaults_12 b =
     [dv ''storage_state_rule_num'' ''3'' NVRAM_NONE,
      dv ''storage_state_rule_max'' ''3'' NVRAM_NONE,
      dv ''storage_state_rule'' ''mnt^^^|mnt^^^|mnt^^^'' NVRAM_TEMP,
      dv ''storage_used_state_rule'' ''mnt^0^0^0^0|mnt^0^0^0^0|mnt^0^0^0^0'' NVRAM_TEMP,
      dv ''myqnapcloud_id_rule'' ''^^^^^^^^^^^'' NVRAM_NONE,
      dv ''model_name'' ''QG-103N'' NVRAM_TEMP] @
     (if defined b QFILE_CGI then [dv ''cgi_progress'' ''^^^^^^^|^^^^^^^|^^^^^^^|^^^^^^^|^^^^^^^|^^^^^^^|^^^^^^^|^^^^^^^|^^^^^^^|^^^^^^^'' NVRAM_NONE,
          dv ''cgi_progress_num'' ''10'' NVRAM_NONE]
     else [])"

definition defaults_11 :: "build \<Rightarrow> default_row list" where
  "defaults_11 b =
     (if defined b PLATFORM_M2E then defaults_12 b
     else [dv ''storage_state_rule_num'' ''2'' NVRAM_NONE,
          dv ''storage_state_rule_max'' ''2'' NVRAM_NONE,
          dv ''storage_state_rule'' ''mnt^^^|mnt^^^'' NVRAM_TEMP,
          dv ''storage_used_state_rule'' ''mnt^0^0^0^0|mnt^0^0^0^0'' NVRAM_TEMP]) @
     [dm ''is_rule'' ''IS_RULE'' NVRAM_NONE,
      dv ''ishost_enable'' ''1'' NVRAM_NONE,
      dv ''ishost_rule'' [] NVRAM_EMPTY,
      dv ''ishost_rule_num'' ''0'' NVRAM_NONE,
      dm ''ishost_rule_max'' ''ISHOST_RULE_MAX'' NVRAM_NONE,
      dv ''isuser_enable'' ''1'' NVRAM_NONE,
      dv ''isuser_rule'' ''0^admin^admin012345789'' NVRAM_EMPTY,
      dv ''isuser_rule_num'' ''1'' NVRAM_NONE,
      dm ''isuser_rule_max'' ''ISUSER_RULE_MAX'' NVRAM_NONE] @
     (if \<not> defined b EZP_PROD_SUPERCAT_X then [dm ''appmgr_rule'' ''APPMBG_RULE'' NVRAM_NONE]
     else []) @
     [dv ''ssh_rule'' ''^0^8123'' NVRAM_NONE] @
     [de ''log_rule'' [Lit ''syslog^1^^0^1^1^1^1^1^1^1^1^1^1^1^0^^udp^514''] NVRAM_NONE]"

definition defaults_13 :: "build \<Rightarrow> default_row list" where
  "defaults_13 b =
     (if defined b EZP_PROD_BRAND_PROX then [dv ''upnp_rule'' ''^0^0^wan0^lan0^49152'' NVRAM_NONE]
     else [dv ''upnp_rule'' ''^1^0^wan0^lan0^49152'' NVRAM_NONE]) @
     [dv ''fl_enable'' ''1'' NVRAM_NONE,
      dv ''fl_rule_default'' ''1'' NVRAM_NONE,
      dm ''fl_rule'' ''FL_RULE'' NVRAM_EMPTY,
      dm ''fl_rule_num'' ''FL_RULE_NUM'' NVRAM_NONE,
      dm ''fl_rule_max'' ''FL_RULE_MAX'' NVRAM_NONE,
      dv ''fl_hwaddr_enable'' ''1'' NVRAM_NONE] @
     (if defined b PLATFORM_ALS then [dv ''fl_hwaddr_rule'' [] NVRAM_NONE]
     else [dv ''fl_hwaddr_rule'' ''ARM-Fixed-IP^00:05:4F:40:01:00^1^1^1^1^10.199.221.253'' NVRAM_NONE]) @
     [dv ''fl_hwaddr_rule_num'' ''1'' NVRAM_NONE,
      dm ''fl_hwaddr_rule_max'' ''FL_HWADDR_RULE_MAX'' NVRAM_NONE,
      dv ''fl_hwaddr_rule_default'' ''1'' NVRAM_NONE,
      dv ''plug_rule'' ''0^0^0'' NVRAM_TEMP,
      dv ''survey_counter'' ''0'' NVRAM_TEMP,
      dm ''cnnt_rule'' ''CNNT_RULE'' NVRAM_NONE,
      dm ''cnnt_rule_num'' ''CNNT_RULE_NUM'' NVRAM_NONE,
      dm ''cnnt_rule_max'' ''CNNT_RULE_MAX'' NVRAM_NONE,
      dv ''fr_enable'' ''1'' NVRAM_NONE,
      dm ''fr_rule'' ''FR_RULE'' NVRAM_EMPTY] @
     (if defined b EZP_PROD_BRAND_PROX then (if defined b EZP_SUB_BRAND_APOLLO then [dv ''fr_rule_num'' ''8'' NVRAM_NONE]
         else [dv ''fr_rule_num'' ''0'' NVRAM_NONE])
     else [dv ''fr_rule_num'' ''8'' NVRAM_NONE]) @
     [dm ''fr_rule_max'' ''FR_RULE_MAX'' NVRAM_NONE]"

definition defaults_14 :: "build \<Rightarrow> default_row list" where
  "defaults_14 b =
     [dm ''fr_dmz_rule'' ''FR_DMZ_RULE'' NVRAM_NONE,
      dm ''wizard_rule'' ''WIZARD_RULE'' NVRAM_NONE] @
     (if defined b EZP_PROD_BRAND_PROX then [dv ''vs_enable'' ''0'' NVRAM_NONE]
     else [dv ''vs_enable'' ''1'' NVRAM_NONE]) @
     [dv ''vs_rule'' [] NVRAM_NONE,
      dv ''vs_rule_num'' ''0'' NVRAM_NONE,
      dm ''vs_rule_max'' ''VS_RULE_MAX'' NVRAM_NONE,
      de ''wl_num'' [Lit (nat_to_dec (WL_NUM b))] NVRAM_NONE,
      dv ''wl_region_default'' ''0'' (NVRAM_PROTECTED OR NVRAM_CUSTOMIZED),
      dv ''wl_region'' [] NVRAM_DEFAULT,
      dm ''wl_countrycode_default'' ''WL_COUNTRY_CODE'' (NVRAM_PROTECTED OR NVRAM_CUSTOMIZED),
      dv ''wl_countrycode'' [] NVRAM_DEFAULT,
      dm ''wl_regionaband_default'' ''WL_REGION_ABAND'' (NVRAM_PROTECTED OR NVRAM_CUSTOMIZED),
      dv ''wl_regionaband'' [] NVRAM_DEFAULT,
      de ''wl_rule_num'' [Lit (nat_to_dec (WL_NUM b))] NVRAM_NONE,
      de ''wl_rule_max'' [Lit (nat_to_dec (WL_NUM b))] NVRAM_NONE,
      dm ''wlv_rule_num'' ''WL0_RULE_NUM'' NVRAM_NONE,
      dm ''wlv_rule_max'' ''WL0_RULE_MAX'' NVRAM_NONE,
      dm ''wl_basic_rule'' ''WL_BASIC_RULE'' NVRAM_NONE,
      dm ''wl_advanced_rule'' ''WL_ADVANCED_RULE'' NVRAM_NONE,
      dm ''wl_wds_rule'' ''WL_WDS_RULE'' NVRAM_NONE,
      dm ''wl_wme_rule'' ''WL_WME_RULE'' NVRAM_NONE]"

definition defaults_15 :: "build \<Rightarrow> default_row list" where
  "defaults_15 b =
     [dm ''wl_wps_rule'' ''WL_WPS_RULE'' NVRAM_NONE,
      dm ''wl_wps_sta_rule'' ''WL_WPS_STA_RULE'' NVRAM_NONE,
      dm ''wl0_basic_rule'' ''WL0_BASIC_RULE'' NVRAM_NONE,
      dm ''wl0_ifname_rule'' ''WL0_IFNAME_RULE'' NVRAM_NONE,
      dm ''wl0_ssid_rule_default'' ''WL0_SSID_RULE'' (NVRAM_PROTECTED OR NVRAM_CUSTOMIZED),
      dv ''wl0_ssid_rule'' [] NVRAM_DEFAULT,
      dm ''wl0_sec_rule'' ''WL0_SEC_RULE'' NVRAM_NONE,
      dm ''wl0_sec_wep_rule'' ''WL0_SEC_WEP_RULE'' NVRAM_NONE,
      dm ''wl0_sec_wpa_rule'' ''WL0_SEC_WPA_RULE'' NVRAM_NONE,
      dm ''wl0_sec_wpa2_rule'' ''WL0_SEC_WPA2_RULE'' NVRAM_NONE] @
     (if 1 \<le> atoi (xstr b ''WL0_RULE_MAX'') then [dm ''wl00_acl_basic_rule'' ''WL_ACL_BASIC_RULE'' NVRAM_NONE,
          dv ''wl00_acl_num'' ''0'' NVRAM_NONE,
          dm ''wl00_acl_max'' ''WL_ACL_MAX'' NVRAM_NONE,
          dv ''wl00_acl_rule'' [] NVRAM_NONE] @
         (if 2 \<le> atoi (xstr b ''WL0_RULE_MAX'') then [dm ''wl01_acl_basic_rule'' ''WL_ACL_BASIC_RULE'' NVRAM_NONE,
              dv ''wl01_acl_num'' ''0'' NVRAM_NONE,
              dm ''wl01_acl_max'' ''WL_ACL_MAX'' NVRAM_NONE,
              dv ''wl01_acl_rule'' [] NVRAM_NONE] @
             (if 4 \<le> atoi (xstr b ''WL0_RULE_MAX'') then [dm ''wl02_acl_basic_rule'' ''WL_ACL_BASIC_RULE'' NVRAM_NONE,
                  dv ''wl02_acl_num'' ''0'' NVRAM_NONE,
                  dm ''wl02_acl_max'' ''WL_ACL_MAX'' NVRAM_NONE,
                  dv ''wl02_acl_rule'' [] NVRAM_NONE,
                  dm ''wl03_acl_basic_rule'' ''WL_ACL_BASIC_RULE'' NVRAM_NONE,
                  dv ''wl03_acl_num'' ''0'' NVRAM_NONE,
                  dm ''wl03_acl_max'' ''WL_ACL_MAX'' NVRAM_NONE,
                  dv ''wl03_acl_rule'' [] NVRAM_NONE]
             else [])
         else [])
     else [])"

definition defaults_16 :: "build \<Rightarrow> default_row list" where
  "defaults_16 b =
     [dv ''wl0_acl_enable'' ''0'' NVRAM_NONE,
      dv ''wl0_acl_rule_default'' ''0'' NVRAM_NONE,
      dv ''wl0_acl_num'' ''0'' NVRAM_NONE,
      dv ''wl0_acl_max'' ''32'' NVRAM_NONE,
      dv ''wl0_acl_rule'' [] NVRAM_NONE] @
     (if 2 \<le> WL_NUM b then [dm ''wl1_basic_rule'' ''WL1_BASIC_RULE'' NVRAM_NONE,
          dm ''wl1_ifname_rule'' ''WL1_IFNAME_RULE'' NVRAM_NONE,
          dm ''wl1_ssid_rule'' ''WL1_SSID_RULE'' NVRAM_NONE,
          dm ''wl1_sec_rule'' ''WL1_SEC_RULE'' NVRAM_NONE,
          dm ''wl1_sec_wep_rule'' ''WL1_SEC_WEP_RULE'' NVRAM_NONE,
          dm ''wl1_sec_wpa_rule'' ''WL1_SEC_WPA_RULE'' NVRAM_NONE,
          dm ''wl1_sec_wpa2_rule'' ''WL1_SEC_WPA2_RULE'' NVRAM_NONE,
          dv ''wl1_acl_enable'' ''0'' NVRAM_NONE,
          dv ''wl1_acl_rule_default'' ''0'' NVRAM_NONE,
          dv ''wl1_acl_num'' ''0'' NVRAM_NONE,
          dv ''wl1_acl_max'' ''32'' NVRAM_NONE,
          dv ''wl1_acl_rule'' [] NVRAM_NONE]
     else []) @
     [dm ''wl0_wds_rule_num'' ''WDS_RULE_MAX'' NVRAM_NONE,
      dm ''wl0_wds_rule_max'' ''WDS_RULE_MAX'' NVRAM_NONE,
      dm ''wl0_wds_basic_rule'' ''WL0_WDS_BASIC_RULE'' NVRAM_NONE,
      dv ''wl0_wds_sec_wep_rule'' ''|||'' NVRAM_NONE,
      dv ''wl0_wds_sec_wpa_rule'' ''^tkip|^tkip|^tkip|^tkip'' NVRAM_NONE,
      dm ''wl0_apcli_rule_num'' ''APCLI_RULE_MAX'' NVRAM_NONE,
      dm ''wl0_apcli_rule_max'' ''APCLI_RULE_MAX'' NVRAM_NONE,
      dm ''wl0_apcli_rule'' ''WL0_APCLI_RULE'' NVRAM_NONE,
      dm ''wl0_apcli_sec_wep_rule'' ''WL0_APCLI_SEC_WEP_RULE'' NVRAM_NONE,
      dm ''wl0_apcli_sec_wpa_rule'' ''WL0_APCLI_SEC_WPA_RULE'' NVRAM_NONE,
      dm ''wl0_apcli_sec_wpa2_rule'' ''WL0_APCLI_SEC_WPA2_RULE'' NVRAM_NONE]"

definition defaults_17 :: "build \<Rightarrow> default_row list" where
  "defaults_17 b =
     (if defined b EZP_PROD_BRAND_SONY \<or> defined b EZP_SUB_BRAND_GARMIN \<or> defined b PLATFORM_AXA \<or> defined b PLATFORM_AXM \<or> defined b PLATFORM_M2E \<or> defined b PLATFORM_ALS then [dv ''wl0_apcli_swap_basic_rule'' ''1^6^0'' NVRAM_NONE]
     else [dv ''wl0_apcli_swap_basic_rule'' ''1^6^0'' NVRAM_NONE]) @
     [dv ''wl0_apcli_swap_channel_rule'' ''6^0|6^0|6^0|6^0|6^0|6^0'' NVRAM_NONE,
      de ''wl0_apcli_swap_rule'' [Text ''WL0_APCLI_RULE'', Lit ''|'', Text ''WL0_APCLI_RULE'', Lit ''|'', Text ''WL0_APCLI_RULE'', Lit ''|'', Text ''WL0_APCLI_RULE'', Lit ''|'', Text ''WL0_APCLI_RULE'', Lit ''|'', Text ''WL0_APCLI_RULE''] NVRAM_NONE,
      de ''wl0_apcli_swap_sec_wep_rule'' [Text ''WL0_APCLI_SEC_WEP_RULE'', Lit ''|'', Text ''WL0_APCLI_SEC_WEP_RULE'', Lit ''|'', Text ''WL0_APCLI_SEC_WEP_RULE'', Lit ''|'', Text ''WL0_APCLI_SEC_WEP_RULE'', Lit ''|'', Text ''WL0_APCLI_SEC_WEP_RULE'', Lit ''|'', Text ''WL0_APCLI_SEC_WEP_RULE''] NVRAM_NONE,
      de ''wl0_apcli_swap_sec_wpa_rule'' [Text ''WL0_APCLI_SEC_WPA_RULE'', Lit ''|'', Text ''WL0_APCLI_SEC_WPA_RULE'', Lit ''|'', Text ''WL0_APCLI_SEC_WPA_RULE'', Lit ''|'', Text ''WL0_APCLI_SEC_WPA_RULE'', Lit ''|'', Text ''WL0_APCLI_SEC_WPA_RULE'', Lit ''|'', Text ''WL0_APCLI_SEC_WPA_RULE''] NVRAM_NONE,
      de ''wl0_apcli_swap_sec_wpa2_rule'' [Text ''WL0_APCLI_SEC_WPA2_RULE'', Lit ''|'', Text ''WL0_APCLI_SEC_WPA2_RULE'', Lit ''|'', Text ''WL0_APCLI_SEC_WPA2_RULE'', Lit ''|'', Text ''WL0_APCLI_SEC_WPA2_RULE'', Lit ''|'', Text ''WL0_APCLI_SEC_WPA2_RULE'', Lit ''|'', Text ''WL0_APCLI_SEC_WPA2_RULE''] NVRAM_NONE] @
     (if 2 \<le> WL_NUM b then [dm ''wl1_wds_rule_num'' ''WDS_RULE_MAX'' NVRAM_NONE,
          dm ''wl1_wds_rule_max'' ''WDS_RULE_MAX'' NVRAM_NONE,
          dv ''wl1_wds_basic_rule'' ''^disabled|^disabled|^disabled|^disabled'' NVRAM_NONE,
          dv ''wl1_wds_sec_wep_rule'' ''|||'' NVRAM_NONE,
          dv ''wl1_wds_sec_wpa_rule'' ''^tkip|^tkip|^tkip|^tkip'' NVRAM_NONE,
          dm ''wl1_apcli_rule_num'' ''APCLI_RULE_MAX'' NVRAM_NONE,
          dm ''wl1_apcli_rule_max'' ''APCLI_RULE_MAX'' NVRAM_NONE,
          dm ''wl1_apcli_rule'' ''WL1_APCLI_RULE'' NVRAM_NONE,
          dm ''wl1_apcli_sec_wep_rule'' ''WL1_APCLI_SEC_WEP_RULE'' NVRAM_NONE,
          dm ''wl1_apcli_sec_wpa_rule'' ''WL1_APCLI_SEC_WPA_RULE'' NVRAM_NONE,
          dm ''wl1_apcli_sec_wpa2_rule'' ''WL1_APCLI_SEC_WPA2_RULE'' NVRAM_NONE]
     else []) @
     [dv ''auth_server_rule_num'' ''1'' NVRAM_NONE,
      dv ''auth_server_rule_max'' ''1'' NVRAM_NONE,
      dv ''auth_server_enable'' ''1'' NVRAM_NONE,
      de ''auth_server_rule'' [Lit ''10.1.1.230^3990^/www/welcome.html^/www/status.html^/www/goodbye.html^'', Text ''LAN_IPADDR_MASK'', Lit ''253^auto^10.1.1.254^0^10.1.1.230^1812^1813^radiussecret^mynas^MySpot^MySpot^^/etc/chilli/localusers''] NVRAM_NONE,
      dv ''auth_user_rule_num'' ''0'' NVRAM_NONE,
      dv ''auth_user_rule_max'' ''200'' NVRAM_NONE,
      dv ''auth_user_enable'' ''1'' NVRAM_NONE,
      dv ''auth_user_rule'' [] NVRAM_NONE,
      dv ''fw_rule'' ''1^1^1^1^0^1^0'' NVRAM_NONE]"

definition defaults_18 :: "build \<Rightarrow> default_row list" where
  "defaults_18 b =
     [dv ''nat_pass_rule'' ''1^1^1^1^1^1^1'' NVRAM_NONE,
      dv ''ttl_rule'' ''^0^64'' NVRAM_NONE,
      dv ''tos_rule'' ''1^1^1^1^1^1^1'' NVRAM_NONE,
      dv ''mss_enable'' ''1'' NVRAM_NONE,
      dv ''snat_enable'' ''1'' NVRAM_NONE,
      dm ''ct_max'' ''CT_MAX'' NVRAM_NONE] @
     (if defined b PLATFORM_AXA \<or> defined b PLATFORM_AXM \<or> defined b PLATFORM_M2E then [dv ''user_rule'' ''guest^2|admin^3'' NVRAM_NONE]
     else [dv ''user_rule'' ''^|^'' NVRAM_NONE]) @
     (if defined b EZP_SUB_BRAND_GARMIN then [dv ''http_rule_default'' ''^1^1^admin^admin^8080'' NVRAM_NONE]
     else if defined b EZP_PROD_BRAND_ZYUS then (if defined b EZP_SUB_BRAND_FEENEY then [dv ''http_rule_default'' ''^1^0^admin^ahj24732^80'' NVRAM_NONE]
         else [dv ''http_rule_default'' ''^1^0^admin^1234^80'' NVRAM_NONE])
     else if defined b EZP_PROD_BRAND_PLANET then [dv ''http_rule_default'' ''^1^0^admin^admin^80'' NVRAM_NONE]
     else if defined b EZP_PROD_BRAND_PROX then (if defined b EZP_SUB_BRAND_APOLLO then [dv ''http_rule_default'' ''^1^1^admin^access^80'' NVRAM_NONE]
         else [dv ''http_rule_default'' ''^1^1^admin^1234^8080'' NVRAM_NONE])
     else if defined b PLATFORM_AXM then [dv ''http_rule_default'' ''^1^1^admin^admin^80'' NVRAM_NONE]
     else if defined b PLATFORM_AXA \<or> defined b PLATFORM_M2E then [dv ''http_rule_default'' ''^1^1^admin^admin^80'' NVRAM_NONE]
     else [dv ''http_rule_default'' ''^1^0^admin^admin^8080'' NVRAM_NONE]) @
     [dv ''http_rule'' [] NVRAM_DEFAULT,
      dm ''http_redirect_rule'' ''HTTP_REDIRECT_DEFAULT'' NVRAM_NONE,
      dv ''led_rule'' ''1^0'' NVRAM_TEMP,
      dm ''display_rule'' ''HTTPD_DISPLAY'' NVRAM_NONE] @
     [de ''app_enable_rule'' [Lit ''1^0^1''] NVRAM_NONE] @
     (if defined b PLATFORM_ALS then [dv ''adtool_rule'' ''any^^4^any^^4^any^^10'' NVRAM_NONE]
     else [dv ''adtool_rule'' ''any^^4^any^^4^any^^30'' NVRAM_NONE]) @
     [dm ''stats_rule'' ''STATS_RULE'' NVRAM_NONE,
      dv ''stats_type'' [] NVRAM_TEMP,
      dv ''stats_ifname'' ''br0'' NVRAM_TEMP,
      dv ''stats_proto'' [] NVRAM_TEMP]"

definition defaults_19 :: "build \<Rightarrow> default_row list" where
  "defaults_19 b =
     [dv ''stats_interval'' [] NVRAM_TEMP,
      dv ''no_root_swap'' ''1'' NVRAM_NONE,
      dv ''vnc_rule'' ''0^5900^5500^0.0.0.0^1^1^127.0.0.1^2002'' NVRAM_NONE,
      dv ''vnc_allow_rule'' ''192.168.0.0|10.0.0.0'' NVRAM_NONE,
      dm ''vnc_session_max'' ''VNC_SESSION_MAX'' NVRAM_NONE,
      de ''l2tpd_rule'' [Lit ''0^l2tp-server^1400^1400^192.168.48.1^'', Text ''L2TPD_SESSION_MAX'', Lit ''^192.168.49.1^'', Text ''L2TPD_SESSION_MAX'', Lit ''^1^^1^0^1^1''] NVRAM_NONE,
      dv ''l2tpd_user_rule'' [] NVRAM_NONE,
      dv ''l2tpd_user_rule_num'' ''0'' NVRAM_NONE,
      dm ''l2tpd_user_rule_max'' ''L2TPD_USER_RULE_MAX'' NVRAM_NONE,
      dv ''ipsec_enable'' ''0'' NVRAM_NONE,
      dm ''ipsec_rule_max'' ''IPSEC_RULE_MAX'' NVRAM_NONE,
      dv ''ipsec_rule_num'' ''0'' NVRAM_NONE,
      dv ''ipsec_rule'' [] NVRAM_NONE,
      dv ''ipsec_status_rule'' [] NVRAM_TEMP] @
     (if defined b EZP_PROD_BRAND_PROX then [dv ''ipsec_split_tunnel_state'' ''enabled'' NVRAM_TEMP]
     else []) @
     [de ''pptpd_rule'' [Lit ''0^pptp-server^60^1482^1482^192.168.38.1^'', Text ''PPTPD_SESSION_MAX'', Lit ''^192.168.39.1^'', Text ''PPTPD_SESSION_MAX'', Lit ''^1^^0^0^1^0^0^1^0^1''] NVRAM_NONE,
      dv ''pptpd_user_rule'' [] NVRAM_NONE,
      dv ''pptpd_user_rule_num'' ''0'' NVRAM_NONE,
      dm ''pptpd_user_rule_max'' ''PPTPD_USER_RULE_MAX'' NVRAM_NONE,
      dm ''pptpd_session_max'' ''PPTPD_SESSION_MAX'' NVRAM_NONE,
      dv ''wol_rule'' [] NVRAM_NONE,
      dv ''lang'' [] NVRAM_DEFAULT,
      dv ''license_key'' [] (NVRAM_PROTECTED OR NVRAM_CUSTOMIZED),
      dv ''valid_key'' [] (NVRAM_PROTECTED OR NVRAM_CUSTOMIZED)]"

definition defaults_20 :: "build \<Rightarrow> default_row list" where
  "defaults_20 b =
     (if \<not> defined b EZP_PROD_BRAND_PROX \<and> \<not> defined b EZP_PROD_BRAND_MYMO \<and> \<not> defined b EZP_PROD_BRAND_SONY then (if defined b PLATFORM_M2E then [dv ''hostname'' ''QGenie'' (NVRAM_PROTECTED OR NVRAM_CUSTOMIZED)]
         else if defined b PLATFORM_ALS then [dv ''hostname'' ''ALLISCOM'' (NVRAM_PROTECTED OR NVRAM_CUSTOMIZED)]
         else [dv ''hostname'' ''AXIMCom'' (NVRAM_PROTECTED OR NVRAM_CUSTOMIZED)])
     else []) @
     [dm ''prod_supercat'' ''EZP_PROD_SUPERCAT'' (NVRAM_PROTECTED OR NVRAM_CUSTOMIZED)] @
     (if \<not> defined b EZP_PROD_SUPERCAT_X then [dm ''prod_cat'' ''EZP_PROD_CAT'' (NVRAM_PROTECTED OR NVRAM_CUSTOMIZED)]
     else [dm ''prod_cat'' ''EZP_PROD_CAT'' NVRAM_NONE]) @
     [dm ''prod_subcat'' ''EZP_PROD_SUBCAT'' (NVRAM_PROTECTED OR NVRAM_CUSTOMIZED),
      dm ''prod_subsubcat'' ''EZP_PROD_SUBSUBCAT'' (NVRAM_PROTECTED OR NVRAM_CUSTOMIZED),
      dm ''x_mode_data'' ''X_MODE_DATA'' (NVRAM_PROTECTED OR NVRAM_CUSTOMIZED)] @
     (if defined b PLATFORM_ALS then [dv ''port_config'' ''lan'' NVRAM_NONE]
     else [dv ''port_config'' ''wan'' NVRAM_NONE]) @
     [dv ''op_mode'' ''gateway'' NVRAM_NONE,
      dm ''switch_type'' ''SWITCH'' NVRAM_PROTECTED,
      dm ''ddns_id_rule'' ''DDNS'' NVRAM_PROTECTED,
      dm ''ddns_password_rule'' ''DDNS'' NVRAM_PROTECTED,
      dm ''platform'' ''PLATFORM'' NVRAM_NONE] @
     (if defined b PLATFORM_ALS then [dm ''als_battery_rule'' ''ALS_BATTERY_RULE'' NVRAM_TEMP,
          dm ''als_status_rule'' ''ALS_STATUS_RULE'' NVRAM_TEMP,
          dm ''als_serial_rule'' ''ALS_SERAIL_RULE'' NVRAM_NONE,
          dm ''als_operating_rule'' ''ALS_OPERATING_RULE'' NVRAM_NONE,
          dm ''als_operating_data_packing_rule'' ''ALS_OPERATING_DATA_PACKING_RULE'' NVRAM_NONE,
          dm ''als_operating_option_rule'' ''ALS_OPERATING_OPTION_RULE'' NVRAM_NONE]
     else []) @
     (if defined b LAN_AUTOIP_SWITCH then [dm ''ip_switch_rule_num'' ''IP_SWITCH_RULE_NUM'' NVRAM_NONE,
          dm ''ip_switch_rule'' ''IP_SWITCH_RULE'' NVRAM_NONE]
     else [])"

definition defaults_21 :: "build \<Rightarrow> default_row list" where
  "defaults_21 b =
     [de ''wan_priority_rule'' ((if defined b EZP_SUB_BRAND_GARMIN then [Lit ''dhcp|wwan|wisp''] else [Lit []])) NVRAM_TEMP,
      dv ''serial_num_rule'' [] (NVRAM_PROTECTED OR NVRAM_CUSTOMIZED),
      dm ''mfg_test_result_rule'' ''MFG_TEST_RESULT_RULE'' (NVRAM_PROTECTED OR NVRAM_CUSTOMIZED)] @
     (if defined b PLATFORM_GMA then [dm ''WISP_detect_portal_rule'' ''WISP_DETECT_PORTAL_RULE'' NVRAM_TEMP,
          dv ''gmn_nat_rule_max'' ''64'' NVRAM_TEMP,
          dv ''gmn_nat_rule_num'' ''0'' NVRAM_TEMP,
          dv ''gmn_nat_rule'' ''^^^'' NVRAM_TEMP,
          dv ''gmn_filter_rule_max'' ''64'' NVRAM_TEMP,
          dv ''gmn_filter_rule_num'' ''0'' NVRAM_TEMP,
          dv ''gmn_filter_rule'' ''^^^'' NVRAM_TEMP,
          dv ''gmn_mcast_rule_max'' ''64'' NVRAM_TEMP,
          dv ''gmn_mcast_rule_num'' ''0'' NVRAM_TEMP,
          dv ''gmn_mcast_rule'' ''^^^'' NVRAM_TEMP]
     else []) @
     [de ''portcfg_rule'' ((if defined b PLATFORM_AXA \<or> defined b PLATFORM_M2E \<or> defined b PLATFORM_ALS then [Lit ''lan^1^LAN^1111101^0000001|wan^1^WAN^1111001^0000101''] else [Lit ''lan^1^LAN^1111001^0000101|wan^1^WAN^0000001^1111101''])) NVRAM_NONE,
      de ''portcfg_rule_num'' ((if defined b PLATFORM_AXA \<or> defined b PLATFORM_M2E \<or> defined b PLATFORM_ALS then [Lit ''2''] else [Lit ''2''])) NVRAM_NONE,
      dv ''machine_id'' [] (NVRAM_PROTECTED OR NVRAM_CUSTOMIZED),
      dm ''arch'' ''ARCH'' NVRAM_PROTECTED,
      dv ''license_invalid'' [] (NVRAM_PROTECTED OR NVRAM_CUSTOMIZED),
      dv ''valid_count'' [] (NVRAM_PROTECTED OR NVRAM_CUSTOMIZED),
      dv ''bootcount'' [] (NVRAM_PROTECTED OR NVRAM_CUSTOMIZED),
      dm ''igmp_proxy_rule'' ''IGMP_PROXY_ENABLE'' NVRAM_NONE,
      dv ''ppp_control_rule'' ''1'' NVRAM_TEMP]"

definition defaults_22 :: "build \<Rightarrow> default_row list" where
  "defaults_22 b =
     [dv ''captive_rule'' ''0^0'' NVRAM_NONE,
      dm ''card_reader_hardware_rule_max'' ''CARD_READER_HARDWARE_RULE_MAX'' NVRAM_NONE,
      dm ''card_reader_hardware_rule_num'' ''CARD_READER_HARDWARE_RULE_NUM'' NVRAM_NONE,
      dm ''card_reader_hardware_rule'' ''CARD_READER_HARDWARE_RULE'' NVRAM_TEMP] @
     (if defined b PLATFORM_M2E then [dv ''st_defpath_rule_num'' ''9'' NVRAM_TEMP,
          dv ''st_defpath_rule_max'' ''9'' NVRAM_TEMP,
          dv ''st_defpath_rule'' ''^^Qsync|^^SD|^^USB|Videos^Qsync^Videos|Photos^Qsync^Photos|Music^Qsync^Music|Documents^Qsync^Documents|Phonebook^Qsync^Phonebook|Others^Qsync^Others'' NVRAM_TEMP,
          dv ''allow_guest'' ''0'' NVRAM_NONE]
     else []) @
     [dv ''boot_test'' ''0'' NVRAM_NONE] @
     (if defined b PLATFORM_M2E \<or> defined b PLATFORM_ALS then [dv ''gpiodef_rule'' [] NVRAM_NONE,
          dv ''upnpc_setting_rule_num'' ''2'' NVRAM_NONE,
          dv ''upnpc_setting_rule'' ''web_mgmt^1^80^80^tcp|file_station^1^8081^8081^tcp'' NVRAM_NONE,
          dv ''upnpc_status_rule'' ''web_mgmt^0^80^80^|file_station^0^8081^8081^'' NVRAM_TEMP]
     else []) @
     (if defined b AXIMDDNS then [dv ''aximddns_rule'' ''0^^0^0^0'' NVRAM_NONE]
     else []) @
     [dm ''netstat_rule'' ''NETSTAT_RULE'' NVRAM_NONE]"

definition default_entries :: "build \<Rightarrow> default_row list" where
  "default_entries b =
     defaults_1 b @
     defaults_2 b @
     defaults_3 b @
     defaults_4 b @
     defaults_5 b @
     defaults_6 b @
     defaults_7 b @
     defaults_8 b @
     defaults_9 b @
     defaults_10 b @
     defaults_11 b @
     defaults_13 b @
     defaults_14 b @
     defaults_15 b @
     defaults_16 b @
     defaults_17 b @
     defaults_18 b @
     defaults_19 b @
     defaults_20 b @
     defaults_21 b @
     defaults_22 b"

definition default_table :: "build \<Rightarrow> nvram_tuple list" where
  "default_table b = map (default_tuple b) (default_entries b)"

end
