(* ===== verification/Default_Names.thy ===== *)
theory Default_Names
  imports Default_Table "HOL-Library.Sublist"
begin

text \<open>
  The names of the table of defaults: for each part of the table a list that the names of the part are a
  subsequence of in every build.
\<close>

abbreviation names :: "default_row list \<Rightarrow> string list" where
  "names \<equiv> map entry_name"

lemma names_append: "subseq (names xs) ns \<Longrightarrow> subseq (names ys) ms \<Longrightarrow> subseq (names (xs @ ys)) (ns @ ms)"
  by (simp add: list_emb_append_mono)

lemma names_if: "subseq (names xs) ns \<Longrightarrow> subseq (names ys) ns \<Longrightarrow> subseq (names (if c then xs else ys)) ns"
  by simp

definition defaults_axim_names :: "string list" where
  "defaults_axim_names = [''brand'', ''model'', ''lang_default'']"

lemma defaults_axim_sub: "subseq (names (defaults_axim b)) defaults_axim_names"
  unfolding defaults_axim_def defaults_axim_names_def by simp

definition defaults_abocom_names :: "string list" where
  "defaults_abocom_names = [''brand'', ''model'', ''lang_default'']"

lemma defaults_abocom_sub: "subseq (names (defaults_abocom b)) defaults_abocom_names"
  unfolding defaults_abocom_def defaults_abocom_names_def by simp

definition defaults_zyxel_names :: "string list" where
  "defaults_zyxel_names = [''brand'', ''model''] @ [''lang_default'']"

lemma defaults_zyxel_sub: "subseq (names (defaults_zyxel b)) defaults_zyxel_names"
  unfolding defaults_zyxel_def defaults_zyxel_names_def by (intro names_append names_if; simp?)

definition defaults_planet_names :: "string list" where
  "defaults_planet_names = [''brand'', ''model'', ''lang_default'']"

lemma defaults_planet_sub: "subseq (names (defaults_planet b)) defaults_planet_names"
  unfolding defaults_planet_def defaults_planet_names_def by simp

definition defaults_white_names :: "string list" where
  "defaults_white_names = [''brand'', ''model'', ''lang_default'']"

lemma defaults_white_sub: "subseq (names (defaults_white b)) defaults_white_names"
  unfolding defaults_white_def defaults_white_names_def by simp

definition defaults_prox_names :: "string list" where
  "defaults_prox_names = [''hostname'', ''brand'', ''model''] @ [''lang_default'', ''prox_serial'']"

lemma defaults_prox_sub: "subseq (names (defaults_prox b)) defaults_prox_names"
  unfolding defaults_prox_def defaults_prox_names_def by (intro names_append names_if; simp?)

definition defaults_mymo_names :: "string list" where
  "defaults_mymo_names = [''hostname'', ''brand'', ''model'', ''lang_default'']"

lemma defaults_mymo_sub: "subseq (names (defaults_mymo b)) defaults_mymo_names"
  unfolding defaults_mymo_def defaults_mymo_names_def by simp

definition defaults_sony_names :: "string list" where
  "defaults_sony_names = [''hostname'', ''brand'', ''model'', ''lang_default'']"

lemma defaults_sony_sub: "subseq (names (defaults_sony b)) defaults_sony_names"
  unfolding defaults_sony_def defaults_sony_names_def by simp

definition defaults_allis_names :: "string list" where
  "defaults_allis_names = [''brand'', ''model'', ''lang_default'']"

lemma defaults_allis_sub: "subseq (names (defaults_allis b)) defaults_allis_names"
  unfolding defaults_allis_def defaults_allis_names_def by simp

definition defaults_P_names :: "string list" where
  "defaults_P_names =
     [''wan_num_P''] @ [''wan0_ifname_P'', ''wan0_device_P'', ''wan0_proto_P''] @ [''br_rule_P'',
      ''wan_main_rule_P'', ''appmgr_rule_P'']"

lemma defaults_P_sub: "subseq (names (defaults_P b)) defaults_P_names"
  unfolding defaults_P_def defaults_P_names_def by (intro names_append names_if; simp?)

definition defaults_K_names :: "string list" where
  "defaults_K_names =
     [''wan_num_K''] @ [''wan0_ifname_K'', ''wan0_device_K'', ''wan0_proto_K''] @ [''br_rule_K'',
      ''wan_main_rule_K'', ''appmgr_rule_K'']"

lemma defaults_K_sub: "subseq (names (defaults_K b)) defaults_K_names"
  unfolding defaults_K_def defaults_K_names_def by (intro names_append names_if; simp?)

definition defaults_G_names :: "string list" where
  "defaults_G_names =
     [''wan_num_G''] @ [''wan0_ifname_G'', ''wan0_device_G'', ''wan0_proto_G''] @ [''wan1_ifname_G'',
      ''wan1_device_G'', ''wan1_proto_G''] @ [''wan2_ifname_G'', ''wan2_device_G'', ''wan2_proto_G''] @
      [''wan3_ifname_G'', ''wan3_device_G'', ''wan3_proto_G''] @ [''wan4_ifname_G'', ''wan4_device_G'',
      ''wan4_proto_G''] @ [''br_rule_G'', ''wan_main_rule_G'', ''appmgr_rule_G'']"

lemma defaults_G_sub: "subseq (names (defaults_G b)) defaults_G_names"
  unfolding defaults_G_def defaults_G_names_def by (intro names_append names_if; simp?)

definition defaults_I_names :: "string list" where
  "defaults_I_names =
     [''wan_num_I''] @ [''wan0_ifname_I'', ''wan0_device_I'', ''wan0_proto_I''] @ [''wan1_ifname_I'',
      ''wan1_device_I'', ''wan1_proto_I''] @ [''wan2_ifname_I'', ''wan2_device_I'', ''wan2_proto_I''] @
      [''wan3_ifname_I'', ''wan3_device_I'', ''wan3_proto_I''] @ [''wan4_ifname_I'', ''wan4_device_I'',
      ''wan4_proto_I''] @ [''br_rule_I'', ''wan_main_rule_I'', ''appmgr_rule_I'']"

lemma defaults_I_sub: "subseq (names (defaults_I b)) defaults_I_names"
  unfolding defaults_I_def defaults_I_names_def by (intro names_append names_if; simp?)

definition rt305x_lan_num_1_names :: "string list" where
  "rt305x_lan_num_1_names = [''vlan1ports'', ''vlan1hwname'']"

lemma rt305x_lan_num_1_sub: "subseq (names rt305x_lan_num_1) rt305x_lan_num_1_names"
  unfolding rt305x_lan_num_1_def rt305x_lan_num_1_names_def by simp

definition rt305x_wan_num_1_names :: "string list" where
  "rt305x_wan_num_1_names = [''vlan2ports'', ''vlan2hwname'']"

lemma rt305x_wan_num_1_sub: "subseq (names rt305x_wan_num_1) rt305x_wan_num_1_names"
  unfolding rt305x_wan_num_1_def rt305x_wan_num_1_names_def by simp

definition rt305x_wan_num_2_names :: "string list" where
  "rt305x_wan_num_2_names = [''vlan2ports'', ''vlan3hwname'']"

lemma rt305x_wan_num_2_sub: "subseq (names rt305x_wan_num_2) rt305x_wan_num_2_names"
  unfolding rt305x_wan_num_2_def rt305x_wan_num_2_names_def by simp

definition as500_lan_num_1_names :: "string list" where
  "as500_lan_num_1_names = [''vlan1ports'', ''vlan1hwname'']"

lemma as500_lan_num_1_sub: "subseq (names as500_lan_num_1) as500_lan_num_1_names"
  unfolding as500_lan_num_1_def as500_lan_num_1_names_def by simp

definition as500_wan_num_1_names :: "string list" where
  "as500_wan_num_1_names = [''vlan2ports'', ''vlan2hwname'']"

lemma as500_wan_num_1_sub: "subseq (names as500_wan_num_1) as500_wan_num_1_names"
  unfolding as500_wan_num_1_def as500_wan_num_1_names_def by simp

definition as500_wan_num_2_names :: "string list" where
  "as500_wan_num_2_names = [''vlan2ports'', ''vlan3hwname'']"

lemma as500_wan_num_2_sub: "subseq (names as500_wan_num_2) as500_wan_num_2_names"
  unfolding as500_wan_num_2_def as500_wan_num_2_names_def by simp

definition as500_swap_names :: "string list" where
  "as500_swap_names = [''no_root_swap'']"

lemma as500_swap_sub: "subseq (names as500_swap) as500_swap_names"
  unfolding as500_swap_def as500_swap_names_def by simp

definition as500_initd_names :: "string list" where
  "as500_initd_names = [''no_rcd_run'']"

lemma as500_initd_sub: "subseq (names as500_initd) as500_initd_names"
  unfolding as500_initd_def as500_initd_names_def by simp

definition defaults_1_names :: "string list" where
  "defaults_1_names =
     [''bcclient_wan'', ''fw_version'', ''custom_fw_version'', ''ifup_types''] @ [''wan_num''] @
      [''wan_weight_type''] @ [''hostname'', ''brand'', ''model'', ''lang_default'', ''prox_serial''] @
      (defaults_P_names @ defaults_K_names @ defaults_G_names @ defaults_I_names)"

lemma defaults_1_sub: "subseq (names (defaults_1 b)) defaults_1_names"
  unfolding defaults_1_def defaults_1_names_def by (intro names_append names_if defaults_P_sub defaults_K_sub
      defaults_G_sub defaults_I_sub; simp add: defaults_axim_def defaults_abocom_def defaults_zyxel_def
      defaults_planet_def defaults_white_def defaults_prox_def defaults_mymo_def defaults_sony_def
      defaults_allis_def)

definition defaults_2_names :: "string list" where
  "defaults_2_names =
     ([''wan0_ifname'', ''wan0_device'', ''wan0_proto''] @ [''wan0_ifnames'', ''wan0_hwname'',
      ''wan0_device_backup'', ''wan0_rtmark'', ''wan0_ports'', ''wan0_bw_mode'', ''vpn0_ifname'',
      ''vpn0_ipaddr'', ''vpn0_netmask'', ''vpn0_mask'', ''vpn0_gateway'', ''vpn0_dns'', ''wan0_ipaddr'',
      ''wan0_netmask'', ''wan0_mask'', ''wan0_gateway'', ''wan0_dns'', ''wan0_wins'', ''wan0_failcount'',
      ''wan0_upnp_proto'', ''wan0_upnp_ifname''] @ [''aximddns_tmp_rule''])"

lemma defaults_2_sub: "subseq (names (defaults_2 b)) defaults_2_names"
  unfolding defaults_2_def defaults_2_names_def by (intro names_append names_if; simp?)

definition defaults_3_names :: "string list" where
  "defaults_3_names =
     ([''wan1_ifname'', ''wan1_device'', ''wan1_proto''] @ [''wan1_ifnames'', ''wan1_hwname'',
      ''wan1_device_backup'', ''wan1_rtmark'', ''wan1_ports'', ''wan1_bw_mode'', ''vpn1_ifname'',
      ''vpn1_ipaddr'', ''vpn1_netmask'', ''vpn1_mask'', ''vpn1_gateway'', ''vpn1_dns'', ''wan1_ipaddr'',
      ''wan1_netmask'', ''wan1_mask'', ''wan1_gateway'', ''wan1_dns'', ''wan1_wins'', ''wan1_failcount'',
      ''wan1_upnp_proto'', ''wan1_upnp_ifname''])"

lemma defaults_3_sub: "subseq (names (defaults_3 b)) defaults_3_names"
  unfolding defaults_3_def defaults_3_names_def by (intro names_append names_if; simp?)

definition defaults_4_names :: "string list" where
  "defaults_4_names =
     ([''wan2_ifname'', ''wan2_device'', ''wan2_proto''] @ [''wan2_ifnames'', ''wan2_hwname'',
      ''wan2_device_backup'', ''wan2_rtmark'', ''wan2_ports'', ''wan2_bw_mode'', ''vpn2_ifname'',
      ''vpn2_ipaddr'', ''vpn2_netmask'', ''vpn2_mask'', ''vpn2_gateway'', ''vpn2_dns'', ''wan2_ipaddr'',
      ''wan2_netmask'', ''wan2_mask'', ''wan2_gateway'', ''wan2_dns'', ''wan2_wins'', ''wan2_failcount'',
      ''wan2_upnp_proto'', ''wan2_upnp_ifname'']) @ [''wan_main_rule'']"

lemma defaults_4_sub: "subseq (names (defaults_4 b)) defaults_4_names"
  unfolding defaults_4_def defaults_4_names_def by (intro names_append names_if; simp?)

definition defaults_5_names :: "string list" where
  "defaults_5_names =
     [''wanupnp_rule''] @ [''wan_bw_rule'', ''wan_detect_rule'', ''wan_lb_rule''] @
      [''storage_device_mount_rule''] @ [''storage_device_mount_rule_num''] @ [''countdown_rule''] @
      [''license_status_rule'', ''wan_status_rule'', ''vpn_status_rule'', ''mac_sense_rule''] @
      [''file_mode_rule'', ''relay_schedule_rule'', ''relay_rule'', ''mail_rule'', ''als_failover'',
      ''alert_rule''] @ [''wan_upnp_status_rule'', ''wan_action_style_rule'', ''wan_static_rule'',
      ''wan_dhcp_rule'', ''wan_pppoe_rule'', ''wan_wwan_rule'']"

lemma defaults_5_sub: "subseq (names (defaults_5 b)) defaults_5_names"
  unfolding defaults_5_def defaults_5_names_def by (intro names_append names_if; simp?)

definition defaults_6_names :: "string list" where
  "defaults_6_names =
     [''wan_barry_rule''] @ [''wan_pptp_l2tp_rule_num'', ''wan_pptp_l2tp_rule_max'',
      ''wan_pptp_l2tp_global_rule'', ''wan_pptp_l2tp_status''] @ [''wan_pptp_l2tp_rule'',
      ''wan_l2tp_status_rule'', ''wan_htc_rule'', ''wan_iphone_rule'', ''wan_beceem_rule'', ''wan_wimax_rule'',
      ''wan_wwan_probe_rule'', ''ac340st'', ''wan_bigpond_rule'', ''wan_hwaddr_rule_default'',
      ''wan_hwaddr_clone_rule'', ''wan_ddns_rule'', ''wan_apple_filter_rule'', ''wan_opendns_rule'',
      ''lan_num'']"

lemma defaults_6_sub: "subseq (names (defaults_6 b)) defaults_6_names"
  unfolding defaults_6_def defaults_6_names_def by (intro names_append names_if; simp?)

definition defaults_7_names :: "string list" where
  "defaults_7_names =
     ([''lan0_ifname'', ''lan0_ifnames'', ''lan0_hwname'', ''lan0_device'', ''lan0_proto'', ''lan0_ports'',
      ''lan0_ipaddr'', ''lan0_netmask'', ''lan0_mask'', ''lan0_gateway'', ''lan0_dns'', ''lan0_wins''] @
      ([''vlan_rule'', ''vlan_rule_num'', ''vlan_rule_max'', ''vlanport_rule'', ''vlanport_rule_num'',
      ''vlanport_rule_max''] @ [''br_rule''] @ [''br_rule_num'', ''br_rule_max''] @ rt305x_lan_num_1_names @
      rt305x_wan_num_1_names @ rt305x_wan_num_2_names)) @ (as500_lan_num_1_names @ as500_wan_num_1_names @
      as500_wan_num_2_names @ as500_swap_names @ as500_initd_names)"

lemma defaults_7_sub: "subseq (names (defaults_7 b)) defaults_7_names"
  unfolding defaults_7_def defaults_7_names_def by (intro names_append names_if rt305x_lan_num_1_sub
      rt305x_wan_num_1_sub rt305x_wan_num_2_sub as500_lan_num_1_sub as500_wan_num_1_sub as500_wan_num_2_sub
      as500_swap_sub as500_initd_sub; simp?)

definition defaults_8_names :: "string list" where
  "defaults_8_names =
     [''lan_main_rule'', ''lan_hwaddr_rule_default'', ''lan_static_rule_default'', ''guest_lan_rule'',
      ''lan_static_rule'', ''lan_status_rule'', ''lan_dhcps_rule'', ''lan_hwaddr_clone_rule'', ''rt_mask'',
      ''auth_mask'', ''dbm_max'', ''dbm_mask'', ''fl_mask'', ''fl_mark_default''] @ [''nat_rule''] @
      [''turbonat_enable''] @ [''snmp_rule''] @ [''sm_mode'', ''bw_enable'', ''bw_sbm_mask''] @
      [''bw_group_rule'']"

lemma defaults_8_sub: "subseq (names (defaults_8 b)) defaults_8_names"
  unfolding defaults_8_def defaults_8_names_def by (intro names_append names_if; simp?)

definition defaults_9_names :: "string list" where
  "defaults_9_names =
     [''bw_group_rule_num'', ''bw_group_rule_max'', ''bw_sbm_rule'', ''bw_sbm_rule_num'', ''bw_sbm_rule_max'',
      ''bw_dbm_mask'', ''bw_dbm_rule'', ''bw_dbm_rule_num'', ''bw_dbm_rule_max'', ''bw_mask'', ''rt_enable'',
      ''rt_rule''] @ [''rt_rule_num''] @ [''rt_rule_max'', ''rt_conn_enable'', ''wf_enable'',
      ''wf_content_rule''] @ [''wf_rule''] @ [''wf_rule_num''] @ [''wf_rule_max'', ''sched_rule'',
      ''sched_rule_num'', ''sched_rule_max'']"

lemma defaults_9_sub: "subseq (names (defaults_9 b)) defaults_9_names"
  unfolding defaults_9_def defaults_9_names_def by (intro names_append names_if; simp?)

definition defaults_10_names :: "string list" where
  "defaults_10_names =
     [''rrd_enable'', ''cron_rule''] @ [''ntp_rule''] @ [''smbd_rule''] @ [''smbd_user_rule'',
      ''togo_rule_num'', ''togo_rule'', ''camera_rule'', ''music_rule''] @ [''drive_rule''] @ [''bt_rule'',
      ''bt_torrent_max'', ''ftpd_rule'', ''ftpd_user_rule'', ''ftpd_user_rule_num'', ''ftpd_user_rule_max'',
      ''itunes_rule'', ''storage_rule'']"

lemma defaults_10_sub: "subseq (names (defaults_10 b)) defaults_10_names"
  unfolding defaults_10_def defaults_10_names_def by (intro names_append names_if; simp?)

definition defaults_12_names :: "string list" where
  "defaults_12_names =
     [''storage_state_rule_num'', ''storage_state_rule_max'', ''storage_state_rule'',
      ''storage_used_state_rule'', ''myqnapcloud_id_rule'', ''model_name'', ''cgi_progress'',
      ''cgi_progress_num'']"

lemma defaults_12_sub: "subseq (names (defaults_12 b)) defaults_12_names"
  unfolding defaults_12_def defaults_12_names_def by simp

definition defaults_11_names :: "string list" where
  "defaults_11_names =
     [''storage_state_rule_num'', ''storage_state_rule_max'', ''storage_state_rule'',
      ''storage_used_state_rule'', ''myqnapcloud_id_rule'', ''model_name'', ''cgi_progress'',
      ''cgi_progress_num''] @ [''is_rule'', ''ishost_enable'', ''ishost_rule'', ''ishost_rule_num'',
      ''ishost_rule_max'', ''isuser_enable'', ''isuser_rule'', ''isuser_rule_num'', ''isuser_rule_max''] @
      [''appmgr_rule''] @ [''ssh_rule''] @ [''log_rule'']"

lemma defaults_11_sub: "subseq (names (defaults_11 b)) defaults_11_names"
  unfolding defaults_11_def defaults_11_names_def by (intro names_append names_if defaults_12_sub [unfolded
      defaults_12_names_def]; simp?)

definition defaults_13_names :: "string list" where
  "defaults_13_names =
     [''upnp_rule''] @ [''fl_enable'', ''fl_rule_default'', ''fl_rule'', ''fl_rule_num'', ''fl_rule_max'',
      ''fl_hwaddr_enable''] @ [''fl_hwaddr_rule''] @ [''fl_hwaddr_rule_num'', ''fl_hwaddr_rule_max'',
      ''fl_hwaddr_rule_default'', ''plug_rule'', ''survey_counter'', ''cnnt_rule'', ''cnnt_rule_num'',
      ''cnnt_rule_max'', ''fr_enable'', ''fr_rule''] @ [''fr_rule_num''] @ [''fr_rule_max'']"

lemma defaults_13_sub: "subseq (names (defaults_13 b)) defaults_13_names"
  unfolding defaults_13_def defaults_13_names_def by (intro names_append names_if; simp?)

definition defaults_14_names :: "string list" where
  "defaults_14_names =
     [''fr_dmz_rule'', ''wizard_rule''] @ [''vs_enable''] @ [''vs_rule'', ''vs_rule_num'', ''vs_rule_max'',
      ''wl_num'', ''wl_region_default'', ''wl_region'', ''wl_countrycode_default'', ''wl_countrycode'',
      ''wl_regionaband_default'', ''wl_regionaband'', ''wl_rule_num'', ''wl_rule_max'', ''wlv_rule_num'',
      ''wlv_rule_max'', ''wl_basic_rule'', ''wl_advanced_rule'', ''wl_wds_rule'', ''wl_wme_rule'']"

lemma defaults_14_sub: "subseq (names (defaults_14 b)) defaults_14_names"
  unfolding defaults_14_def defaults_14_names_def by (intro names_append names_if; simp?)

definition defaults_15_names :: "string list" where
  "defaults_15_names =
     [''wl_wps_rule'', ''wl_wps_sta_rule'', ''wl0_basic_rule'', ''wl0_ifname_rule'', ''wl0_ssid_rule_default'',
      ''wl0_ssid_rule'', ''wl0_sec_rule'', ''wl0_sec_wep_rule'', ''wl0_sec_wpa_rule'', ''wl0_sec_wpa2_rule''] @
      ([''wl00_acl_basic_rule'', ''wl00_acl_num'', ''wl00_acl_max'', ''wl00_acl_rule''] @
      ([''wl01_acl_basic_rule'', ''wl01_acl_num'', ''wl01_acl_max'', ''wl01_acl_rule''] @
      [''wl02_acl_basic_rule'', ''wl02_acl_num'', ''wl02_acl_max'', ''wl02_acl_rule'', ''wl03_acl_basic_rule'',
      ''wl03_acl_num'', ''wl03_acl_max'', ''wl03_acl_rule'']))"

lemma defaults_15_sub: "subseq (names (defaults_15 b)) defaults_15_names"
  unfolding defaults_15_def defaults_15_names_def by (intro names_append names_if; simp?)

definition defaults_16_names :: "string list" where
  "defaults_16_names =
     [''wl0_acl_enable'', ''wl0_acl_rule_default'', ''wl0_acl_num'', ''wl0_acl_max'', ''wl0_acl_rule''] @
      [''wl1_basic_rule'', ''wl1_ifname_rule'', ''wl1_ssid_rule'', ''wl1_sec_rule'', ''wl1_sec_wep_rule'',
      ''wl1_sec_wpa_rule'', ''wl1_sec_wpa2_rule'', ''wl1_acl_enable'', ''wl1_acl_rule_default'',
      ''wl1_acl_num'', ''wl1_acl_max'', ''wl1_acl_rule''] @ [''wl0_wds_rule_num'', ''wl0_wds_rule_max'',
      ''wl0_wds_basic_rule'', ''wl0_wds_sec_wep_rule'', ''wl0_wds_sec_wpa_rule'', ''wl0_apcli_rule_num'',
      ''wl0_apcli_rule_max'', ''wl0_apcli_rule'', ''wl0_apcli_sec_wep_rule'', ''wl0_apcli_sec_wpa_rule'',
      ''wl0_apcli_sec_wpa2_rule'']"

lemma defaults_16_sub: "subseq (names (defaults_16 b)) defaults_16_names"
  unfolding defaults_16_def defaults_16_names_def by (intro names_append names_if; simp?)

definition defaults_17_names :: "string list" where
  "defaults_17_names =
     [''wl0_apcli_swap_basic_rule''] @ [''wl0_apcli_swap_channel_rule'', ''wl0_apcli_swap_rule'',
      ''wl0_apcli_swap_sec_wep_rule'', ''wl0_apcli_swap_sec_wpa_rule'', ''wl0_apcli_swap_sec_wpa2_rule''] @
      [''wl1_wds_rule_num'', ''wl1_wds_rule_max'', ''wl1_wds_basic_rule'', ''wl1_wds_sec_wep_rule'',
      ''wl1_wds_sec_wpa_rule'', ''wl1_apcli_rule_num'', ''wl1_apcli_rule_max'', ''wl1_apcli_rule'',
      ''wl1_apcli_sec_wep_rule'', ''wl1_apcli_sec_wpa_rule'', ''wl1_apcli_sec_wpa2_rule''] @
      [''auth_server_rule_num'', ''auth_server_rule_max'', ''auth_server_enable'', ''auth_server_rule'',
      ''auth_user_rule_num'', ''auth_user_rule_max'', ''auth_user_enable'', ''auth_user_rule'', ''fw_rule'']"

lemma defaults_17_sub: "subseq (names (defaults_17 b)) defaults_17_names"
  unfolding defaults_17_def defaults_17_names_def by (intro names_append names_if; simp?)

definition defaults_18_names :: "string list" where
  "defaults_18_names =
     [''nat_pass_rule'', ''ttl_rule'', ''tos_rule'', ''mss_enable'', ''snat_enable'', ''ct_max''] @
      [''user_rule''] @ [''http_rule_default''] @ [''http_rule'', ''http_redirect_rule'', ''led_rule'',
      ''display_rule''] @ [''app_enable_rule''] @ [''adtool_rule''] @ [''stats_rule'', ''stats_type'',
      ''stats_ifname'', ''stats_proto'']"

lemma defaults_18_sub: "subseq (names (defaults_18 b)) defaults_18_names"
  unfolding defaults_18_def defaults_18_names_def by (intro names_append names_if; simp?)

definition defaults_19_names :: "string list" where
  "defaults_19_names =
     [''stats_interval'', ''no_root_swap'', ''vnc_rule'', ''vnc_allow_rule'', ''vnc_session_max'',
      ''l2tpd_rule'', ''l2tpd_user_rule'', ''l2tpd_user_rule_num'', ''l2tpd_user_rule_max'', ''ipsec_enable'',
      ''ipsec_rule_max'', ''ipsec_rule_num'', ''ipsec_rule'', ''ipsec_status_rule''] @
      [''ipsec_split_tunnel_state''] @ [''pptpd_rule'', ''pptpd_user_rule'', ''pptpd_user_rule_num'',
      ''pptpd_user_rule_max'', ''pptpd_session_max'', ''wol_rule'', ''lang'', ''license_key'', ''valid_key'']"

lemma defaults_19_sub: "subseq (names (defaults_19 b)) defaults_19_names"
  unfolding defaults_19_def defaults_19_names_def by (intro names_append names_if; simp?)

definition defaults_20_names :: "string list" where
  "defaults_20_names =
     [''hostname''] @ [''prod_supercat''] @ [''prod_cat''] @ [''prod_subcat'', ''prod_subsubcat'',
      ''x_mode_data''] @ [''port_config''] @ [''op_mode'', ''switch_type'', ''ddns_id_rule'',
      ''ddns_password_rule'', ''platform''] @ [''als_battery_rule'', ''als_status_rule'', ''als_serial_rule'',
      ''als_operating_rule'', ''als_operating_data_packing_rule'', ''als_operating_option_rule''] @
      [''ip_switch_rule_num'', ''ip_switch_rule'']"

lemma defaults_20_sub: "subseq (names (defaults_20 b)) defaults_20_names"
  unfolding defaults_20_def defaults_20_names_def by (intro names_append names_if; simp?)

definition defaults_21_names :: "string list" where
  "defaults_21_names =
     [''wan_priority_rule'', ''serial_num_rule'', ''mfg_test_result_rule''] @ [''WISP_detect_portal_rule'',
      ''gmn_nat_rule_max'', ''gmn_nat_rule_num'', ''gmn_nat_rule'', ''gmn_filter_rule_max'',
      ''gmn_filter_rule_num'', ''gmn_filter_rule'', ''gmn_mcast_rule_max'', ''gmn_mcast_rule_num'',
      ''gmn_mcast_rule''] @ [''portcfg_rule'', ''portcfg_rule_num'', ''machine_id'', ''arch'',
      ''license_invalid'', ''valid_count'', ''bootcount'', ''igmp_proxy_rule'', ''ppp_control_rule'']"

lemma defaults_21_sub: "subseq (names (defaults_21 b)) defaults_21_names"
  unfolding defaults_21_def defaults_21_names_def by (intro names_append names_if; simp?)

definition defaults_22_names :: "string list" where
  "defaults_22_names =
     [''captive_rule'', ''card_reader_hardware_rule_max'', ''card_reader_hardware_rule_num'',
      ''card_reader_hardware_rule''] @ [''st_defpath_rule_num'', ''st_defpath_rule_max'', ''st_defpath_rule'',
      ''allow_guest''] @ [''boot_test''] @ [''gpiodef_rule'', ''upnpc_setting_rule_num'',
      ''upnpc_setting_rule'', ''upnpc_status_rule''] @ [''aximddns_rule''] @ [''netstat_rule'']"

lemma defaults_22_sub: "subseq (names (defaults_22 b)) defaults_22_names"
  unfolding defaults_22_def defaults_22_names_def by (intro names_append names_if; simp?)

definition default_entries_names :: "string list" where
  "default_entries_names =
     defaults_1_names @ defaults_2_names @ defaults_3_names @ defaults_4_names @ defaults_5_names @
      defaults_6_names @ defaults_7_names @ defaults_8_names @ defaults_9_names @ defaults_10_names @
      defaults_11_names @ defaults_13_names @ defaults_14_names @ defaults_15_names @ defaults_16_names @
      defaults_17_names @ defaults_18_names @ defaults_19_names @ defaults_20_names @ defaults_21_names @
      defaults_22_names"

lemma default_entries_sub: "subseq (names (default_entries b)) default_entries_names"
  unfolding default_entries_def default_entries_names_def by (intro names_append defaults_1_sub defaults_2_sub
      defaults_3_sub defaults_4_sub defaults_5_sub defaults_6_sub defaults_7_sub defaults_8_sub defaults_9_sub
      defaults_10_sub defaults_11_sub defaults_13_sub defaults_14_sub defaults_15_sub defaults_16_sub
      defaults_17_sub defaults_18_sub defaults_19_sub defaults_20_sub defaults_21_sub defaults_22_sub; simp?)

end
