(* ===== verification/Default_Facts.thy ===== *)
theory Default_Facts
  imports Default_Names
begin

text \<open>
  What holds of the table of defaults in every build: the names are well formed, the option bits are those of the
  header, and the names are distinct but for those that two headers of architectures list again.
\<close>

section \<open>Names that occur once\<close>

definition repeated :: "string \<Rightarrow> bool" where
  "repeated n \<longleftrightarrow> n \<in> {''hostname'', ''vlan1ports'', ''vlan1hwname'', ''vlan2ports'', ''vlan2hwname'', ''vlan3hwname'',
     ''no_root_swap''}"

definition others :: "string list \<Rightarrow> string list" where
  "others = filter (\<lambda>n. \<not> repeated n)"

lemma subseq_filter_distinct: "subseq xs ys \<Longrightarrow> distinct (filter P ys) \<Longrightarrow> distinct (filter P xs)"
  by (metis subseq_filter subseq_conv_nths distinct_nthsI)

lemma subseq_filter_none: "subseq xs ys \<Longrightarrow> filter P ys = [] \<Longrightarrow> filter P xs = []"
  by (metis subseq_filter list_emb_Nil2)

lemma others_append: "others (xs @ ys) = others xs @ others ys"
  by (simp add: others_def)

text \<open>
  Five hundred names are compared through numbers: the names are distinct when their codes are, the codes of the
  parts in three groups, each of them and each pair.
\<close>

definition name_code :: "string \<Rightarrow> int" where
  "name_code s = foldl (\<lambda>k c. 4 * k + of_char c) 0 s"

lemma distinct_filters: "distinct (filter (\<lambda>x. \<not> P x) xs) \<Longrightarrow> distinct xs \<longleftrightarrow> distinct (filter P xs)"
  by (induction xs) (auto split: if_splits)

lemma distinct_of_map: "distinct (map f xs) \<Longrightarrow> distinct xs"
  by (simp add: distinct_map)

lemma name_codes:
  "map name_code (others defaults_1_names) =
     [550165794, 36719482, 591940045690, 36722503, 623329, 40857736629, 34476, 37120, 592386996, 157107712,
      9973724, 2539773020, 2539696604, 634985660, 8835100, 40846282780, 2252328988, 9973719, 2539773015,
      2539696599, 634985655, 8835095, 40846282775, 2252328983, 9973715, 2539773011, 2539696595, 634985651,
      2540035155, 2539958739, 635051187, 2540297299, 2540220883, 635116723, 2540559443, 2540483027, 635182259,
      2540821587, 2540745171, 635247795, 8835091, 40846282771, 2252328979, 9973717, 2539773013, 2539696597,
      634985653, 2540035157, 2539958741, 635051189, 2540297301, 2540220885, 635116725, 2540559445, 2540483029,
      635182261, 2540821589, 2540745173, 635247797, 8835093, 40846282773, 2252328981]"
  "map name_code (others defaults_2_names) =
     [158735785, 158731009, 39686575, 634943255, 158739113, 2600649374388, 158748547, 39686435, 634928933,
      161619369, 161621122, 646499207, 10101383, 646466221, 2525227, 158737538, 634964871, 9921159, 634931885,
      2480171, 9921915, 10158803004, 40640221615, 162560875945, 583212799205]"
  "map name_code (others defaults_3_names) =
     [158752169, 158747393, 39690671, 635008791, 158755497, 2600917809844, 158764931, 39690531, 634994469,
      161635753, 161637506, 646564743, 10102407, 646531757, 2525483, 158753922, 635030407, 9922183, 634997421,
      2480427, 9922939, 10159851580, 40644415919, 162577653161]"
  "map name_code (others defaults_4_names) =
     [158768553, 158763777, 39694767, 635074327, 158771881, 2601186245300, 158781315, 39694627, 635060005,
      161652137, 161653890, 646630279, 10103431, 646597293, 2525739, 158770306, 635095943, 9923207, 635062957,
      2480683, 9923963, 10160900156, 40648610223, 162594430377, 2552892645]"
  "map name_code (others defaults_5_names) =
     [639771877, 159531237, 40838481125, 159550693, 43130623295583461, 11041439563669374433, 9151540453,
      9798737699045, 40857215205, 41595412709, 9496283365, 9200015589, 10178541787365, 38828261, 9307365,
      558679334, 34780389, 41839579603173, 167259831474405, 40857149669, 2552394981, 10213460197, 2553875685]"
  "map name_code (others defaults_6_names) =
     [10208872677, 669353439987169, 669353439987084, 42838620145435877, 41834589999559, 2614661874917,
      41813675581669, 638210277, 40846014693, 40835270885, 10214749413, 10460674259173, 516416, 163347215589,
      2676892272761780, 167305762617573, 2552377573, 167272691113189, 163408261349, 578273]"
  "map name_code (others defaults_7_names) =
     [147201449, 588805911, 147204777, 147196673, 36802991, 36802851, 147203202, 588827527, 9200263, 588794541,
      2299947, 9201019, 10046693, 2571961825, 2571961740, 2573022437, 658693752289, 658693752204, 552165,
      141362657, 141362572, 38269218]"
  "map name_code (others defaults_8_names) =
     [2368343269, 2483378226273204, 2484100116323252, 9458306277, 37904359653, 37904425189, 9471398117,
      155211134712037, 619143, 8888967, 546188, 2184839, 561799, 36819901364, 2352357, 41467908725, 9934053,
      616229, 8901237, 142612103, 2279822565]"
  "map name_code (others defaults_9_names) =
     [583634585057, 583634584972, 142612709, 36508861921, 36508861836, 142366343, 142366949, 36445947361,
      36445947276, 556679, 9900661, 619749, 158664161, 158664076, 10137473653, 9998965, 40953083109, 625893,
      160237025, 160236940, 38888677, 9955509729, 9955509644]"
  "map name_code (others defaults_10_names) =
     [39522933, 8957157, 2426085, 9860325, 10097155301, 2557543905, 9990373, 138635493, 38691045, 36026597,
      554213, 9081920652, 9180389, 9400900837, 2406630622689, 2406630622604, 150544613, 642697445]"
  "map name_code (others defaults_11_names) =
     [673917171205601, 673917171205516, 2632488949989, 2695669153372389, 10208454141157, 38044329, 559441935,
      143217143777, 581861, 2392068725, 149505253, 38273353185, 38273353100, 2405798517, 150363365, 38493029857,
      38493029772, 140770533, 2495717, 2363621]"
  "map name_code (others defaults_13_names) =
     [10101989, 8983157, 36859878324, 562405, 143984097, 143984012, 147268866677, 9204305125, 2356302120417,
      2356302120332, 603213342776244, 9728229, 10318857670, 8893669, 2276787681, 2276787596, 9081461, 568549,
      145556961, 145556876]"
  "map name_code (others defaults_14_names) =
     [145308901, 162493669, 10146421, 635109, 162596321, 162596236, 157921, 662492027828, 10108794,
      677600393763764, 10339361445, 678391859387316, 10351438252, 161809889, 161809804, 652019169, 652019084,
      2583584997, 165347009765, 161829093, 161851621]"
  "map name_code (others defaults_15_names) =
     [161878245, 41440839909, 10133332197, 40541563109, 166113849973684, 2534696165, 633610469, 162204308709,
      162204338405, 648817302757, 10325000610021, 630188257, 630188172, 2520753381, 10326074351845, 630253793,
      630253708, 2521015525, 10327148093669, 630319329, 630319244, 2521277669, 10328221835493, 630384865,
      630384780, 2521539813]"
  "map name_code (others defaults_16_names) =
     [10133049973, 41505037556660, 158329057, 158328972, 633316581, 10137526501, 40558340325, 2535744741,
      633872613, 162271417573, 162271447269, 649085738213, 10137244277, 41522217425844, 158394593, 158394508,
      633578725, 162224211425, 162224211340, 2595582009573, 41529383146725, 41529383176421, 2594255209953,
      2594255209868, 10133809381, 664129318769893, 664129318799589, 2656517275147493]"
  "map name_code (others defaults_17_names) =
     [42504277620318437, 680068441932432613, 10377020904677, 680068441996088549, 680068441996118245,
      2720273767984422117, 162291320289, 162291320204, 2596655751397, 41546563015909, 41546563045605,
      2595328951777, 2595328951692, 10138003685, 664404196676837, 664404196706533, 2657616786775269,
      37285082760673, 37285082760588, 2330317656693, 145644854501, 2330394953185, 2330394953100, 145649668725,
      9103105253, 573669]"
  "map name_code (others defaults_18_names) =
     [2408431845, 2520293, 2506981, 38523509, 158208629, 139404, 10116325, 612117060532, 9340133, 2448395060453,
      2319589, 569342181, 35975223525, 137946341, 39964901, 39965109, 639425961, 159859119]"
  "map name_code (others defaults_19_names) =
     [10230856400, 2519269, 10314076389, 41273825932, 34084069, 34902269157, 8934980912609, 8934980912524,
      596759157, 9548400012, 9548400097, 37298405, 611098009829, 10012221158986821, 39195877, 40136760549,
      10275010708961, 10275010708876, 642183371404, 2548965, 9007, 149516669, 9906301]"
  "map name_code (others defaults_20_names) =
     [2508544424, 2449384, 156783016, 10034135464, 160240705, 156438251, 602917, 161109429, 562783461,
      2305287517413, 2415269, 143008385253, 35773718757, 35770631397, 2289192091877, 153625080686124351717,
      37506123230047461, 2428172043745, 9485047013]"
  "map name_code (others defaults_21_names) =
     [653663529189, 40139753701, 39310511133925, 1973668218619109, 149432894860, 149432894945, 583722213,
      9562033554828, 9562033554913, 37351693541, 2390833300876, 2390833300961, 9339192549, 625819877,
      160209896929, 37122872, 8532, 38276275976, 158499900, 8849468, 37535328485, 160004416741]"
  "map name_code (others defaults_22_names) =
     [556251365, 9544212164944397708, 9544212164944397793, 37282078769314021, 10447401321953, 10447401321868,
      40810161381, 139540688, 8848528, 586444005, 677919638750689, 2648123588837, 662033637605, 2278174949,
      607675621]"
  by code_simp+

definition first_codes :: "int list" where
  "first_codes =
     map name_code (others defaults_1_names) @
     map name_code (others defaults_2_names) @
     map name_code (others defaults_3_names) @
     map name_code (others defaults_4_names) @
     map name_code (others defaults_5_names) @
     map name_code (others defaults_6_names) @
     map name_code (others defaults_7_names) @
     map name_code (others defaults_8_names)"

definition second_codes :: "int list" where
  "second_codes =
     map name_code (others defaults_9_names) @
     map name_code (others defaults_10_names) @
     map name_code (others defaults_11_names) @
     map name_code (others defaults_13_names) @
     map name_code (others defaults_14_names) @
     map name_code (others defaults_15_names) @
     map name_code (others defaults_16_names)"

definition third_codes :: "int list" where
  "third_codes =
     map name_code (others defaults_17_names) @
     map name_code (others defaults_18_names) @
     map name_code (others defaults_19_names) @
     map name_code (others defaults_20_names) @
     map name_code (others defaults_21_names) @
     map name_code (others defaults_22_names)"

lemma codes_distinct: "distinct first_codes" "distinct second_codes" "distinct third_codes"
  unfolding first_codes_def second_codes_def third_codes_def name_codes append.simps by simp_all

lemma first_second: "set first_codes \<inter> set second_codes = {}"
  unfolding first_codes_def second_codes_def name_codes append.simps by simp

lemma first_third: "set first_codes \<inter> set third_codes = {}"
  unfolding first_codes_def third_codes_def name_codes append.simps by simp

lemma second_third: "set second_codes \<inter> set third_codes = {}"
  unfolding second_codes_def third_codes_def name_codes append.simps by simp

lemma other_names_distinct: "distinct (others default_entries_names)"
proof (rule distinct_of_map [of name_code])
  have "distinct (first_codes @ second_codes @ third_codes)"
    using codes_distinct first_second first_third second_third
    by (simp only: distinct_append set_append Int_Un_distrib Un_empty simp_thms)
  then show "distinct (map name_code (others default_entries_names))"
    by (simp only: first_codes_def second_codes_def third_codes_def default_entries_names_def others_append map_append append_assoc)
qed

section \<open>Names that may occur again\<close>

lemma names_not_repeated:
  "filter repeated defaults_2_names = []"
  "filter repeated defaults_3_names = []"
  "filter repeated defaults_4_names = []"
  "filter repeated defaults_5_names = []"
  "filter repeated defaults_6_names = []"
  "filter repeated defaults_8_names = []"
  "filter repeated defaults_9_names = []"
  "filter repeated defaults_10_names = []"
  "filter repeated defaults_11_names = []"
  "filter repeated defaults_13_names = []"
  "filter repeated defaults_14_names = []"
  "filter repeated defaults_15_names = []"
  "filter repeated defaults_16_names = []"
  "filter repeated defaults_17_names = []"
  "filter repeated defaults_18_names = []"
  "filter repeated defaults_21_names = []"
  "filter repeated defaults_22_names = []"
  "filter repeated defaults_P_names = []" "filter repeated defaults_K_names = []"
  "filter repeated defaults_G_names = []" "filter repeated defaults_I_names = []"
  by code_simp+

lemmas parts_not_repeated =
  subseq_filter_none [OF defaults_2_sub names_not_repeated(1)]
  subseq_filter_none [OF defaults_3_sub names_not_repeated(2)]
  subseq_filter_none [OF defaults_4_sub names_not_repeated(3)]
  subseq_filter_none [OF defaults_5_sub names_not_repeated(4)]
  subseq_filter_none [OF defaults_6_sub names_not_repeated(5)]
  subseq_filter_none [OF defaults_8_sub names_not_repeated(6)]
  subseq_filter_none [OF defaults_9_sub names_not_repeated(7)]
  subseq_filter_none [OF defaults_10_sub names_not_repeated(8)]
  subseq_filter_none [OF defaults_11_sub names_not_repeated(9)]
  subseq_filter_none [OF defaults_13_sub names_not_repeated(10)]
  subseq_filter_none [OF defaults_14_sub names_not_repeated(11)]
  subseq_filter_none [OF defaults_15_sub names_not_repeated(12)]
  subseq_filter_none [OF defaults_16_sub names_not_repeated(13)]
  subseq_filter_none [OF defaults_17_sub names_not_repeated(14)]
  subseq_filter_none [OF defaults_18_sub names_not_repeated(15)]
  subseq_filter_none [OF defaults_21_sub names_not_repeated(16)]
  subseq_filter_none [OF defaults_22_sub names_not_repeated(17)]
  subseq_filter_none [OF defaults_P_sub names_not_repeated(18)]
  subseq_filter_none [OF defaults_K_sub names_not_repeated(19)]
  subseq_filter_none [OF defaults_G_sub names_not_repeated(20)]
  subseq_filter_none [OF defaults_I_sub names_not_repeated(21)]

lemma names_if_eq: "names (if c then xs else ys) = (if c then names xs else names ys)"
  by simp

lemma filter_if: "filter P (if c then xs else ys) = (if c then filter P xs else filter P ys)"
  by simp

lemma filter_step: "P x \<Longrightarrow> filter P (x # xs) = x # filter P xs" "\<not> P x \<Longrightarrow> filter P (x # xs) = filter P xs"
  by simp_all

lemmas part_ifs = map_append filter_append names_if_eq filter_if

lemma brand_parts:
  "filter repeated (names (defaults_axim b)) = []"
  "filter repeated (names (defaults_abocom b)) = []"
  "filter repeated (names (defaults_zyxel b)) = []"
  "filter repeated (names (defaults_planet b)) = []"
  "filter repeated (names (defaults_white b)) = []"
  "filter repeated (names (defaults_allis b)) = []"
  "filter repeated (names (defaults_prox b)) = [''hostname'']"
  "filter repeated (names (defaults_mymo b)) = [''hostname'']"
  "filter repeated (names (defaults_sony b)) = [''hostname'']"
  by (simp_all add: defaults_axim_def defaults_abocom_def defaults_zyxel_def defaults_planet_def defaults_white_def
      defaults_prox_def defaults_mymo_def defaults_sony_def defaults_allis_def repeated_def)

text \<open>The brand whose header gives the table a name of the host.\<close>

lemma brand_hostname:
  "\<exists>c. filter repeated (names (defaults_1 b)) = (if c then [''hostname''] else []) \<and>
     (c \<longrightarrow> defined b EZP_PROD_BRAND_PROX \<or> defined b EZP_PROD_BRAND_MYMO \<or> defined b EZP_PROD_BRAND_SONY)"
proof -
  have "filter repeated (names (defaults_1 b)) \<in> {[], [''hostname'']}"
    "filter repeated (names (defaults_1 b)) \<noteq> [] \<longrightarrow>
       defined b EZP_PROD_BRAND_PROX \<or> defined b EZP_PROD_BRAND_MYMO \<or> defined b EZP_PROD_BRAND_SONY"
    unfolding defaults_1_def part_ifs brand_parts parts_not_repeated
    by (simp_all add: repeated_def filter_step del: filter.simps(2) cong: if_cong split del: if_split) auto
  then show ?thesis
    by (intro exI [of _ "filter repeated (names (defaults_1 b)) \<noteq> []"]) auto
qed

definition vlan_names :: "bool \<Rightarrow> string list" where
  "vlan_names dual = [''vlan1ports'', ''vlan1hwname'', ''vlan2ports'', ''vlan2hwname''] @
     (if dual then [''vlan2ports'', ''vlan3hwname''] else [])"

lemma vlan_parts:
  "filter repeated (names rt305x_lan_num_1) = [''vlan1ports'', ''vlan1hwname'']"
  "filter repeated (names rt305x_wan_num_1) = [''vlan2ports'', ''vlan2hwname'']"
  "filter repeated (names rt305x_wan_num_2) = [''vlan2ports'', ''vlan3hwname'']"
  "filter repeated (names as500_lan_num_1) = [''vlan1ports'', ''vlan1hwname'']"
  "filter repeated (names as500_wan_num_1) = [''vlan2ports'', ''vlan2hwname'']"
  "filter repeated (names as500_wan_num_2) = [''vlan2ports'', ''vlan3hwname'']"
  "filter repeated (names as500_swap) = [''no_root_swap'']" "filter repeated (names as500_initd) = []"
  by (simp_all add: rt305x_lan_num_1_def rt305x_wan_num_1_def rt305x_wan_num_2_def as500_lan_num_1_def
      as500_wan_num_1_def as500_wan_num_2_def as500_swap_def as500_initd_def repeated_def)

lemma vlan_part:
  "filter repeated (names (defaults_7 b)) =
     (if 1 \<le> LAN_NUM b \<and> defined b CONFIG_EZP_ARCH_RT305X then vlan_names (WAN_NUM b = 2) else []) @
     (if defined b CONFIG_EZP_ARCH_AS500 then vlan_names (WAN_NUM b = 2) @ [''no_root_swap''] else [])"
proof -
  have "filter repeated (names (defaults_7 b)) =
      (if 1 \<le> LAN_NUM b then if defined b CONFIG_EZP_ARCH_RT305X then vlan_names (WAN_NUM b = 2) else [] else []) @
      (if defined b CONFIG_EZP_ARCH_AS500 then vlan_names (WAN_NUM b = 2) @ [''no_root_swap''] else [])"
    unfolding defaults_7_def part_ifs vlan_parts
    by (simp add: repeated_def filter_step vlan_names_def del: filter.simps(2) cong: if_cong split del: if_split)
  then show ?thesis
    by simp
qed

lemma swap_part: "filter repeated (names (defaults_19 b)) = [''no_root_swap'']"
  unfolding defaults_19_def part_ifs
  by (simp add: repeated_def filter_step del: filter.simps(2) cong: if_cong split del: if_split)

lemma hostname_part:
  "filter repeated (names (defaults_20 b)) =
     (if defined b EZP_PROD_BRAND_PROX \<or> defined b EZP_PROD_BRAND_MYMO \<or> defined b EZP_PROD_BRAND_SONY then []
      else [''hostname''])"
  unfolding defaults_20_def part_ifs
  by (simp add: repeated_def filter_step del: filter.simps(2) cong: if_cong split del: if_split) auto

lemma default_names_distinct_iff:
  "distinct (names (default_entries b)) \<longleftrightarrow>
     \<not> defined b CONFIG_EZP_ARCH_AS500 \<and>
     \<not> (defined b CONFIG_EZP_ARCH_RT305X \<and> 1 \<le> LAN_NUM b \<and> WAN_NUM b = 2)"
proof -
  obtain c where c: "filter repeated (names (defaults_1 b)) = (if c then [''hostname''] else [])"
    "c \<longrightarrow> defined b EZP_PROD_BRAND_PROX \<or> defined b EZP_PROD_BRAND_MYMO \<or> defined b EZP_PROD_BRAND_SONY"
    using brand_hostname by blast
  have "distinct (filter (\<lambda>n. \<not> repeated n) (names (default_entries b)))"
    using subseq_filter_distinct [OF default_entries_sub] other_names_distinct by (simp add: others_def)
  then have "distinct (names (default_entries b)) \<longleftrightarrow> distinct (filter repeated (names (default_entries b)))"
    by (rule distinct_filters)
  also have "filter repeated (names (default_entries b)) =
      filter repeated (names (defaults_1 b)) @ filter repeated (names (defaults_7 b)) @
      filter repeated (names (defaults_19 b)) @ filter repeated (names (defaults_20 b))"
    by (simp only: default_entries_def map_append filter_append parts_not_repeated append.simps append_Nil2 append_assoc)
  also have "distinct \<dots> \<longleftrightarrow> \<not> defined b CONFIG_EZP_ARCH_AS500 \<and>
     \<not> (defined b CONFIG_EZP_ARCH_RT305X \<and> 1 \<le> LAN_NUM b \<and> WAN_NUM b = 2)"
    unfolding c(1) vlan_part swap_part hostname_part using c(2) by (auto simp: vlan_names_def)
  finally show ?thesis .
qed

section \<open>Well-formed names\<close>

definition name_ok :: "string \<Rightarrow> bool" where
  "name_ok n \<longleftrightarrow> good_name n \<and> length n < 56 \<and> CHR 0x0A \<notin> set n"

lemma names_ok:
  "list_all name_ok defaults_P_names"
  "list_all name_ok defaults_K_names"
  "list_all name_ok defaults_G_names"
  "list_all name_ok defaults_I_names"
  "list_all name_ok defaults_1_names"
  "list_all name_ok defaults_2_names"
  "list_all name_ok defaults_3_names"
  "list_all name_ok defaults_4_names"
  "list_all name_ok defaults_5_names"
  "list_all name_ok defaults_6_names"
  "list_all name_ok rt305x_lan_num_1_names"
  "list_all name_ok rt305x_wan_num_1_names"
  "list_all name_ok rt305x_wan_num_2_names"
  "list_all name_ok as500_lan_num_1_names"
  "list_all name_ok as500_wan_num_1_names"
  "list_all name_ok as500_wan_num_2_names"
  "list_all name_ok as500_swap_names"
  "list_all name_ok as500_initd_names"
  "list_all name_ok defaults_7_names"
  "list_all name_ok defaults_8_names"
  "list_all name_ok defaults_9_names"
  "list_all name_ok defaults_10_names"
  "list_all name_ok defaults_11_names"
  "list_all name_ok defaults_13_names"
  "list_all name_ok defaults_14_names"
  "list_all name_ok defaults_15_names"
  "list_all name_ok defaults_16_names"
  "list_all name_ok defaults_17_names"
  "list_all name_ok defaults_18_names"
  "list_all name_ok defaults_19_names"
  "list_all name_ok defaults_20_names"
  "list_all name_ok defaults_21_names"
  "list_all name_ok defaults_22_names"
  by (simp_all add: defaults_P_names_def defaults_K_names_def defaults_G_names_def
      defaults_I_names_def defaults_1_names_def defaults_2_names_def
      defaults_3_names_def defaults_4_names_def defaults_5_names_def
      defaults_6_names_def rt305x_lan_num_1_names_def rt305x_wan_num_1_names_def
      rt305x_wan_num_2_names_def as500_lan_num_1_names_def as500_wan_num_1_names_def
      as500_wan_num_2_names_def as500_swap_names_def as500_initd_names_def
      defaults_7_names_def defaults_8_names_def defaults_9_names_def
      defaults_10_names_def defaults_11_names_def defaults_13_names_def
      defaults_14_names_def defaults_15_names_def defaults_16_names_def
      defaults_17_names_def defaults_18_names_def defaults_19_names_def
      defaults_20_names_def defaults_21_names_def defaults_22_names_def
      name_ok_def good_name_def)

lemma default_name_ok: "n \<in> set (names (default_entries b)) \<Longrightarrow> name_ok n"
proof -
  assume n: "n \<in> set (names (default_entries b))"
  have "n \<in> set default_entries_names"
    by (rule list_emb_set [OF default_entries_sub n]) simp
  moreover have "list_all name_ok default_entries_names"
    unfolding default_entries_names_def list_all_append by (intro conjI names_ok)
  ultimately show ?thesis
    by (simp add: list_all_iff)
qed

end
