(* ===== verification/Default_Boot.thy ===== *)
theory Default_Boot
  imports Default_Facts
begin

text \<open>
  The option bits of the table of defaults, and the values that the entries marked \<^verbatim>\<open>NVRAM_DEFAULT\<close> are copied
  from: in every build with a brand they are listed before the entry that copies them.
\<close>

section \<open>Option bits\<close>

definition copying_entries :: "default_row list" where
  "copying_entries =
     [dv ''lan_static_rule'' [] NVRAM_DEFAULT, dv ''wl_region'' [] NVRAM_DEFAULT,
      dv ''wl_countrycode'' [] NVRAM_DEFAULT, dv ''wl_regionaband'' [] NVRAM_DEFAULT,
      dv ''wl0_ssid_rule'' [] NVRAM_DEFAULT, dv ''http_rule'' [] NVRAM_DEFAULT, dv ''lang'' [] NVRAM_DEFAULT]"

definition option_ok :: "default_row \<Rightarrow> bool" where
  "option_ok e \<longleftrightarrow>
     \<not> has_option (entry_option e) NVRAM_UNDEFINED \<and>
     (has_option (entry_option e) NVRAM_DEFAULT \<longrightarrow> e \<in> set copying_entries) \<and>
     (has_option (entry_option e) NVRAM_EMPTY \<longrightarrow> entry_name e \<notin> (\<lambda>d. entry_name d @ ''_default'') ` set copying_entries)"

lemma option_okI:
  "opts \<in> {NVRAM_NONE, NVRAM_PROTECTED, NVRAM_TEMP, NVRAM_PROTECTED OR NVRAM_CUSTOMIZED} \<Longrightarrow>
     option_ok (de n ps opts)"
  by (auto simp: option_ok_def nvram_option_defs)

lemma option_ok_entries [simp]:
  "option_ok (de n ps NVRAM_NONE)" "option_ok (de n ps NVRAM_PROTECTED)" "option_ok (de n ps NVRAM_TEMP)"
  "option_ok (de n ps (NVRAM_PROTECTED OR NVRAM_CUSTOMIZED))"
  "option_ok (dv n v NVRAM_NONE)" "option_ok (dv n v NVRAM_PROTECTED)" "option_ok (dv n v NVRAM_TEMP)"
  "option_ok (dv n v (NVRAM_PROTECTED OR NVRAM_CUSTOMIZED))"
  "option_ok (dm n m NVRAM_NONE)" "option_ok (dm n m NVRAM_PROTECTED)" "option_ok (dm n m NVRAM_TEMP)"
  "option_ok (dm n m (NVRAM_PROTECTED OR NVRAM_CUSTOMIZED))"
  unfolding dv_def dm_def by (rule option_okI, simp)+

lemma option_ok_empty [simp]:
  "option_ok (de n ps NVRAM_EMPTY) \<longleftrightarrow> n \<notin> (\<lambda>d. entry_name d @ ''_default'') ` set copying_entries"
  "option_ok (dv n v NVRAM_EMPTY) \<longleftrightarrow> n \<notin> (\<lambda>d. entry_name d @ ''_default'') ` set copying_entries"
  "option_ok (dm n m NVRAM_EMPTY) \<longleftrightarrow> n \<notin> (\<lambda>d. entry_name d @ ''_default'') ` set copying_entries"
  by (auto simp: option_ok_def nvram_option_defs)

lemma copied_names [simp]:
  "(\<lambda>d. entry_name d @ ''_default'') ` set copying_entries =
     {''lan_static_rule_default'', ''wl_region_default'', ''wl_countrycode_default'', ''wl_regionaband_default'',
      ''wl0_ssid_rule_default'', ''http_rule_default'', ''lang_default''}"
  by (simp add: copying_entries_def)

lemma option_ok_copying [simp]: "list_all option_ok copying_entries"
  by (simp add: copying_entries_def option_ok_def nvram_option_defs)

lemma option_ok_copied [simp]:
  "option_ok (dv ''lan_static_rule'' [] NVRAM_DEFAULT)" "option_ok (dv ''wl_region'' [] NVRAM_DEFAULT)"
  "option_ok (dv ''wl_countrycode'' [] NVRAM_DEFAULT)" "option_ok (dv ''wl_regionaband'' [] NVRAM_DEFAULT)"
  "option_ok (dv ''wl0_ssid_rule'' [] NVRAM_DEFAULT)" "option_ok (dv ''http_rule'' [] NVRAM_DEFAULT)"
  "option_ok (dv ''lang'' [] NVRAM_DEFAULT)"
  using option_ok_copying by (simp_all add: copying_entries_def)

lemma list_all_appendI: "list_all P xs \<Longrightarrow> list_all P ys \<Longrightarrow> list_all P (xs @ ys)"
  by simp

lemma list_all_ifI: "(c \<Longrightarrow> list_all P xs) \<Longrightarrow> (\<not> c \<Longrightarrow> list_all P ys) \<Longrightarrow> list_all P (if c then xs else ys)"
  by simp

lemma defaults_axim_options: "list_all option_ok (defaults_axim b)"
  unfolding defaults_axim_def by (simp)

lemma defaults_abocom_options: "list_all option_ok (defaults_abocom b)"
  unfolding defaults_abocom_def by (simp)

lemma defaults_zyxel_options: "list_all option_ok (defaults_zyxel b)"
  unfolding defaults_zyxel_def by (intro list_all_appendI list_all_ifI; simp)

lemma defaults_planet_options: "list_all option_ok (defaults_planet b)"
  unfolding defaults_planet_def by (simp)

lemma defaults_white_options: "list_all option_ok (defaults_white b)"
  unfolding defaults_white_def by (simp)

lemma defaults_prox_options: "list_all option_ok (defaults_prox b)"
  unfolding defaults_prox_def by (intro list_all_appendI list_all_ifI; simp)

lemma defaults_mymo_options: "list_all option_ok (defaults_mymo b)"
  unfolding defaults_mymo_def by (simp)

lemma defaults_sony_options: "list_all option_ok (defaults_sony b)"
  unfolding defaults_sony_def by (simp)

lemma defaults_allis_options: "list_all option_ok (defaults_allis b)"
  unfolding defaults_allis_def by (simp)

lemma defaults_P_options: "list_all option_ok (defaults_P b)"
  unfolding defaults_P_def by (intro list_all_appendI list_all_ifI; simp)

lemma defaults_K_options: "list_all option_ok (defaults_K b)"
  unfolding defaults_K_def by (intro list_all_appendI list_all_ifI; simp)

lemma defaults_G_options: "list_all option_ok (defaults_G b)"
  unfolding defaults_G_def by (intro list_all_appendI list_all_ifI; simp)

lemma defaults_I_options: "list_all option_ok (defaults_I b)"
  unfolding defaults_I_def by (intro list_all_appendI list_all_ifI; simp)

lemma rt305x_lan_num_1_options: "list_all option_ok rt305x_lan_num_1"
  unfolding rt305x_lan_num_1_def by (simp)

lemma rt305x_wan_num_1_options: "list_all option_ok rt305x_wan_num_1"
  unfolding rt305x_wan_num_1_def by (simp)

lemma rt305x_wan_num_2_options: "list_all option_ok rt305x_wan_num_2"
  unfolding rt305x_wan_num_2_def by (simp)

lemma as500_lan_num_1_options: "list_all option_ok as500_lan_num_1"
  unfolding as500_lan_num_1_def by (simp)

lemma as500_wan_num_1_options: "list_all option_ok as500_wan_num_1"
  unfolding as500_wan_num_1_def by (simp)

lemma as500_wan_num_2_options: "list_all option_ok as500_wan_num_2"
  unfolding as500_wan_num_2_def by (simp)

lemma as500_swap_options: "list_all option_ok as500_swap"
  unfolding as500_swap_def by (simp)

lemma as500_initd_options: "list_all option_ok as500_initd"
  unfolding as500_initd_def by (simp)

lemma defaults_1_options: "list_all option_ok (defaults_1 b)"
  unfolding defaults_1_def by (intro list_all_appendI list_all_ifI defaults_axim_options defaults_abocom_options defaults_zyxel_options defaults_planet_options defaults_white_options defaults_prox_options defaults_mymo_options defaults_sony_options defaults_allis_options defaults_P_options defaults_K_options defaults_G_options defaults_I_options; (simp)?)

lemma defaults_2_options: "list_all option_ok (defaults_2 b)"
  unfolding defaults_2_def by (intro list_all_appendI list_all_ifI; simp)

lemma defaults_3_options: "list_all option_ok (defaults_3 b)"
  unfolding defaults_3_def by (intro list_all_appendI list_all_ifI; simp)

lemma defaults_4_options: "list_all option_ok (defaults_4 b)"
  unfolding defaults_4_def by (intro list_all_appendI list_all_ifI; simp)

lemma defaults_5_options: "list_all option_ok (defaults_5 b)"
  unfolding defaults_5_def by (intro list_all_appendI list_all_ifI; simp)

lemma defaults_6_options: "list_all option_ok (defaults_6 b)"
  unfolding defaults_6_def by (intro list_all_appendI list_all_ifI; simp)

lemma defaults_7_options: "list_all option_ok (defaults_7 b)"
  unfolding defaults_7_def by (intro list_all_appendI list_all_ifI rt305x_lan_num_1_options rt305x_wan_num_1_options rt305x_wan_num_2_options as500_lan_num_1_options as500_wan_num_1_options as500_wan_num_2_options as500_swap_options as500_initd_options; (simp)?)

lemma defaults_8_options: "list_all option_ok (defaults_8 b)"
  unfolding defaults_8_def by (intro list_all_appendI list_all_ifI; simp)

lemma defaults_9_options: "list_all option_ok (defaults_9 b)"
  unfolding defaults_9_def by (intro list_all_appendI list_all_ifI; simp)

lemma defaults_10_options: "list_all option_ok (defaults_10 b)"
  unfolding defaults_10_def by (intro list_all_appendI list_all_ifI; simp)

lemma defaults_12_options: "list_all option_ok (defaults_12 b)"
  unfolding defaults_12_def by (intro list_all_appendI list_all_ifI; simp)

lemma defaults_11_options: "list_all option_ok (defaults_11 b)"
  unfolding defaults_11_def by (intro list_all_appendI list_all_ifI defaults_12_options; (simp)?)

lemma defaults_13_options: "list_all option_ok (defaults_13 b)"
  unfolding defaults_13_def by (intro list_all_appendI list_all_ifI; simp)

lemma defaults_14_options: "list_all option_ok (defaults_14 b)"
  unfolding defaults_14_def by (intro list_all_appendI list_all_ifI; simp)

lemma defaults_15_options: "list_all option_ok (defaults_15 b)"
  unfolding defaults_15_def by (intro list_all_appendI list_all_ifI; simp)

lemma defaults_16_options: "list_all option_ok (defaults_16 b)"
  unfolding defaults_16_def by (intro list_all_appendI list_all_ifI; simp)

lemma defaults_17_options: "list_all option_ok (defaults_17 b)"
  unfolding defaults_17_def by (intro list_all_appendI list_all_ifI; simp)

lemma defaults_18_options: "list_all option_ok (defaults_18 b)"
  unfolding defaults_18_def by (intro list_all_appendI list_all_ifI; simp)

lemma defaults_19_options: "list_all option_ok (defaults_19 b)"
  unfolding defaults_19_def by (intro list_all_appendI list_all_ifI; simp)

lemma defaults_20_options: "list_all option_ok (defaults_20 b)"
  unfolding defaults_20_def by (intro list_all_appendI list_all_ifI; simp)

lemma defaults_21_options: "list_all option_ok (defaults_21 b)"
  unfolding defaults_21_def by (intro list_all_appendI list_all_ifI; simp)

lemma defaults_22_options: "list_all option_ok (defaults_22 b)"
  unfolding defaults_22_def by (intro list_all_appendI list_all_ifI; simp)

lemma default_entries_options: "list_all option_ok (default_entries b)"
  unfolding default_entries_def by (intro list_all_appendI defaults_1_options defaults_2_options defaults_3_options defaults_4_options defaults_5_options defaults_6_options defaults_7_options defaults_8_options defaults_9_options defaults_10_options defaults_11_options defaults_13_options defaults_14_options defaults_15_options defaults_16_options defaults_17_options defaults_18_options defaults_19_options defaults_20_options defaults_21_options defaults_22_options; (simp)?)

lemma default_entries_option: "e \<in> set (default_entries b) \<Longrightarrow> option_ok e"
  using default_entries_options [of b] by (simp add: list_all_iff)

section \<open>Entries that copy another\<close>

text \<open>\<open>precedes n e es\<close>: the entry \<open>e\<close> is in \<open>es\<close>, behind an entry named \<open>n\<close>.\<close>

fun precedes :: "string \<Rightarrow> default_row \<Rightarrow> default_row list \<Rightarrow> bool" where
  "precedes n e [] \<longleftrightarrow> False"
| "precedes n e (d # es) \<longleftrightarrow> (n = entry_name d \<and> e \<in> set es) \<or> precedes n e es"

lemma precedes_append:
  "precedes n e (xs @ ys) \<longleftrightarrow> precedes n e xs \<or> precedes n e ys \<or> (n \<in> set (names xs) \<and> e \<in> set ys)"
  by (induction xs) auto

lemma precedes_split: "precedes n e es \<Longrightarrow> \<exists>as bs d. es = as @ e # bs \<and> d \<in> set as \<and> entry_name d = n"
proof (induction es)
  case (Cons d es)
  show ?case
  proof (cases "precedes n e es")
    case True
    then obtain as bs u where "es = as @ e # bs" "u \<in> set as" "entry_name u = n"
      using Cons.IH by blast
    then show ?thesis
      by (intro exI [of _ "d # as"] exI [of _ bs] exI [of _ u]) simp
  next
    case False
    then have "e \<in> set es" "entry_name d = n"
      using Cons.prems by auto
    then show ?thesis
      by (metis append_Cons list.set_intros(1) split_list)
  qed
qed simp

text \<open>The table takes the default language from the header of the brand.\<close>

definition branded :: "build \<Rightarrow> bool" where
  "branded b \<longleftrightarrow> (\<exists>m \<in> {EZP_PROD_BRAND_AXIM, EZP_PROD_BRAND_ABOCOM, EZP_PROD_BRAND_ZYUS, EZP_PROD_BRAND_PLANET,
     EZP_PROD_BRAND_WHITE, EZP_PROD_BRAND_PROX, EZP_PROD_BRAND_MYMO, EZP_PROD_BRAND_SONY, EZP_PROD_BRAND_ALLIS}.
     defined b m)"

lemma brand_langs:
  "''lang_default'' \<in> entry_name ` set (defaults_axim b)"
  "''lang_default'' \<in> entry_name ` set (defaults_abocom b)"
  "''lang_default'' \<in> entry_name ` set (defaults_zyxel b)"
  "''lang_default'' \<in> entry_name ` set (defaults_planet b)"
  "''lang_default'' \<in> entry_name ` set (defaults_white b)"
  "''lang_default'' \<in> entry_name ` set (defaults_prox b)"
  "''lang_default'' \<in> entry_name ` set (defaults_mymo b)"
  "''lang_default'' \<in> entry_name ` set (defaults_sony b)"
  "''lang_default'' \<in> entry_name ` set (defaults_allis b)"
  by (simp_all add: defaults_axim_def defaults_abocom_def defaults_zyxel_def defaults_planet_def defaults_white_def
      defaults_prox_def defaults_mymo_def defaults_sony_def defaults_allis_def)

lemma brand_lang: "branded b \<Longrightarrow> ''lang_default'' \<in> set (names (defaults_1 b))"
  unfolding branded_def defaults_1_def part_ifs set_append by (auto simp: brand_langs)

lemma copying_parts:
  "precedes ''lan_static_rule_default'' (dv ''lan_static_rule'' [] NVRAM_DEFAULT) (defaults_8 b)"
  "precedes ''wl_region_default'' (dv ''wl_region'' [] NVRAM_DEFAULT) (defaults_14 b)"
  "precedes ''wl_countrycode_default'' (dv ''wl_countrycode'' [] NVRAM_DEFAULT) (defaults_14 b)"
  "precedes ''wl_regionaband_default'' (dv ''wl_regionaband'' [] NVRAM_DEFAULT) (defaults_14 b)"
  "precedes ''wl0_ssid_rule_default'' (dv ''wl0_ssid_rule'' [] NVRAM_DEFAULT) (defaults_15 b)"
  "precedes ''http_rule_default'' (dv ''http_rule'' [] NVRAM_DEFAULT) (defaults_18 b)"
  by (simp_all add: defaults_8_def defaults_14_def defaults_15_def defaults_18_def precedes_append)

lemma part_precedes:
  "precedes n e (defaults_8 b) \<Longrightarrow> precedes n e (default_entries b)"
  "precedes n e (defaults_14 b) \<Longrightarrow> precedes n e (default_entries b)"
  "precedes n e (defaults_15 b) \<Longrightarrow> precedes n e (default_entries b)"
  "precedes n e (defaults_18 b) \<Longrightarrow> precedes n e (default_entries b)"
  by (simp_all add: default_entries_def precedes_append)

lemma lang_precedes:
  assumes "branded b"
  shows "precedes ''lang_default'' (dv ''lang'' [] NVRAM_DEFAULT) (default_entries b)"
proof -
  have "dv ''lang'' [] NVRAM_DEFAULT \<in> set (defaults_19 b)"
    by (simp add: defaults_19_def)
  then show ?thesis
    using brand_lang [OF assms] by (simp add: default_entries_def precedes_append)
qed

lemmas copying_sources = copying_parts(1) [THEN part_precedes(1)] copying_parts(2-4) [THEN part_precedes(2)]
  copying_parts(5) [THEN part_precedes(3)] copying_parts(6) [THEN part_precedes(4)] lang_precedes

lemma copying_precedes:
  "e \<in> set copying_entries \<Longrightarrow> branded b \<Longrightarrow> precedes (entry_name e @ ''_default'') e (default_entries b)"
  using copying_sources [of b] by (auto simp: copying_entries_def)

end
