(* ===== verification/Default_Texts.thy ===== *)
theory Default_Texts
  imports Default_Boot
begin

text \<open>
  The texts of the table of defaults: they have no NUL when the texts of the build have none.
\<close>

definition entry_text :: "build \<Rightarrow> default_row \<Rightarrow> string" where
  "entry_text b e = concat (map (piece_text b) (entry_value e))"

text \<open>What the compiler pastes into the table are C strings.\<close>

definition texts_ok :: "build \<Rightarrow> bool" where
  "texts_ok b \<longleftrightarrow>
     (\<forall>m. CHR 0x00 \<notin> set (xstr b m)) \<and> CHR 0x00 \<notin> set (EZP_PROD_VERSION b) \<and>
     CHR 0x00 \<notin> set (CUSTOM_PROD_VERSION b) \<and> CHR 0x00 \<notin> set (EZP_MODEL b)"

definition text_ok :: "build \<Rightarrow> default_row \<Rightarrow> bool" where
  "text_ok b e \<longleftrightarrow> CHR 0x00 \<notin> set (entry_text b e)"

lemma nat_to_dec_no_nul: "CHR 0x00 \<notin> set (nat_to_dec n)"
  using nat_to_dec_digits [of n] by (auto simp: is_digit_def)

lemma text_ok_entries [simp]:
  "text_ok b (dv n v opts) \<longleftrightarrow> CHR 0x00 \<notin> set v"
  "text_ok b (dm n m opts) \<longleftrightarrow> CHR 0x00 \<notin> set (xstr b m)"
  "text_ok b (de n ps opts) \<longleftrightarrow> (\<forall>p \<in> set ps. CHR 0x00 \<notin> set (piece_text b p))"
  by (simp_all add: text_ok_def entry_text_def)

lemma texts_okD:
  "texts_ok b \<Longrightarrow> CHR 0x00 \<notin> set (xstr b m)" "texts_ok b \<Longrightarrow> CHR 0x00 \<notin> set (EZP_PROD_VERSION b)"
  "texts_ok b \<Longrightarrow> CHR 0x00 \<notin> set (CUSTOM_PROD_VERSION b)" "texts_ok b \<Longrightarrow> CHR 0x00 \<notin> set (EZP_MODEL b)"
  by (simp_all add: texts_ok_def)

lemmas text_simps = texts_okD nat_to_dec_no_nul

lemma defaults_axim_texts: "texts_ok b \<Longrightarrow> list_all (text_ok b) (defaults_axim b)"
  unfolding defaults_axim_def by (simp add: text_simps)

lemma defaults_abocom_texts: "texts_ok b \<Longrightarrow> list_all (text_ok b) (defaults_abocom b)"
  unfolding defaults_abocom_def by (simp add: text_simps)

lemma defaults_zyxel_texts: "texts_ok b \<Longrightarrow> list_all (text_ok b) (defaults_zyxel b)"
  unfolding defaults_zyxel_def by (intro list_all_appendI list_all_ifI; simp add: text_simps)

lemma defaults_planet_texts: "texts_ok b \<Longrightarrow> list_all (text_ok b) (defaults_planet b)"
  unfolding defaults_planet_def by (simp add: text_simps)

lemma defaults_white_texts: "texts_ok b \<Longrightarrow> list_all (text_ok b) (defaults_white b)"
  unfolding defaults_white_def by (simp add: text_simps)

lemma defaults_prox_texts: "texts_ok b \<Longrightarrow> list_all (text_ok b) (defaults_prox b)"
  unfolding defaults_prox_def by (intro list_all_appendI list_all_ifI; simp add: text_simps)

lemma defaults_mymo_texts: "texts_ok b \<Longrightarrow> list_all (text_ok b) (defaults_mymo b)"
  unfolding defaults_mymo_def by (simp add: text_simps)

lemma defaults_sony_texts: "texts_ok b \<Longrightarrow> list_all (text_ok b) (defaults_sony b)"
  unfolding defaults_sony_def by (simp add: text_simps)

lemma defaults_allis_texts: "texts_ok b \<Longrightarrow> list_all (text_ok b) (defaults_allis b)"
  unfolding defaults_allis_def by (simp add: text_simps)

lemma defaults_P_texts: "texts_ok b \<Longrightarrow> list_all (text_ok b) (defaults_P b)"
  unfolding defaults_P_def by (intro list_all_appendI list_all_ifI; simp add: text_simps)

lemma defaults_K_texts: "texts_ok b \<Longrightarrow> list_all (text_ok b) (defaults_K b)"
  unfolding defaults_K_def by (intro list_all_appendI list_all_ifI; simp add: text_simps)

lemma defaults_G_texts: "texts_ok b \<Longrightarrow> list_all (text_ok b) (defaults_G b)"
  unfolding defaults_G_def by (intro list_all_appendI list_all_ifI; simp add: text_simps)

lemma defaults_I_texts: "texts_ok b \<Longrightarrow> list_all (text_ok b) (defaults_I b)"
  unfolding defaults_I_def by (intro list_all_appendI list_all_ifI; simp add: text_simps)

lemma rt305x_lan_num_1_texts: "texts_ok b \<Longrightarrow> list_all (text_ok b) rt305x_lan_num_1"
  unfolding rt305x_lan_num_1_def by (simp add: text_simps)

lemma rt305x_wan_num_1_texts: "texts_ok b \<Longrightarrow> list_all (text_ok b) rt305x_wan_num_1"
  unfolding rt305x_wan_num_1_def by (simp add: text_simps)

lemma rt305x_wan_num_2_texts: "texts_ok b \<Longrightarrow> list_all (text_ok b) rt305x_wan_num_2"
  unfolding rt305x_wan_num_2_def by (simp add: text_simps)

lemma as500_lan_num_1_texts: "texts_ok b \<Longrightarrow> list_all (text_ok b) as500_lan_num_1"
  unfolding as500_lan_num_1_def by (simp add: text_simps)

lemma as500_wan_num_1_texts: "texts_ok b \<Longrightarrow> list_all (text_ok b) as500_wan_num_1"
  unfolding as500_wan_num_1_def by (simp add: text_simps)

lemma as500_wan_num_2_texts: "texts_ok b \<Longrightarrow> list_all (text_ok b) as500_wan_num_2"
  unfolding as500_wan_num_2_def by (simp add: text_simps)

lemma as500_swap_texts: "texts_ok b \<Longrightarrow> list_all (text_ok b) as500_swap"
  unfolding as500_swap_def by (simp add: text_simps)

lemma as500_initd_texts: "texts_ok b \<Longrightarrow> list_all (text_ok b) as500_initd"
  unfolding as500_initd_def by (simp add: text_simps)

lemma defaults_1_texts: "texts_ok b \<Longrightarrow> list_all (text_ok b) (defaults_1 b)"
  unfolding defaults_1_def by (intro list_all_appendI list_all_ifI defaults_axim_texts defaults_abocom_texts defaults_zyxel_texts defaults_planet_texts defaults_white_texts defaults_prox_texts defaults_mymo_texts defaults_sony_texts defaults_allis_texts defaults_P_texts defaults_K_texts defaults_G_texts defaults_I_texts; (simp add: text_simps)?)

lemma defaults_2_texts: "texts_ok b \<Longrightarrow> list_all (text_ok b) (defaults_2 b)"
  unfolding defaults_2_def by (intro list_all_appendI list_all_ifI; simp add: text_simps)

lemma defaults_3_texts: "texts_ok b \<Longrightarrow> list_all (text_ok b) (defaults_3 b)"
  unfolding defaults_3_def by (intro list_all_appendI list_all_ifI; simp add: text_simps)

lemma defaults_4_texts: "texts_ok b \<Longrightarrow> list_all (text_ok b) (defaults_4 b)"
  unfolding defaults_4_def by (intro list_all_appendI list_all_ifI; simp add: text_simps)

lemma defaults_5_texts: "texts_ok b \<Longrightarrow> list_all (text_ok b) (defaults_5 b)"
  unfolding defaults_5_def by (intro list_all_appendI list_all_ifI; simp add: text_simps)

lemma defaults_6_texts: "texts_ok b \<Longrightarrow> list_all (text_ok b) (defaults_6 b)"
  unfolding defaults_6_def by (intro list_all_appendI list_all_ifI; simp add: text_simps)

lemma defaults_7_texts: "texts_ok b \<Longrightarrow> list_all (text_ok b) (defaults_7 b)"
  unfolding defaults_7_def by (intro list_all_appendI list_all_ifI rt305x_lan_num_1_texts rt305x_wan_num_1_texts rt305x_wan_num_2_texts as500_lan_num_1_texts as500_wan_num_1_texts as500_wan_num_2_texts as500_swap_texts as500_initd_texts; (simp add: text_simps)?)

lemma defaults_8_texts: "texts_ok b \<Longrightarrow> list_all (text_ok b) (defaults_8 b)"
  unfolding defaults_8_def by (intro list_all_appendI list_all_ifI; simp add: text_simps)

lemma defaults_9_texts: "texts_ok b \<Longrightarrow> list_all (text_ok b) (defaults_9 b)"
  unfolding defaults_9_def by (intro list_all_appendI list_all_ifI; simp add: text_simps)

lemma defaults_10_texts: "texts_ok b \<Longrightarrow> list_all (text_ok b) (defaults_10 b)"
  unfolding defaults_10_def by (intro list_all_appendI list_all_ifI; simp add: text_simps)

lemma defaults_12_texts: "texts_ok b \<Longrightarrow> list_all (text_ok b) (defaults_12 b)"
  unfolding defaults_12_def by (intro list_all_appendI list_all_ifI; simp add: text_simps)

lemma defaults_11_texts: "texts_ok b \<Longrightarrow> list_all (text_ok b) (defaults_11 b)"
  unfolding defaults_11_def by (intro list_all_appendI list_all_ifI defaults_12_texts; (simp add: text_simps)?)

lemma defaults_13_texts: "texts_ok b \<Longrightarrow> list_all (text_ok b) (defaults_13 b)"
  unfolding defaults_13_def by (intro list_all_appendI list_all_ifI; simp add: text_simps)

lemma defaults_14_texts: "texts_ok b \<Longrightarrow> list_all (text_ok b) (defaults_14 b)"
  unfolding defaults_14_def by (intro list_all_appendI list_all_ifI; simp add: text_simps)

lemma defaults_15_texts: "texts_ok b \<Longrightarrow> list_all (text_ok b) (defaults_15 b)"
  unfolding defaults_15_def by (intro list_all_appendI list_all_ifI; simp add: text_simps)

lemma defaults_16_texts: "texts_ok b \<Longrightarrow> list_all (text_ok b) (defaults_16 b)"
  unfolding defaults_16_def by (intro list_all_appendI list_all_ifI; simp add: text_simps)

lemma defaults_17_texts: "texts_ok b \<Longrightarrow> list_all (text_ok b) (defaults_17 b)"
  unfolding defaults_17_def by (intro list_all_appendI list_all_ifI; simp add: text_simps)

lemma defaults_18_texts: "texts_ok b \<Longrightarrow> list_all (text_ok b) (defaults_18 b)"
  unfolding defaults_18_def by (intro list_all_appendI list_all_ifI; simp add: text_simps)

lemma defaults_19_texts: "texts_ok b \<Longrightarrow> list_all (text_ok b) (defaults_19 b)"
  unfolding defaults_19_def by (intro list_all_appendI list_all_ifI; simp add: text_simps)

lemma defaults_20_texts: "texts_ok b \<Longrightarrow> list_all (text_ok b) (defaults_20 b)"
  unfolding defaults_20_def by (intro list_all_appendI list_all_ifI; simp add: text_simps)

lemma defaults_21_texts: "texts_ok b \<Longrightarrow> list_all (text_ok b) (defaults_21 b)"
  unfolding defaults_21_def by (intro list_all_appendI list_all_ifI; simp add: text_simps)

lemma defaults_22_texts: "texts_ok b \<Longrightarrow> list_all (text_ok b) (defaults_22 b)"
  unfolding defaults_22_def by (intro list_all_appendI list_all_ifI; simp add: text_simps)

lemma default_entries_texts: "texts_ok b \<Longrightarrow> list_all (text_ok b) (default_entries b)"
  unfolding default_entries_def by (intro list_all_appendI defaults_1_texts defaults_2_texts defaults_3_texts defaults_4_texts defaults_5_texts defaults_6_texts defaults_7_texts defaults_8_texts defaults_9_texts defaults_10_texts defaults_11_texts defaults_13_texts defaults_14_texts defaults_15_texts defaults_16_texts defaults_17_texts defaults_18_texts defaults_19_texts defaults_20_texts defaults_21_texts defaults_22_texts; (simp add: text_simps)?)

lemma default_entries_text: "texts_ok b \<Longrightarrow> e \<in> set (default_entries b) \<Longrightarrow> CHR 0x00 \<notin> set (entry_text b e)"
  using default_entries_texts [of b] by (simp add: list_all_iff text_ok_def)

lemma default_tuple_sel [simp]:
  "tup_name (default_tuple b e) = entry_name e" "tup_value (default_tuple b e) = Some (entry_text b e)"
  "tup_option (default_tuple b e) = entry_option e"
  by (simp_all add: default_tuple_def entry_text_def)

lemma default_table_names: "map tup_name (default_table b) = names (default_entries b)"
  by (simp add: default_table_def)

end
