(* ===== verification/Default_First.thy ===== *)
theory Default_First
  imports Default_Texts Boot_Props
begin

text \<open>
  The first boot of a product: what \<^verbatim>\<open>nvram_boot\<close> makes of the table of defaults when the store is empty.
\<close>

lemma default_row_ok:
  assumes "texts_ok b" and lim: "\<forall>e \<in> set (default_entries b). length (entry_text b e) \<le> lim (entry_name e)"
      "\<forall>e \<in> set copying_entries. lim (entry_name e @ ''_default'') \<le> lim (entry_name e)"
    and e: "e \<in> set (default_entries b)"
  shows "tuple_ok (set (names (default_entries b))) (\<lambda>n x. length x \<le> lim n) (default_tuple b e)"
proof -
  have "entry_name e \<in> set (names (default_entries b))"
    using e by simp
  then have "good_name (entry_name e)" "length (entry_name e) < 56"
    using default_name_ok by (auto simp: name_ok_def)
  moreover have "lim (entry_name e @ ''_default'') \<le> lim (entry_name e)" if "has_option (entry_option e) NVRAM_DEFAULT"
    using that lim(2) default_entries_option [OF e] by (simp add: option_ok_def)
  ultimately show ?thesis
    using e lim(1) default_entries_text [OF assms(1) e] by (auto simp: tuple_ok_def)
qed

section \<open>What a first boot stores\<close>

text \<open>The value that the first boot gives a variable, empty when it leaves the variable unset.\<close>

definition first_value :: "build \<Rightarrow> default_row \<Rightarrow> string" where
  "first_value b e =
     (if has_option (entry_option e) NVRAM_EMPTY then []
      else if has_option (entry_option e) NVRAM_DEFAULT then
        (case find (\<lambda>d. entry_name d = entry_name e @ ''_default'') (default_entries b) of
           None \<Rightarrow> [] | Some d \<Rightarrow> entry_text b d)
      else entry_text b e)"

lemma find_distinct: "distinct (names es) \<Longrightarrow> d \<in> set es \<Longrightarrow> find (\<lambda>x. entry_name x = entry_name d) es = Some d"
  by (induction es) (auto simp: image_iff)

lemma fold_boot_at:
  assumes "distinct (map tup_name (as @ v # bs))"
  shows "fold boot_entry (as @ v # bs) m (tup_name v) = boot_entry v (fold boot_entry as m) (tup_name v)"
    and "fold boot_entry as m (tup_name v) = m (tup_name v)"
  using assms by (simp_all add: fold_boot_other)

lemma fold_boot_prefix:
  "x \<notin> tup_name ` set bs \<Longrightarrow> fold boot_entry (as @ bs) m x = fold boot_entry as m x"
  by (simp add: fold_boot_other)

lemma copied_entry:
  assumes e: "e \<in> set (default_entries b)" "has_option (entry_option e) NVRAM_DEFAULT" and "branded b"
  shows "\<exists>as bs d. default_entries b = as @ e # bs \<and> d \<in> set as \<and> entry_name d = entry_name e @ ''_default'' \<and>
    d \<in> set (default_entries b) \<and> \<not> has_option (entry_option d) NVRAM_EMPTY \<and>
    \<not> has_option (entry_option d) NVRAM_DEFAULT"
proof -
  have c: "e \<in> set copying_entries"
    using e default_entries_option by (simp add: option_ok_def)
  then obtain as bs d where s: "default_entries b = as @ e # bs" "d \<in> set as"
      "entry_name d = entry_name e @ ''_default''"
    using copying_precedes [OF c \<open>branded b\<close>] precedes_split by blast
  moreover from s have d: "d \<in> set (default_entries b)"
    by simp
  moreover have "d \<notin> set copying_entries"
    using s(3) c by (auto simp: copying_entries_def)
  moreover have "entry_name d \<in> (\<lambda>d. entry_name d @ ''_default'') ` set copying_entries"
    using s(3) c by (intro image_eqI [of _ _ e])
  ultimately show ?thesis
    using default_entries_option [OF d] unfolding option_ok_def by blast
qed

lemma norm_val_twice [simp]: "norm_val (norm_val v) = norm_val v"
  by (simp add: norm_val_def)

lemma first_boot_entry:
  assumes dist: "distinct (names (default_entries b))" and "branded b" and e: "e \<in> set (default_entries b)"
  shows "fold boot_entry (default_table b) Map.empty (entry_name e) = norm_val (Some (first_value b e))"
proof -
  have d': "distinct (map tup_name (default_table b))"
    using dist by (simp only: default_table_names)
  have in_table: "default_tuple b x \<in> set (default_table b)" if "x \<in> set (default_entries b)" for x
    using that by (simp add: default_table_def)
  have own: "fold boot_entry (default_table b) Map.empty (entry_name d) = norm_val (Some (entry_text b d))"
    if "d \<in> set (default_entries b)" "\<not> has_option (entry_option d) NVRAM_EMPTY"
      "\<not> has_option (entry_option d) NVRAM_DEFAULT" for d
    using fold_boot_fills [OF d' in_table, of d Map.empty] that by (simp add: empty_value_def)
  show ?thesis
  proof (cases "has_option (entry_option e) NVRAM_DEFAULT")
    case True
    then obtain as bs d where s: "default_entries b = as @ e # bs" "d \<in> set as"
        "entry_name d = entry_name e @ ''_default''" and d: "d \<in> set (default_entries b)"
        "\<not> has_option (entry_option d) NVRAM_EMPTY" "\<not> has_option (entry_option d) NVRAM_DEFAULT"
      using copied_entry [OF e _ \<open>branded b\<close>] by blast
    have "\<not> has_option (entry_option e) NVRAM_EMPTY"
      using True default_entries_option [OF e] by (auto simp: option_ok_def copying_entries_def nvram_option_defs)
    have table: "default_table b = map (default_tuple b) as @ default_tuple b e # map (default_tuple b) bs"
      by (simp add: default_table_def s(1))
    have "set (names as) \<inter> set (names (e # bs)) = {}"
      using dist unfolding s(1) map_append distinct_append by blast
    moreover have "entry_name d \<in> set (names as)"
      using s(2) by simp
    ultimately have "entry_name d \<notin> set (names (e # bs))"
      by blast
    then have "entry_name d \<notin> tup_name ` set (default_tuple b e # map (default_tuple b) bs)"
      by (simp add: image_image)
    then have "fold boot_entry (map (default_tuple b) as) Map.empty (entry_name d) =
        fold boot_entry (default_table b) Map.empty (entry_name d)"
      unfolding table by (rule fold_boot_prefix [symmetric])
    moreover have "find (\<lambda>x. entry_name x = entry_name e @ ''_default'') (default_entries b) = Some d"
      using find_distinct [OF dist d(1)] s(3) by simp
    ultimately show ?thesis
      using fold_boot_at [OF d' [unfolded table], of Map.empty] own [OF d] True s(3)
        \<open>\<not> has_option (entry_option e) NVRAM_EMPTY\<close>
      by (simp add: first_value_def boot_entry_def Let_def empty_value_def table)
  next
    case False
    show ?thesis
    proof (cases "has_option (entry_option e) NVRAM_EMPTY")
      case True
      then have "fold boot_entry (default_table b) Map.empty (entry_name e) = None"
        using fold_own_entry [OF d' in_table [OF e], of boot_entry Map.empty] boot_entry_other
        by (auto simp: boot_entry_def Let_def empty_value_def)
      then show ?thesis
        using True by (simp add: first_value_def)
    next
      case no_empty: False
      then show ?thesis
        using own [OF e] False by (simp add: first_value_def)
    qed
  qed
qed

end
