(* ===== verification/Default_Demo.thy ===== *)
theory Default_Demo
  imports Default_First
begin

text \<open>
  A product at which the theorem of the first boot is applied: brand and architecture, texts of one character, and
  room for the table in the store.
\<close>

definition demo_product_build :: build where
  "demo_product_build =
     demo_build\<lparr>defined := (\<lambda>m. m = EZP_PROD_BRAND_AXIM \<or> m = CONFIG_EZP_ARCH_RT305X)\<rparr>"

lemma demo_product_build_sel [simp]:
  "defined demo_product_build m \<longleftrightarrow> m = EZP_PROD_BRAND_AXIM \<or> m = CONFIG_EZP_ARCH_RT305X"
  "WAN_NUM demo_product_build = 1" "LAN_NUM demo_product_build = 1" "WL_NUM demo_product_build = 1"
  "EZP_PROD_VERSION demo_product_build = ''3.0.7''" "CUSTOM_PROD_VERSION demo_product_build = ''1.0''"
  "EZP_MODEL demo_product_build = ''X116NX''" "xstr demo_product_build m' = ''0''"
  by (simp_all add: demo_product_build_def demo_build_def)

definition long_texts :: "string list" where
  "long_texts =
     [''snmp_rule'', ''bw_group_rule'', ''wf_rule'', ''ntp_rule'', ''smbd_rule'', ''camera_rule'',
      ''bt_rule'', ''itunes_rule'', ''storage_used_state_rule'', ''cgi_progress'', ''log_rule'',
      ''fl_hwaddr_rule'', ''wl1_wds_basic_rule'', ''auth_server_rule'', ''vnc_rule'', ''l2tpd_rule'',
      ''pptpd_rule'', ''portcfg_rule'', ''st_defpath_rule'', ''upnpc_setting_rule'', ''upnpc_status_rule'']"

definition text_limit :: "string \<Rightarrow> nat" where
  "text_limit n = (if n \<in> set long_texts then 170 else 28)"

definition text_fits :: "default_row \<Rightarrow> bool" where
  "text_fits e \<longleftrightarrow> length (entry_text demo_product_build e) \<le> text_limit (entry_name e)"

lemma text_limits: "28 \<le> text_limit n" "text_limit n \<le> 170"
  by (simp_all add: text_limit_def)

lemma long_text: "n \<in> set long_texts \<Longrightarrow> text_limit n = 170"
  by (simp add: text_limit_def)

lemma digit_text: "nat_to_dec 1 = ''1''" "nat_to_dec (Suc 0) = ''1''"
  by code_simp+

lemma text_fits_entries [simp]:
  "length v \<le> 28 \<Longrightarrow> text_fits (dv n v opts)"
  "text_fits (dm n m opts)"
  "length (concat (map (piece_text demo_product_build) ps)) \<le> 28 \<Longrightarrow> text_fits (de n ps opts)"
  using text_limits(1) [of n] by (simp_all add: text_fits_def entry_text_def)

lemma text_fits_long:
  "n \<in> set long_texts \<Longrightarrow> length v \<le> 170 \<Longrightarrow> text_fits (dv n v opts)"
  "n \<in> set long_texts \<Longrightarrow> length (concat (map (piece_text demo_product_build) ps)) \<le> 170 \<Longrightarrow> text_fits (de n ps opts)"
  using long_text by (simp_all add: text_fits_def entry_text_def)

lemmas fit_simps = text_fits_long long_texts_def digit_text

lemma defaults_axim_fit: "list_all text_fits (defaults_axim demo_product_build)"
  unfolding defaults_axim_def by (simp add: fit_simps)

lemma defaults_abocom_fit: "list_all text_fits (defaults_abocom demo_product_build)"
  unfolding defaults_abocom_def by (simp add: fit_simps)

lemma defaults_zyxel_fit: "list_all text_fits (defaults_zyxel demo_product_build)"
  unfolding defaults_zyxel_def by (intro list_all_appendI list_all_ifI; simp add: fit_simps)

lemma defaults_planet_fit: "list_all text_fits (defaults_planet demo_product_build)"
  unfolding defaults_planet_def by (simp add: fit_simps)

lemma defaults_white_fit: "list_all text_fits (defaults_white demo_product_build)"
  unfolding defaults_white_def by (simp add: fit_simps)

lemma defaults_prox_fit: "list_all text_fits (defaults_prox demo_product_build)"
  unfolding defaults_prox_def by (intro list_all_appendI list_all_ifI; simp add: fit_simps)

lemma defaults_mymo_fit: "list_all text_fits (defaults_mymo demo_product_build)"
  unfolding defaults_mymo_def by (simp add: fit_simps)

lemma defaults_sony_fit: "list_all text_fits (defaults_sony demo_product_build)"
  unfolding defaults_sony_def by (simp add: fit_simps)

lemma defaults_allis_fit: "list_all text_fits (defaults_allis demo_product_build)"
  unfolding defaults_allis_def by (simp add: fit_simps)

lemma defaults_P_fit: "list_all text_fits (defaults_P demo_product_build)"
  unfolding defaults_P_def by (intro list_all_appendI list_all_ifI; simp add: fit_simps)

lemma defaults_K_fit: "list_all text_fits (defaults_K demo_product_build)"
  unfolding defaults_K_def by (intro list_all_appendI list_all_ifI; simp add: fit_simps)

lemma defaults_G_fit: "list_all text_fits (defaults_G demo_product_build)"
  unfolding defaults_G_def by (intro list_all_appendI list_all_ifI; simp add: fit_simps)

lemma defaults_I_fit: "list_all text_fits (defaults_I demo_product_build)"
  unfolding defaults_I_def by (intro list_all_appendI list_all_ifI; simp add: fit_simps)

lemma rt305x_lan_num_1_fit: "list_all text_fits rt305x_lan_num_1"
  unfolding rt305x_lan_num_1_def by (simp add: fit_simps)

lemma rt305x_wan_num_1_fit: "list_all text_fits rt305x_wan_num_1"
  unfolding rt305x_wan_num_1_def by (simp add: fit_simps)

lemma rt305x_wan_num_2_fit: "list_all text_fits rt305x_wan_num_2"
  unfolding rt305x_wan_num_2_def by (simp add: fit_simps)

lemma as500_lan_num_1_fit: "list_all text_fits as500_lan_num_1"
  unfolding as500_lan_num_1_def by (simp add: fit_simps)

lemma as500_wan_num_1_fit: "list_all text_fits as500_wan_num_1"
  unfolding as500_wan_num_1_def by (simp add: fit_simps)

lemma as500_wan_num_2_fit: "list_all text_fits as500_wan_num_2"
  unfolding as500_wan_num_2_def by (simp add: fit_simps)

lemma as500_swap_fit: "list_all text_fits as500_swap"
  unfolding as500_swap_def by (simp add: fit_simps)

lemma as500_initd_fit: "list_all text_fits as500_initd"
  unfolding as500_initd_def by (simp add: fit_simps)

lemma defaults_1_fit: "list_all text_fits (defaults_1 demo_product_build)"
  unfolding defaults_1_def by (intro list_all_appendI list_all_ifI defaults_axim_fit defaults_abocom_fit defaults_zyxel_fit defaults_planet_fit defaults_white_fit defaults_prox_fit defaults_mymo_fit defaults_sony_fit defaults_allis_fit defaults_P_fit defaults_K_fit defaults_G_fit defaults_I_fit; (simp add: fit_simps)?)

lemma defaults_2_fit: "list_all text_fits (defaults_2 demo_product_build)"
  unfolding defaults_2_def by (intro list_all_appendI list_all_ifI; simp add: fit_simps)

lemma defaults_3_fit: "list_all text_fits (defaults_3 demo_product_build)"
  unfolding defaults_3_def by (intro list_all_appendI list_all_ifI; simp add: fit_simps)

lemma defaults_4_fit: "list_all text_fits (defaults_4 demo_product_build)"
  unfolding defaults_4_def by (intro list_all_appendI list_all_ifI; simp add: fit_simps)

lemma defaults_5_fit: "list_all text_fits (defaults_5 demo_product_build)"
  unfolding defaults_5_def by (intro list_all_appendI list_all_ifI; simp add: fit_simps)

lemma defaults_6_fit: "list_all text_fits (defaults_6 demo_product_build)"
  unfolding defaults_6_def by (intro list_all_appendI list_all_ifI; simp add: fit_simps)

lemma defaults_7_fit: "list_all text_fits (defaults_7 demo_product_build)"
  unfolding defaults_7_def by (intro list_all_appendI list_all_ifI rt305x_lan_num_1_fit rt305x_wan_num_1_fit rt305x_wan_num_2_fit as500_lan_num_1_fit as500_wan_num_1_fit as500_wan_num_2_fit as500_swap_fit as500_initd_fit; (simp add: fit_simps)?)

lemma defaults_8_fit: "list_all text_fits (defaults_8 demo_product_build)"
  unfolding defaults_8_def by (intro list_all_appendI list_all_ifI; simp add: fit_simps)

lemma defaults_9_fit: "list_all text_fits (defaults_9 demo_product_build)"
  unfolding defaults_9_def by (intro list_all_appendI list_all_ifI; simp add: fit_simps)

lemma defaults_10_fit: "list_all text_fits (defaults_10 demo_product_build)"
  unfolding defaults_10_def by (intro list_all_appendI list_all_ifI; simp add: fit_simps)

lemma defaults_12_fit: "list_all text_fits (defaults_12 demo_product_build)"
  unfolding defaults_12_def by (intro list_all_appendI list_all_ifI; simp add: fit_simps)

lemma defaults_11_fit: "list_all text_fits (defaults_11 demo_product_build)"
  unfolding defaults_11_def by (intro list_all_appendI list_all_ifI defaults_12_fit; (simp add: fit_simps)?)

lemma defaults_13_fit: "list_all text_fits (defaults_13 demo_product_build)"
  unfolding defaults_13_def by (intro list_all_appendI list_all_ifI; simp add: fit_simps)

lemma defaults_14_fit: "list_all text_fits (defaults_14 demo_product_build)"
  unfolding defaults_14_def by (intro list_all_appendI list_all_ifI; simp add: fit_simps)

lemma defaults_15_fit: "list_all text_fits (defaults_15 demo_product_build)"
  unfolding defaults_15_def by (intro list_all_appendI list_all_ifI; simp add: fit_simps)

lemma defaults_16_fit: "list_all text_fits (defaults_16 demo_product_build)"
  unfolding defaults_16_def by (intro list_all_appendI list_all_ifI; simp add: fit_simps)

lemma defaults_17_fit: "list_all text_fits (defaults_17 demo_product_build)"
  unfolding defaults_17_def by (intro list_all_appendI list_all_ifI; simp add: fit_simps)

lemma defaults_18_fit: "list_all text_fits (defaults_18 demo_product_build)"
  unfolding defaults_18_def by (intro list_all_appendI list_all_ifI; simp add: fit_simps)

lemma defaults_19_fit: "list_all text_fits (defaults_19 demo_product_build)"
  unfolding defaults_19_def by (intro list_all_appendI list_all_ifI; simp add: fit_simps)

lemma defaults_20_fit: "list_all text_fits (defaults_20 demo_product_build)"
  unfolding defaults_20_def by (intro list_all_appendI list_all_ifI; simp add: fit_simps)

lemma defaults_21_fit: "list_all text_fits (defaults_21 demo_product_build)"
  unfolding defaults_21_def by (intro list_all_appendI list_all_ifI; simp add: fit_simps)

lemma defaults_22_fit: "list_all text_fits (defaults_22 demo_product_build)"
  unfolding defaults_22_def by (intro list_all_appendI list_all_ifI; simp add: fit_simps)

lemma default_entries_fit: "list_all text_fits (default_entries demo_product_build)"
  unfolding default_entries_def by (intro list_all_appendI defaults_1_fit defaults_2_fit defaults_3_fit defaults_4_fit defaults_5_fit defaults_6_fit defaults_7_fit defaults_8_fit defaults_9_fit defaults_10_fit defaults_11_fit defaults_13_fit defaults_14_fit defaults_15_fit defaults_16_fit defaults_17_fit defaults_18_fit defaults_19_fit defaults_20_fit defaults_21_fit defaults_22_fit; (simp add: fit_simps)?)

lemma default_entries_fits: "e \<in> set (default_entries demo_product_build) \<Longrightarrow> text_fits e"
  using default_entries_fit by (simp add: list_all_iff)

section \<open>Room for the table\<close>

lemma name_lengths:
  "sum_list (map length defaults_P_names) = 84"
  "sum_list (map length defaults_K_names) = 84"
  "sum_list (map length defaults_G_names) = 236"
  "sum_list (map length defaults_I_names) = 236"
  "sum_list (map length rt305x_lan_num_1_names) = 21"
  "sum_list (map length rt305x_wan_num_1_names) = 21"
  "sum_list (map length rt305x_wan_num_2_names) = 21"
  "sum_list (map length as500_lan_num_1_names) = 21"
  "sum_list (map length as500_wan_num_1_names) = 21"
  "sum_list (map length as500_wan_num_2_names) = 21"
  "sum_list (map length as500_swap_names) = 12"
  "sum_list (map length as500_initd_names) = 10"
  "sum_list (map length defaults_12_names) = 142"
  "sum_list (map length defaults_1_names) = 752"
  "sum_list (map length defaults_2_names) = 292"
  "sum_list (map length defaults_3_names) = 275"
  "sum_list (map length defaults_4_names) = 288"
  "sum_list (map length defaults_5_names) = 350"
  "sum_list (map length defaults_6_names) = 340"
  "sum_list (map length defaults_7_names) = 385"
  "sum_list (map length defaults_8_names) = 263"
  "sum_list (map length defaults_9_names) = 277"
  "sum_list (map length defaults_10_names) = 206"
  "sum_list (map length defaults_11_names) = 284"
  "sum_list (map length defaults_13_names) = 246"
  "sum_list (map length defaults_14_names) = 261"
  "sum_list (map length defaults_15_names) = 374"
  "sum_list (map length defaults_16_names) = 446"
  "sum_list (map length defaults_17_names) = 507"
  "sum_list (map length defaults_18_names) = 198"
  "sum_list (map length defaults_19_names) = 329"
  "sum_list (map length defaults_20_names) = 284"
  "sum_list (map length defaults_21_names) = 330"
  "sum_list (map length defaults_22_names) = 262"
  by (simp_all add: defaults_P_names_def defaults_K_names_def defaults_G_names_def
      defaults_I_names_def rt305x_lan_num_1_names_def rt305x_wan_num_1_names_def
      rt305x_wan_num_2_names_def as500_lan_num_1_names_def as500_wan_num_1_names_def
      as500_wan_num_2_names_def as500_swap_names_def as500_initd_names_def
      defaults_12_names_def defaults_1_names_def defaults_2_names_def
      defaults_3_names_def defaults_4_names_def defaults_5_names_def
      defaults_6_names_def defaults_7_names_def defaults_8_names_def
      defaults_9_names_def defaults_10_names_def defaults_11_names_def
      defaults_13_names_def defaults_14_names_def defaults_15_names_def
      defaults_16_names_def defaults_17_names_def defaults_18_names_def
      defaults_19_names_def defaults_20_names_def defaults_21_names_def
      defaults_22_names_def)

lemma name_counts:
  "length defaults_P_names = 7"
  "length defaults_K_names = 7"
  "length defaults_G_names = 19"
  "length defaults_I_names = 19"
  "length rt305x_lan_num_1_names = 2"
  "length rt305x_wan_num_1_names = 2"
  "length rt305x_wan_num_2_names = 2"
  "length as500_lan_num_1_names = 2"
  "length as500_wan_num_1_names = 2"
  "length as500_wan_num_2_names = 2"
  "length as500_swap_names = 1"
  "length as500_initd_names = 1"
  "length defaults_12_names = 8"
  "length defaults_1_names = 63"
  "length defaults_2_names = 25"
  "length defaults_3_names = 24"
  "length defaults_4_names = 25"
  "length defaults_5_names = 23"
  "length defaults_6_names = 20"
  "length defaults_7_names = 35"
  "length defaults_8_names = 21"
  "length defaults_9_names = 23"
  "length defaults_10_names = 18"
  "length defaults_11_names = 20"
  "length defaults_13_names = 20"
  "length defaults_14_names = 21"
  "length defaults_15_names = 26"
  "length defaults_16_names = 28"
  "length defaults_17_names = 26"
  "length defaults_18_names = 18"
  "length defaults_19_names = 24"
  "length defaults_20_names = 20"
  "length defaults_21_names = 22"
  "length defaults_22_names = 15"
  by (simp_all add: defaults_P_names_def defaults_K_names_def defaults_G_names_def
      defaults_I_names_def rt305x_lan_num_1_names_def rt305x_wan_num_1_names_def
      rt305x_wan_num_2_names_def as500_lan_num_1_names_def as500_wan_num_1_names_def
      as500_wan_num_2_names_def as500_swap_names_def as500_initd_names_def
      defaults_12_names_def defaults_1_names_def defaults_2_names_def
      defaults_3_names_def defaults_4_names_def defaults_5_names_def
      defaults_6_names_def defaults_7_names_def defaults_8_names_def
      defaults_9_names_def defaults_10_names_def defaults_11_names_def
      defaults_13_names_def defaults_14_names_def defaults_15_names_def
      defaults_16_names_def defaults_17_names_def defaults_18_names_def
      defaults_19_names_def defaults_20_names_def defaults_21_names_def
      defaults_22_names_def)

lemma table_names_size: "sum_list (map length default_entries_names) = 6949" "length default_entries_names = 517"
  by (simp_all add: default_entries_names_def name_lengths name_counts)

lemma sum_set_le: "(\<Sum>x \<in> set xs. f x) \<le> sum_list (map f xs)" for f :: "'a \<Rightarrow> nat"
  by (induction xs) (auto simp: sum.insert_if intro: le_trans)

lemma table_names_subset: "set (names (default_entries b)) \<subseteq> set default_entries_names"
  by (rule subsetI, rule list_emb_set [OF default_entries_sub]) auto

lemma limit_sum: "(\<Sum>n \<in> set default_entries_names. text_limit n) \<le> 28 * 517 + 21 * 142"
proof -
  have "text_limit n = 28 + (if n \<in> set long_texts then 142 else 0)" for n
    by (simp add: text_limit_def)
  then have "(\<Sum>n \<in> set default_entries_names. text_limit n) =
      28 * card (set default_entries_names) + (\<Sum>n \<in> set default_entries_names \<inter> set long_texts. 142)"
    by (simp only: sum.distrib sum.inter_restrict [OF finite_set]) simp
  moreover have "card (set default_entries_names) \<le> 517"
    using card_length [of default_entries_names] by (simp add: table_names_size)
  moreover have "card (set default_entries_names \<inter> set long_texts) \<le> card (set long_texts)"
    by (intro card_mono) auto
  moreover have "card (set long_texts) \<le> 21"
    using card_length [of long_texts] by (simp add: long_texts_def)
  ultimately show ?thesis
    by simp
qed

lemma table_room: "kcap (set (names (default_entries b))) text_limit Map.empty"
proof -
  let ?A = "set default_entries_names" and ?N = "set (names (default_entries b))"
  have sub: "(\<Sum>n \<in> ?N. f n) \<le> (\<Sum>n \<in> ?A. f n)" for f :: "string \<Rightarrow> nat"
    by (rule sum_mono2 [OF finite_set table_names_subset]) simp
  have len: "(\<Sum>n \<in> ?A. length n) \<le> 6949"
    using sum_set_le [of length default_entries_names] by (simp add: table_names_size)
  have one: "(\<Sum>n \<in> ?A. Suc 0) \<le> 517"
    using card_length [of default_entries_names] by (simp add: table_names_size)
  have "(\<Sum>n \<in> ?A. length n + text_limit n + 2) \<le> IMAGE_ROOM"
    using len one limit_sum unfolding sum.distrib by (simp add: IMAGE_ROOM_def)
  then have image: "(\<Sum>n \<in> ?N. length n + text_limit n + 2) \<le> IMAGE_ROOM"
    by (rule le_trans [OF sub])
  have "(\<Sum>n \<in> ?A. text_limit n + 1) + text_limit n + 1 \<le> NVRAM_SPACE" for n
    using one limit_sum text_limits(2) [of n] unfolding sum.distrib by (simp add: NVRAM_SPACE_def)
  then have buffer: "(\<Sum>n \<in> ?N. text_limit n + 1) + text_limit n + 1 \<le> NVRAM_SPACE" for n
    using sub [of "\<lambda>n. text_limit n + 1"] by (meson add_le_mono1 le_trans)
  show ?thesis
    unfolding kcap_def using image buffer by (intro conjI ballI) simp_all
qed

section \<open>Some values after the first boot\<close>

lemma find_entry:
  assumes "\<not> defined b CONFIG_EZP_ARCH_AS500"
    and "\<not> (defined b CONFIG_EZP_ARCH_RT305X \<and> 1 \<le> LAN_NUM b \<and> WAN_NUM b = 2)"
    and "e \<in> set (default_entries b)" and "entry_name e = n"
  shows "find (\<lambda>x. entry_name x = n) (default_entries b) = Some e"
  using assms default_names_distinct_iff [of b] find_distinct [of "default_entries b" e] by blast

lemma part_entries:
  "e \<in> set (defaults_1 b) \<Longrightarrow> e \<in> set (default_entries b)" "e \<in> set (defaults_19 b) \<Longrightarrow> e \<in> set (default_entries b)"
  "e \<in> set (defaults_9 b) \<Longrightarrow> e \<in> set (default_entries b)"
  by (simp_all add: default_entries_def)

lemma demo_entries:
  "de ''fw_version'' [Lit ''3.0.7''] NVRAM_PROTECTED \<in> set (default_entries demo_product_build)"
  "dv ''lang_default'' ''EN'' (NVRAM_PROTECTED OR NVRAM_CUSTOMIZED) \<in> set (default_entries demo_product_build)"
  "dv ''lang'' [] NVRAM_DEFAULT \<in> set (default_entries demo_product_build)"
  "dv ''wf_enable'' ''0'' NVRAM_EMPTY \<in> set (default_entries demo_product_build)"
proof -
  show "de ''fw_version'' [Lit ''3.0.7''] NVRAM_PROTECTED \<in> set (default_entries demo_product_build)"
    by (rule part_entries(1)) (simp add: defaults_1_def)
  show "dv ''lang_default'' ''EN'' (NVRAM_PROTECTED OR NVRAM_CUSTOMIZED) \<in> set (default_entries demo_product_build)"
    by (rule part_entries(1)) (simp add: defaults_1_def defaults_axim_def)
  show "dv ''lang'' [] NVRAM_DEFAULT \<in> set (default_entries demo_product_build)"
    by (rule part_entries(2)) (simp add: defaults_19_def)
  show "dv ''wf_enable'' ''0'' NVRAM_EMPTY \<in> set (default_entries demo_product_build)"
    by (rule part_entries(3)) (simp add: defaults_9_def)
qed

lemma demo_find_entry:
  "e \<in> set (default_entries demo_product_build) \<Longrightarrow> entry_name e = n \<Longrightarrow>
     find (\<lambda>x. entry_name x = n) (default_entries demo_product_build) = Some e"
  by (rule find_entry) simp_all

lemma demo_values:
  "find (\<lambda>e. entry_name e = ''fw_version'') (default_entries demo_product_build) =
     Some (de ''fw_version'' [Lit ''3.0.7''] NVRAM_PROTECTED)"
  "find (\<lambda>e. entry_name e = ''lang_default'') (default_entries demo_product_build) =
     Some (dv ''lang_default'' ''EN'' (NVRAM_PROTECTED OR NVRAM_CUSTOMIZED))"
  "find (\<lambda>e. entry_name e = ''lang'') (default_entries demo_product_build) = Some (dv ''lang'' [] NVRAM_DEFAULT)"
  "find (\<lambda>e. entry_name e = ''wf_enable'') (default_entries demo_product_build) = Some (dv ''wf_enable'' ''0'' NVRAM_EMPTY)"
  by (rule demo_find_entry, rule demo_entries, simp)+

lemma demo_empty_driver: "\<exists>d :: 'm driver. dinv d \<and> dabs d = Map.empty"
  by (intro exI [of _ "\<lparr>kst = empty_kstate, nvram_mtd = None, nvram_backup_mtd = None\<rparr>"]) (simp add: kinv_empty)

end
