(* ===== verification/Default_Rules.thy ===== *)
theory Default_Rules
  imports Default_Boot Rule_Tables Ezp_Lib
begin

text \<open>
  The rules among the defaults: how many attributes the tables of \<^verbatim>\<open>ezp-lib.c\<close> give the rules of each rule set, and
  that the defaults written out in \<^verbatim>\<open>nvram_data.h\<close> have as many.
\<close>

section \<open>The number of attributes of each rule set\<close>

definition attr_count :: "attr list \<Rightarrow> nat" where
  "attr_count as = length (filter (\<lambda>a. attr_name a \<noteq> None) as)"

lemma attr_count_simps [simp]:
  "attr_count [] = 0" "attr_count (attr_entry n f g # as) = Suc (attr_count as)" "attr_count (attr_null # as) = attr_count as"
  by (simp_all add: attr_count_def)

lemma attr_counts:
  "attr_count WISP_dtct_captive_portal_rule_attr = 2"
  "attr_count adtool_rule_attr = 9"
  "attr_count alert_attr = 5"
  "attr_count als_battery_rule_attr = 1"
  "attr_count als_operating_data_packing_rule_attr = 2"
  "attr_count als_operating_option_rule_attr = 14"
  "attr_count als_operating_rule_attr = 5"
  "attr_count als_serial_rule_attr = 8"
  "attr_count als_status_rule_attr = 8"
  "attr_count app_enable_rule_attr = 3"
  "attr_count appmgr_rule_attr = 20"
  "attr_count auth_server_rule_attr = 18"
  "attr_count auth_user_rule_attr = 3"
  "attr_count aximddns_rule_attr = 5"
  "attr_count aximddns_tmp_rule_attr = 4"
  "attr_count br_rule_attr = 4"
  "attr_count bt_rule_attr = 13"
  "attr_count bw_dbm_rule_attr = 6"
  "attr_count camera_rule_attr = 8"
  "attr_count captive_rule_attr = 2"
  "attr_count card_reader_hardware_rule_attr = 3"
  "attr_count cgi_progress_attr = 8"
  "attr_count cnnt_rule_attr = 5"
  "attr_count countdown_rule_attr = 6"
  "attr_count cron_rule_attr = 7"
  "attr_count drive_rule_attr = 7"
  "attr_count failover_attr = 3"
  "attr_count file_mode_attr = 6"
  "attr_count fl_hwaddr_rule_attr = 7"
  "attr_count fl_rule_attr = 17"
  "attr_count fr_dmz_rule_attr = 3"
  "attr_count fr_rule_attr = 9"
  "attr_count ftpd_rule_attr = 11"
  "attr_count ftpd_user_rule_attr = 6"
  "attr_count fw_rule_attr = 7"
  "attr_count gmn_filter_rule_attr = 4"
  "attr_count gmn_mcast_rule_attr = 4"
  "attr_count gmn_nat_rule_attr = 4"
  "attr_count gpiodef_rule_attr = 5"
  "attr_count guest_lan_rule_attr = 3"
  "attr_count http_redirect_rule_attr = 1"
  "attr_count http_rule_attr = 6"
  "attr_count igmp_proxy_rule_attr = 1"
  "attr_count ipsec_status_rule_attr = 2"
  "attr_count is_rule_attr = 7"
  "attr_count ishost_rule_attr = 3"
  "attr_count isuser_rule_attr = 3"
  "attr_count itunes_rule_attr = 8"
  "attr_count l2tpd_rule_attr = 14"
  "attr_count lan_dhcps_rule_attr = 12"
  "attr_count lan_hwaddr_clone_rule_attr = 2"
  "attr_count lan_hwaddr_rule_default_attr = 1"
  "attr_count lan_main_rule_attr = 5"
  "attr_count lan_static_rule_attr = 5"
  "attr_count led_rule_attr = 2"
  "attr_count license_status_rule_attr = 2"
  "attr_count log_rule_attr = 19"
  "attr_count mac_sense_attr = 7"
  "attr_count mail_attr = 15"
  "attr_count mfg_test_result_rule_attr = 2"
  "attr_count model_name_attr = 1"
  "attr_count music_rule_attr = 1"
  "attr_count myqnapcloud_id_rule_attr = 12"
  "attr_count nat_pass_rule_attr = 7"
  "attr_count nat_rule_attr = 1"
  "attr_count ntp_rule_attr = 7"
  "attr_count plug_rule_attr = 3"
  "attr_count portcfg_rule_attr = 5"
  "attr_count ppp_control_rule_attr = 1"
  "attr_count pptpd_rule_attr = 19"
  "attr_count pptpd_user_rule_attr = 5"
  "attr_count relay_attr = 2"
  "attr_count relay_schedule_attr = 7"
  "attr_count rt_rule_attr = 14"
  "attr_count sched_rule_attr = 14"
  "attr_count serial_num_rule_attr = 1"
  "attr_count smbd_rule_attr = 14"
  "attr_count smbd_user_rule_attr = 3"
  "attr_count snmp_rule_attr = 10"
  "attr_count ssh_rule_attr = 3"
  "attr_count st_defpath_rule_attr = 3"
  "attr_count stats_rule_attr = 4"
  "attr_count storage_device_mount_rule_attr = 6"
  "attr_count storage_rule_attr = 9"
  "attr_count storage_state_rule_attr = 4"
  "attr_count storage_used_state_rule_attr = 5"
  "attr_count togo_rule_attr = 7"
  "attr_count tos_rule_attr = 7"
  "attr_count ttl_rule_attr = 3"
  "attr_count upnp_rule_attr = 6"
  "attr_count upnpc_setting_rule_attr = 5"
  "attr_count upnpc_status_rule_attr = 5"
  "attr_count user_rule_attr = 2"
  "attr_count vnc_allow_rule_attr = 1"
  "attr_count vnc_rule_attr = 8"
  "attr_count vs_rule_attr = 6"
  "attr_count wan_action_style_rule_attr = 2"
  "attr_count wan_apple_filter_rule_attr = 2"
  "attr_count wan_barry_rule_attr = 9"
  "attr_count wan_beceem_rule_attr = 3"
  "attr_count wan_bigpond_rule_attr = 4"
  "attr_count wan_bw_rule_attr = 12"
  "attr_count wan_ddns_rule_attr = 7"
  "attr_count wan_detect_rule_attr = 6"
  "attr_count wan_dhcp_rule_attr = 3"
  "attr_count wan_htc_rule_attr = 5"
  "attr_count wan_hwaddr_clone_rule_attr = 2"
  "attr_count wan_hwaddr_rule_default_attr = 1"
  "attr_count wan_iphone_rule_attr = 5"
  "attr_count wan_l2tp_status_rule_attr = 1"
  "attr_count wan_lb_rule_attr = 5"
  "attr_count wan_main_rule_attr = 5"
  "attr_count wan_opendns_rule_attr = 6"
  "attr_count wan_pppoe_rule_attr = 9"
  "attr_count wan_pptp_l2tp_global_rule_attr = 3"
  "attr_count wan_pptp_l2tp_rule_attr = 15"
  "attr_count wan_priority_rule_attr = 1"
  "attr_count wan_static_rule_attr = 6"
  "attr_count wan_upnp_status_rule_attr = 3"
  "attr_count wan_wimax_rule_attr = 2"
  "attr_count wan_wwan_probe_rule_attr = 16"
  "attr_count wan_wwan_rule_attr = 24"
  "attr_count wf_content_rule_attr = 3"
  "attr_count wf_rule_attr = 4"
  "attr_count wizard_rule_attr = 8"
  "attr_count wl0_wds_attr = 4"
  "attr_count wl_advanced_rule_attr = 31"
  "attr_count wl_apcli_sec_wep_rule_attr = 7"
  "attr_count wl_apcli_sec_wpa_rule_attr = 2"
  "attr_count wl_apcli_swap_basic_rule_attr = 3"
  "attr_count wl_apcli_swap_channel_rule_attr = 2"
  "attr_count wl_apcli_swap_sec_wep_rule_attr = 7"
  "attr_count wl_apcli_swap_sec_wpa_rule_attr = 2"
  "attr_count wl_basic_rule_attr = 5"
  "attr_count wl_wds_basic_rule_attr = 2"
  "attr_count wl_wds_rule_attr = 2"
  "attr_count wl_wds_sec_wep_rule_attr = 1"
  "attr_count wl_wds_sec_wpa_rule_attr = 2"
  "attr_count wl_wme_rule_attr = 10"
  "attr_count wl_wps_rule_attr = 4"
  "attr_count wl_wps_sta_rule_attr = 7"
  "attr_count wlv_acl_basic_rule_attr = 2"
  "attr_count wlv_acl_rule_attr = 4"
  "attr_count wlv_basic_rule_attr = 5"
  "attr_count wlv_ifname_rule_attr = 1"
  "attr_count wlv_sec_rule_attr = 1"
  "attr_count wlv_sec_wep_rule_attr = 7"
  "attr_count wlv_sec_wpa2_rule_attr = 12"
  "attr_count wlv_sec_wpa_rule_attr = 9"
  "attr_count wlv_ssid_rule_attr = 1"
  "attr_count wol_rule_attr = 6"
  "attr_count x_mode_data_attr = 2"
  by (simp_all add: WISP_dtct_captive_portal_rule_attr_def adtool_rule_attr_def alert_attr_def als_battery_rule_attr_def
      als_operating_data_packing_rule_attr_def als_operating_option_rule_attr_def als_operating_rule_attr_def als_serial_rule_attr_def
      als_status_rule_attr_def app_enable_rule_attr_def appmgr_rule_attr_def auth_server_rule_attr_def
      auth_user_rule_attr_def aximddns_rule_attr_def aximddns_tmp_rule_attr_def br_rule_attr_def
      bt_rule_attr_def bw_dbm_rule_attr_def camera_rule_attr_def captive_rule_attr_def
      card_reader_hardware_rule_attr_def cgi_progress_attr_def cnnt_rule_attr_def countdown_rule_attr_def
      cron_rule_attr_def drive_rule_attr_def failover_attr_def file_mode_attr_def
      fl_hwaddr_rule_attr_def fl_rule_attr_def fr_dmz_rule_attr_def fr_rule_attr_def
      ftpd_rule_attr_def ftpd_user_rule_attr_def fw_rule_attr_def gmn_filter_rule_attr_def
      gmn_mcast_rule_attr_def gmn_nat_rule_attr_def gpiodef_rule_attr_def guest_lan_rule_attr_def
      http_redirect_rule_attr_def http_rule_attr_def igmp_proxy_rule_attr_def ipsec_status_rule_attr_def
      is_rule_attr_def ishost_rule_attr_def isuser_rule_attr_def itunes_rule_attr_def
      l2tpd_rule_attr_def lan_dhcps_rule_attr_def lan_hwaddr_clone_rule_attr_def lan_hwaddr_rule_default_attr_def
      lan_main_rule_attr_def lan_static_rule_attr_def led_rule_attr_def license_status_rule_attr_def
      log_rule_attr_def mac_sense_attr_def mail_attr_def mfg_test_result_rule_attr_def
      model_name_attr_def music_rule_attr_def myqnapcloud_id_rule_attr_def nat_pass_rule_attr_def
      nat_rule_attr_def ntp_rule_attr_def plug_rule_attr_def portcfg_rule_attr_def
      ppp_control_rule_attr_def pptpd_rule_attr_def pptpd_user_rule_attr_def relay_attr_def
      relay_schedule_attr_def rt_rule_attr_def sched_rule_attr_def serial_num_rule_attr_def
      smbd_rule_attr_def smbd_user_rule_attr_def snmp_rule_attr_def ssh_rule_attr_def
      st_defpath_rule_attr_def stats_rule_attr_def storage_device_mount_rule_attr_def storage_rule_attr_def
      storage_state_rule_attr_def storage_used_state_rule_attr_def togo_rule_attr_def tos_rule_attr_def
      ttl_rule_attr_def upnp_rule_attr_def upnpc_setting_rule_attr_def upnpc_status_rule_attr_def
      user_rule_attr_def vnc_allow_rule_attr_def vnc_rule_attr_def vs_rule_attr_def
      wan_action_style_rule_attr_def wan_apple_filter_rule_attr_def wan_barry_rule_attr_def wan_beceem_rule_attr_def
      wan_bigpond_rule_attr_def wan_bw_rule_attr_def wan_ddns_rule_attr_def wan_detect_rule_attr_def
      wan_dhcp_rule_attr_def wan_htc_rule_attr_def wan_hwaddr_clone_rule_attr_def wan_hwaddr_rule_default_attr_def
      wan_iphone_rule_attr_def wan_l2tp_status_rule_attr_def wan_lb_rule_attr_def wan_main_rule_attr_def
      wan_opendns_rule_attr_def wan_pppoe_rule_attr_def wan_pptp_l2tp_global_rule_attr_def wan_pptp_l2tp_rule_attr_def
      wan_priority_rule_attr_def wan_static_rule_attr_def wan_upnp_status_rule_attr_def wan_wimax_rule_attr_def
      wan_wwan_probe_rule_attr_def wan_wwan_rule_attr_def wf_content_rule_attr_def wf_rule_attr_def
      wizard_rule_attr_def wl0_wds_attr_def wl_advanced_rule_attr_def wl_apcli_sec_wep_rule_attr_def
      wl_apcli_sec_wpa_rule_attr_def wl_apcli_swap_basic_rule_attr_def wl_apcli_swap_channel_rule_attr_def wl_apcli_swap_sec_wep_rule_attr_def
      wl_apcli_swap_sec_wpa_rule_attr_def wl_basic_rule_attr_def wl_wds_basic_rule_attr_def wl_wds_rule_attr_def
      wl_wds_sec_wep_rule_attr_def wl_wds_sec_wpa_rule_attr_def wl_wme_rule_attr_def wl_wps_rule_attr_def
      wl_wps_sta_rule_attr_def wlv_acl_basic_rule_attr_def wlv_acl_rule_attr_def wlv_basic_rule_attr_def
      wlv_ifname_rule_attr_def wlv_sec_rule_attr_def wlv_sec_wep_rule_attr_def wlv_sec_wpa2_rule_attr_def
      wlv_sec_wpa_rule_attr_def wlv_ssid_rule_attr_def wol_rule_attr_def x_mode_data_attr_def)

text \<open>The tables of these rule sets depend on the build; the defaults have no literals for them.\<close>

definition varying_rules :: "string list" where
  "varying_rules =
     [''wan_status_rule'', ''vpn_status_rule'', ''lan_status_rule'', ''bw_sbm_rule'', ''vlan_rule'',
      ''vlanport_rule'', ''ipsec_rule'', ''wl0_apcli_rule'', ''wl0_apcli_swap_rule'', ''wl1_apcli_rule'']"

definition rule_key :: "rule \<Rightarrow> string \<times> nat" where
  "rule_key r =
     (case rule_name r of None \<Rightarrow> ([], 0)
      | Some n \<Rightarrow> (n, if n \<in> set varying_rules then 0 else attr_count (rule_attr r)))"

lemma rule_key_simps [simp]:
  "rule_key (rule_entry n as) = (n, if n \<in> set varying_rules then 0 else attr_count as)" "rule_key rule_null = ([], 0)"
  by (simp_all add: rule_key_def)

definition rule_keys :: "(string \<times> nat) list" where
  "rule_keys =
     [(''fr_rule'', 9), (''plug_rule'', 3), (''cnnt_rule'', 5), (''wizard_rule'', 8), (''vs_rule'', 6),
      (''fl_rule'', 17), (''fr_dmz_rule'', 3), (''fl_hwaddr_rule'', 7)] @
     [(''aximddns_rule'', 5), (''aximddns_tmp_rule'', 4)] @
     [(''cgi_progress'', 8)] @
     [(''mac_sense_rule'', 7)] @
     [(''als_failover'', 3), (''alert_rule'', 5), (''mail_rule'', 15), (''relay_rule'', 2),
      (''relay_schedule_rule'', 7), (''file_mode_rule'', 6), (''als_battery_rule'', 1),
      (''als_status_rule'', 8), (''als_serial_rule'', 8), (''als_operating_rule'', 5),
      (''als_operating_data_packing_rule'', 2), (''als_operating_option_rule'', 14)] @
     [(''wan_main_rule'', 5), (''wan_lb_rule'', 5), (''wan_detect_rule'', 6), (''wan_status_rule'', 0),
      (''wan_action_style_rule'', 2), (''storage_device_mount_rule'', 6), (''countdown_rule'', 6),
      (''license_status_rule'', 2), (''vpn_status_rule'', 0), (''wan_upnp_status_rule'', 3),
      (''wan_bw_rule'', 12), (''wan_static_rule'', 6), (''wan_dhcp_rule'', 3), (''wan_pppoe_rule'', 9),
      (''wan_wwan_rule'', 24), (''wan_barry_rule'', 9), (''wan_pptp_l2tp_global_rule'', 3),
      (''wan_pptp_l2tp_rule'', 15), (''wan_l2tp_status_rule'', 1), (''wan_htc_rule'', 5),
      (''wan_iphone_rule'', 5), (''wan_beceem_rule'', 3), (''wan_wimax_rule'', 2),
      (''wan_wwan_probe_rule'', 16), (''wan_bigpond_rule'', 4), (''wan_hwaddr_rule_default'', 1),
      (''wan_hwaddr_clone_rule'', 2), (''wan_ddns_rule'', 7), (''wan_apple_filter_rule'', 2),
      (''wan_opendns_rule'', 6), (''lan_main_rule'', 5), (''lan_hwaddr_rule_default'', 1),
      (''lan_hwaddr_clone_rule'', 2), (''guest_lan_rule'', 3), (''lan_static_rule'', 5),
      (''lan_status_rule'', 0), (''lan_static_rule_default'', 5), (''lan_dhcps_rule'', 12), (''wl0_wds'', 4),
      (''bw_sbm_rule'', 0), (''bw_dbm_rule'', 6), (''rt_rule'', 14), (''wf_content_rule'', 3), (''wf_rule'', 4),
      (''sched_rule'', 14), (''cron_rule'', 7), (''vlan_rule'', 0), (''vlanport_rule'', 0), (''br_rule'', 4),
      (''ntp_rule'', 7), (''ssh_rule'', 3), (''log_rule'', 19), (''ttl_rule'', 3), (''tos_rule'', 7),
      (''upnp_rule'', 6), (''http_rule'', 6), (''user_rule'', 2), (''http_redirect_rule'', 1),
      (''snmp_rule'', 10), (''adtool_rule'', 9), (''smbd_rule'', 14), (''smbd_user_rule'', 3),
      (''togo_rule'', 7), (''camera_rule'', 8), (''drive_rule'', 7), (''music_rule'', 1), (''led_rule'', 2),
      (''bt_rule'', 13), (''ftpd_rule'', 11), (''ftpd_user_rule'', 6), (''itunes_rule'', 8),
      (''storage_rule'', 9), (''storage_state_rule'', 4), (''storage_used_state_rule'', 5),
      (''myqnapcloud_id_rule'', 12), (''model_name'', 1), (''is_rule'', 7), (''ishost_rule'', 3),
      (''isuser_rule'', 3), (''appmgr_rule'', 20), (''http_rule_default'', 6), (''stats_rule'', 4),
      (''vnc_rule'', 8), (''vnc_allow_rule'', 1), (''pptpd_rule'', 19), (''pptpd_user_rule'', 5),
      (''wol_rule'', 6), (''ipsec_rule'', 0), (''ipsec_status_rule'', 2), (''l2tpd_rule'', 14),
      (''l2tpd_user_rule'', 5), (''auth_server_rule'', 18), (''auth_user_rule'', 3), (''fw_rule'', 7),
      (''nat_pass_rule'', 7), (''wl_basic_rule'', 5), (''wl_advanced_rule'', 31), (''wl_wds_rule'', 2),
      (''wl_wme_rule'', 10), (''wl_wps_sta_rule'', 7), (''wl_wps_rule'', 4), (''wl0_basic_rule'', 5),
      (''wl0_ifname_rule'', 1), (''wl0_ssid_rule'', 1), (''wl0_sec_rule'', 1), (''wl0_sec_wep_rule'', 7),
      (''wl0_sec_wpa_rule'', 9), (''wl0_sec_wpa2_rule'', 12), (''wl00_acl_basic_rule'', 2),
      (''wl00_acl_rule'', 4), (''wl01_acl_basic_rule'', 2), (''wl01_acl_rule'', 4),
      (''wl02_acl_basic_rule'', 2), (''wl02_acl_rule'', 4), (''wl03_acl_basic_rule'', 2),
      (''wl03_acl_rule'', 4), (''wl1_basic_rule'', 5), (''wl1_ifname_rule'', 1), (''wl1_ssid_rule'', 1),
      (''wl1_sec_rule'', 1), (''wl1_sec_wep_rule'', 7), (''wl1_sec_wpa_rule'', 9), (''wl1_sec_wpa2_rule'', 12),
      (''wl0_wds_basic_rule'', 2), (''wl0_wds_sec_wep_rule'', 1), (''wl0_wds_sec_wpa_rule'', 2),
      (''wl0_apcli_rule'', 0), (''wl0_apcli_sec_wep_rule'', 7), (''wl0_apcli_sec_wpa_rule'', 2),
      (''wl0_apcli_sec_wpa2_rule'', 2), (''wl0_apcli_swap_rule'', 0), (''wl0_apcli_swap_basic_rule'', 3),
      (''wl0_apcli_swap_channel_rule'', 2), (''wl0_apcli_swap_sec_wep_rule'', 7),
      (''wl0_apcli_swap_sec_wpa_rule'', 2), (''wl0_apcli_swap_sec_wpa2_rule'', 2), (''wl1_wds_basic_rule'', 2),
      (''wl1_wds_sec_wep_rule'', 1), (''wl1_wds_sec_wpa_rule'', 2), (''wl1_apcli_rule'', 0),
      (''wl1_apcli_sec_wep_rule'', 7), (''wl1_apcli_sec_wpa_rule'', 2), (''wl1_apcli_sec_wpa2_rule'', 2),
      (''x_mode_data'', 2), (''portcfg_rule'', 5), (''nat_rule'', 1), (''app_enable_rule'', 3),
      (''mfg_test_result_rule'', 2), (''serial_num_rule'', 1), (''captive_rule'', 2), (''igmp_proxy_rule'', 1),
      (''ppp_control_rule'', 1), (''card_reader_hardware_rule'', 3)] @
     [(''st_defpath_rule'', 3), (''gpiodef_rule'', 5), (''upnpc_setting_rule'', 5), (''upnpc_status_rule'', 5)] @
     [(''wan_priority_rule'', 1), (''WISP_detect_portal_rule'', 2), (''gmn_nat_rule'', 4),
      (''gmn_filter_rule'', 4), (''gmn_mcast_rule'', 4)] @
     [([], 0)]"

lemma keys_append: "subseq (map f xs) ns \<Longrightarrow> subseq (map f ys) ms \<Longrightarrow> subseq (map f (xs @ ys)) (ns @ ms)"
  by (simp add: list_emb_append_mono)

lemma keys_if: "subseq (map f xs) ns \<Longrightarrow> subseq (map f (if c then xs else [])) ns"
  by simp

lemma rules_keys: "subseq (map rule_key (rules D)) rule_keys"
  unfolding rules_def rule_keys_def
  by (intro keys_append keys_if; simp add: varying_rules_def attr_counts)

lemma rules_find_key:
  "rules_find rs n = Some (Some as) \<Longrightarrow> n \<notin> set varying_rules \<Longrightarrow> (n, attr_count as) \<in> set (map rule_key rs)"
  by (induction rs) (auto simp: rule_key_def split: option.splits if_splits)

lemma table_key:
  assumes "rules_find (rules D) n = Some (Some as)" and "n \<notin> set varying_rules"
  shows "(n, attr_count as) \<in> set rule_keys"
  by (rule list_emb_set [OF rules_keys rules_find_key [OF assms]]) simp

section \<open>The rules of the defaults\<close>

text \<open>\<open>rules_fit v k\<close>: every rule of the rule set \<open>v\<close> has \<open>k\<close> attributes.\<close>

definition rules_fit :: "string \<Rightarrow> nat \<Rightarrow> bool" where
  "rules_fit v k \<longleftrightarrow> list_all (\<lambda>r. length (split_on ATTR_SEP r) = k) (split_on RULE_SEP v)"

text \<open>The default of \<^verbatim>\<open>drive_rule\<close> of one brand lacks an attribute.\<close>

definition short_drive_rule :: "build \<Rightarrow> default_row \<Rightarrow> bool" where
  "short_drive_rule b e \<longleftrightarrow>
     defined b EZP_PROD_BRAND_MYMO \<and> e = dv ''drive_rule'' ''1^0^80^1^admin^admin'' NVRAM_NONE"

definition row_fits :: "build \<Rightarrow> default_row \<Rightarrow> bool" where
  "row_fits b e \<longleftrightarrow>
     (\<forall>v. entry_value e = [Lit v] \<longrightarrow> v \<noteq> [] \<longrightarrow>
        (entry_name e \<notin> set varying_rules \<and> (\<forall>k. (entry_name e, k) \<in> set rule_keys \<longrightarrow> rules_fit v k)) \<or>
        short_drive_rule b e)"

definition value_fits :: "string \<Rightarrow> string \<Rightarrow> bool" where
  "value_fits n v \<longleftrightarrow> n \<notin> set varying_rules \<and> (\<forall>k. (n, k) \<in> set rule_keys \<longrightarrow> rules_fit v k)"

lemma row_fits_entries [simp]:
  "row_fits b (dm n m opts)" "row_fits b (dv n [] opts)"
  "value_fits n v \<Longrightarrow> row_fits b (dv n v opts)"
  "value_fits n v \<Longrightarrow> row_fits b (de n [Lit v] opts)"
  "value_fits n v \<Longrightarrow> value_fits n u \<Longrightarrow> row_fits b (de n (if c then [Lit v] else [Lit u]) opts)"
  "row_fits b (de n (p # q # ps) opts)"
  by (simp_all add: row_fits_def value_fits_def)

lemma row_fits_drive:
  "defined b EZP_PROD_BRAND_MYMO \<Longrightarrow> row_fits b (dv ''drive_rule'' ''1^0^80^1^admin^admin'' NVRAM_NONE)"
  by (simp add: row_fits_def short_drive_rule_def)

text \<open>The rule sets are looked up by the codes of their names.\<close>

definition key_code :: "string \<times> nat \<Rightarrow> int \<times> nat" where
  "key_code p = (name_code (fst p), snd p)"

lemma rule_codes:
  "map key_code rule_keys =
     [(568549, 9), (9728229, 3), (8893669, 5), (162493669, 8), (635109, 6), (562405, 17), (145308901, 3),
      (9204305125, 7), (2278174949, 5), (583212799205, 4), (559441935, 8), (9496283365, 7), (558679334, 3),
      (34780389, 5), (9307365, 15), (38828261, 2), (10178541787365, 7), (9200015589, 6), (143008385253, 1),
      (35773718757, 8), (35770631397, 8), (2289192091877, 5), (153625080686124351717, 2),
      (37506123230047461, 14), (2552892645, 5), (159550693, 5), (40838481125, 6), (40857215205, 0),
      (167259831474405, 2), (43130623295583461, 6), (9151540453, 6), (9798737699045, 2), (41595412709, 0),
      (41839579603173, 3), (159531237, 12), (40857149669, 6), (2552394981, 3), (10213460197, 9),
      (2553875685, 24), (10208872677, 9), (42838620145435877, 3), (2614661874917, 15), (41813675581669, 1),
      (638210277, 5), (40846014693, 5), (40835270885, 3), (10214749413, 2), (10460674259173, 16),
      (163347215589, 4), (2676892272761780, 1), (167305762617573, 2), (2552377573, 7), (167272691113189, 2),
      (163408261349, 6), (2368343269, 5), (2483378226273204, 1), (155211134712037, 2), (9458306277, 3),
      (37904359653, 5), (37904425189, 0), (2484100116323252, 5), (9471398117, 12), (618803, 4), (142612709, 0),
      (142366949, 6), (619749, 14), (40953083109, 3), (625893, 4), (38888677, 14), (8957157, 7), (10046693, 0),
      (2573022437, 0), (552165, 4), (2426085, 7), (2495717, 3), (2363621, 19), (2520293, 3), (2506981, 7),
      (10101989, 6), (9340133, 6), (10116325, 2), (2448395060453, 1), (9934053, 10), (137946341, 9),
      (9860325, 14), (10097155301, 3), (9990373, 7), (138635493, 8), (36026597, 7), (38691045, 1), (2319589, 2),
      (554213, 13), (9180389, 11), (9400900837, 6), (150544613, 8), (642697445, 9), (2632488949989, 4),
      (2695669153372389, 5), (10208454141157, 12), (38044329, 1), (581861, 7), (149505253, 3), (150363365, 3),
      (140770533, 20), (612117060532, 6), (39964901, 4), (2519269, 8), (10314076389, 1), (39195877, 19),
      (40136760549, 5), (2548965, 6), (37298405, 0), (611098009829, 2), (34084069, 14), (34902269157, 5),
      (145644854501, 18), (9103105253, 3), (573669, 7), (2408431845, 7), (2583584997, 5), (165347009765, 31),
      (161829093, 2), (161851621, 10), (41440839909, 7), (161878245, 4), (10133332197, 5), (40541563109, 1),
      (2534696165, 1), (633610469, 1), (162204308709, 7), (162204338405, 9), (648817302757, 12),
      (10325000610021, 2), (2520753381, 4), (10326074351845, 2), (2521015525, 4), (10327148093669, 2),
      (2521277669, 4), (10328221835493, 2), (2521539813, 4), (10137526501, 5), (40558340325, 1),
      (2535744741, 1), (633872613, 1), (162271417573, 7), (162271447269, 9), (649085738213, 12),
      (2595582009573, 2), (41529383146725, 1), (41529383176421, 2), (10133809381, 0), (664129318769893, 7),
      (664129318799589, 2), (2656517275147493, 2), (10377020904677, 0), (42504277620318437, 3),
      (680068441932432613, 2), (680068441996088549, 7), (680068441996118245, 2), (2720273767984422117, 2),
      (2596655751397, 2), (41546563015909, 1), (41546563045605, 2), (10138003685, 0), (664404196676837, 7),
      (664404196706533, 2), (2657616786775269, 2), (160240705, 2), (625819877, 5), (2352357, 1),
      (35975223525, 3), (39310511133925, 2), (40139753701, 1), (556251365, 2), (37535328485, 1),
      (160004416741, 1), (37282078769314021, 3), (40810161381, 3), (586444005, 5), (2648123588837, 5),
      (662033637605, 5), (653663529189, 1), (1973668218619109, 2), (583722213, 4), (37351693541, 4),
      (9339192549, 4), (0, 0)]"
  by (simp add: rule_keys_def key_code_def name_code_def)

lemma varying_codes:
  "map name_code varying_rules =
     [40857215205, 41595412709, 37904425189, 142612709, 10046693, 2573022437, 37298405, 10133809381,
      10377020904677, 10138003685]"
  by (simp add: varying_rules_def name_code_def)

definition code_fits :: "int \<Rightarrow> string \<Rightarrow> bool" where
  "code_fits c v \<longleftrightarrow>
     c \<notin> set (map name_code varying_rules) \<and> (\<forall>k. (c, k) \<in> set (map key_code rule_keys) \<longrightarrow> rules_fit v k)"

lemma value_fits_code: "code_fits (name_code n) v \<Longrightarrow> value_fits n v"
  by (force simp: code_fits_def value_fits_def key_code_def)

lemmas fit_rules = row_fits_drive value_fits_code name_code_def code_fits_def rule_codes varying_codes rules_fit_def
  ATTR_SEP_def RULE_SEP_def

lemma defaults_axim_rules: "list_all (row_fits b) (defaults_axim b)"
  unfolding defaults_axim_def by (simp add: fit_rules)

lemma defaults_abocom_rules: "list_all (row_fits b) (defaults_abocom b)"
  unfolding defaults_abocom_def by (simp add: fit_rules)

lemma defaults_zyxel_rules: "list_all (row_fits b) (defaults_zyxel b)"
  unfolding defaults_zyxel_def by (intro list_all_appendI list_all_ifI; simp add: fit_rules)

lemma defaults_planet_rules: "list_all (row_fits b) (defaults_planet b)"
  unfolding defaults_planet_def by (simp add: fit_rules)

lemma defaults_white_rules: "list_all (row_fits b) (defaults_white b)"
  unfolding defaults_white_def by (simp add: fit_rules)

lemma defaults_prox_rules: "list_all (row_fits b) (defaults_prox b)"
  unfolding defaults_prox_def by (intro list_all_appendI list_all_ifI; simp add: fit_rules)

lemma defaults_mymo_rules: "list_all (row_fits b) (defaults_mymo b)"
  unfolding defaults_mymo_def by (simp add: fit_rules)

lemma defaults_sony_rules: "list_all (row_fits b) (defaults_sony b)"
  unfolding defaults_sony_def by (simp add: fit_rules)

lemma defaults_allis_rules: "list_all (row_fits b) (defaults_allis b)"
  unfolding defaults_allis_def by (simp add: fit_rules)

lemma defaults_P_rules: "list_all (row_fits b) (defaults_P b)"
  unfolding defaults_P_def by (intro list_all_appendI list_all_ifI; simp add: fit_rules)

lemma defaults_K_rules: "list_all (row_fits b) (defaults_K b)"
  unfolding defaults_K_def by (intro list_all_appendI list_all_ifI; simp add: fit_rules)

lemma defaults_G_rules: "list_all (row_fits b) (defaults_G b)"
  unfolding defaults_G_def by (intro list_all_appendI list_all_ifI; simp add: fit_rules)

lemma defaults_I_rules: "list_all (row_fits b) (defaults_I b)"
  unfolding defaults_I_def by (intro list_all_appendI list_all_ifI; simp add: fit_rules)

lemma rt305x_lan_num_1_rules: "list_all (row_fits b) rt305x_lan_num_1"
  unfolding rt305x_lan_num_1_def by (simp add: fit_rules)

lemma rt305x_wan_num_1_rules: "list_all (row_fits b) rt305x_wan_num_1"
  unfolding rt305x_wan_num_1_def by (simp add: fit_rules)

lemma rt305x_wan_num_2_rules: "list_all (row_fits b) rt305x_wan_num_2"
  unfolding rt305x_wan_num_2_def by (simp add: fit_rules)

lemma as500_lan_num_1_rules: "list_all (row_fits b) as500_lan_num_1"
  unfolding as500_lan_num_1_def by (simp add: fit_rules)

lemma as500_wan_num_1_rules: "list_all (row_fits b) as500_wan_num_1"
  unfolding as500_wan_num_1_def by (simp add: fit_rules)

lemma as500_wan_num_2_rules: "list_all (row_fits b) as500_wan_num_2"
  unfolding as500_wan_num_2_def by (simp add: fit_rules)

lemma as500_swap_rules: "list_all (row_fits b) as500_swap"
  unfolding as500_swap_def by (simp add: fit_rules)

lemma as500_initd_rules: "list_all (row_fits b) as500_initd"
  unfolding as500_initd_def by (simp add: fit_rules)

lemma defaults_1_rules: "list_all (row_fits b) (defaults_1 b)"
  unfolding defaults_1_def by (intro list_all_appendI list_all_ifI defaults_axim_rules defaults_abocom_rules defaults_zyxel_rules defaults_planet_rules defaults_white_rules defaults_prox_rules defaults_mymo_rules defaults_sony_rules defaults_allis_rules defaults_P_rules defaults_K_rules defaults_G_rules defaults_I_rules; (simp add: fit_rules)?)

lemma defaults_2_rules: "list_all (row_fits b) (defaults_2 b)"
  unfolding defaults_2_def by (intro list_all_appendI list_all_ifI; simp add: fit_rules)

lemma defaults_3_rules: "list_all (row_fits b) (defaults_3 b)"
  unfolding defaults_3_def by (intro list_all_appendI list_all_ifI; simp add: fit_rules)

lemma defaults_4_rules: "list_all (row_fits b) (defaults_4 b)"
  unfolding defaults_4_def by (intro list_all_appendI list_all_ifI; simp add: fit_rules)

lemma defaults_5_rules: "list_all (row_fits b) (defaults_5 b)"
  unfolding defaults_5_def by (intro list_all_appendI list_all_ifI; simp add: fit_rules)

lemma defaults_6_rules: "list_all (row_fits b) (defaults_6 b)"
  unfolding defaults_6_def by (intro list_all_appendI list_all_ifI; simp add: fit_rules)

lemma defaults_7_rules: "list_all (row_fits b) (defaults_7 b)"
  unfolding defaults_7_def by (intro list_all_appendI list_all_ifI rt305x_lan_num_1_rules rt305x_wan_num_1_rules rt305x_wan_num_2_rules as500_lan_num_1_rules as500_wan_num_1_rules as500_wan_num_2_rules as500_swap_rules as500_initd_rules; (simp add: fit_rules)?)

lemma defaults_8_rules: "list_all (row_fits b) (defaults_8 b)"
  unfolding defaults_8_def by (intro list_all_appendI list_all_ifI; simp add: fit_rules)

lemma defaults_9_rules: "list_all (row_fits b) (defaults_9 b)"
  unfolding defaults_9_def by (intro list_all_appendI list_all_ifI; simp add: fit_rules)

lemma defaults_10_rules: "list_all (row_fits b) (defaults_10 b)"
  unfolding defaults_10_def by (intro list_all_appendI list_all_ifI; simp add: fit_rules)

lemma defaults_12_rules: "list_all (row_fits b) (defaults_12 b)"
  unfolding defaults_12_def by (intro list_all_appendI list_all_ifI; simp add: fit_rules)

lemma defaults_11_rules: "list_all (row_fits b) (defaults_11 b)"
  unfolding defaults_11_def by (intro list_all_appendI list_all_ifI defaults_12_rules; (simp add: fit_rules)?)

lemma defaults_13_rules: "list_all (row_fits b) (defaults_13 b)"
  unfolding defaults_13_def by (intro list_all_appendI list_all_ifI; simp add: fit_rules)

lemma defaults_14_rules: "list_all (row_fits b) (defaults_14 b)"
  unfolding defaults_14_def by (intro list_all_appendI list_all_ifI; simp add: fit_rules)

lemma defaults_15_rules: "list_all (row_fits b) (defaults_15 b)"
  unfolding defaults_15_def by (intro list_all_appendI list_all_ifI; simp add: fit_rules)

lemma defaults_16_rules: "list_all (row_fits b) (defaults_16 b)"
  unfolding defaults_16_def by (intro list_all_appendI list_all_ifI; simp add: fit_rules)

lemma defaults_17_rules: "list_all (row_fits b) (defaults_17 b)"
  unfolding defaults_17_def by (intro list_all_appendI list_all_ifI; simp add: fit_rules)

lemma defaults_18_rules: "list_all (row_fits b) (defaults_18 b)"
  unfolding defaults_18_def by (intro list_all_appendI list_all_ifI; simp add: fit_rules)

lemma defaults_19_rules: "list_all (row_fits b) (defaults_19 b)"
  unfolding defaults_19_def by (intro list_all_appendI list_all_ifI; simp add: fit_rules)

lemma defaults_20_rules: "list_all (row_fits b) (defaults_20 b)"
  unfolding defaults_20_def by (intro list_all_appendI list_all_ifI; simp add: fit_rules)

lemma defaults_21_rules: "list_all (row_fits b) (defaults_21 b)"
  unfolding defaults_21_def by (intro list_all_appendI list_all_ifI; simp add: fit_rules)

lemma defaults_22_rules: "list_all (row_fits b) (defaults_22 b)"
  unfolding defaults_22_def by (intro list_all_appendI list_all_ifI; simp add: fit_rules)

lemma default_entries_rules: "list_all (row_fits b) (default_entries b)"
  unfolding default_entries_def by (intro list_all_appendI defaults_1_rules defaults_2_rules defaults_3_rules defaults_4_rules defaults_5_rules defaults_6_rules defaults_7_rules defaults_8_rules defaults_9_rules defaults_10_rules defaults_11_rules defaults_13_rules defaults_14_rules defaults_15_rules defaults_16_rules defaults_17_rules defaults_18_rules defaults_19_rules defaults_20_rules defaults_21_rules defaults_22_rules; (simp add: fit_rules)?)

lemma default_entries_fit_rules: "e \<in> set (default_entries b) \<Longrightarrow> row_fits b e"
  using default_entries_rules [of b] by (simp add: list_all_iff)

end
