(* ===== verification/Default_Props.thy ===== *)
theory Default_Props
  imports Default_Demo Default_Rules
begin

text \<open>What holds of the table of defaults in every product, and what the first boot makes of it.\<close>

text \<open>C9. In every build the variables of the table of defaults have names that the device accepts and that leave
  room for the suffix \<^verbatim>\<open>_default\<close>, and options that \<^verbatim>\<open>nvram_set\<close> does not take for an unknown variable. Their names are
  distinct exactly when the product is not built for the AS500, which lists \<^verbatim>\<open>no_root_swap\<close> again, nor for an RT305X
  with two WAN interfaces, whose header lists \<^verbatim>\<open>vlan2ports\<close> twice.\<close>

theorem default_table_names_ok:
  "list_all (\<lambda>v. good_name (tup_name v) \<and> good_name (tup_name v @ ''_default'') \<and>
      \<not> has_option (tup_option v) NVRAM_UNDEFINED) (default_table b) \<and>
   (distinct (map tup_name (default_table b)) \<longleftrightarrow>
      \<not> defined b CONFIG_EZP_ARCH_AS500 \<and>
      \<not> (defined b CONFIG_EZP_ARCH_RT305X \<and> 1 \<le> LAN_NUM b \<and> WAN_NUM b = 2))"
proof
  show "list_all (\<lambda>v. good_name (tup_name v) \<and> good_name (tup_name v @ ''_default'') \<and>
      \<not> has_option (tup_option v) NVRAM_UNDEFINED) (default_table b)"
    using default_name_ok [of _ b] default_entries_option [of _ b] good_name_default
    unfolding default_table_def list_all_iff name_ok_def option_ok_def by simp
qed (simp only: default_table_names default_names_distinct_iff)

text \<open>C8. Out of the factory the store is empty. The first \<^verbatim>\<open>nvram_boot\<close> of any product with a brand returns and leaves
  exactly the table of defaults in the driver: every variable has the text of its entry, a variable marked
  \<^verbatim>\<open>NVRAM_DEFAULT\<close> has the value of the entry it copies, a variable marked \<^verbatim>\<open>NVRAM_EMPTY\<close> stays unset, and there are no
  other variables.\<close>

theorem first_boot_stores_defaults:
  fixes w :: "'m driver world"
  assumes dev: "dinv (kdev w)" "dabs (kdev w) = Map.empty" and table: "nvram_ezpacket_default w = default_table b"
    and build: "\<not> defined b EZP_PROD_SUPERCAT_X" "branded b" "texts_ok b"
    and arch: "\<not> defined b CONFIG_EZP_ARCH_AS500"
      "\<not> (defined b CONFIG_EZP_ARCH_RT305X \<and> 1 \<le> LAN_NUM b \<and> WAN_NUM b = 2)"
    and room: "kcap (set (names (default_entries b))) lim Map.empty"
    and lim: "\<forall>e \<in> set (default_entries b). length (entry_text b e) \<le> lim (entry_name e)"
      "\<forall>e \<in> set copying_entries. lim (entry_name e @ ''_default'') \<le> lim (entry_name e)"
  shows "\<exists>w'. nvram_boot (kern_env b F junk) w = Some w' \<and> dinv (kdev w') \<and>
    dabs (kdev w') =
      (\<lambda>n. case find (\<lambda>e. entry_name e = n) (default_entries b) of
             None \<Rightarrow> None | Some e \<Rightarrow> norm_val (Some (first_value b e)))"
proof -
  let ?N = "set (names (default_entries b))"
  have dist: "distinct (names (default_entries b))"
    using arch default_names_distinct_iff by blast
  have "\<forall>v \<in> set (nvram_ezpacket_default w). tuple_ok ?N (\<lambda>n x. length x \<le> lim n) v"
    using default_row_ok [OF build(3) lim] by (simp add: table default_table_def)
  then obtain w' where w': "nvram_boot (kern_env b F junk) w = Some w'" "dinv (kdev w')"
      "dabs (kdev w') = fold boot_entry (default_table b) Map.empty"
    using kernb.nvram_boot_abs [of w ?N lim b F junk] dev room build(1) table by auto
  have "dabs (kdev w') n = (case find (\<lambda>e. entry_name e = n) (default_entries b) of
      None \<Rightarrow> None | Some e \<Rightarrow> norm_val (Some (first_value b e)))" for n
  proof (cases "find (\<lambda>e. entry_name e = n) (default_entries b)")
    case None
    then have "n \<notin> tup_name ` set (default_table b)"
      by (auto simp: find_None_iff default_table_def)
    then show ?thesis
      using None by (simp add: w'(3) fold_boot_other)
  next
    case (Some e)
    then have "e \<in> set (default_entries b)" "entry_name e = n"
      by (auto simp: find_Some_iff)
    then show ?thesis
      using first_boot_entry [OF dist build(2)] Some by (auto simp: w'(3))
  qed
  then show ?thesis
    using w'(1,2) by blast
qed

theorem first_boot_stores_defaults_witness:
  "\<exists>(d :: string driver) w'.
     nvram_boot (kern_env demo_product_build nor_flash 0) (demo_world (default_table demo_product_build) d) = Some w' \<and>
     dabs d = Map.empty \<and> dabs (kdev w') ''fw_version'' = Some ''3.0.7'' \<and>
     dabs (kdev w') ''lang'' = Some ''EN'' \<and> dabs (kdev w') ''wf_enable'' = None"
proof -
  let ?b = demo_product_build
  obtain d :: "string driver" where d: "dinv d" "dabs d = Map.empty"
    using demo_empty_driver by blast
  have "\<exists>w'. nvram_boot (kern_env ?b nor_flash 0) (demo_world (default_table ?b) d) = Some w' \<and> dinv (kdev w') \<and>
    dabs (kdev w') =
      (\<lambda>n. case find (\<lambda>e. entry_name e = n) (default_entries ?b) of
             None \<Rightarrow> None | Some e \<Rightarrow> norm_val (Some (first_value ?b e)))"
  proof (rule first_boot_stores_defaults [where lim = text_limit])
    show "\<forall>e \<in> set (default_entries ?b). length (entry_text ?b e) \<le> text_limit (entry_name e)"
      using default_entries_fits unfolding text_fits_def by blast
    show "\<forall>e \<in> set copying_entries. text_limit (entry_name e @ ''_default'') \<le> text_limit (entry_name e)"
      by (simp add: copying_entries_def text_limit_def long_texts_def)
    show "kcap (set (names (default_entries ?b))) text_limit Map.empty"
      by (rule table_room)
  qed (simp_all add: d branded_def texts_ok_def)
  then obtain w' where w': "nvram_boot (kern_env ?b nor_flash 0) (demo_world (default_table ?b) d) = Some w'"
    "dabs (kdev w') =
      (\<lambda>n. case find (\<lambda>e. entry_name e = n) (default_entries ?b) of
             None \<Rightarrow> None | Some e \<Rightarrow> norm_val (Some (first_value ?b e)))"
    by blast
  show ?thesis
    using w'(1) d(2) unfolding w'(2) by (intro exI [of _ d] exI [of _ w']) (simp add: w'(2) demo_values first_value_def entry_text_def nvram_option_defs)
qed

text \<open>C10. In every build, a default rule set that \<^verbatim>\<open>nvram_data.h\<close> writes out as a string and that \<^verbatim>\<open>ezp-lib.c\<close> has a table
  for consists of rules with exactly as many attributes as the table names, so that every attribute of a fresh
  product can be read and replaced. The only exception is \<^verbatim>\<open>drive_rule\<close> of the brand \<^verbatim>\<open>MYMO\<close>.\<close>

theorem default_rules_fit_tables:
  assumes "e \<in> set (default_entries b)" and "entry_value e = [Lit v]" and "v \<noteq> []"
    and "rules_find (rules (defined b)) (entry_name e) = Some (Some as)"
    and "\<not> (defined b EZP_PROD_BRAND_MYMO \<and> entry_name e = ''drive_rule'')"
  shows "list_all (\<lambda>r. length (split_on ATTR_SEP r) = attr_count as) (split_on RULE_SEP v)"
proof -
  have "\<not> short_drive_rule b e"
    using assms(5) by (auto simp: short_drive_rule_def)
  then have "entry_name e \<notin> set varying_rules" "\<forall>k. (entry_name e, k) \<in> set rule_keys \<longrightarrow> rules_fit v k"
    using default_entries_fit_rules [OF assms(1)] assms(2,3) by (auto simp: row_fits_def)
  then show ?thesis
    using table_key [OF assms(4)] by (auto simp: rules_fit_def)
qed

lemma demo_ntp_entry:
  "dv ''ntp_rule'' ''^1^pool^north-america.pool.ntp.org^^PST8PDT,M3.2.0/2,M11.1.0/2^1'' NVRAM_NONE
     \<in> set (default_entries demo_product_build)"
proof -
  have "dv ''ntp_rule'' ''^1^pool^north-america.pool.ntp.org^^PST8PDT,M3.2.0/2,M11.1.0/2^1'' NVRAM_NONE
      \<in> set (defaults_10 demo_product_build)"
    by (simp add: defaults_10_def)
  then show ?thesis
    by (simp add: default_entries_def)
qed

theorem default_rules_fit_tables_witness:
  "rules_find (rules (defined demo_product_build)) ''ntp_rule'' = Some (Some ntp_rule_attr) \<and>
   list_all (\<lambda>r. length (split_on ATTR_SEP r) = attr_count ntp_rule_attr)
     (split_on RULE_SEP ''^1^pool^north-america.pool.ntp.org^^PST8PDT,M3.2.0/2,M11.1.0/2^1'')"
proof
  show t: "rules_find (rules (defined demo_product_build)) ''ntp_rule'' = Some (Some ntp_rule_attr)"
    by (simp add: rules_def)
  show "list_all (\<lambda>r. length (split_on ATTR_SEP r) = attr_count ntp_rule_attr)
     (split_on RULE_SEP ''^1^pool^north-america.pool.ntp.org^^PST8PDT,M3.2.0/2,M11.1.0/2^1'')"
    by (rule default_rules_fit_tables [OF demo_ntp_entry]) (simp_all add: t)
qed

text \<open>The default that does not fit: six attributes for a table of seven.\<close>

lemma mymo_drive_rule_short:
  assumes "defined b EZP_PROD_BRAND_MYMO"
  shows "dv ''drive_rule'' ''1^0^80^1^admin^admin'' NVRAM_NONE \<in> set (default_entries b)"
    and "length (split_on ATTR_SEP ''1^0^80^1^admin^admin'') = 6" and "attr_count drive_rule_attr = 7"
proof -
  have "dv ''drive_rule'' ''1^0^80^1^admin^admin'' NVRAM_NONE \<in> set (defaults_10 b)"
    using assms by (simp add: defaults_10_def)
  then show "dv ''drive_rule'' ''1^0^80^1^admin^admin'' NVRAM_NONE \<in> set (default_entries b)"
    by (simp add: default_entries_def)
qed (simp_all add: ATTR_SEP_def attr_counts)

end
