(* ===== verification/Timer_Queue.thy ===== *)
theory Timer_Queue
  imports Prelude
begin

text \<open>
  The timers of the shared library, \<^verbatim>\<open>src/package/ezp-nvram/src/linux_timer.c\<close>: any number of timers over the one interval
  timer of a process.  The pending timers are a linked list in the order of their deadlines; the value of the first
  is the time until it expires, the value of every other one the time from its predecessor.  The events live in an
  array, a \<^verbatim>\<open>timer_t\<close> is a place in it, and pointers are optional places, so that wrong links can be expressed.

  \<^term>\<open>None\<close> stands for a call that does not return: it runs forever, leaves the process with \<^verbatim>\<open>exit\<close> or a failed
  \<^verbatim>\<open>assert\<close>, follows a pointer that is not valid, or divides by zero.  Every function is one step, as it blocks the signal
  while it runs; a signal that arrives in such a step runs the handler behind it, which is \<open>interrupted\<close> below.
\<close>

unbundle bit_operations_syntax

section \<open>Times\<close>

record timeval =
  tv_sec :: int
  tv_usec :: int

definition time_of :: "int \<Rightarrow> int \<Rightarrow> timeval" where
  "time_of sec usec = \<lparr>tv_sec = sec, tv_usec = usec\<rparr>"

record timespec =
  ts_sec :: int
  ts_nsec :: int

record itimerspec =
  sp_interval :: timespec
  sp_value :: timespec

definition timerclear :: timeval where
  "timerclear = time_of 0 0"

definition timerisset :: "timeval \<Rightarrow> bool" where
  "timerisset t \<longleftrightarrow> tv_sec t \<noteq> 0 \<or> tv_usec t \<noteq> 0"

definition timer_less :: "timeval \<Rightarrow> timeval \<Rightarrow> bool" where
  "timer_less a b \<longleftrightarrow> (if tv_sec a = tv_sec b then tv_usec a < tv_usec b else tv_sec a < tv_sec b)"

definition timeradd :: "timeval \<Rightarrow> timeval \<Rightarrow> timeval" where
  "timeradd a b =
     (let s = tv_sec a + tv_sec b; u = tv_usec a + tv_usec b in
      if 1000000 \<le> u then time_of (s + 1) (u - 1000000) else time_of s u)"

definition timersub :: "timeval \<Rightarrow> timeval \<Rightarrow> timeval" where
  "timersub a b =
     (let s = tv_sec a - tv_sec b; u = tv_usec a - tv_usec b in
      if u < 0 then time_of (s - 1) (u + 1000000) else time_of s u)"

text \<open>Division of C truncates towards zero.\<close>

definition TIMESPEC_TO_TIMEVAL :: "timespec \<Rightarrow> timeval" where
  "TIMESPEC_TO_TIMEVAL ts = time_of (ts_sec ts) (sgn (ts_nsec ts) * (\<bar>ts_nsec ts\<bar> div 1000))"

text \<open>The sum of a \<^verbatim>\<open>long\<close> and an \<^verbatim>\<open>unsigned int\<close> is unsigned.\<close>

definition ROUNDUP :: "int \<Rightarrow> 32 word \<Rightarrow> int option" where
  "ROUNDUP x y = (if y = 0 then None else Some (sint ((((word_of_int x + y - 1) div y) * y) :: 32 word)))"

definition timerroundup :: "timeval \<Rightarrow> 32 word \<Rightarrow> timeval option" where
  "timerroundup t g =
     (let t = (if timerisset t then t else t\<lparr>tv_usec := 1\<rparr>) in
      if tv_sec t = 0 then map_option (\<lambda>u. t\<lparr>tv_usec := u\<rparr>) (ROUNDUP (tv_usec t) g) else Some t)"

section \<open>Events\<close>

definition TFLAG_NONE :: "16 word" where "TFLAG_NONE = 0"
definition TFLAG_CANCELLED :: "16 word" where "TFLAG_CANCELLED = 1"
definition TFLAG_DELETED :: "16 word" where "TFLAG_DELETED = 2"

record 'f event =
  it_interval :: timeval
  it_value :: timeval
  func :: "'f option"
  arg :: int
  flags :: "16 word"
  enext :: "nat option"

text \<open>
  The variables of the file and the interval timer of the process: \<open>itimer\<close> is the time until the next \<^verbatim>\<open>SIGALRM\<close>,
  zero when it is off; \<open>alarm_blocked\<close> is whether the process blocks the signal.
\<close>

record 'f timers =
  pool :: "'f event list"
  event_queue :: "nat option"
  event_freelist :: "nat option"
  g_granularity :: "32 word"
  g_maxevents :: int
  itimer :: timeval
  block_count :: int
  alarm_blocked :: bool

definition get_event :: "nat \<Rightarrow> 'f timers \<Rightarrow> 'f event option" where
  "get_event t s = (if t < length (pool s) then Some (pool s ! t) else None)"

definition modify_event :: "nat \<Rightarrow> ('f event \<Rightarrow> 'f event) \<Rightarrow> 'f timers \<Rightarrow> 'f timers option" where
  "modify_event t h s =
     (if t < length (pool s) then Some (s\<lparr>pool := (pool s)[t := h (pool s ! t)]\<rparr>) else None)"

text \<open>\<^verbatim>\<open>struct event **ppevent\<close>: the head of the queue or the field \<^verbatim>\<open>next\<close> of an event.\<close>

datatype link = Head | Next nat

fun read_link :: "link \<Rightarrow> 'f timers \<Rightarrow> nat option option" where
  "read_link Head s = Some (event_queue s)"
| "read_link (Next t) s = map_option enext (get_event t s)"

fun write_link :: "link \<Rightarrow> nat option \<Rightarrow> 'f timers \<Rightarrow> 'f timers option" where
  "write_link Head p s = Some (s\<lparr>event_queue := p\<rparr>)"
| "write_link (Next t) p s = modify_event t (\<lambda>e. e\<lparr>enext := p\<rparr>) s"

section \<open>The interval timer and the signal mask\<close>

text \<open>\<^verbatim>\<open>setitimer\<close> refuses a time that is not normalised.\<close>

definition setitimer :: "timeval \<Rightarrow> 'f timers \<Rightarrow> 'f timers" where
  "setitimer v s =
     (if 0 \<le> tv_sec v \<and> 0 \<le> tv_usec v \<and> tv_usec v < 1000000 then s\<lparr>itimer := v\<rparr> else s)"

definition block_timer :: "'f timers \<Rightarrow> 'f timers" where
  "block_timer s = s\<lparr>block_count := block_count s + 1, alarm_blocked := (if block_count s = 0 then True else alarm_blocked s)\<rparr>"

definition unblock_timer :: "'f timers \<Rightarrow> 'f timers" where
  "unblock_timer s =
     (let n = block_count s - 1 in s\<lparr>block_count := n, alarm_blocked := (if n = 0 then False else alarm_blocked s)\<rparr>)"

text \<open>The interval timer may be reissued for the first event: \<^verbatim>\<open>usec >= g_granularity\<close> compares unsigned numbers.\<close>

definition timer_assert :: "timeval \<Rightarrow> 32 word \<Rightarrow> bool" where
  "timer_assert v g \<longleftrightarrow> 0 < tv_sec v \<or> g \<le> word_of_int (tv_usec v)"

definition reissue :: "bool \<Rightarrow> nat \<Rightarrow> 'f timers \<Rightarrow> 'f timers option" where
  "reissue checked h s = do {
     e \<leftarrow> get_event h s;
     r \<leftarrow> timerroundup (it_value e) (g_granularity s);
     s \<leftarrow> modify_event h (\<lambda>e. e\<lparr>it_value := r\<rparr>) s;
     e \<leftarrow> get_event h s;
     let v = (if timerisset (it_value e) then it_value e else time_of 0 1);
     if checked \<longrightarrow> timer_assert v (g_granularity s) \<and> timer_assert (it_value e) (g_granularity s)
     then Some (setitimer v s) else None }"

section \<open>Operations\<close>

text \<open>\<open>gran\<close> is what the kernel makes of an interval of one microsecond.\<close>

definition blank_event :: "nat option \<Rightarrow> 'f event" where
  "blank_event p =
     \<lparr>it_interval = timerclear, it_value = timerclear, func = None, arg = 0, flags = TFLAG_NONE, enext = p\<rparr>"

definition init_event_queue :: "nat \<Rightarrow> 32 word \<Rightarrow> 'f timers option" where
  "init_event_queue n gran =
     (if n = 0 then None
      else Some \<lparr>pool = map (\<lambda>i. blank_event (if i < n - 1 then Some (i + 1) else None)) [0..<n],
                 event_queue = None, event_freelist = Some 0, g_granularity = gran, g_maxevents = int n,
                 itimer = timerclear, block_count = 0, alarm_blocked = False\<rparr>)"

partial_function (option) check_loop :: "nat option \<Rightarrow> int \<Rightarrow> 'f timers \<Rightarrow> unit option" where
  "check_loop p i s =
     (case p of
        None \<Rightarrow> Some ()
      | Some t \<Rightarrow>
          if g_maxevents s < i then None
          else do { e \<leftarrow> get_event t s; check_loop (enext e) (i + 1) s })"

definition check_event_queue :: "'f timers \<Rightarrow> unit option" where
  "check_event_queue s = check_loop (event_queue s) 0 s"

definition CLOCK_REALTIME :: int where "CLOCK_REALTIME = 0"

text \<open>\<open>evp\<close> is the notification and signal of the argument, when there is one.\<close>

definition SIGEV_SIGNAL :: int where "SIGEV_SIGNAL = 0"
definition SIGALRM :: int where "SIGALRM = 14"

definition timer_create :: "int \<Rightarrow> (int \<times> int) option \<Rightarrow> 'f timers \<Rightarrow> (nat \<times> 'f timers) option" where
  "timer_create clock_id evp s =
     (if clock_id \<noteq> CLOCK_REALTIME then None
      else if evp \<noteq> None \<and> evp \<noteq> Some (SIGEV_SIGNAL, SIGALRM) then None
      else case event_freelist s of
             None \<Rightarrow> None
           | Some t \<Rightarrow> do {
               e \<leftarrow> get_event t s;
               let s = s\<lparr>event_freelist := enext e\<rparr>;
               s \<leftarrow> modify_event t (\<lambda>e. e\<lparr>flags := TFLAG_NONE, enext := None\<rparr>) s;
               check_event_queue s;
               Some (t, s) })"

definition timer_connect :: "nat \<Rightarrow> 'f option \<Rightarrow> int \<Rightarrow> 'f timers \<Rightarrow> 'f timers option" where
  "timer_connect t routine a s =
     (if routine = None then None else modify_event t (\<lambda>e. e\<lparr>func := routine, arg := a\<rparr>) s)"

definition timer_change_settime :: "nat \<Rightarrow> itimerspec \<Rightarrow> 'f timers \<Rightarrow> 'f timers option" where
  "timer_change_settime t spec s =
     modify_event t (\<lambda>e. e\<lparr>it_interval := TIMESPEC_TO_TIMEVAL (sp_interval spec),
                          it_value := TIMESPEC_TO_TIMEVAL (sp_value spec)\<rparr>) s"

text \<open>Taking the event that the link points to out of the queue, and reissuing the interval timer.\<close>

definition cancel_found :: "nat \<Rightarrow> link \<Rightarrow> 'f timers \<Rightarrow> 'f timers option" where
  "cancel_found t l s = do {
     e \<leftarrow> get_event t s;
     s \<leftarrow> (case enext e of
             None \<Rightarrow> Some s
           | Some n \<Rightarrow>
               if event_queue s = Some t then do {
                 s \<leftarrow> modify_event t (\<lambda>e. e\<lparr>it_value := timersub (it_value e) (itimer s)\<rparr>) s;
                 e \<leftarrow> get_event t s;
                 modify_event n (\<lambda>d. d\<lparr>it_value := timeradd (it_value d) (it_value e)\<rparr>) s }
               else Some s);
     e \<leftarrow> get_event t s;
     s \<leftarrow> write_link l (enext e) s;
     s \<leftarrow> modify_event t (\<lambda>e. e\<lparr>enext := None\<rparr>) s;
     case event_queue s of
       None \<Rightarrow> Some (setitimer timerclear s)
     | Some h \<Rightarrow> reissue True h s }"

partial_function (option) cancel_loop :: "nat \<Rightarrow> link \<Rightarrow> 'f timers \<Rightarrow> 'f timers option" where
  "cancel_loop t l s = do {
     p \<leftarrow> read_link l s;
     case p of
       None \<Rightarrow> Some s
     | Some u \<Rightarrow> if u = t then cancel_found t l s else cancel_loop t (Next u) s }"

definition timer_cancel :: "nat \<Rightarrow> 'f timers \<Rightarrow> 'f timers option" where
  "timer_cancel t s = do {
     e \<leftarrow> get_event t s;
     if flags e AND TFLAG_CANCELLED \<noteq> 0 then Some s
     else do {
       s \<leftarrow> cancel_loop t Head (block_timer s);
       s \<leftarrow> modify_event t (\<lambda>e. e\<lparr>flags := flags e OR TFLAG_CANCELLED\<rparr>) s;
       Some (unblock_timer s) } }"

text \<open>The loop unlinks the first event until the queue is empty.\<close>

partial_function (option) cancel_all_loop :: "'f timers \<Rightarrow> 'f timers option" where
  "cancel_all_loop s =
     (case event_queue s of
        None \<Rightarrow> Some s
      | Some t \<Rightarrow> do {
          e \<leftarrow> get_event t s;
          s \<leftarrow> modify_event t (\<lambda>e. e\<lparr>enext := None\<rparr>) (s\<lparr>event_queue := enext e\<rparr>);
          cancel_all_loop s })"

definition timer_cancel_all :: "'f timers \<Rightarrow> 'f timers option" where
  "timer_cancel_all s = cancel_all_loop (setitimer timerclear s)"

definition timer_delete :: "nat \<Rightarrow> 'f timers \<Rightarrow> (int \<times> 'f timers) option" where
  "timer_delete t s = do {
     e \<leftarrow> get_event t s;
     if flags e AND TFLAG_DELETED \<noteq> 0 then Some (1, s)
     else do {
       s \<leftarrow> timer_cancel t s;
       s \<leftarrow> modify_event t (\<lambda>e. e\<lparr>flags := flags e OR TFLAG_DELETED, enext := event_freelist s\<rparr>) s;
       Some (0, s\<lparr>event_freelist := Some t\<rparr>) } }"

text \<open>
  The search for the place of event \<open>t\<close>: its value becomes the time from the event in front of it, and the event
  behind it is moved by what is left.
\<close>

partial_function (option) insert_loop :: "nat \<Rightarrow> link \<Rightarrow> 'f timers \<Rightarrow> 'f timers option" where
  "insert_loop t l s = do {
     p \<leftarrow> read_link l s;
     case p of
       None \<Rightarrow> do {
         s \<leftarrow> modify_event t (\<lambda>e. e\<lparr>enext := None\<rparr>) s;
         write_link l (Some t) s }
     | Some u \<Rightarrow> do {
         e \<leftarrow> get_event t s;
         d \<leftarrow> get_event u s;
         if timer_less (it_value e) (it_value d) then do {
           s \<leftarrow> modify_event u (\<lambda>d. d\<lparr>it_value := timersub (it_value d) (it_value e)\<rparr>) s;
           p \<leftarrow> read_link l s;
           s \<leftarrow> modify_event t (\<lambda>e. e\<lparr>enext := p\<rparr>) s;
           write_link l (Some t) s }
         else do {
           s \<leftarrow> modify_event t (\<lambda>e. e\<lparr>it_value := timersub (it_value e) (it_value d)\<rparr>) s;
           insert_loop t (Next u) s } } }"

text \<open>What is left of the running interval timer becomes the value of the first event.\<close>

definition sync_head :: "'f timers \<Rightarrow> 'f timers option" where
  "sync_head s =
     (if timerisset (itimer s) then
        case event_queue s of
          None \<Rightarrow> Some s
        | Some h \<Rightarrow> do {
            e \<leftarrow> get_event h s;
            if timer_less (it_value e) (itimer s) then Some s
            else modify_event h (\<lambda>e. e\<lparr>it_value := itimer s\<rparr>) s }
      else Some s)"

definition timer_settime :: "nat \<Rightarrow> itimerspec \<Rightarrow> 'f timers \<Rightarrow> 'f timers option" where
  "timer_settime t spec s = do {
     s \<leftarrow> timer_change_settime t spec s;
     if \<not> timerisset (TIMESPEC_TO_TIMEVAL (sp_value spec)) then timer_cancel t s
     else do {
       e \<leftarrow> get_event t s;
       r \<leftarrow> timerroundup (it_value e) (g_granularity s);
       s \<leftarrow> modify_event t (\<lambda>e. e\<lparr>it_value := r\<rparr>) (block_timer s);
       s \<leftarrow> sync_head s;
       s \<leftarrow> insert_loop t Head s;
       check_event_queue s;
       s \<leftarrow> (if event_queue s = Some t then reissue True t s else Some s);
       s \<leftarrow> modify_event t (\<lambda>e. e\<lparr>flags := flags e AND NOT TFLAG_CANCELLED\<rparr>) s;
       Some (unblock_timer s) } }"

section \<open>The signal handler\<close>

text \<open>
  \<open>call\<close> runs a callback: code of the client, which may call the operations above.  An event that is recurring
  goes back to the queue.
\<close>

definition requeue :: "nat \<Rightarrow> 'f timers \<Rightarrow> 'f timers option" where
  "requeue t s = do {
     e \<leftarrow> get_event t s;
     if flags e AND TFLAG_CANCELLED \<noteq> 0 then Some s
     else if timerisset (it_interval e) then do {
       r \<leftarrow> timerroundup (it_interval e) (g_granularity s);
       s \<leftarrow> modify_event t (\<lambda>e. e\<lparr>it_value := r\<rparr>) s;
       insert_loop t Head s }
     else Some s }"

definition alarm_body :: "('f \<Rightarrow> nat \<Rightarrow> int \<Rightarrow> 'f timers \<Rightarrow> 'f timers option) \<Rightarrow> 'f timers \<Rightarrow> 'f timers option" where
  "alarm_body call s = do {
     t \<leftarrow> event_queue s;
     e \<leftarrow> get_event t s;
     s \<leftarrow> modify_event t (\<lambda>e. e\<lparr>enext := None\<rparr>) (s\<lparr>event_queue := enext e\<rparr>);
     f \<leftarrow> func e;
     s \<leftarrow> call f t (arg e) s;
     s \<leftarrow> requeue t s;
     check_event_queue s;
     Some s }"

definition expires_soon :: "'f timers \<Rightarrow> bool option" where
  "expires_soon s =
     (case event_queue s of
        None \<Rightarrow> Some False
      | Some h \<Rightarrow> do {
          e \<leftarrow> get_event h s;
          Some (timer_less (it_value e) (time_of 0 (uint (g_granularity s div 2)))) })"

partial_function (option) alarm_loop ::
    "('f \<Rightarrow> nat \<Rightarrow> int \<Rightarrow> 'f timers \<Rightarrow> 'f timers option) \<Rightarrow> 'f timers \<Rightarrow> 'f timers option" where
  "alarm_loop call s = do {
     s \<leftarrow> alarm_body call s;
     again \<leftarrow> expires_soon s;
     if again then alarm_loop call s else Some s }"

definition alarm_handler ::
    "('f \<Rightarrow> nat \<Rightarrow> int \<Rightarrow> 'f timers \<Rightarrow> 'f timers option) \<Rightarrow> 'f timers \<Rightarrow> 'f timers option" where
  "alarm_handler call s = do {
     s \<leftarrow> alarm_loop call (block_timer s);
     s \<leftarrow> (case event_queue s of None \<Rightarrow> Some s | Some h \<Rightarrow> reissue False h s);
     Some (unblock_timer s) }"

text \<open>
  The signal that arrives while \<open>operation\<close> has it blocked: the interval timer runs out before the operation reads it,
  or (\<open>early\<close> is false) after that, and the handler runs when the operation unblocks the signal, which is the last
  thing it does.
\<close>

definition interrupted :: "bool \<Rightarrow> ('f timers \<Rightarrow> 'f timers option) \<Rightarrow>
    ('f \<Rightarrow> nat \<Rightarrow> int \<Rightarrow> 'f timers \<Rightarrow> 'f timers option) \<Rightarrow> 'f timers \<Rightarrow> 'f timers option" where
  "interrupted early operation call s = do {
     s \<leftarrow> operation (if early then s\<lparr>itimer := timerclear\<rparr> else s);
     alarm_handler call s }"

section \<open>The clock\<close>

text \<open>\<open>now\<close> is what \<^verbatim>\<open>gettimeofday\<close> reports.  The product is one of C's \<^verbatim>\<open>long\<close>, 32 bits on the targets, which wraps.\<close>

definition US_PER_SEC :: int where "US_PER_SEC = 1000000"

definition TIMEVAL_TO_TIMESPEC :: "timeval \<Rightarrow> timespec" where
  "TIMEVAL_TO_TIMESPEC tv = \<lparr>ts_sec = tv_sec tv, ts_nsec = tv_usec tv * 1000\<rparr>"

definition uclock :: "timeval \<Rightarrow> int" where
  "uclock now = sint (word_of_int (tv_sec now * US_PER_SEC + tv_usec now) :: 32 word)"

definition clock_gettime :: "timeval \<Rightarrow> timespec" where
  "clock_gettime now = TIMEVAL_TO_TIMESPEC now"

section \<open>The interface of the timer module\<close>

text \<open>The module is the list of its events; closing it leaves the timers alone.\<close>

definition bcm_timer_module_init :: "nat \<Rightarrow> 32 word \<Rightarrow> (int \<times> nat option \<times> 'f timers) option" where
  "bcm_timer_module_init entries gran = do {
     s \<leftarrow> init_event_queue entries gran;
     Some (0, event_freelist s, s) }"

definition bcm_timer_module_cleanup :: "'f timers \<Rightarrow> int \<times> 'f timers" where
  "bcm_timer_module_cleanup s = (0, s)"

definition bcm_timer_module_enable :: "bool \<Rightarrow> 'f timers \<Rightarrow> int \<times> 'f timers" where
  "bcm_timer_module_enable enable s = (0, if enable then unblock_timer s else block_timer s)"

definition bcm_timer_create :: "'f timers \<Rightarrow> (nat \<times> 'f timers) option" where
  "bcm_timer_create s = timer_create CLOCK_REALTIME None s"

definition bcm_timer_delete :: "nat \<Rightarrow> 'f timers \<Rightarrow> (int \<times> 'f timers) option" where
  "bcm_timer_delete t s = timer_delete t s"

definition bcm_timer_gettime :: "nat \<Rightarrow> 'f timers \<Rightarrow> int" where
  "bcm_timer_gettime t s = -1"

definition bcm_timer_settime :: "nat \<Rightarrow> itimerspec \<Rightarrow> 'f timers \<Rightarrow> 'f timers option" where
  "bcm_timer_settime t spec s = timer_settime t spec s"

definition bcm_timer_connect :: "nat \<Rightarrow> 'f option \<Rightarrow> int \<Rightarrow> 'f timers \<Rightarrow> 'f timers option" where
  "bcm_timer_connect t routine data s = timer_connect t routine data s"

definition bcm_timer_cancel :: "nat \<Rightarrow> 'f timers \<Rightarrow> (int \<times> 'f timers) option" where
  "bcm_timer_cancel t s = map_option (Pair 0) (timer_cancel t s)"

definition bcm_timer_change_expirytime :: "nat \<Rightarrow> itimerspec \<Rightarrow> 'f timers \<Rightarrow> (int \<times> 'f timers) option" where
  "bcm_timer_change_expirytime t spec s = map_option (Pair 1) (timer_change_settime t spec s)"

text \<open>The loops compute by their equations.\<close>

lemmas timer_loops [code] =
  check_loop.simps cancel_loop.simps cancel_all_loop.simps insert_loop.simps alarm_loop.simps

end
