(* ===== verification/Timer_Facts.thy ===== *)
theory Timer_Facts
  imports Timer_Queue
begin

text \<open>
  The linked list of pending timers as a list, and what the loops of the timers do to it: the insertion keeps the
  deadlines of all other timers.
\<close>

section \<open>Times in microseconds\<close>

definition us :: "timeval \<Rightarrow> int" where
  "us t = tv_sec t * 1000000 + tv_usec t"

definition norm :: "timeval \<Rightarrow> bool" where
  "norm t \<longleftrightarrow> 0 \<le> tv_sec t \<and> 0 \<le> tv_usec t \<and> tv_usec t < 1000000"

lemma time_of_sel [simp]: "tv_sec (time_of a b) = a" "tv_usec (time_of a b) = b"
  by (simp_all add: time_of_def)

lemma us_nonneg: "norm t \<Longrightarrow> 0 \<le> us t"
  by (simp add: norm_def us_def)

lemma timerisset_us: "norm t \<Longrightarrow> timerisset t \<longleftrightarrow> us t \<noteq> 0"
  unfolding norm_def us_def timerisset_def by linarith

lemma timer_less_us: "norm a \<Longrightarrow> norm b \<Longrightarrow> timer_less a b \<longleftrightarrow> us a < us b"
  by (auto simp: norm_def us_def timer_less_def)

lemma timeradd_us: "norm a \<Longrightarrow> norm b \<Longrightarrow> norm (timeradd a b) \<and> us (timeradd a b) = us a + us b"
  by (auto simp: norm_def us_def timeradd_def Let_def)

lemma timersub_us: "norm a \<Longrightarrow> norm b \<Longrightarrow> us b \<le> us a \<Longrightarrow> norm (timersub a b) \<and> us (timersub a b) = us a - us b"
  by (auto simp: norm_def us_def timersub_def Let_def)

lemma timerclear_us [simp]: "norm timerclear" "us timerclear = 0" "\<not> timerisset timerclear"
  by (simp_all add: norm_def us_def timerclear_def timerisset_def)

lemma norm_us_inj: "norm a \<Longrightarrow> norm b \<Longrightarrow> us a = us b \<Longrightarrow> a = b"
proof -
  assume "norm a" "norm b" "us a = us b"
  moreover have "tv_sec x = us x div 1000000" if "norm x" for x
    using that by (simp add: norm_def us_def)
  ultimately have "tv_sec a = tv_sec b" and "us a = us b"
    by simp_all
  then show ?thesis
    by (simp add: us_def)
qed

text \<open>
  A granularity of the interval timer divides a second.  A time that is a multiple of it, or is rounded up to one below a
  second, is what the timers can wait for.
\<close>

definition grain :: "32 word \<Rightarrow> bool" where
  "grain g \<longleftrightarrow> 0 < uint g \<and> uint g < 1000000 \<and> uint g dvd 1000000"

definition on_grain :: "32 word \<Rightarrow> timeval \<Rightarrow> bool" where
  "on_grain g t \<longleftrightarrow> norm t \<and> uint g dvd us t"

definition roundable :: "32 word \<Rightarrow> timeval \<Rightarrow> bool" where
  "roundable g t \<longleftrightarrow> norm t \<and> (uint g dvd us t \<or> us t + uint g \<le> 1000000)"

definition rounded :: "32 word \<Rightarrow> int \<Rightarrow> int" where
  "rounded g v = max (uint g) (((v + uint g - 1) div uint g) * uint g)"

lemma grain_bounds: "grain g \<Longrightarrow> 0 < uint g \<and> uint g < 1000000"
  by (simp add: grain_def)

lemma grain_nonzero: "grain g \<Longrightarrow> g \<noteq> 0"
  by (auto simp: grain_def)

lemma on_grain_norm: "on_grain g t \<Longrightarrow> norm t" "on_grain g t \<Longrightarrow> roundable g t" "roundable g t \<Longrightarrow> norm t"
  by (simp_all add: on_grain_def roundable_def)

lemma timerisset_grain: "on_grain g t \<Longrightarrow> timerisset t \<longleftrightarrow> us t \<noteq> 0"
  by (rule timerisset_us, rule on_grain_norm)

lemma timer_less_grain: "on_grain g a \<Longrightarrow> on_grain h b \<Longrightarrow> timer_less a b \<longleftrightarrow> us a < us b"
  by (rule timer_less_us; rule on_grain_norm)

lemma on_grain_clear [simp]: "on_grain g timerclear" "roundable g timerclear"
  by (simp_all add: on_grain_def roundable_def)

lemma rounded_least: "uint g \<le> rounded g v" "uint g dvd rounded g v"
  by (simp_all add: rounded_def max_def)

lemma rounded_pos: "grain g \<Longrightarrow> 0 < rounded g v"
  using rounded_least(1) [of g v] by (simp add: grain_def)

lemma rounded_simps: "grain g \<Longrightarrow> rounded g v \<noteq> 0" "grain g \<Longrightarrow> 0 < rounded g v"
  using rounded_pos [of g v] by simp_all

lemma rounded_up: "grain g \<Longrightarrow> v \<le> rounded g v \<and> rounded g v \<le> max (uint g) (v + uint g - 1)"
proof -
  assume "grain g"
  then have "0 < uint g"
    by (simp add: grain_def)
  moreover have "((v + uint g - 1) div uint g) * uint g = (v + uint g - 1) - (v + uint g - 1) mod uint g"
    by (simp add: minus_mod_eq_div_mult)
  moreover have "0 \<le> (v + uint g - 1) mod uint g" "(v + uint g - 1) mod uint g < uint g"
    using \<open>0 < uint g\<close> by simp_all
  ultimately show ?thesis
    by (auto simp: rounded_def)
qed

lemma rounded_multiple: "grain g \<Longrightarrow> uint g dvd v \<Longrightarrow> rounded g v = max (uint g) v"
proof -
  assume g: "grain g" and "uint g dvd v"
  then obtain k where "v = uint g * k"
    unfolding dvd_def by blast
  moreover have "(uint g * k + (uint g - 1)) div uint g = k"
    using g by (simp add: grain_def div_mult_self4)
  ultimately show ?thesis
    by (simp add: rounded_def algebra_simps)
qed

lemma rounded_same: "grain g \<Longrightarrow> uint g dvd v \<Longrightarrow> 0 < v \<Longrightarrow> rounded g v = v"
  using rounded_multiple [of g v] zdvd_imp_le [of "uint g" v] by simp

lemma ROUNDUP_ok:
  assumes "grain g" and "0 \<le> x" and "x \<le> 1000000"
  shows "ROUNDUP x g = Some (((x + uint g - 1) div uint g) * uint g)"
proof -
  have g: "0 < uint g" "uint g < 1000000"
    using grain_bounds [OF assms(1)] by simp_all
  let ?n = "x + uint g - 1"
  have n: "0 \<le> ?n" "?n < 2000000"
    using g assms by simp_all
  have "word_of_int x + g - 1 = (word_of_int ?n :: 32 word)"
    by (simp add: of_int_diff)
  moreover have "uint (word_of_int ?n :: 32 word) = ?n"
    using n take_bit_int_eq_self [of ?n 32] by (simp only: uint_word_of_int_eq) simp
  ultimately have u: "uint (word_of_int x + g - 1) = ?n"
    by (simp only:)
  have le: "0 \<le> ?n div uint g * uint g" "?n div uint g * uint g \<le> ?n"
    using n g pos_mod_sign [of "uint g" ?n] minus_mod_eq_div_mult [of ?n "uint g"] by (simp add: pos_imp_zdiv_nonneg_iff, linarith)
  have "uint ((word_of_int x + g - 1) div g * g) = ?n div uint g * uint g"
    using le n by (simp only: uint_word_ariths(3) uint_div u) simp
  moreover have "sint w = uint w" if "uint w < 2147483648" for w :: "32 word"
    using that order_trans [OF _ uint_ge_0 [of w], of "- 2147483648"] by (simp add: sint_uint signed_take_bit_int_eq_self)
  ultimately show ?thesis
    using le n grain_nonzero [OF assms(1)] by (simp add: ROUNDUP_def)
qed

definition roundup :: "timeval \<Rightarrow> 32 word \<Rightarrow> timeval" where
  "roundup t g = the (timerroundup t g)"

lemma timerroundup_Some: "g \<noteq> 0 \<Longrightarrow> timerroundup t g = Some (roundup t g)"
  by (simp add: timerroundup_def roundup_def ROUNDUP_def Let_def)

lemma roundup_us:
  assumes "grain g" and "roundable g t"
  shows "on_grain g (roundup t g) \<and> us (roundup t g) = rounded g (us t)"
proof (cases "tv_sec t = 0")
  case True
  let ?u = "if tv_usec t = 0 then 1 else tv_usec t"
  have t: "0 \<le> tv_usec t" "tv_usec t < 1000000" "us t = tv_usec t"
    using assms(2) True by (auto simp: roundable_def norm_def us_def)
  have "ROUNDUP ?u g = Some (((?u + uint g - 1) div uint g) * uint g)"
    using t by (intro ROUNDUP_ok [OF assms(1)]) simp_all
  moreover have "((?u + uint g - 1) div uint g) * uint g = rounded g (us t)"
  proof (cases "tv_usec t = 0")
    case True
    then show ?thesis
      using assms(1) t(3) by (simp add: rounded_def grain_def)
  next
    case False
    then have "1 \<le> (tv_usec t + uint g - 1) div uint g"
      using zdiv_mono1 [of "uint g" "tv_usec t + uint g - 1" "uint g"] t(1) assms(1) by (simp add: grain_def)
    then have "uint g \<le> (tv_usec t + uint g - 1) div uint g * uint g"
      using assms(1) by (simp add: grain_def)
    then show ?thesis
      using False t(3) by (simp add: rounded_def)
  qed
  ultimately have r: "roundup t g = time_of 0 (rounded g (us t))"
    using True by (auto simp: roundup_def timerroundup_def timerisset_def time_of_def Let_def)
  have "rounded g (us t) < 1000000"
  proof (cases "uint g dvd us t")
    case True
    then show ?thesis
      using t assms(1) by (simp add: rounded_multiple grain_def)
  next
    case False
    then show ?thesis
      using rounded_up [OF assms(1), of "us t"] assms t grain_bounds [OF assms(1)] by (auto simp: roundable_def)
  qed
  then show ?thesis
    using r rounded_least [of g "us t"] rounded_pos [OF assms(1), of "us t"] by (simp add: on_grain_def norm_def us_def)
next
  case False
  then have "1000000 \<le> us t" "roundup t g = t"
    using assms(2) by (auto simp: roundable_def norm_def us_def roundup_def timerroundup_def timerisset_def)
  moreover from this have "uint g dvd us t"
    using assms by (auto simp: roundable_def grain_def)
  ultimately show ?thesis
    using assms rounded_same [of g "us t"] by (simp add: on_grain_def roundable_def)
qed

lemma roundup_same: "grain g \<Longrightarrow> on_grain g t \<Longrightarrow> 0 < us t \<Longrightarrow> roundup t g = t"
  using roundup_us [of g t] norm_us_inj [of "roundup t g" t] rounded_same [of g "us t"] by (simp add: on_grain_def roundable_def)

section \<open>Linked events\<close>

primrec chain :: "'f timers \<Rightarrow> nat option \<Rightarrow> nat list \<Rightarrow> bool" where
  "chain s p [] \<longleftrightarrow> p = None"
| "chain s p (t # ts) \<longleftrightarrow> p = Some t \<and> t < length (pool s) \<and> chain s (enext (pool s ! t)) ts"

lemma chain_cong:
  "length (pool s') = length (pool s) \<Longrightarrow> (\<And>t. t \<in> set ts \<Longrightarrow> enext (pool s' ! t) = enext (pool s ! t)) \<Longrightarrow>
     chain s' p ts = chain s p ts"
  by (induction ts arbitrary: p) auto

lemma chain_unique: "chain s p ts \<Longrightarrow> chain s p qs \<Longrightarrow> ts = qs"
proof (induction ts arbitrary: p qs)
  case (Cons t ts)
  then show ?case by (cases qs) auto
next
  case Nil
  then show ?case by (cases qs) auto
qed

lemma chain_set: "chain s p ts \<Longrightarrow> t \<in> set ts \<Longrightarrow> t < length (pool s)"
  by (induction ts arbitrary: p) auto

text \<open>What the loops leave alone: everything but the links and values of the events in \<open>A\<close>.\<close>

definition only_links :: "nat set \<Rightarrow> 'f timers \<Rightarrow> 'f timers \<Rightarrow> bool" where
  "only_links A s s' \<longleftrightarrow>
     length (pool s') = length (pool s) \<and> event_freelist s' = event_freelist s \<and>
     g_granularity s' = g_granularity s \<and> g_maxevents s' = g_maxevents s \<and> itimer s' = itimer s \<and>
     block_count s' = block_count s \<and> alarm_blocked s' = alarm_blocked s \<and>
     (\<forall>i < length (pool s). it_interval (pool s' ! i) = it_interval (pool s ! i) \<and> func (pool s' ! i) = func (pool s ! i) \<and>
        arg (pool s' ! i) = arg (pool s ! i) \<and> flags (pool s' ! i) = flags (pool s ! i)) \<and>
     (\<forall>i < length (pool s). i \<notin> A \<longrightarrow> pool s' ! i = pool s ! i)"

lemma only_links_refl: "only_links A s s"
  by (simp add: only_links_def)

lemma only_links_trans: "only_links A s s' \<Longrightarrow> only_links A s' s'' \<Longrightarrow> only_links A s s''"
  unfolding only_links_def by simp

lemma only_links_mono: "only_links A s s' \<Longrightarrow> A \<subseteq> B \<Longrightarrow> only_links B s s'"
  unfolding only_links_def by blast

definition deltas :: "'f timers \<Rightarrow> nat list \<Rightarrow> (nat \<times> int) list" where
  "deltas s ts = map (\<lambda>t. (t, us (it_value (pool s ! t)))) ts"

lemma deltas_simps [simp]:
  "deltas s [] = []" "deltas s (t # ts) = (t, us (it_value (pool s ! t))) # deltas s ts" "map fst (deltas s ts) = ts"
  by (simp_all add: deltas_def comp_def)

lemma deltas_cong: "(\<And>t. t \<in> set ts \<Longrightarrow> it_value (pool s' ! t) = it_value (pool s ! t)) \<Longrightarrow> deltas s' ts = deltas s ts"
  by (simp add: deltas_def)

definition normal_values :: "'f timers \<Rightarrow> nat list \<Rightarrow> bool" where
  "normal_values s ts \<longleftrightarrow> (\<forall>t \<in> set ts. norm (it_value (pool s ! t)))"

section \<open>Deadlines\<close>

text \<open>The insertion on values, and on deadlines.\<close>

fun insert_value :: "nat \<Rightarrow> int \<Rightarrow> (nat \<times> int) list \<Rightarrow> (nat \<times> int) list" where
  "insert_value t v [] = [(t, v)]"
| "insert_value t v ((u, d) # r) = (if v < d then (t, v) # (u, d - v) # r else (u, d) # insert_value t (v - d) r)"

fun deadlines :: "int \<Rightarrow> (nat \<times> int) list \<Rightarrow> (nat \<times> int) list" where
  "deadlines a [] = []"
| "deadlines a ((t, d) # r) = (t, a + d) # deadlines (a + d) r"

fun insert_deadline :: "nat \<Rightarrow> int \<Rightarrow> (nat \<times> int) list \<Rightarrow> (nat \<times> int) list" where
  "insert_deadline t x [] = [(t, x)]"
| "insert_deadline t x ((u, y) # r) = (if x < y then (t, x) # (u, y) # r else (u, y) # insert_deadline t x r)"

lemma deadlines_insert: "deadlines a (insert_value t v ds) = insert_deadline t (a + v) (deadlines a ds)"
  by (induction t v ds arbitrary: a rule: insert_value.induct) auto

lemma set_insert_value: "set (map fst (insert_value t v ds)) = insert t (set (map fst ds))"
  by (induction t v ds rule: insert_value.induct) auto

lemma distinct_insert_value:
  "distinct (map fst ds) \<Longrightarrow> t \<notin> set (map fst ds) \<Longrightarrow> distinct (map fst (insert_value t v ds))"
proof (induction t v ds rule: insert_value.induct)
  case (2 t v u d r)
  then show ?case
    using set_insert_value [of t "v - d" r] by auto
qed simp

lemma length_insert_value [simp]: "length (insert_value t v ds) = Suc (length ds)"
  by (induction t v ds rule: insert_value.induct) auto

lemma deadlines_shift: "deadlines (a + b) ds = map (\<lambda>(u, x). (u, x + b)) (deadlines a ds)"
proof (induction ds arbitrary: a)
  case (Cons p ds)
  then show ?case
    using Cons [of "a + snd p"] by (cases p) (simp add: algebra_simps)
qed simp

lemma deadlines_append: "deadlines a (xs @ ys) = deadlines a xs @ deadlines (a + sum_list (map snd xs)) ys"
  by (induction xs arbitrary: a) (auto simp: algebra_simps)

lemma length_deadlines [simp]: "length (deadlines a ds) = length ds"
  by (induction ds arbitrary: a) auto

section \<open>The insertion loop\<close>

lemma get_event_ok: "t < length (pool s) \<Longrightarrow> get_event t s = Some (pool s ! t)"
  by (simp add: get_event_def)

lemma modify_event_ok: "t < length (pool s) \<Longrightarrow> modify_event t h s = Some (s\<lparr>pool := (pool s)[t := h (pool s ! t)]\<rparr>)"
  by (simp add: modify_event_def)

definition link_ok :: "link \<Rightarrow> 'f timers \<Rightarrow> nat set \<Rightarrow> bool" where
  "link_ok l s A \<longleftrightarrow> (case l of Head \<Rightarrow> True | Next u \<Rightarrow> u < length (pool s) \<and> u \<notin> A)"

fun link_event :: "link \<Rightarrow> nat set" where
  "link_event Head = {}"
| "link_event (Next u) = {u}"

lemma nth_update_if: "i < length xs \<Longrightarrow> xs[j := e] ! i = (if i = j then e else xs ! i)"
  by (auto simp: nth_list_update)

lemma write_link_ok:
  assumes "link_ok l s A"
  shows "\<exists>s'. write_link l p s = Some s' \<and> read_link l s' = Some p \<and> only_links (link_event l) s s' \<and>
    (\<forall>i < length (pool s). it_value (pool s' ! i) = it_value (pool s ! i) \<and>
       (i \<in> A \<longrightarrow> enext (pool s' ! i) = enext (pool s ! i))) \<and>
    (l \<noteq> Head \<longrightarrow> event_queue s' = event_queue s)"
  using assms by (cases l) (auto simp: link_ok_def modify_event_def get_event_def only_links_def nth_update_if)

lemma insert_loop_chain:
  assumes "read_link l s = Some p" and "chain s p ts" and "distinct ts" and "t \<notin> set ts" and "t < length (pool s)"
    and "link_ok l s (insert t (set ts))" and "norm (it_value (pool s ! t))" and "normal_values s ts"
    and "us (it_value (pool s ! t)) = v"
  shows "\<exists>s' p'. insert_loop t l s = Some s' \<and> read_link l s' = Some p' \<and>
    chain s' p' (map fst (insert_value t v (deltas s ts))) \<and>
    deltas s' (map fst (insert_value t v (deltas s ts))) = insert_value t v (deltas s ts) \<and>
    normal_values s' (t # ts) \<and> only_links (insert t (set ts) \<union> link_event l) s s' \<and>
    (\<forall>u. l = Next u \<longrightarrow> it_value (pool s' ! u) = it_value (pool s ! u) \<and> event_queue s' = event_queue s)"
  using assms
proof (induction ts arbitrary: s l p v)
  case Nil
  let ?s = "s\<lparr>pool := (pool s)[t := (pool s ! t)\<lparr>enext := None\<rparr>]\<rparr>"
  have "link_ok l ?s {t}"
    using Nil.prems(6) by (simp add: link_ok_def split: link.splits)
  then obtain s' where s': "write_link l (Some t) ?s = Some s'" "read_link l s' = Some (Some t)"
      "only_links (link_event l) ?s s'"
      "\<forall>i < length (pool ?s). it_value (pool s' ! i) = it_value (pool ?s ! i) \<and>
         (i \<in> {t} \<longrightarrow> enext (pool s' ! i) = enext (pool ?s ! i))"
      "l \<noteq> Head \<longrightarrow> event_queue s' = event_queue ?s"
    using write_link_ok [of l ?s "{t}" "Some t"] by blast
  have p: "p = None"
    using Nil.prems(2) by simp
  have "insert_loop t l s = Some s'"
    using Nil.prems(1,5) s'(1) p by (subst insert_loop.simps) (simp add: modify_event_ok)
  moreover have "only_links (insert t {} \<union> link_event l) s s'"
    using s'(3) by (auto simp: only_links_def nth_update_if)
  moreover have "it_value (pool s' ! t) = it_value (pool s ! t)" "enext (pool s' ! t) = None" "length (pool s') = length (pool s)"
    using s'(3,4) Nil.prems(5) by (auto simp: only_links_def)
  moreover have "it_value (pool s' ! u) = it_value (pool s ! u)" if "l = Next u" for u
    using s'(4) Nil.prems(6) that by (auto simp: link_ok_def)
  ultimately show ?case
    using Nil.prems s' by (intro exI [of _ s'] exI [of _ "Some t"]) (auto simp: normal_values_def)
next
  case (Cons u r)
  let ?e = "pool s ! t" and ?d = "pool s ! u"
  have p: "p = Some u" "u < length (pool s)" "chain s (enext ?d) r" and ne: "u \<noteq> t" "t \<notin> set r" "u \<notin> set r" "distinct r"
    using Cons.prems by auto
  have nrm: "norm (it_value ?e)" "norm (it_value ?d)" "normal_values s r"
    using Cons.prems by (auto simp: normal_values_def)
  show ?case
  proof (cases "v < us (it_value ?d)")
    case True
    then have less: "timer_less (it_value ?e) (it_value ?d)"
      using nrm Cons.prems(9) by (simp add: timer_less_us)
    let ?s1 = "s\<lparr>pool := (pool s)[u := ?d\<lparr>it_value := timersub (it_value ?d) (it_value ?e)\<rparr>]\<rparr>"
    let ?s2 = "?s1\<lparr>pool := (pool ?s1)[t := (pool ?s1 ! t)\<lparr>enext := Some u\<rparr>]\<rparr>"
    have "link_ok l ?s2 (insert t (set (u # r)))"
      using Cons.prems(6) by (simp add: link_ok_def split: link.splits)
    then obtain s' where s': "write_link l (Some t) ?s2 = Some s'" "read_link l s' = Some (Some t)"
        "only_links (link_event l) ?s2 s'"
        "\<forall>i < length (pool ?s2). it_value (pool s' ! i) = it_value (pool ?s2 ! i) \<and>
           (i \<in> insert t (set (u # r)) \<longrightarrow> enext (pool s' ! i) = enext (pool ?s2 ! i))"
        "l \<noteq> Head \<longrightarrow> event_queue s' = event_queue ?s2"
      using write_link_ok [of l ?s2 "insert t (set (u # r))" "Some t"] by blast
    have rl: "read_link l ?s1 = Some (Some u)"
      using Cons.prems(1,6) p ne by (cases l) (auto simp: link_ok_def get_event_def)
    have "insert_loop t l s = Some s'"
      using Cons.prems(1,5) s'(1) p ne less rl by (subst insert_loop.simps) (simp add: modify_event_ok get_event_ok)
    moreover have "only_links (insert t (set (u # r)) \<union> link_event l) s s'"
      using s'(3) by (auto simp: only_links_def nth_update_if)
    moreover have len: "length (pool s') = length (pool s)"
      using s'(3) by (simp add: only_links_def)
    moreover have tv: "it_value (pool s' ! t) = it_value ?e" "enext (pool s' ! t) = Some u"
      using s'(4) Cons.prems(5) ne by (auto simp: nth_update_if)
    moreover have uv: "it_value (pool s' ! u) = timersub (it_value ?d) (it_value ?e)" "enext (pool s' ! u) = enext ?d"
      using s'(4) p ne by (auto simp: nth_update_if)
    moreover have rv: "it_value (pool s' ! i) = it_value (pool s ! i)" "enext (pool s' ! i) = enext (pool s ! i)"
      if "i \<in> set r" for i
      using s'(4) chain_set [OF p(3) that] that ne by (auto simp: nth_update_if)
    moreover have "chain s' (enext ?d) r"
      using chain_cong [of s' s r "enext ?d"] len rv(2) p(3) by simp
    moreover have "deltas s' r = deltas s r"
      using rv(1) by (rule deltas_cong)
    moreover have "norm (timersub (it_value ?d) (it_value ?e)) \<and>
        us (timersub (it_value ?d) (it_value ?e)) = us (it_value ?d) - v"
      using timersub_us [OF nrm(2,1)] True Cons.prems(9) by simp
    moreover have "it_value (pool s' ! w) = it_value (pool s ! w)" if "l = Next w" for w
      using s'(4) Cons.prems(6) that by (auto simp: link_ok_def nth_update_if)
    ultimately show ?thesis
      using Cons.prems(5,9) nrm s' True p(2)
      by (intro exI [of _ s'] exI [of _ "Some t"]) (auto simp: normal_values_def)
  next
    case False
    then have less: "\<not> timer_less (it_value ?e) (it_value ?d)"
      using nrm Cons.prems(9) by (simp add: timer_less_us)
    let ?s1 = "s\<lparr>pool := (pool s)[t := ?e\<lparr>it_value := timersub (it_value ?e) (it_value ?d)\<rparr>]\<rparr>"
    have sub: "norm (timersub (it_value ?e) (it_value ?d)) \<and>
        us (timersub (it_value ?e) (it_value ?d)) = v - us (it_value ?d)"
      using timersub_us [OF nrm(1,2)] False Cons.prems(9) by simp
    have step: "insert_loop t l s = insert_loop t (Next u) ?s1"
      using Cons.prems(1,5) p ne less by (subst insert_loop.simps) (simp add: modify_event_ok get_event_ok)
    have same: "enext (pool ?s1 ! i) = enext (pool s ! i)" "i \<noteq> t \<Longrightarrow> pool ?s1 ! i = pool s ! i" if "i < length (pool s)" for i
      using that by (auto simp: nth_update_if)
    have "chain ?s1 (enext ?d) r"
      using chain_cong [of ?s1 s r "enext ?d"] same(1) chain_set [OF p(3)] p(3) by simp
    moreover have vr: "deltas ?s1 r = deltas s r"
      using same(2) chain_set [OF p(3)] ne by (intro deltas_cong) metis
    moreover have "read_link (Next u) ?s1 = Some (enext ?d)"
      using p ne by (simp add: get_event_def)
    moreover have "link_ok (Next u) ?s1 (insert t (set r))"
      using p ne by (simp add: link_ok_def)
    moreover have "normal_values ?s1 r"
      using nrm(3) same(2) chain_set [OF p(3)] ne unfolding normal_values_def by metis
    ultimately obtain s' p' where s': "insert_loop t (Next u) ?s1 = Some s'" "read_link (Next u) s' = Some p'"
        "chain s' p' (map fst (insert_value t (v - us (it_value ?d)) (deltas s r)))"
        "deltas s' (map fst (insert_value t (v - us (it_value ?d)) (deltas s r))) = insert_value t (v - us (it_value ?d)) (deltas s r)"
        "normal_values s' (t # r)" "only_links (insert t (set r) \<union> {u}) ?s1 s'"
        "it_value (pool s' ! u) = it_value (pool ?s1 ! u)" "event_queue s' = event_queue ?s1"
      using Cons.IH [of "Next u" ?s1 "enext ?d" "v - us (it_value ?d)"] ne Cons.prems(5) sub
      by (auto simp: vr)
    have len: "length (pool s') = length (pool s)"
      using s'(6) by (simp add: only_links_def)
    have ud: "it_value (pool s' ! u) = it_value ?d" "enext (pool s' ! u) = p'"
      using s'(2,7) p ne len by (auto simp: get_event_def)
    have links: "only_links (insert t (set (u # r)) \<union> link_event l) s s'"
      using s'(6) by (auto simp: only_links_def nth_update_if)
    have rest: "pool s' ! w = pool s ! w" if "l = Next w" for w
      using s'(6) Cons.prems(6) that by (auto simp: only_links_def link_ok_def)
    have "read_link l s' = Some (Some u)"
      using Cons.prems(1,6) rest s'(8) p len by (cases l) (auto simp: get_event_def link_ok_def)
    then show ?thesis
      using step s' ud links rest False p len nrm(2)
      by (intro exI [of _ s'] exI [of _ "Some u"]) (auto simp: normal_values_def)
  qed
qed

end
