(* ===== verification/Timer_Safe.thy ===== *)
theory Timer_Safe
  imports Timer_Facts
begin

text \<open>
  Well-formed timers, and every operation of the library on them: the queue and the free list are disjoint lists of
  events, and a call that keeps the contract of the library returns and keeps them so.
\<close>

unbundle bit_operations_syntax

section \<open>Flags\<close>

definition cancelled :: "'f event \<Rightarrow> bool" where
  "cancelled e \<longleftrightarrow> flags e AND TFLAG_CANCELLED \<noteq> 0"

definition deleted :: "'f event \<Rightarrow> bool" where
  "deleted e \<longleftrightarrow> flags e AND TFLAG_DELETED \<noteq> 0"

lemma cancelled_bit: "cancelled e \<longleftrightarrow> bit (flags e) 0"
  using and_exp_eq_0_iff_not_bit [of "flags e" 0] by (simp add: cancelled_def TFLAG_CANCELLED_def)

lemma deleted_bit: "deleted e \<longleftrightarrow> bit (flags e) 1"
  using and_exp_eq_0_iff_not_bit [of "flags e" 1] by (simp add: deleted_def TFLAG_DELETED_def)

lemma flags_simps [simp]:
  "cancelled (e\<lparr>flags := w OR TFLAG_CANCELLED\<rparr>)" "\<not> cancelled (e\<lparr>flags := w AND NOT TFLAG_CANCELLED\<rparr>)"
  "deleted (e\<lparr>flags := w OR TFLAG_CANCELLED\<rparr>) = bit w 1" "deleted (e\<lparr>flags := w AND NOT TFLAG_CANCELLED\<rparr>) = bit w 1"
  "deleted (e\<lparr>flags := w OR TFLAG_DELETED\<rparr>)" "cancelled (e\<lparr>flags := w OR TFLAG_DELETED\<rparr>) = bit w 0"
  "\<not> deleted (e\<lparr>flags := TFLAG_NONE\<rparr>)" "\<not> cancelled (e\<lparr>flags := TFLAG_NONE\<rparr>)"
  by (simp_all add: cancelled_bit deleted_bit bit_simps TFLAG_CANCELLED_def TFLAG_DELETED_def TFLAG_NONE_def
      bit_2_iff)

section \<open>Well-formed timers\<close>

definition timers_core :: "'f timers \<Rightarrow> nat list \<Rightarrow> nat list \<Rightarrow> bool" where
  "timers_core s q f \<longleftrightarrow>
     chain s (event_queue s) q \<and> chain s (event_freelist s) f \<and> distinct (q @ f) \<and>
     grain (g_granularity s) \<and> g_maxevents s = int (length (pool s)) \<and> on_grain (g_granularity s) (itimer s) \<and>
     0 \<le> block_count s \<and> (alarm_blocked s \<longleftrightarrow> 0 < block_count s) \<and>
     (\<forall>i < length (pool s). roundable (g_granularity s) (it_interval (pool s ! i)) \<and>
        roundable (g_granularity s) (it_value (pool s ! i)) \<and> (deleted (pool s ! i) \<longrightarrow> i \<in> set f)) \<and>
     (\<forall>t \<in> set q. on_grain (g_granularity s) (it_value (pool s ! t)) \<and> \<not> cancelled (pool s ! t) \<and>
        func (pool s ! t) \<noteq> None)"

text \<open>
  The times of the pending timers and of the interval timer are multiples of the granularity; those that a timer is set
  to are, or can be rounded up to one.  The interval timer never runs longer than the first event has to wait, and not without an event.\<close>

definition head_value :: "'f timers \<Rightarrow> nat list \<Rightarrow> int" where
  "head_value s q = (case q of [] \<Rightarrow> 0 | h # _ \<Rightarrow> us (it_value (pool s ! h)))"

definition timers_wf :: "'f timers \<Rightarrow> nat list \<Rightarrow> nat list \<Rightarrow> bool" where
  "timers_wf s q f \<longleftrightarrow> timers_core s q f \<and> us (itimer s) \<le> head_value s q"

definition running :: "'f timers \<Rightarrow> nat list \<Rightarrow> bool" where
  "running s q \<longleftrightarrow> (q \<noteq> [] \<longrightarrow> 0 < us (itimer s))"

lemma head_value_simps [simp]: "head_value s [] = 0" "head_value s (h # r) = us (it_value (pool s ! h))"
  by (simp_all add: head_value_def)

lemma running_Nil [simp]: "running s []"
  by (simp add: running_def)

lemma core_normal: "timers_core s q f \<Longrightarrow> normal_values s q"
  unfolding timers_core_def normal_values_def on_grain_def by blast

lemma core_length:
  assumes "timers_core s q f"
  shows "length q \<le> length (pool s)"
proof -
  have "set q \<subseteq> {0..<length (pool s)}"
    using assms chain_set unfolding timers_core_def by fastforce
  then have "card (set q) \<le> card {0..<length (pool s)}"
    by (rule card_mono [rotated]) simp
  moreover have "distinct q"
    using assms by (simp add: timers_core_def)
  ultimately show ?thesis
    by (simp add: distinct_card)
qed

lemma check_loop_ok:
  "chain s p q \<Longrightarrow> i + int (length q) \<le> g_maxevents s + 1 \<Longrightarrow> check_loop p i s = Some ()"
  by (induction q arbitrary: p i; subst check_loop.simps; simp add: get_event_ok)

lemma check_ok:
  assumes "timers_core s q f"
  shows "check_event_queue s = Some ()"
  unfolding check_event_queue_def
  using assms core_length [OF assms] by (intro check_loop_ok [of s _ q]) (simp_all add: timers_core_def)

text \<open>An event may change in everything but its link.\<close>

lemma core_update:
  assumes "timers_core s q f" and "enext e' = enext (pool s ! t)" 
    and "roundable (g_granularity s) (it_interval e')" and "roundable (g_granularity s) (it_value e')"
    and "deleted e' \<Longrightarrow> t \<in> set f"
    and "t \<in> set q \<Longrightarrow> on_grain (g_granularity s) (it_value e') \<and> \<not> cancelled e' \<and> func e' \<noteq> None"
  shows "timers_core (s\<lparr>pool := (pool s)[t := e']\<rparr>) q f"
proof -
  let ?s = "s\<lparr>pool := (pool s)[t := e']\<rparr>"
  have link: "enext (pool ?s ! i) = enext (pool s ! i)" if "i < length (pool s)" for i
    using that assms(2) by (simp add: nth_update_if)
  have "chain ?s p ts" if "chain s p ts" for p ts
    using chain_cong [of ?s s ts p] chain_set [OF that] link that by simp
  moreover have "pool ?s ! i = (if i = t then e' else pool s ! i)" if "i \<in> set q" for i
    using that assms(1) chain_set unfolding timers_core_def by (fastforce simp: nth_update_if)
  ultimately show ?thesis
    using assms unfolding timers_core_def by (auto simp: nth_update_if)
qed

lemma core_fields:
  "timers_core s q f \<Longrightarrow> on_grain (g_granularity s) v \<Longrightarrow> 0 \<le> b \<Longrightarrow>
     timers_core (s\<lparr>itimer := v, block_count := b, alarm_blocked := (0 < b)\<rparr>) q f"
proof -
  assume "timers_core s q f" "on_grain (g_granularity s) v" "0 \<le> b"
  moreover have "chain (s\<lparr>itimer := v, block_count := b, alarm_blocked := (0 < b)\<rparr>) p ts = chain s p ts" for p ts
    by (rule chain_cong) simp_all
  ultimately show ?thesis
    by (simp add: timers_core_def)
qed

lemma core_itimer: "timers_core s q f \<Longrightarrow> on_grain (g_granularity s) v \<Longrightarrow> timers_core (s\<lparr>itimer := v\<rparr>) q f"
proof -
  assume core: "timers_core s q f" "on_grain (g_granularity s) v"
  then have "s\<lparr>itimer := v\<rparr> = s\<lparr>itimer := v, block_count := block_count s, alarm_blocked := (0 < block_count s)\<rparr>"
    by (simp add: timers_core_def)
  then show ?thesis
    using core_fields [OF core, of "block_count s"] core by (simp add: timers_core_def)
qed

lemma block_timer_eq:
  "timers_core s q f \<Longrightarrow>
     block_timer s = s\<lparr>itimer := itimer s, block_count := block_count s + 1, alarm_blocked := (0 < block_count s + 1)\<rparr>"
  by (auto simp: block_timer_def timers_core_def)

lemma unblock_timer_eq:
  "timers_core s q f \<Longrightarrow> 0 < block_count s \<Longrightarrow>
     unblock_timer s = s\<lparr>itimer := itimer s, block_count := block_count s - 1, alarm_blocked := (0 < block_count s - 1)\<rparr>"
  by (auto simp: unblock_timer_def timers_core_def Let_def)

lemma core_block: "timers_core s q f \<Longrightarrow> timers_core (block_timer s) q f"
  using core_fields [of s q f "itimer s" "block_count s + 1"] by (simp only: block_timer_eq) (simp add: timers_core_def)

lemma core_unblock: "timers_core s q f \<Longrightarrow> 0 < block_count s \<Longrightarrow> timers_core (unblock_timer s) q f"
  using core_fields [of s q f "itimer s" "block_count s - 1"] by (simp only: unblock_timer_eq) (simp add: timers_core_def)

lemma block_sel [simp]:
  "pool (block_timer s) = pool s" "event_queue (block_timer s) = event_queue s" "itimer (block_timer s) = itimer s"
  "event_freelist (block_timer s) = event_freelist s" "g_granularity (block_timer s) = g_granularity s"
  "g_maxevents (block_timer s) = g_maxevents s" "block_count (block_timer s) = block_count s + 1"
  "pool (unblock_timer s) = pool s" "event_queue (unblock_timer s) = event_queue s" "itimer (unblock_timer s) = itimer s"
  "event_freelist (unblock_timer s) = event_freelist s" "g_granularity (unblock_timer s) = g_granularity s"
  "g_maxevents (unblock_timer s) = g_maxevents s" "block_count (unblock_timer s) = block_count s - 1"
  by (simp_all add: block_timer_def unblock_timer_def Let_def)

section \<open>Reissuing\<close>

lemma timer_assert_ok: "grain g \<Longrightarrow> norm v \<Longrightarrow> uint g \<le> us v \<Longrightarrow> timer_assert v g"
proof -
  assume v: "grain g" "norm v" "uint g \<le> us v"
  have "g \<le> (word_of_int (tv_usec v) :: 32 word)" if "\<not> 0 < tv_sec v"
  proof -
    have u: "0 \<le> tv_usec v" "tv_usec v < 1000000" "us v = tv_usec v"
      using v that by (simp_all add: norm_def us_def)
    then have "uint (word_of_int (tv_usec v) :: 32 word) = tv_usec v"
      by (simp add: uint_word_of_int)
    then show ?thesis
      using v(3) u(3) by (simp add: word_le_def)
  qed
  then show ?thesis
    by (auto simp: timer_assert_def)
qed

lemma setitimer_norm: "norm v \<Longrightarrow> setitimer v s = s\<lparr>itimer := v\<rparr>"
  by (simp add: setitimer_def norm_def)

lemma reissue_ok:
  assumes g: "g = g_granularity s" "grain g" and v: "roundable g (it_value (pool s ! h))" and h: "h < length (pool s)"
  shows "reissue c h s =
    Some (s\<lparr>pool := (pool s)[h := (pool s ! h)\<lparr>it_value := roundup (it_value (pool s ! h)) g\<rparr>],
            itimer := roundup (it_value (pool s ! h)) g\<rparr>)"
proof -
  let ?v = "roundup (it_value (pool s ! h)) g"
  have v: "norm ?v" "uint g \<le> us ?v"
    using roundup_us [OF g(2) v] rounded_least [of g] by (auto simp: on_grain_def)
  then have "timerisset ?v" "timer_assert ?v g"
    using g(2) by (simp_all add: timerisset_us timer_assert_ok) (simp add: grain_def)
  then show ?thesis
    using h v(1) g timerroundup_Some [OF grain_nonzero [OF g(2)]]
    by (simp add: reissue_def modify_event_ok get_event_ok setitimer_norm Let_def)
qed

end
