(* ===== verification/Timer_Calls.thy ===== *)
theory Timer_Calls
  imports Timer_Safe
begin

text \<open>
  The operations of the timers on well-formed timers: what each of them makes of the queue, the deadlines and the
  interval timer.
\<close>

unbundle bit_operations_syntax

section \<open>Deadlines of the pending timers\<close>

text \<open>What the first event still has to wait is what is left of the interval timer, when that runs.\<close>

definition synced :: "'f timers \<Rightarrow> nat list \<Rightarrow> (nat \<times> int) list" where
  "synced s q =
     (case q of [] \<Rightarrow> []
      | h # r \<Rightarrow> (h, if us (itimer s) = 0 then us (it_value (pool s ! h)) else us (itimer s)) # deltas s r)"

definition pending :: "'f timers \<Rightarrow> nat list \<Rightarrow> (nat \<times> int) list" where
  "pending s q = deadlines 0 (synced s q)"

lemma synced_fst [simp]: "map fst (synced s q) = q"
  by (cases q) (simp_all add: synced_def)

text \<open>The timers at the front of the queue that have nothing left to wait: the handler removes them in one go.\<close>

definition leading :: "(nat \<times> int) list \<Rightarrow> nat" where
  "leading ds = length (takeWhile (\<lambda>p. snd p = 0) ds)"

lemma leading_simps [simp]: "leading [] = 0" "leading (p # ds) = (if snd p = 0 then Suc (leading ds) else 0)"
  by (simp_all add: leading_def)

lemma leading_insert: "0 < v \<Longrightarrow> leading (insert_value t v ds) = leading ds"
  by (induction t v ds rule: insert_value.induct) auto

lemma synced_deltas:
  "us (itimer s) = 0 \<or> us (itimer s) = head_value s q \<Longrightarrow> synced s q = deltas s q"
  by (cases q) (auto simp: synced_def)

lemma leading_synced: "timers_wf s q f \<Longrightarrow> leading (synced s q) = leading (deltas s q)"
proof -
  assume wf: "timers_wf s q f"
  then have "0 \<le> us (itimer s)"
    by (intro us_nonneg) (simp add: timers_wf_def timers_core_def on_grain_def)
  then show ?thesis
    using wf by (cases q) (auto simp: timers_wf_def synced_def)
qed

section \<open>Creating and connecting\<close>

lemma timer_create_ok:
  assumes wf: "timers_wf s q (t # f)" and evp: "evp = None \<or> evp = Some (SIGEV_SIGNAL, SIGALRM)"
  shows "\<exists>s'. timer_create CLOCK_REALTIME evp s = Some (t, s') \<and> timers_wf s' q f \<and> itimer s' = itimer s \<and>
    synced s' q = synced s q \<and> block_count s' = block_count s \<and> length (pool s') = length (pool s) \<and>
    pool s' ! t = (pool s ! t)\<lparr>flags := TFLAG_NONE, enext := None\<rparr>"
proof -
  have core: "timers_core s q (t # f)" and t: "t < length (pool s)" "event_freelist s = Some t"
      "chain s (enext (pool s ! t)) f" "t \<notin> set q" "t \<notin> set f"
    using wf by (simp_all add: timers_wf_def timers_core_def)
  let ?e = "pool s ! t"
  let ?s = "s\<lparr>event_freelist := enext ?e, pool := (pool s)[t := ?e\<lparr>flags := TFLAG_NONE, enext := None\<rparr>]\<rparr>"
  have same: "pool ?s ! i = pool s ! i" if "i \<in> set q \<union> set f" for i
  proof -
    have "i \<noteq> t"
      using that t(4,5) by auto
    then show ?thesis
      by simp
  qed
  have ch: "chain ?s p ts = chain s p ts" if sub: "set ts \<subseteq> set q \<union> set f" for p ts
  proof (rule chain_cong)
    show "enext (pool ?s ! i) = enext (pool s ! i)" if "i \<in> set ts" for i
      by (simp only: same [OF subsetD [OF sub that]])
  qed simp
  have chains: "chain ?s (event_queue s) q" "chain ?s (enext ?e) f"
    using core t(3) by (subst ch; simp add: timers_core_def)+
  have each: "roundable (g_granularity s) (it_interval (pool ?s ! i)) \<and>
      roundable (g_granularity s) (it_value (pool ?s ! i)) \<and> (deleted (pool ?s ! i) \<longrightarrow> i \<in> set f)"
    if "i < length (pool s)" for i
    using that core by (cases "i = t") (auto simp: timers_core_def deleted_bit TFLAG_NONE_def)
  have queue: "on_grain (g_granularity s) (it_value (pool ?s ! i)) \<and> \<not> cancelled (pool ?s ! i) \<and>
      func (pool ?s ! i) \<noteq> None" if "i \<in> set q" for i
    using that core same [of i] by (simp add: timers_core_def)
  have "timers_core ?s q f"
    unfolding timers_core_def using core chains each queue by (simp add: timers_core_def)
  moreover have "head_value ?s q = head_value s q" "synced ?s q = synced s q"
    using same by (cases q; simp add: synced_def deltas_def)+
  moreover have "timer_create CLOCK_REALTIME evp s = Some (t, ?s)"
    using evp t check_ok [OF \<open>timers_core ?s q f\<close>]
    by (auto simp: timer_create_def get_event_ok modify_event_ok Let_def)
  ultimately show ?thesis
    using wf t(1) by (intro exI [of _ ?s]) (simp add: timers_wf_def)
qed

lemma wf_update:
  assumes "timers_wf s q f" and "enext e' = enext (pool s ! t)" 
    and "roundable (g_granularity s) (it_interval e')" and "roundable (g_granularity s) (it_value e')"
    and "deleted e' \<Longrightarrow> t \<in> set f" and "t \<in> set q \<Longrightarrow> \<not> cancelled e' \<and> func e' \<noteq> None"
    and "t \<in> set q \<Longrightarrow> it_value e' = it_value (pool s ! t)"
  shows "timers_wf (s\<lparr>pool := (pool s)[t := e']\<rparr>) q f \<and> synced (s\<lparr>pool := (pool s)[t := e']\<rparr>) q = synced s q"
proof -
  let ?s = "s\<lparr>pool := (pool s)[t := e']\<rparr>"
  have "on_grain (g_granularity s) (it_value e')" if "t \<in> set q"
    using assms(1,7) that by (simp add: timers_wf_def timers_core_def)
  then have core: "timers_core ?s q f"
    using assms by (intro core_update) (simp_all add: timers_wf_def)
  have same: "it_value (pool ?s ! i) = it_value (pool s ! i)" if "i \<in> set q" for i
    using that assms(7) by (cases "i = t"; cases "t < length (pool s)") (simp_all add: list_update_beyond not_less)
  have "head_value ?s q = head_value s q" "synced ?s q = synced s q"
    using same by (cases q; simp add: synced_def deltas_def)+
  then show ?thesis
    using core assms(1) by (simp add: timers_wf_def)
qed

lemma timer_connect_ok:
  assumes wf: "timers_wf s q f" and t: "t < length (pool s)"
  shows "\<exists>s'. timer_connect t (Some g) a s = Some s' \<and> timers_wf s' q f \<and> itimer s' = itimer s \<and>
    synced s' q = synced s q \<and> block_count s' = block_count s"
proof -
  let ?e = "(pool s ! t)\<lparr>func := Some g, arg := a\<rparr>"
  have "timers_wf (s\<lparr>pool := (pool s)[t := ?e]\<rparr>) q f \<and> synced (s\<lparr>pool := (pool s)[t := ?e]\<rparr>) q = synced s q"
    using wf t by (intro wf_update) (auto simp: timers_wf_def timers_core_def cancelled_def deleted_def)
  then show ?thesis
    using t by (intro exI [of _ "s\<lparr>pool := (pool s)[t := ?e]\<rparr>"]) (simp add: timer_connect_def modify_event_ok)
qed

definition valid_time :: "timespec \<Rightarrow> bool" where
  "valid_time ts \<longleftrightarrow> 0 \<le> ts_sec ts \<and> 0 \<le> ts_nsec ts \<and> ts_nsec ts < 1000000000"

text \<open>What a timer may be set to: normalised times that the granularity can round.\<close>

definition valid_spec :: "32 word \<Rightarrow> itimerspec \<Rightarrow> bool" where
  "valid_spec g sp \<longleftrightarrow> valid_time (sp_interval sp) \<and> roundable g (TIMESPEC_TO_TIMEVAL (sp_interval sp)) \<and>
     valid_time (sp_value sp) \<and> roundable g (TIMESPEC_TO_TIMEVAL (sp_value sp))"

lemma to_timeval_norm: "valid_time ts \<Longrightarrow> norm (TIMESPEC_TO_TIMEVAL ts)"
proof -
  assume ts: "valid_time ts"
  have "sgn (ts_nsec ts) * (\<bar>ts_nsec ts\<bar> div 1000) = ts_nsec ts div 1000"
    using ts by (cases "ts_nsec ts = 0") (simp_all add: valid_time_def)
  then have "TIMESPEC_TO_TIMEVAL ts = time_of (ts_sec ts) (ts_nsec ts div 1000)"
    by (simp only: TIMESPEC_TO_TIMEVAL_def)
  moreover have "0 \<le> ts_nsec ts div 1000" "ts_nsec ts div 1000 < 1000000"
    using ts mult_div_mod_eq [of 1000 "ts_nsec ts"] pos_mod_bound [of 1000 "ts_nsec ts"]
    unfolding valid_time_def by linarith+
  ultimately show ?thesis
    using ts by (simp add: norm_def valid_time_def)
qed

text \<open>With a granularity of one microsecond these are all normalised times.\<close>

lemma valid_spec_one: "valid_spec 1 sp \<longleftrightarrow> valid_time (sp_interval sp) \<and> valid_time (sp_value sp)"
  by (auto simp: valid_spec_def roundable_def to_timeval_norm)

lemma change_settime_ok:
  assumes wf: "timers_wf s q f" and t: "t < length (pool s)" "t \<notin> set q" and sp: "valid_spec (g_granularity s) sp"
  shows "timer_change_settime t sp s = Some (s\<lparr>pool := (pool s)[t := (pool s ! t)
      \<lparr>it_interval := TIMESPEC_TO_TIMEVAL (sp_interval sp), it_value := TIMESPEC_TO_TIMEVAL (sp_value sp)\<rparr>]\<rparr>) \<and>
    timers_wf (s\<lparr>pool := (pool s)[t := (pool s ! t)
      \<lparr>it_interval := TIMESPEC_TO_TIMEVAL (sp_interval sp), it_value := TIMESPEC_TO_TIMEVAL (sp_value sp)\<rparr>]\<rparr>) q f \<and>
    synced (s\<lparr>pool := (pool s)[t := (pool s ! t)
      \<lparr>it_interval := TIMESPEC_TO_TIMEVAL (sp_interval sp), it_value := TIMESPEC_TO_TIMEVAL (sp_value sp)\<rparr>]\<rparr>) q = synced s q"
proof -
  let ?e = "(pool s ! t)\<lparr>it_interval := TIMESPEC_TO_TIMEVAL (sp_interval sp), it_value := TIMESPEC_TO_TIMEVAL (sp_value sp)\<rparr>"
  have "timers_wf (s\<lparr>pool := (pool s)[t := ?e]\<rparr>) q f \<and> synced (s\<lparr>pool := (pool s)[t := ?e]\<rparr>) q = synced s q"
    using wf t sp
    by (intro wf_update) (auto simp: timers_wf_def timers_core_def cancelled_def deleted_def valid_spec_def)
  then show ?thesis
    using t(1) by (simp add: timer_change_settime_def modify_event_ok)
qed

section \<open>Cancelling\<close>

lemma cancel_loop_idle:
  "read_link l s = Some p \<Longrightarrow> chain s p q \<Longrightarrow> t \<notin> set q \<Longrightarrow> cancel_loop t l s = Some s"
proof (induction q arbitrary: l p)
  case Nil
  then show ?case
    by (subst cancel_loop.simps) simp
next
  case (Cons u q)
  then have "cancel_loop t (Next u) s = Some s"
    by (intro Cons.IH [of "Next u" "enext (pool s ! u)"]) (simp_all add: get_event_ok)
  then show ?case
    using Cons.prems by (subst cancel_loop.simps) simp
qed

lemma cancel_loop_found:
  "read_link l s = Some p \<Longrightarrow> chain s p (q1 @ t # q2) \<Longrightarrow> t \<notin> set q1 \<Longrightarrow>
     cancel_loop t l s = cancel_found t (if q1 = [] then l else Next (last q1)) s"
proof (induction q1 arbitrary: l p)
  case Nil
  then show ?case
    by (subst cancel_loop.simps) simp
next
  case (Cons u q1)
  then have "cancel_loop t (Next u) s = cancel_found t (if q1 = [] then Next u else Next (last q1)) s"
    by (intro Cons.IH [of "Next u" "enext (pool s ! u)"]) (simp_all add: get_event_ok)
  moreover have "cancel_loop t l s = cancel_loop t (Next u) s"
    using Cons.prems by (subst cancel_loop.simps) simp
  ultimately show ?case
    by simp
qed

lemma chain_append:
  "chain s p (xs @ t # ys) \<Longrightarrow> t < length (pool s) \<and> chain s (enext (pool s ! t)) ys \<and> (xs \<noteq> [] \<longrightarrow> enext (pool s ! last xs) = Some t)"
proof (induction xs arbitrary: p)
  case (Cons u xs)
  then show ?case
    by (cases xs) auto
qed simp

end
