(* ===== verification/Timer_Cancel.thy ===== *)
theory Timer_Cancel
  imports Timer_Calls
begin

text \<open>
  Cancelling and deleting well-formed timers: the event leaves the queue, and what its cancellation makes of the
  deadlines of the others.
\<close>

unbundle bit_operations_syntax

section \<open>Taking an event out of the queue\<close>

definition frame :: "'f timers \<Rightarrow> 'f timers \<Rightarrow> bool" where
  "frame s s' \<longleftrightarrow>
     length (pool s') = length (pool s) \<and> event_freelist s' = event_freelist s \<and>
     g_granularity s' = g_granularity s \<and> g_maxevents s' = g_maxevents s \<and> block_count s' = block_count s \<and>
     alarm_blocked s' = alarm_blocked s \<and> on_grain (g_granularity s) (itimer s') \<and>
     (\<forall>i < length (pool s). it_interval (pool s' ! i) = it_interval (pool s ! i) \<and> func (pool s' ! i) = func (pool s ! i) \<and>
        flags (pool s' ! i) = flags (pool s ! i) \<and> roundable (g_granularity s) (it_value (pool s' ! i)))"

lemma frame_flags:
  "frame s s' \<Longrightarrow> i < length (pool s) \<Longrightarrow>
     cancelled (pool s' ! i) = cancelled (pool s ! i) \<and> deleted (pool s' ! i) = deleted (pool s ! i)"
  by (simp add: frame_def cancelled_def deleted_def)

lemma frame_core:
  assumes core: "timers_core s q f" and fr: "frame s s'"
    and q: "chain s' (event_queue s') q'" and f: "chain s' (event_freelist s) f'" and d: "distinct (q' @ f')"
    and sub: "set q' \<subseteq> set q" "set f \<subseteq> set f'"
    and v: "\<And>i. i \<in> set q' \<Longrightarrow> on_grain (g_granularity s) (it_value (pool s' ! i))"
  shows "timers_core s' q' f'"
proof -
  have "deleted (pool s' ! i) \<longrightarrow> i \<in> set f'" if "i < length (pool s)" for i
    using frame_flags [OF fr that] core that sub(2) unfolding timers_core_def by blast
  moreover have "on_grain (g_granularity s) (it_value (pool s' ! i)) \<and> \<not> cancelled (pool s' ! i) \<and> func (pool s' ! i) \<noteq> None"
    if "i \<in> set q'" for i
  proof -
    have "i \<in> set q" "i < length (pool s)"
      using that sub(1) core chain_set unfolding timers_core_def by (blast, fastforce)
    then show ?thesis
      using frame_flags [OF fr] fr core v [OF that] by (simp add: frame_def timers_core_def)
  qed
  ultimately show ?thesis
    using core fr q f d by (simp add: timers_core_def frame_def)
qed

lemma chain_remove:
  assumes "chain s p (q1 @ t # q2)" and "distinct (q1 @ t # q2)" and "length (pool s') = length (pool s)"
    and "\<And>i. i \<in> set (q1 @ q2) \<Longrightarrow>
      enext (pool s' ! i) = (if q1 \<noteq> [] \<and> i = last q1 then enext (pool s ! t) else enext (pool s ! i))"
  shows "chain s' (if q1 = [] then enext (pool s ! t) else p) (q1 @ q2)"
  using assms
proof (induction q1 arbitrary: p)
  case Nil
  then show ?case
    using chain_cong [of s' s q2 "enext (pool s ! t)"] by simp
next
  case (Cons u q1)
  have u: "p = Some u" "u < length (pool s)" "chain s (enext (pool s ! u)) (q1 @ t # q2)" "u \<notin> set q1"
    using Cons.prems by simp_all
  have "chain s' (if q1 = [] then enext (pool s ! t) else enext (pool s ! u)) (q1 @ q2)"
  proof (rule Cons.IH)
    show "enext (pool s' ! i) = (if q1 \<noteq> [] \<and> i = last q1 then enext (pool s ! t) else enext (pool s ! i))"
      if "i \<in> set (q1 @ q2)" for i
      using Cons.prems(2,4) that by (cases "q1 = []") auto
  qed (use Cons.prems u in simp_all)
  moreover have "enext (pool s' ! u) = (if q1 = [] then enext (pool s ! t) else enext (pool s ! u))"
    using Cons.prems(4) [of u] u(4) by (cases "q1 = []") auto
  ultimately show ?case
    using u Cons.prems(3) by simp
qed

lemma core_unlink:
  assumes core: "timers_core s (q1 @ t # q2) f" and fr: "frame s s'"
    and q: "event_queue s' = (if q1 = [] then enext (pool s ! t) else event_queue s)"
    and links: "\<And>i. i < length (pool s) \<Longrightarrow> i \<noteq> t \<Longrightarrow>
      enext (pool s' ! i) = (if q1 \<noteq> [] \<and> i = last q1 then enext (pool s ! t) else enext (pool s ! i))"
    and v: "\<And>i. i \<in> set (q1 @ q2) \<Longrightarrow> on_grain (g_granularity s) (it_value (pool s' ! i))"
  shows "timers_core s' (q1 @ q2) f"
proof (rule frame_core [OF core fr])
  have dist: "distinct (q1 @ t # q2)" "t \<notin> set f" "set q1 \<inter> set f = {}"
    and ch: "chain s (event_queue s) (q1 @ t # q2)" "chain s (event_freelist s) f"
    using core by (auto simp: timers_core_def)
  have len: "length (pool s') = length (pool s)"
    using fr by (simp add: frame_def)
  have "chain s' (if q1 = [] then enext (pool s ! t) else event_queue s) (q1 @ q2)"
  proof (rule chain_remove [OF ch(1) dist(1) len])
    fix i
    assume i: "i \<in> set (q1 @ q2)"
    then have "i < length (pool s)" "i \<noteq> t"
      using chain_set [OF ch(1), of i] dist(1) by auto
    then show "enext (pool s' ! i) = (if q1 \<noteq> [] \<and> i = last q1 then enext (pool s ! t) else enext (pool s ! i))"
      by (rule links)
  qed
  then show "chain s' (event_queue s') (q1 @ q2)"
    using q by simp
  have "enext (pool s' ! i) = enext (pool s ! i)" if "i \<in> set f" for i
  proof -
    have "i < length (pool s)" "i \<noteq> t" "q1 \<noteq> [] \<longrightarrow> i \<noteq> last q1"
      using chain_set [OF ch(2) that] that dist(2,3) last_in_set [of q1] by (simp, blast, blast)
    then show ?thesis
      using links [of i] by auto
  qed
  then show "chain s' (event_freelist s) f"
    using chain_cong [OF len, of f] ch(2) by simp
  show "distinct ((q1 @ q2) @ f)"
    using core by (auto simp: timers_core_def)
  show "set (q1 @ q2) \<subseteq> set (q1 @ t # q2)"
    by auto
qed (use v in simp_all)

section \<open>The three cases of a cancellation\<close>

lemma cancel_found_only:
  assumes "t < length (pool s)" and "enext (pool s ! t) = None"
  shows "cancel_found t Head s =
    Some (s\<lparr>event_queue := None, pool := (pool s)[t := (pool s ! t)\<lparr>enext := None\<rparr>], itimer := timerclear\<rparr>)"
  using assms by (simp add: cancel_found_def get_event_ok modify_event_ok setitimer_norm)

lemma cancel_found_head:
  assumes t: "t < length (pool s)" "event_queue s = Some t" "enext (pool s ! t) = Some n" and n: "n < length (pool s)" "n \<noteq> t"
    and g: "grain (g_granularity s)"
    and v: "on_grain (g_granularity s) (it_value (pool s ! t))" "on_grain (g_granularity s) (it_value (pool s ! n))"
      "on_grain (g_granularity s) (itimer s)"
    and le: "us (itimer s) \<le> us (it_value (pool s ! t))"
  shows "\<exists>s' x y. cancel_found t Head s = Some s' \<and> event_queue s' = Some n \<and> event_freelist s' = event_freelist s \<and>
    g_granularity s' = g_granularity s \<and> g_maxevents s' = g_maxevents s \<and> block_count s' = block_count s \<and> alarm_blocked s' = alarm_blocked s \<and> itimer s' = y \<and>
    on_grain (g_granularity s) x \<and> on_grain (g_granularity s) y \<and> us y = rounded (g_granularity s) (us (it_value (pool s ! n)) + (us (it_value (pool s ! t)) - us (itimer s))) \<and>
    length (pool s') = length (pool s) \<and>
    (\<forall>i < length (pool s). pool s' ! i =
       (if i = t then (pool s ! i)\<lparr>it_value := x, enext := None\<rparr>
        else if i = n then (pool s ! i)\<lparr>it_value := y\<rparr> else pool s ! i))"
proof -
  let ?e = "pool s ! t" and ?d = "pool s ! n" and ?g = "g_granularity s"
  let ?x = "timersub (it_value ?e) (itimer s)"
  let ?y = "timeradd (it_value ?d) ?x"
  have nv: "norm (it_value ?e)" "norm (it_value ?d)" "norm (itimer s)"
    using v by (simp_all add: on_grain_def)
  have x: "on_grain ?g ?x" "us ?x = us (it_value ?e) - us (itimer s)"
    using timersub_us [OF nv(1,3) le] v by (simp_all add: on_grain_def)
  have y: "on_grain ?g ?y" "us ?y = us (it_value ?d) + us ?x"
    using timeradd_us [OF nv(2) on_grain_norm(1) [OF x(1)]] v(2) x(1) by (simp_all add: on_grain_def)
  have z: "on_grain ?g (roundup ?y ?g)" "us (roundup ?y ?g) = rounded ?g (us ?y)"
    using roundup_us [OF g on_grain_norm(2) [OF y(1)]] by simp_all
  let ?s = "s\<lparr>event_queue := Some n,
      pool := (pool s)[t := ?e\<lparr>it_value := ?x\<rparr>, n := ?d\<lparr>it_value := ?y\<rparr>, t := ?e\<lparr>it_value := ?x, enext := None\<rparr>,
        n := ?d\<lparr>it_value := roundup ?y ?g\<rparr>], itimer := roundup ?y ?g\<rparr>"
  have "cancel_found t Head s = Some ?s"
    using t n g on_grain_norm(2) [OF y(1)] by (simp add: cancel_found_def get_event_ok modify_event_ok reissue_ok [OF refl])
  then show ?thesis
    using t n g x y(2) z
    by (intro exI [of _ ?s] exI [of _ ?x] exI [of _ "roundup ?y ?g"]) (simp add: nth_update_if)
qed

lemma cancel_found_inner:
  assumes t: "t < length (pool s)" "event_queue s = Some h" "enext (pool s ! u) = Some t"
    and u: "u < length (pool s)" "u \<noteq> t" and h: "h < length (pool s)" "h \<noteq> t"
    and g: "grain (g_granularity s)" and v: "on_grain (g_granularity s) (it_value (pool s ! h))"
  shows "\<exists>s' y. cancel_found t (Next u) s = Some s' \<and> event_queue s' = Some h \<and> event_freelist s' = event_freelist s \<and>
    g_granularity s' = g_granularity s \<and> g_maxevents s' = g_maxevents s \<and> block_count s' = block_count s \<and> alarm_blocked s' = alarm_blocked s \<and> itimer s' = y \<and>
    on_grain (g_granularity s) y \<and> us y = rounded (g_granularity s) (us (it_value (pool s ! h))) \<and> length (pool s') = length (pool s) \<and>
    (\<forall>i < length (pool s). pool s' ! i =
       (if i = t then (pool s ! i)\<lparr>enext := None\<rparr>
        else (pool s ! i)\<lparr>enext := if i = u then enext (pool s ! t) else enext (pool s ! i),
                          it_value := if i = h then y else it_value (pool s ! i)\<rparr>))"
proof -
  let ?e = "pool s ! t" and ?g = "g_granularity s"
  let ?y = "roundup (it_value (pool s ! h)) ?g"
  let ?p = "(pool s)[u := (pool s ! u)\<lparr>enext := enext ?e\<rparr>, t := ?e\<lparr>enext := None\<rparr>]"
  let ?s = "s\<lparr>pool := ?p[h := (?p ! h)\<lparr>it_value := ?y\<rparr>], itimer := ?y\<rparr>"
  have y: "on_grain ?g ?y" "us ?y = rounded ?g (us (it_value (pool s ! h)))"
    using roundup_us [OF g on_grain_norm(2) [OF v]] by simp_all
  have hv: "it_value (?p ! h) = it_value (pool s ! h)"
    using h by (simp add: nth_update_if)
  have "(case enext ?e of None \<Rightarrow> Some s
       | Some n \<Rightarrow> if event_queue s = Some t then X n else Some s) = Some s" for X
    using t h by (simp split: option.split)
  then have "cancel_found t (Next u) s = reissue True h (s\<lparr>pool := ?p\<rparr>)"
    using t u h by (simp add: cancel_found_def get_event_ok modify_event_ok nth_update_if)
  also have "\<dots> = Some ?s"
    using reissue_ok [of ?g "s\<lparr>pool := ?p\<rparr>" h True] on_grain_norm(2) [OF v] h g hv by simp
  finally show ?thesis
    using t u h g y by (intro exI [of _ ?s] exI [of _ ?y]) (auto simp: nth_update_if)
qed

section \<open>The operation\<close>

lemma wf_block:
  "timers_wf s q f \<Longrightarrow> timers_wf (block_timer s) q f \<and> synced (block_timer s) q = synced s q"
  using core_block [of s q f] by (cases q) (auto simp: timers_wf_def synced_def deltas_def)

lemma wf_unblock:
  "timers_wf s q f \<Longrightarrow> 0 < block_count s \<Longrightarrow> timers_wf (unblock_timer s) q f \<and> synced (unblock_timer s) q = synced s q"
  using core_unblock [of s q f] by (cases q) (auto simp: timers_wf_def synced_def deltas_def)

definition cancel_mark :: "nat \<Rightarrow> 'f timers \<Rightarrow> 'f timers" where
  "cancel_mark t s =
     unblock_timer (s\<lparr>pool := (pool s)[t := (pool s ! t)\<lparr>flags := flags (pool s ! t) OR TFLAG_CANCELLED\<rparr>]\<rparr>)"

lemma cancel_mark_sel [simp]:
  "itimer (cancel_mark t s) = itimer s" "block_count (cancel_mark t s) = block_count s - 1"
  "length (pool (cancel_mark t s)) = length (pool s)"
  by (simp_all add: cancel_mark_def)

lemma cancel_mark_wf:
  assumes wf: "timers_wf s q f" and t: "t < length (pool s)" "t \<notin> set q" and b: "0 < block_count s"
  shows "timers_wf (cancel_mark t s) q f \<and> synced (cancel_mark t s) q = synced s q"
proof -
  let ?e = "(pool s ! t)\<lparr>flags := flags (pool s ! t) OR TFLAG_CANCELLED\<rparr>"
  have "timers_wf (s\<lparr>pool := (pool s)[t := ?e]\<rparr>) q f \<and> synced (s\<lparr>pool := (pool s)[t := ?e]\<rparr>) q = synced s q"
    using wf t by (intro wf_update) (auto simp: timers_wf_def timers_core_def deleted_bit bit_simps TFLAG_CANCELLED_def)
  then show ?thesis
    using wf_unblock [of "s\<lparr>pool := (pool s)[t := ?e]\<rparr>" q f] b by (simp add: cancel_mark_def)
qed

lemma timer_cancel_marks:
  assumes "t < length (pool s)" and "\<not> cancelled (pool s ! t)" and "cancel_loop t Head (block_timer s) = Some s'"
    and "length (pool s') = length (pool s)"
  shows "timer_cancel t s = Some (cancel_mark t s')"
  using assms
  by (simp add: timer_cancel_def get_event_ok modify_event_ok cancelled_def cancel_mark_def)

text \<open>An event that is not in the queue.\<close>

lemma timer_cancel_idle:
  assumes wf: "timers_wf s q f" and t: "t < length (pool s)" "t \<notin> set q"
  shows "\<exists>s'. timer_cancel t s = Some s' \<and> timers_wf s' q f \<and> itimer s' = itimer s \<and> synced s' q = synced s q \<and>
    block_count s' = block_count s \<and> length (pool s') = length (pool s) \<and>
    (\<exists>w. pool s' ! t = (pool s ! t)\<lparr>flags := w\<rparr>)"
proof (cases "cancelled (pool s ! t)")
  case True
  then have "timer_cancel t s = Some s"
    using t by (simp add: timer_cancel_def get_event_ok cancelled_def)
  then show ?thesis
    using wf by (intro exI [of _ s]) (simp add: exI [of _ "flags (pool s ! t)"])
next
  case False
  have wb: "timers_wf (block_timer s) q f \<and> synced (block_timer s) q = synced s q"
    using wf_block [OF wf] .
  have "cancel_loop t Head (block_timer s) = Some (block_timer s)"
    using wb t by (intro cancel_loop_idle [of _ _ _ q]) (auto simp: timers_wf_def timers_core_def)
  then have "timer_cancel t s = Some (cancel_mark t (block_timer s))"
    using t False by (intro timer_cancel_marks) simp_all
  moreover have "timers_wf (cancel_mark t (block_timer s)) q f \<and> synced (cancel_mark t (block_timer s)) q = synced s q"
    using cancel_mark_wf [of "block_timer s" q f t] wb t wf by (simp add: timers_wf_def timers_core_def)
  ultimately show ?thesis
    using t(1) by (intro exI [of _ "cancel_mark t (block_timer s)"]) (auto simp: cancel_mark_def)
qed

text \<open>An event in the queue: what is left of the deadlines.\<close>

definition cancel_values :: "'f timers \<Rightarrow> nat list \<Rightarrow> nat \<Rightarrow> nat list \<Rightarrow> (nat \<times> int) list" where
  "cancel_values s q1 t q2 =
     (case q1 of
        [] \<Rightarrow> (case q2 of
                 [] \<Rightarrow> []
               | n # r \<Rightarrow> (n, rounded (g_granularity s) (us (it_value (pool s ! n)) + (us (it_value (pool s ! t)) - us (itimer s)))) # deltas s r)
      | h # r \<Rightarrow> (h, rounded (g_granularity s) (us (it_value (pool s ! h)))) # deltas s (r @ q2))"

definition cancel_left :: "'f timers \<Rightarrow> 'f timers \<Rightarrow> nat list \<Rightarrow> nat list \<Rightarrow> (nat \<times> int) list \<Rightarrow> bool" where
  "cancel_left s s' q f ds \<longleftrightarrow>
     timers_wf s' q f \<and> synced s' q = ds \<and> (q \<noteq> [] \<longrightarrow> 0 < us (itimer s')) \<and> (q = [] \<longrightarrow> itimer s' = timerclear) \<and>
     block_count s' = block_count s \<and> length (pool s') = length (pool s) \<and>
     (\<forall>i < length (pool s). it_interval (pool s' ! i) = it_interval (pool s ! i))"

lemma timer_cancel_frees:
  assumes core: "timers_core s (q1 @ t # q2) f"
    and found: "cancel_found t (if q1 = [] then Head else Next (last q1)) (block_timer s) = Some s1"
    and left: "timers_wf s1 (q1 @ q2) f" "block_count s1 = block_count s + 1" "frame (block_timer s) s1"
    and t: "q1 @ q2 \<noteq> [] \<Longrightarrow> 0 < us (itimer s1)" "q1 @ q2 = [] \<Longrightarrow> itimer s1 = timerclear"
  shows "timer_cancel t s = Some (cancel_mark t s1) \<and> cancel_left s (cancel_mark t s1) (q1 @ q2) f (synced s1 (q1 @ q2))"
proof -
  have tl: "t < length (pool s)" "\<not> cancelled (pool s ! t)" "t \<notin> set (q1 @ q2)"
    using core chain_set [of s "event_queue s" "q1 @ t # q2" t] by (auto simp: timers_core_def)
  have fr: "length (pool s1) = length (pool s)"
      "\<forall>i < length (pool s). it_interval (pool s1 ! i) = it_interval (pool s ! i)"
    using left(3) by (simp_all add: frame_def)
  have "it_interval (pool (cancel_mark t s1) ! i) = it_interval (pool s1 ! i)" if "i < length (pool s)" for i
    using that fr(1) by (simp add: cancel_mark_def nth_update_if)
  then have iv: "\<forall>i < length (pool s). it_interval (pool (cancel_mark t s1) ! i) = it_interval (pool s ! i)"
    using fr(2) by simp
  have "chain (block_timer s) (event_queue s) (q1 @ t # q2)" "t \<notin> set q1"
    using core_block [OF core] by (simp_all add: timers_core_def)
  then have "cancel_loop t Head (block_timer s) = Some s1"
    using cancel_loop_found [of Head "block_timer s" "event_queue s" q1 t q2] found by simp
  then have "timer_cancel t s = Some (cancel_mark t s1)"
    using tl fr(1) by (intro timer_cancel_marks) simp_all
  then show ?thesis
    using cancel_mark_wf [OF left(1), of t] tl left(1,2) fr(1) iv t core by (simp add: cancel_left_def timers_core_def)
qed

lemma core_sel:
  assumes "timers_core s q f"
  shows "event_queue s = (case q of [] \<Rightarrow> None | h # _ \<Rightarrow> Some h)" "grain (g_granularity s)"
    "on_grain (g_granularity s) (itimer s)" "distinct q"
    "i < length (pool s) \<Longrightarrow> roundable (g_granularity s) (it_value (pool s ! i))"
    "i < length (pool s) \<Longrightarrow> roundable (g_granularity s) (it_interval (pool s ! i))"
    "i \<in> set q \<Longrightarrow> i < length (pool s)" "i \<in> set q \<Longrightarrow> on_grain (g_granularity s) (it_value (pool s ! i))"
proof -
  show "event_queue s = (case q of [] \<Rightarrow> None | h # _ \<Rightarrow> Some h)"
    using assms by (cases q) (simp_all add: timers_core_def)
  show "i \<in> set q \<Longrightarrow> i < length (pool s)"
    using assms chain_set [of s "event_queue s" q i] by (simp add: timers_core_def)
qed (use assms in \<open>simp_all add: timers_core_def\<close>)

lemma timer_cancel_only:
  assumes wf: "timers_wf s [t] f"
  shows "\<exists>s'. timer_cancel t s = Some s' \<and> cancel_left s s' [] f []"
proof -
  have core: "timers_core s [t] f" and t: "t < length (pool s)" "enext (pool s ! t) = None"
    using wf by (simp_all add: timers_wf_def timers_core_def)
  let ?b = "block_timer s"
  let ?s = "?b\<lparr>event_queue := None, pool := (pool s)[t := (pool s ! t)\<lparr>enext := None\<rparr>], itimer := timerclear\<rparr>"
  have found: "cancel_found t (if [] = [] then Head else Next (last [])) ?b = Some ?s"
    using cancel_found_only [of t ?b] t by simp
  have fr: "frame ?b ?s"
    using core_sel(5) [OF core] by (simp add: frame_def nth_update_if)
  then have "timers_core ?s ([] @ []) f"
    using core_block [OF core] t by (intro core_unlink [of ?b "[]" t "[]"]) simp_all
  then have "timers_wf ?s ([] @ []) f"
    by (simp add: timers_wf_def)
  then show ?thesis
    using timer_cancel_frees [of s "[]" t "[]" f ?s] core found fr by (auto simp: synced_def)
qed

lemma timer_cancel_head:
  assumes wf: "timers_wf s (t # n # r) f"
  shows "\<exists>s'. timer_cancel t s = Some s' \<and> cancel_left s s' (n # r) f (cancel_values s [] t (n # r))"
proof -
  let ?b = "block_timer s"
  have core: "timers_core s (t # n # r) f" and le: "us (itimer s) \<le> us (it_value (pool s ! t))"
    using wf by (simp_all add: timers_wf_def)
  have t: "t < length (pool s)" "event_queue s = Some t" "enext (pool s ! t) = Some n" "n < length (pool s)" "n \<noteq> t"
      "n \<notin> set r" "t \<notin> set r"
    using core by (simp_all add: timers_core_def)
  have "\<exists>s' x y. cancel_found t Head ?b = Some s' \<and> event_queue s' = Some n \<and> event_freelist s' = event_freelist ?b \<and>
      g_granularity s' = g_granularity ?b \<and> g_maxevents s' = g_maxevents ?b \<and> block_count s' = block_count ?b \<and> alarm_blocked s' = alarm_blocked ?b \<and> itimer s' = y \<and>
      on_grain (g_granularity ?b) x \<and> on_grain (g_granularity ?b) y \<and> us y = rounded (g_granularity ?b) (us (it_value (pool ?b ! n)) + (us (it_value (pool ?b ! t)) - us (itimer ?b))) \<and>
      length (pool s') = length (pool ?b) \<and>
      (\<forall>i < length (pool ?b). pool s' ! i =
         (if i = t then (pool ?b ! i)\<lparr>it_value := x, enext := None\<rparr>
          else if i = n then (pool ?b ! i)\<lparr>it_value := y\<rparr> else pool ?b ! i))"
    using t le core_sel [OF core] by (intro cancel_found_head) simp_all
  then obtain s1 x y where s1: "cancel_found t Head ?b = Some s1" "event_queue s1 = Some n"
      "event_freelist s1 = event_freelist s" "g_granularity s1 = g_granularity s" "g_maxevents s1 = g_maxevents s"
      "block_count s1 = block_count s + 1" "itimer s1 = y" "alarm_blocked s1 = alarm_blocked ?b"
      "on_grain (g_granularity s) x" "on_grain (g_granularity s) y"
      "us y = rounded (g_granularity s) (us (it_value (pool s ! n)) + (us (it_value (pool s ! t)) - us (itimer s)))"
      "length (pool s1) = length (pool s)"
    and p: "\<And>i. i < length (pool s) \<Longrightarrow> pool s1 ! i =
       (if i = t then (pool s ! i)\<lparr>it_value := x, enext := None\<rparr> else if i = n then (pool s ! i)\<lparr>it_value := y\<rparr> else pool s ! i)"
    by auto
  have fr: "frame ?b s1"
    using s1 core_sel [OF core] by (simp add: frame_def p on_grain_norm(2))
  have gr: "on_grain (g_granularity s) (it_value (pool s1 ! i))" if "i \<in> set ([] @ n # r)" for i
    using that t s1(9,10) core_sel(7,8) [OF core, of i] by (auto simp: p)
  have "timers_core s1 ([] @ n # r) f"
    using fr gr core_block [OF core] t s1(2) by (intro core_unlink [of ?b "[]" t "n # r"]) (simp_all add: p)
  then have "timers_wf s1 ([] @ n # r) f"
    using t s1 by (simp add: timers_wf_def p)
  moreover have "synced s1 ([] @ n # r) = cancel_values s [] t (n # r)"
  proof -
    have "deltas s1 r = deltas s r"
    proof (rule deltas_cong)
      show "it_value (pool s1 ! i) = it_value (pool s ! i)" if "i \<in> set r" for i
        using that t core_sel(7) [OF core, of i] by (simp add: p) auto
    qed
    then show ?thesis
      using s1 rounded_simps [OF core_sel(2) [OF core]] by (simp add: synced_def cancel_values_def)
  qed
  ultimately show ?thesis
    using timer_cancel_frees [of s "[]" t "n # r" f s1] core s1 fr rounded_simps [OF core_sel(2) [OF core]] by auto
qed

lemma timer_cancel_inner:
  assumes wf: "timers_wf s (h # r @ t # q2) f"
  shows "\<exists>s'. timer_cancel t s = Some s' \<and> cancel_left s s' (h # r @ q2) f (cancel_values s (h # r) t q2)"
proof -
  let ?b = "block_timer s" and ?u = "last (h # r)"
  have core: "timers_core s ((h # r) @ t # q2) f"
    using wf by (simp add: timers_wf_def)
  have q: "event_queue s = Some h" "t \<noteq> h" "h \<notin> set r" "h \<notin> set q2" "t \<notin> set (r @ q2)" "h < length (pool s)"
    using core by (auto simp: timers_core_def)
  have u: "?u \<in> set (h # r)"
    by (rule last_in_set) simp
  have ch: "chain s (event_queue s) ((h # r) @ t # q2)"
    using core by (simp add: timers_core_def)
  have t: "t < length (pool s)" "enext (pool s ! ?u) = Some t" "?u < length (pool s)" "?u \<noteq> t"
    using chain_append [OF ch] core_sel(7) [OF core, of ?u] u q by auto
  have "\<exists>s' y. cancel_found t (Next ?u) ?b = Some s' \<and> event_queue s' = Some h \<and> event_freelist s' = event_freelist ?b \<and>
      g_granularity s' = g_granularity ?b \<and> g_maxevents s' = g_maxevents ?b \<and> block_count s' = block_count ?b \<and> alarm_blocked s' = alarm_blocked ?b \<and> itimer s' = y \<and>
      on_grain (g_granularity ?b) y \<and> us y = rounded (g_granularity ?b) (us (it_value (pool ?b ! h))) \<and> length (pool s') = length (pool ?b) \<and>
      (\<forall>i < length (pool ?b). pool s' ! i =
         (if i = t then (pool ?b ! i)\<lparr>enext := None\<rparr>
          else (pool ?b ! i)\<lparr>enext := if i = ?u then enext (pool ?b ! t) else enext (pool ?b ! i),
                            it_value := if i = h then y else it_value (pool ?b ! i)\<rparr>))"
    using t q core_sel [OF core] by (intro cancel_found_inner) (simp_all only: block_sel, simp_all)
  then obtain s1 y where s1: "cancel_found t (Next ?u) ?b = Some s1" "event_queue s1 = Some h"
      "event_freelist s1 = event_freelist s" "g_granularity s1 = g_granularity s" "g_maxevents s1 = g_maxevents s"
      "block_count s1 = block_count s + 1" "itimer s1 = y" "alarm_blocked s1 = alarm_blocked ?b"
      "on_grain (g_granularity s) y" "us y = rounded (g_granularity s) (us (it_value (pool s ! h)))"
      "length (pool s1) = length (pool s)"
    and p: "\<And>i. i < length (pool s) \<Longrightarrow> pool s1 ! i =
       (if i = t then (pool s ! i)\<lparr>enext := None\<rparr>
          else (pool s ! i)\<lparr>enext := if i = ?u then enext (pool s ! t) else enext (pool s ! i),
                            it_value := if i = h then y else it_value (pool s ! i)\<rparr>)"
    by (auto simp del: last.simps)
  have fr: "frame ?b s1"
    using s1 core_sel [OF core] by (simp add: frame_def p on_grain_norm(2))
  have gr: "on_grain (g_granularity s) (it_value (pool s1 ! i))" if "i \<in> set ((h # r) @ q2)" for i
    using that q s1(9) core_sel(7,8) [OF core, of i] by (auto simp: p)
  have core1: "timers_core s1 ((h # r) @ q2) f"
    using fr gr core_block [OF core] q s1(2) by (intro core_unlink [of ?b "h # r" t q2]) (simp_all add: p del: last.simps)
  then have wf1: "timers_wf s1 ((h # r) @ q2) f"
    using q t s1 by (simp add: timers_wf_def p)
  have "deltas s1 (r @ q2) = deltas s (r @ q2)"
  proof (rule deltas_cong)
    show "it_value (pool s1 ! i) = it_value (pool s ! i)" if "i \<in> set (r @ q2)" for i
      using that q core_sel(7) [OF core, of i] by (auto simp: p)
  qed
  then have "synced s1 ((h # r) @ q2) = cancel_values s (h # r) t q2"
    using s1 q rounded_simps [OF core_sel(2) [OF core]] by (simp add: synced_def cancel_values_def)
  then show ?thesis
    using timer_cancel_frees [of s "h # r" t q2 f s1] core s1 fr wf1 rounded_simps [OF core_sel(2) [OF core]]
    by (auto simp del: last.simps)
qed

lemma timer_cancel_queued:
  assumes wf: "timers_wf s (q1 @ t # q2) f"
  shows "\<exists>s'. timer_cancel t s = Some s' \<and> cancel_left s s' (q1 @ q2) f (cancel_values s q1 t q2)"
proof (cases q1)
  case Nil
  then show ?thesis
    using wf timer_cancel_only [of s t f] timer_cancel_head [of s t _ _ f] by (cases q2) (auto simp: cancel_values_def)
next
  case (Cons h r)
  then show ?thesis
    using wf timer_cancel_inner [of s h r t q2 f] by simp
qed

lemma cancel_values_leading: "grain (g_granularity s) \<Longrightarrow> leading (cancel_values s q1 t q2) = 0"
  by (auto simp: cancel_values_def rounded_simps split: list.split)

lemma timer_cancel_wf:
  assumes wf: "timers_wf s q f" and t: "t < length (pool s)"
  shows "\<exists>s'. timer_cancel t s = Some s' \<and> timers_wf s' (remove1 t q) f \<and> (running s q \<longrightarrow> running s' (remove1 t q)) \<and>
    leading (synced s' (remove1 t q)) \<le> leading (synced s q) \<and>
    block_count s' = block_count s \<and> length (pool s') = length (pool s)"
proof (cases "t \<in> set q")
  case True
  then obtain q1 q2 where q: "q = q1 @ t # q2" "t \<notin> set q1"
    by (meson split_list_first)
  then have "remove1 t q = q1 @ q2"
    by (simp add: remove1_append)
  then show ?thesis
    using timer_cancel_queued [of s q1 t q2 f] wf q(1)
    by (auto simp: cancel_left_def running_def timers_wf_def timers_core_def cancel_values_leading)
next
  case False
  then show ?thesis
    using timer_cancel_idle [OF wf t] by (fastforce simp: remove1_idem running_def)
qed

section \<open>Deleting\<close>

lemma free_core:
  assumes core: "timers_core s q f" and t: "t < length (pool s)" "t \<notin> set q" "t \<notin> set f"
  shows "timers_core (s\<lparr>pool := (pool s)[t := (pool s ! t)\<lparr>flags := w, enext := event_freelist s\<rparr>],
    event_freelist := Some t\<rparr>) q (t # f)"
proof -
  let ?s = "s\<lparr>pool := (pool s)[t := (pool s ! t)\<lparr>flags := w, enext := event_freelist s\<rparr>], event_freelist := Some t\<rparr>"
  have same: "pool ?s ! i = pool s ! i" if "i \<noteq> t" for i
    using that by simp
  have ch: "chain ?s p ts = chain s p ts" if "t \<notin> set ts" for p ts
  proof (rule chain_cong)
    show "enext (pool ?s ! i) = enext (pool s ! i)" if "i \<in> set ts" for i
      using same [of i] that \<open>t \<notin> set ts\<close> by (cases "i = t") simp_all
  qed simp
  have q: "chain ?s (event_queue ?s) q"
    using core by (subst ch) (simp_all add: t timers_core_def)
  have "chain ?s (event_freelist s) f"
    using core by (subst ch) (simp_all add: t timers_core_def)
  then have f: "chain ?s (event_freelist ?s) (t # f)"
    using t(1) by simp
  have each: "roundable (g_granularity s) (it_interval (pool ?s ! i)) \<and>
      roundable (g_granularity s) (it_value (pool ?s ! i)) \<and> (deleted (pool ?s ! i) \<longrightarrow> i \<in> set (t # f))"
    if "i < length (pool s)" for i
    using that core by (cases "i = t") (auto simp: timers_core_def)
  have queue: "on_grain (g_granularity s) (it_value (pool ?s ! i)) \<and> \<not> cancelled (pool ?s ! i) \<and> func (pool ?s ! i) \<noteq> None"
    if "i \<in> set q" for i
    using that core t(2) by (cases "i = t") (auto simp: timers_core_def)
  show ?thesis
    unfolding timers_core_def using core t q f each queue by (simp add: timers_core_def)
qed

lemma free_wf:
  assumes wf: "timers_wf s q f" and t: "t < length (pool s)" "t \<notin> set q" "t \<notin> set f"
  shows "timers_wf (s\<lparr>pool := (pool s)[t := (pool s ! t)\<lparr>flags := w, enext := event_freelist s\<rparr>],
      event_freelist := Some t\<rparr>) q (t # f)"
    and "synced (s\<lparr>pool := (pool s)[t := (pool s ! t)\<lparr>flags := w, enext := event_freelist s\<rparr>],
      event_freelist := Some t\<rparr>) q = synced s q"
proof -
  let ?s = "s\<lparr>pool := (pool s)[t := (pool s ! t)\<lparr>flags := w, enext := event_freelist s\<rparr>], event_freelist := Some t\<rparr>"
  have same: "it_value (pool ?s ! i) = it_value (pool s ! i)" if "i \<in> set q" for i
    using that t(2) by (cases "i = t") simp_all
  then show "timers_wf ?s q (t # f)"
    using wf t free_core [of s q f t w] by (cases q) (auto simp: timers_wf_def)
  show "synced ?s q = synced s q"
    using same by (cases q) (simp_all add: synced_def deltas_def)
qed

lemma timer_delete_ok:
  assumes wf: "timers_wf s q f" and t: "t < length (pool s)" "t \<notin> set f"
  shows "\<exists>s'. timer_delete t s = Some (0, s') \<and> timers_wf s' (remove1 t q) (t # f) \<and>
    leading (synced s' (remove1 t q)) \<le> leading (synced s q) \<and>
    (running s q \<longrightarrow> running s' (remove1 t q)) \<and> block_count s' = block_count s \<and> length (pool s') = length (pool s)"
proof -
  obtain s1 where s1: "timer_cancel t s = Some s1" "timers_wf s1 (remove1 t q) f" "running s q \<longrightarrow> running s1 (remove1 t q)"
      "leading (synced s1 (remove1 t q)) \<le> leading (synced s q)"
      "block_count s1 = block_count s" "length (pool s1) = length (pool s)"
    using timer_cancel_wf [OF wf t(1)] by blast
  let ?s = "s1\<lparr>pool := (pool s1)[t := (pool s1 ! t)\<lparr>flags := flags (pool s1 ! t) OR TFLAG_DELETED,
      enext := event_freelist s1\<rparr>], event_freelist := Some t\<rparr>"
  have "\<not> deleted (pool s ! t)" "distinct q"
    using wf t by (auto simp: timers_wf_def timers_core_def)
  then have "timer_delete t s = Some (0, ?s)" "t \<notin> set (remove1 t q)"
    using s1 t(1) by (simp_all add: timer_delete_def get_event_ok modify_event_ok deleted_def)
  then show ?thesis
    using s1 t free_wf [of s1 "remove1 t q" f t "flags (pool s1 ! t) OR TFLAG_DELETED"]
    by (intro exI [of _ ?s]) (simp add: running_def)
qed

lemma timer_delete_idle:
  assumes wf: "timers_wf s q f" and t: "t < length (pool s)" "t \<notin> set q" "t \<notin> set f"
  shows "\<exists>s' w p. timer_delete t s = Some (0, s') \<and> timers_wf s' q (t # f) \<and> synced s' q = synced s q \<and>
    itimer s' = itimer s \<and> block_count s' = block_count s \<and>
    length (pool s') = length (pool s) \<and> pool s' ! t = (pool s ! t)\<lparr>flags := w, enext := p\<rparr>"
proof -
  obtain s1 w where s1: "timer_cancel t s = Some s1" "timers_wf s1 q f" "synced s1 q = synced s q" "itimer s1 = itimer s"
      "block_count s1 = block_count s"
      "length (pool s1) = length (pool s)" "pool s1 ! t = (pool s ! t)\<lparr>flags := w\<rparr>"
    using timer_cancel_idle [OF wf t(1,2)] by blast
  let ?s = "s1\<lparr>pool := (pool s1)[t := (pool s1 ! t)\<lparr>flags := flags (pool s1 ! t) OR TFLAG_DELETED,
      enext := event_freelist s1\<rparr>], event_freelist := Some t\<rparr>"
  have "\<not> deleted (pool s ! t)"
    using wf t by (auto simp: timers_wf_def timers_core_def)
  then have "timer_delete t s = Some (0, ?s)"
    using s1 t(1) by (simp add: timer_delete_def get_event_ok modify_event_ok deleted_def)
  then show ?thesis
    using s1 t free_wf [of s1 q f t "flags (pool s1 ! t) OR TFLAG_DELETED"]
    by (intro exI [of _ ?s] exI [of _ "w OR TFLAG_DELETED"] exI [of _ "event_freelist s1"]) simp
qed

end
