(* ===== verification/Timer_Set.thy ===== *)
theory Timer_Set
  imports Timer_Cancel
begin

text \<open>
  Setting well-formed timers: the timer goes to its place among the deadlines, and no other deadline moves.
\<close>

unbundle bit_operations_syntax

section \<open>Inserting an event\<close>

lemma insert_value_dvd:
  "m dvd v \<Longrightarrow> (\<forall>p \<in> set ds. m dvd snd p) \<Longrightarrow> (\<forall>p \<in> set (insert_value t v ds). m dvd snd p)"
  by (induction t v ds rule: insert_value.induct) auto

lemma core_deltas_dvd: "timers_core s q f \<Longrightarrow> \<forall>p \<in> set (deltas s q). uint (g_granularity s) dvd snd p"
  by (auto simp: deltas_def timers_core_def on_grain_def)

definition mark :: "nat \<Rightarrow> 16 word \<Rightarrow> 'f timers \<Rightarrow> 'f timers" where
  "mark t w s = s\<lparr>pool := (pool s)[t := (pool s ! t)\<lparr>flags := w\<rparr>]\<rparr>"

lemma mark_sel [simp]:
  "length (pool (mark t w s)) = length (pool s)" "event_queue (mark t w s) = event_queue s"
  "event_freelist (mark t w s) = event_freelist s" "itimer (mark t w s) = itimer s"
  "block_count (mark t w s) = block_count s" "g_granularity (mark t w s) = g_granularity s"
  "g_maxevents (mark t w s) = g_maxevents s" "alarm_blocked (mark t w s) = alarm_blocked s"
  by (simp_all add: mark_def)

lemma mark_itimer: "mark t w (s\<lparr>itimer := v\<rparr>) = (mark t w s)\<lparr>itimer := v\<rparr>"
  by (cases s) (simp add: mark_def)

lemma mark_event:
  "i < length (pool s) \<Longrightarrow> pool (mark t w s) ! i = (if i = t then (pool s ! t)\<lparr>flags := w\<rparr> else pool s ! i)"
  by (simp add: mark_def nth_update_if)

lemma mark_chain [simp]: "chain (mark t w s) p ts = chain s p ts"
proof (cases "\<forall>i \<in> set ts. i < length (pool s)")
  case True
  then show ?thesis
    by (intro chain_cong) (simp_all add: mark_event)
next
  case False
  then have "\<not> chain (mark t w s) p ts" "\<not> chain s p ts"
    using chain_set [of "mark t w s" p ts] chain_set [of s p ts] by auto
  then show ?thesis
    by simp
qed

lemma mark_deltas:
  assumes "\<And>i. i \<in> set ts \<Longrightarrow> i < length (pool s)"
  shows "deltas (mark t w s) ts = deltas s ts"
  using assms by (intro deltas_cong) (simp add: mark_event)

lemma mark_same: "t < length (pool s) \<Longrightarrow> mark t (flags (pool s ! t)) s = s"
  by (simp add: mark_def)

lemma insert_ok:
  assumes core: "timers_core s q f" and t: "t < length (pool s)" "t \<notin> set q" "t \<notin> set f"
    and fn: "func (pool s ! t) \<noteq> None"
    and v: "on_grain (g_granularity s) (it_value (pool s ! t))" "us (it_value (pool s ! t)) = v"
    and w: "\<not> bit w 0" "\<not> bit w 1"
    and q': "q' = map fst (insert_value t v (deltas s q))"
  shows "\<exists>s'. insert_loop t Head s = Some s' \<and> timers_core (mark t w s') q' f \<and> chain s' (event_queue s') q' \<and>
    deltas s' q' = insert_value t v (deltas s q) \<and> frame s s' \<and> itimer s' = itimer s"
proof -
  have nv: "norm (it_value (pool s ! t))" "normal_values s q"
    using on_grain_norm(1) [OF v(1)] core_normal [OF core] by simp_all
  have ch: "chain s (event_queue s) q" "chain s (event_freelist s) f" "distinct (q @ f)"
    using core by (simp_all add: timers_core_def)
  obtain s' where s': "insert_loop t Head s = Some s'" "chain s' (event_queue s') q'"
      "deltas s' q' = insert_value t v (deltas s q)" "normal_values s' (t # q)" "only_links (insert t (set q)) s s'"
    using insert_loop_chain [of Head s "event_queue s" q t v] ch t nv v q' by (auto simp: link_ok_def)
  have set: "set q' = insert t (set q)" "distinct q'"
    using set_insert_value [of t v "deltas s q"] distinct_insert_value [of "deltas s q" t v] ch(3) t(2) q' by simp_all
  have grain: "on_grain (g_granularity s) (it_value (pool s' ! i))" if "i \<in> insert t (set q)" for i
  proof -
    have "i \<in> set q'"
      using that set(1) by simp
    then have "(i, us (it_value (pool s' ! i))) \<in> set (deltas s' q')"
      by (auto simp: deltas_def)
    moreover have "\<forall>p \<in> set (deltas s' q'). uint (g_granularity s) dvd snd p"
      unfolding s'(3) using v by (intro insert_value_dvd core_deltas_dvd [OF core]) (auto simp: on_grain_def)
    ultimately show ?thesis
      using s'(4) that by (auto simp: on_grain_def normal_values_def)
  qed
  have fr: "frame s s'" "itimer s' = itimer s"
  proof -
    have "roundable (g_granularity s) (it_value (pool s' ! i))" if "i < length (pool s)" for i
    proof (cases "i \<in> insert t (set q)")
      case True
      then show ?thesis
        using grain on_grain_norm(2) by blast
    next
      case False
      then show ?thesis
        using s'(5) that core_sel(5) [OF core that] by (simp add: only_links_def)
    qed
    then show "frame s s'" "itimer s' = itimer s"
      using s'(5) core_sel(3) [OF core] by (simp_all add: frame_def only_links_def)
  qed
  have len: "length (pool s') = length (pool s)"
    using fr(1) by (simp add: frame_def)
  have free: "chain s' (event_freelist s') f"
  proof -
    have "enext (pool s' ! i) = enext (pool s ! i)" if "i \<in> set f" for i
    proof -
      have "i < length (pool s)" "i \<notin> insert t (set q)"
        using chain_set [OF ch(2) that] that ch(3) t(3) by auto
      then show ?thesis
        using s'(5) by (simp add: only_links_def)
    qed
    then show ?thesis
      using chain_cong [OF len, of f] ch(2) fr(1) by (simp add: frame_def)
  qed
  have each: "roundable (g_granularity s) (it_interval (pool (mark t w s') ! i)) \<and>
      roundable (g_granularity s) (it_value (pool (mark t w s') ! i)) \<and> (deleted (pool (mark t w s') ! i) \<longrightarrow> i \<in> set f)" if "i < length (pool s)" for i
    using that len w(2) fr(1) core frame_flags [OF fr(1) that]
    by (auto simp: mark_event deleted_bit frame_def timers_core_def)
  have queue: "on_grain (g_granularity s) (it_value (pool (mark t w s') ! i)) \<and>
      \<not> cancelled (pool (mark t w s') ! i) \<and> func (pool (mark t w s') ! i) \<noteq> None" if i: "i \<in> set q'" for i
  proof -
    have il: "i < length (pool s)"
      using i chain_set [OF s'(2)] len by simp
    show ?thesis
    proof (cases "i = t")
      case True
      then show ?thesis
        using il len w(1) fn fr(1) grain by (simp add: mark_event cancelled_bit frame_def)
    next
      case False
      then have "i \<in> set q"
        using i set by simp
      then show ?thesis
        using False il len frame_flags [OF fr(1) il] fr(1) core grain by (simp add: mark_event frame_def timers_core_def)
    qed
  qed
  have "timers_core (mark t w s') q' f"
    unfolding timers_core_def
    using s'(2) free set ch(3) t(3) fr core len each queue by (auto simp: frame_def timers_core_def)
  then show ?thesis
    using s' fr by blast
qed

section \<open>What is left of the first event\<close>

lemma sync_head_ok:
  assumes wf: "timers_wf s q f"
  shows "\<exists>s'. sync_head s = Some s' \<and> timers_wf s' q f \<and> deltas s' q = synced s q \<and> itimer s' = itimer s \<and>
    block_count s' = block_count s \<and> length (pool s') = length (pool s) \<and> g_granularity s' = g_granularity s \<and>
    (\<forall>i. i \<notin> set q \<longrightarrow> pool s' ! i = pool s ! i)"
proof (cases "us (itimer s) = 0 \<or> q = []")
  case True
  have core: "timers_core s q f"
    using wf by (simp add: timers_wf_def)
  have "sync_head s = Some s"
    using True core_sel(1) [OF core] timerisset_grain [OF core_sel(3) [OF core]] by (auto simp: sync_head_def)
  then show ?thesis
    using True wf synced_deltas [of s q] by (auto simp: synced_def)
next
  case False
  then obtain h r where q: "q = h # r"
    by (cases q) auto
  have core: "timers_core s q f" and le: "us (itimer s) \<le> us (it_value (pool s ! h))"
    using wf q by (simp_all add: timers_wf_def)
  have h: "h < length (pool s)" "event_queue s = Some h" "h \<notin> set r"
    using core q by (simp_all add: timers_core_def)
  let ?e = "(pool s ! h)\<lparr>it_value := itimer s\<rparr>"
  let ?s = "s\<lparr>pool := (pool s)[h := ?e]\<rparr>"
  have "timerisset (itimer s)" "\<not> timer_less (it_value (pool s ! h)) (itimer s)"
    using False q le timerisset_grain [OF core_sel(3) [OF core]]
      timer_less_grain [OF core_sel(8) [OF core, of h] core_sel(3) [OF core]] by simp_all
  then have sync: "sync_head s = Some ?s"
    using h by (simp add: sync_head_def get_event_ok modify_event_ok)
  have "timers_core ?s q f"
    using core h core_sel(3) [OF core] on_grain_norm(2) [OF core_sel(3) [OF core]]
    by (intro core_update) (auto simp: timers_core_def cancelled_def deleted_def)
  then have wf': "timers_wf ?s q f"
    using q h(1) by (simp add: timers_wf_def)
  have "deltas ?s r = deltas s r"
  proof (rule deltas_cong)
    show "it_value (pool ?s ! i) = it_value (pool s ! i)" if "i \<in> set r" for i
      using that h(3) by (cases "i = h") simp_all
  qed
  then have "deltas ?s q = synced s q"
    using q h(1) False by (simp add: synced_def)
  then show ?thesis
    using sync wf' q by (intro exI [of _ ?s]) auto
qed

section \<open>The operation\<close>

definition set_value :: "itimerspec \<Rightarrow> int" where
  "set_value sp = us (TIMESPEC_TO_TIMEVAL (sp_value sp))"

lemma insert_value_head:
  "insert_value t v ds \<noteq> [] \<and> hd (insert_value t v ds) = (if ds = [] \<or> v < snd (hd ds) then (t, v) else hd ds)"
  by (cases ds) (auto split: prod.splits)

lemma deltas_hd: "q \<noteq> [] \<Longrightarrow> hd (deltas s q) = (hd q, head_value s q)"
  by (cases q) simp_all

lemma check_chain:
  assumes "chain s (event_queue s) q" and "length q \<le> length (pool s)" and "g_maxevents s = int (length (pool s))"
  shows "check_event_queue s = Some ()"
  unfolding check_event_queue_def using assms by (intro check_loop_ok [of s _ q]) simp_all

lemma and_not_cancelled: "\<not> bit (w AND NOT TFLAG_CANCELLED) 0" "bit (w AND NOT TFLAG_CANCELLED) 1 = bit w 1"
  by (simp_all add: bit_simps TFLAG_CANCELLED_def)

text \<open>The part of \<^verbatim>\<open>timer_settime\<close> from the rounding of the value on.\<close>

definition arm :: "nat \<Rightarrow> 'f timers \<Rightarrow> 'f timers option" where
  "arm t s = do {
     e \<leftarrow> get_event t s;
     r \<leftarrow> timerroundup (it_value e) (g_granularity s);
     s \<leftarrow> modify_event t (\<lambda>e. e\<lparr>it_value := r\<rparr>) (block_timer s);
     s \<leftarrow> sync_head s;
     s \<leftarrow> insert_loop t Head s;
     check_event_queue s;
     s \<leftarrow> (if event_queue s = Some t then reissue True t s else Some s);
     s \<leftarrow> modify_event t (\<lambda>e. e\<lparr>flags := flags e AND NOT TFLAG_CANCELLED\<rparr>) s;
     Some (unblock_timer s) }"

lemma timer_settime_arm:
  assumes "t < length (pool s)"
  shows "timer_settime t sp s =
    (let s' = s\<lparr>pool := (pool s)[t := (pool s ! t)
        \<lparr>it_interval := TIMESPEC_TO_TIMEVAL (sp_interval sp), it_value := TIMESPEC_TO_TIMEVAL (sp_value sp)\<rparr>]\<rparr>
     in if timerisset (TIMESPEC_TO_TIMEVAL (sp_value sp)) then arm t s' else timer_cancel t s')"
  using assms by (simp add: timer_settime_def timer_change_settime_def modify_event_ok arm_def Let_def)

lemma arm_ok:
  assumes wf: "timers_wf s q f" and t: "t < length (pool s)" "t \<notin> set q" "t \<notin> set f" "func (pool s ! t) \<noteq> None"
    and v: "v = rounded (g_granularity s) (us (it_value (pool s ! t)))" and q': "q' = map fst (insert_value t v (synced s q))"
  shows "\<exists>s'. arm t s = Some s' \<and> timers_wf s' q' f \<and> synced s' q' = insert_value t v (synced s q) \<and>
    (running s q \<longrightarrow> running s' q') \<and> block_count s' = block_count s \<and> length (pool s') = length (pool s)"
proof -
  let ?g = "g_granularity s"
  let ?e = "(pool s ! t)\<lparr>it_value := roundup (it_value (pool s ! t)) ?g\<rparr>"
  let ?s2 = "(block_timer s)\<lparr>pool := (pool s)[t := ?e]\<rparr>"
  have core: "timers_core s q f" and g: "grain ?g"
    using wf by (simp_all add: timers_wf_def timers_core_def)
  have nv: "on_grain ?g (it_value ?e)" "us (it_value ?e) = v"
    using roundup_us [OF g core_sel(5) [OF core t(1)]] v by simp_all
  have pos: "0 < v"
    using v rounded_pos [OF g] by simp
  have wb: "timers_wf (block_timer s) q f" "synced (block_timer s) q = synced s q"
    using wf_block [OF wf] by simp_all
  have nd: "\<not> deleted (pool s ! t)"
    using core t(1,3) by (auto simp: timers_core_def)
  have "timers_wf ((block_timer s)\<lparr>pool := (pool (block_timer s))[t := ?e]\<rparr>) q f \<and>
      synced ((block_timer s)\<lparr>pool := (pool (block_timer s))[t := ?e]\<rparr>) q = synced (block_timer s) q"
    using t on_grain_norm(2) [OF nv(1)] core_sel(6) [OF core t(1)] nd by (intro wf_update [OF wb(1)]) (simp_all add: deleted_def)
  then have wf2: "timers_wf ?s2 q f" "synced ?s2 q = synced s q"
    using wb(2) by simp_all
  obtain s3 where s3: "sync_head ?s2 = Some s3" "timers_wf s3 q f" "deltas s3 q = synced s q" "itimer s3 = itimer s"
      "block_count s3 = block_count s + 1" "length (pool s3) = length (pool s)" "g_granularity s3 = ?g" "pool s3 ! t = ?e"
    using sync_head_ok [OF wf2(1)] wf2(2) t(1,2) g by auto
  let ?w = "flags (pool s ! t) AND NOT TFLAG_CANCELLED"
  have w: "\<not> bit ?w 0" "\<not> bit ?w 1"
    using nd by (simp_all only: and_not_cancelled deleted_bit not_False_eq_True)
  have core3: "timers_core s3 q f"
    using s3(2) by (simp add: timers_wf_def)
  obtain s4 where s4: "insert_loop t Head s3 = Some s4" "timers_core (mark t ?w s4) q' f" "chain s4 (event_queue s4) q'"
      "deltas s4 q' = insert_value t v (synced s q)" "frame s3 s4" "itimer s4 = itimer s"
    using insert_ok [OF core3, of t v ?w q'] s3 t nv w q' by auto
  have fr: "length (pool s4) = length (pool s)" "g_granularity s4 = ?g" "block_count s4 = block_count s + 1"
      "flags (pool s4 ! t) = flags (pool s ! t)"
    using s4(5) s3 t(1) by (simp_all add: frame_def)
  have grain4: "on_grain ?g (it_value (pool s4 ! t))"
  proof -
    have "t \<in> set q'" "t < length (pool s4)"
      using set_insert_value [of t v "synced s q"] q' fr(1) t(1) by simp_all
    then show ?thesis
      using core_sel(8) [OF s4(2), of t] fr(2) by (simp add: mark_event)
  qed
  have tq: "t \<in> set q'" "distinct q'"
    using set_insert_value [of t v "synced s q"] q' s4(2) by (simp_all add: timers_core_def)
  have "\<forall>i \<in> set q'. (i, us (it_value (pool s4 ! i))) \<in> set (deltas s4 q')"
    by (simp add: deltas_def)
  have check: "check_event_queue s4 = Some ()"
    using s4(3) core_length [OF s4(2)] s4(2) by (intro check_chain) (simp_all add: timers_core_def)
  have q'h: "q' \<noteq> []" "event_queue s4 = Some (hd q')"
    using tq(1) s4(3) by (cases q'; simp)+
  have hd: "(hd q', head_value s4 q') = (if synced s q = [] \<or> v < snd (hd (synced s q)) then (t, v) else hd (synced s q))"
    using deltas_hd [OF q'h(1), of s4] insert_value_head [of t v "synced s q"] s4(4) by simp
  have at_head: "head_value s4 q' = v" if "hd q' = t"
  proof -
    have "synced s q \<noteq> [] \<longrightarrow> fst (hd (synced s q)) \<noteq> t"
      using t(2) by (cases q) (auto simp: synced_def)
    then show ?thesis
      using hd that by (cases "hd (synced s q)") (auto split: if_splits)
  qed
  have same_dl: "deltas (mark t ?w s4) q' = deltas s4 q'"
    using chain_set [OF s4(3)] by (rule mark_deltas)
  define s' where "s' = unblock_timer ((mark t ?w s4)\<lparr>itimer := if hd q' = t then it_value (pool s4 ! t) else itimer s4\<rparr>)"
  have "arm t s = Some s'"
  proof -
    have "(if event_queue s4 = Some t then reissue True t s4 else Some s4) =
        Some (s4\<lparr>itimer := if hd q' = t then it_value (pool s4 ! t) else itimer s4\<rparr>)"
    proof (cases "hd q' = t")
      case True
      have "head_value s4 q' = us (it_value (pool s4 ! t))"
        using q'h(1) True by (cases q') simp_all
      then have "0 < us (it_value (pool s4 ! t))"
        using at_head [OF True] pos by simp
      then show ?thesis
        using True q'h fr t(1) g roundup_same [OF g grain4] on_grain_norm(2) [OF grain4]
        by (simp add: reissue_ok [OF refl])
    next
      case False
      then show ?thesis
        using q'h by simp
    qed
    then show ?thesis
      unfolding s'_def mark_itimer [symmetric]
      using t(1) timerroundup_Some [OF grain_nonzero [OF g]] s3(1) s4(1) check fr
      by (simp add: arm_def get_event_ok modify_event_ok mark_def)
  qed
  moreover have dl: "deltas s' q' = insert_value t v (synced s q)"
  proof -
    have "deltas s' q' = deltas (mark t ?w s4) q'"
      by (simp add: s'_def deltas_def)
    then show ?thesis
      by (simp only: same_dl s4(4))
  qed
  moreover have hv: "head_value s' q' = head_value s4 q'"
    using deltas_hd [OF q'h(1), of s'] deltas_hd [OF q'h(1), of s4] dl s4(4) by simp
  moreover have it: "us (itimer s') = (if hd q' = t then head_value s4 q' else us (itimer s))"
    using q'h(1) s4(6) by (cases q') (simp_all add: s'_def)
  moreover have hd_old: "q = hd q' # tl q" "head_value s4 q' = (if us (itimer s) = 0 then head_value s q else us (itimer s))"
    if "hd q' \<noteq> t"
    using hd that by (cases q; auto simp: synced_def split: if_splits)+
  moreover have "timers_wf s' q' f"
  proof -
    have "timers_core s' q' f"
      unfolding s'_def using s4(2,6) fr(2,3) grain4 core_sel(3) [OF core] core
      by (intro core_unblock core_itimer) (simp_all add: timers_core_def)
    moreover have "us (itimer s') \<le> head_value s' q'"
      using hv it hd_old(2) wf by (auto simp: timers_wf_def)
    ultimately show ?thesis
      by (simp add: timers_wf_def)
  qed
  moreover have "synced s' q' = deltas s' q'"
    using hv it hd_old(2) by (intro synced_deltas) auto
  moreover have "running s q \<longrightarrow> running s' q'"
  proof -
    have "0 < us (itimer s')" if "running s q"
      using pos that it at_head hd_old(1) by (cases "hd q' = t") (auto simp: running_def)
    then show ?thesis
      by (simp add: running_def)
  qed
  ultimately show ?thesis
    using fr(1) by (intro exI [of _ s']) (simp add: s'_def fr(3))
qed

text \<open>Arming a timer that is not in the queue: every other deadline stays.\<close>

definition set_event :: "itimerspec \<Rightarrow> 'f event \<Rightarrow> 'f event" where
  "set_event sp e =
     e\<lparr>it_interval := TIMESPEC_TO_TIMEVAL (sp_interval sp), it_value := TIMESPEC_TO_TIMEVAL (sp_value sp)\<rparr>"

lemma timer_settime_ok:
  assumes wf: "timers_wf s q f" and t: "t < length (pool s)" "t \<notin> set q" "t \<notin> set f" "func (pool s ! t) \<noteq> None"
    and sp: "valid_spec (g_granularity s) sp" "set_value sp \<noteq> 0"
    and v: "v = rounded (g_granularity s) (set_value sp)" and q': "q' = map fst (insert_value t v (synced s q))"
  shows "\<exists>s'. timer_settime t sp s = Some s' \<and> timers_wf s' q' f \<and>
    synced s' q' = insert_value t v (synced s q) \<and>
    (running s q \<longrightarrow> running s' q') \<and> block_count s' = block_count s \<and> length (pool s') = length (pool s)"
proof -
  let ?s = "s\<lparr>pool := (pool s)[t := set_event sp (pool s ! t)]\<rparr>"
  have ch: "timers_wf ?s q f" "synced ?s q = synced s q"
    using change_settime_ok [OF wf t(1,2) sp(1)] by (simp_all add: set_event_def)
  have nv: "norm (TIMESPEC_TO_TIMEVAL (sp_value sp))"
    using sp(1) by (simp add: valid_spec_def to_timeval_norm)
  have v': "v = rounded (g_granularity ?s) (us (it_value (pool ?s ! t)))"
    using v t(1) by (simp add: set_value_def set_event_def)
  have "timer_settime t sp s = arm t ?s"
    using sp(2) t(1) nv by (simp add: timer_settime_arm set_event_def set_value_def timerisset_us)
  moreover have "func (pool ?s ! t) \<noteq> None"
    using t(1,4) by (simp add: set_event_def)
  ultimately show ?thesis
    using arm_ok [OF ch(1) _ t(2,3) _ v', of q'] t(1) ch(2) q' by (simp add: running_def)
qed

text \<open>A value of zero disarms it.\<close>

lemma timer_settime_zero:
  assumes wf: "timers_wf s q f" and t: "t < length (pool s)" "t \<notin> set q"
    and sp: "valid_spec (g_granularity s) sp" "set_value sp = 0"
  shows "\<exists>s'. timer_settime t sp s = Some s' \<and> timers_wf s' q f \<and> itimer s' = itimer s \<and> synced s' q = synced s q \<and>
    block_count s' = block_count s \<and> length (pool s') = length (pool s)"
proof -
  let ?s = "s\<lparr>pool := (pool s)[t := set_event sp (pool s ! t)]\<rparr>"
  have ch: "timers_wf ?s q f" "synced ?s q = synced s q"
    using change_settime_ok [OF wf t(1,2) sp(1)] by (simp_all add: set_event_def)
  have "norm (TIMESPEC_TO_TIMEVAL (sp_value sp))"
    using sp(1) by (simp add: valid_spec_def to_timeval_norm)
  then have "timer_settime t sp s = timer_cancel t ?s"
    using sp(2) t(1) by (simp add: timer_settime_arm set_event_def set_value_def timerisset_us)
  then show ?thesis
    using timer_cancel_idle [OF ch(1), of t] t ch(2) by auto
qed

end
