(* ===== verification/Timer_Alarm.thy ===== *)
theory Timer_Alarm
  imports Timer_Set
begin

text \<open>
  The contract of the timers for their client, and the signal handler under it: it runs the callback of the first
  timer, puts a recurring timer back to its place and returns with the interval timer running for the next one.
\<close>

unbundle bit_operations_syntax

section \<open>Calls of the client\<close>

datatype 'f call =
    Create
  | Connect nat 'f int
  | Change nat itimerspec
  | Settime nat itimerspec
  | Cancel nat
  | Delete nat

fun run_call :: "'f call \<Rightarrow> 'f timers \<Rightarrow> 'f timers option" where
  "run_call Create s = map_option snd (bcm_timer_create s)"
| "run_call (Connect t g a) s = bcm_timer_connect t (Some g) a s"
| "run_call (Change t sp) s = map_option snd (bcm_timer_change_expirytime t sp s)"
| "run_call (Settime t sp) s = bcm_timer_settime t sp s"
| "run_call (Cancel t) s = map_option snd (bcm_timer_cancel t s)"
| "run_call (Delete t) s = map_option snd (bcm_timer_delete t s)"

lemmas bcm_defs = bcm_timer_create_def bcm_timer_connect_def bcm_timer_change_expirytime_def bcm_timer_settime_def
  bcm_timer_cancel_def bcm_timer_delete_def

text \<open>
  The contract: a free event for a new timer, a timer of the client, and only a connected timer that is not pending is
  set, to times that the granularity can round.
\<close>

fun allowed :: "'f call \<Rightarrow> 'f timers \<Rightarrow> nat list \<Rightarrow> nat list \<Rightarrow> bool" where
  "allowed Create s q f \<longleftrightarrow> f \<noteq> []"
| "allowed (Connect t g a) s q f \<longleftrightarrow> t < length (pool s) \<and> t \<notin> set f"
| "allowed (Change t sp) s q f \<longleftrightarrow> t < length (pool s) \<and> t \<notin> set f \<and> t \<notin> set q \<and> valid_spec (g_granularity s) sp"
| "allowed (Settime t sp) s q f \<longleftrightarrow>
     t < length (pool s) \<and> t \<notin> set f \<and> t \<notin> set q \<and> valid_spec (g_granularity s) sp \<and> func (pool s ! t) \<noteq> None"
| "allowed (Cancel t) s q f \<longleftrightarrow> t < length (pool s) \<and> t \<notin> set f"
| "allowed (Delete t) s q f \<longleftrightarrow> t < length (pool s) \<and> t \<notin> set f"

lemma create_call:
  assumes "timers_wf s q (t # f)"
  shows "\<exists>s'. run_call Create s = Some s' \<and> timers_wf s' q f \<and> (running s q \<longrightarrow> running s' q) \<and>
    leading (synced s' q) \<le> leading (synced s q) \<and> block_count s' = block_count s"
  using timer_create_ok [OF assms, of None] by (auto simp: running_def bcm_defs)

lemma connect_call:
  assumes "timers_wf s q f" and "allowed (Connect t g a) s q f"
  shows "\<exists>s'. run_call (Connect t g a) s = Some s' \<and> timers_wf s' q f \<and> (running s q \<longrightarrow> running s' q) \<and>
    leading (synced s' q) \<le> leading (synced s q) \<and> block_count s' = block_count s"
  using timer_connect_ok [of s q f t g a] assms by (auto simp: running_def bcm_defs)

lemma change_call:
  assumes "timers_wf s q f" and "allowed (Change t sp) s q f"
  shows "\<exists>s'. run_call (Change t sp) s = Some s' \<and> timers_wf s' q f \<and> (running s q \<longrightarrow> running s' q) \<and>
    leading (synced s' q) \<le> leading (synced s q) \<and> block_count s' = block_count s"
  using change_settime_ok [of s q f t sp] assms by (auto simp: running_def bcm_defs)

lemma settime_call:
  assumes wf: "timers_wf s q f" and ok: "allowed (Settime t sp) s q f"
  shows "\<exists>s' q'. run_call (Settime t sp) s = Some s' \<and> timers_wf s' q' f \<and> (running s q \<longrightarrow> running s' q') \<and>
    leading (synced s' q') \<le> leading (synced s q) \<and> block_count s' = block_count s"
proof (cases "set_value sp = 0")
  case True
  then show ?thesis
    using timer_settime_zero [OF wf, of t sp] ok by (fastforce simp: running_def bcm_defs)
next
  case False
  let ?v = "rounded (g_granularity s) (set_value sp)"
  let ?q = "map fst (insert_value t ?v (synced s q))"
  obtain s' where "timer_settime t sp s = Some s'" "timers_wf s' ?q f" "synced s' ?q = insert_value t ?v (synced s q)"
      "running s q \<longrightarrow> running s' ?q" "block_count s' = block_count s"
    using timer_settime_ok [OF wf, of t sp ?v ?q] ok False by auto
  moreover have "leading (insert_value t ?v (synced s q)) = leading (synced s q)"
    using wf by (intro leading_insert rounded_pos) (simp add: timers_wf_def timers_core_def)
  ultimately show ?thesis
    by (intro exI [of _ s'] exI [of _ ?q]) (simp add: bcm_defs)
qed

lemma run_call_ok:
  assumes wf: "timers_wf s q f" and ok: "allowed c s q f"
  shows "\<exists>s' q' f'. run_call c s = Some s' \<and> timers_wf s' q' f' \<and> (running s q \<longrightarrow> running s' q') \<and>
    leading (synced s' q') \<le> leading (synced s q) \<and> block_count s' = block_count s"
proof (cases c)
  case Create
  then obtain t f1 where "f = t # f1"
    using ok by (cases f) auto
  then show ?thesis
    using create_call [of s q t f1] wf Create by blast
next
  case (Connect t g a)
  then show ?thesis
    using connect_call [OF wf] ok by blast
next
  case (Change t sp)
  then show ?thesis
    using change_call [OF wf] ok by blast
next
  case (Settime t sp)
  then show ?thesis
    using settime_call [OF wf] ok by blast
next
  case (Cancel t)
  then show ?thesis
    using timer_cancel_wf [OF wf, of t] ok by (auto simp: bcm_defs)
next
  case (Delete t)
  then show ?thesis
    using timer_delete_ok [OF wf, of t] ok by (fastforce simp: bcm_defs)
qed

text \<open>Any number of such calls.\<close>

inductive calls :: "'f timers \<Rightarrow> 'f timers \<Rightarrow> bool" where
  calls_none: "calls s s"
| calls_more: "calls s s'' \<Longrightarrow> timers_wf s'' q f \<Longrightarrow> allowed c s'' q f \<Longrightarrow> run_call c s'' = Some s' \<Longrightarrow> calls s s'"

lemma wf_unique: "timers_wf s q f \<Longrightarrow> timers_wf s q' f' \<Longrightarrow> q = q' \<and> f = f'"
  using chain_unique by (fastforce simp: timers_wf_def timers_core_def)

lemma calls_wf:
  "calls s s' \<Longrightarrow> timers_wf s q f \<Longrightarrow>
     \<exists>q' f'. timers_wf s' q' f' \<and> leading (synced s' q') \<le> leading (synced s q) \<and> block_count s' = block_count s"
proof (induction rule: calls.induct)
  case (calls_more s s'' q1 f1 c s')
  then obtain q2 f2 where q2: "timers_wf s'' q2 f2" "leading (synced s'' q2) \<le> leading (synced s q)"
      "block_count s'' = block_count s"
    by blast
  then have "q1 = q2"
    using wf_unique calls_more(2) by blast
  then show ?case
    using run_call_ok [OF calls_more(2,3)] calls_more(4) q2 by fastforce
qed auto

section \<open>Callbacks\<close>

text \<open>
  What a callback may do: calls under the contract.  It must not leave its own timer pending, or delete it, when the
  handler is going to put it back.
\<close>

definition goes_back :: "nat \<Rightarrow> 'f timers \<Rightarrow> bool" where
  "goes_back t s \<longleftrightarrow> \<not> cancelled (pool s ! t) \<and> timerisset (it_interval (pool s ! t))"

definition well_behaved :: "('f \<Rightarrow> nat \<Rightarrow> int \<Rightarrow> 'f timers \<Rightarrow> 'f timers option) \<Rightarrow> bool" where
  "well_behaved call \<longleftrightarrow>
     (\<forall>g t a s q f. timers_wf s q f \<longrightarrow> t < length (pool s) \<longrightarrow> t \<notin> set q \<longrightarrow> t \<notin> set f \<longrightarrow> func (pool s ! t) \<noteq> None \<longrightarrow>
        (\<exists>s'. call g t a s = Some s' \<and> calls s s' \<and> t < length (pool s') \<and>
           (goes_back t s' \<longrightarrow> func (pool s' ! t) \<noteq> None \<and>
              (\<forall>q' f'. timers_wf s' q' f' \<longrightarrow> t \<notin> set q' \<and> t \<notin> set f'))))"

lemma well_behavedD:
  assumes "well_behaved call" and "timers_wf s q f" and "t < length (pool s)" and "t \<notin> set q" and "t \<notin> set f"
    and "func (pool s ! t) \<noteq> None"
  shows "\<exists>s'. call g t a s = Some s' \<and> calls s s' \<and> t < length (pool s') \<and>
    (goes_back t s' \<longrightarrow> func (pool s' ! t) \<noteq> None \<and> (\<forall>q' f'. timers_wf s' q' f' \<longrightarrow> t \<notin> set q' \<and> t \<notin> set f'))"
  using assms unfolding well_behaved_def by blast

lemma idle_callback: "well_behaved (\<lambda>g t a s. Some s)"
  unfolding well_behaved_def
  using wf_unique calls_none by blast

section \<open>One round of the handler\<close>

definition pop :: "nat \<Rightarrow> 'f timers \<Rightarrow> 'f timers" where
  "pop t s = s\<lparr>event_queue := enext (pool s ! t), pool := (pool s)[t := (pool s ! t)\<lparr>enext := None\<rparr>]\<rparr>"

lemma pop_core:
  assumes core: "timers_core s (t # r) f"
  shows "timers_core (pop t s) r f \<and> deltas (pop t s) r = deltas s r \<and>
    pool (pop t s) ! t = (pool s ! t)\<lparr>enext := None\<rparr> \<and> t < length (pool s) \<and> t \<notin> set r \<and> t \<notin> set f \<and>
    itimer (pop t s) = itimer s \<and> block_count (pop t s) = block_count s \<and> frame s (pop t s)"
proof -
  have t: "t < length (pool s)" "t \<notin> set r" "t \<notin> set f"
    using core by (simp_all add: timers_core_def)
  have fr: "frame s (pop t s)"
    using core_sel [OF core] by (simp add: frame_def pop_def nth_update_if)
  moreover have "on_grain (g_granularity s) (it_value (pool (pop t s) ! i))" if "i \<in> set ([] @ r)" for i
    using that core_sel(7,8) [OF core, of i] t(1) by (auto simp: pop_def nth_update_if)
  ultimately have "timers_core (pop t s) ([] @ r) f"
    using core t by (intro core_unlink [of s "[]" t r]) (simp_all add: pop_def nth_update_if)
  moreover have "deltas (pop t s) r = deltas s r"
  proof (rule deltas_cong)
    show "it_value (pool (pop t s) ! i) = it_value (pool s ! i)" if "i \<in> set r" for i
      using that t(2) by (cases "i = t") (simp_all add: pop_def)
  qed
  ultimately show ?thesis
    using t fr by (simp add: pop_def)
qed

lemma pop_ok:
  assumes core: "timers_core s (t # r) f" and z: "us (itimer s) = 0"
  shows "timers_wf (pop t s) r f \<and> synced (pop t s) r = deltas s r"
proof -
  have core': "timers_core (pop t s) r f" and pop: "deltas (pop t s) r = deltas s r" "itimer (pop t s) = itimer s"
    using pop_core [OF core] by simp_all
  have "0 \<le> head_value (pop t s) r"
    using core_sel(8) [OF core', THEN on_grain_norm(1), THEN us_nonneg] by (cases r) auto
  then show ?thesis
    using core' pop z synced_deltas [of "pop t s" r] by (simp add: timers_wf_def)
qed

definition requeue_values :: "nat \<Rightarrow> 'f timers \<Rightarrow> (nat \<times> int) list \<Rightarrow> (nat \<times> int) list" where
  "requeue_values t s ds =
     (if goes_back t s then insert_value t (rounded (g_granularity s) (us (it_interval (pool s ! t)))) ds else ds)"

lemma requeue_ok:
  assumes core: "timers_core s q f" and t: "t < length (pool s)"
    and again: "goes_back t s \<Longrightarrow> t \<notin> set q \<and> t \<notin> set f \<and> func (pool s ! t) \<noteq> None"
    and q': "q' = map fst (requeue_values t s (deltas s q))"
  shows "\<exists>s'. requeue t s = Some s' \<and> timers_core s' q' f \<and> deltas s' q' = requeue_values t s (deltas s q) \<and>
    itimer s' = itimer s \<and> frame s s'"
proof (cases "goes_back t s")
  case False
  moreover have "requeue t s = Some s"
    using False t by (simp add: requeue_def get_event_ok goes_back_def cancelled_def)
  moreover have "frame s s"
    using core_sel [OF core] by (simp add: frame_def)
  ultimately show ?thesis
    using q' core by (simp add: requeue_values_def)
next
  case True
  let ?g = "g_granularity s"
  have g: "grain ?g"
    using core by (simp add: timers_core_def)
  let ?v = "roundup (it_interval (pool s ! t)) ?g"
  let ?e = "(pool s ! t)\<lparr>it_value := ?v\<rparr>"
  let ?s = "s\<lparr>pool := (pool s)[t := ?e]\<rparr>"
  have v: "on_grain ?g ?v" "us ?v = rounded ?g (us (it_interval (pool s ! t)))"
    using roundup_us [OF g core_sel(6) [OF core t]] by simp_all
  have nd: "\<not> deleted (pool s ! t)" "\<not> cancelled (pool s ! t)" "t \<notin> set q" "t \<notin> set f"
    using core t again True by (auto simp: timers_core_def goes_back_def)
  have core': "timers_core ?s q f"
    using core nd on_grain_norm(2) [OF v(1)] core_sel(6) [OF core t] by (intro core_update) (simp_all add: deleted_def)
  have dl: "deltas ?s q = deltas s q"
  proof (rule deltas_cong)
    show "it_value (pool ?s ! i) = it_value (pool s ! i)" if "i \<in> set q" for i
      using that nd(3) by (cases "i = t") simp_all
  qed
  have q'': "q' = map fst (insert_value t (us ?v) (deltas ?s q))"
    using q' True v(2) dl by (simp add: requeue_values_def)
  obtain s' where s': "insert_loop t Head ?s = Some s'" "timers_core (mark t (flags (pool s ! t)) s') q' f"
      "deltas s' q' = insert_value t (us ?v) (deltas ?s q)" "frame ?s s'" "itimer s' = itimer ?s"
    using insert_ok [OF core', of t "us ?v" "flags (pool s ! t)" q'] t nd v(1) again [OF True] q''
    by (auto simp: deleted_bit cancelled_bit)
  have "frame s s'"
    using s'(4) t by (auto simp: frame_def nth_update_if)
  moreover have "mark t (flags (pool s ! t)) s' = s'"
    using mark_same [of t s'] s'(4) t by (simp add: frame_def)
  moreover have "requeue t s = Some s'"
    using True t s'(1) timerroundup_Some [OF grain_nonzero [OF g]]
    by (simp add: requeue_def get_event_ok modify_event_ok goes_back_def cancelled_def)
  ultimately show ?thesis
    using s' True v(2) dl by (intro exI [of _ s']) (simp add: requeue_values_def)
qed

lemma requeue_leading:
  assumes "timers_wf s q f"
  shows "leading (requeue_values t s (deltas s q)) = leading (synced s q)"
  using assms leading_synced [OF assms]
  by (simp add: requeue_values_def leading_insert timers_wf_def timers_core_def rounded_pos)

text \<open>A whole round, from the first event to the check of the queue.\<close>

lemma alarm_body_unfold:
  assumes core: "timers_core s (t # r) f" and fn: "func (pool s ! t) = Some g"
    and call: "call g t (arg (pool s ! t)) (pop t s) = Some s2"
    and rq: "requeue t s2 = Some s3" "timers_core s3 q' f'"
  shows "alarm_body call s = Some s3"
proof -
  have t: "t < length (pool s)" "event_queue s = Some t"
    using core by (simp_all add: timers_core_def)
  then show ?thesis
    using fn call rq check_ok [OF rq(2)]
    by (simp add: alarm_body_def get_event_ok modify_event_ok pop_def)
qed

text \<open>The interval timer is off while an event that is due is at the front.\<close>

definition off_when_due :: "'f timers \<Rightarrow> nat list \<Rightarrow> bool" where
  "off_when_due s q \<longleftrightarrow> (head_value s q = 0 \<longrightarrow> us (itimer s) = 0)"

lemma requeue_off:
  assumes "timers_wf s2 q2 f2" and "deltas s3 q' = requeue_values t s2 (deltas s2 q2)" and "itimer s3 = itimer s2"
    and "q' = map fst (requeue_values t s2 (deltas s2 q2))"
  shows "off_when_due s3 q'"
proof -
  have g: "grain (g_granularity s2)" and le: "us (itimer s2) \<le> head_value s2 q2" and n: "0 \<le> us (itimer s2)"
    using assms(1) by (auto simp: timers_wf_def timers_core_def on_grain_def us_nonneg)
  have "head_value s2 q2 = 0" if z: "head_value s3 q' = 0"
  proof (cases "q2 = []")
    case False
    let ?v = "rounded (g_granularity s2) (us (it_interval (pool s2 ! t)))"
    have "requeue_values t s2 (deltas s2 q2) \<noteq> [] \<and>
        hd (requeue_values t s2 (deltas s2 q2)) \<in> {(t, ?v), (hd q2, head_value s2 q2)}"
      using False insert_value_head [of t ?v "deltas s2 q2"] deltas_hd [OF False, of s2]
      by (cases q2) (auto simp: requeue_values_def)
    moreover have "hd (deltas s3 q') = (hd q', head_value s3 q')" if "q' \<noteq> []"
      by (rule deltas_hd [OF that])
    ultimately show ?thesis
      using assms(2,4) z rounded_pos [OF g, of "us (it_interval (pool s2 ! t))"] by auto
  qed simp
  then show ?thesis
    using le n assms(3) by (auto simp: off_when_due_def)
qed

lemma alarm_body_ok:
  assumes core: "timers_core s (t # r) f" and z: "us (itimer s) = 0" and wb: "well_behaved call"
  shows "\<exists>s' q' f'. alarm_body call s = Some s' \<and> timers_core s' q' f' \<and> off_when_due s' q' \<and>
    leading (deltas s' q') \<le> leading (deltas s r) \<and> block_count s' = block_count s"
proof -
  have pop: "timers_wf (pop t s) r f" "pool (pop t s) ! t = (pool s ! t)\<lparr>enext := None\<rparr>" "synced (pop t s) r = deltas s r"
      "t < length (pool s)" "t \<notin> set r" "t \<notin> set f" "block_count (pop t s) = block_count s"
      "length (pool (pop t s)) = length (pool s)"
    using pop_core [OF core] pop_ok [OF core z] by (simp_all add: frame_def)
  obtain g where g: "func (pool s ! t) = Some g"
    using core by (auto simp: timers_core_def)
  obtain s2 where s2: "call g t (arg (pool s ! t)) (pop t s) = Some s2" "calls (pop t s) s2" "t < length (pool s2)"
    and back2: "goes_back t s2 \<Longrightarrow> func (pool s2 ! t) \<noteq> None \<and> (\<forall>q' f'. timers_wf s2 q' f' \<longrightarrow> t \<notin> set q' \<and> t \<notin> set f')"
    using well_behavedD [OF wb pop(1), of t g "arg (pool s ! t)"] pop g by auto
  obtain q2 f2 where wf2: "timers_wf s2 q2 f2" "leading (synced s2 q2) \<le> leading (deltas s r)"
      "block_count s2 = block_count s"
    using calls_wf [OF s2(2) pop(1)] pop(3,7) by auto
  let ?q = "map fst (requeue_values t s2 (deltas s2 q2))"
  obtain s3 where s3: "requeue t s2 = Some s3" "timers_core s3 ?q f2" "deltas s3 ?q = requeue_values t s2 (deltas s2 q2)"
      "itimer s3 = itimer s2" "frame s2 s3"
    using requeue_ok [of s2 q2 f2 t ?q] s2(3) back2 wf2(1) unfolding timers_wf_def by blast
  have "alarm_body call s = Some s3"
    using core g s2(1) s3(1,2) by (rule alarm_body_unfold)
  moreover have "leading (deltas s3 ?q) \<le> leading (deltas s r)"
    using s3(3) requeue_leading [OF wf2(1)] wf2(2) by simp
  ultimately show ?thesis
    using s3 wf2(3) requeue_off [OF wf2(1) s3(3,4) refl] by (auto simp: frame_def)
qed


section \<open>The loop of the handler\<close>

text \<open>It goes on as long as the first event has nothing left to wait, unless the granularity is one microsecond.\<close>

lemma expires_soon_eq:
  assumes core: "timers_core s q f"
  shows "expires_soon s = Some (q \<noteq> [] \<and> head_value s q = 0 \<and> 2 \<le> uint (g_granularity s))"
proof (cases q)
  case Nil
  then show ?thesis
    using core by (simp add: expires_soon_def timers_core_def)
next
  case (Cons h r)
  let ?G = "uint (g_granularity s)" and ?v = "it_value (pool s ! h)"
  have h: "event_queue s = Some h" "h < length (pool s)" and v: "norm ?v" "?G dvd us ?v" "0 \<le> us ?v"
    using core Cons us_nonneg by (auto simp: timers_core_def on_grain_def)
  have g: "0 < ?G" "?G < 1000000"
    using grain_bounds [OF core_sel(2) [OF core]] by simp_all
  have d: "uint (g_granularity s div 2) = ?G div 2"
    by (simp add: uint_div)
  then have half: "norm (time_of 0 (uint (g_granularity s div 2)))" "us (time_of 0 (uint (g_granularity s div 2))) = ?G div 2"
    using g by (simp_all add: norm_def us_def)
  have "us ?v < ?G div 2 \<longleftrightarrow> us ?v = 0 \<and> 2 \<le> ?G"
  proof (cases "us ?v = 0")
    case False
    then have "?G \<le> us ?v"
      using v(2,3) by (intro zdvd_imp_le) simp_all
    then show ?thesis
      using False g(1) by simp
  qed (use g(1) in auto)
  then show ?thesis
    using Cons h timer_less_us [OF v(1) half(1)] half(2) by (simp add: expires_soon_def get_event_ok)
qed

text \<open>Every further round takes an event that is due off the front, and puts none there.\<close>

lemma alarm_loop_ok:
  assumes wb: "well_behaved call"
  shows "timers_core s (t # r) f \<Longrightarrow> us (itimer s) = 0 \<Longrightarrow>
    \<exists>s' q' f'. alarm_loop call s = Some s' \<and> timers_core s' q' f' \<and> off_when_due s' q' \<and>
      expires_soon s' = Some False \<and> block_count s' = block_count s"
proof (induction "leading (deltas s r)" arbitrary: s t r f rule: less_induct)
  case less
  obtain s1 q1 f1 where s1: "alarm_body call s = Some s1" "timers_core s1 q1 f1" "off_when_due s1 q1"
      "leading (deltas s1 q1) \<le> leading (deltas s r)" "block_count s1 = block_count s"
    using alarm_body_ok [OF less.prems wb] by blast
  show ?case
  proof (cases "expires_soon s1 = Some False")
    case True
    then have "alarm_loop call s = Some s1"
      using s1(1) by (subst alarm_loop.simps) simp
    then show ?thesis
      using s1 True by blast
  next
    case False
    then have again: "expires_soon s1 = Some True" "q1 \<noteq> []" "head_value s1 q1 = 0"
      using expires_soon_eq [OF s1(2)] by auto
    then obtain t1 r1 where q1: "q1 = t1 # r1"
      by (cases q1) auto
    have "leading (deltas s1 r1) < leading (deltas s r)" "us (itimer s1) = 0"
      using s1(3,4) again(3) q1 by (simp_all add: off_when_due_def)
    then obtain s' q' f' where "alarm_loop call s1 = Some s'" "timers_core s' q' f'" "off_when_due s' q'"
        "expires_soon s' = Some False" "block_count s' = block_count s1"
      using less.hyps [of s1 r1 t1 f1] s1(2) q1 by blast
    moreover have "alarm_loop call s = alarm_loop call s1"
      using s1(1) again(1) by (subst alarm_loop.simps) simp
    ultimately show ?thesis
      using s1(5) by auto
  qed
qed

section \<open>The handler\<close>

definition first_waits :: "32 word \<Rightarrow> (nat \<times> int) list \<Rightarrow> (nat \<times> int) list" where
  "first_waits g ds = (case ds of [] \<Rightarrow> [] | (h, d) # r \<Rightarrow> (h, rounded g d) # r)"

definition rearm :: "'f timers \<Rightarrow> 'f timers option" where
  "rearm s = (case event_queue s of None \<Rightarrow> Some s | Some h \<Rightarrow> reissue False h s)"

lemma rearm_ok:
  assumes core: "timers_core s q f" and z: "off_when_due s q"
  shows "\<exists>s'. rearm s = Some s' \<and> timers_wf s' q f \<and> synced s' q = first_waits (g_granularity s) (deltas s q) \<and>
    (q \<noteq> [] \<longrightarrow> uint (g_granularity s) \<le> us (itimer s')) \<and> g_granularity s' = g_granularity s \<and>
    block_count s' = block_count s"
proof (cases q)
  case Nil
  then show ?thesis
    using core z by (auto simp: rearm_def timers_core_def timers_wf_def synced_def first_waits_def off_when_due_def)
next
  case (Cons h r)
  let ?g = "g_granularity s"
  have h: "h < length (pool s)" "event_queue s = Some h" "h \<notin> set r" and g: "grain ?g"
    and hv: "roundable ?g (it_value (pool s ! h))"
    using core Cons core_sel(5) [OF core] by (simp_all add: timers_core_def)
  let ?v = "roundup (it_value (pool s ! h)) ?g"
  let ?s = "s\<lparr>pool := (pool s)[h := (pool s ! h)\<lparr>it_value := ?v\<rparr>], itimer := ?v\<rparr>"
  have v: "on_grain ?g ?v" "us ?v = rounded ?g (us (it_value (pool s ! h)))"
    using roundup_us [OF g hv] by simp_all
  have "timers_core (s\<lparr>pool := (pool s)[h := (pool s ! h)\<lparr>it_value := ?v\<rparr>]\<rparr>) q f"
    using core v(1) on_grain_norm(2) [OF v(1)] h core_sel(6) [OF core h(1)] Cons
    by (intro core_update) (auto simp: timers_core_def cancelled_def deleted_def)
  then have "timers_core ?s q f"
    using core_itimer [of "s\<lparr>pool := (pool s)[h := (pool s ! h)\<lparr>it_value := ?v\<rparr>]\<rparr>" q f ?v] v(1) by simp
  moreover have "deltas ?s r = deltas s r"
  proof (rule deltas_cong)
    show "it_value (pool ?s ! i) = it_value (pool s ! i)" if "i \<in> set r" for i
      using that h(3) by (cases "i = h") simp_all
  qed
  moreover have "rearm s = Some ?s"
    using h g hv by (simp add: rearm_def reissue_ok [OF refl])
  ultimately show ?thesis
    using Cons h(1) v(2) rounded_simps [OF g] rounded_least(1) [of ?g]
    by (intro exI [of _ ?s]) (simp add: timers_wf_def synced_def first_waits_def)
qed

text \<open>From the end of the loop on.\<close>

lemma alarm_handler_loop:
  assumes loop: "alarm_loop call (block_timer s) = Some s3" and core: "timers_core s3 q f" and z: "off_when_due s3 q"
    and b: "block_count s3 = block_count s + 1" "0 \<le> block_count s"
  shows "\<exists>s'. alarm_handler call s = Some s' \<and> timers_wf s' q f \<and> synced s' q = first_waits (g_granularity s3) (deltas s3 q) \<and>
    (q \<noteq> [] \<longrightarrow> uint (g_granularity s3) \<le> us (itimer s')) \<and> g_granularity s' = g_granularity s3 \<and>
    block_count s' = block_count s"
proof -
  obtain s4 where s4: "rearm s3 = Some s4" "timers_wf s4 q f" "synced s4 q = first_waits (g_granularity s3) (deltas s3 q)"
      "q \<noteq> [] \<longrightarrow> uint (g_granularity s3) \<le> us (itimer s4)" "g_granularity s4 = g_granularity s3"
      "block_count s4 = block_count s3"
    using rearm_ok [OF core z] by blast
  moreover have "alarm_handler call s = Some (unblock_timer s4)"
    using loop s4(1) by (simp add: alarm_handler_def rearm_def)
  ultimately show ?thesis
    using wf_unblock [of s4 q f] b by simp
qed

lemma alarm_handler_ok:
  assumes core: "timers_core s (t # r) f" and z: "us (itimer s) = 0" and wb: "well_behaved call"
  shows "\<exists>s1 s' q' f'. alarm_loop call (block_timer s) = Some s1 \<and> expires_soon s1 = Some False \<and>
    alarm_handler call s = Some s' \<and> timers_wf s' q' f' \<and> running s' q' \<and>
    (q' \<noteq> [] \<longrightarrow> uint (g_granularity s') \<le> us (itimer s')) \<and> block_count s' = block_count s"
proof -
  have nb: "0 \<le> block_count s"
    using core by (simp add: timers_core_def)
  obtain s1 q1 f1 where s1: "alarm_loop call (block_timer s) = Some s1" "timers_core s1 q1 f1" "off_when_due s1 q1"
      "expires_soon s1 = Some False" "block_count s1 = block_count s + 1"
    using alarm_loop_ok [OF wb core_block [OF core]] z by auto
  have "0 < uint (g_granularity s1)"
    using s1(2) by (simp add: timers_core_def grain_def)
  then show ?thesis
    using alarm_handler_loop [OF s1(1-3,5) nb] s1(1,4) unfolding running_def by fastforce
qed

end
