(* ===== verification/Timer_Callbacks.thy ===== *)
theory Timer_Callbacks
  imports Timer_Alarm
begin

text \<open>
  The signal handler with two callbacks: one that leaves the timers alone, and one that replaces its timer by a new one.
\<close>

unbundle bit_operations_syntax

section \<open>Callbacks that leave the timers alone\<close>

definition recurring :: "'f timers \<Rightarrow> nat \<Rightarrow> bool" where
  "recurring s t \<longleftrightarrow> timerisset (it_interval (pool s ! t))"

definition interval :: "'f timers \<Rightarrow> nat \<Rightarrow> int" where
  "interval s t = rounded (g_granularity s) (us (it_interval (pool s ! t)))"

definition back_value :: "'f timers \<Rightarrow> nat \<Rightarrow> (nat \<times> int) list \<Rightarrow> (nat \<times> int) list" where
  "back_value s t ds = (if recurring s t then insert_value t (interval s t) ds else ds)"

definition back_deadline :: "'f timers \<Rightarrow> nat \<Rightarrow> (nat \<times> int) list \<Rightarrow> (nat \<times> int) list" where
  "back_deadline s t ds = (if recurring s t then insert_deadline t (interval s t) ds else ds)"

lemma back_deadlines: "deadlines 0 (fold (back_value s) ts ds) = fold (back_deadline s) ts (deadlines 0 ds)"
  by (induction ts arbitrary: ds) (auto simp: back_value_def back_deadline_def deadlines_insert)

lemma insert_value_zeros:
  "\<forall>p \<in> set zs. snd p = 0 \<Longrightarrow> 0 < v \<Longrightarrow> insert_value t v (zs @ ds) = zs @ insert_value t v ds"
  by (induction zs) auto

lemma idle_body:
  assumes core: "timers_core s (t # r) f" and ds: "ds = back_value s t (deltas s r)"
  shows "\<exists>s'. alarm_body (\<lambda>g t a s. Some s) s = Some s' \<and> timers_core s' (map fst ds) f \<and> deltas s' (map fst ds) = ds \<and>
    itimer s' = itimer s \<and> frame s s'"
proof -
  have pop: "timers_core (pop t s) r f" "pool (pop t s) ! t = (pool s ! t)\<lparr>enext := None\<rparr>" "deltas (pop t s) r = deltas s r"
      "t < length (pool s)" "t \<notin> set r" "t \<notin> set f" "itimer (pop t s) = itimer s" "frame s (pop t s)"
    using pop_core [OF core] by blast+
  then have same: "g_granularity (pop t s) = g_granularity s" "length (pool (pop t s)) = length (pool s)"
    by (simp_all add: frame_def)
  obtain g where g: "func (pool s ! t) = Some g" and nc: "\<not> cancelled (pool s ! t)"
    using core by (auto simp: timers_core_def)
  have rv: "requeue_values t (pop t s) (deltas (pop t s) r) = ds"
    using pop(2,3) same(1) nc ds by (simp add: requeue_values_def goes_back_def cancelled_def back_value_def recurring_def interval_def)
  have "func (pool (pop t s) ! t) \<noteq> None" "t < length (pool (pop t s))"
    using pop(2,4) same(2) g by simp_all
  then obtain s3 where s3: "requeue t (pop t s) = Some s3" "timers_core s3 (map fst ds) f" "deltas s3 (map fst ds) = ds"
      "itimer s3 = itimer s" "frame (pop t s) s3"
    using requeue_ok [OF pop(1), of t "map fst ds"] pop(5,6,7) rv by auto
  have "alarm_body (\<lambda>g t a s. Some s) s = Some s3"
    using core g _ s3(1,2) by (rule alarm_body_unfold) simp
  moreover have "frame s s3"
    using pop(8) s3(5) by (simp add: frame_def)
  ultimately show ?thesis
    using s3 by blast
qed

lemma frame_back: "frame s s' \<Longrightarrow> t < length (pool s) \<Longrightarrow> back_value s' t = back_value s t"
  by (rule ext) (simp add: back_value_def recurring_def interval_def frame_def)

lemma idle_loop:
  "timers_core s (t # zs @ r) f \<Longrightarrow> \<forall>u \<in> set zs. us (it_value (pool s ! u)) = 0 \<Longrightarrow>
    (zs \<noteq> [] \<longrightarrow> 2 \<le> uint (g_granularity s)) \<Longrightarrow> (r \<noteq> [] \<and> 2 \<le> uint (g_granularity s) \<longrightarrow> head_value s r \<noteq> 0) \<Longrightarrow>
    ds = fold (back_value s) (t # zs) (deltas s r) \<Longrightarrow>
    \<exists>s'. alarm_loop (\<lambda>g t a s. Some s) s = Some s' \<and> timers_core s' (map fst ds) f \<and> deltas s' (map fst ds) = ds \<and>
      expires_soon s' = Some False \<and> itimer s' = itimer s \<and> block_count s' = block_count s \<and>
      g_granularity s' = g_granularity s"
proof (induction zs arbitrary: s t r)
  case Nil
  have g: "grain (g_granularity s)"
    using Nil.prems(1) by (simp add: timers_core_def)
  have ds: "ds = back_value s t (deltas s r)" and core: "timers_core s (t # r) f"
    using Nil.prems by simp_all
  obtain s1 where s1: "alarm_body (\<lambda>g t a s. Some s) s = Some s1" "timers_core s1 (map fst ds) f"
      "deltas s1 (map fst ds) = ds" "itimer s1 = itimer s" "frame s s1"
    using idle_body [OF core ds] by blast
  have "head_value s1 (map fst ds) \<noteq> 0" if "map fst ds \<noteq> []" "2 \<le> uint (g_granularity s)"
  proof -
    have "hd ds = (hd (map fst ds), head_value s1 (map fst ds))"
      using deltas_hd [OF that(1), of s1] s1(3) by simp
    moreover have "hd ds \<in> {(t, interval s t), (hd r, head_value s r)} \<and> (r = [] \<longrightarrow> hd ds = (t, interval s t))"
      using that(1) insert_value_head [of t "interval s t" "deltas s r"] deltas_hd [of r s] ds
      by (cases r) (auto simp: back_value_def split: if_splits)
    moreover have "0 < interval s t"
      using g by (simp add: interval_def rounded_pos)
    ultimately show ?thesis
      using Nil.prems(4) that(2) by auto
  qed
  then have "expires_soon s1 = Some False"
    using expires_soon_eq [OF s1(2)] s1(5) by (auto simp: frame_def)
  moreover from this have "alarm_loop (\<lambda>g t a s. Some s) s = Some s1"
    using s1(1) by (subst alarm_loop.simps) simp
  ultimately show ?case
    using s1 by (auto simp: frame_def)
next
  case (Cons u zs)
  let ?ds = "back_value s t (deltas s r)"
  let ?r = "map fst ?ds"
  have g: "grain (g_granularity s)" and core: "timers_core s (t # u # zs @ r) f"
    using Cons.prems(1) by (simp_all add: timers_core_def)
  have pos: "0 < interval s t"
    using g by (simp add: interval_def rounded_pos)
  have zd: "\<forall>p \<in> set (deltas s (u # zs)). snd p = 0"
    using Cons.prems(2) by (auto simp: deltas_def)
  have split: "back_value s t (deltas s ((u # zs) @ r)) = deltas s (u # zs) @ ?ds"
    using insert_value_zeros [OF zd pos, of t "deltas s r"] by (simp add: back_value_def deltas_def)
  then obtain s1 where s1: "alarm_body (\<lambda>g t a s. Some s) s = Some s1" "timers_core s1 (u # zs @ ?r) f"
      "deltas s1 (u # zs @ ?r) = deltas s (u # zs) @ ?ds" "itimer s1 = itimer s" "frame s s1"
    using idle_body [of s t "(u # zs) @ r" f, OF _ refl] core by auto
  have vals: "deltas s1 (u # zs) = deltas s (u # zs)" "deltas s1 ?r = ?ds"
    using s1(3) by (simp_all add: deltas_def append_eq_append_conv)
  have zero: "us (it_value (pool s1 ! w)) = 0" if "w \<in> set (u # zs)" for w
  proof -
    have "(w, us (it_value (pool s1 ! w))) \<in> set (deltas s1 (u # zs))"
      using that by (auto simp: deltas_def)
    then show ?thesis
      unfolding vals(1) using zd by auto
  qed
  have gr: "g_granularity s1 = g_granularity s" and len: "length (pool s1) = length (pool s)"
    using s1(5) by (simp_all add: frame_def)
  have two: "2 \<le> uint (g_granularity s)"
    using Cons.prems(3) by simp
  have "expires_soon s1 = Some True"
    using expires_soon_eq [OF s1(2)] zero [of u] gr two by simp
  then have loop: "alarm_loop (\<lambda>g t a s. Some s) s = alarm_loop (\<lambda>g t a s. Some s) s1"
    using s1(1) by (subst alarm_loop.simps) simp
  have inr: "w < length (pool s)" if "w \<in> set (u # zs)" for w
    using core_sel(7) [OF core, of w] that by auto
  have "ds = fold (back_value s1) (u # zs) (deltas s1 ?r)"
  proof -
    have "fold (back_value s1) (u # zs) x = fold (back_value s) (u # zs) x" for x
      by (rule fold_cong) (simp_all add: frame_back [OF s1(5) inr])
    then show ?thesis
      using Cons.prems(5) vals(2) by simp
  qed
  moreover have "head_value s1 ?r \<noteq> 0" if "?r \<noteq> []"
  proof -
    have "hd ?ds = (hd ?r, head_value s1 ?r)"
      using deltas_hd [OF that, of s1] vals(2) by simp
    moreover have "hd ?ds \<in> {(t, interval s t), (hd r, head_value s r)} \<and> (r = [] \<longrightarrow> hd ?ds = (t, interval s t))"
      using that insert_value_head [of t "interval s t" "deltas s r"] deltas_hd [of r s]
      by (cases r) (auto simp: back_value_def split: if_splits)
    ultimately show ?thesis
      using Cons.prems(4) pos two by auto
  qed
  ultimately obtain s' where "alarm_loop (\<lambda>g t a s. Some s) s1 = Some s'" "timers_core s' (map fst ds) f"
      "deltas s' (map fst ds) = ds" "expires_soon s' = Some False" "itimer s' = itimer s1" "block_count s' = block_count s1"
      "g_granularity s' = g_granularity s1"
    using Cons.IH [of s1 u ?r] s1(2) zero gr two by auto
  then show ?case
    using loop s1(4,5) gr by (auto simp: frame_def)
qed

lemma idle_handler:
  assumes core: "timers_core s (t # zs @ r) f" and z: "us (itimer s) = 0"
    and zs: "\<forall>u \<in> set zs. us (it_value (pool s ! u)) = 0" "zs \<noteq> [] \<longrightarrow> 2 \<le> uint (g_granularity s)"
    and r: "r \<noteq> [] \<and> 2 \<le> uint (g_granularity s) \<longrightarrow> head_value s r \<noteq> 0"
    and ds: "ds = fold (back_value s) (t # zs) (deltas s r)"
  shows "\<exists>s'. alarm_handler (\<lambda>g t a s. Some s) s = Some s' \<and> timers_wf s' (map fst ds) f \<and>
    synced s' (map fst ds) = first_waits (g_granularity s) ds \<and>
    (\<forall>p \<in> set ds. 0 \<le> snd p \<and> uint (g_granularity s) dvd snd p) \<and>
    (ds \<noteq> [] \<and> snd (hd ds) = 0 \<longrightarrow> uint (g_granularity s) < 2)"
proof -
  let ?b = "block_timer s"
  have same: "deltas ?b r = deltas s r" "head_value ?b r = head_value s r" "back_value ?b = back_value s"
    by (cases r; simp add: deltas_def fun_eq_iff back_value_def recurring_def interval_def)+
  have "\<exists>s1. alarm_loop (\<lambda>g t a s. Some s) ?b = Some s1 \<and> timers_core s1 (map fst ds) f \<and> deltas s1 (map fst ds) = ds \<and>
      expires_soon s1 = Some False \<and> itimer s1 = itimer ?b \<and> block_count s1 = block_count ?b \<and> g_granularity s1 = g_granularity ?b"
    by (rule idle_loop [OF core_block [OF core]]) (use z zs r ds in \<open>simp_all add: same\<close>)
  then obtain s1 where s1: "alarm_loop (\<lambda>g t a s. Some s) ?b = Some s1" "timers_core s1 (map fst ds) f"
      "deltas s1 (map fst ds) = ds" "itimer s1 = itimer s" "block_count s1 = block_count s + 1"
      "g_granularity s1 = g_granularity s" "expires_soon s1 = Some False"
    by auto
  have off: "off_when_due s1 (map fst ds)" "0 \<le> block_count s"
    using s1(4) z core by (simp_all add: off_when_due_def timers_core_def)
  have "0 \<le> snd p \<and> uint (g_granularity s) dvd snd p" if "p \<in> set ds" for p
  proof -
    have "p \<in> set (deltas s1 (map fst ds))"
      using that s1(3) by simp
    then show ?thesis
      using s1(2,6) us_nonneg by (auto simp: deltas_def timers_core_def on_grain_def)
  qed
  moreover have "uint (g_granularity s) < 2" if "ds \<noteq> []" "snd (hd ds) = 0"
  proof -
    have "hd ds = (hd (map fst ds), head_value s1 (map fst ds))"
      using deltas_hd [of "map fst ds" s1] s1(3) that(1) by simp
    then show ?thesis
      using expires_soon_eq [OF s1(2)] s1(6,7) that by auto
  qed
  ultimately show ?thesis
    using alarm_handler_loop [OF s1(1,2) off(1) s1(5) off(2)] s1(3,6) by auto
qed

text \<open>What the handler makes of the deadlines.\<close>

lemma first_waits_deadlines:
  assumes g: "grain g" and ds: "\<forall>p \<in> set ds. 0 \<le> snd p \<and> uint g dvd snd p"
    and one: "ds \<noteq> [] \<and> snd (hd ds) = 0 \<longrightarrow> uint g < 2"
  shows "deadlines 0 (first_waits g ds) =
    map (\<lambda>(u, x). (u, x + (if snd (hd (deadlines 0 ds)) = 0 then 1 else 0))) (deadlines 0 ds)"
proof (cases ds)
  case Nil
  then show ?thesis
    by (simp add: first_waits_def)
next
  case (Cons p r)
  obtain h d where p: "p = (h, d)"
    by (cases p)
  have id: "map (\<lambda>(u, x). (u, x)) xs = xs" for xs :: "(nat \<times> int) list"
    by (induction xs) auto
  show ?thesis
  proof (cases "d = 0")
    case True
    then have "rounded g d = 1"
      using Cons p one g rounded_multiple [OF g, of 0] by (simp add: grain_def)
    then show ?thesis
      using Cons p True deadlines_shift [of 0 1 r] by (simp add: first_waits_def)
  next
    case False
    then have "rounded g d = d"
      using Cons p ds by (intro rounded_same [OF g]) auto
    then show ?thesis
      using Cons p False id by (simp add: first_waits_def)
  qed
qed

text \<open>The timers behind the first that are due with it, and what becomes of the deadlines.\<close>

definition due_with :: "'f timers \<Rightarrow> nat list \<Rightarrow> nat list" where
  "due_with s r =
     (if g_granularity s = 1 then [] else takeWhile (\<lambda>u. us (it_value (pool s ! u)) = 0) r)"

definition after_alarm :: "'f timers \<Rightarrow> nat \<Rightarrow> nat list \<Rightarrow> (nat \<times> int) list" where
  "after_alarm s t r =
     fold (back_deadline s) (t # due_with s r) (deadlines 0 (deltas s (drop (length (due_with s r)) r)))"

lemma due_with_split: "due_with s r @ drop (length (due_with s r)) r = r"
  by (simp add: due_with_def takeWhile_dropWhile_id flip: dropWhile_eq_drop)

lemma due_with_zero: "u \<in> set (due_with s r) \<Longrightarrow> us (it_value (pool s ! u)) = 0"
  by (auto simp: due_with_def dest: set_takeWhileD split: if_splits)

lemma due_with_grain: "grain (g_granularity s) \<Longrightarrow> due_with s r \<noteq> [] \<longrightarrow> 2 \<le> uint (g_granularity s)"
proof -
  assume "grain (g_granularity s)"
  then have "0 < uint (g_granularity s)"
    by (simp add: grain_def)
  moreover have "uint (g_granularity s) = 1 \<longleftrightarrow> g_granularity s = 1"
    by (metis uint_1 word_uint_eqI)
  ultimately show ?thesis
    by (auto simp: due_with_def)
qed

lemma due_with_rest:
  "drop (length (due_with s r)) r \<noteq> [] \<and> 2 \<le> uint (g_granularity s) \<longrightarrow> head_value s (drop (length (due_with s r)) r) \<noteq> 0"
proof (cases "g_granularity s = 1")
  case False
  let ?P = "\<lambda>u. us (it_value (pool s ! u)) = 0"
  have "drop (length (due_with s r)) r = dropWhile ?P r"
    using False by (simp add: due_with_def dropWhile_eq_drop)
  moreover have "head_value s (dropWhile ?P r) \<noteq> 0" if "dropWhile ?P r \<noteq> []"
    using hd_dropWhile [OF that] that by (cases "dropWhile ?P r") simp_all
  ultimately show ?thesis
    by simp
qed simp

lemma idle_deadlines:
  assumes core: "timers_core s (t # r) f" and z: "us (itimer s) = 0"
  shows "\<exists>s' q'. alarm_handler (\<lambda>g t a s. Some s) s = Some s' \<and> timers_wf s' q' f \<and>
    pending s' q' = map (\<lambda>(u, x). (u, x + (if snd (hd (after_alarm s t r)) = 0 then 1 else 0))) (after_alarm s t r)"
proof -
  let ?zs = "due_with s r" and ?r = "drop (length (due_with s r)) r" and ?g = "g_granularity s"
  define ds where "ds = fold (back_value s) (t # ?zs) (deltas s ?r)"
  have g: "grain ?g"
    using core by (simp add: timers_core_def)
  have core': "timers_core s (t # ?zs @ ?r) f"
    using core due_with_split [of s r] by simp
  obtain s' where s': "alarm_handler (\<lambda>g t a s. Some s) s = Some s'" "timers_wf s' (map fst ds) f"
      "synced s' (map fst ds) = first_waits ?g ds" "\<forall>p \<in> set ds. 0 \<le> snd p \<and> uint ?g dvd snd p"
      "ds \<noteq> [] \<and> snd (hd ds) = 0 \<longrightarrow> uint ?g < 2"
    using idle_handler [OF core' z _ due_with_grain [OF g] due_with_rest ds_def] due_with_zero by blast
  have "deadlines 0 ds = after_alarm s t r"
    unfolding ds_def after_alarm_def by (rule back_deadlines)
  then show ?thesis
    using s'(1,2) first_waits_deadlines [OF g s'(4,5)] s'(3)
    by (intro exI [of _ s'] exI [of _ "map fst ds"]) (simp add: pending_def)
qed

section \<open>A callback that replaces its timer\<close>

text \<open>It deletes its timer and creates another one.\<close>

definition replace_timer :: "'f \<Rightarrow> nat \<Rightarrow> int \<Rightarrow> 'f timers \<Rightarrow> 'f timers option" where
  "replace_timer g t a s = do { s \<leftarrow> run_call (Delete t) s; run_call Create s }"

lemma replace_timer_ok:
  assumes wf: "timers_wf s q f" and t: "t < length (pool s)" "t \<notin> set q" "t \<notin> set f"
  shows "\<exists>s'. replace_timer g t a s = Some s' \<and> timers_wf s' q f \<and> synced s' q = synced s q \<and> itimer s' = itimer s \<and>
    block_count s' = block_count s \<and> length (pool s') = length (pool s) \<and>
    pool s' ! t = (pool s ! t)\<lparr>flags := TFLAG_NONE, enext := None\<rparr>"
proof -
  obtain s1 w p where s1: "timer_delete t s = Some (0, s1)" "timers_wf s1 q (t # f)" "synced s1 q = synced s q"
      "itimer s1 = itimer s" "block_count s1 = block_count s"
      "length (pool s1) = length (pool s)" "pool s1 ! t = (pool s ! t)\<lparr>flags := w, enext := p\<rparr>"
    using timer_delete_idle [OF wf t] by blast
  then show ?thesis
    using timer_create_ok [OF s1(2), of None] by (auto simp: replace_timer_def bcm_defs)
qed

lemma replace_body:
  assumes core: "timers_core s (t # r) f" and z: "us (itimer s) = 0"
  shows "\<exists>s' v. let ds = (if timerisset (it_interval (pool s ! t)) then insert_value t v (deltas s r) else deltas s r) in
    alarm_body replace_timer s = Some s' \<and> 0 < v \<and> timers_core s' (map fst ds) f \<and> deltas s' (map fst ds) = ds \<and>
    us (itimer s') = 0 \<and> block_count s' = block_count s"
proof -
  have pop: "timers_wf (pop t s) r f" "pool (pop t s) ! t = (pool s ! t)\<lparr>enext := None\<rparr>" "synced (pop t s) r = deltas s r"
      "t < length (pool s)" "t \<notin> set r" "t \<notin> set f" "itimer (pop t s) = itimer s" "block_count (pop t s) = block_count s"
      "frame s (pop t s)"
    using pop_core [OF core] pop_ok [OF core z] by blast+
  then have len: "t < length (pool (pop t s))"
    by (simp add: frame_def)
  obtain g where g: "func (pool s ! t) = Some g"
    using core by (auto simp: timers_core_def)
  obtain s2 where s2: "replace_timer g t (arg (pool s ! t)) (pop t s) = Some s2" "timers_wf s2 r f" "synced s2 r = deltas s r"
      "itimer s2 = itimer s" "block_count s2 = block_count s" "t < length (pool s2)"
      "pool s2 ! t = (pool s ! t)\<lparr>flags := TFLAG_NONE, enext := None\<rparr>"
    using replace_timer_ok [OF pop(1) len pop(5,6), of g "arg (pool s ! t)"] pop len by auto
  let ?v = "rounded (g_granularity s2) (us (it_interval (pool s ! t)))"
  let ?ds = "if timerisset (it_interval (pool s ! t)) then insert_value t ?v (deltas s r) else deltas s r"
  have "deltas s2 r = deltas s r"
    using s2(3,4) z synced_deltas [of s2 r] by simp
  then have rv: "requeue_values t s2 (deltas s2 r) = ?ds"
    using s2(7) by (simp add: requeue_values_def goes_back_def cancelled_def TFLAG_NONE_def)
  have again: "func (pool s2 ! t) \<noteq> None"
    using s2(7) g by simp
  obtain s3 where s3: "requeue t s2 = Some s3" "timers_core s3 (map fst ?ds) f" "deltas s3 (map fst ?ds) = ?ds"
      "itimer s3 = itimer s2" "frame s2 s3"
    using requeue_ok [of s2 r f t "map fst ?ds"] s2(2,6) again pop(5,6) unfolding rv timers_wf_def by blast
  have "alarm_body replace_timer s = Some s3"
    using core g s2(1) s3(1,2) by (rule alarm_body_unfold)
  moreover have "0 < ?v"
    using s2(2) by (intro rounded_pos) (simp add: timers_wf_def timers_core_def)
  ultimately show ?thesis
    using s3 s2(4,5) z by (intro exI [of _ s3] exI [of _ ?v]) (simp add: Let_def frame_def)
qed

lemma insert_deadline_set: "set (insert_deadline t x ds) = insert (t, x) (set ds)"
  by (induction t x ds rule: insert_deadline.induct) auto

lemma deadlines_fst: "map fst (deadlines a ds) = map fst ds"
  by (induction a ds rule: deadlines.induct) simp_all

lemma replace_loop:
  "timers_core s (u # r) f \<Longrightarrow> us (itimer s) = 0 \<Longrightarrow> 0 < x \<Longrightarrow>
    (t, x) \<in> set (deadlines 0 (deltas s r)) \<or> t = u \<and> timerisset (it_interval (pool s ! u)) \<Longrightarrow>
    \<exists>s' q. alarm_loop replace_timer s = Some s' \<and> timers_core s' q f \<and> us (itimer s') = 0 \<and> t \<in> set q \<and>
      block_count s' = block_count s"
proof (induction "leading (deltas s r)" arbitrary: s u r x rule: less_induct)
  case less
  obtain s1 v where s1: "let ds = (if timerisset (it_interval (pool s ! u)) then insert_value u v (deltas s r) else deltas s r) in
      alarm_body replace_timer s = Some s1 \<and> 0 < v \<and> timers_core s1 (map fst ds) f \<and> deltas s1 (map fst ds) = ds \<and>
      us (itimer s1) = 0 \<and> block_count s1 = block_count s"
    using replace_body [OF less.prems(1,2)] by blast
  define ds where "ds = (if timerisset (it_interval (pool s ! u)) then insert_value u v (deltas s r) else deltas s r)"
  have s1: "alarm_body replace_timer s = Some s1" "0 < v" "timers_core s1 (map fst ds) f" "deltas s1 (map fst ds) = ds"
      "us (itimer s1) = 0" "block_count s1 = block_count s"
    using s1 unfolding Let_def ds_def by blast+
  have lead: "leading ds = leading (deltas s r)"
    using s1(2) by (simp add: ds_def leading_insert)
  have "\<exists>y > 0. (t, y) \<in> set (deadlines 0 ds)"
    using less.prems(3,4) s1(2) by (auto simp: ds_def deadlines_insert insert_deadline_set)
  then obtain y where y: "0 < y" "(t, y) \<in> set (deadlines 0 ds)"
    by blast
  then have "t \<in> set (map fst (deadlines 0 ds))"
    by force
  then have tq: "t \<in> set (map fst ds)"
    by (simp only: deadlines_fst)
  show ?case
  proof (cases "expires_soon s1 = Some False")
    case True
    then have "alarm_loop replace_timer s = Some s1"
      using s1(1) by (subst alarm_loop.simps) simp
    then show ?thesis
      using s1 tq by blast
  next
    case False
    then have again: "expires_soon s1 = Some True" "head_value s1 (map fst ds) = 0" "ds \<noteq> []"
      using expires_soon_eq [OF s1(3)] by auto
    then obtain w d ds' where ds: "ds = (w, d) # ds'"
      by (cases ds) auto
    then have d: "d = 0" "deltas s1 (map fst ds') = ds'"
      using s1(4) again(2) by simp_all
    have "leading ds = Suc (leading ds')" "(t, y) \<in> set (deadlines 0 ds')"
      using ds d(1) y by auto
    then have "\<exists>s' q. alarm_loop replace_timer s1 = Some s' \<and> timers_core s' q f \<and> us (itimer s') = 0 \<and> t \<in> set q \<and>
        block_count s' = block_count s1"
      using less.hyps [of s1 "map fst ds'" w y] lead s1(3,5) y(1) d(2) ds by simp
    moreover have "alarm_loop replace_timer s = alarm_loop replace_timer s1"
      using s1(1) again(1) by (subst alarm_loop.simps) simp
    ultimately show ?thesis
      using s1(6) by auto
  qed
qed

lemma replace_handler:
  assumes core: "timers_core s (t # r) f" and z: "us (itimer s) = 0" and rec: "timerisset (it_interval (pool s ! t))"
  shows "\<exists>s' q'. alarm_handler replace_timer s = Some s' \<and> timers_wf s' q' f \<and> t \<in> set q'"
proof -
  obtain s1 q where s1: "alarm_loop replace_timer (block_timer s) = Some s1" "timers_core s1 q f" "us (itimer s1) = 0"
      "t \<in> set q" "block_count s1 = block_count s + 1"
    using replace_loop [OF core_block [OF core], of 1 t] z rec by auto
  have "off_when_due s1 q" "0 \<le> block_count s"
    using s1(3) core by (simp_all add: off_when_due_def timers_core_def)
  then show ?thesis
    using alarm_handler_loop [OF s1(1,2) _ s1(5)] s1(4) by blast
qed

end
