(* ===== verification/Timer_Reach.thy ===== *)
theory Timer_Reach
  imports Timer_Callbacks
begin

text \<open>
  The reachable states of the timers, the lemmas on the calls outside their contract, and the states of the witnesses.
\<close>

section \<open>Reachable states\<close>

text \<open>
  The client calls under the contract, time passes in multiples of the granularity, and the signal comes when the
  interval timer has run out, between two calls.
\<close>

inductive timers_reachable :: "('f \<Rightarrow> nat \<Rightarrow> int \<Rightarrow> 'f timers \<Rightarrow> 'f timers option) \<Rightarrow> 'f timers \<Rightarrow> bool"
  for call :: "'f \<Rightarrow> nat \<Rightarrow> int \<Rightarrow> 'f timers \<Rightarrow> 'f timers option" where
  reach_init: "init_event_queue n g = Some s \<Longrightarrow> grain g \<Longrightarrow> timers_reachable call s"
| reach_call: "timers_reachable call s \<Longrightarrow> timers_wf s q f \<Longrightarrow> allowed c s q f \<Longrightarrow> run_call c s = Some s' \<Longrightarrow>
    timers_reachable call s'"
| reach_time: "timers_reachable call s \<Longrightarrow> on_grain (g_granularity s) v \<Longrightarrow> 0 < us v \<Longrightarrow> us v < us (itimer s) \<Longrightarrow>
    timers_reachable call (s\<lparr>itimer := v\<rparr>)"
| reach_alarm: "timers_reachable call s \<Longrightarrow> timerisset (itimer s) \<Longrightarrow>
    alarm_handler call (s\<lparr>itimer := timerclear\<rparr>) = Some s' \<Longrightarrow> timers_reachable call s'"

lemma init_wf:
  assumes "init_event_queue n g = Some s" and "grain g"
  shows "timers_wf s [] [0..<n] \<and> block_count s = 0"
proof -
  have s: "0 < n" "pool s = map (\<lambda>i. blank_event (if i < n - 1 then Some (i + 1) else None)) [0..<n]" "event_queue s = None"
      "event_freelist s = Some 0" "g_granularity s = g" "g_maxevents s = int n" "itimer s = timerclear" "block_count s = 0" "\<not> alarm_blocked s"
    using assms(1) by (auto simp: init_event_queue_def split: if_splits)
  have ch: "chain s (if i < n then Some i else None) [i..<n]" if "i \<le> n" for i
    using that
  proof (induction "n - i" arbitrary: i)
    case (Suc k)
    then have "chain s (if Suc i < n then Some (Suc i) else None) [Suc i..<n]"
      by simp
    moreover have "enext (pool s ! i) = (if Suc i < n then Some (Suc i) else None)"
    proof -
      have "i < n" "i < n - 1 \<longleftrightarrow> Suc i < n"
        using Suc by arith+
      then show ?thesis
        by (simp add: s(2) blank_event_def)
    qed
    ultimately show ?case
      using Suc s(1,2) by (simp add: upt_rec [of i n])
  qed simp
  have "chain s (event_freelist s) [0..<n]"
    using ch [of 0] s by simp
  then show ?thesis
    using s assms(2) by (simp add: timers_wf_def timers_core_def blank_event_def)
qed

lemma wf_time:
  assumes "timers_wf s q f" and "on_grain (g_granularity s) v" and "us v \<le> us (itimer s)"
  shows "timers_wf (s\<lparr>itimer := v\<rparr>) q f"
proof -
  have "timers_core (s\<lparr>itimer := v\<rparr>) q f"
    using assms by (intro core_itimer) (simp_all add: timers_wf_def)
  then show ?thesis
    using assms by (cases q) (simp_all add: timers_wf_def)
qed

lemma alarm_wf:
  assumes wf: "timers_wf s q f" and set: "timerisset (itimer s)" and wb: "well_behaved call"
  shows "\<exists>s1 s' q' f'. alarm_loop call (block_timer (s\<lparr>itimer := timerclear\<rparr>)) = Some s1 \<and> expires_soon s1 = Some False \<and>
    alarm_handler call (s\<lparr>itimer := timerclear\<rparr>) = Some s' \<and> timers_wf s' q' f' \<and> running s' q' \<and>
    (q' \<noteq> [] \<longrightarrow> uint (g_granularity s') \<le> us (itimer s')) \<and> block_count s' = block_count s"
proof -
  have core: "timers_core s q f" and le: "us (itimer s) \<le> head_value s q"
    using wf by (simp_all add: timers_wf_def)
  have pos: "0 < us (itimer s)"
    using set core_sel(3) [OF core] us_nonneg [of "itimer s"] by (auto simp: timerisset_us on_grain_def)
  then obtain t r where q: "q = t # r"
    using le by (cases q) auto
  have "timers_core (s\<lparr>itimer := timerclear\<rparr>) (t # r) f"
    using wf_time [OF wf, of timerclear] pos q by (simp add: timers_wf_def)
  from alarm_handler_ok [OF this _ wb] show ?thesis
    by simp
qed

lemma reachable_wf:
  assumes "timers_reachable call s" and wb: "well_behaved call"
  shows "\<exists>q f. timers_wf s q f \<and> running s q \<and> block_count s = 0"
  using assms(1)
proof (induction rule: timers_reachable.induct)
  case (reach_init n g s)
  then show ?case
    using init_wf running_Nil by blast
next
  case (reach_call s q f c s')
  then have "running s q"
    using wf_unique by blast
  then show ?case
    using run_call_ok [OF reach_call(2,3)] reach_call by auto
next
  case (reach_time s v)
  then obtain q f where q: "timers_wf s q f" "running s q" "block_count s = 0"
    by blast
  then show ?case
    using wf_time [OF q(1) reach_time(2)] reach_time(3,4)
    by (intro exI [of _ q] exI [of _ f]) (simp add: running_def)
next
  case (reach_alarm s s')
  then show ?case
    using alarm_wf [OF _ reach_alarm(2) wb] by fastforce
qed

section \<open>Rearming a pending timer\<close>

lemma check_self_loop:
  assumes "t < length (pool s)" and "enext (pool s ! t) = Some t"
  shows "check_loop (Some t) i s = None"
proof (induction "nat (g_maxevents s + 1 - i)" arbitrary: i)
  case 0
  then show ?case
    by (subst check_loop.simps) simp
next
  case (Suc k)
  then have "check_loop (Some t) (i + 1) s = None"
    by simp
  then show ?case
    using assms by (subst check_loop.simps) (simp add: get_event_ok)
qed

lemma insert_self:
  assumes "event_queue s = Some t" and "t < length (pool s)" and "enext (pool s ! t) = None"
  shows "\<exists>s'. insert_loop t Head s = Some s' \<and> event_queue s' = Some t \<and> t < length (pool s') \<and>
    enext (pool s' ! t) = Some t"
proof -
  let ?e = "pool s ! t"
  let ?v = "timersub (it_value ?e) (it_value ?e)"
  have "\<not> timer_less (it_value ?e) (it_value ?e)"
    by (simp add: timer_less_def)
  then have "insert_loop t Head s = insert_loop t (Next t) (s\<lparr>pool := (pool s)[t := ?e\<lparr>it_value := ?v\<rparr>]\<rparr>)"
    using assms by (subst insert_loop.simps) (simp add: get_event_ok modify_event_ok)
  also have "\<dots> = Some (s\<lparr>pool := (pool s)[t := ?e\<lparr>it_value := ?v, enext := Some t\<rparr>]\<rparr>)"
    using assms by (subst insert_loop.simps) (simp add: get_event_ok modify_event_ok)
  finally show ?thesis
    using assms by (intro exI [of _ "s\<lparr>pool := (pool s)[t := ?e\<lparr>it_value := ?v, enext := Some t\<rparr>]\<rparr>"]) simp
qed

lemma sync_head_frame:
  assumes "event_queue s = Some t" and "t < length (pool s)"
  shows "\<exists>s'. sync_head s = Some s' \<and> event_queue s' = Some t \<and> t < length (pool s') \<and> enext (pool s' ! t) = enext (pool s ! t)"
  using assms by (auto simp: sync_head_def get_event_ok modify_event_ok)

lemma arm_self:
  assumes q: "event_queue s = Some t" and t: "t < length (pool s)" "enext (pool s ! t) = None"
    and g: "g_granularity s \<noteq> 0"
  shows "arm t s = None"
proof -
  let ?e = "(pool s ! t)\<lparr>it_value := roundup (it_value (pool s ! t)) (g_granularity s)\<rparr>"
  let ?s = "(block_timer s)\<lparr>pool := (pool s)[t := ?e]\<rparr>"
  obtain s3 where s3: "sync_head ?s = Some s3" "event_queue s3 = Some t" "t < length (pool s3)" "enext (pool s3 ! t) = None"
    using sync_head_frame [of ?s t] q t by auto
  obtain s4 where s4: "insert_loop t Head s3 = Some s4" "event_queue s4 = Some t" "t < length (pool s4)"
      "enext (pool s4 ! t) = Some t"
    using insert_self [OF s3(2-4)] by blast
  have "check_event_queue s4 = None"
    using check_self_loop [OF s4(3,4), of 0] s4(2) by (simp add: check_event_queue_def)
  then show ?thesis
    using t s3(1) s4(1) timerroundup_Some [OF g] by (simp add: arm_def get_event_ok modify_event_ok)
qed

section \<open>Further operations\<close>

text \<open>\<^verbatim>\<open>timer_cancel_all\<close> returns with no timer pending and the interval timer off.\<close>

lemma cancel_all_loop_ok:
  "timers_core s q f \<Longrightarrow> us (itimer s) = 0 \<Longrightarrow>
     \<exists>s'. cancel_all_loop s = Some s' \<and> timers_wf s' [] f \<and> itimer s' = itimer s \<and> block_count s' = block_count s"
proof (induction q arbitrary: s)
  case Nil
  then show ?case
    by (subst cancel_all_loop.simps) (simp add: timers_core_def timers_wf_def)
next
  case (Cons t q)
  note pop = pop_ok [OF Cons.prems] pop_core [OF Cons.prems(1)]
  then have "\<exists>s'. cancel_all_loop (pop t s) = Some s' \<and> timers_wf s' [] f \<and> itimer s' = itimer (pop t s) \<and>
      block_count s' = block_count (pop t s)"
    using Cons.prems(2) by (intro Cons.IH) (simp_all add: timers_wf_def)
  moreover have "cancel_all_loop s = cancel_all_loop (pop t s)"
    using Cons.prems(1) by (subst cancel_all_loop.simps) (simp add: timers_core_def get_event_ok modify_event_ok pop_def)
  ultimately show ?case
    using pop by simp
qed

lemma timer_cancel_all_ok:
  assumes "timers_wf s q f"
  shows "\<exists>s'. timer_cancel_all s = Some s' \<and> timers_wf s' [] f \<and> itimer s' = timerclear \<and> block_count s' = block_count s"
proof -
  have "timers_core (s\<lparr>itimer := timerclear\<rparr>) q f"
    using assms by (intro core_itimer) (simp_all add: timers_wf_def)
  then show ?thesis
    using cancel_all_loop_ok [of "s\<lparr>itimer := timerclear\<rparr>" q f] by (simp add: timer_cancel_all_def setitimer_norm)
qed

text \<open>The clock reads back as a time of the timers.\<close>

lemma clock_gettime_back: "norm now \<Longrightarrow> TIMESPEC_TO_TIMEVAL (clock_gettime now) = now"
  by (rule timeval.equality)
    (auto simp: TIMESPEC_TO_TIMEVAL_def clock_gettime_def TIMEVAL_TO_TIMESPEC_def norm_def abs_mult sgn_mult sgn_if)

text \<open>Enabling a module that is not disabled makes the counter negative; from then on the operations run without
  blocking the signal.\<close>

lemma enable_unbalanced:
  "block_count s = 0 \<Longrightarrow> \<not> alarm_blocked s \<Longrightarrow> \<not> alarm_blocked (block_timer (snd (bcm_timer_module_enable True s)))"
  by (simp add: bcm_timer_module_enable_def block_timer_def unblock_timer_def Let_def)

section \<open>Values of appended queues\<close>

lemma length_deltas [simp]: "length (deltas s ts) = length ts"
  by (simp add: deltas_def)

lemma deltas_append [simp]: "deltas s (xs @ ys) = deltas s xs @ deltas s ys"
  by (simp add: deltas_def)

section \<open>Example states\<close>

text \<open>The granularity is ten milliseconds.  One timer: free, created, connected and set to ten seconds.  Two timers: the
  first, recurring, was set to ten seconds four seconds ago, the second is due five seconds later.  Three timers: the
  first two, both recurring, are due at the same time.\<close>

definition example_event :: "timeval \<Rightarrow> timeval \<Rightarrow> unit option \<Rightarrow> nat option \<Rightarrow> unit event" where
  "example_event i v g n = \<lparr>it_interval = i, it_value = v, func = g, arg = 0, flags = 0, enext = n\<rparr>"

definition one_timer :: "nat option \<Rightarrow> nat option \<Rightarrow> unit option \<Rightarrow> timeval \<Rightarrow> unit timers" where
  "one_timer q f g v =
     \<lparr>pool = [example_event timerclear v g None], event_queue = q, event_freelist = f, g_granularity = 10000,
      g_maxevents = 1, itimer = v, block_count = 0, alarm_blocked = False\<rparr>"

definition two_timers :: "unit timers" where
  "two_timers =
     \<lparr>pool = [example_event (time_of 20 0) (time_of 10 0) (Some ()) (Some 1),
              example_event timerclear (time_of 5 0) (Some ()) None],
      event_queue = Some 0, event_freelist = None, g_granularity = 10000, g_maxevents = 2, itimer = time_of 6 0,
      block_count = 0, alarm_blocked = False\<rparr>"

definition three_timers :: "unit timers" where
  "three_timers =
     \<lparr>pool = [example_event (time_of 20 0) (time_of 10 0) (Some ()) (Some 1),
              example_event (time_of 5 0) timerclear (Some ()) (Some 2),
              example_event timerclear (time_of 7 0) (Some ()) None],
      event_queue = Some 0, event_freelist = None, g_granularity = 10000, g_maxevents = 3, itimer = time_of 4 0,
      block_count = 0, alarm_blocked = False\<rparr>"

definition ten_seconds :: itimerspec where
  "ten_seconds = \<lparr>sp_interval = \<lparr>ts_sec = 0, ts_nsec = 0\<rparr>, sp_value = \<lparr>ts_sec = 10, ts_nsec = 0\<rparr>\<rparr>"

lemma grain_10ms: "grain 10000"
  by (simp add: grain_def)

lemma ten_seconds_valid: "valid_spec 10000 ten_seconds" "set_value ten_seconds = 10000000"
  by code_simp+

lemma one_timer_wf:
  "timers_wf (one_timer None (Some 0) None timerclear) [] [0]"
  "timers_wf (one_timer None None None timerclear) [] []"
  "timers_wf (one_timer None None (Some ()) timerclear) [] []"
  "timers_wf (one_timer (Some 0) None (Some ()) (time_of 10 0)) [0] []"
  by (simp_all add: timers_wf_def timers_core_def one_timer_def example_event_def cancelled_def deleted_def norm_def us_def
      on_grain_def roundable_def grain_10ms
      timerclear_def)

lemma two_timers_wf: "timers_wf two_timers [0, 1] []"
  by (simp add: timers_wf_def timers_core_def two_timers_def example_event_def cancelled_def deleted_def norm_def us_def
      on_grain_def roundable_def grain_10ms
      timerclear_def All_less_Suc)

lemma three_timers_wf: "timers_wf three_timers [0, 1, 2] []"
  by (simp add: timers_wf_def timers_core_def three_timers_def example_event_def cancelled_def deleted_def norm_def us_def
      on_grain_def roundable_def grain_10ms timerclear_def All_less_Suc)

lemma reach_step:
  "timers_reachable call s \<Longrightarrow> run_call c s = Some s' \<Longrightarrow> timers_wf s q f \<Longrightarrow> allowed c s q f \<Longrightarrow> timers_reachable call s'"
  by (rule reach_call)

lemma one_timer_reachable: "timers_reachable call (one_timer (Some 0) None (Some ()) (time_of 10 0))"
proof -
  have "init_event_queue 1 10000 = Some (one_timer None (Some 0) None timerclear)"
    by code_simp
  then have "timers_reachable call (one_timer None (Some 0) None timerclear)"
    using grain_10ms by (rule reach_init)
  moreover have "run_call Create (one_timer None (Some 0) None timerclear) = Some (one_timer None None None timerclear)"
    by code_simp
  ultimately have "timers_reachable call (one_timer None None None timerclear)"
    by (rule reach_step [OF _ _ one_timer_wf(1)]) simp
  moreover have "run_call (Connect 0 () 0) (one_timer None None None timerclear) = Some (one_timer None None (Some ()) timerclear)"
    by code_simp
  ultimately have "timers_reachable call (one_timer None None (Some ()) timerclear)"
    by (rule reach_step [OF _ _ one_timer_wf(2)]) (simp add: one_timer_def)
  moreover have "run_call (Settime 0 ten_seconds) (one_timer None None (Some ()) timerclear) =
      Some (one_timer (Some 0) None (Some ()) (time_of 10 0))"
    by code_simp
  ultimately show ?thesis
    by (rule reach_step [OF _ _ one_timer_wf(3)]) (simp add: one_timer_def example_event_def ten_seconds_valid)
qed

end
