(* ===== verification/Timer_Race.thy ===== *)
theory Timer_Race
  imports Timer_Reach
begin

text \<open>
  Runs of the timers outside their contract: the signal that arrives while a cancellation has it blocked, and a time that
  the granularity rounds up to a whole second.
\<close>

unbundle bit_operations_syntax

section \<open>The signal during a cancellation\<close>

lemma wf_expired:
  assumes "timers_wf s q f"
  shows "timers_wf (if early then s\<lparr>itimer := timerclear\<rparr> else s) q f"
proof -
  have "0 \<le> us (itimer s)"
    using assms by (intro us_nonneg) (simp add: timers_wf_def timers_core_def on_grain_def)
  then show ?thesis
    using assms wf_time [OF assms, of timerclear] by simp
qed

lemma alarm_handler_empty:
  assumes "timers_core s [] f"
  shows "alarm_handler call s = None"
proof -
  have "alarm_body call (block_timer s) = None"
    using assms by (simp add: alarm_body_def timers_core_def)
  then show ?thesis
    by (simp add: alarm_handler_def alarm_loop.simps)
qed

lemma cancel_only_interrupted:
  assumes "timers_wf s [t] f"
  shows "interrupted early (timer_cancel t) call s = None"
proof -
  obtain s1 where s1: "timer_cancel t (if early then s\<lparr>itimer := timerclear\<rparr> else s) = Some s1" "timers_core s1 [] f"
    using timer_cancel_only [OF wf_expired [OF assms]] by (auto simp: cancel_left_def timers_wf_def)
  then show ?thesis
    using alarm_handler_empty [OF s1(2)] by (simp add: interrupted_def)
qed

text \<open>With one more timer, which is not recurring, and a callback that leaves the timers alone.\<close>

lemma idle_single:
  assumes core: "timers_core s [n] f" and once: "\<not> timerisset (it_interval (pool s ! n))"
  shows "\<exists>s'. alarm_handler (\<lambda>g t a s. Some s) s = Some s' \<and> timers_core s' [] f \<and> itimer s' = itimer s"
proof -
  let ?b = "block_timer s"
  have "back_value ?b n (deltas ?b []) = []"
    using once by (simp add: back_value_def recurring_def)
  then obtain s1 where s1: "alarm_body (\<lambda>g t a s. Some s) ?b = Some s1" "timers_core s1 [] f" "itimer s1 = itimer s"
      "block_count s1 = block_count s + 1"
    using idle_body [OF core_block [OF core] refl] by (auto simp: frame_def)
  have "alarm_loop (\<lambda>g t a s. Some s) ?b = Some s1"
    using s1(1) expires_soon_eq [OF s1(2)] by (subst alarm_loop.simps) simp
  moreover have "event_queue s1 = None" "0 \<le> block_count s"
    using s1(2) core by (simp_all add: timers_core_def)
  ultimately have "alarm_handler (\<lambda>g t a s. Some s) s = Some (unblock_timer s1)"
    by (simp add: alarm_handler_def)
  then show ?thesis
    using core_unblock [OF s1(2)] s1(3,4) \<open>0 \<le> block_count s\<close> by simp
qed

lemma cancel_next_interrupted:
  assumes wf: "timers_wf s [t, n] f" and once: "\<not> timerisset (it_interval (pool s ! n))"
  shows "\<exists>s'. interrupted early (timer_cancel t) (\<lambda>g t a s. Some s) s = Some s' \<and> timers_core s' [] f \<and>
    timerisset (itimer s')"
proof -
  let ?s = "if early then s\<lparr>itimer := timerclear\<rparr> else s"
  have wf': "timers_wf ?s [t, n] f" and n: "n < length (pool s)"
    using wf_expired [OF wf] wf by (simp_all add: timers_wf_def timers_core_def)
  obtain s1 where s1: "timer_cancel t ?s = Some s1" "cancel_left ?s s1 [n] f (cancel_values ?s [] t [n])"
    using timer_cancel_head [OF wf'] by blast
  then have core: "timers_core s1 [n] f" and pos: "0 < us (itimer s1)"
    and once1: "\<not> timerisset (it_interval (pool s1 ! n))"
    using once n by (auto simp: cancel_left_def timers_wf_def split: if_splits)
  obtain s2 where "alarm_handler (\<lambda>g t a s. Some s) s1 = Some s2" "timers_core s2 [] f" "itimer s2 = itimer s1"
    using idle_single [OF core once1] by blast
  moreover have "timerisset (itimer s1)"
    using pos timerisset_grain [OF core_sel(3) [OF core]] by simp
  ultimately show ?thesis
    using s1(1) by (simp add: interrupted_def)
qed

section \<open>Times that cannot be rounded\<close>

lemma ceiling_second:
  assumes g: "grain g" and u: "1000000 - uint g < u" "u \<le> 1000000"
  shows "((u + uint g - 1) div uint g) * uint g = 1000000"
proof -
  obtain k where k: "1000000 = uint g * k"
    using g unfolding grain_def dvd_def by blast
  have pos: "0 < uint g"
    using g by (simp add: grain_def)
  define m where "m = u - (1000000 - uint g) - 1"
  have m: "0 \<le> m" "m < uint g"
    using u by (simp_all add: m_def)
  have "u + uint g - 1 = m + uint g * k"
    using k by (simp add: m_def)
  then have "(u + uint g - 1) div uint g = k"
    using m pos by simp
  then show ?thesis
    using k by (simp add: mult.commute)
qed

lemma roundup_second:
  assumes g: "grain g" and u: "1000000 - uint g < u" "u \<le> 1000000"
  shows "roundup (time_of 0 u) g = time_of 0 1000000"
proof -
  have pos: "0 < u"
    using u grain_bounds [OF g] by simp
  have "ROUNDUP u g = Some (((u + uint g - 1) div uint g) * uint g)"
    using pos u by (intro ROUNDUP_ok [OF g]) simp_all
  then show ?thesis
    using pos ceiling_second [OF g u] by (simp add: roundup_def timerroundup_def timerisset_def time_of_def Let_def)
qed

lemma arm_second:
  assumes g: "grain (g_granularity s)" and q: "event_queue s = None" and off: "\<not> timerisset (itimer s)"
    and gm: "g_maxevents s = int (length (pool s))" and t: "t < length (pool s)"
    and v: "it_value (pool s ! t) = time_of 0 u" and u: "1000000 - uint (g_granularity s) < u" "u \<le> 1000000"
  shows "\<exists>s'. arm t s = Some s' \<and> event_queue s' = Some t \<and> itimer s' = itimer s"
proof -
  let ?g = "g_granularity s" and ?v = "time_of 0 1000000"
  have r: "timerroundup (time_of 0 u) ?g = Some ?v" "timerroundup ?v ?g = Some ?v"
    using timerroundup_Some [OF grain_nonzero [OF g]] roundup_second [OF g u] roundup_second [OF g, of 1000000]
      grain_bounds [OF g] by simp_all
  let ?s1 = "(block_timer s)\<lparr>event_queue := Some t, pool := (pool s)[t := (pool s ! t)\<lparr>enext := None, it_value := ?v\<rparr>]\<rparr>"
  have ins: "insert_loop t Head ((block_timer s)\<lparr>pool := (pool s)[t := (pool s ! t)\<lparr>it_value := ?v\<rparr>]\<rparr>) = Some ?s1"
    using t q by (subst insert_loop.simps) (cases s; cases "pool s ! t"; simp add: modify_event_ok block_timer_def)
  have "chain ?s1 (event_queue ?s1) [t]"
    using t by simp
  then have check: "check_event_queue ?s1 = Some ()"
    using t gm by (intro check_chain [of _ "[t]"]) simp_all
  have "uint (1000000 :: 32 word) = 1000000"
    by simp
  then have "timer_assert ?v ?g"
    using grain_bounds [OF g] by (simp add: timer_assert_def word_le_def)
  then have "reissue True t ?s1 = Some ?s1"
    using t r(2) by (simp add: reissue_def get_event_ok modify_event_ok setitimer_def timerisset_def Let_def)
  then show ?thesis
    using t q off v r(1) ins check
    by (simp add: arm_def get_event_ok modify_event_ok sync_head_def)
qed

lemma settime_second:
  assumes wf: "timers_wf s [] f" and t: "t < length (pool s)" and sp: "TIMESPEC_TO_TIMEVAL (sp_value sp) = time_of 0 u"
    and u: "1000000 - uint (g_granularity s) < u" "u < 1000000"
  shows "\<exists>s'. timer_settime t sp s = Some s' \<and> event_queue s' = Some t \<and> \<not> timerisset (itimer s')"
proof -
  let ?s = "s\<lparr>pool := (pool s)[t := set_event sp (pool s ! t)]\<rparr>"
  have core: "timers_core s [] f" and le: "us (itimer s) \<le> 0"
    using wf by (simp_all add: timers_wf_def)
  have it: "on_grain (g_granularity s) (itimer s)"
    using core by (simp add: timers_core_def)
  then have "\<not> timerisset (itimer s)"
    using le us_nonneg [OF on_grain_norm(1) [OF it]] by (simp add: timerisset_grain [OF it])
  then obtain s' where "arm t ?s = Some s'" "event_queue s' = Some t" "\<not> timerisset (itimer s')"
    using arm_second [of ?s t u] core t sp u by (auto simp: timers_core_def set_event_def)
  moreover have "0 < u"
    using u grain_bounds [OF core_sel(2) [OF core]] by simp
  then have "timer_settime t sp s = arm t ?s"
    using t sp by (simp add: timer_settime_arm set_event_def timerisset_def)
  ultimately show ?thesis
    by simp
qed

end
