(* ===== verification/Timer_Props.thy ===== *)
theory Timer_Props
  imports Timer_Race
begin

text \<open>
  Properties of the timers: their invariant, what the operations do to the deadlines of the pending timers, and the
  calls that break them.
\<close>

section \<open>Properties\<close>

text \<open>C19. The timers keep their invariant, for every granularity that divides a second, as long as the signal arrives
  between two calls: whatever calls the client makes under the contract, which asks for times that the granularity can
  round, whatever its callbacks do under it and however time passes, the pending timers and the free ones are disjoint
  linked lists without cycles, the interval timer runs whenever a timer is pending and never longer than the first one has
  to wait, and the signal is not left blocked.\<close>

theorem timers_invariant:
  assumes "timers_reachable call s" and "well_behaved call"
  shows "\<exists>q f. chain s (event_queue s) q \<and> chain s (event_freelist s) f \<and> distinct (q @ f) \<and>
    (q \<noteq> [] \<longrightarrow> 0 < us (itimer s) \<and> us (itimer s) \<le> us (it_value (pool s ! hd q))) \<and>
    (q = [] \<longrightarrow> \<not> timerisset (itimer s)) \<and> \<not> alarm_blocked s"
proof -
  obtain q f where q: "timers_wf s q f" "running s q" "block_count s = 0"
    using reachable_wf [OF assms] by blast
  then have core: "timers_core s q f" and le: "us (itimer s) \<le> head_value s q"
    by (simp_all add: timers_wf_def)
  have "us (itimer s) \<le> us (it_value (pool s ! hd q))" if "q \<noteq> []"
    using le that by (cases q) simp_all
  moreover have "\<not> timerisset (itimer s)" if "q = []"
    using le that us_nonneg [OF on_grain_norm(1) [OF core_sel(3) [OF core]]]
    by (simp add: timerisset_grain [OF core_sel(3) [OF core]])
  ultimately show ?thesis
    using q core by (intro exI [of _ q] exI [of _ f]) (auto simp: timers_core_def running_def)
qed

lemma timers_invariant_witness:
  "\<exists>q f. chain (one_timer (Some 0) None (Some ()) (time_of 10 0)) (Some 0) q \<and>
    chain (one_timer (Some 0) None (Some ()) (time_of 10 0)) None f \<and> distinct (q @ f)"
proof -
  have "well_behaved (\<lambda>g t a s. Some s :: unit timers option)"
    by (rule idle_callback)
  from timers_invariant [OF one_timer_reachable this] show ?thesis
    unfolding one_timer_def timers.select_convs by blast
qed

text \<open>C20. A call under the contract returns, for every granularity that divides a second, when no signal arrives during
  it: no \<^verbatim>\<open>assert\<close> fails, the process does not exit and no loop runs forever in any reachable state, and the queue and the
  blocked signal are as the invariant has them afterwards.\<close>

theorem timer_calls_return:
  assumes "timers_reachable call s" and "well_behaved call" and "timers_wf s q f" and "allowed c s q f"
  shows "\<exists>s'. run_call c s = Some s' \<and> timers_reachable call s' \<and> \<not> alarm_blocked s'"
proof -
  have "block_count s = 0"
    using reachable_wf [OF assms(1,2)] by blast
  moreover obtain s' q' f' where "run_call c s = Some s'" "block_count s' = block_count s" "timers_wf s' q' f'"
    using run_call_ok [OF assms(3,4)] by blast
  ultimately show ?thesis
    using reach_call [OF assms(1,3,4)] by (auto simp: timers_wf_def timers_core_def)
qed

lemma timer_calls_return_witness:
  "\<exists>s'. run_call (Cancel 0) (one_timer (Some 0) None (Some ()) (time_of 10 0)) = Some s' \<and>
    timers_reachable (\<lambda>g t a s. Some s) s' \<and> \<not> alarm_blocked s'"
proof (rule timer_calls_return)
  show "timers_reachable (\<lambda>g t a s. Some s) (one_timer (Some 0) None (Some ()) (time_of 10 0))"
    by (rule one_timer_reachable)
  show "well_behaved (\<lambda>g t a s. Some s :: unit timers option)"
    by (rule idle_callback)
  show "timers_wf (one_timer (Some 0) None (Some ()) (time_of 10 0)) [0] []"
    by (rule one_timer_wf)
  show "allowed (Cancel 0) (one_timer (Some 0) None (Some ()) (time_of 10 0)) [0] []"
    by (simp add: one_timer_def)
qed

text \<open>C21. The signal handler terminates: when the interval timer runs out in a reachable state and between two calls, the
  queue is not empty, the loop of the handler ends with no timer left that is due at the same time (or, with a granularity
  of one microsecond, after the first), and the handler returns with the interval timer running for at least the
  granularity if a timer is pending.\<close>

theorem alarm_returns:
  assumes "timers_reachable call s" and "well_behaved call" and "timerisset (itimer s)"
  shows "event_queue s \<noteq> None \<and>
    (\<exists>s1 s'. alarm_loop call (block_timer (s\<lparr>itimer := timerclear\<rparr>)) = Some s1 \<and> expires_soon s1 = Some False \<and>
      alarm_handler call (s\<lparr>itimer := timerclear\<rparr>) = Some s' \<and>
      (event_queue s' \<noteq> None \<longrightarrow> uint (g_granularity s') \<le> us (itimer s')))"
proof -
  obtain q f where wf: "timers_wf s q f"
    using reachable_wf [OF assms(1,2)] by blast
  then have core: "timers_core s q f" and le: "us (itimer s) \<le> head_value s q"
    by (simp_all add: timers_wf_def)
  have "q \<noteq> []"
    using le assms(3) timerisset_grain [OF core_sel(3) [OF core]] us_nonneg [OF on_grain_norm(1) [OF core_sel(3) [OF core]]]
    by auto
  then have "event_queue s \<noteq> None"
    using core_sel(1) [OF core] by (cases q) simp_all
  moreover obtain s1 s' q' f' where s': "alarm_loop call (block_timer (s\<lparr>itimer := timerclear\<rparr>)) = Some s1"
      "expires_soon s1 = Some False" "alarm_handler call (s\<lparr>itimer := timerclear\<rparr>) = Some s'" "timers_wf s' q' f'"
      "q' \<noteq> [] \<longrightarrow> uint (g_granularity s') \<le> us (itimer s')"
    using alarm_wf [OF wf assms(3,2)] by blast
  moreover have "q' \<noteq> []" if "event_queue s' \<noteq> None"
    using s'(4) that by (cases q') (auto simp: timers_wf_def timers_core_def)
  ultimately show ?thesis
    by blast
qed

lemma alarm_returns_witness:
  "\<exists>s'. alarm_handler (\<lambda>g t a s. Some s) ((one_timer (Some 0) None (Some ()) (time_of 10 0))\<lparr>itimer := timerclear\<rparr>) = Some s'"
proof -
  have "timerisset (itimer (one_timer (Some 0) None (Some ()) (time_of 10 0)))"
    by code_simp
  from alarm_returns [OF one_timer_reachable idle_callback this] show ?thesis
    by (elim conjE exE) (rule exI)
qed

text \<open>C22. Setting a timer refines an insertion into the list of deadlines: a connected timer that is not pending becomes
  due after the time it is set to, rounded up to the granularity, behind the timers that are due at the same time, and the
  deadlines of all other timers stay what they are.\<close>

theorem settime_deadlines:
  assumes "timers_wf s q f" and "allowed (Settime t sp) s q f" and "set_value sp \<noteq> 0"
  shows "\<exists>s' q'. timer_settime t sp s = Some s' \<and> timers_wf s' q' f \<and>
    pending s' q' = insert_deadline t (rounded (g_granularity s) (set_value sp)) (pending s q)"
proof -
  let ?v = "rounded (g_granularity s) (set_value sp)"
  obtain s' where "timer_settime t sp s = Some s'" "timers_wf s' (map fst (insert_value t ?v (synced s q))) f"
      "synced s' (map fst (insert_value t ?v (synced s q))) = insert_value t ?v (synced s q)"
    using timer_settime_ok [OF assms(1), of t sp ?v] assms(2,3) by auto
  then show ?thesis
    using deadlines_insert [of 0 t ?v "synced s q"] unfolding pending_def by fastforce
qed

lemma settime_deadlines_witness:
  "\<exists>s' q'. timer_settime 0 ten_seconds (one_timer None None (Some ()) timerclear) = Some s' \<and>
    timers_wf s' q' [] \<and> pending s' q' = [(0, 10000000)]"
proof -
  let ?s = "one_timer None None (Some ()) timerclear"
  have "allowed (Settime 0 ten_seconds) ?s [] []" "set_value ten_seconds \<noteq> 0"
    by (simp_all add: one_timer_def example_event_def ten_seconds_valid)
  moreover have "rounded (g_granularity ?s) (set_value ten_seconds) = 10000000"
    by code_simp
  ultimately show ?thesis
    using settime_deadlines [OF one_timer_wf(3), of 0 ten_seconds] by (simp add: pending_def synced_def)
qed

text \<open>C23. The signal handler, with callbacks that make no call: it takes the first timer off the queue and, unless the
  granularity is one microsecond, all that are due at the same time, and puts the recurring ones of them back, in this
  order, behind all that are due by the end of their interval; the others stay due when they were.  With a granularity of
  one microsecond the timers that are due at the same time fire one after the other: if there is one, every deadline moves
  by a microsecond.\<close>

theorem alarm_deadlines:
  assumes "timers_wf s (t # r) f"
  shows "\<exists>s' q'. alarm_handler (\<lambda>g t a s. Some s) (s\<lparr>itimer := timerclear\<rparr>) = Some s' \<and> timers_wf s' q' f \<and>
    pending s' q' = map (\<lambda>(u, x). (u, x + (if snd (hd (after_alarm s t r)) = 0 then 1 else 0))) (after_alarm s t r)"
proof -
  let ?s = "s\<lparr>itimer := timerclear\<rparr>"
  have "timers_core ?s (t # r) f"
    using assms by (intro core_itimer) (simp_all add: timers_wf_def)
  moreover have "back_deadline ?s = back_deadline s" "due_with ?s = due_with s" "deltas ?s = deltas s"
    by (simp_all add: fun_eq_iff back_deadline_def recurring_def interval_def due_with_def deltas_def)
  then have "after_alarm ?s t r = after_alarm s t r"
    by (simp only: after_alarm_def)
  ultimately show ?thesis
    using idle_deadlines [of ?s t r f] by simp
qed

lemma alarm_deadlines_witness:
  "pending three_timers [0, 1, 2] = [(0, 4000000), (1, 4000000), (2, 11000000)] \<and>
   (\<exists>s' q'. alarm_handler (\<lambda>g t a s. Some s) (three_timers\<lparr>itimer := timerclear\<rparr>) = Some s' \<and>
      timers_wf s' q' [] \<and> pending s' q' = [(1, 5000000), (2, 7000000), (0, 20000000)])"
proof -
  have v: "after_alarm three_timers 0 [1, 2] = [(1, 5000000), (2, 7000000), (0, 20000000)]"
      "pending three_timers [0, 1, 2] = [(0, 4000000), (1, 4000000), (2, 11000000)]"
    by code_simp+
  from alarm_deadlines [OF three_timers_wf] show ?thesis
    by (simp add: v del: One_nat_def)
qed

text \<open>C24. Cancelling the first timer moves the others: where \<open>V\<close> is the time it was waiting for and \<open>R\<close> what is left of
  it, every other timer becomes due \<open>V - 2 R\<close> later, because the code adds the time that has passed to the next
  timer, not the time that is left.\<close>

theorem cancel_first_shift:
  assumes "timers_wf s (t # n # r) f" and "0 < us (itimer s)"
    and "us (itimer s) < head_value s (n # r) + us (it_value (pool s ! t))"
  shows "\<exists>s'. timer_cancel t s = Some s' \<and> timers_wf s' (n # r) f \<and>
    pending s' (n # r) =
      map (\<lambda>(u, x). (u, x + (us (it_value (pool s ! t)) - 2 * us (itimer s)))) (tl (pending s (t # n # r)))"
proof -
  obtain s' where s': "timer_cancel t s = Some s'" "cancel_left s s' (n # r) f (cancel_values s [] t (n # r))"
    using timer_cancel_head [OF assms(1)] by blast
  let ?V = "us (it_value (pool s ! t))" and ?R = "us (itimer s)" and ?d = "us (it_value (pool s ! n))"
  have g: "grain (g_granularity s)" and dv: "uint (g_granularity s) dvd ?d + (?V - ?R)"
    using assms(1) by (auto simp: timers_wf_def timers_core_def on_grain_def)
  have "cancel_values s [] t (n # r) = (n, ?d + (?V - ?R)) # deltas s r"
    using assms(3) rounded_same [OF g dv] by (simp add: cancel_values_def)
  then have "pending s' (n # r) = (n, ?d + (?V - ?R)) # deadlines (?d + (?V - ?R)) (deltas s r)"
    using s'(2) by (simp add: cancel_left_def pending_def)
  also have "\<dots> = map (\<lambda>(u, x). (u, x + (?V - 2 * ?R))) (tl (pending s (t # n # r)))"
    using assms(2) deadlines_shift [of "?R + ?d" "?V - 2 * ?R" "deltas s r"] by (simp add: pending_def synced_def algebra_simps)
  finally show ?thesis
    using s' by (auto simp: cancel_left_def)
qed

lemma cancel_first_shift_witness:
  "pending two_timers [0, 1] = [(0, 6000000), (1, 11000000)] \<and>
   (\<exists>s'. timer_cancel 0 two_timers = Some s' \<and> timers_wf s' [1] [] \<and> pending s' [1] = [(1, 9000000)])"
proof -
  have v: "0 < us (itimer two_timers)" "us (itimer two_timers) = 6000000" "us (it_value (pool two_timers ! 0)) = 10000000"
      "us (itimer two_timers) < head_value two_timers [1] + us (it_value (pool two_timers ! 0))"
      "pending two_timers [0, 1] = [(0, 6000000), (1, 11000000)]"
    by code_simp+
  from cancel_first_shift [OF two_timers_wf v(1,4)] show ?thesis
    by (simp add: v(2,3,5) del: One_nat_def)
qed

text \<open>C26. Cancelling a later timer moves the others too: the interval timer starts anew with the whole time \<open>V\<close> of the
  first timer instead of what is left of it, and those behind the cancelled timer lose its share of the wait.\<close>

theorem cancel_later_shift:
  assumes "timers_wf s (h # r @ t # q) f" and "0 < us (itimer s)"
  shows "\<exists>s'. timer_cancel t s = Some s' \<and> timers_wf s' (h # r @ q) f \<and>
    (let late = us (it_value (pool s ! h)) - us (itimer s); p = pending s (h # r @ t # q) in
     pending s' (h # r @ q) =
       map (\<lambda>(u, x). (u, x + late)) (take (length r + 1) p) @
       map (\<lambda>(u, x). (u, x + (late - us (it_value (pool s ! t))))) (drop (length r + 2) p))"
proof -
  let ?V = "us (it_value (pool s ! h))" and ?R = "us (itimer s)" and ?d = "us (it_value (pool s ! t))"
  let ?S = "sum_list (map snd (deltas s r))"
  obtain s' where s': "timer_cancel t s = Some s'" "cancel_left s s' (h # r @ q) f (cancel_values s (h # r) t q)"
    using timer_cancel_inner [OF assms(1)] by blast
  have "0 < ?V" and g: "grain (g_granularity s)" and dv: "uint (g_granularity s) dvd ?V"
    using assms by (simp_all add: timers_wf_def timers_core_def on_grain_def)
  then have "cancel_values s (h # r) t q = deltas s (h # r @ q)"
    using rounded_same [OF g dv] by (simp add: cancel_values_def)
  then have after: "pending s' (h # r @ q) = (h, ?V) # deadlines ?V (deltas s r) @ deadlines (?V + ?S) (deltas s q)"
    using s'(2) by (simp add: cancel_left_def pending_def deadlines_append)
  have "pending s (h # r @ t # q) =
      (h, ?R) # deadlines ?R (deltas s r) @ (t, ?R + ?S + ?d) # deadlines (?R + ?S + ?d) (deltas s q)"
    using assms(2) by (simp add: pending_def synced_def deadlines_append)
  then have "take (length r + 1) (pending s (h # r @ t # q)) = (h, ?R) # deadlines ?R (deltas s r)"
    and "drop (length r + 2) (pending s (h # r @ t # q)) = deadlines (?R + ?S + ?d) (deltas s q)"
    by simp_all
  moreover have "deadlines ?V (deltas s r) = map (\<lambda>(u, x). (u, x + (?V - ?R))) (deadlines ?R (deltas s r))"
    using deadlines_shift [of ?R "?V - ?R" "deltas s r"] by simp
  moreover have "deadlines (?V + ?S) (deltas s q) = map (\<lambda>(u, x). (u, x + (?V - ?R - ?d))) (deadlines (?R + ?S + ?d) (deltas s q))"
    using deadlines_shift [of "?R + ?S + ?d" "?V - ?R - ?d" "deltas s q"] by (simp add: algebra_simps)
  ultimately show ?thesis
    using s' after by (intro exI [of _ s']) (simp add: cancel_left_def Let_def)
qed

lemma cancel_later_shift_witness:
  "pending two_timers [0, 1] = [(0, 6000000), (1, 11000000)] \<and>
   (\<exists>s'. timer_cancel 1 two_timers = Some s' \<and> timers_wf s' [0] [] \<and> pending s' [0] = [(0, 10000000)])"
proof -
  have v: "0 < us (itimer two_timers)" "us (itimer two_timers) = 6000000" "us (it_value (pool two_timers ! 0)) = 10000000"
      "pending two_timers [0, 1] = [(0, 6000000), (1, 11000000)]"
    by code_simp+
  have "timers_wf two_timers (0 # [] @ 1 # []) []"
    using two_timers_wf by simp
  from cancel_later_shift [OF this v(1)] show ?thesis
    by (simp add: v Let_def take_Cons' del: One_nat_def)
qed

text \<open>C27. Setting the only pending timer once more ends the process: the event is linked to itself, and the check of the
  queue leaves with \<^verbatim>\<open>exit\<close>.\<close>

theorem rearming_exits:
  assumes "timers_wf s [t] f" and "valid_spec (g_granularity s) sp" and "set_value sp \<noteq> 0"
  shows "timer_settime t sp s = None"
proof -
  have t: "t < length (pool s)" "event_queue s = Some t" "enext (pool s ! t) = None"
    using assms(1) by (simp_all add: timers_wf_def timers_core_def)
  have "norm (TIMESPEC_TO_TIMEVAL (sp_value sp))"
    using assms(2) by (simp add: valid_spec_def to_timeval_norm)
  then have "timerisset (TIMESPEC_TO_TIMEVAL (sp_value sp))"
    using assms(3) by (simp add: timerisset_us set_value_def)
  moreover have "arm t (s\<lparr>pool := (pool s)[t := set_event sp (pool s ! t)]\<rparr>) = None"
    using t assms(1) by (intro arm_self) (auto simp: set_event_def timers_wf_def timers_core_def grain_def)
  ultimately show ?thesis
    using t(1) by (simp add: timer_settime_arm set_event_def)
qed

lemma rearming_exits_witness:
  "timer_settime 0 ten_seconds (one_timer (Some 0) None (Some ()) (time_of 10 0)) = None"
proof (rule rearming_exits)
  show "timers_wf (one_timer (Some 0) None (Some ()) (time_of 10 0)) [0] []"
    by (rule one_timer_wf)
qed (simp_all add: ten_seconds_valid one_timer_def)

text \<open>C28. A new timer may be pending before it is set: when the callback of a recurring timer deletes its timer and
  creates another one, the event is the same, and the handler puts it back with the old interval.\<close>

theorem new_timer_pending:
  assumes "timers_wf s (t # r) f" and "timerisset (it_interval (pool s ! t))"
  shows "\<exists>s' q'. alarm_handler replace_timer (s\<lparr>itimer := timerclear\<rparr>) = Some s' \<and> timers_wf s' q' f \<and> t \<in> set q'"
proof -
  have "timers_core (s\<lparr>itimer := timerclear\<rparr>) (t # r) f"
    using assms(1) by (intro core_itimer) (simp_all add: timers_wf_def)
  then show ?thesis
    using assms(2) by (intro replace_handler) simp_all
qed

lemma new_timer_pending_witness:
  "\<exists>s' q'. alarm_handler replace_timer (two_timers\<lparr>itimer := timerclear\<rparr>) = Some s' \<and> timers_wf s' q' [] \<and> 0 \<in> set q'"
proof (rule new_timer_pending)
  show "timers_wf two_timers [0, 1] []"
    by (rule two_timers_wf)
  show "timerisset (it_interval (pool two_timers ! 0))"
    by code_simp
qed

text \<open>C29. The race that a comment of \<^verbatim>\<open>timer_cancel\<close> describes: the signal arrives, early or late, while the call that
  cancels the first timer has it blocked, and the handler runs when the call unblocks it.  When there is no other timer
  the cancellation leaves the queue empty and the handler follows the null pointer at its head, whatever the callbacks do.
  When there is one other, which does not recur, the handler calls that one, however long it had to wait: with callbacks
  that make no call the queue is empty afterwards while the interval timer still runs, and the signal that follows ends
  the process.\<close>

theorem cancel_race:
  assumes "timers_wf s (t # r) f"
  shows "(r = [] \<longrightarrow> interrupted early (timer_cancel t) call s = None) \<and>
    (\<forall>n. r = [n] \<and> \<not> timerisset (it_interval (pool s ! n)) \<longrightarrow>
       (\<exists>s'. interrupted early (timer_cancel t) (\<lambda>g t a s. Some s) s = Some s' \<and> event_queue s' = None \<and>
          timerisset (itimer s') \<and> alarm_handler call (s'\<lparr>itimer := timerclear\<rparr>) = None))"
proof (intro conjI allI impI)
  show "interrupted early (timer_cancel t) call s = None" if "r = []"
    using assms that cancel_only_interrupted by simp
  fix n
  assume n: "r = [n] \<and> \<not> timerisset (it_interval (pool s ! n))"
  then obtain s' where s': "interrupted early (timer_cancel t) (\<lambda>g t a s. Some s) s = Some s'" "timers_core s' [] f"
      "timerisset (itimer s')"
    using cancel_next_interrupted [of s t n f] assms by blast
  have "timers_core (s'\<lparr>itimer := timerclear\<rparr>) [] f" and "event_queue s' = None"
    using core_itimer [OF s'(2)] s'(2) by (simp, simp add: timers_core_def)
  then show "\<exists>s'. interrupted early (timer_cancel t) (\<lambda>g t a s. Some s) s = Some s' \<and> event_queue s' = None \<and>
      timerisset (itimer s') \<and> alarm_handler call (s'\<lparr>itimer := timerclear\<rparr>) = None"
    using s'(1,3) alarm_handler_empty by blast
qed

lemma cancel_race_witness:
  "interrupted True (timer_cancel 0) (\<lambda>g t a s. Some s) (one_timer (Some 0) None (Some ()) (time_of 10 0)) = None \<and>
   (\<exists>s'. timer_cancel 0 (one_timer (Some 0) None (Some ()) (time_of 10 0)) = Some s') \<and>
   pending two_timers [0, 1] = [(0, 6000000), (1, 11000000)] \<and>
   (\<exists>s'. interrupted False (timer_cancel 0) (\<lambda>g t a s. Some s) two_timers = Some s' \<and> event_queue s' = None)"
proof -
  have once: "\<not> timerisset (it_interval (pool two_timers ! 1))"
    and v: "pending two_timers [0, 1] = [(0, 6000000), (1, 11000000)]"
    by code_simp+
  have "\<exists>s'. interrupted False (timer_cancel 0) (\<lambda>g t a s. Some s) two_timers = Some s' \<and> event_queue s' = None"
    using cancel_race [OF two_timers_wf] once by blast
  then show ?thesis
    using cancel_race [OF one_timer_wf(4)] timer_cancel_only [OF one_timer_wf(4)] v by blast
qed

text \<open>With a granularity above one microsecond a timer may never expire: a time of less than a second that lies less
  than the granularity below it is rounded up to a million microseconds, \<^verbatim>\<open>setitimer\<close> refuses that number, no
  \<^verbatim>\<open>assert\<close> fails, and the timer is pending while the interval timer is off.\<close>

theorem settime_near_second:
  assumes "timers_wf s [] f" and "t < length (pool s)" and "TIMESPEC_TO_TIMEVAL (sp_value sp) = time_of 0 u"
    and "1000000 - uint (g_granularity s) < u" and "u < 1000000"
  shows "\<exists>s'. timer_settime t sp s = Some s' \<and> event_queue s' = Some t \<and> \<not> timerisset (itimer s')"
  using assms by (rule settime_second)

lemma settime_near_second_witness:
  "\<exists>s'. timer_settime 0 \<lparr>sp_interval = \<lparr>ts_sec = 0, ts_nsec = 0\<rparr>, sp_value = \<lparr>ts_sec = 0, ts_nsec = 995000000\<rparr>\<rparr>
      (one_timer None None (Some ()) timerclear) = Some s' \<and>
    event_queue s' = Some 0 \<and> \<not> timerisset (itimer s')"
proof (rule settime_near_second [OF one_timer_wf(3)])
  show "TIMESPEC_TO_TIMEVAL (sp_value \<lparr>sp_interval = \<lparr>ts_sec = 0, ts_nsec = 0\<rparr>, sp_value = \<lparr>ts_sec = 0, ts_nsec = 995000000\<rparr>\<rparr>) =
      time_of 0 995000"
    by code_simp
qed (simp_all add: one_timer_def)

end
