(* ===== verification/Spin_Lock.thy ===== *)
theory Spin_Lock
  imports Prelude
begin

text \<open>
  The semaphores and spin locks of the shared library, \<^verbatim>\<open>src/package/ezp-nvram/src/semaphore.c\<close>: a lock is a FIFO in
  the file system that holds a byte while the lock is free.  Locking reads the byte, unlocking writes one.

  The state has the variables of the file and what its system calls work on: the FIFOs, their names and the
  descriptors of the process.  \<^term>\<open>None\<close> stands for a call that does not return: a read that waits, or a write that ends
  the process with \<^verbatim>\<open>SIGPIPE\<close>.
\<close>

unbundle bit_operations_syntax

section \<open>State\<close>

record semaphore =
  sem_fd0 :: int
  sem_fd1 :: int
  sem_magic :: "32 word"

definition SEM_MAGIC :: "32 word" where "SEM_MAGIC = 0x89674523"
definition SEM_NAME :: string where "SEM_NAME = ''/tmp/Semaphore''"
definition SPINLOCK_SPIN_MAX :: int where "SPINLOCK_SPIN_MAX = 5"

definition blank_semaphore :: semaphore where
  "blank_semaphore = \<lparr>sem_fd0 = 0, sem_fd1 = 0, sem_magic = 0\<rparr>"

text \<open>A descriptor of the process: an end of a FIFO.\<close>

record descriptor =
  on_fifo :: nat
  for_write :: bool
  nonblock :: bool

text \<open>
  A FIFO is the number of bytes in it, a path names a FIFO.  \<open>max_fds\<close> is the limit on open descriptors, \<open>pipe_size\<close> the
  room of a FIFO, \<open>room_for_files\<close> whether the file system takes another file.
\<close>

record locks =
  Semaphore :: semaphore
  spinlock :: "semaphore list"
  fifos :: "nat list"
  paths :: "string \<Rightarrow> nat option"
  fds :: "descriptor option list"
  max_fds :: nat
  pipe_size :: nat
  room_for_files :: bool
  lock_errno :: int

definition E_NOENT :: int where "E_NOENT = 2"
definition E_NXIO :: int where "E_NXIO = 6"
definition E_BADF :: int where "E_BADF = 9"
definition E_AGAIN :: int where "E_AGAIN = 11"
definition E_EXIST :: int where "E_EXIST = 17"
definition E_INVAL :: int where "E_INVAL = 22"
definition E_MFILE :: int where "E_MFILE = 24"
definition E_NOSPC :: int where "E_NOSPC = 28"

text \<open>The flags of the MIPS targets.\<close>

definition O_RDWR :: int where "O_RDWR = 0x2"
definition O_NONBLOCK :: int where "O_NONBLOCK = 0x80"
definition O_CREAT :: int where "O_CREAT = 0x100"
definition O_EXCL :: int where "O_EXCL = 0x400"

section \<open>System calls\<close>

definition fail :: "int \<Rightarrow> locks \<Rightarrow> int \<times> locks" where
  "fail e s = (-1, s\<lparr>lock_errno := e\<rparr>)"

definition descr :: "int \<Rightarrow> locks \<Rightarrow> descriptor option" where
  "descr fd s = (if 0 \<le> fd \<and> nat fd < length (fds s) then fds s ! nat fd else None)"

definition mkfifo :: "string \<Rightarrow> locks \<Rightarrow> int \<times> locks" where
  "mkfifo path s =
     (if paths s path \<noteq> None then fail E_EXIST s
      else if \<not> room_for_files s then fail E_NOSPC s
      else (0, s\<lparr>paths := (paths s)(path \<mapsto> length (fifos s)), fifos := fifos s @ [0]\<rparr>))"

definition sys_unlink :: "string \<Rightarrow> locks \<Rightarrow> int \<times> locks" where
  "sys_unlink path s = (if paths s path = None then fail E_NOENT s else (0, s\<lparr>paths := (paths s)(path := None)\<rparr>))"

text \<open>The lowest free descriptor.\<close>

definition free_fd :: "locks \<Rightarrow> nat" where
  "free_fd s = length (takeWhile (\<lambda>x. x \<noteq> None) (fds s))"

definition add_fd :: "descriptor \<Rightarrow> locks \<Rightarrow> int \<times> locks" where
  "add_fd d s =
     (let i = free_fd s in
      if max_fds s \<le> i then fail E_MFILE s
      else (int i, s\<lparr>fds := (if i < length (fds s) then (fds s)[i := Some d] else fds s @ [Some d])\<rparr>))"

text \<open>\<^verbatim>\<open>open\<close> of a FIFO without waiting: for reading it succeeds at once, for writing it needs a reader.\<close>

definition open_fifo :: "string \<Rightarrow> bool \<Rightarrow> locks \<Rightarrow> int \<times> locks" where
  "open_fifo path for_wr s =
     (case paths s path of
        None \<Rightarrow> fail E_NOENT s
      | Some f \<Rightarrow>
          if for_wr \<and> \<not> list_ex (\<lambda>x. case x of None \<Rightarrow> False | Some d \<Rightarrow> on_fifo d = f \<and> \<not> for_write d) (fds s)
          then fail E_NXIO s
          else add_fd \<lparr>on_fifo = f, for_write = for_wr, nonblock = True\<rparr> s)"

definition sys_close :: "int \<Rightarrow> locks \<Rightarrow> int \<times> locks" where
  "sys_close fd s = (if descr fd s = None then fail E_BADF s else (0, s\<lparr>fds := (fds s)[nat fd := None]\<rparr>))"

definition fcntl_getfl :: "int \<Rightarrow> locks \<Rightarrow> int \<times> locks" where
  "fcntl_getfl fd s =
     (case descr fd s of
        None \<Rightarrow> fail E_BADF s
      | Some d \<Rightarrow> ((if for_write d then 1 else 0) OR (if nonblock d then O_NONBLOCK else 0), s))"

definition fcntl_setfl :: "int \<Rightarrow> int \<Rightarrow> locks \<Rightarrow> int \<times> locks" where
  "fcntl_setfl fd fl s =
     (case descr fd s of
        None \<Rightarrow> fail E_BADF s
      | Some d \<Rightarrow> (0, s\<lparr>fds := (fds s)[nat fd := Some (d\<lparr>nonblock := fl AND O_NONBLOCK \<noteq> 0\<rparr>)]\<rparr>))"

text \<open>\<^verbatim>\<open>write\<close> and \<^verbatim>\<open>read\<close> of one byte.\<close>

definition write_byte :: "int \<Rightarrow> locks \<Rightarrow> (int \<times> locks) option" where
  "write_byte fd s =
     (case descr fd s of
        None \<Rightarrow> Some (fail E_BADF s)
      | Some d \<Rightarrow>
          if \<not> for_write d then Some (fail E_BADF s)
          else if \<not> list_ex (\<lambda>x. case x of None \<Rightarrow> False | Some r \<Rightarrow> on_fifo r = on_fifo d \<and> \<not> for_write r) (fds s) then None
          else if fifos s ! on_fifo d < pipe_size s
          then Some (1, s\<lparr>fifos := (fifos s)[on_fifo d := fifos s ! on_fifo d + 1]\<rparr>)
          else if nonblock d then Some (fail E_AGAIN s) else None)"

definition read_byte :: "int \<Rightarrow> locks \<Rightarrow> (int \<times> locks) option" where
  "read_byte fd s =
     (case descr fd s of
        None \<Rightarrow> Some (fail E_BADF s)
      | Some d \<Rightarrow>
          if for_write d then Some (fail E_BADF s)
          else if 0 < fifos s ! on_fifo d
          then Some (1, s\<lparr>fifos := (fifos s)[on_fifo d := fifos s ! on_fifo d - 1]\<rparr>)
          else if \<not> list_ex (\<lambda>x. case x of None \<Rightarrow> False | Some w \<Rightarrow> on_fifo w = on_fifo d \<and> for_write w) (fds s)
          then Some (0, s)
          else if nonblock d then Some (fail E_AGAIN s) else None)"

section \<open>Semaphores\<close>

text \<open>The functions come twice in the file, for the variable \<^verbatim>\<open>Semaphore\<close> and for an element of \<^verbatim>\<open>spinlock\<close>.\<close>

datatype slot = Sem | Spin nat

fun get_sem :: "slot \<Rightarrow> locks \<Rightarrow> semaphore" where
  "get_sem Sem s = Semaphore s"
| "get_sem (Spin i) s = spinlock s ! i"

fun put_sem :: "slot \<Rightarrow> semaphore \<Rightarrow> locks \<Rightarrow> locks" where
  "put_sem Sem m s = s\<lparr>Semaphore := m\<rparr>"
| "put_sem (Spin i) m s = s\<lparr>spinlock := (spinlock s)[i := m]\<rparr>"

fun write_bytes :: "nat \<Rightarrow> int \<Rightarrow> locks \<Rightarrow> (bool \<times> locks) option" where
  "write_bytes 0 fd s = Some (True, s)"
| "write_bytes (Suc n) fd s =
     (case write_byte fd s of
        None \<Rightarrow> None
      | Some (r, s) \<Rightarrow> if r = 1 then write_bytes n fd s else Some (False, s))"

text \<open>The label \<^verbatim>\<open>error\<close>.\<close>

definition open_error :: "slot \<Rightarrow> string \<Rightarrow> int \<Rightarrow> locks \<Rightarrow> int \<times> locks" where
  "open_error l path oflag s =
     (let save_errno = lock_errno s;
          s = (if oflag AND O_CREAT \<noteq> 0 then snd (sys_unlink path s) else s);
          s = snd (sys_close (sem_fd0 (get_sem l s)) s);
          s = snd (sys_close (sem_fd1 (get_sem l s)) s);
          s = put_sem l blank_semaphore s
      in (-1, s\<lparr>lock_errno := save_errno\<rparr>))"

text \<open>One end of the FIFO.\<close>

definition open_end :: "slot \<Rightarrow> string \<Rightarrow> bool \<Rightarrow> locks \<Rightarrow> int \<times> locks" where
  "open_end l path for_wr s =
     (let (r, s) = open_fifo path for_wr s; m = get_sem l s
      in (r, put_sem l (if for_wr then m\<lparr>sem_fd1 := r\<rparr> else m\<lparr>sem_fd0 := r\<rparr>) s))"

definition make_blocking :: "int \<Rightarrow> locks \<Rightarrow> int \<times> locks" where
  "make_blocking fd s =
     (let (fl, s) = fcntl_getfl fd s in
      if fl < 0 then (-1, s) else fcntl_setfl fd (fl AND NOT O_NONBLOCK) s)"

text \<open>From the opening of the FIFO on.\<close>

definition open_ends :: "slot \<Rightarrow> string \<Rightarrow> int \<Rightarrow> nat \<Rightarrow> locks \<Rightarrow> (int \<times> locks) option" where
  "open_ends l path oflag val s =
     (let s = put_sem l ((get_sem l s)\<lparr>sem_fd0 := -1, sem_fd1 := -1\<rparr>) s;
          (r, s) = open_end l path False s
      in if r < 0 then Some (open_error l path oflag s)
      else let (r, s) = open_end l path True s
      in if r < 0 then Some (open_error l path oflag s)
      else let (r, s) = make_blocking (sem_fd0 (get_sem l s)) s
      in if r < 0 then Some (open_error l path oflag s)
      else case (if oflag AND O_CREAT \<noteq> 0 then write_bytes val (sem_fd1 (get_sem l s)) s else Some (True, s)) of
             None \<Rightarrow> None
           | Some (ok, s) \<Rightarrow>
               if ok then Some (0, put_sem l ((get_sem l s)\<lparr>sem_magic := SEM_MAGIC\<rparr>) s)
               else Some (open_error l path oflag s))"

definition sem_open :: "slot \<Rightarrow> string \<Rightarrow> int \<Rightarrow> nat \<Rightarrow> locks \<Rightarrow> (int \<times> locks) option" where
  "sem_open l path oflag val s =
     (if oflag AND O_CREAT \<noteq> 0 then
        let (r, s) = mkfifo path s in
        if r < 0 then
          if lock_errno s = E_EXIST \<and> oflag AND O_EXCL = 0 then open_ends l path (oflag AND NOT O_CREAT) val s
          else Some (-1, s)
        else open_ends l path oflag val s
      else open_ends l path oflag 0 s)"

definition sem_close :: "slot \<Rightarrow> locks \<Rightarrow> int \<times> locks" where
  "sem_close l s =
     (if sem_magic (get_sem l s) \<noteq> SEM_MAGIC then fail E_INVAL s
      else let s = put_sem l ((get_sem l s)\<lparr>sem_magic := 0\<rparr>) s;
               (r, s) = sys_close (sem_fd0 (get_sem l s)) s;
               (q, s) = (if r = -1 then (-1, s) else sys_close (sem_fd1 (get_sem l s)) s)
           in (if r = -1 \<or> q = -1 then -1 else 0, put_sem l blank_semaphore s))"

definition sem_post :: "slot \<Rightarrow> locks \<Rightarrow> (int \<times> locks) option" where
  "sem_post l s =
     (if sem_magic (get_sem l s) \<noteq> SEM_MAGIC then Some (fail E_INVAL s)
      else case write_byte (sem_fd1 (get_sem l s)) s of
             None \<Rightarrow> None
           | Some (r, s) \<Rightarrow> Some (if r = 1 then 0 else -1, s))"

definition sem_wait :: "slot \<Rightarrow> locks \<Rightarrow> (int \<times> locks) option" where
  "sem_wait l s =
     (if sem_magic (get_sem l s) \<noteq> SEM_MAGIC then Some (fail E_INVAL s)
      else case read_byte (sem_fd0 (get_sem l s)) s of
             None \<Rightarrow> None
           | Some (r, s) \<Rightarrow> Some (if r = 1 then 0 else -1, s))"

section \<open>The functions of the library\<close>

definition semaphore_open :: "string \<Rightarrow> int \<Rightarrow> nat \<Rightarrow> locks \<Rightarrow> (int \<times> locks) option" where
  "semaphore_open = sem_open Sem"

definition semaphore_create :: "locks \<Rightarrow> (int \<times> locks) option" where
  "semaphore_create s =
     (case semaphore_open SEM_NAME (O_CREAT OR O_RDWR) 1 s of
        None \<Rightarrow> None
      | Some (r, s) \<Rightarrow> Some (if r = -1 then -1 else 0, s))"

definition semaphore_close :: "locks \<Rightarrow> int \<times> locks" where
  "semaphore_close = sem_close Sem"

definition semaphore_unlink :: "string \<Rightarrow> locks \<Rightarrow> int \<times> locks" where
  "semaphore_unlink = sys_unlink"

definition semaphore_post :: "locks \<Rightarrow> (int \<times> locks) option" where
  "semaphore_post = sem_post Sem"

definition semaphore_wait :: "locks \<Rightarrow> (int \<times> locks) option" where
  "semaphore_wait = sem_wait Sem"

definition spinlock_open :: "int \<Rightarrow> string \<Rightarrow> int \<Rightarrow> nat \<Rightarrow> locks \<Rightarrow> (int \<times> locks) option" where
  "spinlock_open idx = sem_open (Spin (nat idx))"

definition bad_index :: "int \<Rightarrow> bool" where
  "bad_index idx \<longleftrightarrow> idx < 0 \<or> SPINLOCK_SPIN_MAX \<le> idx"

definition spinlock_name :: "int \<Rightarrow> string" where
  "spinlock_name idx = SEM_NAME @ int_to_dec idx"

definition spinlock_init :: "int \<Rightarrow> locks \<Rightarrow> (int \<times> locks) option" where
  "spinlock_init idx s =
     (if bad_index idx then Some (-1, s)
      else let s = snd (semaphore_unlink (spinlock_name idx) s) in
           case spinlock_open idx (spinlock_name idx) (O_CREAT OR O_RDWR) 1 s of
             None \<Rightarrow> None
           | Some (r, s) \<Rightarrow> Some (if r = -1 then -1 else 0, s))"

definition spinlock_destroy :: "int \<Rightarrow> locks \<Rightarrow> int \<times> locks" where
  "spinlock_destroy idx s = (if bad_index idx then (-1, s) else sem_close (Spin (nat idx)) s)"

definition spinlock_unlock :: "int \<Rightarrow> locks \<Rightarrow> (int \<times> locks) option" where
  "spinlock_unlock idx s = (if bad_index idx then Some (-1, s) else sem_post (Spin (nat idx)) s)"

definition spinlock_lock :: "int \<Rightarrow> locks \<Rightarrow> (int \<times> locks) option" where
  "spinlock_lock idx s = (if bad_index idx then Some (-1, s) else sem_wait (Spin (nat idx)) s)"

text \<open>A process at its start.\<close>

definition fresh_locks :: "nat \<Rightarrow> nat \<Rightarrow> bool \<Rightarrow> locks" where
  "fresh_locks maxfd size_of_pipe room =
     \<lparr>Semaphore = blank_semaphore, spinlock = replicate (nat SPINLOCK_SPIN_MAX) blank_semaphore, fifos = [], paths = Map.empty,
      fds = [], max_fds = maxfd, pipe_size = size_of_pipe, room_for_files = room, lock_errno = 0\<rparr>"

end
