(* ===== verification/Spin_Facts.thy ===== *)
theory Spin_Facts
  imports Spin_Lock
begin

text \<open>
  Initialising a spin lock makes a new FIFO with one byte in it, and threads that lock and unlock it exclude each
  other.
\<close>

unbundle bit_operations_syntax

section \<open>Descriptors\<close>

lemma add_fd_ok:
  assumes "add_fd d s = (r, s')" and "0 \<le> r"
  shows "descr r s = None \<and> (\<forall>fd. descr fd s' = (if fd = r then Some d else descr fd s)) \<and>
    (\<exists>t. s' = s\<lparr>fds := t\<rparr>)"
proof -
  let ?i = "free_fd s"
  have il: "?i \<le> length (fds s)"
    by (simp add: free_fd_def length_takeWhile_le)
  have free: "fds s ! ?i = None" if "?i < length (fds s)"
    using nth_length_takeWhile [of "\<lambda>x. x \<noteq> None" "fds s"] that unfolding free_fd_def by simp
  have r: "r = int ?i" "s' = s\<lparr>fds := (if ?i < length (fds s) then (fds s)[?i := Some d] else fds s @ [Some d])\<rparr>"
    using assms by (auto simp: add_fd_def Let_def fail_def split: if_splits)
  have "descr fd s' = (if fd = r then Some d else descr fd s)" for fd
  proof (cases "?i < length (fds s)")
    case True
    then show ?thesis
      using r by (auto simp: descr_def nth_list_update)
  next
    case False
    then have "length (fds s) = ?i"
      using il by simp
    then show ?thesis
      using r by (auto simp: descr_def nth_append)
  qed
  then show ?thesis
    using r il free by (auto simp: descr_def)
qed

lemma descr_ex:
  "descr fd s = Some d \<Longrightarrow> P d \<Longrightarrow> list_ex (\<lambda>x. case x of None \<Rightarrow> False | Some d \<Rightarrow> P d) (fds s)"
proof -
  assume "descr fd s = Some d" "P d"
  then have "Some d \<in> set (fds s)"
    unfolding descr_def by (metis nth_mem option.distinct(1))
  then show ?thesis
    using \<open>P d\<close> by (auto simp: list_ex_iff intro!: bexI [of _ "Some d"])
qed

lemma descr_other [simp]:
  "descr fd (s\<lparr>fifos := x\<rparr>) = descr fd s" "descr fd (s\<lparr>Semaphore := y\<rparr>) = descr fd s"
  "descr fd (s\<lparr>spinlock := z\<rparr>) = descr fd s" "descr fd (s\<lparr>paths := p\<rparr>) = descr fd s"
  "descr fd (s\<lparr>lock_errno := e\<rparr>) = descr fd s"
  by (simp_all add: descr_def)

lemma descr_update:
  "descr fd s = Some d \<Longrightarrow>
     descr x (s\<lparr>fds := (fds s)[nat fd := Some e]\<rparr>) = (if x = fd then Some e else descr x s)"
  by (auto simp: descr_def nth_list_update split: if_splits)

section \<open>A lock with bytes in it\<close>

definition lock_holds :: "int \<Rightarrow> nat \<Rightarrow> nat \<Rightarrow> locks \<Rightarrow> bool" where
  "lock_holds idx f n s \<longleftrightarrow>
     \<not> bad_index idx \<and> f < length (fifos s) \<and> fifos s ! f = n \<and> 0 < pipe_size s \<and>
     (let m = spinlock s ! nat idx in
      sem_magic m = SEM_MAGIC \<and> descr (sem_fd0 m) s = Some \<lparr>on_fifo = f, for_write = False, nonblock = False\<rparr> \<and>
      descr (sem_fd1 m) s = Some \<lparr>on_fifo = f, for_write = True, nonblock = True\<rparr>)"

lemma lock_holds_fifos:
  "lock_holds idx f n s \<Longrightarrow> lock_holds idx f k (s\<lparr>fifos := (fifos s)[f := k]\<rparr>)"
  by (simp add: lock_holds_def Let_def)

lemma spinlock_lock_takes:
  assumes "lock_holds idx f (Suc n) s"
  shows "\<exists>s'. spinlock_lock idx s = Some (0, s') \<and> lock_holds idx f n s'"
  using assms lock_holds_fifos [OF assms, of n]
  by (auto simp: spinlock_lock_def sem_wait_def read_byte_def lock_holds_def Let_def)

lemma spinlock_lock_waits:
  assumes "lock_holds idx f 0 s"
  shows "spinlock_lock idx s = None"
proof -
  have "list_ex (\<lambda>x. case x of None \<Rightarrow> False | Some w \<Rightarrow> on_fifo w = f \<and> for_write w) (fds s)"
    using assms by (intro descr_ex [of "sem_fd1 (spinlock s ! nat idx)" s "\<lparr>on_fifo = f, for_write = True, nonblock = True\<rparr>"])
      (simp_all add: lock_holds_def Let_def)
  then show ?thesis
    using assms by (simp add: spinlock_lock_def sem_wait_def read_byte_def lock_holds_def Let_def)
qed

lemma spinlock_unlock_puts:
  assumes "lock_holds idx f 0 s"
  shows "\<exists>s'. spinlock_unlock idx s = Some (0, s') \<and> lock_holds idx f 1 s'"
proof -
  have "list_ex (\<lambda>x. case x of None \<Rightarrow> False | Some r \<Rightarrow> on_fifo r = f \<and> \<not> for_write r) (fds s)"
    using assms by (intro descr_ex [of "sem_fd0 (spinlock s ! nat idx)" s "\<lparr>on_fifo = f, for_write = False, nonblock = False\<rparr>"])
      (simp_all add: lock_holds_def Let_def)
  then show ?thesis
    using assms lock_holds_fifos [OF assms, of 1]
    by (auto simp: spinlock_unlock_def sem_post_def write_byte_def lock_holds_def Let_def)
qed

section \<open>Initialising\<close>

lemma write_one:
  "write_bytes (Suc 0) fd s =
     (case write_byte fd s of None \<Rightarrow> None | Some (r, s) \<Rightarrow> Some (r = 1, s))"
  by (simp split: option.split prod.split)

lemma open_error_result: "fst (open_error l path oflag s) = -1"
  by (simp add: open_error_def Let_def)

lemma open_end_ok:
  assumes op: "open_end (Spin i) path w s = (r, s')" and r: "0 \<le> r" and p: "paths s path = Some f" and i: "i < length (spinlock s)"
  shows "descr r s = None \<and> (\<forall>fd. descr fd s' = (if fd = r then Some \<lparr>on_fifo = f, for_write = w, nonblock = True\<rparr> else descr fd s)) \<and>
    length (spinlock s') = length (spinlock s) \<and> fifos s' = fifos s \<and> paths s' = paths s \<and> pipe_size s' = pipe_size s \<and>
    spinlock s' ! i = (if w then (spinlock s ! i)\<lparr>sem_fd1 := r\<rparr> else (spinlock s ! i)\<lparr>sem_fd0 := r\<rparr>)"
proof -
  obtain s1 where s1: "open_fifo path w s = (r, s1)" "s' = s1\<lparr>spinlock := (spinlock s1)[i :=
      (if w then (spinlock s1 ! i)\<lparr>sem_fd1 := r\<rparr> else (spinlock s1 ! i)\<lparr>sem_fd0 := r\<rparr>)]\<rparr>"
    using op by (auto simp: open_end_def Let_def split: prod.splits)
  then have "add_fd \<lparr>on_fifo = f, for_write = w, nonblock = True\<rparr> s = (r, s1)"
    using p r by (auto simp: open_fifo_def fail_def split: if_splits)
  from add_fd_ok [OF this r] show ?thesis
    using s1(2) i by auto
qed

lemma make_blocking_ok:
  assumes "descr fd s = Some \<lparr>on_fifo = f, for_write = w, nonblock = True\<rparr>"
  shows "\<exists>s'. make_blocking fd s = (0, s') \<and>
    (\<forall>x. descr x s' = (if x = fd then Some \<lparr>on_fifo = f, for_write = w, nonblock = False\<rparr> else descr x s)) \<and>
    spinlock s' = spinlock s \<and> fifos s' = fifos s \<and> pipe_size s' = pipe_size s"
  using assms descr_update [OF assms]
  by (cases w) (simp_all add: make_blocking_def fcntl_getfl_def fcntl_setfl_def O_NONBLOCK_def)

lemma open_ends_ready:
  assumes op: "open_ends (Spin i) path oflag 1 s = Some (0, s')" and cr: "oflag AND O_CREAT \<noteq> 0"
    and p: "paths s path = Some f" and f: "f < length (fifos s)" "fifos s ! f = 0" and i: "i < length (spinlock s)"
  shows "sem_magic (spinlock s' ! i) = SEM_MAGIC \<and> f < length (fifos s') \<and> fifos s' ! f = 1 \<and> 0 < pipe_size s' \<and>
    descr (sem_fd0 (spinlock s' ! i)) s' = Some \<lparr>on_fifo = f, for_write = False, nonblock = False\<rparr> \<and>
    descr (sem_fd1 (spinlock s' ! i)) s' = Some \<lparr>on_fifo = f, for_write = True, nonblock = True\<rparr>"
proof -
  have err: "open_error l path oflag x \<noteq> (0, s')" for l x
    using open_error_result [of l path oflag x] by auto
  define s1 where "s1 = s\<lparr>spinlock := (spinlock s)[i := (spinlock s ! i)\<lparr>sem_fd0 := -1, sem_fd1 := -1\<rparr>]\<rparr>"
  have p1: "paths s1 path = Some f" "i < length (spinlock s1)" "fifos s1 = fifos s" "pipe_size s1 = pipe_size s"
    using p i by (simp_all add: s1_def)
  obtain r0 s2 where e0: "open_end (Spin i) path False s1 = (r0, s2)"
    by (cases "open_end (Spin i) path False s1") auto
  have r0: "0 \<le> r0"
    using op e0 err by (auto simp: open_ends_def s1_def Let_def split: if_splits)
  note a0 = open_end_ok [OF e0 r0 p1(1,2)]
  obtain r1 s3 where e1: "open_end (Spin i) path True s2 = (r1, s3)"
    by (cases "open_end (Spin i) path True s2") auto
  have r1: "0 \<le> r1"
    using op e0 e1 r0 err by (auto simp: open_ends_def s1_def Let_def split: if_splits)
  have p2: "paths s2 path = Some f" "i < length (spinlock s2)"
    using a0 p1 by simp_all
  note a1 = open_end_ok [OF e1 r1 p2]
  have ne: "r0 \<noteq> r1"
    using a0 a1 by auto
  have m3: "spinlock s3 ! i = (spinlock s1 ! i)\<lparr>sem_fd0 := r0, sem_fd1 := r1\<rparr>" "length (spinlock s3) = length (spinlock s)"
    using a0 a1 i by (simp_all add: s1_def)
  have d3: "descr r0 s3 = Some \<lparr>on_fifo = f, for_write = False, nonblock = True\<rparr>"
      "descr r1 s3 = Some \<lparr>on_fifo = f, for_write = True, nonblock = True\<rparr>"
    using a0 a1 ne by simp_all
  obtain s4 where s4: "make_blocking r0 s3 = (0, s4)" "descr r0 s4 = Some \<lparr>on_fifo = f, for_write = False, nonblock = False\<rparr>"
      "descr r1 s4 = Some \<lparr>on_fifo = f, for_write = True, nonblock = True\<rparr>" "spinlock s4 = spinlock s3"
      "fifos s4 = fifos s" "pipe_size s4 = pipe_size s"
    using make_blocking_ok [OF d3(1)] d3(2) ne a0 a1 p1 by auto
  have step: "open_ends (Spin i) path oflag 1 s =
      (case write_byte r1 s4 of None \<Rightarrow> None
       | Some (r, x) \<Rightarrow> if r = 1 then Some (0, put_sem (Spin i) ((get_sem (Spin i) x)\<lparr>sem_magic := SEM_MAGIC\<rparr>) x)
                      else Some (open_error (Spin i) path oflag x))"
    using e0 e1 r0 r1 m3 s4(1,4) cr
    by (simp add: open_ends_def s1_def [symmetric] Let_def split: option.split)
  have "list_ex (\<lambda>x. case x of None \<Rightarrow> False | Some d \<Rightarrow> on_fifo d = f \<and> \<not> for_write d) (fds s4)"
    using s4(2) by (rule descr_ex) simp
  then have wr: "write_byte r1 s4 =
      (if 0 < pipe_size s then Some (1, s4\<lparr>fifos := (fifos s)[f := 1]\<rparr>) else Some (fail E_AGAIN s4))"
    using s4 f(2) by (simp add: write_byte_def)
  have ps: "0 < pipe_size s"
    using op step wr err by (auto simp: fail_def split: if_splits)
  then have "s' = put_sem (Spin i) ((get_sem (Spin i) (s4\<lparr>fifos := (fifos s)[f := 1]\<rparr>))\<lparr>sem_magic := SEM_MAGIC\<rparr>) (s4\<lparr>fifos := (fifos s)[f := 1]\<rparr>)"
    using op step wr by simp
  then show ?thesis
    using s4 m3 i f(1) ps by simp
qed

lemma open_ends_result: "open_ends l path oflag val s = Some (r, s') \<Longrightarrow> r = 0 \<or> r = -1"
  by (auto simp: open_ends_def open_error_def Let_def split: prod.splits if_splits option.splits)

lemma sem_open_result: "sem_open l path oflag val s = Some (r, s') \<Longrightarrow> r = 0 \<or> r = -1"
  using open_ends_result [of l path _ _ _ r s'] by (auto simp: sem_open_def split: prod.splits if_splits)

lemma spinlock_init_ready:
  assumes init: "spinlock_init idx s = Some (0, s')" and len: "length (spinlock s) = nat SPINLOCK_SPIN_MAX"
  shows "lock_holds idx (length (fifos s)) 1 s'"
proof -
  let ?path = "spinlock_name idx" and ?f = "length (fifos s)"
  let ?s1 = "snd (sys_unlink ?path s)"
  have idx: "\<not> bad_index idx" "nat idx < length (spinlock s)"
    using init len by (auto simp: spinlock_init_def bad_index_def split: if_splits)
  have s1: "paths ?s1 ?path = None" "fifos ?s1 = fifos s" "spinlock ?s1 = spinlock s"
    by (simp_all add: sys_unlink_def fail_def)
  have op: "sem_open (Spin (nat idx)) ?path (O_CREAT OR O_RDWR) 1 ?s1 = Some (0, s')"
  proof (cases "sem_open (Spin (nat idx)) ?path (O_CREAT OR O_RDWR) 1 ?s1")
    case None
    then show ?thesis
      using init idx(1) by (simp add: spinlock_init_def spinlock_open_def semaphore_unlink_def)
  next
    case (Some a)
    obtain r x where a: "a = (r, x)"
      by (cases a)
    then have "x = s'" "r \<noteq> -1"
      using init idx(1) Some by (auto simp: spinlock_init_def spinlock_open_def semaphore_unlink_def split: if_splits)
    then show ?thesis
      using Some a sem_open_result [of "Spin (nat idx)" ?path "O_CREAT OR O_RDWR" 1 ?s1 r x] by auto
  qed
  have cr: "(O_CREAT OR O_RDWR) AND O_CREAT \<noteq> 0"
    by (simp add: O_CREAT_def O_RDWR_def)
  have fifo: "mkfifo ?path ?s1 =
      (if room_for_files ?s1 then (0, ?s1\<lparr>paths := (paths ?s1)(?path \<mapsto> ?f), fifos := fifos s @ [0]\<rparr>) else fail E_NOSPC ?s1)"
    by (simp add: mkfifo_def s1)
  have room: "room_for_files ?s1"
    using op fifo cr by (auto simp: sem_open_def fail_def E_NOSPC_def E_EXIST_def split: if_splits)
  define s2 where "s2 = ?s1\<lparr>paths := (paths ?s1)(?path \<mapsto> ?f), fifos := fifos s @ [0]\<rparr>"
  have op2: "open_ends (Spin (nat idx)) ?path (O_CREAT OR O_RDWR) 1 s2 = Some (0, s')"
    using op fifo room cr by (simp add: sem_open_def s2_def)
  have s2: "paths s2 ?path = Some ?f" "?f < length (fifos s2)" "fifos s2 ! ?f = 0" "nat idx < length (spinlock s2)"
    using idx(2) by (simp_all add: s2_def s1)
  show ?thesis
    using open_ends_ready [OF op2 cr s2] idx(1) by (simp add: lock_holds_def Let_def)
qed

end
