(* ===== verification/Spin_Props.thy ===== *)
theory Spin_Props
  imports Spin_Facts
begin

text \<open>
  Threads that use a spin lock, as a state machine, and the property that makes it a lock.
\<close>

section \<open>Threads\<close>

datatype thread = Outside | Trying | Inside

text \<open>
  The states of \<open>n\<close> threads after one of them has initialised the lock: a thread asks for the lock, gets it when its call
  returns, whatever it returns, and gives it back.
\<close>

inductive locks_reachable :: "int \<Rightarrow> nat \<Rightarrow> locks \<Rightarrow> thread list \<Rightarrow> bool" for idx :: int and n :: nat where
  lock_init: "length (spinlock s) = nat SPINLOCK_SPIN_MAX \<Longrightarrow> spinlock_init idx s = Some (0, s') \<Longrightarrow>
    locks_reachable idx n s' (replicate n Outside)"
| lock_try: "locks_reachable idx n s ts \<Longrightarrow> i < length ts \<Longrightarrow> ts ! i = Outside \<Longrightarrow> locks_reachable idx n s (ts[i := Trying])"
| lock_enter: "locks_reachable idx n s ts \<Longrightarrow> i < length ts \<Longrightarrow> ts ! i = Trying \<Longrightarrow> spinlock_lock idx s = Some (r, s') \<Longrightarrow>
    locks_reachable idx n s' (ts[i := Inside])"
| lock_leave: "locks_reachable idx n s ts \<Longrightarrow> i < length ts \<Longrightarrow> ts ! i = Inside \<Longrightarrow> spinlock_unlock idx s = Some (r, s') \<Longrightarrow>
    locks_reachable idx n s' (ts[i := Outside])"

definition inside :: "thread list \<Rightarrow> nat" where
  "inside ts = length (filter (\<lambda>t. t = Inside) ts)"

lemma inside_update:
  "i < length ts \<Longrightarrow> inside (ts[i := x]) + (if ts ! i = Inside then 1 else 0) = inside ts + (if x = Inside then 1 else 0)"
proof (induction ts arbitrary: i)
  case (Cons t ts)
  show ?case
  proof (cases i)
    case 0
    then show ?thesis
      by (simp add: inside_def)
  next
    case (Suc j)
    then show ?thesis
      using Cons.IH [of j] Cons.prems by (auto simp: inside_def)
  qed
qed simp

lemma inside_pos: "i < length ts \<Longrightarrow> ts ! i = Inside \<Longrightarrow> 0 < inside ts"
  using inside_update [of i ts Inside] inside_update [of i ts Outside] by simp

text \<open>The byte is in the FIFO or with the thread inside.\<close>

lemma lock_byte:
  assumes "locks_reachable idx n s ts"
  shows "\<exists>f k. lock_holds idx f k s \<and> k + inside ts = 1"
  using assms
proof (induction rule: locks_reachable.induct)
  case (lock_init s s')
  then show ?case
    using spinlock_init_ready [of idx s s'] by (auto simp: inside_def)
next
  case (lock_try s ts i)
  then show ?case
    using inside_update [of i ts Trying] by simp
next
  case (lock_enter s ts i r s')
  then obtain f k where fk: "lock_holds idx f k s" "k + inside ts = 1"
    by blast
  then obtain k' where k: "k = Suc k'"
    using spinlock_lock_waits [of idx f s] lock_enter.hyps(4) by (cases k) auto
  then show ?case
    using spinlock_lock_takes [of idx f k' s] fk lock_enter.hyps inside_update [of i ts Inside] by auto
next
  case (lock_leave s ts i r s')
  then obtain f k where fk: "lock_holds idx f k s" "k + inside ts = 1"
    by blast
  then have "k = 0"
    using inside_pos [of i ts] lock_leave.hyps by simp
  then show ?case
    using spinlock_unlock_puts [of idx f s] fk lock_leave.hyps inside_update [of i ts Outside] by auto
qed

section \<open>Properties\<close>

text \<open>C25. A spin lock excludes: however the threads of a process that has initialised it take and release it, at most one
  is inside.  While one is inside, locking waits, and its unlocking succeeds; otherwise locking succeeds at once.\<close>

theorem spinlock_excludes:
  assumes "locks_reachable idx n s ts"
  shows "inside ts \<le> 1 \<and>
    (inside ts = 1 \<longrightarrow> spinlock_lock idx s = None \<and> (\<exists>s'. spinlock_unlock idx s = Some (0, s'))) \<and>
    (inside ts = 0 \<longrightarrow> (\<exists>s'. spinlock_lock idx s = Some (0, s')))"
proof -
  obtain f k where fk: "lock_holds idx f k s" "k + inside ts = 1"
    using lock_byte [OF assms] by blast
  show ?thesis
  proof (cases "inside ts = 0")
    case True
    then have "lock_holds idx f (Suc 0) s"
      using fk by simp
    then show ?thesis
      using True spinlock_lock_takes by fastforce
  next
    case False
    then have "k = 0" "inside ts = 1"
      using fk(2) by simp_all
    then show ?thesis
      using fk(1) spinlock_lock_waits [of idx f s] spinlock_unlock_puts [of idx f s] by fastforce
  qed
qed

definition demo_locks :: locks where
  "demo_locks = snd (the (spinlock_init 3 (fresh_locks 8 4 True)))"

lemma spinlock_excludes_witness:
  "inside [Outside, Outside] \<le> 1 \<and> (\<exists>s'. spinlock_lock 3 demo_locks = Some (0, s'))"
proof -
  have "map_option fst (spinlock_init 3 (fresh_locks 8 4 True)) = Some 0"
    by code_simp
  then have "spinlock_init 3 (fresh_locks 8 4 True) = Some (0, demo_locks)"
    by (cases "spinlock_init 3 (fresh_locks 8 4 True)") (auto simp: demo_locks_def)
  moreover have "length (spinlock (fresh_locks 8 4 True)) = nat SPINLOCK_SPIN_MAX"
    by code_simp
  ultimately have "locks_reachable 3 2 demo_locks (replicate 2 Outside)"
    by (intro lock_init)
  from spinlock_excludes [OF this] show ?thesis
    by (simp add: inside_def numeral_2_eq_2)
qed

section \<open>Outside the contract\<close>

text \<open>Initialising a lock once more makes a new FIFO: whoever holds the old one no longer keeps others out.\<close>

lemma init_again_unlocks:
  assumes "length (spinlock s) = nat SPINLOCK_SPIN_MAX" and "spinlock_init idx s = Some (0, s')"
  shows "\<exists>s''. spinlock_lock idx s' = Some (0, s'')"
  using spinlock_lock_takes [of idx _ 0 s'] spinlock_init_ready [OF assms(2,1)] by auto

text \<open>A lock that is not initialised, or was destroyed, does not make anyone wait.\<close>

lemma not_initialised_fails:
  assumes "\<not> bad_index idx" and "sem_magic (spinlock s ! nat idx) \<noteq> SEM_MAGIC"
  shows "spinlock_lock idx s = Some (-1, s\<lparr>lock_errno := E_INVAL\<rparr>)"
  using assms by (simp add: spinlock_lock_def sem_wait_def fail_def)

lemma destroyed_fails:
  assumes "\<not> bad_index idx" and "nat idx < length (spinlock s)"
  shows "\<exists>s'. spinlock_lock idx (snd (spinlock_destroy idx s)) = Some (-1, s')"
proof -
  have "sem_magic (spinlock (snd (spinlock_destroy idx s)) ! nat idx) \<noteq> SEM_MAGIC"
    using assms
    by (auto simp: spinlock_destroy_def sem_close_def sys_close_def fail_def blank_semaphore_def SEM_MAGIC_def Let_def
        split: prod.splits)
  then show ?thesis
    using not_initialised_fails [OF assms(1)] by blast
qed

end
