(* ===== verification/Util_Crc32.thy ===== *)
theory Util_Crc32
  imports Prelude "HOL-Library.Word"
begin

text \<open>
  The checksum of the shared library, \<^verbatim>\<open>src/package/ezp-nvram/src/crc32.c\<close>: a table made at the first call, and the bytes
  in blocks of eight.  \<^verbatim>\<open>uLong\<close> has 32 bits on the targets.
\<close>

unbundle bit_operations_syntax

section \<open>The table\<close>

text \<open>The terms of the polynomial other than \<open>x\<^sup>3\<^sup>2\<close>; the lowest power is the most significant bit.\<close>

definition crc_terms :: "nat list" where
  "crc_terms = [0, 1, 2, 4, 5, 7, 8, 10, 11, 12, 16, 22, 23, 26]"

definition crc_poly :: "32 word" where
  "crc_poly = foldl (\<lambda>poly p. poly OR push_bit (31 - p) 1) 0 crc_terms"

definition crc_shift :: "32 word \<Rightarrow> 32 word" where
  "crc_shift c = (if c AND 1 \<noteq> 0 then crc_poly XOR drop_bit 1 c else drop_bit 1 c)"

definition make_crc_table :: "32 word list" where
  "make_crc_table = map (\<lambda>n. (crc_shift ^^ 8) (word_of_nat n)) [0..<256]"

section \<open>The checksum\<close>

record crc_vars =
  crc_table :: "32 word list"
  crc_table_empty :: bool

definition DO1 :: "32 word list \<Rightarrow> 32 word \<Rightarrow> char \<Rightarrow> 32 word" where
  "DO1 tab crc b = tab ! unat ((crc XOR of_nat (of_char b)) AND 0xff) XOR drop_bit 8 crc"

definition DO8 :: "32 word list \<Rightarrow> 32 word \<Rightarrow> string \<Rightarrow> 32 word" where
  "DO8 tab crc buf =
     DO1 tab (DO1 tab (DO1 tab (DO1 tab (DO1 tab (DO1 tab (DO1 tab (DO1 tab crc
       (buf ! 0)) (buf ! 1)) (buf ! 2)) (buf ! 3)) (buf ! 4)) (buf ! 5)) (buf ! 6)) (buf ! 7)"

function crc_blocks :: "32 word list \<Rightarrow> 32 word \<Rightarrow> string \<Rightarrow> 32 word \<times> string" where
  "crc_blocks tab crc buf = (if 8 \<le> length buf then crc_blocks tab (DO8 tab crc buf) (drop 8 buf) else (crc, buf))"
  by pat_completeness auto
termination
  by (relation "measure (\<lambda>(tab, crc, buf). length buf)") auto

fun crc_rest :: "32 word list \<Rightarrow> 32 word \<Rightarrow> string \<Rightarrow> 32 word" where
  "crc_rest tab crc [] = crc"
| "crc_rest tab crc (b # buf) = crc_rest tab (DO1 tab crc b) buf"

definition crc32 :: "32 word \<Rightarrow> string \<Rightarrow> crc_vars \<Rightarrow> 32 word \<times> crc_vars" where
  "crc32 crc buf v =
     (let v = (if crc_table_empty v then \<lparr>crc_table = make_crc_table, crc_table_empty = False\<rparr> else v);
          crc = crc XOR 0xffffffff;
          (crc, rest) = crc_blocks (crc_table v) crc buf;
          crc = crc_rest (crc_table v) crc rest
      in (crc XOR 0xffffffff, v))"

text \<open>The variables before and after the first call.\<close>

definition crc_ready :: "crc_vars \<Rightarrow> bool" where
  "crc_ready v \<longleftrightarrow> crc_table_empty v \<or> crc_table v = make_crc_table"

section \<open>Division bit by bit\<close>

text \<open>Each byte is added to the register, which is then shifted out bit by bit: no table and no blocks.\<close>

definition crc32_bitwise :: "32 word \<Rightarrow> string \<Rightarrow> 32 word" where
  "crc32_bitwise crc buf = NOT (foldl (\<lambda>c b. (crc_shift ^^ 8) (c XOR of_nat (of_char b))) (NOT crc) buf)"

lemma crc_poly_value: "crc_poly = 0xedb88320"
  by (simp add: crc_poly_def crc_terms_def)

lemma crc_shift_bit: "crc_shift c = (if bit c 0 then crc_poly XOR drop_bit 1 c else drop_bit 1 c)"
  by (simp add: crc_shift_def and_one_eq even_iff_mod_2_eq_zero [symmetric] bit_0)

lemma crc_shift_xor: "crc_shift (a XOR b) = crc_shift a XOR crc_shift b"
  by (rule bit_eqI) (auto simp: crc_shift_bit bit_simps)

lemma crc_shifts_xor: "(crc_shift ^^ n) (a XOR b) = (crc_shift ^^ n) a XOR (crc_shift ^^ n) b"
  by (induction n) (simp_all add: crc_shift_xor)

text \<open>Bits above those shifted out only move.\<close>

lemma crc_shifts_high: "(\<And>i. i < n \<Longrightarrow> \<not> bit a i) \<Longrightarrow> (crc_shift ^^ n) a = drop_bit n a"
proof (induction n)
  case (Suc n)
  then have "(crc_shift ^^ n) a = drop_bit n a"
    by simp
  moreover have "\<not> bit (drop_bit n a) 0"
    using Suc.prems [of n] by (simp add: bit_drop_bit_eq)
  ultimately show ?case
    using crc_shift_bit [of "drop_bit n a"] by simp
qed simp

lemma crc_byte_table:
  "(crc_shift ^^ 8) c = make_crc_table ! unat (c AND 0xff) XOR drop_bit 8 c"
proof -
  let ?lo = "c AND 0xff" and ?hi = "c AND NOT 0xff"
  have m: "(0xff :: 32 word) = mask 8"
    by (simp add: mask_eq_decr_exp)
  have split: "c = ?lo XOR ?hi"
    by (rule bit_eqI) (auto simp: bit_simps)
  have "(crc_shift ^^ 8) ?hi = drop_bit 8 ?hi"
    by (rule crc_shifts_high) (simp add: m bit_simps)
  moreover have "drop_bit 8 ?hi = drop_bit 8 c"
    by (rule bit_eqI) (auto simp: m bit_simps dest: bit_imp_le_length)
  moreover have "unat ?lo < 256"
  proof -
    have "?lo = take_bit 8 c"
      by (simp only: m take_bit_eq_mask)
    then show ?thesis
      using take_bit_nat_less_exp [of 8 "unat c"] by (simp only: unsigned_take_bit_eq) simp
  qed
  then have "make_crc_table ! unat ?lo = (crc_shift ^^ 8) ?lo"
    unfolding make_crc_table_def by (simp del: upt_rec_numeral)
  ultimately show ?thesis
    using crc_shifts_xor [of 8 ?lo ?hi] split by simp
qed

lemma DO1_bitwise: "DO1 make_crc_table crc b = (crc_shift ^^ 8) (crc XOR of_nat (of_char b))"
proof -
  let ?b = "of_nat (of_char b) :: 32 word"
  have "drop_bit 8 ?b = 0"
  proof -
    have "unat ?b = of_char b"
      using less_trans [OF nat_of_char_less_256 [of b], of "2 ^ 32"] by (simp add: unat_of_nat)
    then have "unat ?b < 256"
      by simp
    then have "drop_bit 8 (unat ?b) = 0"
      by (simp add: drop_bit_eq_div)
    then show ?thesis
      by (simp only: unat_drop_bit_eq [symmetric] unat_eq_zero)
  qed
  then have "drop_bit 8 (crc XOR ?b) = drop_bit 8 crc"
    by (simp add: drop_bit_xor)
  then show ?thesis
    by (simp add: DO1_def crc_byte_table)
qed

abbreviation crc_fold :: "32 word \<Rightarrow> string \<Rightarrow> 32 word" where
  "crc_fold \<equiv> foldl (\<lambda>c b. (crc_shift ^^ 8) (c XOR of_nat (of_char b)))"

lemma crc_rest_fold: "crc_rest make_crc_table crc buf = crc_fold crc buf"
  by (induction make_crc_table crc buf rule: crc_rest.induct) (simp_all add: DO1_bitwise)

lemma DO8_fold:
  assumes "8 \<le> length buf"
  shows "DO8 make_crc_table crc buf = crc_fold crc (take 8 buf)"
proof -
  have "take 8 buf = map ((!) buf) [0..<8]"
    using assms by (intro nth_equalityI) (simp_all del: upt_rec_numeral)
  also have "\<dots> = [buf ! 0, buf ! 1, buf ! 2, buf ! 3, buf ! 4, buf ! 5, buf ! 6, buf ! 7]"
    by (simp add: upt_rec eval_nat_numeral)
  finally show ?thesis
    by (simp add: DO8_def DO1_bitwise)
qed

lemma crc_blocks_fold:
  "crc_blocks make_crc_table crc buf = (c, r) \<Longrightarrow> crc_fold c r = crc_fold crc buf"
proof (induction make_crc_table crc buf rule: crc_blocks.induct)
  case (1 crc buf)
  show ?case
  proof (cases "8 \<le> length buf")
    case True
    then have "crc_fold c r = crc_fold (crc_fold crc (take 8 buf)) (drop 8 buf)"
      using 1 by (simp add: DO8_fold)
    then show ?thesis
      by (metis append_take_drop_id foldl_append)
  next
    case False
    then show ?thesis
      using "1.prems" by simp
  qed
qed

lemma crc32_eq:
  assumes "crc_ready v"
  shows "fst (crc32 crc buf v) = crc32_bitwise crc buf \<and> crc_ready (snd (crc32 crc buf v))"
proof -
  let ?v = "if crc_table_empty v then \<lparr>crc_table = make_crc_table, crc_table_empty = False\<rparr> else v"
  have v: "crc_table ?v = make_crc_table"
    using assms by (auto simp: crc_ready_def)
  obtain c r where cr: "crc_blocks make_crc_table (crc XOR 0xffffffff) buf = (c, r)"
    by (cases "crc_blocks make_crc_table (crc XOR 0xffffffff) buf") auto
  have "(0xffffffff :: 32 word) = -1"
    by simp
  then have "x XOR 0xffffffff = NOT x" for x :: "32 word"
    by (simp only: bit.xor_one_right)
  then show ?thesis
    using crc_blocks_fold [OF cr] v cr unfolding crc32_def crc32_bitwise_def Let_def crc_ready_def
    by (simp add: crc_rest_fold del: crc_blocks.simps)
qed

lemma crc32_bitwise_append: "crc32_bitwise (crc32_bitwise crc a) b = crc32_bitwise crc (a @ b)"
  by (simp add: crc32_bitwise_def)

end
