(* ===== verification/Util_Text.thy ===== *)
theory Util_Text
  imports Prelude "HOL-Library.Word" "HOL-Library.Sublist"
begin

text \<open>
  Text helpers of the shared library: \<^verbatim>\<open>find_word\<close> of \<^verbatim>\<open>strings.c\<close>, and the Ethernet addresses of \<^verbatim>\<open>shutils.c\<close>, under
  \<^verbatim>\<open>src/package/ezp-nvram/src\<close>.
\<close>

section \<open>Words of a list\<close>

definition word_sep :: "char \<Rightarrow> bool" where
  "word_sep ch \<longleftrightarrow> ch = CHR '' '' \<or> ch = CHR '',''"

text \<open>\<^verbatim>\<open>strstr\<close> from a place of the buffer on.\<close>

fun strstr_at :: "string \<Rightarrow> string \<Rightarrow> nat option" where
  "strstr_at [] w = (if w = [] then Some 0 else None)"
| "strstr_at (ch # s) w = (if prefix w (ch # s) then Some 0 else map_option Suc (strstr_at s w))"

lemma strstr_at_some:
  "strstr_at s w = Some k \<Longrightarrow> k \<le> length s \<and> prefix w (drop k s) \<and> (\<forall>j < k. \<not> prefix w (drop j s))"
proof (induction s w arbitrary: k rule: strstr_at.induct)
  case (2 ch s w)
  show ?case
  proof (cases "prefix w (ch # s)")
    case True
    then show ?thesis
      using 2 by simp
  next
    case False
    then obtain i where i: "strstr_at s w = Some i" "k = Suc i"
      using 2 by auto
    have "\<not> prefix w (drop j (ch # s))" if "j < k" for j
      using 2 False i that by (cases j) auto
    then show ?thesis
      using 2 False i by auto
  qed
qed (simp split: if_splits)

lemma strstr_at_none: "strstr_at s w = None \<Longrightarrow> k \<le> length s \<Longrightarrow> \<not> prefix w (drop k s)"
proof (induction s w arbitrary: k rule: strstr_at.induct)
  case (2 ch s w)
  then show ?case
    by (cases k) (auto split: if_splits)
qed (simp split: if_splits)

text \<open>
  The loop of \<^verbatim>\<open>find_word\<close> from the place \<open>p\<close> on; it must not start behind the terminator, which is the place
  \<^term>\<open>length buffer\<close>.
\<close>

definition word_at :: "string \<Rightarrow> string \<Rightarrow> nat \<Rightarrow> bool" where
  "word_at buffer word p \<longleftrightarrow>
     (p = 0 \<or> word_sep (buffer ! (p - 1))) \<and>
     (let q = p + length word in q = length buffer \<or> word_sep (buffer ! q))"

function find_word_loop :: "string \<Rightarrow> string \<Rightarrow> nat \<Rightarrow> int c" where
  "find_word_loop buffer word p =
     (if length buffer < p then None
      else case strstr_at (drop p buffer) word of
             None \<Rightarrow> Some 0
           | Some k \<Rightarrow> if word_at buffer word (p + k) then Some 1 else find_word_loop buffer word (p + k + 1))"
  by pat_completeness auto
termination
  by (relation "measure (\<lambda>(buffer, word, p). length buffer + 1 - p)") auto

declare find_word_loop.simps [simp del]

definition find_word :: "string \<Rightarrow> string \<Rightarrow> int c" where
  "find_word buffer word = find_word_loop buffer word 0"

text \<open>What it looks for: an element of the list that the separators make of the buffer.\<close>

fun elements :: "string \<Rightarrow> string list" where
  "elements [] = [[]]"
| "elements (ch # s) =
     (if word_sep ch then [] # elements s else (case elements s of [] \<Rightarrow> [[ch]] | e # es \<Rightarrow> (ch # e) # es))"

lemma elements_Cons [simp]: "elements s \<noteq> []"
  by (induction s rule: elements.induct) (auto split: list.splits)

definition word_in :: "string \<Rightarrow> string \<Rightarrow> nat \<Rightarrow> bool" where
  "word_in buffer word p \<longleftrightarrow> p \<le> length buffer \<and> prefix word (drop p buffer) \<and> word_at buffer word p"

lemma find_word_loop_spec:
  assumes "word \<noteq> []"
  shows "p \<le> length buffer + 1 \<Longrightarrow>
    find_word_loop buffer word p = Some (if \<exists>i \<ge> p. word_in buffer word i then 1 else 0) \<or> p = length buffer + 1"
  using assms
proof (induction buffer word p rule: find_word_loop.induct)
  case (1 buffer word p)
  show ?case
  proof (cases "p = length buffer + 1")
    case False
    then have p: "p \<le> length buffer"
      using 1 by simp
    show ?thesis
    proof (cases "strstr_at (drop p buffer) word")
      case None
      have "\<not> word_in buffer word i" if "p \<le> i" for i
        using strstr_at_none [OF None, of "i - p"] that by (auto simp: word_in_def diff_le_mono)
      then show ?thesis
        using None p by (auto simp: find_word_loop.simps [of buffer word p])
    next
      case (Some k)
      note k = strstr_at_some [OF Some]
      show ?thesis
      proof (cases "word_at buffer word (p + k)")
        case True
        then have "word_in buffer word (p + k)"
          using k p by (simp add: word_in_def add.commute le_diff_conv2)
        then have "\<exists>i \<ge> p. word_in buffer word i"
          by (intro exI [of _ "p + k"]) simp
        then show ?thesis
          using True Some p by (simp add: find_word_loop.simps [of buffer word p])
      next
        case False
        have "prefix word (drop (p + k) buffer)"
          using k by (simp add: add.commute)
        then have "p + k < length buffer"
          using "1.prems" k p by (cases "p + k = length buffer") auto
        then have "find_word_loop buffer word (p + k + 1) =
            Some (if \<exists>i \<ge> p + k + 1. word_in buffer word i then 1 else 0)"
          using "1.IH" [OF _ Some False] "1.prems" p by auto
        moreover have "(\<exists>i \<ge> p + k + 1. word_in buffer word i) = (\<exists>i \<ge> p. word_in buffer word i)"
        proof -
          have "\<not> word_in buffer word i" if "p \<le> i" "i < p + k + 1" for i
          proof (cases "i = p + k")
            case True
            then show ?thesis
              using False by (simp add: word_in_def)
          next
            case False
            then have "i - p < k"
              using that by simp
            then have "\<not> prefix word (drop (i - p) (drop p buffer))"
              using k by blast
            then show ?thesis
              using that by (simp add: word_in_def)
          qed
          then show ?thesis
            by (metis le_add1 le_trans not_less add.assoc)
        qed
        ultimately show ?thesis
          using False Some p by (simp add: find_word_loop.simps [of buffer word p])
      qed
    qed
  qed simp
qed

section \<open>Elements\<close>

lemma hd_elements: "hd (elements s) = takeWhile (\<lambda>ch. \<not> word_sep ch) s"
proof (induction s)
  case (Cons ch s)
  then show ?case
    by (cases "elements s") auto
qed simp

lemma first_element:
  assumes "\<forall>ch \<in> set w. \<not> word_sep ch"
  shows "(\<exists>post. s = w @ post \<and> (post = [] \<or> word_sep (hd post))) \<longleftrightarrow> w = takeWhile (\<lambda>ch. \<not> word_sep ch) s"
proof
  assume "\<exists>post. s = w @ post \<and> (post = [] \<or> word_sep (hd post))"
  then obtain post where s: "s = w @ post" "post = [] \<or> word_sep (hd post)"
    by blast
  moreover have "takeWhile (\<lambda>ch. \<not> word_sep ch) post = []"
    using s(2) by (cases post) auto
  ultimately show "w = takeWhile (\<lambda>ch. \<not> word_sep ch) s"
    using assms by (simp add: takeWhile_append2)
next
  assume "w = takeWhile (\<lambda>ch. \<not> word_sep ch) s"
  then show "\<exists>post. s = w @ post \<and> (post = [] \<or> word_sep (hd post))"
    using hd_dropWhile [of "\<lambda>ch. \<not> word_sep ch" s]
    by (intro exI [of _ "dropWhile (\<lambda>ch. \<not> word_sep ch) s"]) auto
qed

lemma later_element:
  assumes w: "\<forall>ch \<in> set w. \<not> word_sep ch"
  shows "w \<in> set (tl (elements s)) \<longleftrightarrow>
    (\<exists>pre post. s = pre @ w @ post \<and> pre \<noteq> [] \<and> word_sep (last pre) \<and> (post = [] \<or> word_sep (hd post)))"
    (is "_ \<longleftrightarrow> ?R s")
proof (induction s)
  case (Cons ch s)
  have split: "?R (ch # s) \<longleftrightarrow> (word_sep ch \<and> (\<exists>post. s = w @ post \<and> (post = [] \<or> word_sep (hd post)))) \<or> ?R s"
  proof
    assume "?R (ch # s)"
    then obtain pre post where p: "ch # s = pre @ w @ post" "pre \<noteq> []" "word_sep (last pre)" "post = [] \<or> word_sep (hd post)"
      by blast
    then obtain pre' where pre: "pre = ch # pre'" "s = pre' @ w @ post"
      by (cases pre) auto
    then show "(word_sep ch \<and> (\<exists>post. s = w @ post \<and> (post = [] \<or> word_sep (hd post)))) \<or> ?R s"
      using p by (cases "pre' = []") auto
  next
    assume "(word_sep ch \<and> (\<exists>post. s = w @ post \<and> (post = [] \<or> word_sep (hd post)))) \<or> ?R s"
    then show "?R (ch # s)"
    proof
      assume "word_sep ch \<and> (\<exists>post. s = w @ post \<and> (post = [] \<or> word_sep (hd post)))"
      then obtain post where "word_sep ch" "s = w @ post" "post = [] \<or> word_sep (hd post)"
        by blast
      then show ?thesis
        by (intro exI [of _ "[ch]"] exI [of _ post]) simp
    next
      assume "?R s"
      then obtain pre post where "s = pre @ w @ post" "pre \<noteq> []" "word_sep (last pre)" "post = [] \<or> word_sep (hd post)"
        by blast
      then show ?thesis
        by (intro exI [of _ "ch # pre"] exI [of _ post]) auto
    qed
  qed
  obtain e es where e: "elements s = e # es"
    by (cases "elements s") auto
  then have "w = e \<longleftrightarrow> (\<exists>post. s = w @ post \<and> (post = [] \<or> word_sep (hd post)))"
    using first_element [OF w, of s] hd_elements [of s] by simp
  then show ?case
    using split Cons e by simp
qed auto

lemma word_in_split:
  "word_in s w p \<longleftrightarrow>
     (\<exists>pre post. s = pre @ w @ post \<and> length pre = p \<and> (pre = [] \<or> word_sep (last pre)) \<and> (post = [] \<or> word_sep (hd post)))"
proof
  assume "word_in s w p"
  then obtain post where p: "p \<le> length s" "drop p s = w @ post" "word_at s w p"
    by (auto simp: word_in_def prefix_def)
  then have s: "s = take p s @ w @ post"
    by (metis append_take_drop_id)
  moreover have "take p s = [] \<or> word_sep (last (take p s))"
    using p(1,3) by (cases p) (auto simp: word_at_def take_Suc_conv_app_nth)
  moreover have "post = [] \<or> word_sep (hd post)"
  proof (cases post)
    case (Cons ch r)
    then have "s ! (p + length w) = ch" "p + length w \<noteq> length s"
      using s p(1) by (metis append_assoc length_append length_take min.absorb2 nth_append_length,
        metis add_left_cancel length_0_conv length_append length_take list.distinct(1) min.absorb2 append_Nil2 add.assoc add_0_right)
    then show ?thesis
      using p(3) Cons by (simp add: word_at_def Let_def)
  qed simp
  ultimately show "\<exists>pre post. s = pre @ w @ post \<and> length pre = p \<and> (pre = [] \<or> word_sep (last pre)) \<and> (post = [] \<or> word_sep (hd post))"
    using p(1) by (intro exI [of _ "take p s"] exI [of _ post]) auto
next
  assume "\<exists>pre post. s = pre @ w @ post \<and> length pre = p \<and> (pre = [] \<or> word_sep (last pre)) \<and> (post = [] \<or> word_sep (hd post))"
  then obtain pre post where p: "s = pre @ w @ post" "length pre = p" "pre = [] \<or> word_sep (last pre)" "post = [] \<or> word_sep (hd post)"
    by blast
  have "p = 0 \<or> word_sep (s ! (p - 1))"
    using p by (cases pre rule: rev_cases) (auto simp: nth_append)
  moreover have "p + length w = length s \<or> word_sep (s ! (p + length w))"
    using p by (cases post) (auto simp: nth_append)
  ultimately show "word_in s w p"
    using p by (simp add: word_in_def word_at_def)
qed

lemma word_in_element:
  assumes "\<forall>ch \<in> set w. \<not> word_sep ch"
  shows "(\<exists>p. word_in s w p) \<longleftrightarrow> w \<in> set (elements s)"
proof -
  obtain e es where e: "elements s = e # es"
    by (cases "elements s") auto
  have "w \<in> set (elements s) \<longleftrightarrow> w = takeWhile (\<lambda>ch. \<not> word_sep ch) s \<or> w \<in> set (tl (elements s))"
    using hd_elements [of s] e by simp
  then show ?thesis
    unfolding word_in_split first_element [OF assms, symmetric] later_element [OF assms]
    by (metis append_Nil length_0_conv)
qed

lemma find_word_element:
  assumes "w \<noteq> []" and "\<forall>ch \<in> set w. \<not> word_sep ch"
  shows "find_word buffer w = Some (if w \<in> set (elements buffer) then 1 else 0)"
  using find_word_loop_spec [OF assms(1), of 0 buffer] word_in_element [OF assms(2), of buffer]
  by (simp add: find_word_def)

text \<open>The empty word runs behind the end of a buffer that does not end with a separator.\<close>

lemma find_word_empty_overrun: "find_word ''br0'' [] = None"
  by (simp add: find_word_def find_word_loop.simps word_at_def word_sep_def)

section \<open>Ethernet addresses\<close>

definition ETHER_ADDR_LEN :: nat where "ETHER_ADDR_LEN = 6"

definition hex_digit :: "char \<Rightarrow> nat option" where
  "hex_digit ch =
     (let n = (of_char ch :: nat) in
      if 48 \<le> n \<and> n \<le> 57 then Some (n - 48)
      else if 65 \<le> n \<and> n \<le> 70 then Some (n - 55)
      else if 97 \<le> n \<and> n \<le> 102 then Some (n - 87) else None)"

fun hex_value :: "nat \<Rightarrow> string \<Rightarrow> nat \<times> string" where
  "hex_value acc [] = (acc, [])"
| "hex_value acc (ch # s) =
     (case hex_digit ch of None \<Rightarrow> (acc, ch # s) | Some d \<Rightarrow> hex_value (16 * acc + d) s)"

text \<open>
  \<^verbatim>\<open>strtoul(c, &c, 16)\<close>: white space, a sign, \<^verbatim>\<open>0x\<close> before a digit, digits; the value and where the text goes on, which is
  the start when there is no digit.  A \<^verbatim>\<open>long\<close> has 32 bits, and larger values saturate.
\<close>

definition strip_sign :: "string \<Rightarrow> bool \<times> string" where
  "strip_sign s = (case s of [] \<Rightarrow> (False, s) | ch # r \<Rightarrow> if ch = CHR ''-'' then (True, r) else if ch = CHR ''+'' then (False, r) else (False, s))"

definition strip_0x :: "string \<Rightarrow> string" where
  "strip_0x s =
     (case s of
        z # x # ch # r \<Rightarrow> if z = CHR ''0'' \<and> (x = CHR ''x'' \<or> x = CHR ''X'') \<and> hex_digit ch \<noteq> None then ch # r else s
      | _ \<Rightarrow> s)"

definition strtoul16 :: "string \<Rightarrow> 32 word \<times> string" where
  "strtoul16 s =
     (let (neg, t) = strip_sign (dropWhile is_space s); t = strip_0x t; (n, r) = hex_value 0 t
      in if r = t then (0, s)
         else if 2 ^ 32 \<le> n then (-1, r)
         else (if neg then - word_of_nat n else word_of_nat n, r))"

text \<open>The loop stores at most \<open>n\<close> more bytes; it stops behind the last one or at the end of the text.\<close>

fun atoe_loop :: "nat \<Rightarrow> string \<Rightarrow> 8 word list" where
  "atoe_loop 0 s = []"
| "atoe_loop (Suc n) s =
     (let (v, r) = strtoul16 s in ucast v # (case r of [] \<Rightarrow> [] | ch # r \<Rightarrow> atoe_loop n r))"

text \<open>The result, and the address that starts as zeros.\<close>

definition ether_atoe :: "string \<Rightarrow> bool \<times> 8 word list" where
  "ether_atoe a =
     (let e = atoe_loop ETHER_ADDR_LEN a
      in (length e = ETHER_ADDR_LEN, e @ replicate (ETHER_ADDR_LEN - length e) 0))"

definition hex_upper :: "nat \<Rightarrow> char" where
  "hex_upper n = (if n < 10 then char_of (48 + n) else char_of (55 + n))"

text \<open>The conversion \<^verbatim>\<open>%02X\<close> of a byte.\<close>

definition hex2 :: "8 word \<Rightarrow> string" where
  "hex2 b = [hex_upper (unat b div 16), hex_upper (unat b mod 16)]"

fun etoa_loop :: "8 word list \<Rightarrow> string" where
  "etoa_loop [] = []"
| "etoa_loop (b # e) = CHR '':'' # hex2 b @ etoa_loop e"

definition ether_etoa :: "8 word list \<Rightarrow> string" where
  "ether_etoa e = (case take ETHER_ADDR_LEN e of [] \<Rightarrow> [] | b # r \<Rightarrow> hex2 b @ etoa_loop r)"

lemma hex_digit_char: "n < 16 \<Longrightarrow> hex_digit (hex_upper n) = Some n"
  by (simp add: hex_digit_def hex_upper_def of_char_of)

lemma hex_upper_plain: "n < 16 \<Longrightarrow> \<not> is_space (hex_upper n) \<and> hex_upper n \<noteq> CHR ''-'' \<and> hex_upper n \<noteq> CHR ''+'' \<and>
    hex_upper n \<noteq> CHR ''x'' \<and> hex_upper n \<noteq> CHR ''X''"
proof -
  assume "n < 16"
  then have d: "hex_digit (hex_upper n) = Some n"
    by (rule hex_digit_char)
  then have "\<not> is_space (hex_upper n)"
    by (auto simp: hex_digit_def is_space_def Let_def split: if_splits)
  moreover have "hex_digit CHR ''-'' = None" "hex_digit CHR ''+'' = None" "hex_digit CHR ''x'' = None" "hex_digit CHR ''X'' = None"
    by (simp_all add: hex_digit_def)
  ultimately show ?thesis
    using d by auto
qed

lemma strtoul16_hex2:
  assumes "r = [] \<or> (\<exists>t. r = CHR '':'' # t)"
  shows "strtoul16 (hex2 b @ r) = (ucast b, r)"
proof -
  let ?h = "unat b div 16" and ?l = "unat b mod 16"
  have byte: "unat b < 256"
    using unsigned_less [of b] by simp
  then have lt: "?h < 16" "?l < 16"
    by (simp_all add: less_mult_imp_div_less)
  have "hex_value n r = (n, r)" for n
    using assms by (auto simp: hex_digit_def)
  then have hv: "hex_value 0 (hex2 b @ r) = (unat b, r)"
    using lt by (simp add: hex2_def hex_digit_char mult.commute)
  have "strip_0x (hex2 b @ r) = hex2 b @ r"
    using hex_upper_plain [OF lt(2)] by (simp add: strip_0x_def hex2_def split: list.split)
  moreover have "strip_sign (dropWhile is_space (hex2 b @ r)) = (False, hex2 b @ r)"
    using hex_upper_plain [OF lt(1)] by (simp add: strip_sign_def hex2_def)
  moreover have "unat b < 2 ^ 32"
    using byte by simp
  moreover have "(word_of_nat (unat b) :: 32 word) = ucast b"
    by simp
  moreover have "r \<noteq> hex2 b @ r"
    by (simp add: hex2_def)
  ultimately show ?thesis
    using hv by (simp add: strtoul16_def)
qed

lemma byte_back: "ucast (ucast (b :: 8 word) :: 32 word) = b"
  by (rule bit_word_eqI) (simp add: bit_simps)

lemma atoe_etoa_loop:
  "length e = n \<Longrightarrow> atoe_loop (Suc n) (hex2 b @ etoa_loop e) = b # e"
proof (induction e arbitrary: n b)
  case Nil
  then show ?case
    using strtoul16_hex2 [of "[]" b] by (simp add: byte_back)
next
  case (Cons d e)
  then obtain m where m: "n = Suc m" "length e = m"
    by auto
  then show ?case
    using Cons.IH [OF m(2), of d] strtoul16_hex2 [of "etoa_loop (d # e)" b] by (simp add: byte_back)
qed

lemma ether_atoe_etoa: "length e = ETHER_ADDR_LEN \<Longrightarrow> ether_atoe (ether_etoa e) = (True, e)"
proof -
  assume len: "length e = ETHER_ADDR_LEN"
  then obtain b r where e: "e = b # r" "length r = 5"
    by (cases e) (auto simp: ETHER_ADDR_LEN_def)
  then have "atoe_loop (Suc 5) (hex2 b @ etoa_loop r) = b # r"
    by (intro atoe_etoa_loop) simp
  moreover have "ether_etoa e = hex2 b @ etoa_loop r"
    using e by (simp add: ether_etoa_def ETHER_ADDR_LEN_def)
  ultimately show ?thesis
    using e by (simp add: ether_atoe_def ETHER_ADDR_LEN_def eval_nat_numeral)
qed

end
