(* ===== verification/Util_File.thy ===== *)
theory Util_File
  imports Prelude
begin

text \<open>
  Reading and writing files in the shared library: \<^verbatim>\<open>files.c\<close>, the readers of \<^verbatim>\<open>shutils.c\<close> and the process table of
  \<^verbatim>\<open>process.c\<close>, under \<^verbatim>\<open>src/package/ezp-nvram/src\<close>.
\<close>

unbundle bit_operations_syntax

section \<open>Files\<close>

datatype node = Regular string | Directory

text \<open>
  What the functions see of the file system: \<open>disk_left\<close> is the number of bytes that still fit, \<open>dir_size\<close> the size that
  \<^verbatim>\<open>stat\<close> reports for a directory.
\<close>

record fsys =
  nodes :: "string \<Rightarrow> node option"
  readable :: "string \<Rightarrow> bool"
  writable :: "string \<Rightarrow> bool"
  disk_left :: nat
  dir_size :: nat

definition FW_APPEND :: int where "FW_APPEND = 1"
definition FW_NEWLINE :: int where "FW_NEWLINE = 2"

definition f_exists :: "string \<Rightarrow> fsys \<Rightarrow> bool" where
  "f_exists path fs = (case nodes fs path of Some (Regular s) \<Rightarrow> True | _ \<Rightarrow> False)"

text \<open>\<^term>\<open>None\<close> is the error value.\<close>

definition f_size :: "string \<Rightarrow> fsys \<Rightarrow> nat option" where
  "f_size path fs = (case nodes fs path of None \<Rightarrow> None | Some (Regular s) \<Rightarrow> Some (length s) | Some Directory \<Rightarrow> Some (dir_size fs))"

text \<open>The bytes that \<^verbatim>\<open>read\<close> delivers, or an error; the size of the buffer is \<open>lim\<close>, which must not be negative.\<close>

definition f_read :: "string \<Rightarrow> int \<Rightarrow> fsys \<Rightarrow> (int \<times> string) c" where
  "f_read path lim fs =
     (case nodes fs path of
        Some (Regular s) \<Rightarrow>
          if \<not> readable fs path then Some (-1, [])
          else if lim < 0 then None
          else Some (int (length (take (nat lim) s)), take (nat lim) s)
      | _ \<Rightarrow> Some (-1, []))"

text \<open>The buffer is \<^term>\<open>None\<close> when it is not written.\<close>

definition f_read_string :: "string \<Rightarrow> int \<Rightarrow> fsys \<Rightarrow> (int \<times> string option) c" where
  "f_read_string path lim fs =
     (if lim \<le> 0 then Some (-1, None)
      else do {
        (n, s) \<leftarrow> f_read path (lim - 1) fs;
        Some (n, Some (if 0 < n then s else [])) })"

text \<open>\<^verbatim>\<open>write\<close> at the end of the file: short when the disk is full.\<close>

definition append_file :: "string \<Rightarrow> string \<Rightarrow> fsys \<Rightarrow> int \<times> fsys" where
  "append_file path s fs =
     (let old = (case nodes fs path of Some (Regular x) \<Rightarrow> x | _ \<Rightarrow> []);
          w = take (disk_left fs) s
      in if s \<noteq> [] \<and> w = [] then (-1, fs)
         else (int (length w), fs\<lparr>nodes := (nodes fs)(path \<mapsto> Regular (old @ w)), disk_left := disk_left fs - length w\<rparr>))"

definition f_write :: "string \<Rightarrow> string option \<Rightarrow> int \<Rightarrow> fsys \<Rightarrow> int \<times> fsys" where
  "f_write path buffer fl fs =
     (if \<not> writable fs path \<or> nodes fs path = Some Directory then (-1, fs)
      else let fs = (if fl AND FW_APPEND \<noteq> 0 \<and> nodes fs path \<noteq> None then fs
                     else fs\<lparr>nodes := (nodes fs)(path \<mapsto> Regular [])\<rparr>);
               (r, fs) = (case buffer of None \<Rightarrow> (-1, fs) | Some s \<Rightarrow> append_file path s fs)
           in if buffer = None \<or> r = int (length (the buffer)) then
                if fl AND FW_NEWLINE \<noteq> 0 then
                  let (q, fs) = append_file path [CHR 0x0A] fs in (if q = 1 then r + 1 else r, fs)
                else (r, fs)
              else (r, fs))"

definition f_write_string :: "string \<Rightarrow> string \<Rightarrow> int \<Rightarrow> fsys \<Rightarrow> int \<times> fsys" where
  "f_write_string path s fl fs = f_write path (Some s) fl fs"

text \<open>
  When the file cannot be read after all, \<^verbatim>\<open>free(buffer)\<close> frees a variable of the caller.  The buffer that is returned is
  \<^term>\<open>None\<close> for a null pointer.
\<close>

definition read_alloc :: "string \<Rightarrow> int \<Rightarrow> bool \<Rightarrow> fsys \<Rightarrow> (int \<times> string option) c" where
  "read_alloc path lim z fs =
     (if lim < 0 then Some (-1, None)
      else case f_size path fs of
             None \<Rightarrow> Some (-1, None)
           | Some n \<Rightarrow>
               let lim = (if int n < lim then int n else lim) in
               if \<not> z \<and> lim = 0 then Some (0, None)
               else do {
                 (r, s) \<leftarrow> f_read path lim fs;
                 if 0 \<le> r then Some (r, Some s) else None })"

definition f_read_alloc :: "string \<Rightarrow> int \<Rightarrow> fsys \<Rightarrow> (int \<times> string option) c" where
  "f_read_alloc path lim fs = read_alloc path lim False fs"

definition f_read_alloc_string :: "string \<Rightarrow> int \<Rightarrow> fsys \<Rightarrow> (int \<times> string option) c" where
  "f_read_alloc_string path lim fs = read_alloc path lim True fs"

section \<open>Reading a descriptor to its end\<close>

text \<open>
  The results of \<^verbatim>\<open>read\<close> with 512 bytes, and what \<^verbatim>\<open>fd2str\<close> makes of them.  \<^verbatim>\<open>n\<close> is unsigned, so an error is not noticed:
  the length becomes one less, and the terminator goes there.
\<close>

datatype fd_result = Read_Error | Data string

fun fd2str_loop :: "fd_result list \<Rightarrow> string \<Rightarrow> string c" where
  "fd2str_loop [] buf = Some buf"
| "fd2str_loop (Data s # rs) buf = (if length s = 512 then fd2str_loop rs (buf @ s) else Some (buf @ s))"
| "fd2str_loop (Read_Error # rs) buf = (if buf = [] then None else Some (butlast buf))"

definition fd2str :: "fd_result list \<Rightarrow> string c" where
  "fd2str rs = fd2str_loop rs []"

text \<open>The reads of a regular file.\<close>

function file_reads :: "string \<Rightarrow> fd_result list" where
  "file_reads s = (if length s < 512 then [Data s] else Data (take 512 s) # file_reads (drop 512 s))"
  by pat_completeness auto
termination
  by (relation "measure length") auto

declare file_reads.simps [simp del]

definition file2str :: "string \<Rightarrow> fsys \<Rightarrow> string option c" where
  "file2str path fs =
     (case nodes fs path of
        Some (Regular s) \<Rightarrow> if readable fs path then map_option Some (fd2str (file_reads s)) else Some None
      | Some Directory \<Rightarrow> if readable fs path then map_option Some (fd2str [Read_Error]) else Some None
      | None \<Rightarrow> Some None)"

text \<open>
  \<^verbatim>\<open>safe_fread\<close> and \<^verbatim>\<open>safe_fwrite\<close>: each result of the library function is the number of items and whether it was
  interrupted by a signal.
\<close>

fun safe_io :: "(nat \<times> bool) list \<Rightarrow> nat \<Rightarrow> nat \<Rightarrow> nat" where
  "safe_io [] nmemb ret = ret"
| "safe_io ((k, eintr) # rs) nmemb ret =
     (let ret = ret + min k (nmemb - ret) in if ret < nmemb \<and> eintr then safe_io rs nmemb ret else ret)"

definition safe_fread :: "(nat \<times> bool) list \<Rightarrow> nat \<Rightarrow> nat" where
  "safe_fread rs nmemb = safe_io rs nmemb 0"

definition safe_fwrite :: "(nat \<times> bool) list \<Rightarrow> nat \<Rightarrow> nat" where
  "safe_fwrite rs nmemb = safe_io rs nmemb 0"

section \<open>Processes\<close>

definition stat_path :: "int \<Rightarrow> string" where
  "stat_path pid = ''/proc/'' @ int_to_dec pid @ ''/stat''"

text \<open>The text in front of the last \<^verbatim>\<open>)\<close> and behind the first \<^verbatim>\<open>(\<close>, as \<^verbatim>\<open>strrchr\<close> and \<^verbatim>\<open>strchr\<close> find them.\<close>

definition before_last :: "char \<Rightarrow> string \<Rightarrow> string option" where
  "before_last ch s = (if ch \<in> set s then Some (rev (tl (dropWhile (\<lambda>x. x \<noteq> ch) (rev s)))) else None)"

definition after_first :: "char \<Rightarrow> string \<Rightarrow> string option" where
  "after_first ch s = (if ch \<in> set s then Some (tl (dropWhile (\<lambda>x. x \<noteq> ch) s)) else None)"

definition psname :: "int \<Rightarrow> int \<Rightarrow> fsys \<Rightarrow> string option c" where
  "psname pid maxlen fs =
     (if maxlen \<le> 0 then Some None
      else do {
        (n, buf) \<leftarrow> f_read_string (stat_path pid) 512 fs;
        Some (Some
          (case buf of
             None \<Rightarrow> []
           | Some buf \<Rightarrow>
               if n \<le> 4 then []
               else case before_last (CHR '')'') (c_string buf) of
                      None \<Rightarrow> []
                    | Some buf \<Rightarrow>
                        (case after_first (CHR ''('') buf of
                           None \<Rightarrow> []
                         | Some p \<Rightarrow> if atoi buf = pid then take (nat (maxlen - 1)) p else []))) })"

text \<open>\<^verbatim>\<open>strtol(s, &e, 10)\<close> with its end.\<close>

definition strtol10 :: "string \<Rightarrow> int \<times> string" where
  "strtol10 s =
     (let t = dropWhile is_space s;
          u = (case t of [] \<Rightarrow> t | ch # r \<Rightarrow> if ch = CHR ''-'' \<or> ch = CHR ''+'' then r else t)
      in if u = [] \<or> \<not> is_digit (hd u) then (0, s) else (atoi s, dropWhile is_digit u))"

text \<open>\<open>entries\<close> are the names in \<^verbatim>\<open>/proc\<close>, or nothing when it cannot be opened: then \<^verbatim>\<open>closedir\<close> gets a null pointer.\<close>

fun pids_loop :: "string \<Rightarrow> string list \<Rightarrow> fsys \<Rightarrow> int list c" where
  "pids_loop name [] fs = Some []"
| "pids_loop name (d # ds) fs =
     (let (i, e) = strtol10 d in
      if e \<noteq> [] then pids_loop name ds fs
      else do {
        s \<leftarrow> psname i 256 fs;
        r \<leftarrow> pids_loop name ds fs;
        Some (if s = Some name then i # r else r) })"

definition pids_of :: "string \<Rightarrow> string list option \<Rightarrow> fsys \<Rightarrow> int list c" where
  "pids_of name entries fs =
     (let name = (case after_first (CHR ''/'') name of None \<Rightarrow> name | Some p \<Rightarrow> p) in
      case entries of None \<Rightarrow> None | Some ds \<Rightarrow> pids_loop name ds fs)"

definition pidof :: "string \<Rightarrow> string list option \<Rightarrow> fsys \<Rightarrow> int c" where
  "pidof name entries fs = do {
     ps \<leftarrow> pids_of name entries fs;
     Some (case ps of [] \<Rightarrow> -1 | p # _ \<Rightarrow> p) }"

text \<open>\<open>kill\<close> is the result of sending the signal to a process; they are sent from the last one to the first.\<close>

definition killall :: "(int \<Rightarrow> int) \<Rightarrow> string \<Rightarrow> string list option \<Rightarrow> fsys \<Rightarrow> int c" where
  "killall kill name entries fs = do {
     ps \<leftarrow> pids_of name entries fs;
     Some (if ps = [] then -2 else foldl (\<lambda>r p. r OR kill p) 0 (rev ps)) }"

end
