(* ===== verification/Util_Props.thy ===== *)
theory Util_Props
  imports Util_Crc32 Util_Text Util_File
begin

text \<open>
  Properties of the helpers of the shared library.
\<close>

unbundle bit_operations_syntax

section \<open>Files\<close>

lemma append_file_ok:
  assumes "length s \<le> disk_left fs" and "nodes fs path = Some (Regular old)"
  shows "append_file path s fs =
    (int (length s), fs\<lparr>nodes := (nodes fs)(path \<mapsto> Regular (old @ s)), disk_left := disk_left fs - length s\<rparr>)"
  using assms by (simp add: append_file_def Let_def)

text \<open>What a file holds, and what it holds after a write.\<close>

definition file_text :: "string \<Rightarrow> fsys \<Rightarrow> string" where
  "file_text path fs = (case nodes fs path of Some (Regular s) \<Rightarrow> s | _ \<Rightarrow> [])"

definition written :: "string \<Rightarrow> string \<Rightarrow> int \<Rightarrow> fsys \<Rightarrow> string" where
  "written path s fl fs =
     (if fl AND FW_APPEND \<noteq> 0 then file_text path fs else []) @ s @ (if fl AND FW_NEWLINE \<noteq> 0 then [CHR 0x0A] else [])"

lemma f_write_ok:
  assumes w: "writable fs path" "nodes fs path \<noteq> Some Directory" and room: "length s + 1 \<le> disk_left fs"
  shows "\<exists>fs'. f_write path (Some s) fl fs = (int (length s) + (if fl AND FW_NEWLINE \<noteq> 0 then 1 else 0), fs') \<and>
    nodes fs' = (nodes fs)(path \<mapsto> Regular (written path s fl fs)) \<and> readable fs' = readable fs"
proof -
  let ?fs = "if fl AND FW_APPEND \<noteq> 0 \<and> nodes fs path \<noteq> None then fs else fs\<lparr>nodes := (nodes fs)(path \<mapsto> Regular [])\<rparr>"
  let ?old = "if fl AND FW_APPEND \<noteq> 0 then file_text path fs else []"
  have old: "nodes ?fs path = Some (Regular ?old)" "disk_left ?fs = disk_left fs"
    using w(2) by (auto simp: file_text_def split: option.splits node.splits)
  define f1 where "f1 = ?fs\<lparr>nodes := (nodes ?fs)(path \<mapsto> Regular (?old @ s)), disk_left := disk_left fs - length s\<rparr>"
  have a1: "append_file path s ?fs = (int (length s), f1)"
    using append_file_ok [of s ?fs path ?old] old room by (simp add: f1_def)
  have n1: "nodes f1 = (nodes fs)(path \<mapsto> Regular (?old @ s))" "disk_left f1 = disk_left fs - length s" "readable f1 = readable fs"
    by (auto simp: f1_def)
  have a2: "append_file path [CHR 0x0A] f1 =
      (1, f1\<lparr>nodes := (nodes f1)(path \<mapsto> Regular ((?old @ s) @ [CHR 0x0A])), disk_left := disk_left f1 - 1\<rparr>)"
    using append_file_ok [of "[CHR 0x0A]" f1 path "?old @ s"] room n1 by simp
  show ?thesis
  proof (cases "fl AND FW_NEWLINE \<noteq> 0")
    case True
    then show ?thesis
      using w a1 a2 n1 by (auto simp: f_write_def Let_def written_def)
  next
    case False
    then show ?thesis
      using w a1 n1 by (auto simp: f_write_def Let_def written_def)
  qed
qed

text \<open>C34. A text that was written with \<^verbatim>\<open>f_write_string\<close>, over a file or at its end, with a newline or without, is read back
  by \<^verbatim>\<open>f_read_alloc_string\<close>, and the result of writing is the number of its characters.\<close>

theorem write_read_back:
  assumes "writable fs path" and "readable fs path" and "nodes fs path \<noteq> Some Directory"
    and "length s + 1 \<le> disk_left fs" and "int (length (written path s fl fs)) \<le> lim"
  shows "\<exists>fs'. f_write_string path s fl fs = (int (length s) + (if fl AND FW_NEWLINE \<noteq> 0 then 1 else 0), fs') \<and>
    f_read_alloc_string path lim fs' = Some (int (length (written path s fl fs)), Some (written path s fl fs)) \<and>
    (\<forall>p. p \<noteq> path \<longrightarrow> nodes fs' p = nodes fs p)"
proof -
  obtain fs' where fs': "f_write path (Some s) fl fs = (int (length s) + (if fl AND FW_NEWLINE \<noteq> 0 then 1 else 0), fs')"
      "nodes fs' = (nodes fs)(path \<mapsto> Regular (written path s fl fs))" "readable fs' = readable fs"
    using f_write_ok [OF assms(1,3,4)] by blast
  moreover have "f_read_alloc_string path lim fs' = Some (int (length (written path s fl fs)), Some (written path s fl fs))"
  proof -
    let ?n = "int (length (written path s fl fs))"
    have lim: "(if ?n < lim then ?n else lim) = ?n" "0 \<le> lim"
      using assms(5) by simp_all
    have "f_read path ?n fs' = Some (?n, written path s fl fs)"
      using fs'(2,3) assms(2) by (simp add: f_read_def)
    then show ?thesis
      using fs'(2) lim by (simp add: f_read_alloc_string_def read_alloc_def f_size_def Let_def)
  qed
  ultimately show ?thesis
    by (intro exI [of _ fs']) (simp add: f_write_string_def)
qed

definition demo_fsys :: fsys where
  "demo_fsys = \<lparr>nodes = Map.empty, readable = (\<lambda>p. True), writable = (\<lambda>p. True), disk_left = 9, dir_size = 4\<rparr>"

lemma write_read_back_witness:
  "\<exists>fs'. f_write_string ''/tmp/a'' ''on'' FW_NEWLINE demo_fsys = (3, fs') \<and>
    f_read_alloc_string ''/tmp/a'' 9 fs' = Some (3, Some (''on'' @ [CHR 0x0A]))"
proof -
  have v: "written ''/tmp/a'' ''on'' FW_NEWLINE demo_fsys = ''on'' @ [CHR 0x0A]"
    by (simp add: written_def FW_NEWLINE_def FW_APPEND_def)
  have n: "FW_NEWLINE AND FW_NEWLINE \<noteq> 0"
    by (simp add: FW_NEWLINE_def)
  have "\<exists>fs'. f_write_string ''/tmp/a'' ''on'' FW_NEWLINE demo_fsys =
      (int (length ''on'') + (if FW_NEWLINE AND FW_NEWLINE \<noteq> 0 then 1 else 0), fs') \<and>
      f_read_alloc_string ''/tmp/a'' 9 fs' = Some (int (length (written ''/tmp/a'' ''on'' FW_NEWLINE demo_fsys)),
        Some (written ''/tmp/a'' ''on'' FW_NEWLINE demo_fsys)) \<and> (\<forall>p. p \<noteq> ''/tmp/a'' \<longrightarrow> nodes fs' p = nodes demo_fsys p)"
    by (rule write_read_back) (simp_all add: demo_fsys_def v [unfolded demo_fsys_def])
  then show ?thesis
    using n v by auto
qed

section \<open>Reading a descriptor\<close>

lemma fd2str_loop_file: "fd2str_loop (file_reads s) buf = Some (buf @ s)"
proof (induction s arbitrary: buf rule: file_reads.induct)
  case (1 s)
  then show ?case
    by (subst file_reads.simps) simp
qed

text \<open>\<^verbatim>\<open>file2str\<close> delivers the text of a file; on a directory it writes in front of its buffer.\<close>

lemma file2str_text:
  "nodes fs path = Some (Regular s) \<Longrightarrow> readable fs path \<Longrightarrow> file2str path fs = Some (Some s)"
  by (simp add: file2str_def fd2str_def fd2str_loop_file)

lemma file2str_directory: "nodes fs path = Some Directory \<Longrightarrow> readable fs path \<Longrightarrow> file2str path fs = None"
  by (simp add: file2str_def fd2str_def)

text \<open>An error after the first bytes takes the last of them away.\<close>

lemma fd2str_error: "length a = 512 \<Longrightarrow> fd2str [Data a, Read_Error] = Some (butlast a)"
  by (auto simp: fd2str_def)

text \<open>Allocating a buffer for a directory frees a variable of the caller.\<close>

lemma read_alloc_directory:
  "nodes fs path = Some Directory \<Longrightarrow> 0 < lim \<Longrightarrow> 0 < dir_size fs \<Longrightarrow> f_read_alloc path lim fs = None"
  by (simp add: f_read_alloc_def read_alloc_def f_size_def f_read_def Let_def)

text \<open>Interrupted transfers are taken up again until all items are there.\<close>

lemma safe_io_complete:
  "\<forall>(k, i) \<in> set rs. i \<Longrightarrow> ret \<le> n \<Longrightarrow> n \<le> ret + sum_list (map fst rs) \<Longrightarrow> safe_io rs n ret = n"
proof (induction rs n ret rule: safe_io.induct)
  case (2 k eintr rs nmemb ret)
  show ?case
  proof (cases "ret + min k (nmemb - ret) < nmemb")
    case True
    then have "min k (nmemb - ret) = k" "ret + k < nmemb"
      by (auto simp: min_def split: if_splits)
    then show ?thesis
      using 2 True by (simp add: Let_def)
  next
    case False
    then show ?thesis
      using 2 by (simp add: Let_def)
  qed
qed simp

section \<open>Processes\<close>

lemma before_last_app: "ch \<notin> set b \<Longrightarrow> before_last ch (a @ ch # b) = Some a"
proof -
  assume "ch \<notin> set b"
  then have "dropWhile (\<lambda>x. x \<noteq> ch) (rev b @ ch # rev a) = ch # rev a"
    by (subst dropWhile_append2) auto
  then show ?thesis
    by (simp add: before_last_def)
qed

lemma after_first_app: "ch \<notin> set a \<Longrightarrow> after_first ch (a @ ch # b) = Some b"
proof -
  assume "ch \<notin> set a"
  then have "dropWhile (\<lambda>x. x \<noteq> ch) (a @ ch # b) = ch # b"
    by (subst dropWhile_append2) auto
  then show ?thesis
    by (simp add: after_first_def)
qed

lemma atoi_nat_prefix:
  assumes "n < 2147483648" and "x = [] \<or> \<not> is_digit (hd x)"
  shows "atoi (nat_to_dec n @ x) = int n"
proof -
  obtain c cs where n: "nat_to_dec n = c # cs"
    by (cases "nat_to_dec n") auto
  have c: "is_digit c" "\<not> is_space c" "c \<noteq> CHR ''-''" "c \<noteq> CHR ''+''"
    using nat_to_dec_digits [of n] n is_digit_not_space is_digit_not_sign by auto
  have "dec_value m x = m" for m
    using assms(2) by (cases x) auto
  then have "dec_value 0 (nat_to_dec n @ x) = n"
    by (simp add: dec_value_digits nat_to_dec_digits dec_value_nat_to_dec)
  then have "atoi (nat_to_dec n @ x) = clamp_int (int n)"
    using n c by (simp add: atoi_def)
  then show ?thesis
    using assms(1) by (simp add: clamp_int_def)
qed

text \<open>\<^verbatim>\<open>psname\<close> reads the name of a process from the line of the kernel, \<^verbatim>\<open>pid (name) state\<close>, whatever characters the
  name has, parentheses and spaces included, and cuts it to the size of the caller's buffer.\<close>

theorem psname_reads:
  assumes st: "nodes fs (stat_path (int n)) = Some (Regular (nat_to_dec n @ '' ('' @ name @ '')'' @ state))"
    and rd: "readable fs (stat_path (int n))"
    and len: "length (nat_to_dec n @ '' ('' @ name @ '')'' @ state) < 512"
    and ok: "n < 2147483648" "CHR '')'' \<notin> set state" "CHR 0x00 \<notin> set (name @ state)" "0 < size_of_buf" "state \<noteq> []"
  shows "psname (int n) size_of_buf fs = Some (Some (take (nat (size_of_buf - 1)) name))"
proof -
  let ?l = "nat_to_dec n @ '' ('' @ name @ '')'' @ state"
  have dig: "ch \<notin> set (nat_to_dec n)" if "\<not> is_digit ch" for ch
    using nat_to_dec_digits [of n] that by auto
  have "\<not> is_digit CHR 0x00" "\<not> is_digit CHR ''(''" "\<not> is_digit CHR '' ''"
    by (simp_all add: is_digit_def)
  note dig' = this [THEN dig] and sp = this(3)
  have cs: "c_string ?l = ?l"
    using dig'(1) ok(3) by (intro c_string_id) auto
  have rs: "f_read_string (stat_path (int n)) 512 fs = Some (int (length ?l), Some ?l)"
    using st rd len by (simp add: f_read_string_def f_read_def)
  have "1 \<le> length (nat_to_dec n)" "1 \<le> length state"
    using ok(5) by (simp_all add: Suc_le_eq)
  then have long: "\<not> int (length ?l) \<le> 4"
    by simp
  have "before_last (CHR '')'') ((nat_to_dec n @ '' ('' @ name) @ CHR '')'' # state) = Some (nat_to_dec n @ '' ('' @ name)"
    using ok(2) by (rule before_last_app)
  then have b: "before_last (CHR '')'') ?l = Some (nat_to_dec n @ '' ('' @ name)"
    by simp
  have "after_first (CHR ''('') ((nat_to_dec n @ '' '') @ CHR ''('' # name) = Some name"
    using dig'(2) by (intro after_first_app) simp
  then have a: "after_first (CHR ''('') (nat_to_dec n @ '' ('' @ name) = Some name"
    by simp
  have "atoi (nat_to_dec n @ '' ('' @ name) = int n"
    using ok(1) sp by (intro atoi_nat_prefix) simp_all
  then show ?thesis
    using ok(4) rs cs long b a by (simp add: psname_def)
qed

lemma psname_reads_witness:
  "psname 7 256 (demo_fsys\<lparr>nodes := [stat_path 7 \<mapsto> Regular ''7 (a) b) S 1'']\<rparr>) = Some (Some ''a) b'')"
proof -
  have d: "nat_to_dec 7 = ''7''"
    by code_simp
  have "psname (int 7) 256 (demo_fsys\<lparr>nodes := [stat_path 7 \<mapsto> Regular ''7 (a) b) S 1'']\<rparr>) =
      Some (Some (take (nat (256 - 1)) ''a) b''))"
    by (rule psname_reads [where state = "'' S 1''"]) (simp_all add: d demo_fsys_def)
  then show ?thesis
    by simp
qed

section \<open>Checksums, words and addresses\<close>

text \<open>C32. The table-driven checksum in blocks of eight bytes is the bit-by-bit division by the polynomial 0x04c11db7 in
  reversed order, from the first call on, and the checksum of a text may be computed in pieces.\<close>

theorem crc32_is_division:
  assumes "crc_ready v"
  shows "fst (crc32 crc buf v) = crc32_bitwise crc buf \<and>
    fst (crc32 (fst (crc32 crc buf v)) buf2 (snd (crc32 crc buf v))) = crc32_bitwise crc (buf @ buf2)"
  using crc32_eq [OF assms, of crc buf] crc32_eq [of "snd (crc32 crc buf v)" "fst (crc32 crc buf v)" buf2]
  by (simp add: crc32_bitwise_append)

lemma crc32_is_division_witness:
  "fst (crc32 0 ''a'' \<lparr>crc_table = [], crc_table_empty = True\<rparr>) = crc32_bitwise 0 ''a''"
proof -
  have "crc_ready \<lparr>crc_table = [], crc_table_empty = True\<rparr>"
    by (simp add: crc_ready_def)
  from crc32_is_division [OF this, of 0 "''a''" "[]"] show ?thesis
    by (rule conjunct1)
qed

text \<open>C33. \<^verbatim>\<open>find_word\<close> says whether a word is an element of a list whose elements are separated by blanks or commas.\<close>

theorem find_word_spec:
  assumes "word \<noteq> []" and "\<forall>ch \<in> set word. \<not> word_sep ch"
  shows "find_word buffer word = Some (if word \<in> set (elements buffer) then 1 else 0)"
  using assms by (rule find_word_element)

lemma find_word_spec_witness: "find_word ''vlan1,br0 br1'' ''br1'' = Some 1"
proof -
  have "find_word ''vlan1,br0 br1'' ''br1'' = Some (if ''br1'' \<in> set (elements ''vlan1,br0 br1'') then 1 else 0)"
    by (rule find_word_spec) (simp_all add: word_sep_def)
  then show ?thesis
    by (simp add: word_sep_def)
qed

text \<open>C35. \<^verbatim>\<open>ether_atoe\<close> reads back the address that \<^verbatim>\<open>ether_etoa\<close> wrote, and reports success.\<close>

theorem ether_roundtrip:
  assumes "length e = ETHER_ADDR_LEN"
  shows "ether_atoe (ether_etoa e) = (True, e)"
  using assms by (rule ether_atoe_etoa)

lemma ether_roundtrip_witness: "ether_atoe (ether_etoa [0x00, 0x1E, 0xC0, 0xFF, 0x07, 0xA9]) = (True, [0x00, 0x1E, 0xC0, 0xFF, 0x07, 0xA9])"
  by (rule ether_roundtrip) (simp add: ETHER_ADDR_LEN_def)

end
