(* ===== verification/Spec2Isabelle.thy ===== *)
theory Spec2Isabelle
  imports Rule_Props Flash_Props Boot_Props Fw_Props Simulation_Props Export_Props Cli_Props Crc_Props Default_Props Timer_Props Spin_Props Util_Props
begin

text \<open>
  \<^bold>\<open>The configuration store of the firmware\<close>

  The firmware keeps its whole configuration in named variables (NVRAM).  A kernel driver holds them in a
  hash table and a buffer that user space maps, and commits them to a flash partition and its backup.  A
  user library reads and writes variables through the device node, guards writes with the option bits of a
  table of default values, and fills in the defaults at boot.  On top of it, a rule library treats a
  variable as a list of rules separated by \<^verbatim>\<open>|\<close>, each a list of attributes separated by \<^verbatim>\<open>^\<close>, whose names come
  from static tables.  Every other program of the firmware (web server, shell, scripts) goes through these
  libraries.

  \<^bold>\<open>Parts and theories\<close> (file names under \<^verbatim>\<open>src/package/ezp-nvram/src\<close> unless they say otherwise;
  \<^verbatim>\<open>nvram_cfg\<close> is \<^verbatim>\<open>src/target/linux/generic-2.6/files-2.6.26/drivers/char/nvram_cfg\<close>)

  \<^item> \<open>Prelude\<close>: the C library functions the code uses (\<^verbatim>\<open>snprintf\<close>, \<^verbatim>\<open>atoi\<close>, \<^verbatim>\<open>strsep\<close> as \<open>split_on\<close>, \<^verbatim>\<open>fgets\<close>),
    strings as lists of characters, and \<open>'a c\<close>, the type of computations that may be undefined in C: \<^term>\<open>None\<close>
    stands for a run that reads or writes outside an object, uses an unassigned variable or reads a
    format directive without an argument.
  \<^item> \<open>Build_Config\<close>: the preprocessor symbols of the build (\<^verbatim>\<open>#ifdef\<close>) as a record, with the texts of the macros of the
    product headers.
  \<^item> \<open>Base64\<close>: \<^verbatim>\<open>base64.c\<close>.  \<open>Attr_Show\<close>: the functions of \<^verbatim>\<open>ezp-lib.c\<close> that print an attribute for the web or the
    shell.  \<open>Rule_Tables\<close> and \<open>Rule_Facts\<close>: its 161 attribute tables and the table of rule sets, with the
    guards of the preprocessor, and what holds of all of them.
  \<^item> \<open>Device\<close>: what the library sees of the device, as the record \<open>env\<close> of operations on an abstract state and
    the locale \<open>nvram_device\<close>, whose laws say what reads and writes do to the map from names to values.  The
    record \<open>world\<close> is the rest of the state the library works on: the device, the table of defaults, the
    action file.  \<open>Nvram_User\<close>: the access functions of \<^verbatim>\<open>nvram_linux.c\<close>.  \<open>Nvram_Boot\<close>: the locale
    \<open>bounded_device\<close> (a device of known capacity) and the loops that write the whole table.
  \<^item> \<open>Ezp_Lib\<close>, \<open>Ezp_Attr\<close>: the rule functions of \<^verbatim>\<open>ezp-lib.c\<close>, first on rules, then on attributes.
  \<^item> \<open>Kernel_Hash\<close>, \<open>Kernel_Commit\<close>: \<^verbatim>\<open>nvram_cfg/nvram.c\<close> and \<^verbatim>\<open>ezutils.c\<close>, that is the hash table with its chains, the
    buffer with its allocation pointer, the image with its checksum, and reading an image back.
    \<open>Kernel_Device\<close>, \<open>Kernel_Flash\<close>: \<^verbatim>\<open>nvram_cfg/nvram_linux.c\<close>, that is the file operations, committing and
    initialisation over two partitions.  The MTD layer below is the parameter \<open>mtd_ops\<close>; \<open>mtd_works\<close> states its
    documented behaviour (a read gives the stored bytes, an erase sets the bytes of the blocks, a write
    after an erase stores its bytes).
    \<open>Crc_Facts\<close>: the checksum of the images bit by bit.
  \<^item> \<open>Fw_Base\<close> to \<open>Fw_Version\<close>: the migrations between firmware versions of \<^verbatim>\<open>nvram_linux.c\<close> and \<^verbatim>\<open>nvram_fw.h\<close>.  \<open>Fw_Migrate_1\<close>
    and \<open>Fw_Migrate_2\<close> hold the functions \<^verbatim>\<open>fw_func_*\<close>, \<open>Fw_Table\<close> the table of versions, \<open>Fw_Upgrade\<close> \<^verbatim>\<open>nvram_upgrade\<close>,
    \<^verbatim>\<open>nvram_downgrade\<close>, the special processing and \<^verbatim>\<open>get_ver\<close>.  \<open>Fw_Facts\<close>, \<open>Fw_Attr\<close>, \<open>Fw_Account\<close>, \<open>Fw_Special\<close> and \<open>Fw_Run\<close> say
    what they do to the variables.
  \<^item> \<open>Nvram_Export\<close>: \<^verbatim>\<open>nvram_export\<close> and \<^verbatim>\<open>nvram_import\<close>; \<open>Export_Facts\<close>: the exported text and what an import leaves.
  \<^item> \<open>Nvram_Cli\<close>: the \<^verbatim>\<open>nvram\<close> command, \<^verbatim>\<open>main.c\<close>, as a function from the arguments to the exit status, the two output
    streams and the new world; \<open>Cli_Facts\<close>: how it chooses an operation, and the listing of all variables.
  \<^item> \<open>Default_Table\<close>: the table of defaults of \<^verbatim>\<open>nvram_data.h\<close> with the headers of brands, product categories and
    architectures it includes, one definition for each part of it, as functions of the build.  \<open>Default_Names\<close> and
    \<open>Default_Facts\<close>: its names, and which of them a build may list twice; \<open>Default_Boot\<close> and \<open>Default_Texts\<close>: its option bits,
    texts and the order of the entries that copy another; \<open>Default_First\<close>: the first boot; \<open>Default_Rules\<close>: the default rule
    sets against the attribute tables; \<open>Default_Demo\<close>: a product for the witnesses.
  \<^item> \<open>Timer_Queue\<close>: the timers of the shared library, \<^verbatim>\<open>linux_timer.c\<close> and \<^verbatim>\<open>bcmtimer.h\<close>.  The record \<open>timers\<close> has the
    variables of the file, the events in an array whose indices are the pointers, and the interval timer and signal mask of the
    process; the callbacks are the parameter \<open>call\<close> of the signal handler.  \<open>Timer_Facts\<close>: the linked list as a list,
    and the insertion into it; \<open>Timer_Safe\<close>: well-formed timers; \<open>Timer_Calls\<close>, \<open>Timer_Cancel\<close>, \<open>Timer_Set\<close> and \<open>Timer_Alarm\<close>: what
    the operations and the handler do to them, and the contract for the client and its callbacks; \<open>Timer_Callbacks\<close>: the
    handler with two callbacks; \<open>Timer_Reach\<close>: the reachable states; \<open>Timer_Race\<close>: the signal during a cancellation, and times
    that cannot be rounded.
  \<^item> \<open>Spin_Lock\<close>: the semaphores and spin locks of \<^verbatim>\<open>semaphore.c\<close>, with the FIFOs, their names and the descriptors of the
    process in the record \<open>locks\<close>; \<open>Spin_Facts\<close>: a lock as a FIFO with a byte in it; \<open>Spin_Props\<close>: threads that use it.
  \<^item> \<open>Util_Crc32\<close>, \<open>Util_Text\<close>, \<open>Util_File\<close>: \<^verbatim>\<open>crc32.c\<close>, \<^verbatim>\<open>strings.c\<close>, the addresses and readers of \<^verbatim>\<open>shutils.c\<close>, \<^verbatim>\<open>files.c\<close> and
    \<^verbatim>\<open>process.c\<close>; the file system is the record \<open>fsys\<close>, the results of \<^verbatim>\<open>read\<close> on a descriptor are a list.
  \<^item> \<open>Simulation\<close>, \<open>Simulation_Rules\<close>, \<open>Simulation_Requests\<close>: the driver refines the plain map, one lemma for each
    operation of the library and one for sequences of requests.
  \<^item> \<open>Demo\<close>, \<open>Fw_Demo\<close>: concrete builds, partitions and worlds for the witnesses.  The theories whose names end in
    \<open>Props\<close>: the properties.

  \<^bold>\<open>How the parts are connected\<close>

  The lemmas on the library are proved in the locale \<open>nvram_device\<close>, once for every device that keeps the
  contract; \<open>bounded_device\<close> adds a capacity (\<open>Nvram_Boot\<close>) and \<open>committing_device\<close> that commits keep the variables
  (\<open>Nvram_Commit\<close>).  \<open>Device\<close> interprets them with the plain map (\<open>specdev\<close>), and \<open>Kernel_Device\<close> and \<open>Kernel_Flash\<close> with
  the driver (\<open>kern\<close>, \<open>kernb\<close> and \<open>kernc\<close>): \<open>kabs\<close> reads the map out of the hash table and the buffer, \<open>kinv\<close> is the
  invariant (chains of distinct names, each in its bucket, values inside the allocated part of the buffer),
  and \<open>kroom\<close> and \<open>kcap\<close> are the space conditions.  So the properties speak about the library, the migrations and
  the command running on the driver, with \<open>kern_env\<close> as the environment.

  \<^bold>\<open>What is shown\<close>

  \<^item> The driver: setting and removing variables, also when the buffer is full and is consolidated by a
    commit; the image written by a commit passes the validity check and reads back to the same variables;
    committing to the flash and starting again gives the same variables; a partition that is not valid is
    restored from the other one.
  \<^item> The library: a set variable reads back, no other variable changes, protected variables and unknown
    names are refused, no commit happens during an upgrade, booting keeps values and fills in defaults,
    restoring defaults keeps protected values.
  \<^item> The rules: the operations on rules and attributes are the operations on lists, for rule sets within
    the 8192-byte buffers of the library; truncation and index errors are described, and the two cases in
    which the code leaves its buffers are shown to do so.
  \<^item> The tables: every attribute table is well formed except five that lack their last entry.
  \<^item> The refinement: a client that sends requests to the library on the driver gets the answers of a plain map.
  \<^item> The migrations: an upgrade between the recent versions keeps all settings but the ones it is meant to
    change, or restores the defaults, and runs once; an encoded account reads back; an unknown version leaves the
    table.
  \<^item> Export and import: a saved file restores the settings on another device of the same product.
  \<^item> The command: setting, getting, listing and appending rules print what the library holds; abbreviations;
    the failure messages that have no defined outcome.
  \<^item> The checksum: the table is the polynomial division, and one changed byte is always found.
  \<^item> The table of defaults, in every build: its names are accepted by the device and, with two exceptions among the
    architectures, distinct; the defaults of the rule sets have the attributes of their tables; the first boot
    of a product leaves exactly this table in the driver.
  \<^item> The timers: in every state that a client under the contract can reach, the queue and the free list are disjoint lists
    without cycles, every call returns, and so does the signal handler, as long as the signal arrives between two calls;
    setting a timer inserts its deadline and moves no other, the handler serves all timers that are due at the same
    time, and a recurring timer goes back to its place.  Cancelling moves the deadlines of other timers, by the amounts
    stated; two calls outside the contract break the queue, and so does a signal that arrives during a cancellation.
  \<^item> The spin locks: threads exclude each other, and the lock is free when nobody holds it.
  \<^item> The helpers: the checksum is the polynomial division, a word is found exactly when it is an element of the list, addresses
    and files read back, and the name of a process is read whatever characters it has.
  \<^item> Base64: decoding inverts encoding, and the length of the output.

  \<^bold>\<open>Bounds\<close>

  The store is 32768 bytes (\<^verbatim>\<open>NVRAM_SPACE\<close>); an image has 20 bytes of header and two terminators, so its
  entries have \<open>IMAGE_ROOM\<close> = 32746 bytes.  Names shorter than 100 characters without \<^verbatim>\<open>=\<close> are good names: a longer
  one leaves the arrays of the library.  An upgrade from 3.0.0 on is
  considered up to 3.2.2, the last of the 67 entries of the version table; accounts have at most 189 characters, so
  that their encoding fits the 256 bytes of the migration.  An exported line has fewer than 4096 characters
  with its newline, because the import splits longer ones.  All loops are structural recursions or have a
  measure; there is no fuel.  The loops of the timers follow links that may be cyclic; they are partial functions into
  \<open>option\<close>, and the theorems on them show that they return.  The timers are considered with every granularity that
  divides a second, which the kernel reports to \<^verbatim>\<open>init_event_queue\<close>; time passes in multiples of it, and the contract asks
  for times that are multiples or that it can round below a second (with one microsecond these are all normalised times).

  \<^bold>\<open>What is not modelled\<close>

  The texts of the macros that the product headers (\<^verbatim>\<open>nvram_ezpacket.h\<close> and the headers of the architectures) define
  are a parameter of the build, so the theorems hold for every choice of them; the entries of the Broadcom
  header are not valid C and are left out.  The library takes the table of defaults from its state, so that
  its theorems hold for any table.  Messages on the console of the library and the driver, memory that runs out and the locking of
  the driver are left out: each operation of the driver is one step.  Running programs and the
  wireless ioctls of the shared library are left out too.  The web server, the interactive shell and
  the other programs of the firmware use the store through the functions above.
\<close>

end
